(* ===== verification/Prelude.thy ===== *)
theory Prelude
  imports Complex_Main "HOL-Library.Char_ord" "HOL-Library.List_Lexorder" "HOL-Library.Product_Lexorder"
begin

text \<open>
  Shared vocabulary of the development: identifiers and times, the error-or-value
  combinator, the part of the Python string library the backend uses, the reading of the
  SQL queries the repositories build (a table is the list of its rows), and the lemmas on
  them that the component theories share.

  Conventions. A UUID is its canonical lower-case text, so \<open>str(u)\<close> is the identity
  and \<open>str(a) != str(b)\<close> is disequality; the order PostgreSQL has on UUIDs is the
  lexicographic order of these texts. A time is a number of microseconds. A character is a
  code point below 256.
\<close>

named_theorems step_defs \<open>definitions of the operations a proof unfolds\<close>
named_theorems frame_simps \<open>what an operation leaves unchanged\<close>

type_synonym uuid = string
type_synonym timestamp = int

definition seconds :: "int \<Rightarrow> timestamp" where
  "seconds n = n * 1000000"

subsection \<open>Errors as values\<close>

definition sbind :: "'e + 'a \<Rightarrow> ('a \<Rightarrow> 'e + 'b) \<Rightarrow> 'e + 'b" where
  "sbind m f = (case m of Inl e \<Rightarrow> Inl e | Inr x \<Rightarrow> f x)"

lemma sbind_simps [simp]:
  "sbind (Inl e) f = Inl e"
  "sbind (Inr x) f = f x"
  by (simp_all add: sbind_def)

lemma sbind_Inr_iff: "sbind m f = Inr y \<longleftrightarrow> (\<exists>x. m = Inr x \<and> f x = Inr y)"
  by (cases m) auto

lemma sbind_Inl_iff: "sbind m f = Inl e \<longleftrightarrow> m = Inl e \<or> (\<exists>x. m = Inr x \<and> f x = Inl e)"
  by (cases m) auto

lemma sbind_cong [fundef_cong]:
  "m = m' \<Longrightarrow> (\<And>x. m' = Inr x \<Longrightarrow> f x = f' x) \<Longrightarrow> sbind m f = sbind m' f'"
  by (cases m') auto

text \<open>Inversion of a run that succeeded: every guard let it pass, every lookup found its row.\<close>

lemma case_option_Inr_iff:
  "(case m of None \<Rightarrow> Inl e | Some x \<Rightarrow> f x) = Inr y \<longleftrightarrow> (\<exists>x. m = Some x \<and> f x = Inr y)"
  by (cases m) auto

lemma if_Inl_Inr_iff: "(if b then Inl e else m) = Inr y \<longleftrightarrow> \<not> b \<and> m = Inr y"
  by auto

lemmas run_simps = sbind_Inr_iff case_option_Inr_iff if_Inl_Inr_iff Let_def

subsection \<open>Python strings\<close>

definition py_isspace :: "char \<Rightarrow> bool" where
  "py_isspace c =
     (let n = (of_char c :: nat)
      in (9 \<le> n \<and> n \<le> 13) \<or> (28 \<le> n \<and> n \<le> 32) \<or> n = 133 \<or> n = 160)"

definition py_strip :: "string \<Rightarrow> string" where
  "py_strip s = rev (dropWhile py_isspace (rev (dropWhile py_isspace s)))"

lemma py_strip_Nil [simp]: "py_strip [] = []"
  by (simp add: py_strip_def)

definition py_lower_char :: "char \<Rightarrow> char" where
  "py_lower_char c =
     (let n = (of_char c :: nat)
      in if (65 \<le> n \<and> n \<le> 90) \<or> (192 \<le> n \<and> n \<le> 222 \<and> n \<noteq> 215)
         then char_of (n + 32) else c)"

definition py_lower :: "string \<Rightarrow> string" where
  "py_lower s = map py_lower_char s"

text \<open>A text between single quotes, as the f-strings of the error messages put it.\<close>

definition quoted :: "string \<Rightarrow> string" where
  "quoted s = CHR 0x27 # s @ [CHR 0x27]"

text \<open>A Python string is falsy when it is empty, \<open>None\<close> is falsy too.\<close>

definition truthy :: "string option \<Rightarrow> bool" where
  "truthy s = (case s of None \<Rightarrow> False | Some t \<Rightarrow> t \<noteq> [])"

text \<open>\<open>data.get(key, default)\<close> on a dictionary with optional values.\<close>

definition dict_get :: "('k \<rightharpoonup> 'v) \<Rightarrow> 'k \<Rightarrow> 'v \<Rightarrow> 'v" where
  "dict_get d k v = (case d k of None \<Rightarrow> v | Some x \<Rightarrow> x)"

definition digit_char :: "nat \<Rightarrow> char" where
  "digit_char n = char_of (48 + n mod 10)"

fun nat_text :: "nat \<Rightarrow> string" where
  "nat_text n = (if n < 10 then [digit_char n] else nat_text (n div 10) @ [digit_char n])"

declare nat_text.simps [simp del]

lemma digit_char_range: "d \<in> set (nat_text n) \<Longrightarrow> (48::nat) \<le> of_char d \<and> of_char d \<le> (57::nat)"
proof (induction n rule: nat_text.induct)
  case (1 n)
  have dig: "(of_char (digit_char m) :: nat) = 48 + m mod 10" for m
    by (simp add: digit_char_def)
  show ?case
  proof (cases "n < 10")
    case True
    with "1.prems" dig [of n] show ?thesis by (subst (asm) nat_text.simps) simp
  next
    case False
    with "1.prems" have "d \<in> set (nat_text (n div 10)) \<or> d = digit_char n"
      by (subst (asm) nat_text.simps) auto
    then show ?thesis using "1.IH" [OF False] dig [of n] by auto
  qed
qed

lemma nat_text_no_colon: "CHR '':'' \<notin> set (nat_text n)"
  using digit_char_range by fastforce

lemma nat_text_nonempty: "nat_text n \<noteq> []"
  by (subst nat_text.simps) simp

lemma nat_text_inj: "nat_text m = nat_text n \<Longrightarrow> m = n"
proof (induction m arbitrary: n rule: nat_text.induct)
  case (1 m)
  have dc: "digit_char a = digit_char b \<longleftrightarrow> a mod 10 = b mod 10" for a b
  proof -
    have "digit_char a = digit_char b \<longleftrightarrow>
        (of_char (digit_char a) :: nat) = of_char (digit_char b)"
      by (metis of_char_eq_iff)
    then show ?thesis by (simp add: digit_char_def)
  qed
  have len1: "length (nat_text k) = 1 \<Longrightarrow> k < 10" for k
    by (rule ccontr) (simp add: nat_text.simps [of k] nat_text_nonempty)
  show ?case
  proof (cases "m < 10")
    case True
    then have m: "nat_text m = [digit_char m]" by (simp add: nat_text.simps)
    with "1.prems" have n10: "n < 10" by (intro len1) (metis One_nat_def length_Cons list.size(3))
    then have "nat_text n = [digit_char n]" by (simp add: nat_text.simps)
    with m "1.prems" have "digit_char m = digit_char n" by simp
    with True n10 show ?thesis using dc [of m n] by simp
  next
    case False
    then have m: "nat_text m = nat_text (m div 10) @ [digit_char m]" by (simp add: nat_text.simps)
    have "\<not> n < 10"
    proof
      assume "n < 10"
      then have "nat_text n = [digit_char n]" by (simp add: nat_text.simps)
      with m "1.prems" have "nat_text (m div 10) = []" by simp
      then show False by (simp add: nat_text_nonempty)
    qed
    then have n: "nat_text n = nat_text (n div 10) @ [digit_char n]" by (simp add: nat_text.simps)
    from m n "1.prems" have "nat_text (m div 10) = nat_text (n div 10)" and
      d: "digit_char m = digit_char n" by simp_all
    then have "m div 10 = n div 10" using "1.IH" [OF False] by blast
    moreover from d have "m mod 10 = n mod 10" using dc by blast
    ultimately show ?thesis by (metis div_mult_mod_eq)
  qed
qed

text \<open>\<open>int(text)\<close> on a text of decimal digits; any other text raises.\<close>

definition py_int :: "string \<Rightarrow> nat option" where
  "py_int s =
     (if s \<noteq> [] \<and> (\<forall>c \<in> set s. (48::nat) \<le> of_char c \<and> of_char c \<le> (57::nat))
      then Some (foldl (\<lambda>acc c. 10 * acc + (of_char c - 48)) 0 s) else None)"

lemma digits_value: "foldl (\<lambda>acc c. 10 * acc + (of_char c - 48)) 0 (nat_text n) = (n::nat)"
proof (induction n rule: nat_text.induct)
  case (1 n)
  show ?case
  proof (cases "n < 10")
    case True
    then show ?thesis by (simp add: nat_text.simps digit_char_def)
  next
    case False
    with "1.IH" show ?thesis by (simp add: nat_text.simps [of n] digit_char_def)
  qed
qed

lemma py_int_nat_text [simp]: "py_int (nat_text n) = Some n"
  using digit_char_range by (simp add: py_int_def nat_text_nonempty digits_value)

definition int_text :: "int \<Rightarrow> string" where
  "int_text n = (if n < 0 then CHR ''-'' # nat_text (nat (- n)) else nat_text (nat n))"

lemma int_text_inj: "int_text m = int_text n \<Longrightarrow> m = n"
proof -
  have minus: "CHR ''-'' \<notin> set (nat_text k)" for k
    using digit_char_range [of "CHR ''-''" k] by auto
  assume eq: "int_text m = int_text n"
  then have "m < 0 \<longleftrightarrow> n < 0"
    using minus by (auto simp: int_text_def split: if_splits) (metis list.set_intros(1))+
  with eq show ?thesis
    by (auto simp: int_text_def split: if_splits dest!: nat_text_inj)
qed

subsection \<open>Tables and queries\<close>

text \<open>
  \<open>find_row key k rows\<close> is a lookup on a column the schema declares unique (a primary key
  or a UNIQUE constraint); \<open>scalar_one_or_none\<close> is SQLAlchemy's method of that name on any
  other selection, which raises when the selection has several rows.
\<close>

definition find_row :: "('r \<Rightarrow> 'k) \<Rightarrow> 'k \<Rightarrow> 'r list \<Rightarrow> 'r option" where
  "find_row key k rows = find (\<lambda>r. key r = k) rows"

definition update_row :: "('r \<Rightarrow> 'k) \<Rightarrow> 'k \<Rightarrow> ('r \<Rightarrow> 'r) \<Rightarrow> 'r list \<Rightarrow> 'r list" where
  "update_row key k f rows = map (\<lambda>r. if key r = k then f r else r) rows"

definition scalar_one_or_none :: "'e \<Rightarrow> 'r list \<Rightarrow> 'e + 'r option" where
  "scalar_one_or_none err rows =
     (case rows of [] \<Rightarrow> Inr None | [r] \<Rightarrow> Inr (Some r) | _ \<Rightarrow> Inl err)"

definition unique_on :: "('r \<Rightarrow> 'k) \<Rightarrow> 'r list \<Rightarrow> bool" where
  "unique_on key rows = distinct (map key rows)"

definition offset_limit :: "nat \<Rightarrow> nat \<Rightarrow> 'r list \<Rightarrow> 'r list" where
  "offset_limit off cnt rows = take cnt (drop off rows)"

lemma find_row_Some: "find_row key k rows = Some r \<Longrightarrow> r \<in> set rows \<and> key r = k"
  by (auto simp: find_row_def find_Some_iff)

lemma find_row_None: "find_row key k rows = None \<longleftrightarrow> k \<notin> key ` set rows"
  by (auto simp: find_row_def find_None_iff)

lemma find_row_unique:
  "unique_on key rows \<Longrightarrow> r \<in> set rows \<Longrightarrow> find_row key (key r) rows = Some r"
  by (induction rows) (auto simp: find_row_def unique_on_def)

lemma unique_on_Cons [simp]:
  "unique_on key (r # rows) \<longleftrightarrow> key r \<notin> key ` set rows \<and> unique_on key rows"
  by (simp add: unique_on_def)

lemma unique_on_Nil [simp]: "unique_on key []"
  by (simp add: unique_on_def)

lemma unique_on_snoc [simp]:
  "unique_on key (rows @ [r]) \<longleftrightarrow> key r \<notin> key ` set rows \<and> unique_on key rows"
  by (auto simp: unique_on_def)

lemma unique_onD: "unique_on key rows \<Longrightarrow> r \<in> set rows \<Longrightarrow> s \<in> set rows \<Longrightarrow> key r = key s \<Longrightarrow> r = s"
  by (auto simp: unique_on_def distinct_map inj_on_def)

lemma set_update_row:
  "set (update_row key k f rows) = f ` {r \<in> set rows. key r = k} \<union> {r \<in> set rows. key r \<noteq> k}"
  by (auto simp: update_row_def)

lemma update_row_Nil [simp]: "update_row key k f [] = []"
  by (simp add: update_row_def)

lemma update_row_Cons [simp]:
  "update_row key k f (r # rows) = (if key r = k then f r else r) # update_row key k f rows"
  by (simp add: update_row_def)

lemma length_update_row [simp]: "length (update_row key k f rows) = length rows"
  by (simp add: update_row_def)

lemma map_update_row:
  "(\<And>r. g (f r) = g r) \<Longrightarrow> map g (update_row key k f rows) = map g rows"
  by (simp add: update_row_def)

lemma unique_on_update_row:
  "(\<And>r. g (f r) = g r) \<Longrightarrow> unique_on g (update_row key k f rows) = unique_on g rows"
  by (simp add: unique_on_def map_update_row)

lemma filter_update_row:
  "(\<And>r. r \<in> set rows \<Longrightarrow> key r = k \<Longrightarrow> \<not> P r \<and> \<not> P (f r)) \<Longrightarrow>
     filter P (update_row key k f rows) = filter P rows"
  by (induction rows) auto

lemma find_row_update_row:
  assumes "\<And>r. key (f r) = key r"
  shows "find_row key j (update_row key k f rows) =
    (if j = k then map_option f (find_row key j rows) else find_row key j rows)"
  by (induction rows) (auto simp: find_row_def assms)

lemma find_row_append_new:
  "find_row key i (rows @ [r]) = (case find_row key i rows of None \<Rightarrow> if key r = i then Some r else None | Some x \<Rightarrow> Some x)"
  by (induction rows) (auto simp: find_row_def)

lemma find_row_replace:
  "key new = i \<Longrightarrow> find_row key j (update_row key i (\<lambda>_. new) rows) =
     (if j = i then map_option (\<lambda>_. new) (find_row key i rows) else find_row key j rows)"
  by (induction rows) (auto simp: find_row_def)

lemma scalar_one_or_none_Some:
  "scalar_one_or_none e rows = Inr (Some r) \<longleftrightarrow> rows = [r]"
  by (auto simp: scalar_one_or_none_def split: list.splits)

lemma scalar_one_or_none_None:
  "scalar_one_or_none e rows = Inr None \<longleftrightarrow> rows = []"
  by (auto simp: scalar_one_or_none_def split: list.splits)

lemma scalar_one_or_none_Inl:
  "scalar_one_or_none e rows = Inl e' \<longleftrightarrow> e' = e \<and> 2 \<le> length rows"
  by (auto simp: scalar_one_or_none_def split: list.splits)

subsection \<open>ORDER BY\<close>

text \<open>
  An ORDER BY clause is a key into a linear order: \<open>Desc\<close> turns the order of a column
  around (\<open>.desc()\<close>), \<open>NullsLast\<close> puts NULL after every value (\<open>.nulls_last()\<close>), and
  several columns are compared lexicographically.
\<close>

datatype 'a desc = Desc (undesc: 'a)

instantiation desc :: (linorder) linorder
begin

definition less_eq_desc :: "'a desc \<Rightarrow> 'a desc \<Rightarrow> bool" where
  "less_eq_desc a b = (undesc b \<le> undesc a)"

definition less_desc :: "'a desc \<Rightarrow> 'a desc \<Rightarrow> bool" where
  "less_desc a b = (undesc b < undesc a)"

instance
  by standard (auto simp: less_eq_desc_def less_desc_def desc.expand)

end

datatype 'a nulls_last = Value 'a | Null

instantiation nulls_last :: (linorder) linorder
begin

fun less_eq_nulls_last :: "'a nulls_last \<Rightarrow> 'a nulls_last \<Rightarrow> bool" where
  "less_eq_nulls_last (Value a) (Value b) = (a \<le> b)"
| "less_eq_nulls_last (Value a) Null = True"
| "less_eq_nulls_last Null (Value b) = False"
| "less_eq_nulls_last Null Null = True"

fun less_nulls_last :: "'a nulls_last \<Rightarrow> 'a nulls_last \<Rightarrow> bool" where
  "less_nulls_last (Value a) (Value b) = (a < b)"
| "less_nulls_last (Value a) Null = True"
| "less_nulls_last Null b = False"

instance
proof
  fix x y z :: "'a nulls_last"
  show "(x < y) = (x \<le> y \<and> \<not> y \<le> x)"
    by (cases x; cases y) auto
  show "x \<le> x"
    by (cases x) auto
  show "x \<le> y \<Longrightarrow> y \<le> z \<Longrightarrow> x \<le> z"
    by (cases x; cases y; cases z) auto
  show "x \<le> y \<Longrightarrow> y \<le> x \<Longrightarrow> x = y"
    by (cases x; cases y) auto
  show "x \<le> y \<or> y \<le> x"
    by (cases x; cases y) auto
qed

end

lemma Desc_less [simp]: "Desc a < Desc b \<longleftrightarrow> b < a"
  by (simp add: less_desc_def)

lemma Desc_le [simp]: "Desc a \<le> Desc b \<longleftrightarrow> b \<le> a"
  by (simp add: less_eq_desc_def)

fun of_nullable :: "'a option \<Rightarrow> 'a nulls_last" where
  "of_nullable None = Null"
| "of_nullable (Some x) = Value x"

text \<open>
  Keyset pagination rests on one fact: in a list sorted by a key that is injective on it,
  the rows whose key is greater than that of a row are exactly the rows after it.
\<close>

lemma sorted_suffix:
  fixes key :: "'r \<Rightarrow> 'k::linorder"
  assumes "sorted (map key (xs @ c # ys))" and "distinct (map key (xs @ c # ys))"
  shows "filter (\<lambda>r. key c < key r) (xs @ c # ys) = ys"
proof -
  have "filter (\<lambda>r. key c < key r) xs = []"
    using assms(1) by (auto simp: sorted_append filter_empty_conv not_less)
  moreover have "filter (\<lambda>r. key c < key r) ys = ys"
    using assms by (fastforce simp: sorted_append filter_id_conv less_le)
  ultimately show ?thesis by simp
qed

lemma sort_key_unique_on:
  "unique_on key rows \<Longrightarrow> distinct (map key (sort_key key rows))"
  by (simp add: unique_on_def distinct_map)

lemma insort_key_snoc:
  "key r \<le> key x \<Longrightarrow> insort_key key r (ys @ [x]) = insort_key key r ys @ [x]"
  by (induction ys) auto

lemma sort_key_snoc_last:
  "\<forall>r \<in> set rows. key r \<le> key x \<Longrightarrow> sort_key key (rows @ [x]) = sort_key key rows @ [x]"
  by (induction rows) (auto simp: insort_key_snoc)

lemma set_map_filter: "set (List.map_filter f xs) = {y. \<exists>x \<in> set xs. f x = Some y}"
  by (induction xs) (auto simp: List.map_filter_simps split: option.splits)

lemma sort_key_map_same:
  "(\<And>x. k (g x) = k x) \<Longrightarrow> sort_key k (map g xs) = map g (sort_key k xs)"
proof -
  assume k: "\<And>x. k (g x) = k x"
  have "insort_key k (g y) (map g ys) = map g (insort_key k y ys)" for y ys
    by (induction ys) (simp_all add: k)
  then show ?thesis by (induction xs) simp_all
qed

lemma filter_map_same: "(\<And>x. P (g x) = P x) \<Longrightarrow> filter P (map g xs) = map g (filter P xs)"
  by (induction xs) simp_all

lemma update_row_fun:
  assumes "unique_on key rows" and "find_row key k rows = Some old"
  shows "update_row key k (\<lambda>_. f old) rows = map (\<lambda>r. if key r = k then f r else r) rows"
  using assms unfolding update_row_def
  by (auto dest!: find_row_Some dest: unique_onD)

end
