(* ===== verification/Common.thy ===== *)
theory Common
  imports Prelude
begin

text \<open>
  The cross-cutting part of the backend, \<open>backend/app/common\<close>: the exception classes and
  the HTTP answers \<open>main.py\<close> gives them, the tenant context and its two guards, the status
  vocabularies and their transition tables, page-based pagination, and the unit of work
  that commits or rolls back one request.
\<close>

section \<open>Exceptions and their HTTP answers\<close>

text \<open>
  \<open>AppException\<close> carries status code, detail, error code and the optional extra dictionary
  (the code only ever puts lists of field names there). The other constructors are the
  exceptions the same code can raise from outside its own hierarchy: Python's
  \<open>PermissionError\<close>, \<open>NameError\<close>, \<open>ValueError\<close> and \<open>KeyError\<close>, the errors of the database
  layer and those of the object store's client.
\<close>

datatype py_exc =
    AppException int string "string option" "(string \<times> string list) list"
  | PermissionError string
  | NameError string
  | ValueError string
  | KeyError string
  | IntegrityError string
  | DBAPIError string
  | TypeError string
  | AttributeError string
  | RuntimeError string
  | StorageError string
  | MultipleResultsFound

definition NotFoundError :: "string \<Rightarrow> py_exc" where
  "NotFoundError detail = AppException 404 detail (Some ''NOT_FOUND'') []"

definition ValidationError :: "string \<Rightarrow> py_exc" where
  "ValidationError detail = AppException 422 detail (Some ''VALIDATION_ERROR'') []"

definition ServiceUnavailableError :: "string \<Rightarrow> string \<Rightarrow> py_exc" where
  "ServiceUnavailableError detail code = AppException 503 detail (Some code) []"

definition UnauthorizedError :: "string \<Rightarrow> py_exc" where
  "UnauthorizedError detail = AppException 401 detail (Some ''UNAUTHORIZED'') []"

definition ForbiddenError :: "string \<Rightarrow> py_exc" where
  "ForbiddenError detail = AppException 403 detail (Some ''FORBIDDEN'') []"

definition ForbiddenErrorCode :: "string \<Rightarrow> string \<Rightarrow> py_exc" where
  "ForbiddenErrorCode detail code = AppException 403 detail (Some code) []"

definition ConflictError :: "string \<Rightarrow> py_exc" where
  "ConflictError detail = AppException 409 detail (Some ''CONFLICT'') []"

definition ConflictErrorCode :: "string \<Rightarrow> string \<Rightarrow> py_exc" where
  "ConflictErrorCode detail code = AppException 409 detail (Some code) []"

definition RateLimitExceededError :: "string \<Rightarrow> py_exc" where
  "RateLimitExceededError detail = AppException 429 detail (Some ''RATE_LIMIT_EXCEEDED'') []"

lemmas exception_defs =
  NotFoundError_def ValidationError_def ServiceUnavailableError_def UnauthorizedError_def
  ForbiddenError_def ForbiddenErrorCode_def ConflictError_def ConflictErrorCode_def
  RateLimitExceededError_def

record http_error =
  he_status :: int
  he_detail :: string
  he_error_code :: "string option"
  he_extra :: "(string \<times> string list) list"

text \<open>
  The handlers registered in \<open>main.py\<close>: one for \<open>AppException\<close>, one for
  \<open>PermissionError\<close>; any other exception is Starlette's plain 500.
\<close>

fun exception_response :: "py_exc \<Rightarrow> http_error" where
  "exception_response (AppException status detail code extra) =
     \<lparr>he_status = status, he_detail = detail, he_error_code = code, he_extra = extra\<rparr>"
| "exception_response (PermissionError detail) =
     \<lparr>he_status = 403, he_detail = detail, he_error_code = Some ''FORBIDDEN'', he_extra = []\<rparr>"
| "exception_response _ =
     \<lparr>he_status = 500, he_detail = ''Internal Server Error'', he_error_code = None, he_extra = []\<rparr>"

definition STATUS_ERROR_CODES :: "int \<rightharpoonup> string" where
  "STATUS_ERROR_CODES = map_of
    [(400, ''BAD_REQUEST''), (401, ''UNAUTHORIZED''), (403, ''FORBIDDEN''), (404, ''NOT_FOUND''),
     (405, ''METHOD_NOT_ALLOWED''), (409, ''CONFLICT''), (413, ''PAYLOAD_TOO_LARGE''),
     (415, ''UNSUPPORTED_MEDIA_TYPE''), (422, ''VALIDATION_ERROR''), (429, ''RATE_LIMIT_EXCEEDED''),
     (500, ''INTERNAL_SERVER_ERROR''), (503, ''SERVICE_UNAVAILABLE'')]"

definition error_code_for_status :: "int \<Rightarrow> string" where
  "error_code_for_status status = dict_get STATUS_ERROR_CODES status ''HTTP_ERROR''"

section \<open>Tenant context\<close>

record TenantContext =
  tc_actor_id :: "uuid option"
  tc_role :: "string option"
  tc_permissions :: "string list"
  tc_tenant_id :: "uuid option"
  tc_membership_id :: "uuid option"
  tc_is_platform_actor :: bool
  tc_request_id :: "string option"
  tc_source :: string

definition require_tenant :: "TenantContext option \<Rightarrow> py_exc + TenantContext" where
  "require_tenant context =
     (case context of
        None \<Rightarrow> Inl (PermissionError ''Tenant context is required for this operation'')
      | Some ctx \<Rightarrow>
          if tc_tenant_id ctx = None \<and> \<not> tc_is_platform_actor ctx
          then Inl (PermissionError ''Tenant-scoped access requires an active tenant membership'')
          else if tc_role ctx = None
          then Inl (PermissionError ''Actor role is required for tenant-scoped access'')
          else Inr ctx)"

definition ensure_tenant_match :: "TenantContext option \<Rightarrow> uuid \<Rightarrow> py_exc + unit" where
  "ensure_tenant_match context resource_tenant_id =
     (case context of
        None \<Rightarrow> Inl (PermissionError ''Tenant context required'')
      | Some ctx \<Rightarrow>
          if tc_is_platform_actor ctx then Inr ()
          else if tc_tenant_id ctx \<noteq> Some resource_tenant_id
          then Inl (PermissionError ''Cross-tenant access denied'')
          else Inr ())"

text \<open>A context acts for tenant \<open>t\<close> when it is a member's context of that agency, not the platform's.\<close>

definition acts_for :: "TenantContext \<Rightarrow> uuid \<Rightarrow> bool" where
  "acts_for ctx t \<longleftrightarrow> tc_tenant_id ctx = Some t \<and> \<not> tc_is_platform_actor ctx"

lemma require_tenant_Inr:
  "require_tenant c = Inr ctx \<longleftrightarrow>
     c = Some ctx \<and> (tc_tenant_id ctx \<noteq> None \<or> tc_is_platform_actor ctx) \<and> tc_role ctx \<noteq> None"
  by (auto simp: require_tenant_def split: option.splits if_splits)

lemma require_tenant_Some: "require_tenant c = Inr ctx \<Longrightarrow> c = Some ctx"
  by (simp add: require_tenant_Inr)

lemma ensure_tenant_match_Inr:
  "ensure_tenant_match c t = Inr u \<longleftrightarrow>
     (\<exists>ctx. c = Some ctx \<and> (tc_is_platform_actor ctx \<or> tc_tenant_id ctx = Some t))"
  by (auto simp: ensure_tenant_match_def split: option.splits if_splits)

lemma ensure_tenant_match_acts_for:
  "acts_for ctx t \<Longrightarrow> ensure_tenant_match (Some ctx) r = Inr u \<longleftrightarrow> r = t"
  by (auto simp: ensure_tenant_match_Inr acts_for_def)

section \<open>Status vocabularies\<close>

definition LISTING_STATUS_TRANSITIONS :: "string \<rightharpoonup> string list" where
  "LISTING_STATUS_TRANSITIONS = map_of
    [(''inactive'', [''active'']),
     (''active'', [''inactive'', ''archived'']),
     (''archived'', [])]"

definition VALID_LISTING_STATUSES :: "string list" where
  "VALID_LISTING_STATUSES = [''active'', ''inactive'', ''archived'']"

definition LEAD_STATUS_TRANSITIONS :: "string \<rightharpoonup> string list" where
  "LEAD_STATUS_TRANSITIONS = map_of
    [(''new'', [''reviewed'', ''closed'']),
     (''reviewed'', [''closed'']),
     (''closed'', [])]"

definition VALID_LEAD_STATUSES :: "string list" where
  "VALID_LEAD_STATUSES = [''new'', ''reviewed'', ''closed'']"

definition VIEWING_STATUS_TRANSITIONS :: "string \<rightharpoonup> string list" where
  "VIEWING_STATUS_TRANSITIONS = map_of
    [(''scheduled'', [''cancelled_by_user'', ''cancelled_by_agency'', ''completed'', ''no_show'']),
     (''cancelled_by_user'', []),
     (''cancelled_by_agency'', []),
     (''completed'', []),
     (''no_show'', [])]"

definition VALID_VIEWING_STATUSES :: "string list" where
  "VALID_VIEWING_STATUSES =
    [''scheduled'', ''cancelled_by_user'', ''cancelled_by_agency'', ''completed'', ''no_show'']"

definition MAX_COMPARISON_ITEMS :: nat where
  "MAX_COMPARISON_ITEMS = 4"

text \<open>
  The guard the services share: the new status must be known and the table must list it for
  the current one (\<open>TRANSITIONS.get(current, [])\<close>).
\<close>

definition allowed_transition :: "(string \<rightharpoonup> string list) \<Rightarrow> string \<Rightarrow> string \<Rightarrow> bool" where
  "allowed_transition table old new \<longleftrightarrow> new \<in> set (dict_get table old [])"

lemma listing_transition_iff:
  "allowed_transition LISTING_STATUS_TRANSITIONS old new \<longleftrightarrow>
     (old = ''inactive'' \<and> new = ''active'') \<or>
     (old = ''active'' \<and> (new = ''inactive'' \<or> new = ''archived''))"
  by (auto simp: allowed_transition_def LISTING_STATUS_TRANSITIONS_def dict_get_def)

lemma lead_transition_iff:
  "allowed_transition LEAD_STATUS_TRANSITIONS old new \<longleftrightarrow>
     (old = ''new'' \<and> (new = ''reviewed'' \<or> new = ''closed'')) \<or>
     (old = ''reviewed'' \<and> new = ''closed'')"
  by (auto simp: allowed_transition_def LEAD_STATUS_TRANSITIONS_def dict_get_def)

lemma viewing_transition_iff:
  "allowed_transition VIEWING_STATUS_TRANSITIONS old new \<longleftrightarrow>
     old = ''scheduled'' \<and> (new = ''cancelled_by_user'' \<or> new = ''cancelled_by_agency'' \<or>
       new = ''completed'' \<or> new = ''no_show'')"
  by (auto simp: allowed_transition_def VIEWING_STATUS_TRANSITIONS_def dict_get_def)

section \<open>Pagination\<close>

record settings =
  pagination_default_page_size :: int
  pagination_max_page_size :: int

definition default_settings :: settings where
  "default_settings = \<lparr>pagination_default_page_size = 20, pagination_max_page_size = 100\<rparr>"

record pagination =
  pg_page :: int
  pg_page_size :: int

definition PaginationRequest :: "settings \<Rightarrow> int \<Rightarrow> int option \<Rightarrow> pagination" where
  "PaginationRequest st page page_size =
     \<lparr>pg_page = max 1 page,
      pg_page_size =
        min (case page_size of
               None \<Rightarrow> pagination_default_page_size st
             | Some n \<Rightarrow> if n = 0 then pagination_default_page_size st else n)
            (pagination_max_page_size st)\<rparr>"

definition pg_offset :: "pagination \<Rightarrow> int" where
  "pg_offset p = (pg_page p - 1) * pg_page_size p"

definition pg_limit :: "pagination \<Rightarrow> int" where
  "pg_limit p = pg_page_size p"

record 'a pagination_result =
  pr_items :: "'a list"
  pr_page :: int
  pr_page_size :: int
  pr_total :: int
  pr_has_next :: bool
  pr_has_previous :: bool

definition PaginationResult :: "'a list \<Rightarrow> int \<Rightarrow> pagination \<Rightarrow> 'a pagination_result" where
  "PaginationResult items count p =
     \<lparr>pr_items = items, pr_page = pg_page p, pr_page_size = pg_page_size p, pr_total = count,
      pr_has_next = pg_page p * pg_page_size p < count, pr_has_previous = 1 < pg_page p\<rparr>"

text \<open>\<open>.offset(o).limit(l)\<close>: the database refuses negative values.\<close>

definition sql_page :: "int \<Rightarrow> int \<Rightarrow> 'r list \<Rightarrow> py_exc + 'r list" where
  "sql_page off cnt rows =
     (if off < 0 \<or> cnt < 0 then Inl (DBAPIError ''OFFSET and LIMIT must not be negative'')
      else Inr (offset_limit (nat off) (nat cnt) rows))"

record page_params =
  pp_page :: int
  pp_page_size :: int
  pp_offset :: int
  pp_limit :: int

definition pagination_params :: "int \<Rightarrow> int \<Rightarrow> page_params" where
  "pagination_params page page_size =
     (let page = max 1 page; page_size = max 1 (min page_size 100)
      in \<lparr>pp_page = page, pp_page_size = page_size, pp_offset = (page - 1) * page_size,
          pp_limit = page_size\<rparr>)"

lemma pg_page_ge_1 [simp]: "1 \<le> pg_page (PaginationRequest st page ps)"
  by (simp add: PaginationRequest_def)

text \<open>Page \<open>p\<close> of a listing, as every paginated service computes it.\<close>

definition page_of :: "'r list \<Rightarrow> pagination \<Rightarrow> py_exc + 'r pagination_result" where
  "page_of rows p =
     sbind (sql_page (pg_offset p) (pg_limit p) rows)
       (\<lambda>items. Inr (PaginationResult items (int (length rows)) p))"

lemma concat_pages:
  "concat (map (\<lambda>k. offset_limit (k * n) n rows) [0..<m]) = take (m * n) rows"
proof (induction m)
  case (Suc m)
  have "take (m * n) rows @ take n (drop (m * n) rows) = take (m * n + n) rows"
    by (simp add: take_add)
  with Suc show ?case by (simp add: offset_limit_def add.commute)
qed simp

section \<open>The unit of work of a request\<close>

text \<open>
  \<open>get_db_session\<close> commits when the handler returns and rolls the session back when it
  raises. What the handler did elsewhere (Redis, the object store) stays: the state is the
  pair of the database and the rest.
\<close>

definition get_db_session ::
  "('db \<times> 'ext \<Rightarrow> (py_exc + 'a) \<times> 'db \<times> 'ext) \<Rightarrow> 'db \<times> 'ext \<Rightarrow> (py_exc + 'a) \<times> 'db \<times> 'ext" where
  "get_db_session handler w =
     (case handler w of
        (Inl e, w') \<Rightarrow> (Inl e, fst w, snd w')
      | (Inr r, w') \<Rightarrow> (Inr r, w'))"

lemma get_db_session_error:
  "get_db_session h w = (Inl e, w') \<Longrightarrow> fst w' = fst w"
  by (auto simp: get_db_session_def split: prod.splits sum.splits)

end
