(* ===== verification/RateLimit.thy ===== *)
theory RateLimit
  imports Common
begin

text \<open>
  The Redis-backed helpers: the store (\<open>common/redis.py\<close>), the JSON cache
  (\<open>common/cache.py\<close>) and the rate limiter (\<open>common/rate_limit.py\<close>). The store maps a key
  to its value and expiry time; a value is a text or the JSON text of a cached response,
  which is kept as the response itself.
\<close>

section \<open>The store\<close>

datatype 'v rvalue = RText string | RJson 'v

type_synonym 'v redis = "string \<rightharpoonup> 'v rvalue \<times> timestamp option"

definition live :: "timestamp \<Rightarrow> 'v rvalue \<times> timestamp option \<Rightarrow> bool" where
  "live now entry = (case snd entry of None \<Rightarrow> True | Some e \<Rightarrow> now < e)"

definition redis_set :: "timestamp \<Rightarrow> string \<Rightarrow> 'v rvalue \<Rightarrow> int option \<Rightarrow> 'v redis \<Rightarrow> 'v redis" where
  "redis_set now key v ttl r = r(key \<mapsto> (v, map_option (\<lambda>s. now + seconds s) ttl))"

definition redis_get :: "timestamp \<Rightarrow> string \<Rightarrow> 'v redis \<Rightarrow> 'v rvalue option" where
  "redis_get now key r =
     (case r key of None \<Rightarrow> None | Some entry \<Rightarrow> if live now entry then Some (fst entry) else None)"

definition redis_delete :: "string \<Rightarrow> 'v redis \<Rightarrow> 'v redis" where
  "redis_delete key r = r(key := None)"

definition redis_exists :: "timestamp \<Rightarrow> string \<Rightarrow> 'v redis \<Rightarrow> bool" where
  "redis_exists now key r = (redis_get now key r \<noteq> None)"

text \<open>\<open>redis_scan_delete\<close> with a pattern \<open>prefix*\<close>: the whole scan deletes every key with that prefix.\<close>

definition redis_scan_delete :: "string \<Rightarrow> 'v redis \<Rightarrow> 'v redis" where
  "redis_scan_delete pre r = (\<lambda>k. if take (length pre) k = pre then None else r k)"

lemma redis_get_set [simp]:
  "redis_get now k (redis_set t k' v ttl r) =
     (if k = k' then (if (case ttl of None \<Rightarrow> True | Some s \<Rightarrow> now < t + seconds s) then Some v else None)
      else redis_get now k r)"
  by (auto simp: redis_get_def redis_set_def live_def split: option.splits)

lemma redis_get_delete [simp]:
  "redis_get now k (redis_delete k' r) = (if k = k' then None else redis_get now k r)"
  by (simp add: redis_get_def redis_delete_def)

lemma redis_get_scan_delete [simp]:
  "redis_get now k (redis_scan_delete p r) = (if take (length p) k = p then None else redis_get now k r)"
  by (simp add: redis_get_def redis_scan_delete_def)

section \<open>The cache\<close>

definition cache_key :: "string \<Rightarrow> string \<Rightarrow> string" where
  "cache_key namespace key = ''cache:'' @ namespace @ '':'' @ key"

definition cache_get :: "timestamp \<Rightarrow> string \<Rightarrow> string \<Rightarrow> 'v redis \<Rightarrow> 'v option" where
  "cache_get now namespace key r =
     (case redis_get now (cache_key namespace key) r of Some (RJson v) \<Rightarrow> Some v | _ \<Rightarrow> None)"

definition cache_set :: "timestamp \<Rightarrow> string \<Rightarrow> string \<Rightarrow> 'v \<Rightarrow> int \<Rightarrow> 'v redis \<Rightarrow> 'v redis" where
  "cache_set now namespace key v ttl r = redis_set now (cache_key namespace key) (RJson v) (Some ttl) r"

definition cache_delete :: "string \<Rightarrow> string \<Rightarrow> 'v redis \<Rightarrow> 'v redis" where
  "cache_delete namespace key r = redis_delete (cache_key namespace key) r"

definition cache_invalidate_namespace :: "string \<Rightarrow> 'v redis \<Rightarrow> 'v redis" where
  "cache_invalidate_namespace namespace r = redis_scan_delete (cache_key namespace []) r"

definition LISTING_SEARCH_NAMESPACE :: string where
  "LISTING_SEARCH_NAMESPACE = ''listing_search''"

definition invalidate_listing_search_cache :: "uuid option \<Rightarrow> 'v redis \<Rightarrow> 'v redis" where
  "invalidate_listing_search_cache listing_id r =
     (let r1 = (case listing_id of
                  None \<Rightarrow> r
                | Some i \<Rightarrow> if i = [] then r else cache_delete LISTING_SEARCH_NAMESPACE (''detail:'' @ i) r)
      in redis_scan_delete (cache_key LISTING_SEARCH_NAMESPACE ''search:'') r1)"

lemma cache_key_inj: "cache_key ns k = cache_key ns k' \<longleftrightarrow> k = k'"
  by (simp add: cache_key_def)

section \<open>The limiter\<close>

record rate_settings =
  rate_limit_default_max_requests :: int
  rate_limit_default_window_seconds :: int

definition rate_limit_key :: "string \<Rightarrow> string \<Rightarrow> int \<Rightarrow> string" where
  "rate_limit_key key_type identifier window =
     ''ratelimit:'' @ key_type @ '':'' @ identifier @ '':'' @ int_text window"

text \<open>Python's \<open>x or default\<close> on an optional number: \<open>None\<close> and 0 give the default.\<close>

definition or_default :: "int option \<Rightarrow> int \<Rightarrow> int" where
  "or_default x d = (case x of None \<Rightarrow> d | Some n \<Rightarrow> if n = 0 then d else n)"

definition check_rate_limit ::
  "rate_settings \<Rightarrow> timestamp \<Rightarrow> string \<Rightarrow> string \<Rightarrow> int option \<Rightarrow> int option \<Rightarrow> 'v redis
     \<Rightarrow> (py_exc + bool) \<times> 'v redis" where
  "check_rate_limit st now key_type identifier max_requests window_seconds r =
     (let max_req = or_default max_requests (rate_limit_default_max_requests st);
          window = or_default window_seconds (rate_limit_default_window_seconds st);
          key = rate_limit_key key_type identifier window
      in case redis_get now key r of
           None \<Rightarrow> (Inr True, redis_set now key (RText ''1'') (Some window) r)
         | Some (RJson _) \<Rightarrow> (Inl (ValueError ''invalid literal for int()''), r)
         | Some (RText current) \<Rightarrow>
             (case py_int current of
                None \<Rightarrow> (Inl (ValueError ''invalid literal for int()''), r)
              | Some count \<Rightarrow>
                  if max_req \<le> int count then (Inr False, r)
                  else (Inr True, redis_set now key (RText (nat_text (count + 1))) (Some window) r)))"

definition AUTH_RATE_LIMITS :: "string \<rightharpoonup> int \<times> int" where
  "AUTH_RATE_LIMITS = map_of
    [(''login'', (10, 300)), (''refresh'', (30, 300)), (''logout'', (30, 300)),
     (''password_reset'', (5, 600)), (''session_revoke'', (20, 300)),
     (''employee_deactivate'', (10, 300))]"

definition check_auth_rate_limit ::
  "rate_settings \<Rightarrow> timestamp \<Rightarrow> string \<Rightarrow> string \<Rightarrow> 'v redis \<Rightarrow> (py_exc + bool) \<times> 'v redis" where
  "check_auth_rate_limit st now action identifier r =
     (let (mx, win) = dict_get AUTH_RATE_LIMITS action (30, 300)
      in check_rate_limit st now (''auth:'' @ action) identifier (Some mx) (Some win) r)"

definition PHASE4_RATE_LIMITS :: "string \<rightharpoonup> int \<times> int" where
  "PHASE4_RATE_LIMITS = map_of
    [(''search'', (30, 60)), (''inquiry'', (5, 600)), (''viewing_booking'', (10, 300))]"

definition check_phase4_rate_limit ::
  "rate_settings \<Rightarrow> timestamp \<Rightarrow> string \<Rightarrow> string \<Rightarrow> 'v redis \<Rightarrow> (py_exc + bool) \<times> 'v redis" where
  "check_phase4_rate_limit st now action identifier r =
     (let (mx, win) = dict_get PHASE4_RATE_LIMITS action (30, 60)
      in check_rate_limit st now (''phase4:'' @ action) identifier (Some mx) (Some win) r)"

record search_limits =
  search_manual_limit :: "int \<times> int"
  search_ai_text_limit :: "int \<times> int"
  search_voice_limit :: "int \<times> int"

definition SEARCH_RATE_LIMITS :: "search_limits \<Rightarrow> string \<rightharpoonup> int \<times> int" where
  "SEARCH_RATE_LIMITS c = map_of
    [(''manual'', search_manual_limit c), (''ai_text'', search_ai_text_limit c),
     (''voice'', search_voice_limit c)]"

definition check_search_rate_limit ::
  "search_limits \<Rightarrow> rate_settings \<Rightarrow> timestamp \<Rightarrow> string \<Rightarrow> string \<Rightarrow> 'v redis
     \<Rightarrow> (py_exc + bool) \<times> 'v redis" where
  "check_search_rate_limit c st now search_mode identifier r =
     (let (mx, win) = dict_get (SEARCH_RATE_LIMITS c) search_mode (30, 60)
      in check_rate_limit st now (''search:'' @ search_mode) identifier (Some mx) (Some win) r)"

definition LEAD_PROCESSING_RATE_LIMITS :: "string \<rightharpoonup> int \<times> int" where
  "LEAD_PROCESSING_RATE_LIMITS = map_of [(''lead_callback'', (60, 60)), (''lead_inquiry'', (10, 60))]"

definition check_lead_processing_rate_limit ::
  "rate_settings \<Rightarrow> timestamp \<Rightarrow> string \<Rightarrow> string \<Rightarrow> 'v redis \<Rightarrow> (py_exc + bool) \<times> 'v redis" where
  "check_lead_processing_rate_limit st now action identifier r =
     (let (mx, win) = dict_get LEAD_PROCESSING_RATE_LIMITS action
            (rate_limit_default_max_requests st, rate_limit_default_window_seconds st)
      in check_rate_limit st now (''lead_processing:'' @ action) identifier (Some mx) (Some win) r)"

record agency_ai_limits =
  agency_ai_ocr_limit :: "int \<times> int"
  agency_ai_listing_draft_limit :: "int \<times> int"
  agency_ai_lead_reply_limit :: "int \<times> int"
  agency_ai_comparison_summary_limit :: "int \<times> int"

definition PHASE12_AI_RATE_LIMITS :: "agency_ai_limits \<Rightarrow> string \<rightharpoonup> int \<times> int" where
  "PHASE12_AI_RATE_LIMITS c = map_of
    [(''agency_ai:ocr'', agency_ai_ocr_limit c),
     (''agency_ai:listing_draft'', agency_ai_listing_draft_limit c),
     (''agency_ai:lead_reply'', agency_ai_lead_reply_limit c),
     (''agency_ai:comparison_summary'', agency_ai_comparison_summary_limit c)]"

definition check_agency_ai_rate_limit ::
  "agency_ai_limits \<Rightarrow> rate_settings \<Rightarrow> timestamp \<Rightarrow> string \<Rightarrow> string \<Rightarrow> int option \<Rightarrow> int option
     \<Rightarrow> 'v redis \<Rightarrow> (py_exc + bool) \<times> 'v redis" where
  "check_agency_ai_rate_limit c st now action identifier max_requests window_seconds r =
     (let (mx, win) = dict_get (PHASE12_AI_RATE_LIMITS c) action
            (rate_limit_default_max_requests st, rate_limit_default_window_seconds st)
      in check_rate_limit st now action identifier
           (Some (case max_requests of None \<Rightarrow> mx | Some n \<Rightarrow> n))
           (Some (case window_seconds of None \<Rightarrow> win | Some n \<Rightarrow> n)) r)"

end
