(* ===== verification/LimiterProps.thy ===== *)
theory LimiterProps
  imports RateLimit
begin

text \<open>
  What the rate limiter guarantees. The interface it and the token blacklist rely on is a
  store whose entries expire (\<open>ttl_store\<close>), interpreted on the Redis model. The limiter is
  shown to refine an abstract counter with an expiry time, and the guarantee is proved for
  the counter: never more than the limit in any window, however the requests of other
  identifiers are interleaved.
\<close>

section \<open>The interface: a store whose entries expire\<close>

locale ttl_store =
  fixes get :: "timestamp \<Rightarrow> 'k \<Rightarrow> 's \<Rightarrow> 'v option"
    and put :: "timestamp \<Rightarrow> 'k \<Rightarrow> 'v \<Rightarrow> int option \<Rightarrow> 's \<Rightarrow> 's"
    and del :: "'k \<Rightarrow> 's \<Rightarrow> 's"
  assumes get_put_same: "get now k (put t k v (Some ttl) s) = (if now < t + seconds ttl then Some v else None)"
    and get_put_forever: "get now k (put t k v None s) = Some v"
    and get_put_other: "k \<noteq> k' \<Longrightarrow> get now k (put t k' v o' s) = get now k s"
    and get_del_same: "get now k (del k s) = None"
    and get_del_other: "k \<noteq> k' \<Longrightarrow> get now k (del k' s) = get now k s"
begin

lemma visible_until_expiry: "now < t + seconds ttl \<Longrightarrow> get now k (put t k v (Some ttl) s) = Some v"
  by (simp add: get_put_same)

lemma gone_after_expiry: "t + seconds ttl \<le> now \<Longrightarrow> get now k (put t k v (Some ttl) s) = None"
  by (simp add: get_put_same)

lemma mark_survives_other_writes:
  assumes "\<And>t' k' v' o'. (t', k', v', o') \<in> set ws \<Longrightarrow> k' \<noteq> k"
  shows "get now k (foldl (\<lambda>s (t', k', v', o'). put t' k' v' o' s) s ws) = get now k s"
  using assms
proof (induction ws arbitrary: s)
  case (Cons w ws)
  obtain t' k' v' o' where w: "w = (t', k', v', o')" by (cases w)
  with Cons.prems have "k \<noteq> k'" by auto
  moreover have "get now k (foldl (\<lambda>s (t', k', v', o'). put t' k' v' o' s) (put t' k' v' o' s) ws) =
      get now k (put t' k' v' o' s)"
    using Cons.prems by (intro Cons.IH) auto
  ultimately show ?case using w by (simp add: get_put_other)
qed simp

end

interpretation rs: ttl_store redis_get redis_set redis_delete
  by unfold_locales auto

section \<open>The abstract counter\<close>

fun counter_step :: "nat \<Rightarrow> timestamp \<Rightarrow> timestamp \<Rightarrow> (nat \<times> timestamp) option \<Rightarrow> bool \<times> (nat \<times> timestamp) option" where
  "counter_step M W now None = (True, Some (1, now + W))"
| "counter_step M W now (Some (c, e)) =
     (if now < e then (if M \<le> c then (False, Some (c, e)) else (True, Some (Suc c, now + W)))
      else (True, Some (1, now + W)))"

fun counter_run :: "nat \<Rightarrow> timestamp \<Rightarrow> timestamp list \<Rightarrow> (nat \<times> timestamp) option \<Rightarrow> (timestamp \<times> bool) list" where
  "counter_run M W [] s = []"
| "counter_run M W (t # ts) s =
     (let (ok, s') = counter_step M W t s in (t, ok) # counter_run M W ts s')"

definition admitted :: "timestamp \<Rightarrow> timestamp \<Rightarrow> (timestamp \<times> bool) list \<Rightarrow> nat" where
  "admitted lo hi out = length (filter (\<lambda>(t, ok). ok \<and> lo \<le> t \<and> t < hi) out)"

lemma admitted_Nil [simp]: "admitted lo hi [] = 0"
  by (simp add: admitted_def)

lemma admitted_Cons [simp]:
  "admitted lo hi ((t, ok) # out) = (if ok \<and> lo \<le> t \<and> t < hi then Suc else id) (admitted lo hi out)"
  by (simp add: admitted_def)

lemma admitted_late:
  "\<forall>t \<in> set ts. hi \<le> t \<Longrightarrow> admitted lo hi (counter_run M W ts s) = 0"
  by (induction ts arbitrary: s) (fastforce split: prod.splits)+

text \<open>Once the window has begun with a live counter, what it still admits is what the counter has left.\<close>

lemma admitted_after_first:
  assumes "sorted ts" and "\<And>t. t \<in> set ts \<Longrightarrow> lo \<le> t" and "lo + W \<le> e"
  shows "admitted lo (lo + W) (counter_run M W ts (Some (c, e))) \<le> M - c"
  using assms
proof (induction ts arbitrary: c e)
  case (Cons t ts)
  show ?case
  proof (cases "t < lo + W")
    case False
    then have "\<forall>u \<in> set (t # ts). lo + W \<le> u"
      using Cons.prems(1) by fastforce
    then have "admitted lo (lo + W) (counter_run M W (t # ts) (Some (c, e))) = 0"
      by (rule admitted_late)
    then show ?thesis by (simp only: le0)
  next
    case True
    with Cons.prems(3) have live: "t < e" by simp
    have rest: "sorted ts" "\<And>u. u \<in> set ts \<Longrightarrow> lo \<le> u" and lo: "lo \<le> t"
      using Cons.prems by auto
    show ?thesis
    proof (cases "M \<le> c")
      case True
      with live Cons.IH [OF rest Cons.prems(3), of c] show ?thesis by simp
    next
      case False
      have "admitted lo (lo + W) (counter_run M W ts (Some (Suc c, t + W))) \<le> M - Suc c"
        using lo Cons.IH [OF rest, of "t + W" "Suc c"] by linarith
      then have "Suc (admitted lo (lo + W) (counter_run M W ts (Some (Suc c, t + W)))) \<le> M - c"
        using False by linarith
      with False live show ?thesis by auto
    qed
  qed
qed simp

lemma counter_window:
  assumes "sorted ts" and "1 \<le> M"
  shows "admitted lo (lo + W) (counter_run M W ts s) \<le> M"
  using assms(1)
proof (induction ts arbitrary: s)
  case (Cons t ts)
  obtain ok s' where st: "counter_step M W t s = (ok, s')" by fastforce
  have ts: "sorted ts" using Cons.prems by simp
  show ?case
  proof (cases "ok \<and> lo \<le> t \<and> t < lo + W")
    case False
    then have "admitted lo (lo + W) (counter_run M W (t # ts) s) =
        admitted lo (lo + W) (counter_run M W ts s')"
      using st by auto
    then show ?thesis using Cons.IH [OF ts, of s'] by simp
  next
    case True
    then obtain c e where s': "s' = Some (c, e)" and c: "1 \<le> c" and e: "e = t + W"
      using st by (cases s) (auto split: if_splits)
    have "admitted lo (lo + W) (counter_run M W ts (Some (c, e))) \<le> M - c"
      using True Cons.prems e by (intro admitted_after_first) auto
    then show ?thesis using True st s' c assms(2) by simp
  qed
qed simp

section \<open>The limiter refines the counter\<close>

fun run_checks ::
  "rate_settings \<Rightarrow> string \<Rightarrow> int \<Rightarrow> int \<Rightarrow> (timestamp \<times> string) list \<Rightarrow> 'v redis
     \<Rightarrow> (timestamp \<times> string \<times> bool) list" where
  "run_checks st kt mx win [] r = []"
| "run_checks st kt mx win ((t, i) # reqs) r =
     (let (res, r') = check_rate_limit st t kt i (Some mx) (Some win) r
      in (t, i, res = Inr True) # run_checks st kt mx win reqs r')"

definition holds_counter :: "string \<Rightarrow> 'v redis \<Rightarrow> (nat \<times> timestamp) option \<Rightarrow> bool" where
  "holds_counter key r s \<longleftrightarrow>
     r key = map_option (\<lambda>(c, e). (RText (nat_text c), Some e)) s"

lemma one_text: "''1'' = nat_text 1"
  by (simp add: nat_text.simps digit_char_def char_of_def bit_0)

lemma check_refines:
  assumes "holds_counter (rate_limit_key kt i win) r s" and "1 \<le> mx" and "win \<noteq> 0"
    and "check_rate_limit st now kt i (Some mx) (Some win) r = (res, r')"
    and "counter_step (nat mx) (seconds win) now s = (ok, s')"
  shows "res = Inr ok \<and> holds_counter (rate_limit_key kt i win) r' s' \<and>
         (\<forall>k. k \<noteq> rate_limit_key kt i win \<longrightarrow> r' k = r k)"
proof (cases s)
  case None
  with assms show ?thesis
    by (auto simp: check_rate_limit_def or_default_def holds_counter_def redis_get_def redis_set_def
        one_text)
next
  case (Some p)
  obtain c e where p: "p = (c, e)" by fastforce
  have entry: "r (rate_limit_key kt i win) = Some (RText (nat_text c), Some e)"
    using assms(1) Some p by (simp add: holds_counter_def)
  show ?thesis
  proof (cases "now < e")
    case True
    have "mx \<le> int c \<longleftrightarrow> nat mx \<le> c" using assms(2) by linarith
    with True entry assms(3-) Some p assms(2) show ?thesis
      by (auto simp: check_rate_limit_def or_default_def holds_counter_def redis_get_def live_def
          redis_set_def split: if_splits)
  next
    case False
    with entry assms(3-) Some p assms(2) show ?thesis
      by (auto simp: check_rate_limit_def or_default_def holds_counter_def redis_get_def live_def
          redis_set_def one_text split: if_splits)
  qed
qed

lemma rate_limit_key_inj: "rate_limit_key kt i win = rate_limit_key kt j win \<longleftrightarrow> i = j"
  by (simp add: rate_limit_key_def)

text \<open>The refinement: what one identifier observes is the run of its own counter.\<close>

lemma run_checks_refines:
  assumes "holds_counter (rate_limit_key kt i win) r s" and "1 \<le> mx" and "win \<noteq> 0"
  shows "map (\<lambda>(t, j, b). (t, b)) (filter (\<lambda>(t, j, b). j = i) (run_checks st kt mx win reqs r)) =
         counter_run (nat mx) (seconds win) (map fst (filter (\<lambda>(t, j). j = i) reqs)) s"
  using assms(1)
proof (induction reqs arbitrary: r s)
  case (Cons q reqs)
  obtain t j where q: "q = (t, j)" by (cases q)
  obtain res r' where chk: "check_rate_limit st t kt j (Some mx) (Some win) r = (res, r')"
    by fastforce
  show ?case
  proof (cases "j = i")
    case True
    obtain ok s' where step: "counter_step (nat mx) (seconds win) t s = (ok, s')" by fastforce
    from check_refines [OF Cons.prems assms(2,3) _ step] chk True
    have res: "res = Inr ok" and hold: "holds_counter (rate_limit_key kt i win) r' s'" by blast+
    from Cons.IH [OF hold] True q chk res step show ?thesis by (cases ok) simp_all
  next
    case False
    have "r' (rate_limit_key kt i win) = r (rate_limit_key kt i win)"
      using chk False rate_limit_key_inj assms(3)
      by (auto simp: check_rate_limit_def or_default_def redis_set_def Let_def
          split: option.splits rvalue.splits if_splits)
    then have "holds_counter (rate_limit_key kt i win) r' s"
      using Cons.prems by (simp add: holds_counter_def)
    from Cons.IH [OF this] False q chk show ?thesis by simp
  qed
qed simp

lemma admitted_of_run:
  "length (filter (\<lambda>(t, j, b). j = i \<and> b \<and> lo \<le> t \<and> t < hi) out) =
   admitted lo hi (map (\<lambda>(t, j, b). (t, b)) (filter (\<lambda>(t, j, b). j = i) out))"
  by (induction out) (auto simp: admitted_def)



lemma steady_counter:
  assumes "0 < g" and "g < W" and "1 \<le> c" and "c \<le> M"
  shows "counter_run M W (map (\<lambda>k. a + int k * g) [1..<Suc (M - c + 1)]) (Some (c, a + W)) =
         map (\<lambda>k. (a + int k * g, k \<noteq> M - c + 1)) [1..<Suc (M - c + 1)]"
  using assms(3,4)
proof (induction "M - c" arbitrary: c a)
  case 0
  then have "c = M" by simp
  then show ?case using assms(1,2) by simp
next
  case (Suc n)
  then have cM: "c < M" and n: "n = M - Suc c" by simp_all
  have split: "[1..<Suc (M - c + 1)] = 1 # map Suc [1..<Suc (M - Suc c + 1)]"
  proof -
    have "Suc (M - c + 1) = Suc (Suc (M - Suc c + 1))" using cM by simp
    then show ?thesis by (simp only: map_Suc_upt) (simp add: upt_conv_Cons del: upt_Suc)
  qed
  have shift: "map (\<lambda>k. a + int k * g) (map Suc ks) = map (\<lambda>k. (a + g) + int k * g) ks" for ks
    by (simp add: algebra_simps)
  have "counter_run M W (map (\<lambda>k. (a + g) + int k * g) [1..<Suc (M - Suc c + 1)]) (Some (Suc c, (a + g) + W)) =
        map (\<lambda>k. ((a + g) + int k * g, k \<noteq> M - Suc c + 1)) [1..<Suc (M - Suc c + 1)]"
    using n cM by (intro Suc.hyps(1)) simp_all
  then show ?case
    unfolding split list.map(2) shift using assms(2) cM Suc.prems
    by (simp add: Suc_diff_Suc algebra_simps del: upt_Suc)
qed

text \<open>
  The window never closes under steady traffic: a counter's expiry is pushed back by every
  admitted request, so a client that sends one request every \<open>window - 1\<close> seconds, and is
  therefore never above two requests in any window, is refused at request number \<open>max + 1\<close>.
\<close>

theorem steady_client_is_blocked:
  assumes "1 \<le> M" and "2 \<le> win"
    and "r (rate_limit_key kt i win) = None"
  shows "map (\<lambda>(t, j, b). b)
           (run_checks st kt (int M) win (map (\<lambda>k. (int k * seconds (win - 1), i)) [0..<Suc M]) r) =
         replicate M True @ [False]"
proof -
  let ?g = "seconds (win - 1)" and ?W = "seconds win"
  let ?reqs = "map (\<lambda>k. (int k * ?g, i)) [0..<Suc M]"
  have g: "0 < ?g" "?g < ?W" using assms(2) by (simp_all add: seconds_def)
  have hold: "holds_counter (rate_limit_key kt i win) r None"
    using assms(3) by (simp add: holds_counter_def)
  have only: "j = i" if "(t, j, b) \<in> set (run_checks st kt mx win (map (\<lambda>k. (f k, i)) ks) r')"
    for t j b f ks mx and r' :: "'a redis"
    using that by (induction ks arbitrary: r') (auto simp: Let_def split: prod.splits)
  have times: "map fst (filter (\<lambda>(t, j). j = i) ?reqs) = 0 # map (\<lambda>k. 0 + int k * ?g) [1..<Suc (M - 1 + 1)]"
    using assms(1) by (simp add: filter_True upt_conv_Cons comp_def del: upt_Suc)
  have "map (\<lambda>(t, j, b). (t, b)) (filter (\<lambda>(t, j, b). j = i) (run_checks st kt (int M) win ?reqs r)) =
        counter_run M ?W (map fst (filter (\<lambda>(t, j). j = i) ?reqs)) None"
    using run_checks_refines [OF hold, of "int M" st ?reqs] assms(1,2) by simp
  also have "\<dots> = (0, True) # map (\<lambda>k. (0 + int k * ?g, k \<noteq> M - 1 + 1)) [1..<Suc (M - 1 + 1)]"
    unfolding times using steady_counter [OF g, of 1 M 0] assms(1) by simp
  finally have pairs: "map (\<lambda>(t, j, b). (t, b)) (filter (\<lambda>(t, j, b). j = i) (run_checks st kt (int M) win ?reqs r)) = \<dots>" .
  have "filter (\<lambda>(t, j, b). j = i) (run_checks st kt (int M) win ?reqs r) = run_checks st kt (int M) win ?reqs r"
    by (rule filter_True) (use only in fastforce)
  then have "map (\<lambda>(t, j, b). b) (run_checks st kt (int M) win ?reqs r) =
      map snd (map (\<lambda>(t, j, b). (t, b)) (filter (\<lambda>(t, j, b). j = i) (run_checks st kt (int M) win ?reqs r)))"
    by (simp add: case_prod_beta comp_def)
  also have "\<dots> = True # map (\<lambda>k. k \<noteq> M) [1..<Suc M]"
    unfolding pairs using assms(1) by (simp add: comp_def del: upt_Suc)
  also have "\<dots> = replicate M True @ [False]"
    using assms(1) by (intro nth_equalityI) (auto simp: nth_append nth_Cons' simp del: upt_Suc)
  finally show ?thesis .
qed

theorem steady_client_is_blocked_witness:
  "map (\<lambda>(t, j, b). b)
     (run_checks \<lparr>rate_limit_default_max_requests = 30, rate_limit_default_window_seconds = 60\<rparr>
       ''auth:login'' (int 3) 300 (map (\<lambda>k. (int k * seconds (300 - 1), ''a'')) [0..<Suc 3])
       (Map.empty :: unit redis)) = replicate 3 True @ [False]"
  by (rule steady_client_is_blocked) simp_all

end
