(* ===== verification/Models.thy ===== *)
theory Models
  imports Common
begin

text \<open>
  The ORM models (\<open>models.py\<close> of each feature package and \<open>common/events.py\<close>): one record
  per table, one field per column, and the database as the lists of their rows. A column
  that may be NULL has an option type, a NUMERIC column is a rational number, a JSON column
  is a \<open>json\<close> value, and a status column is the text the code stores.
\<close>

datatype json =
    JNull
  | JBool bool
  | JInt int
  | JNum rat
  | JText string
  | JList "json list"
  | JObj "(string \<times> json) list"

definition jopt :: "string option \<Rightarrow> json" where
  "jopt s = (case s of None \<Rightarrow> JNull | Some t \<Rightarrow> JText t)"

section \<open>Users, roles and sessions\<close>

record User =
  u_id :: uuid
  u_email :: string
  u_password_hash :: string
  u_name :: "string option"
  u_phone :: "string option"
  u_preferred_language :: "string option"
  u_role_id :: "uuid option"
  u_is_active :: bool
  u_status :: string
  u_last_login_at :: "timestamp option"
  u_password_changed_at :: "timestamp option"
  u_created_at :: timestamp
  u_updated_at :: timestamp
  u_deleted_at :: "timestamp option"

record Role =
  r_id :: uuid
  r_name :: string
  r_slug :: string
  r_scope :: string
  r_description :: "string option"
  r_created_at :: timestamp
  r_updated_at :: timestamp

record Permission =
  p_id :: uuid
  p_key :: string
  p_scope :: string
  p_description :: "string option"
  p_created_at :: timestamp
  p_updated_at :: timestamp

record RolePermission =
  rp_role_id :: uuid
  rp_permission_id :: uuid
  rp_created_at :: timestamp

record RefreshSession =
  rs_id :: uuid
  rs_user_id :: uuid
  rs_token_hash :: string
  rs_family_id :: string
  rs_issued_at :: timestamp
  rs_expires_at :: timestamp
  rs_last_used_at :: "timestamp option"
  rs_revoked_at :: "timestamp option"
  rs_revocation_reason :: "string option"
  rs_replaced_by_session_id :: "uuid option"
  rs_ip_address :: "string option"
  rs_user_agent :: "string option"
  rs_created_at :: timestamp
  rs_updated_at :: timestamp

section \<open>Agencies\<close>

record AgencyTenant =
  at_id :: uuid
  at_name :: string
  at_slug :: string
  at_status :: string
  at_created_at :: timestamp
  at_updated_at :: timestamp
  at_deleted_at :: "timestamp option"

record AgencyEmployeeMembership =
  m_id :: uuid
  m_agency_tenant_id :: uuid
  m_user_id :: uuid
  m_role_id :: uuid
  m_status :: string
  m_display_name :: "string option"
  m_work_email :: "string option"
  m_deactivated_at :: "timestamp option"
  m_deactivated_by_user_id :: "uuid option"
  m_deactivation_reason :: "string option"
  m_created_at :: timestamp
  m_updated_at :: timestamp

record AgencyProfile =
  ap_id :: uuid
  ap_agency_tenant_id :: uuid
  ap_display_name :: string
  ap_legal_name :: "string option"
  ap_description :: "string option"
  ap_phone :: "string option"
  ap_email :: "string option"
  ap_website_url :: "string option"
  ap_address :: "string option"
  ap_city :: "string option"
  ap_country :: "string option"
  ap_status :: string
  ap_created_at :: timestamp
  ap_updated_at :: timestamp

section \<open>Listings\<close>

record Listing =
  l_id :: uuid
  l_agency_tenant_id :: uuid
  l_title :: string
  l_description :: "string option"
  l_property_type :: "string option"
  l_listing_purpose :: "string option"
  l_price :: "rat option"
  l_currency :: "string option"
  l_bedrooms :: "int option"
  l_bathrooms :: "int option"
  l_parking :: "int option"
  l_floor :: "int option"
  l_area_size :: "rat option"
  l_area_unit :: "string option"
  l_furnishing :: "string option"
  l_location_text :: "string option"
  l_address :: "string option"
  l_city :: "string option"
  l_country :: "string option"
  l_status :: string
  l_created_by_user_id :: "uuid option"
  l_updated_by_user_id :: "uuid option"
  l_created_at :: timestamp
  l_updated_at :: timestamp
  l_archived_at :: "timestamp option"

record ListingPhotoMetadata =
  ph_id :: uuid
  ph_listing_id :: uuid
  ph_agency_tenant_id :: uuid
  ph_object_key :: string
  ph_caption :: "string option"
  ph_alt_text :: "string option"
  ph_display_order :: int
  ph_status :: string
  ph_content_type :: "string option"
  ph_file_size_bytes :: "int option"
  ph_width :: "int option"
  ph_height :: "int option"
  ph_moderation_label :: "string option"
  ph_moderation_score :: "rat option"
  ph_quality_score :: "rat option"
  ph_created_at :: timestamp
  ph_updated_at :: timestamp

record ListingPhotoDerivative =
  d_id :: uuid
  d_listing_photo_metadata_id :: uuid
  d_variant_name :: string
  d_object_key :: string
  d_format :: string
  d_width :: int
  d_height :: int
  d_file_size_bytes :: int
  d_is_public_safe :: bool
  d_created_at :: timestamp

record SavedListing =
  sv_id :: uuid
  sv_user_id :: uuid
  sv_listing_id :: uuid
  sv_created_at :: timestamp
  sv_deleted_at :: "timestamp option"

record ComparisonSession =
  cs_id :: uuid
  cs_user_id :: uuid
  cs_name :: string
  cs_created_at :: timestamp
  cs_updated_at :: timestamp
  cs_deleted_at :: "timestamp option"

record ComparisonItem =
  ci_id :: uuid
  ci_comparison_session_id :: uuid
  ci_listing_id :: uuid
  ci_position :: nat
  ci_created_at :: timestamp

section \<open>Leads\<close>

record Lead =
  ld_id :: uuid
  ld_agency_tenant_id :: uuid
  ld_listing_id :: uuid
  ld_user_id :: "uuid option"
  ld_status :: string
  ld_processing_status :: string
  ld_name :: "string option"
  ld_email :: "string option"
  ld_phone :: "string option"
  ld_message :: "string option"
  ld_source :: "string option"
  ld_created_at :: timestamp
  ld_updated_at :: timestamp
  ld_closed_at :: "timestamp option"

text \<open>
  \<open>LeadSpamResult\<close> and \<open>LeadLevelResult\<close> have the same columns but for the name of the
  verdict (\<open>label\<close>, \<open>level\<close>); one record models both tables.
\<close>

record LeadResult =
  lr_id :: uuid
  lr_lead_id :: uuid
  lr_agency_tenant_id :: uuid
  lr_status :: string
  lr_label :: "string option"
  lr_score :: "rat option"
  lr_details :: "json option"
  lr_retry_count :: int
  lr_last_error :: "string option"
  lr_idempotency_key :: "string option"
  lr_created_at :: timestamp
  lr_updated_at :: timestamp

record ReviewedLeadRecord =
  rv_id :: uuid
  rv_lead_id :: uuid
  rv_agency_tenant_id :: uuid
  rv_reviewed_by_user_id :: "uuid option"
  rv_outcome :: "string option"
  rv_notes :: "string option"
  rv_created_at :: timestamp

section \<open>Viewings\<close>

record ListingViewingSlot =
  sl_id :: uuid
  sl_listing_id :: uuid
  sl_agency_tenant_id :: uuid
  sl_starts_at :: timestamp
  sl_ends_at :: timestamp
  sl_capacity :: int
  sl_reserved_count :: int
  sl_status :: string
  sl_created_by_user_id :: "uuid option"
  sl_created_at :: timestamp
  sl_updated_at :: timestamp

record ScheduledViewing =
  v_id :: uuid
  v_agency_tenant_id :: uuid
  v_listing_id :: uuid
  v_viewing_slot_id :: uuid
  v_user_id :: "uuid option"
  v_status :: string
  v_scheduled_start_at :: timestamp
  v_scheduled_end_at :: timestamp
  v_notes :: "string option"
  v_created_at :: timestamp
  v_updated_at :: timestamp

record ScheduledViewingStatusHistory =
  h_id :: uuid
  h_scheduled_viewing_id :: uuid
  h_agency_tenant_id :: uuid
  h_old_status :: "string option"
  h_new_status :: string
  h_changed_by_user_id :: "uuid option"
  h_reason :: "string option"
  h_created_at :: timestamp

section \<open>Notifications, events and logs\<close>

record Notification =
  n_id :: uuid
  n_recipient_user_id :: "uuid option"
  n_tenant_id :: "uuid option"
  n_channel :: string
  n_template_key :: "string option"
  n_payload :: "json option"
  n_status :: string
  n_outbox_event_id :: "uuid option"
  n_created_at :: timestamp
  n_updated_at :: timestamp
  n_sent_at :: "timestamp option"
  n_read_at :: "timestamp option"

record OutboxEvent =
  oe_id :: uuid
  oe_event_name :: string
  oe_aggregate_type :: "string option"
  oe_aggregate_id :: "string option"
  oe_idempotency_key :: string
  oe_payload :: json
  oe_status :: string
  oe_available_at :: timestamp
  oe_processed_at :: "timestamp option"
  oe_retry_count :: int
  oe_max_retries :: int
  oe_last_error :: "string option"
  oe_created_at :: timestamp
  oe_updated_at :: timestamp

record DomainEventLog =
  de_id :: uuid
  de_agency_tenant_id :: "uuid option"
  de_actor_user_id :: "uuid option"
  de_event_name :: string
  de_aggregate_type :: "string option"
  de_aggregate_id :: "string option"
  de_payload :: "json option"
  de_created_at :: timestamp

record MediaAuditLog =
  ma_id :: uuid
  ma_agency_tenant_id :: uuid
  ma_actor_user_id :: "uuid option"
  ma_listing_photo_metadata_id :: uuid
  ma_event_name :: string
  ma_result :: "string option"
  ma_details :: "json option"
  ma_created_at :: timestamp

record AuditLog =
  al_id :: uuid
  al_request_id :: "string option"
  al_actor_user_id :: "uuid option"
  al_tenant_id :: "uuid option"
  al_action :: string
  al_resource_type :: "string option"
  al_resource_id :: "string option"
  al_result :: "string option"
  al_event_metadata :: "json option"
  al_ip_address :: "string option"
  al_user_agent :: "string option"
  al_created_at :: timestamp

record SearchLog =
  sg_id :: uuid
  sg_user_id :: "uuid option"
  sg_agency_tenant_id :: "uuid option"
  sg_source_mode :: string
  sg_event_type :: string
  sg_raw_query_redacted :: "string option"
  sg_transcript_redacted :: "string option"
  sg_intent :: "json option"
  sg_filters :: "json option"
  sg_sort :: "string option"
  sg_result_count :: int
  sg_provider :: "string option"
  sg_fallback_reason :: "string option"
  sg_created_at :: timestamp

section \<open>The database\<close>

record db =
  users :: "User list"
  roles :: "Role list"
  permissions :: "Permission list"
  role_permissions :: "RolePermission list"
  refresh_sessions :: "RefreshSession list"
  agency_tenants :: "AgencyTenant list"
  memberships :: "AgencyEmployeeMembership list"
  agency_profiles :: "AgencyProfile list"
  listings :: "Listing list"
  photos :: "ListingPhotoMetadata list"
  derivatives :: "ListingPhotoDerivative list"
  saved_listings :: "SavedListing list"
  comparison_sessions :: "ComparisonSession list"
  comparison_items :: "ComparisonItem list"
  leads :: "Lead list"
  spam_results :: "LeadResult list"
  level_results :: "LeadResult list"
  reviewed_leads :: "ReviewedLeadRecord list"
  viewing_slots :: "ListingViewingSlot list"
  viewings :: "ScheduledViewing list"
  viewing_history :: "ScheduledViewingStatusHistory list"
  notifications :: "Notification list"
  outbox_events :: "OutboxEvent list"
  domain_event_logs :: "DomainEventLog list"
  media_audit_logs :: "MediaAuditLog list"
  audit_logs :: "AuditLog list"
  search_logs :: "SearchLog list"

definition empty_db :: db where
  "empty_db =
    \<lparr>users = [], roles = [], permissions = [], role_permissions = [], refresh_sessions = [],
     agency_tenants = [], memberships = [], agency_profiles = [], listings = [], photos = [],
     derivatives = [], saved_listings = [], comparison_sessions = [], comparison_items = [],
     leads = [], spam_results = [], level_results = [], reviewed_leads = [], viewing_slots = [],
     viewings = [], viewing_history = [], notifications = [], outbox_events = [],
     domain_event_logs = [], media_audit_logs = [], audit_logs = [], search_logs = []\<rparr>"

text \<open>
  What a request reads from its environment: the current time (\<open>datetime.now\<close>), the time
  the process imported \<open>common/events.py\<close>, and its supply of fresh UUIDs (\<open>uuid4\<close>). The
  columns of \<open>events.py\<close> are declared with \<open>default=datetime.now(timezone.utc)\<close>, a value
  that is computed once, at import; every other model passes the function.
\<close>

record ctx_env =
  now_at :: timestamp
  boot_at :: timestamp
  fresh :: "nat \<Rightarrow> uuid"

section \<open>Events and logs: \<open>common/events.py\<close>\<close>

definition write_domain_event_log ::
  "ctx_env \<Rightarrow> uuid \<Rightarrow> string \<Rightarrow> string option \<Rightarrow> string option \<Rightarrow> json option \<Rightarrow> uuid option
     \<Rightarrow> uuid option \<Rightarrow> db \<Rightarrow> db" where
  "write_domain_event_log E i event_name aggregate_type aggregate_id payload agency_tenant_id
     actor_user_id D =
     D\<lparr>domain_event_logs := domain_event_logs D @
        [\<lparr>de_id = i, de_agency_tenant_id = agency_tenant_id, de_actor_user_id = actor_user_id,
          de_event_name = event_name, de_aggregate_type = aggregate_type,
          de_aggregate_id = aggregate_id, de_payload = payload, de_created_at = boot_at E\<rparr>]\<rparr>"

definition new_outbox_event ::
  "ctx_env \<Rightarrow> uuid \<Rightarrow> string \<Rightarrow> json \<Rightarrow> string \<Rightarrow> string option \<Rightarrow> string option \<Rightarrow> OutboxEvent" where
  "new_outbox_event E i event_name payload idempotency_key aggregate_type aggregate_id =
     \<lparr>oe_id = i, oe_event_name = event_name, oe_aggregate_type = aggregate_type,
      oe_aggregate_id = aggregate_id, oe_idempotency_key = idempotency_key, oe_payload = payload,
      oe_status = ''pending'', oe_available_at = boot_at E, oe_processed_at = None,
      oe_retry_count = 0, oe_max_retries = 3, oe_last_error = None, oe_created_at = boot_at E,
      oe_updated_at = boot_at E\<rparr>"

text \<open>The event is added to the caller's session; the UNIQUE constraint on the key is checked at the flush.\<close>

definition publish_outbox_event_in_session ::
  "ctx_env \<Rightarrow> uuid \<Rightarrow> string \<Rightarrow> json \<Rightarrow> string \<Rightarrow> string option \<Rightarrow> string option \<Rightarrow> db
     \<Rightarrow> py_exc + db" where
  "publish_outbox_event_in_session E i event_name payload idempotency_key aggregate_type
     aggregate_id D =
     (if idempotency_key \<in> oe_idempotency_key ` set (outbox_events D)
      then Inl (IntegrityError ''outbox_events_idempotency_key_key'')
      else Inr (D\<lparr>outbox_events := outbox_events D @
             [new_outbox_event E i event_name payload idempotency_key aggregate_type aggregate_id]\<rparr>))"

definition write_media_audit_log ::
  "ctx_env \<Rightarrow> uuid \<Rightarrow> string \<Rightarrow> uuid \<Rightarrow> uuid \<Rightarrow> string option \<Rightarrow> json option \<Rightarrow> uuid option \<Rightarrow> db \<Rightarrow> db" where
  "write_media_audit_log E i event_name agency_tenant_id photo_id result details actor_user_id D =
     D\<lparr>media_audit_logs := media_audit_logs D @
        [\<lparr>ma_id = i, ma_agency_tenant_id = agency_tenant_id, ma_actor_user_id = actor_user_id,
          ma_listing_photo_metadata_id = photo_id, ma_event_name = event_name, ma_result = result,
          ma_details = details, ma_created_at = boot_at E\<rparr>]\<rparr>"

section \<open>The audit log: \<open>audit/service.py\<close>\<close>

definition log_auth_event ::
  "ctx_env \<Rightarrow> uuid \<Rightarrow> string \<Rightarrow> string \<Rightarrow> uuid option \<Rightarrow> uuid option \<Rightarrow> string option \<Rightarrow> string option
     \<Rightarrow> string option \<Rightarrow> json option \<Rightarrow> db \<Rightarrow> db" where
  "log_auth_event E i action result actor_user_id tenant_id request_id ip_address user_agent metadata D =
     D\<lparr>audit_logs := audit_logs D @
        [\<lparr>al_id = i, al_request_id = request_id, al_actor_user_id = actor_user_id,
          al_tenant_id = tenant_id, al_action = action, al_resource_type = None,
          al_resource_id = None, al_result = Some result,
          al_event_metadata = Some (case metadata of None \<Rightarrow> JObj [] | Some m \<Rightarrow> m),
          al_ip_address = ip_address, al_user_agent = user_agent, al_created_at = now_at E\<rparr>]\<rparr>"

definition log_permission_denied ::
  "ctx_env \<Rightarrow> uuid \<Rightarrow> uuid \<Rightarrow> string \<Rightarrow> uuid option \<Rightarrow> string option \<Rightarrow> string option \<Rightarrow> string option
     \<Rightarrow> db \<Rightarrow> db" where
  "log_permission_denied E i actor required_permission tenant_id request_id ip ua D =
     log_auth_event E i ''auth.permission_denied'' ''denied'' (Some actor) tenant_id request_id ip ua
       (Some (JObj [(''required_permission'', JText required_permission)])) D"

definition log_tenant_denied ::
  "ctx_env \<Rightarrow> uuid \<Rightarrow> uuid \<Rightarrow> uuid \<Rightarrow> string option \<Rightarrow> string option \<Rightarrow> string option \<Rightarrow> db \<Rightarrow> db" where
  "log_tenant_denied E i actor attempted request_id ip ua D =
     log_auth_event E i ''auth.tenant_denied'' ''denied'' (Some actor) (Some attempted) request_id ip ua
       (Some (JObj [(''attempted_tenant'', JText attempted)])) D"

definition log_rate_limited ::
  "ctx_env \<Rightarrow> uuid \<Rightarrow> string \<Rightarrow> string \<Rightarrow> string option \<Rightarrow> string option \<Rightarrow> db \<Rightarrow> db" where
  "log_rate_limited E i action identifier ip ua D =
     log_auth_event E i ''auth.rate_limited'' ''denied'' None None None ip ua
       (Some (JObj [(''action'', JText action), (''identifier'', JText identifier)])) D"

definition log_lead_processing ::
  "ctx_env \<Rightarrow> uuid \<Rightarrow> string \<Rightarrow> string \<Rightarrow> uuid \<Rightarrow> uuid \<Rightarrow> string option \<Rightarrow> (string \<times> json) list
     \<Rightarrow> uuid option \<Rightarrow> string option \<Rightarrow> string option \<Rightarrow> string option \<Rightarrow> db \<Rightarrow> db" where
  "log_lead_processing E i action result lead_id tenant_id stage details actor request_id ip ua D =
     (let base = [(''lead_id'', JText lead_id), (''processing_stage'', jopt stage)];
          metadata = filter (\<lambda>(k, v). k \<notin> fst ` set details) base @ details
      in log_auth_event E i (''lead_processing.'' @ action) result actor (Some tenant_id) request_id
           ip ua (Some (JObj metadata)) D)"

text \<open>Writing a log row leaves every other table as it was.\<close>

lemma write_domain_event_log_frame [simp]:
  "users (write_domain_event_log E i nm ty ag pl tn ac D) = users D"
  "roles (write_domain_event_log E i nm ty ag pl tn ac D) = roles D"
  "permissions (write_domain_event_log E i nm ty ag pl tn ac D) = permissions D"
  "role_permissions (write_domain_event_log E i nm ty ag pl tn ac D) = role_permissions D"
  "refresh_sessions (write_domain_event_log E i nm ty ag pl tn ac D) = refresh_sessions D"
  "agency_tenants (write_domain_event_log E i nm ty ag pl tn ac D) = agency_tenants D"
  "memberships (write_domain_event_log E i nm ty ag pl tn ac D) = memberships D"
  "agency_profiles (write_domain_event_log E i nm ty ag pl tn ac D) = agency_profiles D"
  "listings (write_domain_event_log E i nm ty ag pl tn ac D) = listings D"
  "photos (write_domain_event_log E i nm ty ag pl tn ac D) = photos D"
  "derivatives (write_domain_event_log E i nm ty ag pl tn ac D) = derivatives D"
  "saved_listings (write_domain_event_log E i nm ty ag pl tn ac D) = saved_listings D"
  "comparison_sessions (write_domain_event_log E i nm ty ag pl tn ac D) = comparison_sessions D"
  "comparison_items (write_domain_event_log E i nm ty ag pl tn ac D) = comparison_items D"
  "leads (write_domain_event_log E i nm ty ag pl tn ac D) = leads D"
  "spam_results (write_domain_event_log E i nm ty ag pl tn ac D) = spam_results D"
  "level_results (write_domain_event_log E i nm ty ag pl tn ac D) = level_results D"
  "reviewed_leads (write_domain_event_log E i nm ty ag pl tn ac D) = reviewed_leads D"
  "viewing_slots (write_domain_event_log E i nm ty ag pl tn ac D) = viewing_slots D"
  "viewings (write_domain_event_log E i nm ty ag pl tn ac D) = viewings D"
  "viewing_history (write_domain_event_log E i nm ty ag pl tn ac D) = viewing_history D"
  "notifications (write_domain_event_log E i nm ty ag pl tn ac D) = notifications D"
  "outbox_events (write_domain_event_log E i nm ty ag pl tn ac D) = outbox_events D"
  "media_audit_logs (write_domain_event_log E i nm ty ag pl tn ac D) = media_audit_logs D"
  "audit_logs (write_domain_event_log E i nm ty ag pl tn ac D) = audit_logs D"
  "search_logs (write_domain_event_log E i nm ty ag pl tn ac D) = search_logs D"
  by (simp_all add: write_domain_event_log_def)

lemma write_media_audit_log_frame [simp]:
  "users (write_media_audit_log E i nm tn ph rs dt ac D) = users D"
  "roles (write_media_audit_log E i nm tn ph rs dt ac D) = roles D"
  "permissions (write_media_audit_log E i nm tn ph rs dt ac D) = permissions D"
  "role_permissions (write_media_audit_log E i nm tn ph rs dt ac D) = role_permissions D"
  "refresh_sessions (write_media_audit_log E i nm tn ph rs dt ac D) = refresh_sessions D"
  "agency_tenants (write_media_audit_log E i nm tn ph rs dt ac D) = agency_tenants D"
  "memberships (write_media_audit_log E i nm tn ph rs dt ac D) = memberships D"
  "agency_profiles (write_media_audit_log E i nm tn ph rs dt ac D) = agency_profiles D"
  "listings (write_media_audit_log E i nm tn ph rs dt ac D) = listings D"
  "photos (write_media_audit_log E i nm tn ph rs dt ac D) = photos D"
  "derivatives (write_media_audit_log E i nm tn ph rs dt ac D) = derivatives D"
  "saved_listings (write_media_audit_log E i nm tn ph rs dt ac D) = saved_listings D"
  "comparison_sessions (write_media_audit_log E i nm tn ph rs dt ac D) = comparison_sessions D"
  "comparison_items (write_media_audit_log E i nm tn ph rs dt ac D) = comparison_items D"
  "leads (write_media_audit_log E i nm tn ph rs dt ac D) = leads D"
  "spam_results (write_media_audit_log E i nm tn ph rs dt ac D) = spam_results D"
  "level_results (write_media_audit_log E i nm tn ph rs dt ac D) = level_results D"
  "reviewed_leads (write_media_audit_log E i nm tn ph rs dt ac D) = reviewed_leads D"
  "viewing_slots (write_media_audit_log E i nm tn ph rs dt ac D) = viewing_slots D"
  "viewings (write_media_audit_log E i nm tn ph rs dt ac D) = viewings D"
  "viewing_history (write_media_audit_log E i nm tn ph rs dt ac D) = viewing_history D"
  "notifications (write_media_audit_log E i nm tn ph rs dt ac D) = notifications D"
  "outbox_events (write_media_audit_log E i nm tn ph rs dt ac D) = outbox_events D"
  "domain_event_logs (write_media_audit_log E i nm tn ph rs dt ac D) = domain_event_logs D"
  "audit_logs (write_media_audit_log E i nm tn ph rs dt ac D) = audit_logs D"
  "search_logs (write_media_audit_log E i nm tn ph rs dt ac D) = search_logs D"
  by (simp_all add: write_media_audit_log_def)

lemma log_auth_event_frame [simp]:
  "users (log_auth_event E i ac rs us tn rq ip ua md D) = users D"
  "roles (log_auth_event E i ac rs us tn rq ip ua md D) = roles D"
  "permissions (log_auth_event E i ac rs us tn rq ip ua md D) = permissions D"
  "role_permissions (log_auth_event E i ac rs us tn rq ip ua md D) = role_permissions D"
  "refresh_sessions (log_auth_event E i ac rs us tn rq ip ua md D) = refresh_sessions D"
  "agency_tenants (log_auth_event E i ac rs us tn rq ip ua md D) = agency_tenants D"
  "memberships (log_auth_event E i ac rs us tn rq ip ua md D) = memberships D"
  "agency_profiles (log_auth_event E i ac rs us tn rq ip ua md D) = agency_profiles D"
  "listings (log_auth_event E i ac rs us tn rq ip ua md D) = listings D"
  "photos (log_auth_event E i ac rs us tn rq ip ua md D) = photos D"
  "derivatives (log_auth_event E i ac rs us tn rq ip ua md D) = derivatives D"
  "saved_listings (log_auth_event E i ac rs us tn rq ip ua md D) = saved_listings D"
  "comparison_sessions (log_auth_event E i ac rs us tn rq ip ua md D) = comparison_sessions D"
  "comparison_items (log_auth_event E i ac rs us tn rq ip ua md D) = comparison_items D"
  "leads (log_auth_event E i ac rs us tn rq ip ua md D) = leads D"
  "spam_results (log_auth_event E i ac rs us tn rq ip ua md D) = spam_results D"
  "level_results (log_auth_event E i ac rs us tn rq ip ua md D) = level_results D"
  "reviewed_leads (log_auth_event E i ac rs us tn rq ip ua md D) = reviewed_leads D"
  "viewing_slots (log_auth_event E i ac rs us tn rq ip ua md D) = viewing_slots D"
  "viewings (log_auth_event E i ac rs us tn rq ip ua md D) = viewings D"
  "viewing_history (log_auth_event E i ac rs us tn rq ip ua md D) = viewing_history D"
  "notifications (log_auth_event E i ac rs us tn rq ip ua md D) = notifications D"
  "outbox_events (log_auth_event E i ac rs us tn rq ip ua md D) = outbox_events D"
  "domain_event_logs (log_auth_event E i ac rs us tn rq ip ua md D) = domain_event_logs D"
  "media_audit_logs (log_auth_event E i ac rs us tn rq ip ua md D) = media_audit_logs D"
  "search_logs (log_auth_event E i ac rs us tn rq ip ua md D) = search_logs D"
  by (simp_all add: log_auth_event_def)

lemma publish_outbox_Inr:
  "publish_outbox_event_in_session E i nm pl key ty ag D = Inr D' \<longleftrightarrow>
     key \<notin> oe_idempotency_key ` set (outbox_events D) \<and>
     D' = D\<lparr>outbox_events := outbox_events D @ [new_outbox_event E i nm pl key ty ag]\<rparr>"
  by (auto simp: publish_outbox_event_in_session_def)

lemma new_outbox_event_fields [simp]:
  "oe_id (new_outbox_event E i nm pl key ty ag) = i"
  "oe_event_name (new_outbox_event E i nm pl key ty ag) = nm"
  "oe_aggregate_id (new_outbox_event E i nm pl key ty ag) = ag"
  "oe_idempotency_key (new_outbox_event E i nm pl key ty ag) = key"
  "oe_payload (new_outbox_event E i nm pl key ty ag) = pl"
  "oe_status (new_outbox_event E i nm pl key ty ag) = ''pending''"
  by (simp_all add: new_outbox_event_def)

lemmas log_defs =
  write_domain_event_log_def write_media_audit_log_def log_auth_event_def

end
