(* ===== verification/Listings.thy ===== *)
theory Listings
  imports Models RateLimit
begin

text \<open>
  The agency side of listings: \<open>ListingRepository\<close> and the listing operations of
  \<open>ListingService\<close> (\<open>backend/app/listings\<close>). An operation takes the request's environment,
  the tenant context and the pair of database and Redis, and returns an exception or its
  result with the new pair; an exception leaves both as they were, because the code raises
  before it touches Redis and the request's transaction is rolled back.
\<close>

section \<open>Repository\<close>

definition get_listing_by_id :: "uuid \<Rightarrow> db \<Rightarrow> Listing option" where
  "get_listing_by_id i D = find_row l_id i (listings D)"

text \<open>\<open>WHERE agency_tenant_id = :tenant\<close>; a context without tenant compares with NULL and selects nothing.\<close>

definition list_by_tenant :: "uuid option \<Rightarrow> db \<Rightarrow> Listing list" where
  "list_by_tenant tenant_id D =
     sort_key (\<lambda>l. Desc (l_created_at l))
       (filter (\<lambda>l. tenant_id = Some (l_agency_tenant_id l)) (listings D))"

definition list_distinct_cities :: "db \<Rightarrow> string list" where
  "list_distinct_cities D =
     sort_key py_lower
       (filter (\<lambda>c. c \<noteq> [])
         (remdups (List.map_filter
            (\<lambda>l. case l_city l of
                   None \<Rightarrow> None
                 | Some c \<Rightarrow> if dropWhile (\<lambda>x. x = CHR '' '') c \<noteq> [] then Some c else None)
            (listings D))))"

text \<open>\<open>onupdate\<close>: a flush writes \<open>updated_at\<close> when some column changed, and writes nothing otherwise.\<close>

definition listing_flush :: "ctx_env \<Rightarrow> Listing \<Rightarrow> Listing \<Rightarrow> Listing" where
  "listing_flush E old new = (if new = old then old else new\<lparr>l_updated_at := now_at E\<rparr>)"

definition store_listing :: "uuid \<Rightarrow> Listing \<Rightarrow> db \<Rightarrow> db" where
  "store_listing listing_id new D = D\<lparr>listings := update_row l_id listing_id (\<lambda>_. new) (listings D)\<rparr>"

section \<open>Reading\<close>

definition list_tenant_listings ::
  "TenantContext option \<Rightarrow> pagination \<Rightarrow> db \<Rightarrow> py_exc + Listing pagination_result" where
  "list_tenant_listings tenant p D =
     sbind (require_tenant tenant) (\<lambda>ctx. page_of (list_by_tenant (tc_tenant_id ctx) D) p)"

definition get_listing :: "TenantContext option \<Rightarrow> uuid \<Rightarrow> db \<Rightarrow> py_exc + Listing" where
  "get_listing tenant listing_id D =
     sbind (require_tenant tenant) (\<lambda>ctx.
     case get_listing_by_id listing_id D of
       None \<Rightarrow> Inl (NotFoundError ''Listing not found'')
     | Some listing \<Rightarrow>
         sbind (ensure_tenant_match tenant (l_agency_tenant_id listing)) (\<lambda>_. Inr listing))"

definition read_only_get_listing :: "TenantContext option \<Rightarrow> uuid \<Rightarrow> db \<Rightarrow> py_exc + Listing option" where
  "read_only_get_listing tenant listing_id D =
     sbind (require_tenant tenant) (\<lambda>ctx.
     case get_listing_by_id listing_id D of
       None \<Rightarrow> Inr None
     | Some listing \<Rightarrow>
         if Some (l_agency_tenant_id listing) \<noteq> tc_tenant_id ctx then Inr None
         else Inr (Some listing))"

text \<open>
  \<open>read_only_search_listings\<close> reads \<open>settings\<close>, a name the module never imports: once the
  tenant check has passed, evaluating the limit raises \<open>NameError\<close>, whatever the arguments.
\<close>

definition read_only_search_listings ::
  "TenantContext option \<Rightarrow> string option \<Rightarrow> string option \<Rightarrow> int \<Rightarrow> db \<Rightarrow> py_exc + Listing list" where
  "read_only_search_listings tenant query status cnt D =
     sbind (require_tenant tenant) (\<lambda>ctx. Inl (NameError ''settings''))"

section \<open>Writing\<close>

text \<open>
  The request body after \<open>model_dump\<close>: \<open>None\<close> stands for a field that is absent or null,
  which every reader of the dictionary treats alike.
\<close>

record ListingData =
  dt_title :: "string option"
  dt_description :: "string option"
  dt_property_type :: "string option"
  dt_listing_purpose :: "string option"
  dt_price :: "rat option"
  dt_currency :: "string option"
  dt_bedrooms :: "int option"
  dt_bathrooms :: "int option"
  dt_parking :: "int option"
  dt_floor :: "int option"
  dt_area_size :: "rat option"
  dt_area_unit :: "string option"
  dt_furnishing :: "string option"
  dt_location_text :: "string option"
  dt_address :: "string option"
  dt_city :: "string option"
  dt_country :: "string option"
  dt_status :: "string option"

definition PLATFORM_DASHBOARD_INSIGHTS_CACHE_NAMESPACE :: string where
  "PLATFORM_DASHBOARD_INSIGHTS_CACHE_NAMESPACE = ''platform_dashboard:insights''"

definition invalidate_platform_dashboard :: "'v redis \<Rightarrow> 'v redis" where
  "invalidate_platform_dashboard r =
     cache_invalidate_namespace PLATFORM_DASHBOARD_INSIGHTS_CACHE_NAMESPACE r"

definition new_listing :: "ctx_env \<Rightarrow> TenantContext \<Rightarrow> uuid \<Rightarrow> string \<Rightarrow> string \<Rightarrow> ListingData \<Rightarrow> Listing" where
  "new_listing E ctx t title status data =
     \<lparr>l_id = fresh E 0, l_agency_tenant_id = t, l_title = title,
      l_description = dt_description data, l_property_type = dt_property_type data,
      l_listing_purpose = dt_listing_purpose data, l_price = dt_price data,
      l_currency = dt_currency data, l_bedrooms = dt_bedrooms data,
      l_bathrooms = dt_bathrooms data, l_parking = None, l_floor = None,
      l_area_size = dt_area_size data, l_area_unit = dt_area_unit data,
      l_furnishing = dt_furnishing data, l_location_text = dt_location_text data,
      l_address = dt_address data, l_city = dt_city data, l_country = dt_country data,
      l_status = status, l_created_by_user_id = tc_actor_id ctx, l_updated_by_user_id = None,
      l_created_at = now_at E, l_updated_at = now_at E, l_archived_at = None\<rparr>"

definition create_listing ::
  "ctx_env \<Rightarrow> TenantContext option \<Rightarrow> ListingData \<Rightarrow> db \<times> 'v redis \<Rightarrow> py_exc + Listing \<times> db \<times> 'v redis" where
  "create_listing E tenant data w =
     sbind (require_tenant tenant) (\<lambda>ctx.
     if tc_role ctx = Some ''support_employee''
     then Inl (ForbiddenError ''Support employees cannot create listings'')
     else case dt_title data of
       None \<Rightarrow> Inl (KeyError ''title'')
     | Some title \<Rightarrow>
         (let status = (case dt_status data of None \<Rightarrow> ''inactive'' | Some s \<Rightarrow> s)
          in if status \<notin> set VALID_LISTING_STATUSES
             then Inl (ValidationError (''Invalid listing status: '' @ status))
             else case tc_tenant_id ctx of
               None \<Rightarrow> Inl (IntegrityError ''listings.agency_tenant_id is NOT NULL'')
             | Some t \<Rightarrow>
                 (let listing = new_listing E ctx t title status data;
                      D1 = (fst w)\<lparr>listings := listings (fst w) @ [listing]\<rparr>;
                      r1 = invalidate_listing_search_cache (Some (l_id listing)) (snd w);
                      r2 = invalidate_platform_dashboard r1;
                      D2 = write_domain_event_log E (fresh E 1) ''listing.created''
                             (Some ''listing'') (Some (l_id listing))
                             (Some (JObj [(''title'', JText (l_title listing)),
                                          (''status'', JText (l_status listing))]))
                             (tc_tenant_id ctx) (tc_actor_id ctx) D1
                  in Inr (listing, D2, r2))))"

text \<open>\<open>if field in data and data[field] is not None: setattr\<close>, for the fields the loop names.\<close>

definition set_if :: "'a option \<Rightarrow> 'a option \<Rightarrow> 'a option" where
  "set_if new old = (case new of None \<Rightarrow> old | Some x \<Rightarrow> Some x)"

definition apply_listing_fields :: "ListingData \<Rightarrow> Listing \<Rightarrow> Listing" where
  "apply_listing_fields data l =
     l\<lparr>l_title := (case dt_title data of None \<Rightarrow> l_title l | Some t \<Rightarrow> t),
       l_description := set_if (dt_description data) (l_description l),
       l_property_type := set_if (dt_property_type data) (l_property_type l),
       l_listing_purpose := set_if (dt_listing_purpose data) (l_listing_purpose l),
       l_price := set_if (dt_price data) (l_price l),
       l_currency := set_if (dt_currency data) (l_currency l),
       l_bedrooms := set_if (dt_bedrooms data) (l_bedrooms l),
       l_bathrooms := set_if (dt_bathrooms data) (l_bathrooms l),
       l_area_size := set_if (dt_area_size data) (l_area_size l),
       l_area_unit := set_if (dt_area_unit data) (l_area_unit l),
       l_furnishing := set_if (dt_furnishing data) (l_furnishing l),
       l_location_text := set_if (dt_location_text data) (l_location_text l),
       l_address := set_if (dt_address data) (l_address l),
       l_city := set_if (dt_city data) (l_city l),
       l_country := set_if (dt_country data) (l_country l)\<rparr>"

definition apply_listing_status :: "ctx_env \<Rightarrow> string option \<Rightarrow> Listing \<Rightarrow> py_exc + Listing" where
  "apply_listing_status E status l =
     (case status of
        None \<Rightarrow> Inr l
      | Some new_status \<Rightarrow>
          if new_status \<notin> set VALID_LISTING_STATUSES
          then Inl (ValidationError (''Invalid listing status: '' @ new_status))
          else if \<not> allowed_transition LISTING_STATUS_TRANSITIONS (l_status l) new_status
          then Inl (ValidationError
                 (''Cannot transition from '' @ quoted (l_status l) @ '' to '' @ quoted new_status))
          else Inr (l\<lparr>l_status := new_status,
                      l_archived_at := (if new_status = ''archived'' then Some (now_at E)
                                        else l_archived_at l)\<rparr>))"

definition updated_row :: "ctx_env \<Rightarrow> TenantContext \<Rightarrow> Listing \<Rightarrow> Listing \<Rightarrow> Listing" where
  "updated_row E ctx old l1 = listing_flush E old (l1\<lparr>l_updated_by_user_id := tc_actor_id ctx\<rparr>)"

definition update_listing ::
  "ctx_env \<Rightarrow> TenantContext option \<Rightarrow> uuid \<Rightarrow> ListingData \<Rightarrow> db \<times> 'v redis
     \<Rightarrow> py_exc + Listing \<times> db \<times> 'v redis" where
  "update_listing E tenant listing_id data w =
     sbind (require_tenant tenant) (\<lambda>ctx.
     case get_listing_by_id listing_id (fst w) of
       None \<Rightarrow> Inl (NotFoundError ''Listing not found'')
     | Some old \<Rightarrow>
         sbind (ensure_tenant_match tenant (l_agency_tenant_id old)) (\<lambda>_.
         sbind (apply_listing_status E (dt_status data) (apply_listing_fields data old)) (\<lambda>l1.
           (let listing = updated_row E ctx old l1;
                D1 = store_listing listing_id listing (fst w);
                r1 = invalidate_listing_search_cache (Some listing_id) (snd w);
                r2 = invalidate_platform_dashboard r1;
                D2 = write_domain_event_log E (fresh E 0) ''listing.updated''
                       (Some ''listing'') (Some listing_id)
                       (Some (JObj [(''status'', JText (l_status listing))]))
                       (tc_tenant_id ctx) (tc_actor_id ctx) D1
            in Inr (listing, D2, r2)))))"

definition archived_row :: "ctx_env \<Rightarrow> TenantContext \<Rightarrow> Listing \<Rightarrow> Listing" where
  "archived_row E ctx old =
     listing_flush E old
       (old\<lparr>l_status := ''archived'', l_archived_at := Some (now_at E),
            l_updated_by_user_id := tc_actor_id ctx\<rparr>)"

definition archive_listing ::
  "ctx_env \<Rightarrow> TenantContext option \<Rightarrow> uuid \<Rightarrow> db \<times> 'v redis \<Rightarrow> py_exc + unit \<times> db \<times> 'v redis" where
  "archive_listing E tenant listing_id w =
     sbind (require_tenant tenant) (\<lambda>ctx.
     case get_listing_by_id listing_id (fst w) of
       None \<Rightarrow> Inl (NotFoundError ''Listing not found'')
     | Some old \<Rightarrow>
         sbind (ensure_tenant_match tenant (l_agency_tenant_id old)) (\<lambda>_.
         if l_status old = ''archived'' then Inr ((), w)
         else
           (let D1 = store_listing listing_id (archived_row E ctx old) (fst w);
                r1 = invalidate_listing_search_cache (Some listing_id) (snd w);
                r2 = invalidate_platform_dashboard r1;
                D2 = write_domain_event_log E (fresh E 0) ''listing.archived''
                       (Some ''listing'') (Some listing_id) None
                       (tc_tenant_id ctx) (tc_actor_id ctx) D1
            in Inr ((), D2, r2))))"

section \<open>Invariants\<close>

text \<open>
  Well-formed listings: distinct identifiers, a known status, and an archive time for every
  archived listing.
\<close>

definition listing_ok :: "Listing \<Rightarrow> bool" where
  "listing_ok l \<longleftrightarrow> l_status l \<in> set VALID_LISTING_STATUSES \<and>
     (l_status l = ''archived'' \<longrightarrow> l_archived_at l \<noteq> None)"

definition listings_wf :: "db \<Rightarrow> bool" where
  "listings_wf D \<longleftrightarrow> unique_on l_id (listings D) \<and> (\<forall>l \<in> set (listings D). listing_ok l)"

lemma listing_flush_fields [simp]:
  "l_id (listing_flush E old new) = (if new = old then l_id old else l_id new)"
  "l_agency_tenant_id (listing_flush E old new) = l_agency_tenant_id new"
  "l_status (listing_flush E old new) = l_status new"
  "l_archived_at (listing_flush E old new) = l_archived_at new"
  "l_parking (listing_flush E old new) = l_parking new"
  "l_floor (listing_flush E old new) = l_floor new"
  by (auto simp: listing_flush_def)

lemma listing_flush_ok: "listing_ok (listing_flush E old new) = listing_ok new"
  by (auto simp: listing_ok_def)

lemma apply_listing_fields_keeps [simp]:
  "l_id (apply_listing_fields d l) = l_id l"
  "l_agency_tenant_id (apply_listing_fields d l) = l_agency_tenant_id l"
  "l_status (apply_listing_fields d l) = l_status l"
  "l_archived_at (apply_listing_fields d l) = l_archived_at l"
  "l_parking (apply_listing_fields d l) = l_parking l"
  "l_floor (apply_listing_fields d l) = l_floor l"
  by (simp_all add: apply_listing_fields_def)

lemma apply_listing_status_Inr:
  "apply_listing_status E st l = Inr l' \<Longrightarrow>
     l_id l' = l_id l \<and> l_agency_tenant_id l' = l_agency_tenant_id l \<and>
     l_parking l' = l_parking l \<and> l_floor l' = l_floor l \<and>
     (l_status l' = l_status l \<and> l_archived_at l' = l_archived_at l \<or>
      allowed_transition LISTING_STATUS_TRANSITIONS (l_status l) (l_status l') \<and>
      l_archived_at l' = (if l_status l' = ''archived'' then Some (now_at E) else l_archived_at l))"
  by (auto simp: apply_listing_status_def split: option.splits if_splits)

lemma apply_listing_status_ok:
  "listing_ok l \<Longrightarrow> apply_listing_status E st l = Inr l' \<Longrightarrow> listing_ok l'"
  by (auto simp: apply_listing_status_def listing_ok_def split: option.splits if_splits)

text \<open>Inversion of the three writers: what a successful call did to the listings and to nothing else.\<close>

lemma create_listing_Inr:
  assumes "create_listing E tenant data w = Inr (l, w')"
  shows "\<exists>ctx t title. tenant = Some ctx \<and> tc_tenant_id ctx = Some t \<and>
    tc_role ctx \<noteq> Some ''support_employee'' \<and>
    l = new_listing E ctx t title (case dt_status data of None \<Rightarrow> ''inactive'' | Some s \<Rightarrow> s) data \<and>
    (case dt_status data of None \<Rightarrow> ''inactive'' | Some s \<Rightarrow> s) \<in> set VALID_LISTING_STATUSES \<and>
    listings (fst w') = listings (fst w) @ [l]"
  using assms
  by (fastforce simp: create_listing_def run_simps dest!: require_tenant_Some)

lemma update_listing_Inr:
  assumes "update_listing E tenant i data w = Inr (l, w')"
  shows "\<exists>ctx old l1. tenant = Some ctx \<and> find_row l_id i (listings (fst w)) = Some old \<and>
    ensure_tenant_match tenant (l_agency_tenant_id old) = Inr () \<and>
    apply_listing_status E (dt_status data) (apply_listing_fields data old) = Inr l1 \<and>
    l = updated_row E ctx old l1 \<and>
    listings (fst w') = update_row l_id i (\<lambda>_. l) (listings (fst w))"
  using assms
  by (fastforce simp: update_listing_def run_simps get_listing_by_id_def store_listing_def
      dest!: require_tenant_Some)

lemma archive_listing_Inr:
  assumes "archive_listing E tenant i w = Inr (u, w')"
  shows "\<exists>ctx old. tenant = Some ctx \<and> find_row l_id i (listings (fst w)) = Some old \<and>
    ensure_tenant_match tenant (l_agency_tenant_id old) = Inr () \<and>
    (l_status old = ''archived'' \<and> w' = w \<or>
     l_status old \<noteq> ''archived'' \<and>
     listings (fst w') = update_row l_id i (\<lambda>_. archived_row E ctx old) (listings (fst w)))"
proof -
  from assms obtain ctx old where ctx: "require_tenant tenant = Inr ctx"
    and old: "find_row l_id i (listings (fst w)) = Some old"
    and tm: "ensure_tenant_match tenant (l_agency_tenant_id old) = Inr ()"
    unfolding archive_listing_def sbind_Inr_iff case_option_Inr_iff get_listing_by_id_def by auto
  show ?thesis
  proof (cases "l_status old = ''archived''")
    case True
    with assms ctx old tm show ?thesis
      by (auto simp: archive_listing_def get_listing_by_id_def dest: require_tenant_Some)
  next
    case False
    with assms ctx old tm show ?thesis
      by (auto simp: archive_listing_def get_listing_by_id_def store_listing_def Let_def
          dest: require_tenant_Some)
  qed
qed

lemma replace_listing_wf:
  assumes "listings_wf D" and "find_row l_id i (listings D) = Some old"
    and "l_id l = l_id old" and "listing_ok l" and "listings D' = update_row l_id i (\<lambda>_. l) (listings D)"
  shows "listings_wf D'"
proof -
  have i: "l_id old = i" using assms(2) by (auto dest: find_row_Some)
  have "map l_id (listings D') = map l_id (listings D)"
    unfolding assms(5) update_row_def using assms(3) i by auto
  then show ?thesis
    using assms(1,4,5) by (auto simp: listings_wf_def unique_on_def set_update_row)
qed

lemma updated_row_fields [simp]:
  "l_id (updated_row E ctx old l1) = (if l_id l1 = l_id old then l_id old else l_id l1)"
  "l_agency_tenant_id (updated_row E ctx old l1) = l_agency_tenant_id l1"
  "l_status (updated_row E ctx old l1) = l_status l1"
  "l_archived_at (updated_row E ctx old l1) = l_archived_at l1"
  "l_parking (updated_row E ctx old l1) = l_parking l1"
  "l_floor (updated_row E ctx old l1) = l_floor l1"
  by (auto simp: updated_row_def listing_flush_def)

lemma update_listing_wf:
  assumes wf: "listings_wf (fst w)" and run: "update_listing E tenant i data w = Inr (l, w')"
  shows "listings_wf (fst w')"
proof -
  from update_listing_Inr [OF run] obtain ctx :: TenantContext and old l1 where
    old: "find_row l_id i (listings (fst w)) = Some old" and
    st: "apply_listing_status E (dt_status data) (apply_listing_fields data old) = Inr l1" and
    l: "l = updated_row E ctx old l1" and
    new: "listings (fst w') = update_row l_id i (\<lambda>_. l) (listings (fst w))"
    by (elim exE conjE) (rule that)
  have "listing_ok (apply_listing_fields data old)"
    using wf old by (auto simp: listings_wf_def listing_ok_def dest!: find_row_Some)
  then have "listing_ok l1" using apply_listing_status_ok [OF _ st] by simp
  then have "listing_ok l" by (simp add: l listing_ok_def)
  moreover have "l_id l = l_id old" using apply_listing_status_Inr [OF st] l by simp
  ultimately show ?thesis using replace_listing_wf [OF wf old] new by blast
qed

lemma archived_row_fields [simp]:
  "l_id (archived_row E ctx old) = l_id old"
  "l_agency_tenant_id (archived_row E ctx old) = l_agency_tenant_id old"
  "l_status (archived_row E ctx old) = ''archived''"
  "l_archived_at (archived_row E ctx old) = Some (now_at E)"
  by (simp_all add: archived_row_def)

lemma archive_listing_wf:
  assumes wf: "listings_wf (fst w)" and run: "archive_listing E tenant i w = Inr (u, w')"
  shows "listings_wf (fst w')"
proof -
  from archive_listing_Inr [OF run] obtain ctx :: TenantContext and old where
    old: "find_row l_id i (listings (fst w)) = Some old" and
    new: "w' = w \<or> listings (fst w') = update_row l_id i (\<lambda>_. archived_row E ctx old) (listings (fst w))"
    by metis
  have "listing_ok (archived_row E ctx old)"
    by (simp add: listing_ok_def VALID_LISTING_STATUSES_def)
  then show ?thesis
    using wf old new replace_listing_wf [of "fst w" i old "archived_row E ctx old" "fst w'"] by auto
qed

lemma create_listing_wf:
  assumes "listings_wf (fst w)" and "fresh E 0 \<notin> l_id ` set (listings (fst w))"
    and "dt_status data \<noteq> Some ''archived''"
    and run: "create_listing E tenant data w = Inr (l, w')"
  shows "listings_wf (fst w')"
  using create_listing_Inr [OF run] assms(1-3)
  by (auto simp: listings_wf_def listing_ok_def new_listing_def split: option.splits)

end
