(* ===== verification/Media.thy ===== *)
theory Media
  imports Common
begin

text \<open>
  The upload checks (\<open>common/media.py\<close>) and the moderation gate
  (\<open>common/media_moderation.py\<close>). A byte string is a list of characters. Pillow and the
  Hugging Face client are parameters: \<open>pil\<close> is \<open>None\<close> when Pillow cannot be imported and
  otherwise the function that reads an image's size or fails, \<open>classify\<close> is the remote
  classifier, which answers a list of labels with scores or fails.
\<close>

section \<open>File type, size and dimensions\<close>

definition jpeg_magic :: string where
  "jpeg_magic = map char_of [255::nat, 216, 255]"

definition png_magic :: string where
  "png_magic = map char_of [137::nat, 80, 78, 71, 13, 10, 26, 10]"

text \<open>\<open>b[lo:hi]\<close>: a slice past the end is cut.\<close>

definition bytes_slice :: "nat \<Rightarrow> nat \<Rightarrow> string \<Rightarrow> string" where
  "bytes_slice lo hi b = take (hi - lo) (drop lo b)"

definition sniff_mime :: "string \<Rightarrow> string option" where
  "sniff_mime b =
     (if bytes_slice 0 3 b = jpeg_magic then Some ''image/jpeg''
      else if bytes_slice 0 8 b = png_magic then Some ''image/png''
      else if bytes_slice 0 4 b = ''RIFF'' \<and> bytes_slice 8 12 b = ''WEBP'' then Some ''image/webp''
      else None)"

definition validate_file_type :: "string \<Rightarrow> string option \<Rightarrow> string + string" where
  "validate_file_type b content_type =
     (if length b < 12 then Inl ''File is too small to be a valid image''
      else case sniff_mime b of
        None \<Rightarrow> Inl (''Unsupported file type. Allowed: '' @ ''image/jpeg, image/png, image/webp'')
      | Some mime \<Rightarrow>
          (case content_type of
             None \<Rightarrow> Inr mime
           | Some ct \<Rightarrow>
               if ct \<noteq> [] \<and> py_lower ct \<noteq> mime
               then Inl (''Content-Type header '' @ quoted ct @ '' does not match file content'')
               else Inr mime))"

definition validate_file_size :: "nat \<Rightarrow> string \<Rightarrow> string + unit" where
  "validate_file_size max_mb b =
     (if max_mb * 1024 * 1024 < length b
      then Inl (''File size exceeds maximum allowed size of '' @ nat_text max_mb @ ''MB'')
      else if length b = 0 then Inl ''Uploaded file is empty''
      else Inr ())"

text \<open>\<open>struct.unpack(">II", ihdr)\<close>: two big-endian 32-bit words, from exactly eight bytes.\<close>

definition be_word :: "string \<Rightarrow> int" where
  "be_word b = foldl (\<lambda>acc c. acc * 256 + int (of_char c)) 0 b"

definition validate_image_dimensions ::
  "(string \<Rightarrow> (int \<times> int) option) option \<Rightarrow> string \<Rightarrow> string + int \<times> int" where
  "validate_image_dimensions pil b =
     (case pil of
        Some read_size \<Rightarrow>
          (case read_size b of Some wh \<Rightarrow> Inr wh | None \<Rightarrow> Inl ''Unable to read image dimensions'')
      | None \<Rightarrow>
          if bytes_slice 0 8 b = png_magic
          then (let ihdr = bytes_slice 16 24 b
                in if length ihdr = 8 then Inr (be_word (take 4 ihdr), be_word (drop 4 ihdr))
                   else Inl ''Unable to read image dimensions'')
          else if bytes_slice 0 3 b = jpeg_magic
          then Inl ''JPEG dimension extraction requires Pillow''
          else Inl ''Unable to read image dimensions'')"

record media_metadata =
  mm_content_type :: string
  mm_file_size_bytes :: int
  mm_width :: int
  mm_height :: int

definition validate_media_upload ::
  "(string \<Rightarrow> (int \<times> int) option) option \<Rightarrow> nat \<Rightarrow> string \<Rightarrow> string option \<Rightarrow> string + media_metadata" where
  "validate_media_upload pil max_mb b content_type =
     sbind (validate_file_size max_mb b) (\<lambda>_.
     sbind (validate_file_type b content_type) (\<lambda>mime.
     sbind (validate_image_dimensions pil b) (\<lambda>(width, height).
       Inr \<lparr>mm_content_type = mime, mm_file_size_bytes = int (length b),
            mm_width = width, mm_height = height\<rparr>)))"

lemma validate_file_type_Inr:
  "validate_file_type b ct = Inr mime \<Longrightarrow>
     12 \<le> length b \<and> sniff_mime b = Some mime \<and> (\<forall>c. ct = Some c \<and> c \<noteq> [] \<longrightarrow> py_lower c = mime)"
  by (auto simp: validate_file_type_def split: if_splits option.splits)

section \<open>Moderation\<close>

record moderation =
  md_rejected :: bool
  md_score :: rat
  md_label :: string

text \<open>
  The first \<open>nsfw\<close> entry of the classifier's answer decides (a missing score counts as 0), an
  answer without one scores 0; no token or any exception rejects the image.
\<close>

definition nsfw_score :: "(string \<times> rat option) list \<Rightarrow> rat" where
  "nsfw_score result =
     (case find (\<lambda>(label, score). label = ''nsfw'') result of
        None \<Rightarrow> 0
      | Some (label, score) \<Rightarrow> (case score of None \<Rightarrow> 0 | Some s \<Rightarrow> s))"

definition run_nsfw_moderation ::
  "string \<Rightarrow> rat \<Rightarrow> (string \<Rightarrow> (string \<times> rat option) list option) \<Rightarrow> string \<Rightarrow> moderation" where
  "run_nsfw_moderation hf_token threshold classify b =
     (if hf_token = [] then \<lparr>md_rejected = True, md_score = 1, md_label = ''moderation_failed''\<rparr>
      else case classify b of
        None \<Rightarrow> \<lparr>md_rejected = True, md_score = 1, md_label = ''moderation_failed''\<rparr>
      | Some result \<Rightarrow>
          (let score = nsfw_score result; rejected = threshold \<le> score
           in \<lparr>md_rejected = rejected, md_score = score,
               md_label = (if rejected then ''nsfw'' else ''safe'')\<rparr>))"

lemma moderation_accepts:
  "\<not> md_rejected (run_nsfw_moderation tok th classify b) \<longleftrightarrow>
     tok \<noteq> [] \<and> (\<exists>result. classify b = Some result \<and> nsfw_score result < th)"
  by (auto simp: run_nsfw_moderation_def Let_def split: option.splits)

end
