(* ===== verification/Demo.thy ===== *)
theory Demo
  imports Models
begin

text \<open>
  Small concrete rows and contexts: the inputs at which the properties with hypotheses are
  applied.
\<close>

definition demo_env :: ctx_env where
  "demo_env = \<lparr>now_at = 100, boot_at = 1, fresh = (\<lambda>n. ''f'' @ nat_text n)\<rparr>"

definition demo_ctx :: TenantContext where
  "demo_ctx = \<lparr>tc_actor_id = Some ''u1'', tc_role = Some ''agency_owner'', tc_permissions = [],
     tc_tenant_id = Some ''t1'', tc_membership_id = Some ''m1'', tc_is_platform_actor = False,
     tc_request_id = None, tc_source = ''http''\<rparr>"

definition demo_listing :: "uuid \<Rightarrow> string \<Rightarrow> Listing" where
  "demo_listing i status =
     \<lparr>l_id = i, l_agency_tenant_id = ''t1'', l_title = ''Flat'', l_description = None,
      l_property_type = None, l_listing_purpose = None, l_price = Some 10, l_currency = None,
      l_bedrooms = None, l_bathrooms = None, l_parking = None, l_floor = None, l_area_size = None,
      l_area_unit = None, l_furnishing = None, l_location_text = None, l_address = None,
      l_city = None, l_country = None, l_status = status, l_created_by_user_id = None,
      l_updated_by_user_id = None, l_created_at = 5, l_updated_at = 5, l_archived_at = None\<rparr>"

definition demo_photo :: "uuid \<Rightarrow> uuid \<Rightarrow> ListingPhotoMetadata" where
  "demo_photo i lid =
     \<lparr>ph_id = i, ph_listing_id = lid, ph_agency_tenant_id = ''t1'', ph_object_key = ''o/'' @ i,
      ph_caption = None, ph_alt_text = None, ph_display_order = 1, ph_status = ''active'',
      ph_content_type = None, ph_file_size_bytes = None, ph_width = None, ph_height = None,
      ph_moderation_label = None, ph_moderation_score = None, ph_quality_score = None,
      ph_created_at = 5, ph_updated_at = 5\<rparr>"

definition demo_derivative :: "uuid \<Rightarrow> uuid \<Rightarrow> ListingPhotoDerivative" where
  "demo_derivative i pid =
     \<lparr>d_id = i, d_listing_photo_metadata_id = pid, d_variant_name = ''card'', d_object_key = ''d/'' @ i,
      d_format = ''webp'', d_width = 1, d_height = 1, d_file_size_bytes = 1, d_is_public_safe = True,
      d_created_at = 5\<rparr>"

definition demo_user :: "uuid \<Rightarrow> User" where
  "demo_user i =
     \<lparr>u_id = i, u_email = i @ ''@x'', u_password_hash = ''h'', u_name = Some ''Ann'', u_phone = None,
      u_preferred_language = None, u_role_id = Some ''r1'', u_is_active = True, u_status = ''active'',
      u_last_login_at = None, u_password_changed_at = None, u_created_at = 5, u_updated_at = 5,
      u_deleted_at = None\<rparr>"

definition demo_lead :: "uuid \<Rightarrow> string \<Rightarrow> string \<Rightarrow> Lead" where
  "demo_lead i status processing =
     \<lparr>ld_id = i, ld_agency_tenant_id = ''t1'', ld_listing_id = ''l1'', ld_user_id = Some ''u1'',
      ld_status = status, ld_processing_status = processing, ld_name = Some ''Ann'', ld_email = None,
      ld_phone = None, ld_message = Some ''hi'', ld_source = Some ''web'', ld_created_at = 5,
      ld_updated_at = 5, ld_closed_at = None\<rparr>"

definition demo_result :: "uuid \<Rightarrow> uuid \<Rightarrow> string option \<Rightarrow> LeadResult" where
  "demo_result i lead_id key =
     \<lparr>lr_id = i, lr_lead_id = lead_id, lr_agency_tenant_id = ''t1'', lr_status = ''completed'',
      lr_label = None, lr_score = None, lr_details = None, lr_retry_count = 1, lr_last_error = None,
      lr_idempotency_key = key, lr_created_at = 5, lr_updated_at = 5\<rparr>"

definition demo_db :: db where
  "demo_db = empty_db\<lparr>listings := [demo_listing ''l1'' ''active''],
     users := [demo_user ''u1''], leads := [demo_lead ''d1'' ''new'' ''completed''],
     spam_results := [demo_result ''s1'' ''d1'' (Some ''k1'')],
     level_results := [demo_result ''v1'' ''d1'' None],
     photos := [demo_photo ''p1'' ''l1''], derivatives := [demo_derivative ''d1'' ''p1'']\<rparr>"

lemmas demo_defs = demo_env_def demo_ctx_def demo_listing_def demo_photo_def demo_derivative_def
  demo_user_def demo_lead_def demo_result_def
  demo_db_def empty_db_def

end
