(* ===== verification/Photos.thy ===== *)
theory Photos
  imports Listings Media Demo
begin

text \<open>
  Listing photos: the object keys of \<open>common/storage.py\<close>, the photo repositories, the photo
  operations of \<open>ListingService\<close>, the thumbnails of \<open>build_thumbnail_map\<close> and the public media
  route. The object store maps an object key to the bytes stored under it; \<open>sign\<close> is the
  client's \<open>presigned_get_object\<close>, and a \<open>store_env\<close> says which of the client's calls succeed.
\<close>

section \<open>Object keys\<close>

text \<open>\<open>os.path.splitext(p)[1]\<close>: from the last dot of the last path component, unless only dots precede it.\<close>

definition last_component :: "string \<Rightarrow> string" where
  "last_component p = rev (takeWhile (\<lambda>c. c \<noteq> CHR ''/'') (rev p))"

definition splitext_ext :: "string \<Rightarrow> string" where
  "splitext_ext p =
     (let base = last_component p;
          tail = rev (takeWhile (\<lambda>c. c \<noteq> CHR ''.'') (rev base));
          stem = take (length base - length tail - 1) base
      in if CHR ''.'' \<in> set base \<and> (\<exists>c \<in> set stem. c \<noteq> CHR ''.'') then CHR ''.'' # tail else [])"

definition strip_slash :: "string \<Rightarrow> string" where
  "strip_slash s =
     rev (dropWhile (\<lambda>c. c = CHR ''/'') (rev (dropWhile (\<lambda>c. c = CHR ''/'') s)))"

definition build_object_path :: "string \<Rightarrow> string \<Rightarrow> string" where
  "build_object_path prefix filename =
     (let prefix = strip_slash prefix in if prefix \<noteq> [] then prefix @ ''/'' @ filename else filename)"

text \<open>\<open>uuid4().hex\<close>: the text of the UUID without its dashes.\<close>

definition uuid_hex :: "uuid \<Rightarrow> string" where
  "uuid_hex u = filter (\<lambda>c. c \<noteq> CHR ''-'') u"

definition generate_original_object_key :: "string \<Rightarrow> uuid \<Rightarrow> string \<Rightarrow> uuid \<Rightarrow> string \<Rightarrow> string" where
  "generate_original_object_key internal_prefix u tenant_id listing_id filename =
     (let ext = py_lower (splitext_ext filename)
      in build_object_path (internal_prefix @ ''/'' @ tenant_id @ ''/'' @ listing_id) (uuid_hex u @ ext))"

definition generate_derivative_object_key ::
  "string \<Rightarrow> string \<Rightarrow> uuid \<Rightarrow> uuid \<Rightarrow> string \<Rightarrow> string \<Rightarrow> string" where
  "generate_derivative_object_key derivative_prefix tenant_id listing_id photo_id variant format =
     build_object_path
       (derivative_prefix @ ''/'' @ tenant_id @ ''/'' @ listing_id @ ''/'' @ photo_id)
       (variant @ ''.'' @ format)"

section \<open>Repositories\<close>

definition list_by_listing :: "uuid \<Rightarrow> db \<Rightarrow> ListingPhotoMetadata list" where
  "list_by_listing listing_id D =
     sort_key ph_display_order (filter (\<lambda>p. ph_listing_id p = listing_id) (photos D))"

definition get_photo_by_id :: "uuid \<Rightarrow> db \<Rightarrow> ListingPhotoMetadata option" where
  "get_photo_by_id i D = find_row ph_id i (photos D)"

definition get_max_display_order :: "uuid \<Rightarrow> db \<Rightarrow> int" where
  "get_max_display_order listing_id D =
     (case map ph_display_order (filter (\<lambda>p. ph_listing_id p = listing_id) (photos D)) of
        [] \<Rightarrow> 0
      | n # ns \<Rightarrow> fold max ns n)"

definition get_public_safe_by_photo :: "uuid \<Rightarrow> db \<Rightarrow> ListingPhotoDerivative option" where
  "get_public_safe_by_photo photo_id D =
     find (\<lambda>d. d_listing_photo_metadata_id d = photo_id \<and> d_is_public_safe d) (derivatives D)"

definition list_public_safe_by_photos :: "uuid list \<Rightarrow> db \<Rightarrow> ListingPhotoDerivative list" where
  "list_public_safe_by_photos photo_ids D =
     filter (\<lambda>d. d_listing_photo_metadata_id d \<in> set photo_ids \<and> d_is_public_safe d) (derivatives D)"

definition get_first_public_safe_for_listings ::
  "uuid list \<Rightarrow> db \<Rightarrow> uuid \<rightharpoonup> ListingPhotoMetadata" where
  "get_first_public_safe_for_listings listing_ids D =
     (let joined = concat (map (\<lambda>p. map (Pair p)
                     (filter (\<lambda>d. d_listing_photo_metadata_id d = ph_id p) (derivatives D))) (photos D));
          rows = filter (\<lambda>(p, d). ph_listing_id p \<in> set listing_ids \<and> d_is_public_safe d) joined;
          ordered = sort_key (\<lambda>(p, d). (ph_listing_id p, ph_display_order p, d_created_at d)) rows
      in map_of (map (\<lambda>(p, d). (ph_listing_id p, p)) ordered))"

section \<open>Thumbnails and public media\<close>

definition build_thumbnail_map ::
  "(string \<Rightarrow> string) \<Rightarrow> uuid list \<Rightarrow> db \<Rightarrow> uuid \<rightharpoonup> string option" where
  "build_thumbnail_map sign listing_ids D =
     (let first_photos = get_first_public_safe_for_listings listing_ids D
      in (\<lambda>lid.
           if lid \<notin> set listing_ids then None
           else (case first_photos lid of
                   None \<Rightarrow> Some None
                 | Some photo \<Rightarrow>
                     (case list_public_safe_by_photos [ph_id photo] D of
                        [] \<Rightarrow> Some None
                      | d # _ \<Rightarrow> Some (Some (sign (d_object_key d)))))))"

record PublicListingMediaResponse =
  pm_id :: uuid
  pm_listing_id :: uuid
  pm_caption :: "string option"
  pm_alt_text :: "string option"
  pm_display_order :: int
  pm_width :: "int option"
  pm_height :: "int option"
  pm_media_url :: string
  pm_format :: string
  pm_status :: string

definition public_media_of ::
  "(string \<Rightarrow> string) \<Rightarrow> ListingPhotoMetadata \<Rightarrow> ListingPhotoDerivative \<Rightarrow> PublicListingMediaResponse" where
  "public_media_of sign p d =
     \<lparr>pm_id = ph_id p, pm_listing_id = ph_listing_id p, pm_caption = ph_caption p,
      pm_alt_text = ph_alt_text p, pm_display_order = ph_display_order p,
      pm_width = Some (d_width d), pm_height = Some (d_height d),
      pm_media_url = sign (d_object_key d), pm_format = d_format d, pm_status = ph_status p\<rparr>"

definition public_list_listing_media ::
  "(string \<Rightarrow> string) \<Rightarrow> uuid \<Rightarrow> db \<Rightarrow> py_exc + PublicListingMediaResponse list" where
  "public_list_listing_media sign listing_id D =
     (case get_listing_by_id listing_id D of
        None \<Rightarrow> Inl (NotFoundError ''Listing not found'')
      | Some listing \<Rightarrow>
          if l_status listing \<noteq> ''active'' then Inl (NotFoundError ''Listing not found'')
          else Inr (List.map_filter
            (\<lambda>p. map_option (public_media_of sign p) (get_public_safe_by_photo (ph_id p) D))
            (list_by_listing listing_id D)))"

section \<open>Photo operations\<close>

text \<open>The ownership check every photo operation on a listing starts with.\<close>

definition own_listing :: "TenantContext option \<Rightarrow> uuid \<Rightarrow> db \<Rightarrow> py_exc + TenantContext \<times> Listing" where
  "own_listing tenant listing_id D =
     sbind (require_tenant tenant) (\<lambda>ctx.
     case get_listing_by_id listing_id D of
       None \<Rightarrow> Inl (NotFoundError ''Listing not found'')
     | Some listing \<Rightarrow>
         sbind (ensure_tenant_match tenant (l_agency_tenant_id listing)) (\<lambda>_. Inr (ctx, listing)))"

definition list_photos ::
  "(string \<Rightarrow> string) \<Rightarrow> TenantContext option \<Rightarrow> uuid \<Rightarrow> db
     \<Rightarrow> py_exc + (ListingPhotoMetadata \<times> string) list" where
  "list_photos sign tenant listing_id D =
     sbind (own_listing tenant listing_id D) (\<lambda>_.
       (let ps = list_by_listing listing_id D;
            derivs = list_public_safe_by_photos (map ph_id ps) D;
            deriv_map = map_of (map (\<lambda>d. (d_listing_photo_metadata_id d, d)) derivs)
        in Inr (map (\<lambda>p. (p, case deriv_map (ph_id p) of
                               Some d \<Rightarrow> sign (d_object_key d)
                             | None \<Rightarrow> sign (ph_object_key p))) ps)))"

record PhotoData =
  pd_object_key :: string
  pd_caption :: "string option"
  pd_alt_text :: "string option"
  pd_display_order :: int

definition new_photo ::
  "ctx_env \<Rightarrow> uuid \<Rightarrow> uuid \<Rightarrow> uuid \<Rightarrow> string \<Rightarrow> string option \<Rightarrow> string option \<Rightarrow> int \<Rightarrow> string
     \<Rightarrow> media_metadata option \<Rightarrow> ListingPhotoMetadata" where
  "new_photo E i listing_id t object_key caption alt_text order status meta =
     \<lparr>ph_id = i, ph_listing_id = listing_id, ph_agency_tenant_id = t, ph_object_key = object_key,
      ph_caption = caption, ph_alt_text = alt_text, ph_display_order = order, ph_status = status,
      ph_content_type = map_option mm_content_type meta,
      ph_file_size_bytes = map_option mm_file_size_bytes meta,
      ph_width = map_option mm_width meta, ph_height = map_option mm_height meta,
      ph_moderation_label = None, ph_moderation_score = None, ph_quality_score = None,
      ph_created_at = now_at E, ph_updated_at = now_at E\<rparr>"

definition create_photo ::
  "ctx_env \<Rightarrow> TenantContext option \<Rightarrow> uuid \<Rightarrow> PhotoData \<Rightarrow> db \<Rightarrow> py_exc + ListingPhotoMetadata \<times> db" where
  "create_photo E tenant listing_id data D =
     sbind (own_listing tenant listing_id D) (\<lambda>(ctx, _).
       (let order = (if pd_display_order data = 0 then get_max_display_order listing_id D + 1
                     else pd_display_order data)
        in case tc_tenant_id ctx of
             None \<Rightarrow> Inl (IntegrityError ''listing_photo_metadata.agency_tenant_id is NOT NULL'')
           | Some t \<Rightarrow>
               (let photo = new_photo E (fresh E 0) listing_id t (pd_object_key data)
                              (pd_caption data) (pd_alt_text data) order ''active'' None;
                    D1 = D\<lparr>photos := photos D @ [photo]\<rparr>
                in Inr (photo, write_domain_event_log E (fresh E 1) ''listing.photo_added''
                     (Some ''listing'') (Some listing_id)
                     (Some (JObj [(''photo_id'', JText (ph_id photo))]))
                     (tc_tenant_id ctx) (tc_actor_id ctx) D1))))"

text \<open>The body of a photo update after \<open>model_dump(exclude_none=True)\<close>: only present fields are set.\<close>

record PhotoUpdate =
  pu_caption :: "string option"
  pu_alt_text :: "string option"
  pu_display_order :: "int option"

definition photo_flush :: "ctx_env \<Rightarrow> ListingPhotoMetadata \<Rightarrow> ListingPhotoMetadata \<Rightarrow> ListingPhotoMetadata" where
  "photo_flush E old new = (if new = old then old else new\<lparr>ph_updated_at := now_at E\<rparr>)"

definition own_photo ::
  "TenantContext option \<Rightarrow> uuid \<Rightarrow> uuid \<Rightarrow> db \<Rightarrow> py_exc + TenantContext \<times> ListingPhotoMetadata" where
  "own_photo tenant listing_id photo_id D =
     sbind (require_tenant tenant) (\<lambda>ctx.
     case get_photo_by_id photo_id D of
       None \<Rightarrow> Inl (NotFoundError ''Photo metadata not found'')
     | Some photo \<Rightarrow>
         if ph_listing_id photo \<noteq> listing_id
         then Inl (NotFoundError ''Photo not found for this listing'')
         else sbind (ensure_tenant_match tenant (ph_agency_tenant_id photo)) (\<lambda>_. Inr (ctx, photo)))"

definition apply_photo_update :: "PhotoUpdate \<Rightarrow> ListingPhotoMetadata \<Rightarrow> ListingPhotoMetadata" where
  "apply_photo_update data p =
     p\<lparr>ph_caption := set_if (pu_caption data) (ph_caption p),
       ph_alt_text := set_if (pu_alt_text data) (ph_alt_text p),
       ph_display_order := (case pu_display_order data of None \<Rightarrow> ph_display_order p | Some n \<Rightarrow> n)\<rparr>"

definition update_photo ::
  "ctx_env \<Rightarrow> TenantContext option \<Rightarrow> uuid \<Rightarrow> uuid \<Rightarrow> PhotoUpdate \<Rightarrow> db
     \<Rightarrow> py_exc + ListingPhotoMetadata \<times> db" where
  "update_photo E tenant listing_id photo_id data D =
     sbind (own_photo tenant listing_id photo_id D) (\<lambda>(ctx, old).
       (let photo = photo_flush E old (apply_photo_update data old);
            D1 = D\<lparr>photos := update_row ph_id photo_id (\<lambda>_. photo) (photos D)\<rparr>
        in Inr (photo, write_domain_event_log E (fresh E 0) ''listing.photo_updated''
             (Some ''listing'') (Some listing_id)
             (Some (JObj [(''photo_id'', JText photo_id)]))
             (Some (ph_agency_tenant_id photo)) (tc_actor_id ctx) D1)))"

definition removed_photo :: "ctx_env \<Rightarrow> ListingPhotoMetadata \<Rightarrow> ListingPhotoMetadata" where
  "removed_photo E old = photo_flush E old (old\<lparr>ph_status := ''removed''\<rparr>)"

definition remove_photo ::
  "ctx_env \<Rightarrow> TenantContext option \<Rightarrow> uuid \<Rightarrow> uuid \<Rightarrow> db \<Rightarrow> py_exc + unit \<times> db" where
  "remove_photo E tenant listing_id photo_id D =
     sbind (own_photo tenant listing_id photo_id D) (\<lambda>(ctx, old).
       (let D1 = D\<lparr>photos := update_row ph_id photo_id (\<lambda>_. removed_photo E old) (photos D)\<rparr>
        in Inr ((), write_domain_event_log E (fresh E 0) ''listing.photo_removed''
             (Some ''listing'') (Some listing_id)
             (Some (JObj [(''photo_id'', JText photo_id)]))
             (Some (ph_agency_tenant_id old)) (tc_actor_id ctx) D1)))"

section \<open>Preflight\<close>

record preflight =
  pf_safe :: bool
  pf_rejection_reason :: "string option"
  pf_message :: string
  pf_content_type :: "string option"
  pf_metadata :: "media_metadata option"
  pf_moderation :: "(string \<times> rat) option"

text \<open>
  \<open>pil\<close>, \<open>max_mb\<close>, \<open>hf_token\<close>, \<open>threshold\<close> and \<open>classify\<close> are the parameters of the upload checks
  and of the moderation gate (theory \<open>Media\<close>).
\<close>

record media_env =
  me_pil :: "(string \<Rightarrow> (int \<times> int) option) option"
  me_max_mb :: nat
  me_hf_token :: string
  me_threshold :: rat
  me_classify :: "string \<Rightarrow> (string \<times> rat option) list option"
  me_internal_prefix :: string

definition validate_photo_preflight ::
  "media_env \<Rightarrow> TenantContext option \<Rightarrow> string \<Rightarrow> string option \<Rightarrow> py_exc + preflight" where
  "validate_photo_preflight M tenant file_bytes content_type =
     sbind (require_tenant tenant) (\<lambda>ctx.
     if tc_role ctx = Some ''support_employee''
     then Inl (ForbiddenError ''Support employees cannot upload photos'')
     else case validate_media_upload (me_pil M) (me_max_mb M) file_bytes content_type of
       Inl msg \<Rightarrow> Inr \<lparr>pf_safe = False, pf_rejection_reason = Some ''invalid_file'',
                      pf_message = msg, pf_content_type = content_type, pf_metadata = None,
                      pf_moderation = None\<rparr>
     | Inr meta \<Rightarrow>
         (let md = run_nsfw_moderation (me_hf_token M) (me_threshold M) (me_classify M) file_bytes;
              verdict = Some (md_label md, md_score md)
          in if md_rejected md
             then (let (message, reason) =
                     (if md_label md = ''nsfw''
                      then (''This image was flagged as unsafe and cannot be uploaded.'', ''nsfw'')
                      else (''Image safety could not be verified right now. Try again later.'',
                            ''moderation_failed''))
                   in Inr \<lparr>pf_safe = False, pf_rejection_reason = Some reason, pf_message = message,
                           pf_content_type = Some (mm_content_type meta), pf_metadata = Some meta,
                           pf_moderation = verdict\<rparr>)
             else Inr \<lparr>pf_safe = True, pf_rejection_reason = None,
                       pf_message = ''Image is safe to upload.'',
                       pf_content_type = Some (mm_content_type meta), pf_metadata = Some meta,
                       pf_moderation = verdict\<rparr>))"

section \<open>Upload\<close>

type_synonym objects = "string \<rightharpoonup> string"

text \<open>Which calls of the object store's client succeed; a call that raises stores or deletes nothing.\<close>

record store_env =
  so_bucket_ok :: bool
  so_put_ok :: bool
  so_delete_ok :: bool

definition upload_object :: "store_env \<Rightarrow> string \<Rightarrow> string \<Rightarrow> objects \<Rightarrow> (py_exc + unit) \<times> objects" where
  "upload_object S key data ob =
     (if so_put_ok S then (Inr (), ob(key \<mapsto> data)) else (Inl (StorageError ''put_object''), ob))"

definition delete_object :: "store_env \<Rightarrow> string \<Rightarrow> objects \<Rightarrow> (py_exc + unit) \<times> objects" where
  "delete_object S key ob =
     (if so_delete_ok S then (Inr (), ob(key := None)) else (Inl (StorageError ''remove_object''), ob))"

fun exc_text :: "py_exc \<Rightarrow> string" where
  "exc_text (AppException st detail code extra) = detail"
| "exc_text (PermissionError m) = m"
| "exc_text (NameError m) = m"
| "exc_text (ValueError m) = m"
| "exc_text (KeyError m) = m"
| "exc_text (IntegrityError m) = m"
| "exc_text (DBAPIError m) = m"
| "exc_text (TypeError m) = m"
| "exc_text (AttributeError m) = m"
| "exc_text (RuntimeError m) = m"
| "exc_text (StorageError m) = m"
| "exc_text MultipleResultsFound = ''Multiple rows were found''"

text \<open>The \<open>try\<close> block: metadata row, outbox event, media audit log and domain event in one session.\<close>

definition persist_uploaded_photo ::
  "ctx_env \<Rightarrow> TenantContext \<Rightarrow> uuid \<Rightarrow> string \<Rightarrow> media_metadata \<Rightarrow> string option \<Rightarrow> string option \<Rightarrow> int
     \<Rightarrow> db \<Rightarrow> py_exc + ListingPhotoMetadata \<times> db" where
  "persist_uploaded_photo E ctx listing_id object_key meta caption alt_text order D =
     (case tc_tenant_id ctx of
        None \<Rightarrow> Inl (IntegrityError ''listing_photo_metadata.agency_tenant_id is NOT NULL'')
      | Some t \<Rightarrow>
          (let photo = new_photo E (fresh E 1) listing_id t object_key caption alt_text order
                         ''uploaded'' (Some meta);
               pid = ph_id photo;
               facts = [(''content_type'', JText (mm_content_type meta)),
                        (''file_size_bytes'', JInt (mm_file_size_bytes meta))];
               D1 = D\<lparr>photos := photos D @ [photo]\<rparr>
           in sbind (publish_outbox_event_in_session E (fresh E 3) ''listing.image_uploaded''
                (JObj ([(''listing_id'', JText listing_id), (''listing_photo_id'', JText pid),
                        (''agency_tenant_id'', JText t), (''object_key'', JText object_key)] @
                       facts @ [(''uploaded_by_user_id'', jopt (tc_actor_id ctx))]))
                (''upload-'' @ pid @ ''-'' @ take 8 (uuid_hex (fresh E 2)))
                (Some ''listing_photo'') (Some pid) D1) (\<lambda>D2.
              (let D3 = write_media_audit_log E (fresh E 4) ''listing.image_uploaded'' t pid
                          (Some ''uploaded'') (Some (JObj facts)) (tc_actor_id ctx) D2;
                   D4 = write_domain_event_log E (fresh E 5) ''listing.image_uploaded''
                          (Some ''listing_photo'') (Some pid)
                          (Some (JObj [(''photo_id'', JText pid), (''listing_id'', JText listing_id)]))
                          (Some t) (tc_actor_id ctx) D3
               in Inr (photo, D4)))))"

definition upload_photo ::
  "ctx_env \<Rightarrow> media_env \<Rightarrow> store_env \<Rightarrow> TenantContext option \<Rightarrow> uuid \<Rightarrow> string \<Rightarrow> string \<Rightarrow> string option
     \<Rightarrow> string option \<Rightarrow> string option \<Rightarrow> int option \<Rightarrow> db \<times> objects
     \<Rightarrow> (py_exc + ListingPhotoMetadata) \<times> db \<times> objects" where
  "upload_photo E M S tenant listing_id file_bytes filename content_type caption alt_text
     display_order w =
     (case require_tenant tenant of
        Inl e \<Rightarrow> (Inl e, w)
      | Inr ctx \<Rightarrow>
          if tc_role ctx = Some ''support_employee''
          then (Inl (ForbiddenError ''Support employees cannot upload photos''), w)
          else (case own_listing tenant listing_id (fst w) of
            Inl e \<Rightarrow> (Inl e, w)
          | Inr _ \<Rightarrow>
              (case validate_media_upload (me_pil M) (me_max_mb M) file_bytes content_type of
                 Inl msg \<Rightarrow> (Inl (ValidationError msg), w)
               | Inr meta \<Rightarrow>
                   if \<not> so_bucket_ok S then (Inl (StorageError ''bucket_exists''), w)
                   else
                     (let tenant_text = (case tc_tenant_id ctx of None \<Rightarrow> ''None'' | Some t \<Rightarrow> t);
                          object_key = generate_original_object_key (me_internal_prefix M)
                                         (fresh E 0) tenant_text listing_id filename
                      in (case upload_object S object_key file_bytes (snd w) of
                           (Inl _, ob) \<Rightarrow>
                             (Inl (ServiceUnavailableError
                                (''We couldn'' @ CHR 0x27 # ''t store this image right now. Try again in a moment.'')
                                ''PHOTO_STORAGE_FAILED''), fst w, ob)
                         | (Inr _, ob) \<Rightarrow>
                             (let order = (case display_order of
                                             None \<Rightarrow> get_max_display_order listing_id (fst w) + 1
                                           | Some n \<Rightarrow> if n = 0 then get_max_display_order listing_id (fst w) + 1
                                                       else n)
                              in (case persist_uploaded_photo E ctx listing_id object_key meta
                                        caption alt_text order (fst w) of
                                   Inr (photo, D) \<Rightarrow> (Inr photo, D, ob)
                                 | Inl e \<Rightarrow>
                                     (Inl (ServiceUnavailableError
                                        (''Failed to persist photo metadata: '' @ exc_text e)
                                        ''SERVICE_UNAVAILABLE''),
                                      fst w, snd (delete_object S object_key ob)))))))))"

section \<open>Lemmas\<close>

lemma own_listing_Inr:
  "own_listing tenant i D = Inr (ctx, l) \<longleftrightarrow>
     require_tenant tenant = Inr ctx \<and> find_row l_id i (listings D) = Some l \<and>
     ensure_tenant_match tenant (l_agency_tenant_id l) = Inr ()"
  by (auto simp: own_listing_def run_simps get_listing_by_id_def)

lemma own_photo_Inr:
  "own_photo tenant i j D = Inr (ctx, p) \<longleftrightarrow>
     require_tenant tenant = Inr ctx \<and> find_row ph_id j (photos D) = Some p \<and>
     ph_listing_id p = i \<and> ensure_tenant_match tenant (ph_agency_tenant_id p) = Inr ()"
  by (auto simp: own_photo_def run_simps get_photo_by_id_def)

lemma new_photo_fields [simp]:
  "ph_id (new_photo E i lid t key ca al n st me) = i"
  "ph_listing_id (new_photo E i lid t key ca al n st me) = lid"
  "ph_agency_tenant_id (new_photo E i lid t key ca al n st me) = t"
  "ph_object_key (new_photo E i lid t key ca al n st me) = key"
  "ph_display_order (new_photo E i lid t key ca al n st me) = n"
  "ph_status (new_photo E i lid t key ca al n st me) = st"
  by (simp_all add: new_photo_def)

lemma persist_uploaded_photo_Inr:
  "persist_uploaded_photo E ctx lid key meta ca al n D = Inr (p, D') \<Longrightarrow>
     tc_tenant_id ctx = Some (ph_agency_tenant_id p) \<and> ph_listing_id p = lid \<and>
     ph_object_key p = key \<and> ph_status p = ''uploaded'' \<and> photos D' = photos D @ [p] \<and>
     (\<exists>e. outbox_events D' = outbox_events D @ [e] \<and> oe_aggregate_id e = Some (ph_id p) \<and>
        oe_event_name e = ''listing.image_uploaded'' \<and> oe_status e = ''pending'')"
  by (auto simp: persist_uploaded_photo_def run_simps publish_outbox_Inr)

lemma fold_max_ge: "n \<le> fold max ns (n :: int) \<and> (\<forall>m \<in> set ns. m \<le> fold max ns n)"
proof (induction ns arbitrary: n)
  case (Cons k ns)
  from Cons [of "max k n"] show ?case by auto
qed simp

lemma get_max_display_order_ge:
  "p \<in> set (photos D) \<Longrightarrow> ph_listing_id p = lid \<Longrightarrow> ph_display_order p \<le> get_max_display_order lid D"
proof -
  assume p: "p \<in> set (photos D)" "ph_listing_id p = lid"
  let ?ns = "map ph_display_order (filter (\<lambda>p. ph_listing_id p = lid) (photos D))"
  from p have "ph_display_order p \<in> set ?ns" by auto
  then show ?thesis
    using fold_max_ge [of "hd ?ns" "tl ?ns"]
    by (cases ?ns) (auto simp: get_max_display_order_def)
qed

lemma map_filter_map_option:
  "map g (List.map_filter (\<lambda>x. map_option (f x) (h x)) xs) =
     map (\<lambda>x. g (f x (the (h x)))) (filter (\<lambda>x. h x \<noteq> None) xs)"
  by (induction xs) (auto simp: List.map_filter_simps)

lemma get_public_safe_Some:
  "get_public_safe_by_photo i D = Some d \<Longrightarrow>
     d \<in> set (derivatives D) \<and> d_listing_photo_metadata_id d = i \<and> d_is_public_safe d"
  by (auto simp: get_public_safe_by_photo_def find_Some_iff)

lemma get_public_safe_None:
  "get_public_safe_by_photo i D = None \<longleftrightarrow>
     \<not> (\<exists>d \<in> set (derivatives D). d_listing_photo_metadata_id d = i \<and> d_is_public_safe d)"
  by (auto simp: get_public_safe_by_photo_def find_None_iff)

lemma public_media_of_fields [simp]:
  "pm_id (public_media_of sign p d) = ph_id p"
  "pm_listing_id (public_media_of sign p d) = ph_listing_id p"
  "pm_media_url (public_media_of sign p d) = sign (d_object_key d)"
  "pm_status (public_media_of sign p d) = ph_status p"
  by (simp_all add: public_media_of_def)

lemma public_list_listing_media_Inr:
  "public_list_listing_media sign i D = Inr ms \<longleftrightarrow>
     (\<exists>l. find_row l_id i (listings D) = Some l \<and> l_status l = ''active'') \<and>
     ms = List.map_filter
            (\<lambda>p. map_option (public_media_of sign p) (get_public_safe_by_photo (ph_id p) D))
            (list_by_listing i D)"
  by (auto simp: public_list_listing_media_def get_listing_by_id_def split: option.splits)

lemma photo_flush_fields [simp]:
  "ph_id (photo_flush E old new) = ph_id new"
  "ph_listing_id (photo_flush E old new) = ph_listing_id new"
  "ph_agency_tenant_id (photo_flush E old new) = ph_agency_tenant_id new"
  "ph_display_order (photo_flush E old new) = ph_display_order new"
  "ph_status (photo_flush E old new) = ph_status new"
  by (simp_all add: photo_flush_def)

lemma removed_photo_fields [simp]:
  "ph_id (removed_photo E old) = ph_id old"
  "ph_listing_id (removed_photo E old) = ph_listing_id old"
  "ph_agency_tenant_id (removed_photo E old) = ph_agency_tenant_id old"
  "ph_display_order (removed_photo E old) = ph_display_order old"
  "ph_status (removed_photo E old) = ''removed''"
  by (simp_all add: removed_photo_def)

section \<open>Properties\<close>


lemma list_by_listing_set [simp]:
  "set (list_by_listing i D) = {p \<in> set (photos D). ph_listing_id p = i}"
  by (auto simp: list_by_listing_def)

text \<open>
  Public media is safe and complete: the answer lists, in display order, exactly the photos
  of the (active) listing that have a public-safe derivative, and every URL it contains is a
  presigned URL of such a derivative, never of an original.
\<close>

theorem public_media_safe:
  assumes "public_list_listing_media sign listing_id D = Inr ms"
  shows "(\<exists>l. find_row l_id listing_id (listings D) = Some l \<and> l_status l = ''active'') \<and>
    map pm_id ms = map ph_id (filter (\<lambda>p. \<exists>d \<in> set (derivatives D).
           d_listing_photo_metadata_id d = ph_id p \<and> d_is_public_safe d) (list_by_listing listing_id D)) \<and>
    (\<forall>m \<in> set ms. \<exists>d \<in> set (derivatives D). d_is_public_safe d \<and>
           d_listing_photo_metadata_id d = pm_id m \<and> pm_media_url m = sign (d_object_key d))"
proof (intro conjI)
  note m = assms [unfolded public_list_listing_media_Inr]
  show "\<exists>l. find_row l_id listing_id (listings D) = Some l \<and> l_status l = ''active''"
    using m by blast
  show "map pm_id ms = map ph_id (filter (\<lambda>p. \<exists>d \<in> set (derivatives D).
           d_listing_photo_metadata_id d = ph_id p \<and> d_is_public_safe d) (list_by_listing listing_id D))"
    using m by (simp add: map_filter_map_option get_public_safe_None)
  show "\<forall>m \<in> set ms. \<exists>d \<in> set (derivatives D). d_is_public_safe d \<and>
           d_listing_photo_metadata_id d = pm_id m \<and> pm_media_url m = sign (d_object_key d)"
  proof
    fix m assume "m \<in> set ms"
    with m obtain p d where "get_public_safe_by_photo (ph_id p) D = Some d" and
      m': "m = public_media_of sign p d"
      by (auto simp: set_map_filter)
    then show "\<exists>d \<in> set (derivatives D). d_is_public_safe d \<and>
           d_listing_photo_metadata_id d = pm_id m \<and> pm_media_url m = sign (d_object_key d)"
      using get_public_safe_Some by fastforce
  qed
qed

lemma first_public_safe_Some:
  assumes "get_first_public_safe_for_listings ids D i = Some p"
  shows "i \<in> set ids \<and> p \<in> set (photos D) \<and> ph_listing_id p = i \<and>
    (\<exists>d \<in> set (derivatives D). d_listing_photo_metadata_id d = ph_id p \<and> d_is_public_safe d)"
  using assms unfolding get_first_public_safe_for_listings_def Let_def
  by (auto dest!: map_of_SomeD)

text \<open>
  Thumbnails are public-safe: a thumbnail URL for a listing is the presigned URL of a
  public-safe derivative of one of that listing's own photos, and exactly the requested
  listings have an entry.
\<close>

theorem thumbnail_map_safe:
  "dom (build_thumbnail_map sign ids D) = set ids \<and>
   (\<forall>i url. build_thumbnail_map sign ids D i = Some (Some url) \<longrightarrow>
      (\<exists>p \<in> set (photos D). \<exists>d \<in> set (derivatives D). ph_listing_id p = i \<and>
         d_listing_photo_metadata_id d = ph_id p \<and> d_is_public_safe d \<and> url = sign (d_object_key d)))"
proof (intro conjI allI impI)
  show "dom (build_thumbnail_map sign ids D) = set ids"
    by (auto simp: build_thumbnail_map_def split: if_splits option.splits list.splits)
next
  fix i url assume "build_thumbnail_map sign ids D i = Some (Some url)"
  then obtain p d ds where p: "get_first_public_safe_for_listings ids D i = Some p"
    and d: "list_public_safe_by_photos [ph_id p] D = d # ds" and url: "url = sign (d_object_key d)"
    by (auto simp: build_thumbnail_map_def split: if_splits option.splits list.splits)
  from d have "d \<in> set (list_public_safe_by_photos [ph_id p] D)" by simp
  then show "\<exists>p \<in> set (photos D). \<exists>d \<in> set (derivatives D). ph_listing_id p = i \<and>
         d_listing_photo_metadata_id d = ph_id p \<and> d_is_public_safe d \<and> url = sign (d_object_key d)"
    using first_public_safe_Some [OF p] url by (auto simp: list_public_safe_by_photos_def)
qed


text \<open>
  A photo registered without an explicit display order goes to the end: the listing's
  photos in display order are those from before followed by the new one.
\<close>

theorem create_photo_goes_last:
  assumes "create_photo E tenant listing_id data D = Inr (p, D')"
    and "pd_display_order data = 0"
  shows "list_by_listing listing_id D' = list_by_listing listing_id D @ [p]"
proof -
  have "photos D' = photos D @ [p] \<and> ph_listing_id p = listing_id \<and>
      ph_display_order p = get_max_display_order listing_id D + 1"
    using assms by (auto simp: create_photo_def run_simps)
  moreover have "\<forall>q \<in> set (filter (\<lambda>q. ph_listing_id q = listing_id) (photos D)).
      ph_display_order q \<le> get_max_display_order listing_id D + 1"
    using get_max_display_order_ge by fastforce
  ultimately show ?thesis
    by (simp add: list_by_listing_def sort_key_snoc_last)
qed

theorem create_photo_goes_last_witness:
  "\<exists>p D'. create_photo demo_env (Some demo_ctx) ''l1''
       \<lparr>pd_object_key = ''k'', pd_caption = None, pd_alt_text = None, pd_display_order = 0\<rparr> demo_db
         = Inr (p, D') \<and>
     list_by_listing ''l1'' D' = list_by_listing ''l1'' demo_db @ [p]"
proof -
  have "\<exists>p D'. create_photo demo_env (Some demo_ctx) ''l1''
       \<lparr>pd_object_key = ''k'', pd_caption = None, pd_alt_text = None, pd_display_order = 0\<rparr> demo_db
         = Inr (p, D')"
    by (simp add: demo_defs create_photo_def own_listing_def require_tenant_def Let_def
        ensure_tenant_match_def get_listing_by_id_def find_row_def)
  then show ?thesis using create_photo_goes_last by fastforce
qed

definition media_links ::
  "(string \<Rightarrow> string) \<Rightarrow> uuid \<Rightarrow> db \<Rightarrow> py_exc + (uuid \<times> string) list" where
  "media_links sign i D =
     map_sum id (map (\<lambda>m. (pm_id m, pm_media_url m))) (public_list_listing_media sign i D)"

lemma media_links_list:
  "derivatives D' = derivatives D \<Longrightarrow>
   map (\<lambda>m. (pm_id m, pm_media_url m)) (List.map_filter
     (\<lambda>p. map_option (public_media_of sign p) (get_public_safe_by_photo (ph_id p) D'))
     (map (\<lambda>p. if ph_id p = j then removed_photo E p else p) ps)) =
   map (\<lambda>m. (pm_id m, pm_media_url m)) (List.map_filter
     (\<lambda>p. map_option (public_media_of sign p) (get_public_safe_by_photo (ph_id p) D)) ps)"
  by (induction ps)
     (auto simp: List.map_filter_simps get_public_safe_by_photo_def split: option.splits)

lemma media_links_removed:
  assumes "list_by_listing i D' = map (\<lambda>p. if ph_id p = j then removed_photo E p else p) (list_by_listing i D)"
    and "listings D' = listings D" and "derivatives D' = derivatives D"
  shows "media_links sign i D' = media_links sign i D"
  using media_links_list [OF assms(3)] assms(1,2)
  by (simp add: media_links_def public_list_listing_media_def get_listing_by_id_def split: option.splits)

text \<open>
  Removing a photo does not take it off the public page: a successful removal marks the
  row as removed, but the public media route answers the same photos with the same URLs as
  before; only the status it reports for the photo changes.
\<close>

theorem removed_photo_stays_public:
  assumes "unique_on ph_id (photos D)"
    and "remove_photo E tenant listing_id photo_id D = Inr (u, D')"
  shows "(\<forall>p \<in> set (photos D'). ph_id p = photo_id \<longrightarrow> ph_status p = ''removed'') \<and>
    map_sum id (map (\<lambda>m. (pm_id m, pm_media_url m))) (public_list_listing_media sign i D') =
    map_sum id (map (\<lambda>m. (pm_id m, pm_media_url m))) (public_list_listing_media sign i D)"
proof -
  let ?g = "\<lambda>p. if ph_id p = photo_id then removed_photo E p else p"
  from assms(2) obtain ctx :: TenantContext and old where
    old: "find_row ph_id photo_id (photos D) = Some old" and
    upd: "photos D' = update_row ph_id photo_id (\<lambda>_. removed_photo E old) (photos D)" and
    same: "listings D' = listings D" "derivatives D' = derivatives D"
    by (auto simp: remove_photo_def run_simps own_photo_Inr)
  have new: "photos D' = map ?g (photos D)"
    unfolding upd using assms(1) old by (rule update_row_fun)
  have "\<forall>p \<in> set (photos D'). ph_id p = photo_id \<longrightarrow> ph_status p = ''removed''"
    unfolding new set_map ball_simps by (simp split: if_split)
  moreover have "list_by_listing i D' = map ?g (list_by_listing i D)"
    unfolding list_by_listing_def new
    using filter_map_same [of "\<lambda>p. ph_listing_id p = i" ?g]
      sort_key_map_same [of ph_display_order ?g] by simp
  then have "media_links sign i D' = media_links sign i D"
    using same by (rule media_links_removed)
  then have "map_sum id (map (\<lambda>m. (pm_id m, pm_media_url m))) (public_list_listing_media sign i D') =
    map_sum id (map (\<lambda>m. (pm_id m, pm_media_url m))) (public_list_listing_media sign i D)"
    by (simp add: media_links_def)
  ultimately show ?thesis by blast
qed

theorem removed_photo_stays_public_witness:
  "\<exists>D'. remove_photo demo_env (Some demo_ctx) ''l1'' ''p1'' demo_db = Inr ((), D') \<and>
     (\<forall>p \<in> set (photos D'). ph_id p = ''p1'' \<longrightarrow> ph_status p = ''removed'') \<and>
     map_sum id (map (\<lambda>m. (pm_id m, pm_media_url m))) (public_list_listing_media id ''l1'' D') =
       Inr [(''p1'', ''d/d1'')]"
proof -
  have run: "\<exists>D'. remove_photo demo_env (Some demo_ctx) ''l1'' ''p1'' demo_db = Inr ((), D')"
    by (simp add: demo_defs remove_photo_def own_photo_def require_tenant_def Let_def
        ensure_tenant_match_def get_photo_by_id_def find_row_def)
  have uniq: "unique_on ph_id (photos demo_db)" by (simp add: demo_defs)
  have before: "map_sum id (map (\<lambda>m. (pm_id m, pm_media_url m))) (public_list_listing_media id ''l1'' demo_db) =
       Inr [(''p1'', ''d/d1'')]"
    by (simp add: demo_defs public_list_listing_media_def get_listing_by_id_def find_row_def
        list_by_listing_def get_public_safe_by_photo_def public_media_of_def List.map_filter_simps)
  from run obtain D' where D': "remove_photo demo_env (Some demo_ctx) ''l1'' ''p1'' demo_db = Inr ((), D')"
    by blast
  show ?thesis
    using removed_photo_stays_public [OF uniq D', where sign = id and i = "''l1''"] before D' by auto
qed

theorem public_media_safe_witness:
  "\<exists>ms. public_list_listing_media id ''l1'' demo_db = Inr ms \<and> map pm_id ms = [''p1''] \<and>
     (\<forall>m \<in> set ms. \<exists>d \<in> set (derivatives demo_db). d_is_public_safe d \<and>
        d_listing_photo_metadata_id d = pm_id m \<and> pm_media_url m = d_object_key d)"
proof -
  have "\<exists>ms. public_list_listing_media id ''l1'' demo_db = Inr ms \<and> map pm_id ms = [''p1'']"
    by (simp add: demo_defs public_list_listing_media_def get_listing_by_id_def find_row_def
        list_by_listing_def get_public_safe_by_photo_def public_media_of_def List.map_filter_simps)
  then show ?thesis using public_media_safe [where sign = id] by fastforce
qed
definition demo_media :: media_env where
  "demo_media = \<lparr>me_pil = Some (\<lambda>_. Some (2, 3)), me_max_mb = 1, me_hf_token = ''tok'',
     me_threshold = 1/2, me_classify = (\<lambda>_. Some [(''nsfw'', Some (1/10))]),
     me_internal_prefix = ''media''\<rparr>"


theorem thumbnail_map_safe_witness:
  "build_thumbnail_map id [''l1''] demo_db ''l1'' = Some (Some ''d/d1'') \<and>
   (\<exists>d \<in> set (derivatives demo_db). d_is_public_safe d \<and> d_object_key d = ''d/d1'')"
proof -
  have thumb: "build_thumbnail_map id [''l1''] demo_db ''l1'' = Some (Some ''d/d1'')"
    by (simp add: demo_defs build_thumbnail_map_def get_first_public_safe_for_listings_def
        list_public_safe_by_photos_def)
  then have "\<exists>p \<in> set (photos demo_db). \<exists>d \<in> set (derivatives demo_db). ph_listing_id p = ''l1'' \<and>
      d_listing_photo_metadata_id d = ph_id p \<and> d_is_public_safe d \<and> ''d/d1'' = id (d_object_key d)"
    using thumbnail_map_safe [of id "[''l1'']" demo_db] by blast
  with thumb show ?thesis by (metis id_apply)
qed

end
