(* ===== verification/ListingSearch.thy ===== *)
theory ListingSearch
  imports Photos
begin

text \<open>
  The public side of listings: \<open>ListingQueryService\<close> (\<open>listings/query_service.py\<close>) and the
  search and detail routes of \<open>listings/router.py\<close>. What lies outside the repository is in a
  \<open>search_env\<close>: PostgreSQL's ILIKE and \<open>lower\<close>, the binary rounding of \<open>float(Decimal)\<close>, the
  SHA-256 digest of the cache key, and the presigned URLs. A query parameter of type float is
  its exact rational value.
\<close>

record search_env =
  se_ilike :: "string \<Rightarrow> string \<Rightarrow> bool"
  se_lower :: "string \<Rightarrow> string"
  se_float :: "rat \<Rightarrow> rat"
  se_digest :: "(string \<times> json) list \<Rightarrow> string"
  se_sign :: "string \<Rightarrow> string"

section \<open>Filters\<close>

record search_filters =
  sf_location :: "string option"
  sf_city :: "string list option"
  sf_min_price :: "rat option"
  sf_max_price :: "rat option"
  sf_bedrooms :: "int option"
  sf_bathrooms :: "int option"
  sf_parking :: "int option"
  sf_floor :: "int option"
  sf_property_type :: "string option"
  sf_listing_purpose :: "string option"
  sf_furnishing :: "string option"
  sf_min_area_size :: "rat option"
  sf_max_area_size :: "rat option"

fun normalize_loop :: "string list \<Rightarrow> string list \<Rightarrow> string list \<Rightarrow> string list" where
  "normalize_loop [] seen normalized = normalized"
| "normalize_loop (raw # rest) seen normalized =
     (let stripped = py_strip raw
      in if stripped = [] then normalize_loop rest seen normalized
         else (let dedupe_key = py_lower stripped
               in if dedupe_key \<in> set seen then normalize_loop rest seen normalized
                  else normalize_loop rest (dedupe_key # seen) (normalized @ [stripped])))"

definition normalize_city_filters :: "string list option \<Rightarrow> string list" where
  "normalize_city_filters city =
     (case city of None \<Rightarrow> [] | Some raw_values \<Rightarrow> normalize_loop raw_values [] [])"

text \<open>A comparison with a NULL column is not true; \<open>if_some\<close> and \<open>if_truthy\<close> are the guards of the builder.\<close>

definition sql_cmp :: "('a \<Rightarrow> bool) \<Rightarrow> 'a option \<Rightarrow> bool" where
  "sql_cmp P col = (case col of None \<Rightarrow> False | Some x \<Rightarrow> P x)"

definition if_some :: "'a option \<Rightarrow> ('a \<Rightarrow> bool) \<Rightarrow> bool" where
  "if_some arg P = (case arg of None \<Rightarrow> True | Some x \<Rightarrow> P x)"

definition if_truthy :: "string option \<Rightarrow> (string \<Rightarrow> bool) \<Rightarrow> bool" where
  "if_truthy arg P = (case arg of None \<Rightarrow> True | Some x \<Rightarrow> x = [] \<or> P x)"

definition like_pattern :: "string \<Rightarrow> string" where
  "like_pattern s = ''%'' @ s @ ''%''"

definition matches :: "search_env \<Rightarrow> search_filters \<Rightarrow> Listing \<Rightarrow> bool" where
  "matches S f l \<longleftrightarrow>
     l_status l = ''active'' \<and>
     if_truthy (sf_location f) (\<lambda>loc.
       sql_cmp (\<lambda>c. se_ilike S c (like_pattern loc)) (l_location_text l) \<or>
       sql_cmp (\<lambda>c. se_ilike S c (like_pattern loc)) (l_city l) \<or>
       sql_cmp (\<lambda>c. se_ilike S c (like_pattern loc)) (l_address l)) \<and>
     (let cities = normalize_city_filters (sf_city f)
      in cities = [] \<or> sql_cmp (\<lambda>c. se_lower S c \<in> set (map py_lower cities)) (l_city l)) \<and>
     if_some (sf_min_price f) (\<lambda>b. sql_cmp (\<lambda>c. b \<le> c) (l_price l)) \<and>
     if_some (sf_max_price f) (\<lambda>b. sql_cmp (\<lambda>c. c \<le> b) (l_price l)) \<and>
     if_some (sf_bedrooms f) (\<lambda>b. sql_cmp (\<lambda>c. b \<le> c) (l_bedrooms l)) \<and>
     if_some (sf_bathrooms f) (\<lambda>b. sql_cmp (\<lambda>c. b \<le> c) (l_bathrooms l)) \<and>
     if_some (sf_parking f) (\<lambda>b. sql_cmp (\<lambda>c. b \<le> c) (l_parking l)) \<and>
     if_some (sf_floor f) (\<lambda>b. sql_cmp (\<lambda>c. c = b) (l_floor l)) \<and>
     if_truthy (sf_property_type f) (\<lambda>b. sql_cmp (\<lambda>c. c = b) (l_property_type l)) \<and>
     if_truthy (sf_listing_purpose f) (\<lambda>b. sql_cmp (\<lambda>c. c = b) (l_listing_purpose l)) \<and>
     if_truthy (sf_furnishing f) (\<lambda>b. sql_cmp (\<lambda>c. c = b) (l_furnishing l)) \<and>
     if_some (sf_min_area_size f) (\<lambda>b. sql_cmp (\<lambda>c. b \<le> c) (l_area_size l)) \<and>
     if_some (sf_max_area_size f) (\<lambda>b. sql_cmp (\<lambda>c. c \<le> b) (l_area_size l))"

section \<open>Order\<close>

definition key_newest :: "Listing \<Rightarrow> timestamp desc \<times> uuid desc" where
  "key_newest l = (Desc (l_created_at l), Desc (l_id l))"

definition key_oldest :: "Listing \<Rightarrow> timestamp \<times> uuid" where
  "key_oldest l = (l_created_at l, l_id l)"

definition key_asc :: "(Listing \<Rightarrow> rat option) \<Rightarrow> Listing \<Rightarrow> rat nulls_last \<times> uuid desc" where
  "key_asc col l = (of_nullable (col l), Desc (l_id l))"

definition key_desc :: "(Listing \<Rightarrow> rat option) \<Rightarrow> Listing \<Rightarrow> rat desc nulls_last \<times> uuid desc" where
  "key_desc col l = (of_nullable (map_option Desc (col l)), Desc (l_id l))"

definition order_rows :: "string option \<Rightarrow> Listing list \<Rightarrow> Listing list" where
  "order_rows srt rows =
     (if srt = Some ''newest'' then sort_key key_newest rows
      else if srt = Some ''oldest'' then sort_key key_oldest rows
      else if srt = Some ''price_asc'' then sort_key (key_asc l_price) rows
      else if srt = Some ''price_desc'' then sort_key (key_desc l_price) rows
      else if srt = Some ''area_size_asc'' then sort_key (key_asc l_area_size) rows
      else if srt = Some ''area_size_desc'' then sort_key (key_desc l_area_size) rows
      else sort_key key_newest rows)"

text \<open>A query is the conditions of its WHERE clause and its order; running it selects from the table.\<close>

record search_query =
  q_where :: "Listing \<Rightarrow> bool"
  q_sort :: "string option"

definition build_public_search_query ::
  "search_env \<Rightarrow> search_filters \<Rightarrow> string option \<Rightarrow> search_query" where
  "build_public_search_query S f srt = \<lparr>q_where = matches S f, q_sort = srt\<rparr>"

definition run_query :: "search_query \<Rightarrow> db \<Rightarrow> Listing list" where
  "run_query q D = order_rows (q_sort q) (filter (q_where q) (listings D))"

section \<open>Cursors\<close>

text \<open>
  The dictionary inside a cursor, read with \<open>.get\<close>: a missing or null entry is \<open>None\<close>. The
  creation time is a text in it: \<open>Iso t\<close> parses to the time \<open>t\<close>, \<open>BadIso\<close> is a text that
  \<open>fromisoformat\<close> refuses. On the wire a cursor is the base64 of that dictionary's JSON;
  \<open>Garbage\<close> is any other text.
\<close>

datatype iso_text = Iso timestamp | BadIso

record cursor_values =
  cv_created_at :: "iso_text option"
  cv_price :: "rat option"
  cv_area_size :: "rat option"
  cv_id :: "uuid option"

datatype raw_cursor = Encoded cursor_values | Garbage string

definition encode_cursor :: "cursor_values \<Rightarrow> raw_cursor" where
  "encode_cursor v = Encoded v"

definition decode_cursor :: "raw_cursor \<Rightarrow> cursor_values option" where
  "decode_cursor raw = (case raw of Encoded v \<Rightarrow> Some v | Garbage _ \<Rightarrow> None)"

definition no_cursor_values :: cursor_values where
  "no_cursor_values = \<lparr>cv_created_at = None, cv_price = None, cv_area_size = None, cv_id = None\<rparr>"

text \<open>\<open>sort or "newest"\<close>\<close>

definition effective_sort :: "string option \<Rightarrow> string" where
  "effective_sort srt = (if truthy srt then the srt else ''newest'')"

definition after_desc ::
  "(Listing \<Rightarrow> rat option) \<Rightarrow> rat option \<Rightarrow> uuid option \<Rightarrow> Listing \<Rightarrow> bool" where
  "after_desc col cv ci l =
     (if truthy ci then
        (case cv of
           Some v \<Rightarrow> sql_cmp (\<lambda>c. c < v) (col l) \<or>
                     (sql_cmp (\<lambda>c. c = v) (col l) \<and> l_id l < the ci) \<or> col l = None
         | None \<Rightarrow> col l = None \<and> l_id l < the ci)
      else True)"

definition after_asc ::
  "(Listing \<Rightarrow> rat option) \<Rightarrow> rat option \<Rightarrow> uuid option \<Rightarrow> Listing \<Rightarrow> bool" where
  "after_asc col cv ci l =
     (if truthy ci then
        (case cv of
           Some v \<Rightarrow> sql_cmp (\<lambda>c. v < c) (col l) \<or>
                     (sql_cmp (\<lambda>c. c = v) (col l) \<and> l_id l < the ci) \<or> col l = None
         | None \<Rightarrow> col l = None \<and> l_id l < the ci)
      else True)"

definition and_where :: "search_query \<Rightarrow> (Listing \<Rightarrow> bool) \<Rightarrow> search_query" where
  "and_where q P = q\<lparr>q_where := (\<lambda>l. q_where q l \<and> P l)\<rparr>"

definition apply_public_search_cursor ::
  "search_query \<Rightarrow> string option \<Rightarrow> cursor_values \<Rightarrow> py_exc + search_query" where
  "apply_public_search_cursor q srt v =
     (let sort_key = effective_sort srt; ci = cv_id v
      in if sort_key = ''newest'' then
           (case cv_created_at v of
              None \<Rightarrow> Inr q
            | Some ca_raw \<Rightarrow>
                if \<not> truthy ci then Inr q
                else (case ca_raw of
                        BadIso \<Rightarrow> Inl (ValueError ''Invalid isoformat string'')
                      | Iso ca \<Rightarrow> Inr (and_where q (\<lambda>l.
                          l_created_at l < ca \<or> (l_created_at l = ca \<and> l_id l < the ci)))))
         else if sort_key = ''oldest'' then
           (case cv_created_at v of
              None \<Rightarrow> Inr q
            | Some ca_raw \<Rightarrow>
                if \<not> truthy ci then Inr q
                else (case ca_raw of
                        BadIso \<Rightarrow> Inl (ValueError ''Invalid isoformat string'')
                      | Iso ca \<Rightarrow> Inr (and_where q (\<lambda>l.
                          ca < l_created_at l \<or> (l_created_at l = ca \<and> the ci < l_id l)))))
         else if sort_key = ''price_desc'' then Inr (and_where q (after_desc l_price (cv_price v) ci))
         else if sort_key = ''area_size_desc'' then
           Inr (and_where q (after_desc l_area_size (cv_area_size v) ci))
         else if sort_key = ''price_asc'' then Inr (and_where q (after_asc l_price (cv_price v) ci))
         else if sort_key = ''area_size_asc'' then
           Inr (and_where q (after_asc l_area_size (cv_area_size v) ci))
         else Inr q)"

definition make_cursor_from_item :: "search_env \<Rightarrow> Listing \<Rightarrow> string option \<Rightarrow> cursor_values" where
  "make_cursor_from_item S item srt =
     (let sort_key = effective_sort srt; base = no_cursor_values\<lparr>cv_id := Some (l_id item)\<rparr>
      in if sort_key \<in> {''newest'', ''oldest''} then
           base\<lparr>cv_created_at := Some (Iso (l_created_at item))\<rparr>
         else if sort_key \<in> {''price_desc'', ''price_asc''} then
           base\<lparr>cv_price := map_option (se_float S) (l_price item)\<rparr>
         else if sort_key \<in> {''area_size_desc'', ''area_size_asc''} then
           base\<lparr>cv_area_size := map_option (se_float S) (l_area_size item)\<rparr>
         else base)"

section \<open>The public routes\<close>

record PublicListingResponse =
  pl_id :: uuid
  pl_title :: string
  pl_description :: "string option"
  pl_property_type :: "string option"
  pl_listing_purpose :: "string option"
  pl_price :: "rat option"
  pl_currency :: "string option"
  pl_bedrooms :: "int option"
  pl_bathrooms :: "int option"
  pl_parking :: "int option"
  pl_floor :: "int option"
  pl_area_size :: "rat option"
  pl_area_unit :: "string option"
  pl_furnishing :: "string option"
  pl_location_text :: "string option"
  pl_city :: "string option"
  pl_country :: "string option"
  pl_status :: string
  pl_thumbnail_url :: "string option"
  pl_created_at :: timestamp
  pl_updated_at :: timestamp

definition public_response_of :: "string option \<Rightarrow> Listing \<Rightarrow> PublicListingResponse" where
  "public_response_of thumbnail l =
     \<lparr>pl_id = l_id l, pl_title = l_title l, pl_description = l_description l,
      pl_property_type = l_property_type l, pl_listing_purpose = l_listing_purpose l,
      pl_price = l_price l, pl_currency = l_currency l, pl_bedrooms = l_bedrooms l,
      pl_bathrooms = l_bathrooms l, pl_parking = l_parking l, pl_floor = l_floor l,
      pl_area_size = l_area_size l, pl_area_unit = l_area_unit l, pl_furnishing = l_furnishing l,
      pl_location_text = l_location_text l, pl_city = l_city l, pl_country = l_country l,
      pl_status = l_status l, pl_thumbnail_url = thumbnail, pl_created_at = l_created_at l,
      pl_updated_at = l_updated_at l\<rparr>"

record search_response =
  sr_items :: "PublicListingResponse list"
  sr_page :: nat
  sr_page_size :: nat
  sr_total :: nat
  sr_has_next :: bool
  sr_has_previous :: bool
  sr_next_cursor :: "raw_cursor option"

text \<open>What the search namespace of the cache holds: search pages and listing details.\<close>

datatype cached = CSearch search_response | CDetail PublicListingResponse

definition filters_dict :: "search_filters \<Rightarrow> string option \<Rightarrow> (string \<times> json) list" where
  "filters_dict f srt =
     [(''location'', jopt (sf_location f)),
      (''city'', case sf_city f of None \<Rightarrow> JNull | Some cs \<Rightarrow> JList (map JText cs)),
      (''min_price'', case sf_min_price f of None \<Rightarrow> JNull | Some x \<Rightarrow> JNum x),
      (''max_price'', case sf_max_price f of None \<Rightarrow> JNull | Some x \<Rightarrow> JNum x),
      (''bedrooms'', case sf_bedrooms f of None \<Rightarrow> JNull | Some n \<Rightarrow> JInt n),
      (''bathrooms'', case sf_bathrooms f of None \<Rightarrow> JNull | Some n \<Rightarrow> JInt n),
      (''parking'', case sf_parking f of None \<Rightarrow> JNull | Some n \<Rightarrow> JInt n),
      (''floor'', case sf_floor f of None \<Rightarrow> JNull | Some n \<Rightarrow> JInt n),
      (''property_type'', jopt (sf_property_type f)),
      (''listing_purpose'', jopt (sf_listing_purpose f)),
      (''furnishing'', jopt (sf_furnishing f)),
      (''min_area_size'', case sf_min_area_size f of None \<Rightarrow> JNull | Some x \<Rightarrow> JNum x),
      (''max_area_size'', case sf_max_area_size f of None \<Rightarrow> JNull | Some x \<Rightarrow> JNum x),
      (''sort'', jopt srt)]"

text \<open>The digest is of the canonical JSON text of the entries that are not null.\<close>

definition build_public_search_cache_key :: "search_env \<Rightarrow> (string \<times> json) list \<Rightarrow> string" where
  "build_public_search_cache_key S filters =
     ''search:v3:'' @ se_digest S (sort_key fst (filter (\<lambda>(k, v). v \<noteq> JNull) filters))"

definition log_search_event ::
  "ctx_env \<Rightarrow> uuid \<Rightarrow> uuid option \<Rightarrow> (string \<times> json) list \<Rightarrow> string option \<Rightarrow> int
     \<Rightarrow> db \<times> 'v redis \<Rightarrow> db \<times> 'v redis" where
  "log_search_event E i user_id filters srt result_count w =
     ((fst w)\<lparr>search_logs := search_logs (fst w) @
        [\<lparr>sg_id = i, sg_user_id = user_id, sg_agency_tenant_id = None, sg_source_mode = ''manual'',
          sg_event_type = ''manual_search'', sg_raw_query_redacted = None,
          sg_transcript_redacted = None, sg_intent = None, sg_filters = Some (JObj filters),
          sg_sort = srt, sg_result_count = result_count, sg_provider = None,
          sg_fallback_reason = None, sg_created_at = now_at E\<rparr>]\<rparr>,
      invalidate_platform_dashboard (snd w))"

definition response_items :: "search_env \<Rightarrow> db \<Rightarrow> Listing list \<Rightarrow> PublicListingResponse list" where
  "response_items S D items =
     (let thumb_map = build_thumbnail_map (se_sign S) (map l_id items) D
      in map (\<lambda>l. public_response_of (dict_get thumb_map (l_id l) None) l) items)"

text \<open>The cursor branch: one row more than a page decides whether there is a next page.\<close>

definition cursor_page ::
  "search_env \<Rightarrow> search_query \<Rightarrow> string option \<Rightarrow> raw_cursor \<Rightarrow> nat \<Rightarrow> db \<Rightarrow> py_exc + search_response" where
  "cursor_page S q srt cursor page_size D =
     sbind (case decode_cursor cursor of
              None \<Rightarrow> Inr q
            | Some decoded \<Rightarrow> apply_public_search_cursor q srt decoded) (\<lambda>q'.
       (let fetched = take (page_size + 1) (run_query q' D);
            has_next = page_size < length fetched;
            items = (if has_next then take page_size fetched else fetched);
            next_cursor = (if items \<noteq> [] \<and> has_next
                           then Some (encode_cursor (make_cursor_from_item S (last items) srt))
                           else None)
        in Inr \<lparr>sr_items = response_items S D items, sr_page = 1, sr_page_size = page_size,
                sr_total = 0, sr_has_next = has_next, sr_has_previous = False,
                sr_next_cursor = next_cursor\<rparr>))"

definition numbered_page ::
  "search_env \<Rightarrow> search_query \<Rightarrow> nat \<Rightarrow> nat \<Rightarrow> db \<Rightarrow> search_response" where
  "numbered_page S q page page_size D =
     (let rows = run_query q D; count = length rows;
          items = offset_limit ((page - 1) * page_size) page_size rows
      in \<lparr>sr_items = response_items S D items, sr_page = page, sr_page_size = page_size,
          sr_total = count, sr_has_next = page * page_size < count, sr_has_previous = 1 < page,
          sr_next_cursor = None\<rparr>)"

definition public_search_listings ::
  "search_env \<Rightarrow> rate_settings \<Rightarrow> ctx_env \<Rightarrow> string \<Rightarrow> uuid option \<Rightarrow> search_filters \<Rightarrow> string option
     \<Rightarrow> nat \<Rightarrow> nat \<Rightarrow> raw_cursor option \<Rightarrow> db \<times> cached redis
     \<Rightarrow> (py_exc + search_response) \<times> db \<times> cached redis" where
  "public_search_listings S st E client_ip actor f srt page page_size cursor w =
     (let (allowed, r1) = check_phase4_rate_limit st (now_at E) ''search'' client_ip (snd w);
          w1 = (fst w, r1)
      in case allowed of
           Inl e \<Rightarrow> (Inl e, w1)
         | Inr ok \<Rightarrow>
             if \<not> ok
             then (Inl (RateLimitExceededError ''Too many search requests. Please try again later.''), w1)
             else
               (let cache_filters = filters_dict f srt;
                    key = build_public_search_cache_key S cache_filters;
                    q = build_public_search_query S f srt
                in case cursor of
                     Some c \<Rightarrow>
                       (case cursor_page S q srt c page_size (fst w) of
                          Inl e \<Rightarrow> (Inl e, w1)
                        | Inr resp \<Rightarrow>
                            (Inr resp, log_search_event E (fresh E 0) actor cache_filters srt 0 w1))
                   | None \<Rightarrow>
                       (case (if page = 1 then cache_get (now_at E) LISTING_SEARCH_NAMESPACE key r1
                              else None) of
                          Some (CSearch hit) \<Rightarrow> (Inr hit, w1)
                        | _ \<Rightarrow>
                            (let resp = numbered_page S q page page_size (fst w);
                                 r2 = (if page = 1
                                       then cache_set (now_at E) LISTING_SEARCH_NAMESPACE key
                                              (CSearch resp) 120 r1
                                       else r1)
                             in (Inr resp,
                                 log_search_event E (fresh E 0) actor cache_filters srt
                                   (int (sr_total resp)) (fst w, r2))))))"

definition public_get_listing ::
  "search_env \<Rightarrow> ctx_env \<Rightarrow> uuid \<Rightarrow> db \<times> cached redis
     \<Rightarrow> (py_exc + PublicListingResponse) \<times> db \<times> cached redis" where
  "public_get_listing S E listing_id w =
     (case cache_get (now_at E) LISTING_SEARCH_NAMESPACE (''detail:'' @ listing_id) (snd w) of
        Some (CDetail hit) \<Rightarrow> (Inr hit, w)
      | _ \<Rightarrow>
          (case get_listing_by_id listing_id (fst w) of
             None \<Rightarrow> (Inl (NotFoundError ''Listing not found''), w)
           | Some listing \<Rightarrow>
               if l_status listing \<noteq> ''active'' then (Inl (NotFoundError ''Listing not found''), w)
               else
                 (let thumb_map = build_thumbnail_map (se_sign S) [listing_id] (fst w);
                      resp = public_response_of (dict_get thumb_map listing_id None) listing
                  in (Inr resp,
                      (fst w, cache_set (now_at E) LISTING_SEARCH_NAMESPACE (''detail:'' @ listing_id)
                                (CDetail resp) 300 (snd w))))))"

section \<open>Keyset pagination\<close>


lemma less_key_newest:
  "key_newest c < key_newest l \<longleftrightarrow>
     l_created_at l < l_created_at c \<or> (l_created_at l = l_created_at c \<and> l_id l < l_id c)"
  by (auto simp: key_newest_def less_prod_def)

lemma less_key_oldest:
  "key_oldest c < key_oldest l \<longleftrightarrow>
     l_created_at c < l_created_at l \<or> (l_created_at l = l_created_at c \<and> l_id c < l_id l)"
  by (auto simp: key_oldest_def less_prod_def)

lemma less_key_asc:
  "truthy ci \<Longrightarrow> the ci = l_id c \<Longrightarrow> key_asc col c < key_asc col l \<longleftrightarrow> after_asc col (col c) ci l"
  by (cases "col c"; cases "col l")
     (auto simp: key_asc_def less_prod_def after_asc_def sql_cmp_def)

lemma less_key_desc:
  "truthy ci \<Longrightarrow> the ci = l_id c \<Longrightarrow> key_desc col c < key_desc col l \<longleftrightarrow> after_desc col (col c) ci l"
  by (cases "col c"; cases "col l")
     (auto simp: key_desc_def less_prod_def after_desc_def sql_cmp_def)

lemma key_unique:
  assumes "unique_on l_id rows"
  shows "distinct (map key_newest rows)" "distinct (map key_oldest rows)"
    "distinct (map (key_asc col) rows)" "distinct (map (key_desc col) rows)"
  using assms
  by (auto simp: unique_on_def distinct_map inj_on_def key_newest_def key_oldest_def key_asc_def
      key_desc_def)

lemma suffix_after:
  fixes k :: "Listing \<Rightarrow> 'k::linorder"
  assumes "sort_key k rows = xs @ c # ys" and "distinct (map k rows)"
    and "\<And>l. P l \<longleftrightarrow> k c < k l"
  shows "filter P (xs @ c # ys) = ys"
proof -
  have "sorted (map k (xs @ c # ys))" unfolding assms(1) [symmetric] by simp
  moreover have "distinct (map k (xs @ c # ys))"
    using assms(2) unfolding assms(1) [symmetric] by (simp add: distinct_map)
  moreover have "P = (\<lambda>l. k c < k l)" using assms(3) by blast
  ultimately show ?thesis by (simp only: sorted_suffix [of k xs c ys])
qed

definition known_sorts :: "string list" where
  "known_sorts = [''newest'', ''oldest'', ''price_asc'', ''price_desc'', ''area_size_asc'', ''area_size_desc'']"

lemma effective_sort_order: "order_rows srt rows = order_rows (Some (effective_sort srt)) rows"
  by (cases srt) (auto simp: effective_sort_def truthy_def order_rows_def)

text \<open>The price and the area a cursor carries are floats; a row is exact when both survive the rounding.\<close>

definition float_exact :: "search_env \<Rightarrow> Listing \<Rightarrow> bool" where
  "float_exact S l \<longleftrightarrow> map_option (se_float S) (l_price l) = l_price l \<and>
     map_option (se_float S) (l_area_size l) = l_area_size l"

lemma cursor_condition:
  assumes known: "effective_sort srt \<in> set known_sorts"
    and c: "float_exact S c" "l_id c \<noteq> []"
    and uniq: "unique_on l_id rows" and ord: "order_rows srt rows = xs @ c # ys"
  shows "\<exists>P. apply_public_search_cursor q srt (make_cursor_from_item S c srt) = Inr (and_where q P) \<and>
    filter P (xs @ c # ys) = ys"
proof -
  note ord' = ord [unfolded effective_sort_order [of srt]]
  note defs = apply_public_search_cursor_def make_cursor_from_item_def no_cursor_values_def
    Let_def truthy_def
  note ex = c(1) [unfolded float_exact_def]
  note km = key_unique [OF uniq]
  let ?ci = "Some (l_id c)"
  from known consider "effective_sort srt = ''newest''" | "effective_sort srt = ''oldest''"
    | "effective_sort srt = ''price_asc''" | "effective_sort srt = ''price_desc''"
    | "effective_sort srt = ''area_size_asc''" | "effective_sort srt = ''area_size_desc''"
    by (auto simp: known_sorts_def)
  then show ?thesis
  proof cases
    case 1
    let ?P = "\<lambda>l. l_created_at l < l_created_at c \<or> (l_created_at l = l_created_at c \<and> l_id l < l_id c)"
    have "sort_key key_newest rows = xs @ c # ys" using ord' 1 by (simp add: order_rows_def)
    moreover have "\<And>l. ?P l \<longleftrightarrow> key_newest c < key_newest l" using c(2) by (simp add: less_key_newest truthy_def)
    ultimately have "filter ?P (xs @ c # ys) = ys" by (rule suffix_after [OF _ km(1)])
    moreover have "apply_public_search_cursor q srt (make_cursor_from_item S c srt) = Inr (and_where q ?P)"
      using c(2) ex 1 by (simp add: defs)
    ultimately show ?thesis by (intro exI [of _ ?P] conjI)
  next
    case 2
    let ?P = "\<lambda>l. l_created_at c < l_created_at l \<or> (l_created_at l = l_created_at c \<and> l_id c < l_id l)"
    have "sort_key key_oldest rows = xs @ c # ys" using ord' 2 by (simp add: order_rows_def)
    moreover have "\<And>l. ?P l \<longleftrightarrow> key_oldest c < key_oldest l" using c(2) by (simp add: less_key_oldest truthy_def)
    ultimately have "filter ?P (xs @ c # ys) = ys" by (rule suffix_after [OF _ km(2)])
    moreover have "apply_public_search_cursor q srt (make_cursor_from_item S c srt) = Inr (and_where q ?P)"
      using c(2) ex 2 by (simp add: defs)
    ultimately show ?thesis by (intro exI [of _ ?P] conjI)
  next
    case 3
    let ?P = "after_asc l_price (l_price c) ?ci"
    have "sort_key (key_asc l_price) rows = xs @ c # ys" using ord' 3 by (simp add: order_rows_def)
    moreover have "\<And>l. ?P l \<longleftrightarrow> (key_asc l_price) c < (key_asc l_price) l" using less_key_asc [where ci = ?ci and c = c and col = l_price] c(2) by (simp add: truthy_def)
    ultimately have "filter ?P (xs @ c # ys) = ys" by (rule suffix_after [OF _ km(3)])
    moreover have "apply_public_search_cursor q srt (make_cursor_from_item S c srt) = Inr (and_where q ?P)"
      using c(2) ex 3 by (simp add: defs)
    ultimately show ?thesis by (intro exI [of _ ?P] conjI)
  next
    case 4
    let ?P = "after_desc l_price (l_price c) ?ci"
    have "sort_key (key_desc l_price) rows = xs @ c # ys" using ord' 4 by (simp add: order_rows_def)
    moreover have "\<And>l. ?P l \<longleftrightarrow> (key_desc l_price) c < (key_desc l_price) l" using less_key_desc [where ci = ?ci and c = c and col = l_price] c(2) by (simp add: truthy_def)
    ultimately have "filter ?P (xs @ c # ys) = ys" by (rule suffix_after [OF _ km(4)])
    moreover have "apply_public_search_cursor q srt (make_cursor_from_item S c srt) = Inr (and_where q ?P)"
      using c(2) ex 4 by (simp add: defs)
    ultimately show ?thesis by (intro exI [of _ ?P] conjI)
  next
    case 5
    let ?P = "after_asc l_area_size (l_area_size c) ?ci"
    have "sort_key (key_asc l_area_size) rows = xs @ c # ys" using ord' 5 by (simp add: order_rows_def)
    moreover have "\<And>l. ?P l \<longleftrightarrow> (key_asc l_area_size) c < (key_asc l_area_size) l" using less_key_asc [where ci = ?ci and c = c and col = l_area_size] c(2) by (simp add: truthy_def)
    ultimately have "filter ?P (xs @ c # ys) = ys" by (rule suffix_after [OF _ km(3)])
    moreover have "apply_public_search_cursor q srt (make_cursor_from_item S c srt) = Inr (and_where q ?P)"
      using c(2) ex 5 by (simp add: defs)
    ultimately show ?thesis by (intro exI [of _ ?P] conjI)
  next
    case 6
    let ?P = "after_desc l_area_size (l_area_size c) ?ci"
    have "sort_key (key_desc l_area_size) rows = xs @ c # ys" using ord' 6 by (simp add: order_rows_def)
    moreover have "\<And>l. ?P l \<longleftrightarrow> (key_desc l_area_size) c < (key_desc l_area_size) l" using less_key_desc [where ci = ?ci and c = c and col = l_area_size] c(2) by (simp add: truthy_def)
    ultimately have "filter ?P (xs @ c # ys) = ys" by (rule suffix_after [OF _ km(4)])
    moreover have "apply_public_search_cursor q srt (make_cursor_from_item S c srt) = Inr (and_where q ?P)"
      using c(2) ex 6 by (simp add: defs)
    ultimately show ?thesis by (intro exI [of _ ?P] conjI)
  qed
qed

lemma filter_order_rows: "filter P (order_rows srt rows) = order_rows srt (filter P rows)"
  by (simp add: order_rows_def filter_sort)

lemma run_query_and_where: "run_query (and_where q P) D = filter P (run_query q D)"
  by (simp add: run_query_def and_where_def filter_order_rows conj_commute)

lemma set_order_rows [simp]: "set (order_rows srt rows) = set rows"
  by (simp add: order_rows_def)

lemma set_run_query [simp]: "set (run_query q D) = {l \<in> set (listings D). q_where q l}"
  by (auto simp: run_query_def)

lemma map_response_items_id [simp]: "map pl_id (response_items S D items) = map l_id items"
  by (simp add: response_items_def public_response_of_def Let_def)

text \<open>A client that follows \<open>next_cursor\<close> until there is none, and the identifiers it has seen.\<close>

fun follow_cursor ::
  "search_env \<Rightarrow> search_query \<Rightarrow> string option \<Rightarrow> nat \<Rightarrow> db \<Rightarrow> nat \<Rightarrow> raw_cursor \<Rightarrow> uuid list" where
  "follow_cursor S q srt page_size D 0 cursor = []"
| "follow_cursor S q srt page_size D (Suc fuel) cursor =
     (case cursor_page S q srt cursor page_size D of
        Inl e \<Rightarrow> []
      | Inr resp \<Rightarrow> map pl_id (sr_items resp) @
          (case sr_next_cursor resp of
             None \<Rightarrow> []
           | Some c \<Rightarrow> follow_cursor S q srt page_size D fuel c))"

lemma run_query_condition:
  assumes "effective_sort srt \<in> set known_sorts" and "unique_on l_id (listings D)"
    and "\<forall>l \<in> set (listings D). l_id l \<noteq> [] \<and> float_exact S l"
    and "q_sort q = srt" and "run_query q D = xs @ c # ys"
  shows "\<exists>q'. apply_public_search_cursor q srt (make_cursor_from_item S c srt) = Inr q' \<and>
    run_query q' D = ys"
proof -
  have "c \<in> set (run_query q D)" using assms(5) by simp
  then have c: "float_exact S c" "l_id c \<noteq> []" using assms(3) by auto
  have u: "unique_on l_id (filter (q_where q) (listings D))"
    using assms(2) by (simp add: unique_on_def distinct_map_filter)
  from cursor_condition [OF assms(1) c u, where q = q] assms(4,5) obtain P where
    "apply_public_search_cursor q srt (make_cursor_from_item S c srt) = Inr (and_where q P)"
    "filter P (xs @ c # ys) = ys" by (auto simp: run_query_def)
  then show ?thesis using assms(5) by (auto simp: run_query_and_where)
qed

lemma cursor_page_rows:
  assumes "(case decode_cursor cur of None \<Rightarrow> Inr q
            | Some v \<Rightarrow> apply_public_search_cursor q srt v) = Inr q'" and "run_query q' D = ys"
  shows "\<exists>resp. cursor_page S q srt cur n D = Inr resp \<and> map pl_id (sr_items resp) = map l_id (take n ys) \<and>
    sr_has_next resp = (n < length ys) \<and>
    sr_next_cursor resp = (if n < length ys \<and> n \<noteq> 0
       then Some (encode_cursor (make_cursor_from_item S (ys ! (n - 1)) srt)) else None)"
proof -
  have "last (take n ys) = ys ! (n - 1)" if "n < length ys" "n \<noteq> 0"
    using that by (subst last_conv_nth) (auto simp: min_def)
  moreover have "take n (take (n + 1) ys) = take n ys" by simp
  ultimately show ?thesis
    using assms by (auto simp: cursor_page_def Let_def)
qed

lemma follow_cursor_rows:
  assumes ok: "effective_sort srt \<in> set known_sorts" "unique_on l_id (listings D)"
      "\<forall>l \<in> set (listings D). l_id l \<noteq> [] \<and> float_exact S l" "q_sort q = srt" "0 < n"
    and "(case decode_cursor cur of None \<Rightarrow> Inr q
            | Some v \<Rightarrow> apply_public_search_cursor q srt v) = Inr q'" and "run_query q' D = ys"
    and "run_query q D = xs @ ys" and "length ys < fuel"
  shows "follow_cursor S q srt n D fuel cur = map l_id ys"
  using assms(6-9)
proof (induction fuel arbitrary: cur q' xs ys)
  case (Suc fuel)
  from cursor_page_rows [OF Suc.prems(1,2), where n = n and S = S] obtain resp where
    resp: "cursor_page S q srt cur n D = Inr resp" "map pl_id (sr_items resp) = map l_id (take n ys)"
      "sr_next_cursor resp = (if n < length ys \<and> n \<noteq> 0
         then Some (encode_cursor (make_cursor_from_item S (ys ! (n - 1)) srt)) else None)" by blast
  show ?case
  proof (cases "n < length ys")
    case False
    then show ?thesis using resp by simp
  next
    case True
    let ?c = "ys ! (n - 1)"
    have split: "ys = take (n - 1) ys @ ?c # drop n ys"
      using True \<open>0 < n\<close> id_take_nth_drop [of "n - 1" ys] by simp
    then have rq: "run_query q D = (xs @ take (n - 1) ys) @ ?c # drop n ys"
      using Suc.prems(3) by simp
    from run_query_condition [OF ok(1-4) this] obtain q2 where
      q2: "apply_public_search_cursor q srt (make_cursor_from_item S ?c srt) = Inr q2"
        "run_query q2 D = drop n ys" by blast
    have "follow_cursor S q srt n D fuel (encode_cursor (make_cursor_from_item S ?c srt)) =
        map l_id (drop n ys)"
    proof (rule Suc.IH)
      show "(case decode_cursor (encode_cursor (make_cursor_from_item S ?c srt)) of None \<Rightarrow> Inr q
            | Some v \<Rightarrow> apply_public_search_cursor q srt v) = Inr q2"
        using q2(1) by (simp add: decode_cursor_def encode_cursor_def)
      show "run_query q D = (xs @ take n ys) @ drop n ys" using Suc.prems(3) by simp
      show "length (drop n ys) < fuel" using Suc.prems(4) True \<open>0 < n\<close> by simp
    qed (rule q2(2))
    then have "follow_cursor S q srt n D (Suc fuel) cur = map l_id (take n ys) @ map l_id (drop n ys)"
      using resp True \<open>0 < n\<close> by simp
    then show ?thesis by (metis append_take_drop_id map_append)
  qed
qed simp

text \<open>
  C4. Keyset pagination is complete and never repeats a row: for each of the six sort orders
  and any page size, a client that starts after some row of the result and follows
  \<open>next_cursor\<close> sees exactly the rows after it, each once and in order, and then stops; a
  client that starts from an unreadable cursor sees the whole result.
\<close>

theorem keyset_pagination_complete:
  fixes S srt f D
  defines "q \<equiv> build_public_search_query S f srt"
  assumes "effective_sort srt \<in> set known_sorts" and "unique_on l_id (listings D)"
    and "\<forall>l \<in> set (listings D). l_id l \<noteq> [] \<and> float_exact S l" and "0 < page_size"
    and "run_query q D = xs @ c # ys"
  shows "follow_cursor S q srt page_size D (Suc (length ys))
      (encode_cursor (make_cursor_from_item S c srt)) = map l_id ys \<and>
    follow_cursor S q srt page_size D (Suc (length (run_query q D))) (Garbage junk) =
      map l_id (run_query q D)"
proof -
  have srt: "q_sort q = srt" by (simp add: q_def build_public_search_query_def)
  from run_query_condition [OF assms(2-4) srt assms(6)] obtain q' where
    q': "apply_public_search_cursor q srt (make_cursor_from_item S c srt) = Inr q'"
      "run_query q' D = ys" by blast
  have "follow_cursor S q srt page_size D (Suc (length ys))
      (encode_cursor (make_cursor_from_item S c srt)) = map l_id ys"
    by (rule follow_cursor_rows [OF assms(2-4) srt assms(5) _ q'(2), where xs = "xs @ [c]"])
       (simp_all add: q' assms(6) decode_cursor_def encode_cursor_def)
  moreover have "follow_cursor S q srt page_size D (Suc (length (run_query q D))) (Garbage junk) =
      map l_id (run_query q D)"
    by (rule follow_cursor_rows [OF assms(2-4) srt assms(5) _ refl, where xs = "[]"])
       (simp_all add: decode_cursor_def)
  ultimately show ?thesis by blast
qed


lemma unknown_sort_cursor:
  assumes "effective_sort srt \<notin> set known_sorts"
  shows "apply_public_search_cursor q srt v = Inr q"
  using assms by (simp add: apply_public_search_cursor_def known_sorts_def Let_def)

text \<open>
  A sort name the builder does not know defeats keyset pagination: the cursor is ignored,
  so as long as the result is longer than a page the client is given the first page again,
  with another cursor, for as many requests as it makes.
\<close>

theorem unknown_sort_repeats_first_page:
  assumes "effective_sort srt \<notin> set known_sorts" and "0 < page_size"
    and "page_size < length (run_query q D)"
  shows "follow_cursor S q srt page_size D fuel cursor =
    concat (replicate fuel (map l_id (take page_size (run_query q D))))"
proof (induction fuel arbitrary: cursor)
  case (Suc fuel)
  have "(case decode_cursor cursor of None \<Rightarrow> Inr q
            | Some v \<Rightarrow> apply_public_search_cursor q srt v) = Inr q"
    using unknown_sort_cursor [OF assms(1)] by (simp split: option.split)
  from cursor_page_rows [OF this refl, where n = page_size and D = D and S = S] assms(2,3) obtain resp where
    "cursor_page S q srt cursor page_size D = Inr resp"
    "map pl_id (sr_items resp) = map l_id (take page_size (run_query q D))"
    "sr_next_cursor resp = Some (encode_cursor (make_cursor_from_item S (run_query q D ! (page_size - 1)) srt))"
    by auto
  then show ?case using Suc by simp
qed simp

section \<open>The cache of public answers\<close>

lemma check_rate_limit_keeps_cache:
  "take 6 k = ''cache:'' \<Longrightarrow> snd (check_rate_limit st now ty i mx wd r) k = r k"
  by (auto simp: check_rate_limit_def Let_def redis_set_def rate_limit_key_def
      split: option.splits rvalue.splits)

lemma check_phase4_keeps_cache:
  "take 6 k = ''cache:'' \<Longrightarrow> snd (check_phase4_rate_limit st now ac i r) k = r k"
  by (simp add: check_phase4_rate_limit_def check_rate_limit_keeps_cache split: prod.split)

lemma cache_key_prefix [simp]: "take 6 (cache_key ns k) = ''cache:''"
  by (simp add: cache_key_def)

lemma dashboard_keeps_search:
  "invalidate_platform_dashboard r (cache_key LISTING_SEARCH_NAMESPACE k) =
     r (cache_key LISTING_SEARCH_NAMESPACE k)"
  by (simp add: invalidate_platform_dashboard_def cache_invalidate_namespace_def redis_scan_delete_def
      cache_key_def LISTING_SEARCH_NAMESPACE_def PLATFORM_DASHBOARD_INSIGHTS_CACHE_NAMESPACE_def)

lemma cache_get_cong:
  "r (cache_key ns k) = r' (cache_key ns k) \<Longrightarrow> cache_get now ns k r = cache_get now ns k r'"
  by (simp add: cache_get_def redis_get_def)

lemma cache_get_dashboard [simp]:
  "cache_get now LISTING_SEARCH_NAMESPACE k (invalidate_platform_dashboard r) =
     cache_get now LISTING_SEARCH_NAMESPACE k r"
  by (simp add: cache_get_def redis_get_def dashboard_keeps_search)

lemma cache_get_set:
  "cache_get now ns k (cache_set t ns k v ttl r) = (if now < t + seconds ttl then Some v else None)"
  by (simp add: cache_get_def cache_set_def)

text \<open>
  The cached first page ignores the page size: after a first-page search that missed the
  cache, any other client's first-page search with the same filters within the next two
  minutes is answered with that very page, whatever page size it asks for (unless its own
  rate limit refuses it).
\<close>

theorem search_cache_ignores_page_size:
  assumes first: "public_search_listings S st E ip actor f srt 1 n None w = (Inr resp, w1)"
    and miss: "cache_get (now_at E) LISTING_SEARCH_NAMESPACE
                 (build_public_search_cache_key S (filters_dict f srt)) (snd w) = None"
    and second: "public_search_listings S st E2 ip2 actor2 f srt 1 m None w1 = (out, w2)"
    and time: "now_at E2 < now_at E + seconds 120"
    and allowed: "fst (check_phase4_rate_limit st (now_at E2) ''search'' ip2 (snd w1)) = Inr True"
  shows "out = Inr resp \<and> sr_page_size resp = n \<and> fst w2 = fst w1"
proof -
  let ?key = "build_public_search_cache_key S (filters_dict f srt)"
  let ?ck = "cache_key LISTING_SEARCH_NAMESPACE ?key"
  have keep: "snd (check_phase4_rate_limit st t a i r) ?ck = r ?ck" for t a i and r :: "cached redis"
    by (rule check_phase4_keeps_cache) simp
  obtain al r1 where rl: "check_phase4_rate_limit st (now_at E) ''search'' ip (snd w) = (al, r1)"
    by (cases "check_phase4_rate_limit st (now_at E) ''search'' ip (snd w)")
  have miss1: "cache_get (now_at E) LISTING_SEARCH_NAMESPACE ?key r1 = None"
    using miss cache_get_cong keep [of "now_at E" "''search''" ip "snd w"] rl by (metis snd_conv)
  from first rl miss1 have resp: "resp = numbered_page S (build_public_search_query S f srt) 1 n (fst w)"
    and w1: "w1 = log_search_event E (fresh E 0) actor (filters_dict f srt) srt (int (sr_total resp))
       (fst w, cache_set (now_at E) LISTING_SEARCH_NAMESPACE ?key (CSearch resp) 120 r1)"
    by (auto simp: public_search_listings_def Let_def split: sum.splits if_splits)
  obtain r3 where rl2: "check_phase4_rate_limit st (now_at E2) ''search'' ip2 (snd w1) = (Inr True, r3)"
    using allowed by (cases "check_phase4_rate_limit st (now_at E2) ''search'' ip2 (snd w1)") auto
  have "cache_get (now_at E2) LISTING_SEARCH_NAMESPACE ?key (snd w1) = Some (CSearch resp)"
    unfolding w1 log_search_event_def snd_conv
    by (simp add: cache_get_set time)
  then have "cache_get (now_at E2) LISTING_SEARCH_NAMESPACE ?key r3 = Some (CSearch resp)"
    using cache_get_cong keep [of "now_at E2" "''search''" ip2 "snd w1"] rl2 by (metis snd_conv)
  with second rl2 have "out = Inr resp \<and> w2 = (fst w1, r3)"
    by (simp add: public_search_listings_def)
  then show ?thesis by (simp add: resp numbered_page_def Let_def)
qed

definition detail_key :: "uuid \<Rightarrow> string" where
  "detail_key i = cache_key LISTING_SEARCH_NAMESPACE (''detail:'' @ i)"

text \<open>
  The detail cache is coherent when every cached detail answer is the current row of an active
  listing, up to the thumbnail.
\<close>

definition detail_coherent :: "db \<times> cached redis \<Rightarrow> bool" where
  "detail_coherent w \<longleftrightarrow>
     (\<forall>i resp e. snd w (detail_key i) = Some (RJson (CDetail resp), e) \<longrightarrow>
        (\<exists>l. find_row l_id i (listings (fst w)) = Some l \<and> l_status l = ''active'' \<and>
             resp = public_response_of (pl_thumbnail_url resp) l))"

lemma invalidate_search_detail:
  "i \<noteq> [] \<Longrightarrow> invalidate_listing_search_cache (Some i) r (detail_key j) =
     (if j = i then None else r (detail_key j))"
  by (simp add: invalidate_listing_search_cache_def cache_delete_def redis_delete_def
      redis_scan_delete_def detail_key_def cache_key_def LISTING_SEARCH_NAMESPACE_def)

lemma dashboard_keeps_detail: "invalidate_platform_dashboard r (detail_key i) = r (detail_key i)"
  by (simp add: detail_key_def dashboard_keeps_search del: append.simps)

lemma update_listing_redis:
  "update_listing E tenant i data w = Inr (l, w') \<Longrightarrow>
     snd w' = invalidate_platform_dashboard (invalidate_listing_search_cache (Some i) (snd w))"
  by (auto simp: update_listing_def run_simps)

lemma create_listing_redis:
  "create_listing E tenant data w = Inr (l, w') \<Longrightarrow>
     snd w' = invalidate_platform_dashboard (invalidate_listing_search_cache (Some (l_id l)) (snd w))"
  by (auto simp: create_listing_def run_simps)

lemma archive_listing_redis:
  "archive_listing E tenant i w = Inr (u, w') \<Longrightarrow> w' = w \<or>
     snd w' = invalidate_platform_dashboard (invalidate_listing_search_cache (Some i) (snd w))"
  by (auto simp: archive_listing_def run_simps split: if_splits)

lemma replace_listing_coherent:
  assumes "detail_coherent w" and "i \<noteq> []" and "l_id l = i"
    and "listings (fst w') = update_row l_id i (\<lambda>_. l) (listings (fst w))"
    and "snd w' = invalidate_platform_dashboard (invalidate_listing_search_cache (Some i) (snd w))"
  shows "detail_coherent w'"
  using assms unfolding detail_coherent_def
  by (auto simp: dashboard_keeps_detail invalidate_search_detail find_row_replace)

lemma update_listing_coherent:
  assumes "detail_coherent w" and "i \<noteq> []" and run: "update_listing E tenant i data w = Inr (l, w')"
  shows "detail_coherent w'"
proof -
  from update_listing_Inr [OF run] obtain ctx :: TenantContext and old l1 where
    old: "find_row l_id i (listings (fst w)) = Some old" and
    st: "apply_listing_status E (dt_status data) (apply_listing_fields data old) = Inr l1" and
    l: "l = updated_row E ctx old l1" and
    new: "listings (fst w') = update_row l_id i (\<lambda>_. l) (listings (fst w))"
    by (elim exE conjE) (rule that)
  have "l_id l = i" using apply_listing_status_Inr [OF st] old by (auto simp: l dest: find_row_Some)
  then show ?thesis
    using replace_listing_coherent [OF assms(1,2)] new update_listing_redis [OF run] by blast
qed

lemma archive_listing_coherent:
  assumes "detail_coherent w" and "i \<noteq> []" and run: "archive_listing E tenant i w = Inr (u, w')"
  shows "detail_coherent w'"
proof -
  from archive_listing_Inr [OF run] obtain ctx :: TenantContext and old where
    old: "find_row l_id i (listings (fst w)) = Some old" and
    new: "w' = w \<or> listings (fst w') = update_row l_id i (\<lambda>_. archived_row E ctx old) (listings (fst w))"
    by metis
  have id: "l_id (archived_row E ctx old) = i" using old by (auto dest: find_row_Some)
  show ?thesis
    using new archive_listing_redis [OF run] assms(1)
      replace_listing_coherent [OF assms(1,2) id, of w'] by blast
qed

lemma create_listing_coherent:
  assumes "detail_coherent w" and run: "create_listing E tenant data w = Inr (l, w')"
    and "l_id l \<noteq> []"
  shows "detail_coherent w'"
proof -
  have "listings (fst w') = listings (fst w) @ [l]" using create_listing_Inr [OF run] by metis
  then show ?thesis
    using assms(1,3) create_listing_redis [OF run] unfolding detail_coherent_def
    by (force simp: dashboard_keeps_detail invalidate_search_detail find_row_append_new)
qed

lemma detail_key_prefix: "take 6 (detail_key i) = ''cache:''"
  unfolding detail_key_def by (rule cache_key_prefix)

lemma coherent_cong:
  assumes "detail_coherent w" and "listings (fst w') = listings (fst w)"
    and "\<And>i. snd w' (detail_key i) = snd w (detail_key i)"
  shows "detail_coherent w'"
  using assms by (simp add: detail_coherent_def)

lemma cache_set_search_detail:
  "cache_set now LISTING_SEARCH_NAMESPACE (build_public_search_cache_key S fs) v ttl r (detail_key i) =
     r (detail_key i)"
  by (simp add: cache_set_def redis_set_def detail_key_def cache_key_def build_public_search_cache_key_def)

lemma log_search_event_world [simp]:
  "listings (fst (log_search_event E i us fs srt n w)) = listings (fst w)"
  "snd (log_search_event E i us fs srt n w) = invalidate_platform_dashboard (snd w)"
  by (simp_all add: log_search_event_def)

lemma public_search_keeps_details:
  assumes "public_search_listings S st E ip actor f srt page n cursor w = (out, w')"
  shows "listings (fst w') = listings (fst w)" and "snd w' (detail_key i) = snd w (detail_key i)"
proof -
  obtain al r1 where rl: "check_phase4_rate_limit st (now_at E) ''search'' ip (snd w) = (al, r1)"
    by (cases "check_phase4_rate_limit st (now_at E) ''search'' ip (snd w)")
  have r1: "r1 (detail_key i) = snd w (detail_key i)"
    using check_phase4_keeps_cache [OF detail_key_prefix, of st "now_at E" "''search''" ip "snd w" i] rl by simp
  show "listings (fst w') = listings (fst w)" and "snd w' (detail_key i) = snd w (detail_key i)"
    using assms rl r1
    by (auto simp: public_search_listings_def Let_def dashboard_keeps_detail cache_set_search_detail
        split: sum.splits if_splits option.splits cached.splits)
qed

lemma public_get_listing_coherent:
  assumes co: "detail_coherent w" and run: "public_get_listing S E i w = (out, w')"
  shows "detail_coherent w' \<and>
    (case out of
       Inr resp \<Rightarrow> \<exists>l. find_row l_id i (listings (fst w)) = Some l \<and> l_status l = ''active'' \<and>
         resp = public_response_of (pl_thumbnail_url resp) l
     | Inl e \<Rightarrow> e = NotFoundError ''Listing not found'' \<and>
         \<not> (\<exists>l. find_row l_id i (listings (fst w)) = Some l \<and> l_status l = ''active''))"
proof (cases "\<exists>hit. cache_get (now_at E) LISTING_SEARCH_NAMESPACE (''detail:'' @ i) (snd w) = Some (CDetail hit)")
  case True
  then obtain hit where hit: "cache_get (now_at E) LISTING_SEARCH_NAMESPACE (''detail:'' @ i) (snd w) = Some (CDetail hit)"
    by blast
  then obtain e where "snd w (detail_key i) = Some (RJson (CDetail hit), e)"
    by (auto simp: cache_get_def redis_get_def detail_key_def split: option.splits rvalue.splits if_splits)
  then show ?thesis
    using co run hit by (auto simp: public_get_listing_def detail_coherent_def)
next
  case False
  then have miss: "public_get_listing S E i w =
     (case get_listing_by_id i (fst w) of
        None \<Rightarrow> (Inl (NotFoundError ''Listing not found''), w)
      | Some listing \<Rightarrow>
          if l_status listing \<noteq> ''active'' then (Inl (NotFoundError ''Listing not found''), w)
          else
            (let thumb_map = build_thumbnail_map (se_sign S) [i] (fst w);
                 resp = public_response_of (dict_get thumb_map i None) listing
             in (Inr resp,
                 (fst w, cache_set (now_at E) LISTING_SEARCH_NAMESPACE (''detail:'' @ i)
                           (CDetail resp) 300 (snd w)))))"
    by (auto simp: public_get_listing_def split: option.split cached.split)
  have put: "cache_set t LISTING_SEARCH_NAMESPACE (''detail:'' @ i) v ttl r (detail_key j) =
      (if j = i then Some (RJson v, Some (t + seconds ttl)) else r (detail_key j))" for t v ttl r j
    by (auto simp: cache_set_def redis_set_def detail_key_def cache_key_def)
  have thumb: "pl_thumbnail_url (public_response_of th l) = th" for th l
    by (simp add: public_response_of_def)
  show ?thesis
    using co run unfolding miss detail_coherent_def get_listing_by_id_def
    by (auto simp: put thumb Let_def simp del: append.simps split: option.splits if_splits)
qed

text \<open>The catalog's steps: what agencies do to listings and what visitors read, in any order.\<close>

inductive catalog_step ::
  "search_env \<Rightarrow> rate_settings \<Rightarrow> db \<times> cached redis \<Rightarrow> db \<times> cached redis \<Rightarrow> bool" for S st where
  create: "create_listing E tenant data w = Inr (l, w') \<Longrightarrow> l_id l \<noteq> [] \<Longrightarrow> catalog_step S st w w'"
| update: "update_listing E tenant i data w = Inr (l, w') \<Longrightarrow> i \<noteq> [] \<Longrightarrow> catalog_step S st w w'"
| archive: "archive_listing E tenant i w = Inr (u, w') \<Longrightarrow> i \<noteq> [] \<Longrightarrow> catalog_step S st w w'"
| detail: "public_get_listing S E i w = (out, w') \<Longrightarrow> catalog_step S st w w'"
| search: "public_search_listings S st E ip actor f srt page n cursor w = (out', w') \<Longrightarrow>
    catalog_step S st w w'"

inductive_cases catalog_stepE: "catalog_step S st w w'"

lemma catalog_step_coherent:
  assumes "catalog_step S st w w'" and "detail_coherent w"
  shows "detail_coherent w'"
  using assms
proof (induction rule: catalog_step.induct)
  case (detail E i w out w')
  then show ?case using public_get_listing_coherent by blast
next
  case (search E ip actor f srt page n cursor w out' w')
  show ?case
    by (rule coherent_cong [OF search.prems])
       (use public_search_keeps_details [OF search.hyps] in blast)+
qed (blast intro: create_listing_coherent update_listing_coherent archive_listing_coherent)+

lemma catalog_reachable_coherent:
  "(catalog_step S st)\<^sup>*\<^sup>* w0 w \<Longrightarrow> detail_coherent w0 \<Longrightarrow> detail_coherent w"
  by (induction rule: rtranclp_induct) (auto dest: catalog_step_coherent)

text \<open>
  C11. The detail page never lies: after any sequence of listing creations, updates,
  archivings, detail reads and searches from an empty cache, the public detail of a listing,
  cached or not, is answered exactly when the listing is active now, and shows its current
  fields (the thumbnail URL alone may be older).
\<close>

theorem public_detail_is_current:
  assumes "(catalog_step S st)\<^sup>*\<^sup>* (D0, Map.empty) w" and "public_get_listing S E i w = (out, w')"
  shows "case out of
       Inr resp \<Rightarrow> \<exists>l. find_row l_id i (listings (fst w)) = Some l \<and> l_status l = ''active'' \<and>
         resp = public_response_of (pl_thumbnail_url resp) l
     | Inl e \<Rightarrow> e = NotFoundError ''Listing not found'' \<and>
         \<not> (\<exists>l. find_row l_id i (listings (fst w)) = Some l \<and> l_status l = ''active'')"
proof -
  have "detail_coherent (D0, Map.empty)" by (simp add: detail_coherent_def)
  then have "detail_coherent w" using catalog_reachable_coherent assms(1) by blast
  then show ?thesis using public_get_listing_coherent assms(2) by blast
qed

section \<open>Witnesses\<close>

definition demo_search_env :: search_env where
  "demo_search_env = \<lparr>se_ilike = (\<lambda>_ _. True), se_lower = py_lower, se_float = id,
     se_digest = (\<lambda>_. ''d''), se_sign = id\<rparr>"

definition demo_filters :: search_filters where
  "demo_filters = \<lparr>sf_location = None, sf_city = None, sf_min_price = None, sf_max_price = None,
     sf_bedrooms = None, sf_bathrooms = None, sf_parking = None, sf_floor = None,
     sf_property_type = None, sf_listing_purpose = None, sf_furnishing = None,
     sf_min_area_size = None, sf_max_area_size = None\<rparr>"

definition demo_db2 :: db where
  "demo_db2 = empty_db\<lparr>listings := [demo_listing ''a'' ''active'', demo_listing ''c'' ''active'',
     demo_listing ''x'' ''inactive'', demo_listing ''b'' ''active'']\<rparr>"

definition demo_limits :: rate_settings where
  "demo_limits = \<lparr>rate_limit_default_max_requests = 10, rate_limit_default_window_seconds = 60\<rparr>"

lemma demo_matches:
  "matches demo_search_env demo_filters (demo_listing i s) = (s = ''active'')"
  by (simp add: matches_def demo_filters_def if_some_def if_truthy_def normalize_city_filters_def
      demo_listing_def)

lemma demo_filter:
  "filter (matches demo_search_env demo_filters) (listings demo_db2) =
     [demo_listing ''a'' ''active'', demo_listing ''c'' ''active'', demo_listing ''b'' ''active'']"
  by (simp add: demo_db2_def demo_matches)

lemma demo_query:
  "run_query (build_public_search_query demo_search_env demo_filters (Some ''oldest'')) demo_db2 =
     [demo_listing ''a'' ''active'', demo_listing ''b'' ''active'', demo_listing ''c'' ''active'']"
  "run_query (build_public_search_query demo_search_env demo_filters (Some ''best'')) demo_db2 =
     [demo_listing ''c'' ''active'', demo_listing ''b'' ''active'', demo_listing ''a'' ''active'']"
  by (simp_all add: run_query_def build_public_search_query_def demo_filter
      order_rows_def key_oldest_def key_newest_def demo_listing_def less_eq_desc_def)

theorem keyset_pagination_complete_witness:
  "follow_cursor demo_search_env
     (build_public_search_query demo_search_env demo_filters (Some ''oldest'')) (Some ''oldest'') 1 demo_db2 3
     (encode_cursor (make_cursor_from_item demo_search_env (demo_listing ''a'' ''active'') (Some ''oldest'')))
   = [''b'', ''c'']"
proof -
  have "effective_sort (Some ''oldest'') \<in> set known_sorts"
    by (simp add: effective_sort_def truthy_def known_sorts_def)
  moreover have "unique_on l_id (listings demo_db2)"
    "\<forall>l \<in> set (listings demo_db2). l_id l \<noteq> [] \<and> float_exact demo_search_env l"
    by (simp_all add: demo_db2_def empty_db_def demo_listing_def float_exact_def demo_search_env_def)
  ultimately show ?thesis
    using keyset_pagination_complete [where S = demo_search_env and srt = "Some ''oldest''" and
        f = demo_filters and D = demo_db2 and page_size = 1 and xs = "[]" and
        c = "demo_listing ''a'' ''active''" and
        ys = "[demo_listing ''b'' ''active'', demo_listing ''c'' ''active'']"] demo_query(1)
    by (simp add: demo_listing_def numeral_3_eq_3)
qed

theorem unknown_sort_repeats_first_page_witness:
  "follow_cursor demo_search_env
     (build_public_search_query demo_search_env demo_filters (Some ''best'')) (Some ''best'') 2 demo_db2 3
     (Garbage []) = [''c'', ''b'', ''c'', ''b'', ''c'', ''b'']"
proof -
  have "effective_sort (Some ''best'') \<notin> set known_sorts"
    by (simp add: effective_sort_def truthy_def known_sorts_def)
  then show ?thesis
    using unknown_sort_repeats_first_page [of "Some ''best''" 2
        "build_public_search_query demo_search_env demo_filters (Some ''best'')" demo_db2 demo_search_env 3 "Garbage []"]
      demo_query(2)
    by (simp add: demo_listing_def numeral_3_eq_3 numeral_2_eq_2)
qed

theorem search_cache_ignores_page_size_witness:
  "\<exists>resp w1 w2. public_search_listings demo_search_env demo_limits demo_env ''ip'' None demo_filters None
       1 1 None (demo_db2, Map.empty) = (Inr resp, w1) \<and>
     public_search_listings demo_search_env demo_limits demo_env ''ip'' None demo_filters None
       1 100 None w1 = (Inr resp, w2) \<and> sr_page_size resp = 1"
proof -
  let ?run = "\<lambda>n. public_search_listings demo_search_env demo_limits demo_env ''ip'' None demo_filters None 1 n None"
  let ?w0 = "(demo_db2, Map.empty) :: db \<times> cached redis"
  have r1: "check_phase4_rate_limit demo_limits 100 ''search'' ''ip'' (Map.empty :: cached redis) =
      (Inr True, redis_set 100 (rate_limit_key ''phase4:search'' ''ip'' 60) (RText ''1'') (Some 60) Map.empty)"
    by (simp add: check_phase4_rate_limit_def check_rate_limit_def PHASE4_RATE_LIMITS_def dict_get_def
        or_default_def redis_get_def)
  have miss: "cache_get 100 LISTING_SEARCH_NAMESPACE k
      (redis_set 100 (rate_limit_key ''phase4:search'' ''ip'' 60) (RText ''1'') (Some 60) (Map.empty :: cached redis)) = None" for k
    by (simp add: cache_get_def cache_key_def rate_limit_key_def redis_get_def redis_set_def)
  obtain resp w1 where run1: "?run 1 ?w0 = (Inr resp, w1)"
    and w1: "snd w1 = invalidate_platform_dashboard (cache_set 100 LISTING_SEARCH_NAMESPACE
       (build_public_search_cache_key demo_search_env (filters_dict demo_filters None)) (CSearch resp) 120
       (redis_set 100 (rate_limit_key ''phase4:search'' ''ip'' 60) (RText ''1'') (Some 60) Map.empty))"
    by (auto simp: public_search_listings_def demo_env_def r1 miss Let_def)
  obtain out w2 where run2: "?run 100 w1 = (out, w2)" by (cases "?run 100 w1")
  have "redis_get 100 (rate_limit_key ''phase4:search'' ''ip'' 60) (snd w1) = Some (RText ''1'')"
    by (simp add: w1 invalidate_platform_dashboard_def cache_invalidate_namespace_def cache_set_def
        cache_key_def rate_limit_key_def seconds_def)
  moreover have "py_int ''1'' = Some 1" by (simp add: py_int_def)
  ultimately have ok: "fst (check_phase4_rate_limit demo_limits (now_at demo_env) ''search'' ''ip'' (snd w1)) = Inr True"
    by (simp add: check_phase4_rate_limit_def check_rate_limit_def PHASE4_RATE_LIMITS_def dict_get_def
        or_default_def demo_env_def)
  have "cache_get (now_at demo_env) LISTING_SEARCH_NAMESPACE
      (build_public_search_cache_key demo_search_env (filters_dict demo_filters None)) (snd ?w0) = None"
    by (simp add: cache_get_def redis_get_def)
  from search_cache_ignores_page_size [OF run1 this run2 _ ok] have "out = Inr resp \<and> sr_page_size resp = 1"
    by (simp add: seconds_def)
  then show ?thesis using run1 run2 by blast
qed

theorem public_detail_is_current_witness:
  "\<exists>w w'. archive_listing demo_env (Some demo_ctx) ''a'' (demo_db2, Map.empty :: cached redis) = Inr ((), w) \<and>
     public_get_listing demo_search_env demo_env ''a'' w = (Inl (NotFoundError ''Listing not found''), w')"
proof -
  obtain w where run: "archive_listing demo_env (Some demo_ctx) ''a'' (demo_db2, Map.empty :: cached redis) = Inr ((), w)"
    and l: "listings (fst w) = update_row l_id ''a''
      (\<lambda>_. archived_row demo_env demo_ctx (demo_listing ''a'' ''active'')) (listings demo_db2)"
    by (simp add: archive_listing_def require_tenant_def demo_ctx_def get_listing_by_id_def find_row_def
        demo_db2_def empty_db_def demo_listing_def ensure_tenant_match_def store_listing_def Let_def)
  have "catalog_step demo_search_env demo_limits (demo_db2, Map.empty) w"
    by (rule catalog_step.archive [OF run]) simp
  then have reach: "(catalog_step demo_search_env demo_limits)\<^sup>*\<^sup>* (demo_db2, Map.empty) w" by blast
  obtain out w' where get: "public_get_listing demo_search_env demo_env ''a'' w = (out, w')"
    by (cases "public_get_listing demo_search_env demo_env ''a'' w")
  have "find_row l_id ''a'' (listings (fst w)) = Some (archived_row demo_env demo_ctx (demo_listing ''a'' ''active''))"
    unfolding l by (simp add: find_row_def demo_db2_def empty_db_def demo_listing_def)
  then have "\<exists>e. out = Inl e \<and> e = NotFoundError ''Listing not found''"
    using public_detail_is_current [OF reach get] by (cases out) auto
  then show ?thesis using run get by blast
qed
end
