(* ===== verification/Saved.thy ===== *)
theory Saved
  imports ListingSearch
begin

text \<open>
  Saved listings and comparison sessions: \<open>SavedListingRepository\<close>, \<open>ComparisonRepository\<close> and
  the \<open>/me\<close> routes of \<open>listings/router.py\<close>. The caller is the user identifier of the
  authenticated actor. Both tables have a UNIQUE index that covers soft-deleted rows too
  (migration 0004): (user, listing) for saved listings, (session, listing) for items.
\<close>

section \<open>Saved listings\<close>

definition list_saved_by_user :: "uuid \<Rightarrow> db \<Rightarrow> SavedListing list" where
  "list_saved_by_user user_id D =
     sort_key (\<lambda>s. Desc (sv_created_at s))
       (filter (\<lambda>s. sv_user_id s = user_id \<and> sv_deleted_at s = None) (saved_listings D))"

definition list_saved_by_user_with_details :: "uuid \<Rightarrow> db \<Rightarrow> (SavedListing \<times> Listing) list" where
  "list_saved_by_user_with_details user_id D =
     sort_key (\<lambda>(s, l). Desc (sv_created_at s))
       (filter (\<lambda>(s, l). sv_user_id s = user_id \<and> sv_deleted_at s = None \<and> l_status l = ''active'')
         (concat (map (\<lambda>s. map (Pair s) (filter (\<lambda>l. l_id l = sv_listing_id s) (listings D)))
           (saved_listings D))))"

definition get_saved_by_user_and_listing :: "uuid \<Rightarrow> uuid \<Rightarrow> db \<Rightarrow> py_exc + SavedListing option" where
  "get_saved_by_user_and_listing user_id listing_id D =
     scalar_one_or_none MultipleResultsFound
       (filter (\<lambda>s. sv_user_id s = user_id \<and> sv_listing_id s = listing_id \<and> sv_deleted_at s = None)
         (saved_listings D))"

definition create_saved :: "SavedListing \<Rightarrow> db \<Rightarrow> py_exc + db" where
  "create_saved s D =
     (if (sv_user_id s, sv_listing_id s) \<in> (\<lambda>r. (sv_user_id r, sv_listing_id r)) ` set (saved_listings D)
      then Inl (IntegrityError ''ix_saved_listings_user_listing'')
      else Inr (D\<lparr>saved_listings := saved_listings D @ [s]\<rparr>))"

definition list_saved_listings :: "uuid \<Rightarrow> pagination \<Rightarrow> db \<Rightarrow> py_exc + SavedListing pagination_result" where
  "list_saved_listings user_id p D = page_of (list_saved_by_user user_id D) p"

record saved_with_details =
  sd_saved :: SavedListing
  sd_listing :: PublicListingResponse

definition list_saved_listings_with_details ::
  "(string \<Rightarrow> string) \<Rightarrow> uuid \<Rightarrow> pagination \<Rightarrow> db \<Rightarrow> py_exc + saved_with_details pagination_result" where
  "list_saved_listings_with_details sign user_id p D =
     sbind (sql_page (pg_offset p) (pg_limit p) (list_saved_by_user_with_details user_id D)) (\<lambda>rows.
       (let thumb_map = build_thumbnail_map sign (map (\<lambda>(s, l). l_id l) rows) D;
            items = map (\<lambda>(s, l). \<lparr>sd_saved = s,
                      sd_listing = public_response_of (dict_get thumb_map (l_id l) None) l\<rparr>) rows
        in Inr (PaginationResult items (int (length (list_saved_by_user_with_details user_id D))) p)))"

definition save_listing :: "ctx_env \<Rightarrow> uuid \<Rightarrow> uuid \<Rightarrow> db \<Rightarrow> py_exc + SavedListing \<times> db" where
  "save_listing E user_id listing_id D =
     sbind (get_saved_by_user_and_listing user_id listing_id D) (\<lambda>existing.
     case existing of
       Some s \<Rightarrow> Inr (s, D)
     | None \<Rightarrow>
         (case get_listing_by_id listing_id D of
            None \<Rightarrow> Inl (NotFoundError ''Listing not found or not active'')
          | Some listing \<Rightarrow>
              if l_status listing \<noteq> ''active''
              then Inl (NotFoundError ''Listing not found or not active'')
              else (let saved = \<lparr>sv_id = fresh E 0, sv_user_id = user_id, sv_listing_id = listing_id,
                                 sv_created_at = now_at E, sv_deleted_at = None\<rparr>
                    in sbind (create_saved saved D) (\<lambda>D'. Inr (saved, D')))))"

definition unsave_listing :: "ctx_env \<Rightarrow> uuid \<Rightarrow> uuid \<Rightarrow> db \<Rightarrow> py_exc + unit \<times> db" where
  "unsave_listing E user_id listing_id D =
     sbind (get_saved_by_user_and_listing user_id listing_id D) (\<lambda>saved.
     case saved of
       None \<Rightarrow> Inr ((), D)
     | Some s \<Rightarrow>
         Inr ((), D\<lparr>saved_listings := update_row sv_id (sv_id s)
                (\<lambda>r. r\<lparr>sv_deleted_at := Some (now_at E)\<rparr>) (saved_listings D)\<rparr>))"

section \<open>Comparison sessions\<close>

definition list_sessions_by_user :: "uuid \<Rightarrow> db \<Rightarrow> ComparisonSession list" where
  "list_sessions_by_user user_id D =
     sort_key (\<lambda>s. Desc (cs_updated_at s))
       (filter (\<lambda>s. cs_user_id s = user_id \<and> cs_deleted_at s = None) (comparison_sessions D))"

definition get_session_by_id :: "uuid \<Rightarrow> db \<Rightarrow> ComparisonSession option" where
  "get_session_by_id i D = find_row cs_id i (comparison_sessions D)"

definition list_items_by_session :: "uuid \<Rightarrow> db \<Rightarrow> ComparisonItem list" where
  "list_items_by_session session_id D =
     sort_key ci_position
       (filter (\<lambda>i. ci_comparison_session_id i = session_id) (comparison_items D))"

definition get_item :: "uuid \<Rightarrow> uuid \<Rightarrow> db \<Rightarrow> py_exc + ComparisonItem option" where
  "get_item session_id listing_id D =
     scalar_one_or_none MultipleResultsFound
       (filter (\<lambda>i. ci_comparison_session_id i = session_id \<and> ci_listing_id i = listing_id)
         (comparison_items D))"

definition get_item_count :: "uuid \<Rightarrow> db \<Rightarrow> nat" where
  "get_item_count session_id D =
     length (filter (\<lambda>i. ci_comparison_session_id i = session_id) (comparison_items D))"

text \<open>The insert also checks the foreign key to \<open>listings\<close>.\<close>

definition create_item :: "ComparisonItem \<Rightarrow> db \<Rightarrow> py_exc + db" where
  "create_item i D =
     (if (ci_comparison_session_id i, ci_listing_id i) \<in>
           (\<lambda>r. (ci_comparison_session_id r, ci_listing_id r)) ` set (comparison_items D)
      then Inl (IntegrityError ''ix_comparison_items_session_listing'')
      else if ci_listing_id i \<notin> l_id ` set (listings D)
      then Inl (IntegrityError ''comparison_items_listing_id_fkey'')
      else Inr (D\<lparr>comparison_items := comparison_items D @ [i]\<rparr>))"

definition remove_item :: "ComparisonItem \<Rightarrow> db \<Rightarrow> db" where
  "remove_item i D = D\<lparr>comparison_items := filter (\<lambda>r. ci_id r \<noteq> ci_id i) (comparison_items D)\<rparr>"

definition list_comparison_sessions ::
  "uuid \<Rightarrow> pagination \<Rightarrow> db \<Rightarrow> py_exc + ComparisonSession pagination_result" where
  "list_comparison_sessions user_id p D = page_of (list_sessions_by_user user_id D) p"

definition create_comparison_session ::
  "ctx_env \<Rightarrow> uuid \<Rightarrow> string \<Rightarrow> db \<Rightarrow> py_exc + ComparisonSession \<times> db" where
  "create_comparison_session E user_id name D =
     (let s = \<lparr>cs_id = fresh E 0, cs_user_id = user_id, cs_name = name, cs_created_at = now_at E,
               cs_updated_at = now_at E, cs_deleted_at = None\<rparr>
      in Inr (s, D\<lparr>comparison_sessions := comparison_sessions D @ [s]\<rparr>))"

text \<open>
  The guard of the session routes. \<open>live_only\<close> says whether the route also refuses a deleted
  session, which the two DELETE routes do not.
\<close>

definition own_session :: "bool \<Rightarrow> uuid \<Rightarrow> uuid \<Rightarrow> db \<Rightarrow> py_exc + ComparisonSession" where
  "own_session live_only user_id session_id D =
     (case get_session_by_id session_id D of
        None \<Rightarrow> Inl (NotFoundError ''Comparison session not found'')
      | Some s \<Rightarrow>
          if live_only \<and> cs_deleted_at s \<noteq> None then Inl (NotFoundError ''Comparison session not found'')
          else if cs_user_id s \<noteq> user_id then Inl (ForbiddenError ''Not your comparison session'')
          else Inr s)"

definition get_comparison_session :: "uuid \<Rightarrow> uuid \<Rightarrow> db \<Rightarrow> py_exc + ComparisonSession" where
  "get_comparison_session user_id session_id D = own_session True user_id session_id D"

definition session_flush :: "ctx_env \<Rightarrow> ComparisonSession \<Rightarrow> ComparisonSession \<Rightarrow> ComparisonSession" where
  "session_flush E old new = (if new = old then old else new\<lparr>cs_updated_at := now_at E\<rparr>)"

definition update_comparison_session ::
  "ctx_env \<Rightarrow> uuid \<Rightarrow> uuid \<Rightarrow> string option \<Rightarrow> db \<Rightarrow> py_exc + ComparisonSession \<times> db" where
  "update_comparison_session E user_id session_id name D =
     sbind (own_session True user_id session_id D) (\<lambda>old.
       (let s = session_flush E old (case name of None \<Rightarrow> old | Some n \<Rightarrow> old\<lparr>cs_name := n\<rparr>)
        in Inr (s, D\<lparr>comparison_sessions := update_row cs_id session_id (\<lambda>_. s) (comparison_sessions D)\<rparr>)))"

definition delete_comparison_session :: "ctx_env \<Rightarrow> uuid \<Rightarrow> uuid \<Rightarrow> db \<Rightarrow> py_exc + unit \<times> db" where
  "delete_comparison_session E user_id session_id D =
     sbind (own_session False user_id session_id D) (\<lambda>old.
       (let s = session_flush E old (old\<lparr>cs_deleted_at := Some (now_at E)\<rparr>)
        in Inr ((), D\<lparr>comparison_sessions := update_row cs_id session_id (\<lambda>_. s) (comparison_sessions D)\<rparr>)))"

definition add_comparison_item ::
  "ctx_env \<Rightarrow> uuid \<Rightarrow> uuid \<Rightarrow> uuid \<Rightarrow> db \<Rightarrow> py_exc + ComparisonItem \<times> db" where
  "add_comparison_item E user_id session_id listing_id D =
     sbind (own_session True user_id session_id D) (\<lambda>_.
     sbind (get_item session_id listing_id D) (\<lambda>existing.
     case existing of
       Some i \<Rightarrow> Inr (i, D)
     | None \<Rightarrow>
         (let count = get_item_count session_id D
          in if MAX_COMPARISON_ITEMS \<le> count
             then Inl (ConflictError ''Comparison session already has the maximum number of items'')
             else (let item = \<lparr>ci_id = fresh E 0, ci_comparison_session_id = session_id,
                               ci_listing_id = listing_id, ci_position = count,
                               ci_created_at = now_at E\<rparr>
                   in sbind (create_item item D) (\<lambda>D'. Inr (item, D'))))))"

definition remove_comparison_item ::
  "uuid \<Rightarrow> uuid \<Rightarrow> uuid \<Rightarrow> db \<Rightarrow> py_exc + unit \<times> db" where
  "remove_comparison_item user_id session_id listing_id D =
     sbind (own_session False user_id session_id D) (\<lambda>_.
     sbind (get_item session_id listing_id D) (\<lambda>item.
     case item of
       None \<Rightarrow> Inr ((), D)
     | Some i \<Rightarrow> Inr ((), remove_item i D)))"


section \<open>Invariants\<close>

definition saved_wf :: "db \<Rightarrow> bool" where
  "saved_wf D \<longleftrightarrow> unique_on sv_id (saved_listings D) \<and>
     unique_on (\<lambda>s. (sv_user_id s, sv_listing_id s)) (saved_listings D)"

definition items_wf :: "db \<Rightarrow> bool" where
  "items_wf D \<longleftrightarrow> unique_on ci_id (comparison_items D) \<and>
     unique_on (\<lambda>i. (ci_comparison_session_id i, ci_listing_id i)) (comparison_items D) \<and>
     (\<forall>s. get_item_count s D \<le> MAX_COMPARISON_ITEMS)"

lemma unique_on_filter: "unique_on key rows \<Longrightarrow> unique_on key (filter P rows)"
  by (simp add: unique_on_def distinct_map_filter)

lemma unique_filter_le1:
  assumes "unique_on key rows" and "\<And>r. P r \<Longrightarrow> key r = k"
  shows "length (filter P rows) \<le> 1"
  using assms
proof (induction rows)
  case (Cons r rows)
  show ?case
  proof (cases "P r")
    case True
    have "filter P rows = []"
      using Cons.prems True by (fastforce simp: filter_empty_conv)
    then show ?thesis by simp
  qed (use Cons in simp)
qed simp

lemma scalar_unique:
  "length rows \<le> 1 \<Longrightarrow> scalar_one_or_none e rows = Inr (case rows of [] \<Rightarrow> None | r # _ \<Rightarrow> Some r)"
  by (cases rows) (auto simp: scalar_one_or_none_def split: list.splits)

lemma get_saved_total:
  assumes "saved_wf D"
  shows "get_saved_by_user_and_listing u l D =
    Inr (find (\<lambda>s. sv_user_id s = u \<and> sv_listing_id s = l \<and> sv_deleted_at s = None) (saved_listings D))"
proof -
  let ?P = "\<lambda>s. sv_user_id s = u \<and> sv_listing_id s = l \<and> sv_deleted_at s = None"
  have "length (filter ?P (saved_listings D)) \<le> 1"
    using assms
    by (intro unique_filter_le1 [where key = "\<lambda>s. (sv_user_id s, sv_listing_id s)" and k = "(u, l)"])
       (auto simp: saved_wf_def)
  moreover have "(case filter P rows of [] \<Rightarrow> None | r # _ \<Rightarrow> Some r) = find P rows" for P and rows :: "SavedListing list"
    by (induction rows) auto
  ultimately show ?thesis
    by (simp add: get_saved_by_user_and_listing_def scalar_unique)
qed

lemma create_saved_Inr:
  "create_saved s D = Inr D' \<longleftrightarrow>
     (sv_user_id s, sv_listing_id s) \<notin> (\<lambda>r. (sv_user_id r, sv_listing_id r)) ` set (saved_listings D) \<and>
     D' = D\<lparr>saved_listings := saved_listings D @ [s]\<rparr>"
  by (auto simp: create_saved_def)

lemma save_listing_wf:
  assumes "saved_wf D" and "fresh E 0 \<notin> sv_id ` set (saved_listings D)"
    and "save_listing E u l D = Inr (s, D')"
  shows "saved_wf D'"
  using assms
  by (auto simp: save_listing_def saved_wf_def sbind_Inr_iff create_saved_Inr Let_def
      split: option.splits if_splits)

lemma unsave_listing_wf:
  assumes "saved_wf D" and "unsave_listing E u l D = Inr (x, D')"
  shows "saved_wf D'"
  using assms
  by (auto simp: unsave_listing_def saved_wf_def sbind_Inr_iff unique_on_update_row split: option.splits)

text \<open>
  A listing can be saved, and un-saved, once: with the table's invariant, the first save of
  an active listing succeeds and a repeated save returns the same row and changes nothing,
  but after an un-save the next save of the same listing by the same user always fails on the
  UNIQUE index, because the soft-deleted row still occupies it.
\<close>

theorem save_unsave_save_fails:
  assumes wf: "saved_wf D" and fresh: "fresh E 0 \<notin> sv_id ` set (saved_listings D)"
    and active: "find_row l_id lid (listings D) = Some l" "l_status l = ''active''"
    and new: "(u, lid) \<notin> (\<lambda>r. (sv_user_id r, sv_listing_id r)) ` set (saved_listings D)"
  shows "\<exists>s D1 D2. save_listing E u lid D = Inr (s, D1) \<and> save_listing E2 u lid D1 = Inr (s, D1) \<and>
    unsave_listing E3 u lid D1 = Inr ((), D2) \<and>
    save_listing E4 u lid D2 = Inl (IntegrityError ''ix_saved_listings_user_listing'')"
proof -
  let ?s = "\<lparr>sv_id = fresh E 0, sv_user_id = u, sv_listing_id = lid, sv_created_at = now_at E, sv_deleted_at = None\<rparr>"
  let ?D1 = "D\<lparr>saved_listings := saved_listings D @ [?s]\<rparr>"
  let ?P = "\<lambda>s. sv_user_id s = u \<and> sv_listing_id s = lid \<and> sv_deleted_at s = None"
  have none: "filter ?P (saved_listings D) = []" using new by (auto simp: filter_empty_conv image_iff)
  have save1: "save_listing E u lid D = Inr (?s, ?D1)"
    using active new none
    by (simp add: save_listing_def get_saved_by_user_and_listing_def scalar_one_or_none_def
        get_listing_by_id_def create_saved_def Let_def)
  have save2: "save_listing E2 u lid ?D1 = Inr (?s, ?D1)"
    using none by (simp add: save_listing_def get_saved_by_user_and_listing_def scalar_one_or_none_def)
  let ?D2 = "D\<lparr>saved_listings := saved_listings D @ [?s\<lparr>sv_deleted_at := Some (now_at E3)\<rparr>]\<rparr>"
  have keep: "update_row sv_id (fresh E 0) f (saved_listings D) = saved_listings D" for f
    using fresh by (force simp: update_row_def intro: map_idI)
  have app: "update_row k i f (xs @ [y]) = update_row k i f xs @ [if k y = i then f y else y]"
    for k :: "SavedListing \<Rightarrow> uuid" and i f xs y
    by (simp add: update_row_def)
  have unsave: "unsave_listing E3 u lid ?D1 = Inr ((), ?D2)"
    using none by (simp add: unsave_listing_def get_saved_by_user_and_listing_def
        scalar_one_or_none_def app keep)
  have "save_listing E4 u lid ?D2 = Inl (IntegrityError ''ix_saved_listings_user_listing'')"
    using none active by (simp add: save_listing_def get_saved_by_user_and_listing_def
        scalar_one_or_none_def get_listing_by_id_def create_saved_def Let_def)
  with save1 save2 unsave show ?thesis by blast
qed

text \<open>The comparison routes as steps of one user's session.\<close>

inductive comparison_step :: "db \<Rightarrow> db \<Rightarrow> bool" where
  create: "create_comparison_session E u nm D = Inr (s, D') \<Longrightarrow> comparison_step D D'"
| rename: "update_comparison_session E u sid nm D = Inr (s, D') \<Longrightarrow> comparison_step D D'"
| delete: "delete_comparison_session E u sid D = Inr (x, D') \<Longrightarrow> comparison_step D D'"
| add: "add_comparison_item E u sid lid D = Inr (i, D') \<Longrightarrow>
    fresh E 0 \<notin> ci_id ` set (comparison_items D) \<Longrightarrow> comparison_step D D'"
| remove: "remove_comparison_item u sid lid D = Inr (x, D') \<Longrightarrow> comparison_step D D'"

lemma get_item_count_append:
  "get_item_count s (D\<lparr>comparison_items := comparison_items D @ [i]\<rparr>) =
     get_item_count s D + (if ci_comparison_session_id i = s then 1 else 0)"
  by (simp add: get_item_count_def)

lemma create_item_Inr:
  "create_item i D = Inr D' \<longleftrightarrow>
     (ci_comparison_session_id i, ci_listing_id i) \<notin>
       (\<lambda>r. (ci_comparison_session_id r, ci_listing_id r)) ` set (comparison_items D) \<and>
     ci_listing_id i \<in> l_id ` set (listings D) \<and>
     D' = D\<lparr>comparison_items := comparison_items D @ [i]\<rparr>"
  by (auto simp: create_item_def)

lemma add_comparison_item_wf:
  assumes "items_wf D" and "fresh E 0 \<notin> ci_id ` set (comparison_items D)"
    and "add_comparison_item E u sid lid D = Inr (i, D')"
  shows "items_wf D'"
  using assms
  by (auto simp: add_comparison_item_def items_wf_def sbind_Inr_iff create_item_Inr Let_def
      get_item_count_append not_le split: option.splits if_splits)

lemma remove_item_wf: "items_wf D \<Longrightarrow> items_wf (remove_item i D)"
proof -
  assume wf: "items_wf D"
  have "length (filter P (filter Q xs)) \<le> length (filter P xs)" for P Q and xs :: "ComparisonItem list"
    by (induction xs) auto
  then have "get_item_count s (remove_item i D) \<le> get_item_count s D" for s
    by (simp add: get_item_count_def remove_item_def del: filter_filter)
  moreover have "\<forall>s. get_item_count s D \<le> MAX_COMPARISON_ITEMS" using wf by (simp add: items_wf_def)
  ultimately have "\<forall>s. get_item_count s (remove_item i D) \<le> MAX_COMPARISON_ITEMS"
    by (meson le_trans)
  with wf show ?thesis
    by (simp add: items_wf_def unique_on_filter) (simp add: remove_item_def unique_on_filter)
qed

lemma comparison_step_wf:
  assumes "comparison_step D D'" and "items_wf D"
  shows "items_wf D'"
  using assms
proof (induction rule: comparison_step.induct)
  case (add E D u sid lid i D')
  then show ?case by (blast intro: add_comparison_item_wf)
next
  case (remove u sid lid D x D')
  then show ?case
    by (auto simp: remove_comparison_item_def sbind_Inr_iff intro: remove_item_wf split: option.splits)
qed (auto simp: create_comparison_session_def update_comparison_session_def
    delete_comparison_session_def items_wf_def get_item_count_def sbind_Inr_iff Let_def)

text \<open>
  A comparison session never holds more than four listings nor one listing twice, whatever
  sequence of session and item operations its users perform.
\<close>

theorem comparison_bounded:
  assumes "comparison_step\<^sup>*\<^sup>* D0 D" and "items_wf D0"
  shows "get_item_count sid D \<le> 4 \<and>
    distinct (map ci_listing_id (list_items_by_session sid D))"
proof -
  have wf: "items_wf D"
    using assms by (induction rule: rtranclp_induct) (auto intro: comparison_step_wf)
  have "inj_on ci_listing_id {i \<in> set (comparison_items D). ci_comparison_session_id i = sid}"
    using wf by (auto simp: items_wf_def unique_on_def distinct_map inj_on_def)
  moreover have "distinct (list_items_by_session sid D)"
    using wf by (auto simp: items_wf_def unique_on_def distinct_map list_items_by_session_def)
  ultimately show ?thesis
    using wf by (auto simp: items_wf_def MAX_COMPARISON_ITEMS_def distinct_map list_items_by_session_def)
qed

definition refused :: "py_exc + 'a \<Rightarrow> bool" where
  "refused m \<longleftrightarrow> m = Inl (NotFoundError ''Comparison session not found'') \<or>
     m = Inl (ForbiddenError ''Not your comparison session'')"

lemma own_session_refused:
  assumes "\<not> (\<exists>s. find_row cs_id sid (comparison_sessions D) = Some s \<and> cs_user_id s = u)"
  shows "\<exists>e. own_session lv u sid D = Inl e \<and> refused (Inl e :: py_exc + 'a)"
  using assms by (auto simp: own_session_def get_session_by_id_def refused_def split: option.splits)

text \<open>
  Comparison sessions are private: when the session does not exist or belongs to somebody
  else, every route on it answers 404 or 403 (and so changes nothing).
\<close>

theorem comparison_session_private:
  assumes "\<not> (\<exists>s. find_row cs_id sid (comparison_sessions D) = Some s \<and> cs_user_id s = u)"
  shows "refused (get_comparison_session u sid D) \<and>
    refused (update_comparison_session E u sid nm D) \<and>
    refused (delete_comparison_session E u sid D) \<and>
    refused (add_comparison_item E u sid lid D) \<and>
    refused (remove_comparison_item u sid lid D)"
proof -
  from own_session_refused [OF assms, of True] obtain e where "own_session True u sid D = Inl e"
    "refused (Inl e :: py_exc + unit)" by blast
  moreover from own_session_refused [OF assms, of False] obtain e' where "own_session False u sid D = Inl e'"
    "refused (Inl e' :: py_exc + unit)" by blast
  ultimately show ?thesis
    by (simp add: get_comparison_session_def update_comparison_session_def delete_comparison_session_def
        add_comparison_item_def remove_comparison_item_def refused_def)
qed
section \<open>Witnesses\<close>

theorem save_unsave_save_fails_witness:
  "\<exists>s D1 D2. save_listing demo_env ''u1'' ''l1'' demo_db = Inr (s, D1) \<and>
    unsave_listing demo_env ''u1'' ''l1'' D1 = Inr ((), D2) \<and>
    save_listing demo_env ''u1'' ''l1'' D2 = Inl (IntegrityError ''ix_saved_listings_user_listing'')"
proof -
  have "saved_wf demo_db" "fresh demo_env 0 \<notin> sv_id ` set (saved_listings demo_db)"
    "find_row l_id ''l1'' (listings demo_db) = Some (demo_listing ''l1'' ''active'')"
    "l_status (demo_listing ''l1'' ''active'') = ''active''"
    "(''u1'', ''l1'') \<notin> (\<lambda>r. (sv_user_id r, sv_listing_id r)) ` set (saved_listings demo_db)"
    by (simp_all add: demo_defs saved_wf_def find_row_def)
  from save_unsave_save_fails [OF this] show ?thesis by blast
qed

definition demo_session_db :: db where
  "demo_session_db = demo_db\<lparr>comparison_sessions :=
     [\<lparr>cs_id = ''s1'', cs_user_id = ''u1'', cs_name = ''x'', cs_created_at = 5, cs_updated_at = 5,
       cs_deleted_at = None\<rparr>]\<rparr>"

theorem comparison_bounded_witness:
  "\<exists>i D. add_comparison_item demo_env ''u1'' ''s1'' ''l1'' demo_session_db = Inr (i, D) \<and>
     get_item_count ''s1'' D \<le> 4 \<and> distinct (map ci_listing_id (list_items_by_session ''s1'' D))"
proof -
  have "\<exists>i D. add_comparison_item demo_env ''u1'' ''s1'' ''l1'' demo_session_db = Inr (i, D)"
    by (simp add: add_comparison_item_def own_session_def get_session_by_id_def find_row_def
        get_item_def get_item_count_def create_item_def scalar_one_or_none_def demo_session_db_def
        demo_defs MAX_COMPARISON_ITEMS_def Let_def)
  then obtain i D where add: "add_comparison_item demo_env ''u1'' ''s1'' ''l1'' demo_session_db = Inr (i, D)"
    by blast
  then have "comparison_step demo_session_db D"
    by (rule comparison_step.add) (simp add: demo_session_db_def demo_defs)
  then have "comparison_step\<^sup>*\<^sup>* demo_session_db D" by blast
  moreover have "items_wf demo_session_db"
    by (simp add: items_wf_def get_item_count_def demo_session_db_def demo_defs)
  ultimately have "get_item_count ''s1'' D \<le> 4 \<and> distinct (map ci_listing_id (list_items_by_session ''s1'' D))"
    by (rule comparison_bounded)
  with add show ?thesis by blast
qed

theorem comparison_session_private_witness:
  "refused (get_comparison_session ''u2'' ''s1'' demo_session_db) \<and>
   refused (delete_comparison_session demo_env ''u2'' ''s1'' demo_session_db)"
  using comparison_session_private [of "''s1''" demo_session_db "''u2''"]
  by (simp add: demo_session_db_def find_row_def)

end
