(* ===== verification/Users.thy ===== *)
theory Users
  imports Models
begin

text \<open>
  User profiles: \<open>users/repository.py\<close>, \<open>users/service.py\<close> and the request validator of
  \<open>users/schemas.py\<close>.
\<close>

definition get_user_by_id :: "uuid \<Rightarrow> db \<Rightarrow> User option" where
  "get_user_by_id i D = find_row u_id i (users D)"

definition get_user_by_email :: "string \<Rightarrow> db \<Rightarrow> User option" where
  "get_user_by_email email D = find_row u_email email (users D)"

text \<open>A flush writes \<open>updated_at\<close> when some column of the user changed.\<close>

definition user_flush :: "ctx_env \<Rightarrow> User \<Rightarrow> User \<Rightarrow> User" where
  "user_flush E old new = (if new = old then old else new\<lparr>u_updated_at := now_at E\<rparr>)"

definition update_user :: "ctx_env \<Rightarrow> User \<Rightarrow> User \<Rightarrow> db \<Rightarrow> db" where
  "update_user E old new D =
     D\<lparr>users := update_row u_id (u_id old) (\<lambda>_. user_flush E old new) (users D)\<rparr>"

definition update_last_login :: "ctx_env \<Rightarrow> User \<Rightarrow> db \<Rightarrow> db" where
  "update_last_login E user D = update_user E user (user\<lparr>u_last_login_at := Some (now_at E)\<rparr>) D"

definition update_password :: "ctx_env \<Rightarrow> User \<Rightarrow> string \<Rightarrow> db \<Rightarrow> db" where
  "update_password E user new_hash D =
     update_user E user
       (user\<lparr>u_password_hash := new_hash, u_password_changed_at := Some (now_at E)\<rparr>) D"

text \<open>\<open>not text or not text.strip()\<close>\<close>

definition blank :: "string option \<Rightarrow> bool" where
  "blank t = (case t of None \<Rightarrow> True | Some s \<Rightarrow> py_strip s = [])"

definition get_lead_profile_missing_fields :: "User \<Rightarrow> string list" where
  "get_lead_profile_missing_fields user =
     (let name_missing = (if blank (u_name user) then [''name''] else []);
          has_email = (\<not> blank (Some (u_email user)));
          has_phone = (\<not> blank (u_phone user))
      in name_missing @ (if \<not> has_email \<and> \<not> has_phone then [''contact''] else []))"

record UserProfileResponse =
  up_id :: uuid
  up_email :: string
  up_name :: "string option"
  up_phone :: "string option"
  up_is_complete_for_leads :: bool
  up_missing_fields :: "string list"

definition build_profile_response :: "User \<Rightarrow> UserProfileResponse" where
  "build_profile_response user =
     (let missing_fields = get_lead_profile_missing_fields user
      in \<lparr>up_id = u_id user, up_email = u_email user, up_name = u_name user, up_phone = u_phone user,
          up_is_complete_for_leads = (missing_fields = []), up_missing_fields = missing_fields\<rparr>)"

definition get_profile :: "uuid \<Rightarrow> db \<Rightarrow> py_exc + UserProfileResponse" where
  "get_profile user_id D =
     (case get_user_by_id user_id D of
        None \<Rightarrow> Inl (NotFoundError ''User not found'')
      | Some user \<Rightarrow> Inr (build_profile_response user))"

text \<open>
  The body of a profile update: the outer option says whether the client sent the field
  (\<open>exclude_unset\<close>), the inner one is its value after the request's validator.
\<close>

record ProfileUpdate =
  pf_name :: "string option option"
  pf_phone :: "string option option"

definition normalize_optional_text :: "string option \<Rightarrow> string option" where
  "normalize_optional_text v =
     (case v of None \<Rightarrow> None | Some s \<Rightarrow> (let t = py_strip s in if t = [] then None else Some t))"

definition UserProfileUpdateRequest :: "string option option \<Rightarrow> string option option \<Rightarrow> ProfileUpdate" where
  "UserProfileUpdateRequest name phone =
     \<lparr>pf_name = map_option normalize_optional_text name,
      pf_phone = map_option normalize_optional_text phone\<rparr>"

definition update_profile ::
  "ctx_env \<Rightarrow> uuid \<Rightarrow> ProfileUpdate \<Rightarrow> db \<Rightarrow> py_exc + UserProfileResponse \<times> db" where
  "update_profile E user_id data D =
     (case get_user_by_id user_id D of
        None \<Rightarrow> Inl (NotFoundError ''User not found'')
      | Some user \<Rightarrow>
          (let new = user\<lparr>u_name := (case pf_name data of None \<Rightarrow> u_name user | Some n \<Rightarrow> n),
                          u_phone := (case pf_phone data of None \<Rightarrow> u_phone user | Some p \<Rightarrow> p)\<rparr>
           in Inr (build_profile_response new, update_user E user new D)))"

lemma update_user_frame [simp]:
  "refresh_sessions (update_user E old new D) = refresh_sessions D"
  "memberships (update_user E old new D) = memberships D"
  "roles (update_user E old new D) = roles D"
  "role_permissions (update_user E old new D) = role_permissions D"
  "permissions (update_user E old new D) = permissions D"
  "audit_logs (update_user E old new D) = audit_logs D"
  "users (update_user E old new D) =
     update_row u_id (u_id old) (\<lambda>_. user_flush E old new) (users D)"
  by (simp_all add: update_user_def)

lemma profile_complete_iff:
  "get_lead_profile_missing_fields user = [] \<longleftrightarrow>
     \<not> blank (u_name user) \<and> (\<not> blank (Some (u_email user)) \<or> \<not> blank (u_phone user))"
  by (simp add: get_lead_profile_missing_fields_def Let_def)

end
