(* ===== verification/Leads.thy ===== *)
theory Leads
  imports Listings Users
begin

text \<open>
  Leads: the repositories of \<open>leads/repository.py\<close>, \<open>LeadService\<close> of \<open>leads/service.py\<close>, the
  summary of \<open>leads/query_service.py\<close> and the callback route of the model service. A score is
  kept as the exact number that was received.
\<close>

definition LEAD_PROCESSING_STATUS_PENDING_SPAM :: string where
  "LEAD_PROCESSING_STATUS_PENDING_SPAM = ''pending_spam''"

definition LEAD_PROCESSING_STATUS_PENDING_LEVEL :: string where
  "LEAD_PROCESSING_STATUS_PENDING_LEVEL = ''pending_level''"

definition LEAD_PROCESSING_STATUS_COMPLETED :: string where
  "LEAD_PROCESSING_STATUS_COMPLETED = ''completed''"

definition LEAD_PROCESSING_STATUS_FAILED :: string where
  "LEAD_PROCESSING_STATUS_FAILED = ''failed''"

lemmas processing_status_defs =
  LEAD_PROCESSING_STATUS_PENDING_SPAM_def LEAD_PROCESSING_STATUS_PENDING_LEVEL_def
  LEAD_PROCESSING_STATUS_COMPLETED_def LEAD_PROCESSING_STATUS_FAILED_def

section \<open>Repositories\<close>

definition get_lead_by_id :: "uuid \<Rightarrow> db \<Rightarrow> Lead option" where
  "get_lead_by_id i D = find_row ld_id i (leads D)"

definition list_leads_by_user :: "uuid \<Rightarrow> db \<Rightarrow> Lead list" where
  "list_leads_by_user user_id D =
     sort_key (\<lambda>l. Desc (ld_created_at l)) (filter (\<lambda>l. ld_user_id l = Some user_id) (leads D))"

record lead_filter =
  lf_reviewed :: "bool option"
  lf_status :: "string option"
  lf_spam_label :: "string option"
  lf_processing_status :: "string option"

definition lead_matches :: "uuid option \<Rightarrow> lead_filter \<Rightarrow> db \<Rightarrow> Lead \<Rightarrow> bool" where
  "lead_matches tenant_id f D l \<longleftrightarrow>
     tenant_id = Some (ld_agency_tenant_id l) \<and>
     (case lf_reviewed f of None \<Rightarrow> True
      | Some r \<Rightarrow> if r then ld_status l = ''reviewed'' else ld_status l \<noteq> ''reviewed'') \<and>
     (case lf_status f of None \<Rightarrow> True | Some s \<Rightarrow> ld_status l = s) \<and>
     (case lf_processing_status f of None \<Rightarrow> True | Some s \<Rightarrow> ld_processing_status l = s) \<and>
     (case lf_spam_label f of None \<Rightarrow> True
      | Some lab \<Rightarrow> \<exists>r \<in> set (spam_results D). tenant_id = Some (lr_agency_tenant_id r) \<and>
                     lr_label r = Some lab \<and> lr_lead_id r = ld_id l)"

definition list_leads_by_tenant :: "uuid option \<Rightarrow> lead_filter \<Rightarrow> db \<Rightarrow> Lead list" where
  "list_leads_by_tenant tenant_id f D =
     sort_key (\<lambda>l. Desc (ld_created_at l)) (filter (lead_matches tenant_id f D) (leads D))"

definition lead_flush :: "ctx_env \<Rightarrow> Lead \<Rightarrow> Lead \<Rightarrow> Lead" where
  "lead_flush E old new = (if new = old then old else new\<lparr>ld_updated_at := now_at E\<rparr>)"

definition store_lead :: "ctx_env \<Rightarrow> Lead \<Rightarrow> Lead \<Rightarrow> db \<Rightarrow> db" where
  "store_lead E old new D =
     D\<lparr>leads := update_row ld_id (ld_id old) (\<lambda>_. lead_flush E old new) (leads D)\<rparr>"

text \<open>
  \<open>LeadSpamResultRepository\<close> and \<open>LeadLevelResultRepository\<close> differ in the table and in the
  name of the verdict's column; their operations are these, on the table's rows.
\<close>

definition pending_result :: "ctx_env \<Rightarrow> uuid \<Rightarrow> uuid \<Rightarrow> uuid \<Rightarrow> LeadResult" where
  "pending_result E i lead_id tenant_id =
     \<lparr>lr_id = i, lr_lead_id = lead_id, lr_agency_tenant_id = tenant_id, lr_status = ''pending'',
      lr_label = None, lr_score = None, lr_details = None, lr_retry_count = 0, lr_last_error = None,
      lr_idempotency_key = None, lr_created_at = now_at E, lr_updated_at = now_at E\<rparr>"

definition result_by_lead :: "uuid \<Rightarrow> LeadResult list \<Rightarrow> py_exc + LeadResult option" where
  "result_by_lead lead_id rows =
     scalar_one_or_none MultipleResultsFound (filter (\<lambda>r. lr_lead_id r = lead_id) rows)"

definition result_by_idempotency :: "uuid \<Rightarrow> string \<Rightarrow> LeadResult list \<Rightarrow> py_exc + LeadResult option" where
  "result_by_idempotency lead_id key rows =
     scalar_one_or_none MultipleResultsFound
       (filter (\<lambda>r. lr_lead_id r = lead_id \<and> lr_idempotency_key r = Some key) rows)"

record verdict =
  vd_status :: string
  vd_label :: "string option"
  vd_score :: "rat option"
  vd_details :: "json option"
  vd_retry_count :: int
  vd_idempotency_key :: "string option"

definition verdict_row :: "verdict \<Rightarrow> LeadResult \<Rightarrow> LeadResult" where
  "verdict_row v old =
     old\<lparr>lr_status := vd_status v,
                    lr_label := set_if (vd_label v) (lr_label old),
                    lr_score := set_if (vd_score v) (lr_score old),
                    lr_details := set_if (vd_details v) (lr_details old),
                    lr_retry_count := vd_retry_count v,
                    lr_idempotency_key := set_if (vd_idempotency_key v) (lr_idempotency_key old)\<rparr>"

definition apply_verdict :: "ctx_env \<Rightarrow> verdict \<Rightarrow> LeadResult \<Rightarrow> LeadResult" where
  "apply_verdict E v old =
     (let new = verdict_row v old
      in if new = old then old else new\<lparr>lr_updated_at := now_at E\<rparr>)"

definition upsert_result ::
  "ctx_env \<Rightarrow> uuid \<Rightarrow> uuid \<Rightarrow> uuid \<Rightarrow> verdict \<Rightarrow> LeadResult list \<Rightarrow> py_exc + LeadResult \<times> LeadResult list" where
  "upsert_result E i lead_id tenant_id v rows =
     sbind (result_by_lead lead_id rows) (\<lambda>existing.
     case existing of
       None \<Rightarrow>
         (let r = \<lparr>lr_id = i, lr_lead_id = lead_id, lr_agency_tenant_id = tenant_id,
                   lr_status = vd_status v, lr_label = vd_label v, lr_score = vd_score v,
                   lr_details = vd_details v, lr_retry_count = vd_retry_count v, lr_last_error = None,
                   lr_idempotency_key = vd_idempotency_key v, lr_created_at = now_at E,
                   lr_updated_at = now_at E\<rparr>
          in Inr (r, rows @ [r]))
     | Some old \<Rightarrow>
         (let r = apply_verdict E v old
          in Inr (r, update_row lr_id (lr_id old) (\<lambda>_. r) rows)))"

section \<open>Inquiries\<close>

definition new_lead :: "ctx_env \<Rightarrow> Listing \<Rightarrow> User \<Rightarrow> string \<Rightarrow> Lead" where
  "new_lead E listing user message =
     \<lparr>ld_id = fresh E 0, ld_agency_tenant_id = l_agency_tenant_id listing,
      ld_listing_id = l_id listing, ld_user_id = Some (u_id user), ld_status = ''new'',
      ld_processing_status = LEAD_PROCESSING_STATUS_PENDING_SPAM,
      ld_name = (if truthy (u_name user) then map_option py_strip (u_name user) else None),
      ld_email = (if u_email user \<noteq> [] then Some (py_strip (u_email user)) else None),
      ld_phone = (if truthy (u_phone user) then map_option py_strip (u_phone user) else None),
      ld_message = Some message, ld_source = Some ''web'', ld_created_at = now_at E,
      ld_updated_at = now_at E, ld_closed_at = None\<rparr>"

definition inquiry_payload :: "Lead \<Rightarrow> string \<Rightarrow> json" where
  "inquiry_payload lead message =
     JObj [(''lead_id'', JText (ld_id lead)), (''tenant_id'', JText (ld_agency_tenant_id lead)),
           (''listing_id'', JText (ld_listing_id lead)), (''message'', JText message),
           (''name'', jopt (ld_name lead)), (''email'', jopt (ld_email lead))]"

text \<open>
  The flag \<open>is_empty_message\<close> of the code is always false where it is tested, so the branch
  for empty messages is not reachable and the pending level result is always created.
\<close>

definition create_inquiry ::
  "ctx_env \<Rightarrow> uuid \<Rightarrow> uuid \<Rightarrow> string option \<Rightarrow> db \<Rightarrow> py_exc + Lead \<times> db" where
  "create_inquiry E listing_id user_id msg D =
     (case get_listing_by_id listing_id D of
        None \<Rightarrow> Inl (NotFoundError ''Listing not found or not active'')
      | Some listing \<Rightarrow>
          if l_status listing \<noteq> ''active''
          then Inl (NotFoundError ''Listing not found or not active'')
          else (case get_user_by_id user_id D of
            None \<Rightarrow> Inl (NotFoundError ''User not found'')
          | Some user \<Rightarrow>
              (let missing_fields = get_lead_profile_missing_fields user;
                   message = py_strip (case msg of None \<Rightarrow> [] | Some m \<Rightarrow> m)
               in if missing_fields \<noteq> []
                  then Inl (AppException 422
                    ''Complete your profile with your name and at least one contact method before sending a lead.''
                    (Some ''PROFILE_INCOMPLETE_FOR_LEADS'') [(''missing_fields'', missing_fields)])
                  else if message = []
                  then Inl (AppException 422 ''Write a short message before sending a lead.''
                    (Some ''EMPTY_LEAD_MESSAGE'') [])
                  else
                    (let lead = new_lead E listing user message;
                         D1 = D\<lparr>leads := leads D @ [lead]\<rparr>;
                         D2 = D1\<lparr>spam_results := spam_results D1 @
                                  [pending_result E (fresh E 1) (ld_id lead) (ld_agency_tenant_id lead)]\<rparr>;
                         D3 = D2\<lparr>level_results := level_results D2 @
                                  [pending_result E (fresh E 2) (ld_id lead) (ld_agency_tenant_id lead)]\<rparr>
                     in sbind (publish_outbox_event_in_session E (fresh E 3) ''lead.created''
                          (inquiry_payload lead message) (''lead.created.'' @ ld_id lead)
                          (Some ''lead'') (Some (ld_id lead)) D3) (\<lambda>D4.
                        Inr (lead, write_domain_event_log E (fresh E 4) ''lead.created''
                          (Some ''lead'') (Some (ld_id lead))
                          (Some (JObj [(''listing_id'', JText listing_id),
                                       (''email'', jopt (ld_email lead)), (''source'', JText ''web'')]))
                          (Some (ld_agency_tenant_id lead)) (Some user_id) D4))))))"

definition list_user_inquiries :: "uuid \<Rightarrow> pagination \<Rightarrow> db \<Rightarrow> py_exc + Lead pagination_result" where
  "list_user_inquiries user_id p D = page_of (list_leads_by_user user_id D) p"

section \<open>The agency's side\<close>

definition list_tenant_leads ::
  "TenantContext option \<Rightarrow> pagination \<Rightarrow> lead_filter \<Rightarrow> db \<Rightarrow> py_exc + Lead pagination_result" where
  "list_tenant_leads tenant p f D =
     sbind (require_tenant tenant) (\<lambda>ctx. page_of (list_leads_by_tenant (tc_tenant_id ctx) f D) p)"

definition own_lead :: "TenantContext option \<Rightarrow> uuid \<Rightarrow> db \<Rightarrow> py_exc + TenantContext \<times> Lead" where
  "own_lead tenant lead_id D =
     sbind (require_tenant tenant) (\<lambda>ctx.
     case get_lead_by_id lead_id D of
       None \<Rightarrow> Inl (NotFoundError ''Lead not found'')
     | Some lead \<Rightarrow>
         sbind (ensure_tenant_match tenant (ld_agency_tenant_id lead)) (\<lambda>_. Inr (ctx, lead)))"

definition get_lead :: "TenantContext option \<Rightarrow> uuid \<Rightarrow> db \<Rightarrow> py_exc + Lead" where
  "get_lead tenant lead_id D = sbind (own_lead tenant lead_id D) (\<lambda>(ctx, lead). Inr lead)"

definition read_only_get_lead :: "TenantContext option \<Rightarrow> uuid \<Rightarrow> db \<Rightarrow> py_exc + Lead option" where
  "read_only_get_lead tenant lead_id D =
     sbind (require_tenant tenant) (\<lambda>ctx.
     case get_lead_by_id lead_id D of
       None \<Rightarrow> Inr None
     | Some lead \<Rightarrow>
         if Some (ld_agency_tenant_id lead) \<noteq> tc_tenant_id ctx then Inr None else Inr (Some lead))"

definition clamp_limit :: "int \<Rightarrow> int \<Rightarrow> nat" where
  "clamp_limit max_results n = nat (max 1 (min n max_results))"

definition read_only_list_recent_leads ::
  "int \<Rightarrow> TenantContext option \<Rightarrow> int \<Rightarrow> db \<Rightarrow> py_exc + Lead list" where
  "read_only_list_recent_leads max_results tenant cnt D =
     sbind (require_tenant tenant) (\<lambda>ctx.
       Inr (take (clamp_limit max_results cnt)
         (sort_key (\<lambda>l. Desc (ld_created_at l))
           (filter (\<lambda>l. tc_tenant_id ctx = Some (ld_agency_tenant_id l)) (leads D)))))"

definition read_only_list_leads_by_date ::
  "int \<Rightarrow> TenantContext option \<Rightarrow> timestamp option \<Rightarrow> timestamp option \<Rightarrow> int \<Rightarrow> db
     \<Rightarrow> py_exc + Lead list" where
  "read_only_list_leads_by_date max_results tenant date_from date_to cnt D =
     sbind (require_tenant tenant) (\<lambda>ctx.
       Inr (take (clamp_limit max_results cnt)
         (sort_key (\<lambda>l. Desc (ld_created_at l))
           (filter (\<lambda>l. tc_tenant_id ctx = Some (ld_agency_tenant_id l) \<and>
              (case date_from of None \<Rightarrow> True | Some t \<Rightarrow> t \<le> ld_created_at l) \<and>
              (case date_to of None \<Rightarrow> True | Some t \<Rightarrow> ld_created_at l \<le> t)) (leads D)))))"

definition lead_with_status :: "ctx_env \<Rightarrow> string \<Rightarrow> Lead \<Rightarrow> Lead" where
  "lead_with_status E new_status l =
     (let l1 = l\<lparr>ld_status := new_status\<rparr>
      in if new_status = ''closed'' then l1\<lparr>ld_closed_at := Some (now_at E)\<rparr> else l1)"

definition update_lead_status ::
  "ctx_env \<Rightarrow> TenantContext option \<Rightarrow> uuid \<Rightarrow> string \<Rightarrow> db \<Rightarrow> py_exc + Lead \<times> db" where
  "update_lead_status E tenant lead_id new_status D =
     sbind (own_lead tenant lead_id D) (\<lambda>(ctx, lead).
     if new_status \<notin> set VALID_LEAD_STATUSES
     then Inl (ValidationError (''Invalid lead status: '' @ new_status))
     else if \<not> allowed_transition LEAD_STATUS_TRANSITIONS (ld_status lead) new_status
     then Inl (ValidationError
            (''Cannot transition from '' @ quoted (ld_status lead) @ '' to '' @ quoted new_status))
     else (let new = lead_with_status E new_status lead;
               D1 = store_lead E lead new D
           in Inr (lead_flush E lead new,
                write_domain_event_log E (fresh E 0) ''lead.status_changed'' (Some ''lead'')
                  (Some lead_id) (Some (JObj [(''status'', JText new_status)]))
                  (Some (ld_agency_tenant_id lead)) (tc_actor_id ctx) D1)))"

definition mark_reviewed :: "ctx_env \<Rightarrow> TenantContext \<Rightarrow> Lead \<Rightarrow> db \<Rightarrow> db" where
  "mark_reviewed E ctx lead D =
     (if ld_status lead = ''new''
      then write_domain_event_log E (fresh E 0) ''lead.reviewed'' (Some ''lead'')
             (Some (ld_id lead)) (Some (JObj [(''status'', JText ''reviewed'')]))
             (Some (ld_agency_tenant_id lead)) (tc_actor_id ctx)
             (store_lead E lead (lead\<lparr>ld_status := ''reviewed''\<rparr>) D)
      else D)"

definition review_lead ::
  "ctx_env \<Rightarrow> TenantContext option \<Rightarrow> uuid \<Rightarrow> uuid option \<Rightarrow> string option \<Rightarrow> string option \<Rightarrow> db
     \<Rightarrow> py_exc + ReviewedLeadRecord \<times> db" where
  "review_lead E tenant lead_id reviewed_by outcome notes D =
     sbind (own_lead tenant lead_id D) (\<lambda>(ctx, lead).
       (let D1 = mark_reviewed E ctx lead D
        in case tc_tenant_id ctx of
             None \<Rightarrow> Inl (IntegrityError ''reviewed_lead_records.agency_tenant_id is NOT NULL'')
           | Some t \<Rightarrow>
               (let r = \<lparr>rv_id = fresh E 1, rv_lead_id = lead_id, rv_agency_tenant_id = t,
                         rv_reviewed_by_user_id = reviewed_by, rv_outcome = outcome,
                         rv_notes = notes, rv_created_at = now_at E\<rparr>
                in Inr (r, D1\<lparr>reviewed_leads := reviewed_leads D1 @ [r]\<rparr>))))"

section \<open>Classification callbacks\<close>

definition callback_lead :: "uuid \<Rightarrow> uuid \<Rightarrow> db \<Rightarrow> py_exc + Lead" where
  "callback_lead lead_id tenant_id D =
     (case get_lead_by_id lead_id D of
        None \<Rightarrow> Inl (NotFoundError ''Lead not found'')
      | Some lead \<Rightarrow>
          if ld_agency_tenant_id lead \<noteq> tenant_id
          then Inl (ForbiddenError ''Tenant mismatch for lead classification callback'')
          else Inr lead)"

definition seen_before :: "uuid \<Rightarrow> string option \<Rightarrow> LeadResult list \<Rightarrow> py_exc + LeadResult option" where
  "seen_before lead_id key rows =
     (if truthy key then result_by_idempotency lead_id (the key) rows else Inr None)"

definition spam_processing_status :: "verdict \<Rightarrow> string \<Rightarrow> string" where
  "spam_processing_status v old =
     (if vd_status v = LEAD_PROCESSING_STATUS_COMPLETED
      then (if vd_label v = Some ''spam'' then LEAD_PROCESSING_STATUS_COMPLETED
            else LEAD_PROCESSING_STATUS_PENDING_LEVEL)
      else if vd_status v = LEAD_PROCESSING_STATUS_FAILED then LEAD_PROCESSING_STATUS_FAILED
      else old)"

definition level_processing_status :: "verdict \<Rightarrow> string \<Rightarrow> string" where
  "level_processing_status v old =
     (if vd_status v = LEAD_PROCESSING_STATUS_COMPLETED then LEAD_PROCESSING_STATUS_COMPLETED
      else if vd_status v = LEAD_PROCESSING_STATUS_FAILED then LEAD_PROCESSING_STATUS_FAILED
      else old)"

definition callback_payload :: "string \<Rightarrow> verdict \<Rightarrow> json" where
  "callback_payload field v =
     JObj [(field, jopt (vd_label v)), (''status'', JText (vd_status v)),
           (''idempotency_key'', jopt (vd_idempotency_key v))]"

definition process_spam_callback ::
  "ctx_env \<Rightarrow> uuid \<Rightarrow> uuid \<Rightarrow> verdict \<Rightarrow> db \<Rightarrow> py_exc + LeadResult \<times> db" where
  "process_spam_callback E lead_id tenant_id v D =
     sbind (callback_lead lead_id tenant_id D) (\<lambda>lead.
     sbind (seen_before lead_id (vd_idempotency_key v) (spam_results D)) (\<lambda>existing.
     case existing of
       Some r \<Rightarrow> Inr (r, D)
     | None \<Rightarrow>
         sbind (upsert_result E (fresh E 0) lead_id tenant_id v (spam_results D)) (\<lambda>(r, rows).
           (let D1 = D\<lparr>spam_results := rows\<rparr>;
                D2 = store_lead E lead
                       (lead\<lparr>ld_processing_status := spam_processing_status v (ld_processing_status lead)\<rparr>) D1
            in Inr (r, write_domain_event_log E (fresh E 1) ''lead.processing.spam_result'' (Some ''lead'')
                 (Some lead_id) (Some (callback_payload ''label'' v))
                 (Some (ld_agency_tenant_id lead)) None D2)))))"

definition process_level_callback ::
  "ctx_env \<Rightarrow> uuid \<Rightarrow> uuid \<Rightarrow> verdict \<Rightarrow> db \<Rightarrow> py_exc + LeadResult \<times> db" where
  "process_level_callback E lead_id tenant_id v D =
     sbind (callback_lead lead_id tenant_id D) (\<lambda>lead.
     sbind (seen_before lead_id (vd_idempotency_key v) (level_results D)) (\<lambda>existing.
     case existing of
       Some r \<Rightarrow> Inr (r, D)
     | None \<Rightarrow>
         sbind (upsert_result E (fresh E 0) lead_id tenant_id v (level_results D)) (\<lambda>(r, rows).
           (let D1 = D\<lparr>level_results := rows\<rparr>;
                D2 = store_lead E lead
                       (lead\<lparr>ld_processing_status := level_processing_status v (ld_processing_status lead)\<rparr>) D1
            in Inr (r, write_domain_event_log E (fresh E 1) ''lead.processing.level_result'' (Some ''lead'')
                 (Some lead_id) (Some (callback_payload ''level'' v))
                 (Some (ld_agency_tenant_id lead)) None D2)))))"

definition get_spam_result :: "uuid \<Rightarrow> db \<Rightarrow> py_exc + LeadResult option" where
  "get_spam_result lead_id D = result_by_lead lead_id (spam_results D)"

definition get_level_result :: "uuid \<Rightarrow> db \<Rightarrow> py_exc + LeadResult option" where
  "get_level_result lead_id D = result_by_lead lead_id (level_results D)"

text \<open>
  The route of the model service. The request's validators accept the stages \<open>spam\<close> and
  \<open>level\<close> and five statuses; \<open>callback_token\<close> is the configured secret, empty when unset.
\<close>

record callback =
  cb_lead_id :: uuid
  cb_tenant_id :: uuid
  cb_stage :: string
  cb_status :: string
  cb_label :: "string option"
  cb_score :: "rat option"
  cb_details :: "json option"
  cb_retry_count :: int

definition callback_ok :: "callback \<Rightarrow> bool" where
  "callback_ok b \<longleftrightarrow> cb_stage b \<in> set [''spam'', ''level''] \<and>
     cb_status b \<in> set [''pending'', ''pending_spam'', ''pending_level'', ''completed'', ''failed'']"

definition callback_key :: "callback \<Rightarrow> string" where
  "callback_key b =
     ''callback_'' @ cb_lead_id b @ ''_'' @ cb_stage b @ ''_r'' @ int_text (cb_retry_count b)"

definition callback_verdict :: "callback \<Rightarrow> verdict" where
  "callback_verdict b =
     \<lparr>vd_status = cb_status b, vd_label = cb_label b, vd_score = cb_score b,
      vd_details = cb_details b, vd_retry_count = cb_retry_count b,
      vd_idempotency_key = Some (callback_key b)\<rparr>"

definition classification_callback ::
  "string \<Rightarrow> ctx_env \<Rightarrow> string \<Rightarrow> callback \<Rightarrow> db \<Rightarrow> py_exc + LeadResult \<times> db" where
  "classification_callback callback_token E authorization b D =
     (if callback_token = [] \<or> authorization \<noteq> ''Bearer '' @ callback_token
      then Inl (ForbiddenError ''Invalid callback authorization'')
      else if cb_stage b = ''spam''
      then process_spam_callback E (cb_lead_id b) (cb_tenant_id b) (callback_verdict b) D
      else process_level_callback E (cb_lead_id b) (cb_tenant_id b) (callback_verdict b) D)"

section \<open>The processing summary\<close>

record lead_summary =
  su_total_leads :: nat
  su_spam_count :: nat
  su_not_spam_count :: nat
  su_hot_count :: nat
  su_normal_count :: nat
  su_pending_count :: nat
  su_reviewed_count :: nat
  su_fallback_count :: nat

definition count_rows :: "('r \<Rightarrow> bool) \<Rightarrow> 'r list \<Rightarrow> nat" where
  "count_rows P rows = length (filter P rows)"

definition get_lead_processing_summary :: "uuid \<Rightarrow> db \<Rightarrow> lead_summary" where
  "get_lead_processing_summary tenant_id D =
     (let spam = filter (\<lambda>r. lr_agency_tenant_id r = tenant_id) (spam_results D);
          level = filter (\<lambda>r. lr_agency_tenant_id r = tenant_id) (level_results D);
          mine = filter (\<lambda>l. ld_agency_tenant_id l = tenant_id) (leads D)
      in \<lparr>su_total_leads = length mine,
          su_spam_count = count_rows (\<lambda>r. lr_label r = Some ''spam'') spam,
          su_not_spam_count = count_rows (\<lambda>r. lr_label r = Some ''not_spam'') spam,
          su_hot_count = count_rows (\<lambda>r. lr_label r = Some ''hot'') level,
          su_normal_count = count_rows (\<lambda>r. lr_label r = Some ''normal'') level,
          su_pending_count = count_rows (\<lambda>l. ld_processing_status l = ''pending'') mine,
          su_reviewed_count = count_rows (\<lambda>r. rv_agency_tenant_id r = tenant_id) (reviewed_leads D),
          su_fallback_count = count_rows (\<lambda>r. lr_status r = ''failed'') spam +
                              count_rows (\<lambda>r. lr_status r = ''failed'') level\<rparr>)"

section \<open>Invariants\<close>

text \<open>
  Well-formed leads: distinct identifiers, a known review status with a closing time exactly
  when closed, a processing status of the pipeline, and at most one result per lead and stage.
\<close>

definition lead_ok :: "Lead \<Rightarrow> bool" where
  "lead_ok l \<longleftrightarrow> ld_status l \<in> set VALID_LEAD_STATUSES \<and>
     (ld_status l = ''closed'' \<longleftrightarrow> ld_closed_at l \<noteq> None) \<and>
     ld_processing_status l \<in>
       {LEAD_PROCESSING_STATUS_PENDING_SPAM, LEAD_PROCESSING_STATUS_PENDING_LEVEL,
        LEAD_PROCESSING_STATUS_COMPLETED, LEAD_PROCESSING_STATUS_FAILED}"

definition results_ok :: "db \<Rightarrow> LeadResult list \<Rightarrow> bool" where
  "results_ok D rows \<longleftrightarrow> unique_on lr_id rows \<and> unique_on lr_lead_id rows \<and>
     lr_lead_id ` set rows \<subseteq> ld_id ` set (leads D)"

definition leads_wf :: "db \<Rightarrow> bool" where
  "leads_wf D \<longleftrightarrow> unique_on ld_id (leads D) \<and> (\<forall>l \<in> set (leads D). lead_ok l) \<and>
     results_ok D (spam_results D) \<and> results_ok D (level_results D)"

lemma lead_flush_fields [simp]:
  "ld_id (lead_flush E old new) = (if new = old then ld_id old else ld_id new)"
  "ld_agency_tenant_id (lead_flush E old new) = ld_agency_tenant_id new"
  "ld_status (lead_flush E old new) = ld_status new"
  "ld_closed_at (lead_flush E old new) = ld_closed_at new"
  "ld_processing_status (lead_flush E old new) = ld_processing_status new"
  by (auto simp: lead_flush_def)

lemma store_lead_frame [simp]:
  "spam_results (store_lead E old new D) = spam_results D"
  "level_results (store_lead E old new D) = level_results D"
  "reviewed_leads (store_lead E old new D) = reviewed_leads D"
  "outbox_events (store_lead E old new D) = outbox_events D"
  "leads (store_lead E old new D) = update_row ld_id (ld_id old) (\<lambda>_. lead_flush E old new) (leads D)"
  by (simp_all add: store_lead_def)

lemma lead_with_status_fields [simp]:
  "ld_id (lead_with_status E s l) = ld_id l"
  "ld_agency_tenant_id (lead_with_status E s l) = ld_agency_tenant_id l"
  "ld_status (lead_with_status E s l) = s"
  "ld_processing_status (lead_with_status E s l) = ld_processing_status l"
  "ld_closed_at (lead_with_status E s l) = (if s = ''closed'' then Some (now_at E) else ld_closed_at l)"
  by (simp_all add: lead_with_status_def Let_def)

lemma new_lead_fields [simp]:
  "ld_id (new_lead E li us m) = fresh E 0"
  "ld_agency_tenant_id (new_lead E li us m) = l_agency_tenant_id li"
  "ld_listing_id (new_lead E li us m) = l_id li"
  "ld_user_id (new_lead E li us m) = Some (u_id us)"
  "ld_status (new_lead E li us m) = ''new''"
  "ld_closed_at (new_lead E li us m) = None"
  "ld_processing_status (new_lead E li us m) = LEAD_PROCESSING_STATUS_PENDING_SPAM"
  by (simp_all add: new_lead_def)

lemma pending_result_fields [simp]:
  "lr_id (pending_result E i l t) = i"
  "lr_lead_id (pending_result E i l t) = l"
  "lr_agency_tenant_id (pending_result E i l t) = t"
  by (simp_all add: pending_result_def)

lemma verdict_row_fields [simp]:
  "lr_id (verdict_row v r) = lr_id r"
  "lr_lead_id (verdict_row v r) = lr_lead_id r"
  "lr_agency_tenant_id (verdict_row v r) = lr_agency_tenant_id r"
  "lr_idempotency_key (verdict_row v r) = set_if (vd_idempotency_key v) (lr_idempotency_key r)"
  by (simp_all add: verdict_row_def)

lemma apply_verdict_fields [simp]:
  "lr_id (apply_verdict E v r) = lr_id r"
  "lr_lead_id (apply_verdict E v r) = lr_lead_id r"
  "lr_agency_tenant_id (apply_verdict E v r) = lr_agency_tenant_id r"
  "lr_idempotency_key (apply_verdict E v r) = set_if (vd_idempotency_key v) (lr_idempotency_key r)"
proof -
  show "lr_id (apply_verdict E v r) = lr_id r" "lr_lead_id (apply_verdict E v r) = lr_lead_id r"
    "lr_agency_tenant_id (apply_verdict E v r) = lr_agency_tenant_id r"
    by (simp_all add: apply_verdict_def Let_def)
  show "lr_idempotency_key (apply_verdict E v r) = set_if (vd_idempotency_key v) (lr_idempotency_key r)"
    by (cases "verdict_row v r = r")
       (use verdict_row_fields(4) [of v r] in \<open>simp_all add: apply_verdict_def Let_def\<close>)
qed

lemma own_lead_Inr:
  "own_lead tenant i D = Inr (ctx, l) \<longleftrightarrow>
     require_tenant tenant = Inr ctx \<and> find_row ld_id i (leads D) = Some l \<and>
     ensure_tenant_match tenant (ld_agency_tenant_id l) = Inr ()"
  by (auto simp: own_lead_def run_simps get_lead_by_id_def)

lemma callback_lead_Inr:
  "callback_lead i t D = Inr l \<longleftrightarrow>
     find_row ld_id i (leads D) = Some l \<and> ld_agency_tenant_id l = t"
  by (auto simp: callback_lead_def run_simps get_lead_by_id_def)

lemma single_result:
  assumes "unique_on lr_lead_id rows" and "r \<in> set rows" and "lr_lead_id r = i" and "P r"
  shows "filter (\<lambda>r. lr_lead_id r = i \<and> P r) rows = [r]"
  using assms
proof (induction rows)
  case (Cons x rows)
  show ?case
  proof (cases "x = r")
    case True
    then have "filter (\<lambda>r. lr_lead_id r = i \<and> P r) rows = []"
      using Cons.prems unfolding filter_empty_conv by (metis image_eqI unique_on_Cons)
    then show ?thesis using True Cons.prems by simp
  next
    case False
    then have "lr_lead_id x \<noteq> i" using Cons.prems by auto
    then show ?thesis using False Cons by simp
  qed
qed simp

lemma result_by_lead_wf:
  assumes "unique_on lr_lead_id rows"
  shows "result_by_lead i rows = Inr (find_row lr_lead_id i rows)"
proof (cases "find_row lr_lead_id i rows")
  case None
  then have "filter (\<lambda>r. lr_lead_id r = i) rows = []" by (auto simp: find_row_None filter_empty_conv)
  then show ?thesis using None by (simp add: result_by_lead_def scalar_one_or_none_def)
next
  case (Some r)
  then have "filter (\<lambda>r. lr_lead_id r = i \<and> True) rows = [r]"
    using assms by (intro single_result) (auto dest: find_row_Some)
  then show ?thesis using Some by (simp add: result_by_lead_def scalar_one_or_none_def)
qed


section \<open>Every operation keeps the invariant\<close>

lemma replace_lead_wf:
  assumes wf: "leads_wf D" and old: "find_row ld_id i (leads D) = Some old"
    and new: "ld_id new = ld_id old" "lead_ok new"
    and D': "leads D' = update_row ld_id (ld_id old) (\<lambda>_. new) (leads D)"
    and res: "results_ok D (spam_results D')" "results_ok D (level_results D')"
  shows "leads_wf D'"
proof -
  have i: "ld_id old = i" using old by (auto dest: find_row_Some)
  have ids: "map ld_id (leads D') = map ld_id (leads D)"
    unfolding D' update_row_def using new(1) i by auto
  have "ld_id ` set (leads D') = ld_id ` set (leads D)"
    by (metis ids list.set_map)
  then show ?thesis
    using wf res new(2) ids D'
    by (auto simp: leads_wf_def results_ok_def unique_on_def set_update_row)
qed

lemma lead_flush_ok [simp]: "lead_ok (lead_flush E old new) = lead_ok new"
  by (auto simp: lead_ok_def)

lemma find_row_ok: "leads_wf D \<Longrightarrow> find_row ld_id i (leads D) = Some l \<Longrightarrow> lead_ok l"
  by (auto simp: leads_wf_def dest!: find_row_Some)

lemma store_lead_wf:
  assumes "leads_wf D" and "find_row ld_id i (leads D) = Some old"
    and "ld_id new = ld_id old" "lead_ok new"
    and "leads D' = update_row ld_id (ld_id old) (\<lambda>_. lead_flush E old new) (leads D)"
    and "spam_results D' = spam_results D" "level_results D' = level_results D"
  shows "leads_wf D'"
  using assms
  by (intro replace_lead_wf [OF assms(1,2) _ _ assms(5)]) (simp_all add: leads_wf_def)

lemma update_lead_status_wf:
  assumes wf: "leads_wf D" and run: "update_lead_status E tenant i st D = Inr (l, D')"
  shows "leads_wf D'"
proof -
  from run obtain ctx :: TenantContext and old where old: "find_row ld_id i (leads D) = Some old"
    and tr: "allowed_transition LEAD_STATUS_TRANSITIONS (ld_status old) st"
    and D': "leads D' = update_row ld_id (ld_id old) (\<lambda>_. lead_flush E old (lead_with_status E st old)) (leads D)"
      "spam_results D' = spam_results D" "level_results D' = level_results D"
    by (auto simp: update_lead_status_def run_simps own_lead_Inr)
  have "lead_ok (lead_with_status E st old)"
    using find_row_ok [OF wf old] tr
    by (auto simp: lead_ok_def lead_transition_iff VALID_LEAD_STATUSES_def)
  then show ?thesis using store_lead_wf [OF wf old _ _ D'(1)] D'(2,3) by simp
qed

lemma mark_reviewed_leads:
  "leads (mark_reviewed E ctx l D) =
     (if ld_status l = ''new''
      then update_row ld_id (ld_id l) (\<lambda>_. lead_flush E l (l\<lparr>ld_status := ''reviewed''\<rparr>)) (leads D)
      else leads D)"
  "spam_results (mark_reviewed E ctx l D) = spam_results D"
  "level_results (mark_reviewed E ctx l D) = level_results D"
  by (simp_all add: mark_reviewed_def)

lemma review_lead_wf:
  assumes wf: "leads_wf D" and run: "review_lead E tenant i rb oc nt D = Inr (r, D')"
  shows "leads_wf D'"
proof -
  from run obtain ctx :: TenantContext and old where old: "find_row ld_id i (leads D) = Some old"
    and D': "leads D' = leads (mark_reviewed E ctx old D)"
      "spam_results D' = spam_results D" "level_results D' = level_results D"
    by (auto simp: review_lead_def run_simps own_lead_Inr mark_reviewed_leads)
  show ?thesis
  proof (cases "ld_status old = ''new''")
    case True
    then have "lead_ok (old\<lparr>ld_status := ''reviewed''\<rparr>)"
      using find_row_ok [OF wf old] by (auto simp: lead_ok_def VALID_LEAD_STATUSES_def)
    moreover have "leads D' = update_row ld_id (ld_id old)
        (\<lambda>_. lead_flush E old (old\<lparr>ld_status := ''reviewed''\<rparr>)) (leads D)"
      using D'(1) True by (simp add: mark_reviewed_leads)
    ultimately show ?thesis
      using D'(2,3) store_lead_wf [OF wf old, of "old\<lparr>ld_status := ''reviewed''\<rparr>" D' E] by simp
  next
    case False
    with wf D' show ?thesis by (simp add: leads_wf_def results_ok_def mark_reviewed_leads)
  qed
qed

lemma upsert_result_ok:
  assumes "results_ok D rows" and "i \<notin> lr_id ` set rows" and "l \<in> ld_id ` set (leads D)"
    and "upsert_result E i l t v rows = Inr (r, rows')"
  shows "results_ok D rows' \<and> lr_lead_id r = l \<and> r \<in> set rows' \<and>
    (vd_idempotency_key v = Some k \<longrightarrow> lr_idempotency_key r = Some k)"
proof -
  have u: "unique_on lr_lead_id rows" using assms(1) by (simp add: results_ok_def)
  show ?thesis
  proof (cases "find_row lr_lead_id l rows")
    case None
    then have "l \<notin> lr_lead_id ` set rows" by (simp add: find_row_None)
    with None assms u show ?thesis
      by (auto simp: upsert_result_def result_by_lead_wf results_ok_def Let_def image_subset_iff)
  next
    case (Some old)
    let ?new = "apply_verdict E v old"
    have r: "r = ?new" and rows': "rows' = update_row lr_id (lr_id old) (\<lambda>_. ?new) rows"
      using assms(4) Some u by (auto simp: upsert_result_def result_by_lead_wf Let_def)
    have old: "old \<in> set rows" "lr_lead_id old = l" using Some by (auto dest: find_row_Some)
    have uid: "unique_on lr_id rows" using assms(1) by (simp add: results_ok_def)
    then have eq: "x = old" if "x \<in> set rows" "lr_id x = lr_id old" for x
      using that old(1) by (auto dest: unique_onD)
    have "map lr_id rows' = map lr_id rows" and "map lr_lead_id rows' = map lr_lead_id rows"
      unfolding rows' update_row_def using eq by auto
    then have "unique_on lr_id rows'" "unique_on lr_lead_id rows'"
      "lr_lead_id ` set rows' = lr_lead_id ` set rows"
      using assms(1) by (simp_all add: results_ok_def unique_on_def) (metis list.set_map)
    then show ?thesis
      using assms(1) old by (auto simp: results_ok_def r rows' set_update_row set_if_def)
  qed
qed

lemma process_spam_callback_Inr:
  assumes "process_spam_callback E i t v D = Inr (r, D')"
  shows "\<exists>lead. find_row ld_id i (leads D) = Some lead \<and> ld_agency_tenant_id lead = t \<and>
    (seen_before i (vd_idempotency_key v) (spam_results D) = Inr (Some r) \<and> D' = D \<or>
     seen_before i (vd_idempotency_key v) (spam_results D) = Inr None \<and>
     upsert_result E (fresh E 0) i t v (spam_results D) = Inr (r, spam_results D') \<and>
     level_results D' = level_results D \<and> reviewed_leads D' = reviewed_leads D \<and>
     leads D' = update_row ld_id i (\<lambda>_. lead_flush E lead
       (lead\<lparr>ld_processing_status := spam_processing_status v (ld_processing_status lead)\<rparr>)) (leads D))"
  using assms
  by (auto simp: process_spam_callback_def run_simps callback_lead_Inr split: option.splits
      dest: find_row_Some)

lemma process_level_callback_Inr:
  assumes "process_level_callback E i t v D = Inr (r, D')"
  shows "\<exists>lead. find_row ld_id i (leads D) = Some lead \<and> ld_agency_tenant_id lead = t \<and>
    (seen_before i (vd_idempotency_key v) (level_results D) = Inr (Some r) \<and> D' = D \<or>
     seen_before i (vd_idempotency_key v) (level_results D) = Inr None \<and>
     upsert_result E (fresh E 0) i t v (level_results D) = Inr (r, level_results D') \<and>
     spam_results D' = spam_results D \<and> reviewed_leads D' = reviewed_leads D \<and>
     leads D' = update_row ld_id i (\<lambda>_. lead_flush E lead
       (lead\<lparr>ld_processing_status := level_processing_status v (ld_processing_status lead)\<rparr>)) (leads D))"
  using assms
  by (auto simp: process_level_callback_def run_simps callback_lead_Inr split: option.splits
      dest: find_row_Some)

lemma set_processing_ok:
  "lead_ok l \<Longrightarrow> lead_ok (l\<lparr>ld_processing_status := spam_processing_status v (ld_processing_status l)\<rparr>)"
  "lead_ok l \<Longrightarrow> lead_ok (l\<lparr>ld_processing_status := level_processing_status v (ld_processing_status l)\<rparr>)"
  by (auto simp: lead_ok_def spam_processing_status_def level_processing_status_def)

lemma process_spam_callback_wf:
  assumes wf: "leads_wf D" and fr: "fresh E 0 \<notin> lr_id ` set (spam_results D)"
    and run: "process_spam_callback E i t v D = Inr (r, D')"
  shows "leads_wf D'"
proof -
  from process_spam_callback_Inr [OF run] consider "D' = D"
    | lead where "find_row ld_id i (leads D) = Some lead"
      "upsert_result E (fresh E 0) i t v (spam_results D) = Inr (r, spam_results D')"
      "level_results D' = level_results D"
      "leads D' = update_row ld_id i (\<lambda>_. lead_flush E lead
       (lead\<lparr>ld_processing_status := spam_processing_status v (ld_processing_status lead)\<rparr>)) (leads D)"
    by blast
  then show ?thesis
  proof cases
    case 2
    then have i: "ld_id lead = i" "i \<in> ld_id ` set (leads D)" by (auto dest: find_row_Some)
    have "results_ok D (spam_results D')"
      using upsert_result_ok [OF _ fr i(2) 2(2)] wf by (simp add: leads_wf_def)
    moreover have "results_ok D (level_results D')" using wf 2(3) by (simp add: leads_wf_def)
    ultimately show ?thesis
      using replace_lead_wf [OF wf 2(1) _ _ 2(4) [folded i(1)]]
        set_processing_ok(1) [OF find_row_ok [OF wf 2(1)], of v] by simp
  qed (use wf in simp)
qed

lemma process_level_callback_wf:
  assumes wf: "leads_wf D" and fr: "fresh E 0 \<notin> lr_id ` set (level_results D)"
    and run: "process_level_callback E i t v D = Inr (r, D')"
  shows "leads_wf D'"
proof -
  from process_level_callback_Inr [OF run] consider "D' = D"
    | lead where "find_row ld_id i (leads D) = Some lead"
      "upsert_result E (fresh E 0) i t v (level_results D) = Inr (r, level_results D')"
      "spam_results D' = spam_results D"
      "leads D' = update_row ld_id i (\<lambda>_. lead_flush E lead
       (lead\<lparr>ld_processing_status := level_processing_status v (ld_processing_status lead)\<rparr>)) (leads D)"
    by blast
  then show ?thesis
  proof cases
    case 2
    then have i: "ld_id lead = i" "i \<in> ld_id ` set (leads D)" by (auto dest: find_row_Some)
    have "results_ok D (level_results D')"
      using upsert_result_ok [OF _ fr i(2) 2(2)] wf by (simp add: leads_wf_def)
    moreover have "results_ok D (spam_results D')" using wf 2(3) by (simp add: leads_wf_def)
    ultimately show ?thesis
      using replace_lead_wf [OF wf 2(1) _ _ 2(4) [folded i(1)]]
        set_processing_ok(2) [OF find_row_ok [OF wf 2(1)], of v] by simp
  qed (use wf in simp)
qed

lemma classification_callback_Inr:
  "classification_callback tok E au b D = Inr (r, D') \<Longrightarrow>
     tok \<noteq> [] \<and> au = ''Bearer '' @ tok \<and>
     (process_spam_callback E (cb_lead_id b) (cb_tenant_id b) (callback_verdict b) D = Inr (r, D') \<or>
      process_level_callback E (cb_lead_id b) (cb_tenant_id b) (callback_verdict b) D = Inr (r, D'))"
  by (auto simp: classification_callback_def split: if_splits)

lemma create_inquiry_Inr:
  assumes "create_inquiry E i u m D = Inr (lead, D')"
  shows "\<exists>li us msg. find_row l_id i (listings D) = Some li \<and> l_status li = ''active'' \<and>
    find_row u_id u (users D) = Some us \<and> get_lead_profile_missing_fields us = [] \<and>
    msg = py_strip (case m of None \<Rightarrow> [] | Some t \<Rightarrow> t) \<and> msg \<noteq> [] \<and> lead = new_lead E li us msg \<and>
    leads D' = leads D @ [lead] \<and>
    spam_results D' = spam_results D @ [pending_result E (fresh E 1) (ld_id lead) (ld_agency_tenant_id lead)] \<and>
    level_results D' = level_results D @ [pending_result E (fresh E 2) (ld_id lead) (ld_agency_tenant_id lead)] \<and>
    outbox_events D' = outbox_events D @ [new_outbox_event E (fresh E 3) ''lead.created''
      (inquiry_payload lead msg) (''lead.created.'' @ ld_id lead) (Some ''lead'') (Some (ld_id lead))]"
  using assms
  by (auto simp: create_inquiry_def run_simps get_listing_by_id_def get_user_by_id_def
      publish_outbox_event_in_session_def split: if_splits option.splits)

lemma create_inquiry_wf:
  assumes wf: "leads_wf D" and run: "create_inquiry E i u m D = Inr (lead, D')"
    and fr: "fresh E 0 \<notin> ld_id ` set (leads D)" "fresh E 1 \<notin> lr_id ` set (spam_results D)"
      "fresh E 2 \<notin> lr_id ` set (level_results D)"
  shows "leads_wf D'"
proof -
  from create_inquiry_Inr [OF run] have
    l: "leads D' = leads D @ [lead]" "ld_id lead = fresh E 0" "lead_ok lead" and
    s: "spam_results D' = spam_results D @ [pending_result E (fresh E 1) (fresh E 0) (ld_agency_tenant_id lead)]" and
    v: "level_results D' = level_results D @ [pending_result E (fresh E 2) (fresh E 0) (ld_agency_tenant_id lead)]"
    by (auto simp: lead_ok_def VALID_LEAD_STATUSES_def)
  have "fresh E 0 \<notin> lr_lead_id ` set (spam_results D)" "fresh E 0 \<notin> lr_lead_id ` set (level_results D)"
    using wf fr(1) by (auto simp: leads_wf_def results_ok_def)
  then show ?thesis
    using wf fr l by (auto simp: leads_wf_def results_ok_def s v image_subset_iff)
qed
end
