(* ===== verification/LeadProps.thy ===== *)
theory LeadProps
  imports Leads Demo
begin

text \<open>
  What the lead pipeline guarantees: the life cycle of a lead under any sequence of inquiries,
  reviews and callbacks, the idempotence of callbacks and where it ends.
\<close>

section \<open>The life cycle\<close>

inductive lead_step :: "db \<Rightarrow> db \<Rightarrow> bool" where
  inquiry: "create_inquiry E i u m D = Inr (l, D') \<Longrightarrow> fresh E 0 \<notin> ld_id ` set (leads D) \<Longrightarrow>
    fresh E 1 \<notin> lr_id ` set (spam_results D) \<Longrightarrow> fresh E 2 \<notin> lr_id ` set (level_results D) \<Longrightarrow>
    lead_step D D'"
| status: "update_lead_status E tenant i st D = Inr (l, D') \<Longrightarrow> lead_step D D'"
| review: "review_lead E tenant i rb oc nt D = Inr (r, D') \<Longrightarrow> lead_step D D'"
| callback: "classification_callback tok E au b D = Inr (x, D') \<Longrightarrow>
    fresh E 0 \<notin> lr_id ` set (spam_results D) \<Longrightarrow> fresh E 0 \<notin> lr_id ` set (level_results D) \<Longrightarrow>
    lead_step D D'"

lemma lead_step_wf: "lead_step D D' \<Longrightarrow> leads_wf D \<Longrightarrow> leads_wf D'"
proof (induction rule: lead_step.induct)
  case (inquiry E i u m D l D')
  then show ?case by (blast intro: create_inquiry_wf)
next
  case (callback tok E au b D x D')
  then show ?case
    using classification_callback_Inr [OF callback.hyps(1)]
    by (blast intro: process_spam_callback_wf process_level_callback_wf)
qed (blast intro: update_lead_status_wf review_lead_wf)+

definition status_rank :: "string \<Rightarrow> nat" where
  "status_rank s = (if s = ''new'' then 0 else if s = ''reviewed'' then 1 else 2)"

text \<open>What never changes in a lead, and what only moves forward.\<close>

definition advances :: "Lead \<Rightarrow> Lead \<Rightarrow> bool" where
  "advances l l' \<longleftrightarrow> ld_id l' = ld_id l \<and> ld_agency_tenant_id l' = ld_agency_tenant_id l \<and>
     status_rank (ld_status l) \<le> status_rank (ld_status l')"

definition all_advance :: "db \<Rightarrow> db \<Rightarrow> bool" where
  "all_advance D D' \<longleftrightarrow> (\<forall>i l. find_row ld_id i (leads D) = Some l \<longrightarrow>
     (\<exists>l'. find_row ld_id i (leads D') = Some l' \<and> advances l l'))"

lemma advances_trans: "advances a b \<Longrightarrow> advances b c \<Longrightarrow> advances a c"
  by (auto simp: advances_def)

lemma all_advance_refl: "leads D' = leads D \<Longrightarrow> all_advance D D'"
  by (simp add: all_advance_def advances_def)

lemma all_advance_trans: "all_advance D D1 \<Longrightarrow> all_advance D1 D2 \<Longrightarrow> all_advance D D2"
  unfolding all_advance_def by (meson advances_trans)

lemma all_advance_replace:
  assumes old: "find_row ld_id i (leads D) = Some old" and adv: "advances old new"
    and D': "leads D' = update_row ld_id i (\<lambda>_. new) (leads D)"
  shows "all_advance D D'"
proof -
  have "ld_id new = i" using old adv by (auto simp: advances_def dest: find_row_Some)
  then have "find_row ld_id j (leads D') =
      (if j = i then map_option (\<lambda>_. new) (find_row ld_id i (leads D)) else find_row ld_id j (leads D))" for j
    unfolding D' by (rule find_row_replace)
  then show ?thesis using old adv by (auto simp: all_advance_def advances_def)
qed

lemma advances_flush: "ld_id new = ld_id old \<Longrightarrow> advances old new \<Longrightarrow> advances old (lead_flush E old new)"
  by (simp add: advances_def)

lemma callback_advances:
  assumes "classification_callback tok E au b D = Inr (x, D')"
  shows "all_advance D D' \<and> reviewed_leads D' = reviewed_leads D \<and>
    map (\<lambda>l. (ld_id l, ld_status l, ld_closed_at l)) (leads D') =
    map (\<lambda>l. (ld_id l, ld_status l, ld_closed_at l)) (leads D) \<or> \<not> unique_on ld_id (leads D)"
proof (cases "unique_on ld_id (leads D)")
  case u: True
  from classification_callback_Inr [OF assms] process_spam_callback_Inr process_level_callback_Inr
  consider "D' = D"
    | lead p where "find_row ld_id (cb_lead_id b) (leads D) = Some lead"
      "reviewed_leads D' = reviewed_leads D"
      "leads D' = update_row ld_id (cb_lead_id b) (\<lambda>_. lead_flush E lead (lead\<lparr>ld_processing_status := p\<rparr>)) (leads D)"
    by metis
  then show ?thesis
  proof cases
    case 2
    have "advances lead (lead_flush E lead (lead\<lparr>ld_processing_status := p\<rparr>))"
      by (simp add: advances_def)
    from all_advance_replace [OF 2(1) this 2(3)] have "all_advance D D'" .
    moreover have "map (\<lambda>l. (ld_id l, ld_status l, ld_closed_at l)) (leads D') =
        map (\<lambda>l. (ld_id l, ld_status l, ld_closed_at l)) (leads D)"
      unfolding 2(3) update_row_def using 2(1) u
      by (auto dest!: find_row_Some dest: unique_onD)
    ultimately show ?thesis using 2(2) by simp
  qed (simp add: all_advance_refl)
qed simp

lemma lead_step_advances:
  assumes "lead_step D D'" and "leads_wf D"
  shows "all_advance D D'"
  using assms
proof (induction rule: lead_step.induct)
  case (inquiry E i u m D l D')
  have "leads D' = leads D @ [l]" using create_inquiry_Inr [OF inquiry.hyps(1)] by blast
  then show ?case by (simp add: all_advance_def find_row_append_new advances_def)
next
  case (status E tenant i st D l D')
  then obtain ctx :: TenantContext and old where old: "find_row ld_id i (leads D) = Some old"
    and tr: "allowed_transition LEAD_STATUS_TRANSITIONS (ld_status old) st"
    and D': "leads D' = update_row ld_id (ld_id old) (\<lambda>_. lead_flush E old (lead_with_status E st old)) (leads D)"
    by (auto simp: update_lead_status_def run_simps own_lead_Inr)
  have i: "ld_id old = i" using old by (auto dest: find_row_Some)
  have "advances old (lead_flush E old (lead_with_status E st old))"
    using tr by (auto simp: advances_def lead_transition_iff status_rank_def)
  then show ?case by (rule all_advance_replace [OF old _ D' [unfolded i]])
next
  case (review E tenant i rb oc nt D r D')
  then obtain ctx :: TenantContext and old where old: "find_row ld_id i (leads D) = Some old"
    and D': "leads D' = leads (mark_reviewed E ctx old D)"
    by (auto simp: review_lead_def run_simps own_lead_Inr)
  have i: "ld_id old = i" using old by (auto dest: find_row_Some)
  show ?case
  proof (cases "ld_status old = ''new''")
    case True
    have "advances old (lead_flush E old (old\<lparr>ld_status := ''reviewed''\<rparr>))"
      using True by (simp add: advances_def status_rank_def)
    then show ?thesis
      using True D' i by (intro all_advance_replace [OF old]) (simp_all add: mark_reviewed_leads)
  qed (use D' in \<open>simp add: all_advance_refl mark_reviewed_leads\<close>)
next
  case (callback tok E au b D x D')
  then show ?case using callback_advances [OF callback.hyps(1)] by (auto simp: leads_wf_def)
qed


section \<open>Callbacks\<close>

text \<open>
  A classification callback never touches the review state: the identifiers, review
  statuses and closing times of all leads and the review records are as before, whatever it
  reports.
\<close>

theorem callback_keeps_review_state:
  assumes "classification_callback tok E au b D = Inr (r, D')" and "unique_on ld_id (leads D)"
  shows "map (\<lambda>l. (ld_id l, ld_status l, ld_closed_at l)) (leads D') =
      map (\<lambda>l. (ld_id l, ld_status l, ld_closed_at l)) (leads D) \<and>
    reviewed_leads D' = reviewed_leads D"
  using callback_advances [OF assms(1)] assms(2) by blast

lemma callback_lead_after:
  assumes "find_row ld_id i (leads D) = Some lead" and "ld_agency_tenant_id lead = t"
    and "leads D' = update_row ld_id i (\<lambda>_. lead_flush E lead (lead\<lparr>ld_processing_status := p\<rparr>)) (leads D)"
  shows "\<exists>lead'. callback_lead i t D' = Inr lead'"
proof -
  have i: "ld_id lead = i" using assms(1) by (auto dest: find_row_Some)
  then have "ld_id (lead_flush E lead (lead\<lparr>ld_processing_status := p\<rparr>)) = i" by simp
  then have "find_row ld_id i (leads D') = Some (lead_flush E lead (lead\<lparr>ld_processing_status := p\<rparr>))"
    unfolding assms(3) using assms(1) by (simp add: find_row_replace)
  then show ?thesis using assms(2) by (simp add: callback_lead_Inr)
qed

lemma seen_after_upsert:
  assumes "results_ok D rows" and "i' \<notin> lr_id ` set rows" and "i \<in> ld_id ` set (leads D)"
    and "upsert_result E i' i t v rows = Inr (r, rows')" and "vd_idempotency_key v = Some k" and "k \<noteq> []"
  shows "seen_before i (Some k) rows' = Inr (Some r)"
proof -
  have "results_ok D rows' \<and> lr_lead_id r = i \<and> r \<in> set rows' \<and> lr_idempotency_key r = Some k"
    using upsert_result_ok [OF assms(1-4), of k] assms(5) by simp
  then have "filter (\<lambda>r. lr_lead_id r = i \<and> lr_idempotency_key r = Some k) rows' = [r]"
    by (intro single_result) (auto simp: results_ok_def)
  then show ?thesis
    using assms(6) by (simp add: seen_before_def truthy_def result_by_idempotency_def scalar_one_or_none_def)
qed

lemma spam_callback_replay:
  assumes wf: "leads_wf D" and run: "process_spam_callback E i t v D = Inr (r, D')"
    and fr: "fresh E 0 \<notin> lr_id ` set (spam_results D)"
    and k: "vd_idempotency_key v = Some k" "k \<noteq> []" "vd_idempotency_key v2 = Some k"
  shows "process_spam_callback E2 i t v2 D' = Inr (r, D')"
proof -
  from process_spam_callback_Inr [OF run] k(1) obtain lead where
    lead: "find_row ld_id i (leads D) = Some lead" "ld_agency_tenant_id lead = t" and
    cases: "seen_before i (Some k) (spam_results D) = Inr (Some r) \<and> D' = D \<or>
      upsert_result E (fresh E 0) i t v (spam_results D) = Inr (r, spam_results D') \<and>
      leads D' = update_row ld_id i (\<lambda>_. lead_flush E lead
       (lead\<lparr>ld_processing_status := spam_processing_status v (ld_processing_status lead)\<rparr>)) (leads D)"
    by auto
  have i: "i \<in> ld_id ` set (leads D)" using lead(1) by (auto dest: find_row_Some)
  have res: "results_ok D (spam_results D)" using wf by (simp add: leads_wf_def)
  from cases have "(\<exists>lead'. callback_lead i t D' = Inr lead') \<and>
      seen_before i (Some k) (spam_results D') = Inr (Some r)"
    using callback_lead_after [OF lead] seen_after_upsert [OF res fr i _ k(1,2)] lead
    by (auto simp: callback_lead_Inr)
  then show ?thesis by (auto simp: process_spam_callback_def k(3))
qed

lemma level_callback_replay:
  assumes wf: "leads_wf D" and run: "process_level_callback E i t v D = Inr (r, D')"
    and fr: "fresh E 0 \<notin> lr_id ` set (level_results D)"
    and k: "vd_idempotency_key v = Some k" "k \<noteq> []" "vd_idempotency_key v2 = Some k"
  shows "process_level_callback E2 i t v2 D' = Inr (r, D')"
proof -
  from process_level_callback_Inr [OF run] k(1) obtain lead where
    lead: "find_row ld_id i (leads D) = Some lead" "ld_agency_tenant_id lead = t" and
    cases: "seen_before i (Some k) (level_results D) = Inr (Some r) \<and> D' = D \<or>
      upsert_result E (fresh E 0) i t v (level_results D) = Inr (r, level_results D') \<and>
      leads D' = update_row ld_id i (\<lambda>_. lead_flush E lead
       (lead\<lparr>ld_processing_status := level_processing_status v (ld_processing_status lead)\<rparr>)) (leads D)"
    by auto
  have i: "i \<in> ld_id ` set (leads D)" using lead(1) by (auto dest: find_row_Some)
  have res: "results_ok D (level_results D)" using wf by (simp add: leads_wf_def)
  from cases have "(\<exists>lead'. callback_lead i t D' = Inr lead') \<and>
      seen_before i (Some k) (level_results D') = Inr (Some r)"
    using callback_lead_after [OF lead] seen_after_upsert [OF res fr i _ k(1,2)] lead
    by (auto simp: callback_lead_Inr)
  then show ?thesis by (auto simp: process_level_callback_def k(3))
qed

text \<open>
  Delivering a callback twice is as good as once: after a callback was accepted, a callback
  with the same lead, stage and retry count (whatever verdict it carries) is answered with the
  row of the first delivery and changes nothing at all.
\<close>

theorem callback_replay:
  assumes wf: "leads_wf D" and first: "classification_callback tok E au b D = Inr (r, D')"
    and fr: "fresh E 0 \<notin> lr_id ` set (spam_results D)" "fresh E 0 \<notin> lr_id ` set (level_results D)"
    and same: "cb_lead_id b2 = cb_lead_id b" "cb_tenant_id b2 = cb_tenant_id b"
      "cb_stage b2 = cb_stage b" "cb_retry_count b2 = cb_retry_count b"
  shows "classification_callback tok E2 au b2 D' = Inr (r, D')"
proof -
  have key: "callback_key b2 = callback_key b" "callback_key b \<noteq> []"
    using same by (simp_all add: callback_key_def)
  have v: "vd_idempotency_key (callback_verdict x) = Some (callback_key x)" for x
    by (simp add: callback_verdict_def)
  show ?thesis
  proof (cases "cb_stage b = ''spam''")
    case True
    with first have auth: "\<not> (tok = [] \<or> au \<noteq> ''Bearer '' @ tok)" and
      "process_spam_callback E (cb_lead_id b) (cb_tenant_id b) (callback_verdict b) D = Inr (r, D')"
      by (auto simp: classification_callback_def split: if_splits)
    from spam_callback_replay [OF wf this(2) fr(1) v key(2), of "callback_verdict b2"] v key(1)
    show ?thesis using auth True same by (simp add: classification_callback_def)
  next
    case False
    with first have auth: "\<not> (tok = [] \<or> au \<noteq> ''Bearer '' @ tok)" and
      "process_level_callback E (cb_lead_id b) (cb_tenant_id b) (callback_verdict b) D = Inr (r, D')"
      by (auto simp: classification_callback_def split: if_splits)
    from level_callback_replay [OF wf this(2) fr(2) v key(2), of "callback_verdict b2"] v key(1)
    show ?thesis using auth False same by (simp add: classification_callback_def)
  qed
qed

text \<open>
  Replaying an older callback is not idempotent: the result row remembers only the last key,
  so a late \<open>not_spam\<close> verdict for an earlier attempt takes a lead whose processing is already
  completed back to \<open>pending_level\<close>.
\<close>

theorem late_callback_reopens_lead:
  assumes wf: "leads_wf D" and lead: "find_row ld_id (cb_lead_id b) (leads D) = Some lead"
    and fin: "ld_processing_status lead = LEAD_PROCESSING_STATUS_COMPLETED"
    and own: "ld_agency_tenant_id lead = cb_tenant_id b"
    and result: "find_row lr_lead_id (cb_lead_id b) (spam_results D) = Some old"
      "lr_idempotency_key old \<noteq> Some (callback_key b)"
    and late: "cb_stage b = ''spam''" "cb_status b = ''completed''" "cb_label b = Some ''not_spam''"
    and auth: "tok \<noteq> []" "au = ''Bearer '' @ tok"
  shows "\<exists>r D'. classification_callback tok E au b D = Inr (r, D') \<and>
    (\<exists>lead'. find_row ld_id (cb_lead_id b) (leads D') = Some lead' \<and>
       ld_processing_status lead' = LEAD_PROCESSING_STATUS_PENDING_LEVEL)"
proof -
  let ?i = "cb_lead_id b" and ?v = "callback_verdict b"
  have u: "unique_on lr_lead_id (spam_results D)" using wf by (simp add: leads_wf_def results_ok_def)
  have v: "vd_idempotency_key ?v = Some (callback_key b)" "callback_key b \<noteq> []"
    "vd_status ?v = ''completed''" "vd_label ?v = Some ''not_spam''"
    using late by (simp_all add: callback_verdict_def callback_key_def)
  have "filter (\<lambda>r. lr_lead_id r = ?i \<and> lr_idempotency_key r = Some (callback_key b)) (spam_results D) = []"
    using result u by (auto simp: filter_empty_conv dest!: find_row_Some dest: unique_onD)
  then have unseen: "seen_before ?i (vd_idempotency_key ?v) (spam_results D) = Inr None"
    using v(1,2) by (simp add: seen_before_def truthy_def result_by_idempotency_def scalar_one_or_none_def)
  have ups: "upsert_result E (fresh E 0) ?i (cb_tenant_id b) ?v (spam_results D) =
      Inr (apply_verdict E ?v old, update_row lr_id (lr_id old) (\<lambda>_. apply_verdict E ?v old) (spam_results D))"
    using result(1) u by (simp add: upsert_result_def result_by_lead_wf Let_def)
  have st: "spam_processing_status ?v p = LEAD_PROCESSING_STATUS_PENDING_LEVEL" for p
    using v(3,4) by (simp add: spam_processing_status_def processing_status_defs)
  obtain r D' where run: "process_spam_callback E ?i (cb_tenant_id b) ?v D = Inr (r, D')"
    and D': "leads D' = update_row ld_id ?i (\<lambda>_. lead_flush E lead
      (lead\<lparr>ld_processing_status := LEAD_PROCESSING_STATUS_PENDING_LEVEL\<rparr>)) (leads D)"
    using lead own unseen ups st find_row_Some [OF lead]
    by (simp add: process_spam_callback_def callback_lead_def get_lead_by_id_def Let_def)
  have "find_row ld_id ?i (leads D') = Some (lead_flush E lead
      (lead\<lparr>ld_processing_status := LEAD_PROCESSING_STATUS_PENDING_LEVEL\<rparr>))"
    unfolding D' using lead find_row_Some [OF lead] by (subst find_row_replace) simp_all
  moreover have "classification_callback tok E au b D = Inr (r, D')"
    using run late(1) auth by (simp add: classification_callback_def)
  ultimately show ?thesis by fastforce
qed

text \<open>
  An inquiry is accepted exactly when the listing is active, the user exists with a name
  and a way to be contacted, and the message is not blank; it then records one new lead of the
  listing's agency, one pending result per stage, and one outbox event for the classifier.
\<close>

theorem inquiry_accepted_iff:
  assumes "''lead.created.'' @ fresh E 0 \<notin> oe_idempotency_key ` set (outbox_events D)"
  shows "(\<exists>lead D'. create_inquiry E i u m D = Inr (lead, D') \<and>
      leads D' = leads D @ [lead] \<and> ld_listing_id lead = i \<and> ld_user_id lead = Some u \<and>
      ld_status lead = ''new'' \<and>
      length (spam_results D') = Suc (length (spam_results D)) \<and>
      length (level_results D') = Suc (length (level_results D)) \<and>
      (\<exists>ev. outbox_events D' = outbox_events D @ [ev] \<and> oe_event_name ev = ''lead.created'' \<and>
         oe_aggregate_id ev = Some (ld_id lead))) \<longleftrightarrow>
    (\<exists>li us. find_row l_id i (listings D) = Some li \<and> l_status li = ''active'' \<and>
      find_row u_id u (users D) = Some us \<and>
      \<not> blank (u_name us) \<and> (\<not> blank (Some (u_email us)) \<or> \<not> blank (u_phone us)) \<and> \<not> blank m)"
    (is "?accepted \<longleftrightarrow> ?ok")
proof
  assume ?accepted
  then obtain lead D' where "create_inquiry E i u m D = Inr (lead, D')" by blast
  from create_inquiry_Inr [OF this] show ?ok
    by (auto simp: profile_complete_iff blank_def split: option.splits)
next
  assume ?ok
  then obtain li us where ok: "find_row l_id i (listings D) = Some li" "l_status li = ''active''"
    "find_row u_id u (users D) = Some us" "get_lead_profile_missing_fields us = []"
    "py_strip (case m of None \<Rightarrow> [] | Some t \<Rightarrow> t) \<noteq> []"
    by (auto simp: profile_complete_iff blank_def split: option.splits)
  then obtain lead D' where run: "create_inquiry E i u m D = Inr (lead, D')"
    using assms by (simp add: create_inquiry_def get_listing_by_id_def get_user_by_id_def Let_def
        publish_outbox_event_in_session_def)
  from create_inquiry_Inr [OF run] ok(1,3) show ?accepted
    using run by (auto dest!: find_row_Some)
qed

section \<open>Witnesses\<close>

lemma demo_leads_wf: "leads_wf demo_db"
  by (simp add: leads_wf_def results_ok_def lead_ok_def demo_defs VALID_LEAD_STATUSES_def
      processing_status_defs)

lemma py_strip_hi [simp]: "py_strip ''hi'' = ''hi''" "py_strip ''Ann'' = ''Ann''"
  by (simp_all add: py_strip_def py_isspace_def)

theorem inquiry_accepted_iff_witness:
  "\<exists>lead D'. create_inquiry demo_env ''l1'' ''u1'' (Some ''hi'') demo_db = Inr (lead, D') \<and>
     leads D' = leads demo_db @ [lead] \<and> ld_user_id lead = Some ''u1''"
proof -
  have free: "''lead.created.'' @ fresh demo_env 0 \<notin> oe_idempotency_key ` set (outbox_events demo_db)"
    by (simp add: demo_defs)
  have "\<exists>li us. find_row l_id ''l1'' (listings demo_db) = Some li \<and> l_status li = ''active'' \<and>
      find_row u_id ''u1'' (users demo_db) = Some us \<and>
      \<not> blank (u_name us) \<and> (\<not> blank (Some (u_email us)) \<or> \<not> blank (u_phone us)) \<and> \<not> blank (Some ''hi'')"
    by (simp add: demo_defs find_row_def blank_def) (simp add: py_strip_def py_isspace_def)
  then show ?thesis using inquiry_accepted_iff [OF free] by blast
qed


definition demo_callback :: callback where
  "demo_callback = \<lparr>cb_lead_id = ''d1'', cb_tenant_id = ''t1'', cb_stage = ''spam'',
     cb_status = ''completed'', cb_label = Some ''not_spam'', cb_score = None, cb_details = None,
     cb_retry_count = 0\<rparr>"

lemma demo_callback_key: "callback_key demo_callback = ''callback_d1_spam_r0''"
  by code_simp

lemma demo_callback_run:
  "\<exists>r D'. classification_callback ''s'' demo_env ''Bearer s'' demo_callback demo_db = Inr (r, D')"
  by (simp add: classification_callback_def process_spam_callback_def callback_lead_def
      get_lead_by_id_def find_row_def seen_before_def result_by_idempotency_def upsert_result_def
      result_by_lead_def scalar_one_or_none_def truthy_def callback_verdict_def demo_callback_key Let_def
      demo_defs demo_callback_key [unfolded demo_callback_def] demo_callback_def)

theorem late_callback_reopens_lead_witness:
  "\<exists>r D'. classification_callback ''s'' demo_env ''Bearer s'' demo_callback demo_db = Inr (r, D') \<and>
    (\<exists>lead'. find_row ld_id ''d1'' (leads D') = Some lead' \<and>
       ld_processing_status lead' = LEAD_PROCESSING_STATUS_PENDING_LEVEL)"
proof -
  have lead: "find_row ld_id (cb_lead_id demo_callback) (leads demo_db) = Some (demo_lead ''d1'' ''new'' ''completed'')"
    and res: "find_row lr_lead_id (cb_lead_id demo_callback) (spam_results demo_db) =
      Some (demo_result ''s1'' ''d1'' (Some ''k1''))"
    by (simp_all add: demo_defs demo_callback_def find_row_def)
  have "lr_idempotency_key (demo_result ''s1'' ''d1'' (Some ''k1'')) \<noteq> Some (callback_key demo_callback)"
    unfolding demo_callback_key by (simp add: demo_result_def)
  from late_callback_reopens_lead [OF demo_leads_wf lead _ _ res this, of "''s''" "''Bearer s''" demo_env]
  show ?thesis by (simp add: demo_defs demo_callback_def processing_status_defs)
qed

theorem callback_keeps_review_state_witness:
  "\<exists>r D'. classification_callback ''s'' demo_env ''Bearer s'' demo_callback demo_db = Inr (r, D') \<and>
    map (\<lambda>l. (ld_id l, ld_status l, ld_closed_at l)) (leads D') = [(''d1'', ''new'', None)]"
proof -
  obtain r D' where run: "classification_callback ''s'' demo_env ''Bearer s'' demo_callback demo_db = Inr (r, D')"
    using demo_callback_run by blast
  have "unique_on ld_id (leads demo_db)" using demo_leads_wf by (simp add: leads_wf_def)
  from callback_keeps_review_state [OF run this] run show ?thesis by (auto simp: demo_defs)
qed

theorem callback_replay_witness:
  "\<exists>r D'. classification_callback ''s'' demo_env ''Bearer s'' demo_callback demo_db = Inr (r, D') \<and>
    classification_callback ''s'' demo_env ''Bearer s'' (demo_callback\<lparr>cb_label := Some ''spam''\<rparr>) D' = Inr (r, D')"
proof -
  obtain r D' where run: "classification_callback ''s'' demo_env ''Bearer s'' demo_callback demo_db = Inr (r, D')"
    using demo_callback_run by blast
  have "fresh demo_env 0 \<notin> lr_id ` set (spam_results demo_db)"
    "fresh demo_env 0 \<notin> lr_id ` set (level_results demo_db)"
    by (simp_all add: demo_defs)
  from callback_replay [OF demo_leads_wf run this, of "demo_callback\<lparr>cb_label := Some ''spam''\<rparr>"]
  show ?thesis using run by auto
qed
end
