(* ===== verification/Viewings.thy ===== *)
theory Viewings
  imports Photos
begin

text \<open>
  Viewing slots, bookings and scheduled viewings: \<open>viewings/repository.py\<close> and
  \<open>viewings/service.py\<close>. A booking is two database accesses, a read of the slot and a locked
  read-and-increment, between which other transactions may commit; \<open>book_viewing\<close> is their
  composition and the steps of a concurrent run take them apart. SQLAlchemy's
  \<open>with_for_update\<close> locks the row but, unless \<open>populate_existing\<close> is given, leaves the
  attributes of an object the session has already loaded as they were: \<open>refresh\<close> says whether
  the locked read overwrites them.
\<close>

section \<open>Slots\<close>

definition list_active_slots :: "uuid \<Rightarrow> db \<Rightarrow> ListingViewingSlot list" where
  "list_active_slots listing_id D =
     sort_key sl_starts_at
       (filter (\<lambda>s. sl_listing_id s = listing_id \<and> sl_status s = ''active'') (viewing_slots D))"

definition list_bookable_by_listing :: "ctx_env \<Rightarrow> uuid \<Rightarrow> db \<Rightarrow> ListingViewingSlot list" where
  "list_bookable_by_listing E listing_id D =
     sort_key sl_starts_at
       (filter (\<lambda>s. sl_listing_id s = listing_id \<and> sl_status s = ''active'' \<and> now_at E \<le> sl_starts_at s \<and>
          sl_reserved_count s < sl_capacity s) (viewing_slots D))"

definition list_slots_by_listing :: "uuid \<Rightarrow> db \<Rightarrow> ListingViewingSlot list" where
  "list_slots_by_listing listing_id D =
     sort_key sl_starts_at (filter (\<lambda>s. sl_listing_id s = listing_id) (viewing_slots D))"

definition get_slot_by_id :: "uuid \<Rightarrow> db \<Rightarrow> ListingViewingSlot option" where
  "get_slot_by_id i D = find_row sl_id i (viewing_slots D)"

definition slot_flush :: "ctx_env \<Rightarrow> ListingViewingSlot \<Rightarrow> ListingViewingSlot \<Rightarrow> ListingViewingSlot" where
  "slot_flush E old new = (if new = old then old else new\<lparr>sl_updated_at := now_at E\<rparr>)"

definition list_slots :: "TenantContext option \<Rightarrow> uuid \<Rightarrow> db \<Rightarrow> py_exc + ListingViewingSlot list" where
  "list_slots tenant listing_id D =
     sbind (own_listing tenant listing_id D) (\<lambda>_. Inr (list_slots_by_listing listing_id D))"

definition MIN_SLOT_LEAD_TIME :: timestamp where
  "MIN_SLOT_LEAD_TIME = seconds 300"

definition validate_future_slot_start :: "ctx_env \<Rightarrow> timestamp \<Rightarrow> py_exc + unit" where
  "validate_future_slot_start E starts_at =
     (if starts_at < now_at E + MIN_SLOT_LEAD_TIME
      then Inl (ValidationError ''Viewing slot start time must be at least 5 minutes in the future.'')
      else Inr ())"

definition check_slot_times :: "ctx_env \<Rightarrow> timestamp \<Rightarrow> timestamp \<Rightarrow> py_exc + unit" where
  "check_slot_times E starts_at ends_at =
     (if ends_at \<le> starts_at then Inl (ValidationError ''ends_at must be after starts_at'')
      else validate_future_slot_start E starts_at)"

record SlotData =
  sc_starts_at :: timestamp
  sc_ends_at :: timestamp
  sc_capacity :: int

definition new_slot :: "ctx_env \<Rightarrow> TenantContext \<Rightarrow> uuid \<Rightarrow> uuid \<Rightarrow> SlotData \<Rightarrow> ListingViewingSlot" where
  "new_slot E ctx t listing_id data =
     \<lparr>sl_id = fresh E 0, sl_listing_id = listing_id, sl_agency_tenant_id = t,
      sl_starts_at = sc_starts_at data, sl_ends_at = sc_ends_at data, sl_capacity = sc_capacity data,
      sl_reserved_count = 0, sl_status = ''active'', sl_created_by_user_id = tc_actor_id ctx,
      sl_created_at = now_at E, sl_updated_at = now_at E\<rparr>"

definition create_slot ::
  "ctx_env \<Rightarrow> TenantContext option \<Rightarrow> uuid \<Rightarrow> SlotData \<Rightarrow> db \<Rightarrow> py_exc + ListingViewingSlot \<times> db" where
  "create_slot E tenant listing_id data D =
     sbind (require_tenant tenant) (\<lambda>ctx.
     if tc_role ctx = Some ''support_employee''
     then Inl (ForbiddenError ''Support employees cannot create viewing slots'')
     else sbind (own_listing tenant listing_id D) (\<lambda>_.
     sbind (check_slot_times E (sc_starts_at data) (sc_ends_at data)) (\<lambda>_.
     case tc_tenant_id ctx of
       None \<Rightarrow> Inl (IntegrityError ''listing_viewing_slots.agency_tenant_id is NOT NULL'')
     | Some t \<Rightarrow>
         (let slot = new_slot E ctx t listing_id data;
              D1 = D\<lparr>viewing_slots := viewing_slots D @ [slot]\<rparr>
          in Inr (slot, write_domain_event_log E (fresh E 1) ''listing.viewing_slot_created''
               (Some ''listing'') (Some listing_id)
               (Some (JObj [(''slot_id'', JText (sl_id slot))])) (Some t) (tc_actor_id ctx) D1)))))"

definition own_slot ::
  "TenantContext option \<Rightarrow> uuid \<Rightarrow> uuid \<Rightarrow> db \<Rightarrow> py_exc + TenantContext \<times> ListingViewingSlot" where
  "own_slot tenant listing_id slot_id D =
     sbind (require_tenant tenant) (\<lambda>ctx.
     case get_slot_by_id slot_id D of
       None \<Rightarrow> Inl (NotFoundError ''Viewing slot not found'')
     | Some slot \<Rightarrow>
         if sl_listing_id slot \<noteq> listing_id
         then Inl (NotFoundError ''Slot not found for this listing'')
         else sbind (ensure_tenant_match tenant (sl_agency_tenant_id slot)) (\<lambda>_. Inr (ctx, slot)))"

record SlotUpdate =
  su_starts_at :: "timestamp option"
  su_ends_at :: "timestamp option"
  su_capacity :: "int option"
  su_status :: "string option"

definition or_old :: "'a option \<Rightarrow> 'a \<Rightarrow> 'a" where
  "or_old new old = (case new of None \<Rightarrow> old | Some x \<Rightarrow> x)"

definition apply_slot_update :: "SlotUpdate \<Rightarrow> ListingViewingSlot \<Rightarrow> ListingViewingSlot" where
  "apply_slot_update data s =
     s\<lparr>sl_starts_at := or_old (su_starts_at data) (sl_starts_at s),
       sl_ends_at := or_old (su_ends_at data) (sl_ends_at s),
       sl_capacity := or_old (su_capacity data) (sl_capacity s),
       sl_status := or_old (su_status data) (sl_status s)\<rparr>"

definition store_slot :: "ctx_env \<Rightarrow> ListingViewingSlot \<Rightarrow> ListingViewingSlot \<Rightarrow> db \<Rightarrow> db" where
  "store_slot E old new D =
     D\<lparr>viewing_slots := update_row sl_id (sl_id old) (\<lambda>_. slot_flush E old new) (viewing_slots D)\<rparr>"

definition update_slot ::
  "ctx_env \<Rightarrow> TenantContext option \<Rightarrow> uuid \<Rightarrow> uuid \<Rightarrow> SlotUpdate \<Rightarrow> db
     \<Rightarrow> py_exc + ListingViewingSlot \<times> db" where
  "update_slot E tenant listing_id slot_id data D =
     sbind (own_slot tenant listing_id slot_id D) (\<lambda>(ctx, old).
       (let new = apply_slot_update data old
        in sbind (check_slot_times E (sl_starts_at new) (sl_ends_at new)) (\<lambda>_.
             Inr (slot_flush E old new,
               write_domain_event_log E (fresh E 0) ''listing.viewing_slot_updated'' (Some ''listing'')
                 (Some listing_id) (Some (JObj [(''slot_id'', JText slot_id)]))
                 (tc_tenant_id ctx) (tc_actor_id ctx) (store_slot E old new D)))))"

definition deactivate_slot ::
  "ctx_env \<Rightarrow> TenantContext option \<Rightarrow> uuid \<Rightarrow> uuid \<Rightarrow> db \<Rightarrow> py_exc + unit \<times> db" where
  "deactivate_slot E tenant listing_id slot_id D =
     sbind (own_slot tenant listing_id slot_id D) (\<lambda>(ctx, old).
       Inr ((), write_domain_event_log E (fresh E 0) ''listing.viewing_slot_deactivated''
         (Some ''listing'') (Some listing_id) (Some (JObj [(''slot_id'', JText slot_id)]))
         (tc_tenant_id ctx) (tc_actor_id ctx) (store_slot E old (old\<lparr>sl_status := ''inactive''\<rparr>) D)))"

section \<open>Booking\<close>

text \<open>The unlocked part: what the session has loaded when it asks for the lock.\<close>

record booking =
  bk_listing :: Listing
  bk_slot :: ListingViewingSlot
  bk_user_id :: uuid
  bk_notes :: "string option"

definition begin_booking ::
  "uuid \<Rightarrow> uuid \<Rightarrow> uuid \<Rightarrow> string option \<Rightarrow> db \<Rightarrow> py_exc + booking" where
  "begin_booking listing_id user_id slot_id notes D =
     (case get_listing_by_id listing_id D of
        None \<Rightarrow> Inl (NotFoundError ''Listing not found or not active'')
      | Some listing \<Rightarrow>
          if l_status listing \<noteq> ''active'' then Inl (NotFoundError ''Listing not found or not active'')
          else (case get_slot_by_id slot_id D of
            None \<Rightarrow> Inl (NotFoundError ''Viewing slot not available'')
          | Some slot \<Rightarrow>
              if sl_status slot \<noteq> ''active'' then Inl (NotFoundError ''Viewing slot not available'')
              else if sl_listing_id slot \<noteq> listing_id
              then Inl (NotFoundError ''Viewing slot not found for this listing'')
              else if sl_capacity slot \<le> sl_reserved_count slot
              then Inl (ConflictError ''Viewing slot is fully booked'')
              else Inr \<lparr>bk_listing = listing, bk_slot = slot, bk_user_id = user_id, bk_notes = notes\<rparr>))"

definition increment_reserved_count ::
  "bool \<Rightarrow> ctx_env \<Rightarrow> ListingViewingSlot \<Rightarrow> db \<Rightarrow> (ListingViewingSlot \<times> db) option" where
  "increment_reserved_count refresh E loaded D =
     (case get_slot_by_id (sl_id loaded) D of
        None \<Rightarrow> None
      | Some row \<Rightarrow>
          (let slot = (if refresh then row else loaded);
               slot' = slot\<lparr>sl_reserved_count := sl_reserved_count slot + 1, sl_updated_at := now_at E\<rparr>
           in Some (slot', D\<lparr>viewing_slots := update_row sl_id (sl_id loaded)
                (\<lambda>r. r\<lparr>sl_reserved_count := sl_reserved_count slot', sl_updated_at := now_at E\<rparr>)
                (viewing_slots D)\<rparr>)))"

definition new_viewing :: "ctx_env \<Rightarrow> booking \<Rightarrow> ListingViewingSlot \<Rightarrow> ScheduledViewing" where
  "new_viewing E b slot =
     \<lparr>v_id = fresh E 0, v_agency_tenant_id = l_agency_tenant_id (bk_listing b),
      v_listing_id = l_id (bk_listing b), v_viewing_slot_id = sl_id (bk_slot b),
      v_user_id = Some (bk_user_id b), v_status = ''scheduled'',
      v_scheduled_start_at = sl_starts_at slot, v_scheduled_end_at = sl_ends_at slot,
      v_notes = bk_notes b, v_created_at = now_at E, v_updated_at = now_at E\<rparr>"

definition history_entry ::
  "ctx_env \<Rightarrow> uuid \<Rightarrow> ScheduledViewing \<Rightarrow> string option \<Rightarrow> string \<Rightarrow> uuid option \<Rightarrow> string option
     \<Rightarrow> ScheduledViewingStatusHistory" where
  "history_entry E i v old_status new_status changed_by reason =
     \<lparr>h_id = i, h_scheduled_viewing_id = v_id v, h_agency_tenant_id = v_agency_tenant_id v,
      h_old_status = old_status, h_new_status = new_status, h_changed_by_user_id = changed_by,
      h_reason = reason, h_created_at = now_at E\<rparr>"

text \<open>The part that runs under the row lock; a conflict raises and its increment is rolled back.\<close>

definition finish_booking ::
  "bool \<Rightarrow> ctx_env \<Rightarrow> booking \<Rightarrow> db \<Rightarrow> py_exc + ScheduledViewing \<times> db" where
  "finish_booking refresh E b D =
     (case increment_reserved_count refresh E (bk_slot b) D of
        None \<Rightarrow> Inl (ConflictError ''Viewing slot became unavailable'')
      | Some (slot, D1) \<Rightarrow>
          if sl_capacity slot < sl_reserved_count slot
          then Inl (ConflictError ''Viewing slot became unavailable'')
          else
            (let viewing = new_viewing E b slot;
                 D2 = D1\<lparr>viewings := viewings D1 @ [viewing]\<rparr>;
                 D3 = D2\<lparr>viewing_history := viewing_history D2 @
                        [history_entry E (fresh E 1) viewing None ''scheduled'' (Some (bk_user_id b))
                           (Some ''Booking created'')]\<rparr>
             in Inr (viewing, write_domain_event_log E (fresh E 2) ''viewing.scheduled'' (Some ''viewing'')
                  (Some (v_id viewing))
                  (Some (JObj [(''listing_id'', JText (v_listing_id viewing)),
                               (''slot_id'', JText (v_viewing_slot_id viewing))]))
                  (Some (v_agency_tenant_id viewing)) (Some (bk_user_id b)) D3)))"

definition book_viewing ::
  "bool \<Rightarrow> ctx_env \<Rightarrow> uuid \<Rightarrow> uuid \<Rightarrow> uuid \<Rightarrow> string option \<Rightarrow> db \<Rightarrow> py_exc + ScheduledViewing \<times> db" where
  "book_viewing refresh E listing_id user_id slot_id notes D =
     sbind (begin_booking listing_id user_id slot_id notes D) (\<lambda>b. finish_booking refresh E b D)"

section \<open>Scheduled viewings\<close>

definition get_viewing_by_id :: "uuid \<Rightarrow> db \<Rightarrow> ScheduledViewing option" where
  "get_viewing_by_id i D = find_row v_id i (viewings D)"

definition list_viewings_by_user :: "uuid \<Rightarrow> db \<Rightarrow> ScheduledViewing list" where
  "list_viewings_by_user user_id D =
     sort_key (\<lambda>v. Desc (v_scheduled_start_at v)) (filter (\<lambda>v. v_user_id v = Some user_id) (viewings D))"

text \<open>A date filter is a text; \<open>None\<close> stands for one that is absent or that \<open>fromisoformat\<close> refuses.\<close>

record viewing_filter =
  vf_status :: "string option"
  vf_listing_id :: "uuid option"
  vf_date_from :: "timestamp option"
  vf_date_to :: "timestamp option"

definition list_viewings_by_tenant :: "uuid option \<Rightarrow> viewing_filter \<Rightarrow> db \<Rightarrow> ScheduledViewing list" where
  "list_viewings_by_tenant tenant_id f D =
     sort_key (\<lambda>v. Desc (v_scheduled_start_at v))
       (filter (\<lambda>v. tenant_id = Some (v_agency_tenant_id v) \<and>
          (case vf_status f of None \<Rightarrow> True | Some s \<Rightarrow> v_status v = s) \<and>
          (case vf_listing_id f of None \<Rightarrow> True | Some i \<Rightarrow> v_listing_id v = i) \<and>
          (case vf_date_from f of None \<Rightarrow> True | Some t \<Rightarrow> t \<le> v_scheduled_start_at v) \<and>
          (case vf_date_to f of None \<Rightarrow> True | Some t \<Rightarrow> v_scheduled_start_at v \<le> t)) (viewings D))"

definition list_user_viewings :: "uuid \<Rightarrow> pagination \<Rightarrow> db \<Rightarrow> py_exc + ScheduledViewing pagination_result" where
  "list_user_viewings user_id p D = page_of (list_viewings_by_user user_id D) p"

definition get_user_viewing :: "uuid \<Rightarrow> uuid \<Rightarrow> db \<Rightarrow> py_exc + ScheduledViewing" where
  "get_user_viewing viewing_id user_id D =
     (case get_viewing_by_id viewing_id D of
        None \<Rightarrow> Inl (NotFoundError ''Scheduled viewing not found'')
      | Some v \<Rightarrow>
          if v_user_id v \<noteq> Some user_id then Inl (ForbiddenError ''Not your scheduled viewing'') else Inr v)"

record listing_summary =
  ls_id :: uuid
  ls_title :: string
  ls_thumbnail_url :: "string option"

definition attach_listing_summaries ::
  "(string \<Rightarrow> string) \<Rightarrow> ScheduledViewing list \<Rightarrow> db \<Rightarrow> (ScheduledViewing \<times> listing_summary option) list" where
  "attach_listing_summaries sign items D =
     (let listing_ids = remdups (map v_listing_id items);
          thumbnail_map = build_thumbnail_map sign listing_ids D
      in map (\<lambda>v. (v, map_option (\<lambda>l. \<lparr>ls_id = l_id l, ls_title = l_title l,
                        ls_thumbnail_url = dict_get thumbnail_map (l_id l) None\<rparr>)
                      (find_row l_id (v_listing_id v) (listings D)))) items)"

definition list_tenant_viewings ::
  "(string \<Rightarrow> string) \<Rightarrow> TenantContext option \<Rightarrow> pagination \<Rightarrow> viewing_filter \<Rightarrow> db
     \<Rightarrow> py_exc + (ScheduledViewing \<times> listing_summary option) pagination_result" where
  "list_tenant_viewings sign tenant p f D =
     sbind (require_tenant tenant) (\<lambda>ctx.
     (let rows = list_viewings_by_tenant (tc_tenant_id ctx) f D
      in sbind (sql_page (pg_offset p) (pg_limit p) rows) (\<lambda>items.
           Inr (PaginationResult (attach_listing_summaries sign items D) (int (length rows)) p))))"

definition own_viewing :: "TenantContext option \<Rightarrow> uuid \<Rightarrow> db \<Rightarrow> py_exc + ScheduledViewing" where
  "own_viewing tenant viewing_id D =
     (case get_viewing_by_id viewing_id D of
        None \<Rightarrow> Inl (NotFoundError ''Scheduled viewing not found'')
      | Some v \<Rightarrow> sbind (ensure_tenant_match tenant (v_agency_tenant_id v)) (\<lambda>_. Inr v))"

definition get_tenant_viewing ::
  "(string \<Rightarrow> string) \<Rightarrow> TenantContext option \<Rightarrow> uuid \<Rightarrow> db
     \<Rightarrow> py_exc + ScheduledViewing \<times> listing_summary option" where
  "get_tenant_viewing sign tenant viewing_id D =
     sbind (require_tenant tenant) (\<lambda>_.
     sbind (own_viewing tenant viewing_id D) (\<lambda>v. Inr (hd (attach_listing_summaries sign [v] D))))"

definition viewing_with_status :: "ctx_env \<Rightarrow> string \<Rightarrow> ScheduledViewing \<Rightarrow> ScheduledViewing" where
  "viewing_with_status E new_status v =
     (let new = v\<lparr>v_status := new_status\<rparr> in if new = v then v else new\<lparr>v_updated_at := now_at E\<rparr>)"

definition update_viewing_status ::
  "ctx_env \<Rightarrow> TenantContext option \<Rightarrow> uuid \<Rightarrow> string \<Rightarrow> string option \<Rightarrow> db
     \<Rightarrow> py_exc + ScheduledViewing \<times> db" where
  "update_viewing_status E tenant viewing_id new_status reason D =
     sbind (require_tenant tenant) (\<lambda>ctx.
     if tc_role ctx = Some ''support_employee''
     then Inl (ForbiddenError ''Support employees cannot modify viewing schedules'')
     else sbind (own_viewing tenant viewing_id D) (\<lambda>v.
     if new_status \<notin> set VALID_VIEWING_STATUSES
     then Inl (ValidationError (''Invalid viewing status: '' @ new_status))
     else if \<not> allowed_transition VIEWING_STATUS_TRANSITIONS (v_status v) new_status
     then Inl (ValidationError
            (''Cannot transition from '' @ quoted (v_status v) @ '' to '' @ quoted new_status))
     else (let new = viewing_with_status E new_status v;
               D1 = D\<lparr>viewings := update_row v_id viewing_id (\<lambda>_. new) (viewings D)\<rparr>;
               D2 = D1\<lparr>viewing_history := viewing_history D1 @
                      [history_entry E (fresh E 0) v (Some (v_status v)) new_status (tc_actor_id ctx) reason]\<rparr>
           in Inr (new, write_domain_event_log E (fresh E 1) ''viewing.status_changed'' (Some ''viewing'')
                (Some viewing_id)
                (Some (JObj [(''old_status'', JText (v_status v)), (''new_status'', JText new_status)]))
                (Some (v_agency_tenant_id v)) (tc_actor_id ctx) D2))))"

end
