(* ===== verification/ViewingProps.thy ===== *)
theory ViewingProps
  imports Viewings Demo
begin

text \<open>
  Capacity and history of viewings: the concurrent booking protocol as a step relation, the
  capacity invariant it keeps when the locked read is a fresh one, the run that overbooks when
  it is not, and the status history every viewing carries.
\<close>

section \<open>Concurrent bookings\<close>

text \<open>The state is the committed database and the bookings that have read their slot but not yet locked it.\<close>

inductive booking_step :: "bool \<Rightarrow> db \<times> booking list \<Rightarrow> db \<times> booking list \<Rightarrow> bool" for refresh where
  slot_created: "create_slot E tenant lid data D = Inr (s, D') \<Longrightarrow> 0 \<le> sc_capacity data \<Longrightarrow>
    fresh E 0 \<notin> sl_id ` set (viewing_slots D) \<Longrightarrow> booking_step refresh (D, bs) (D', bs)"
| slot_updated: "update_slot E tenant lid sid data D = Inr (s, D') \<Longrightarrow>
    sl_reserved_count s \<le> sl_capacity s \<Longrightarrow> booking_step refresh (D, bs) (D', bs)"
| slot_deactivated: "deactivate_slot E tenant lid sid D = Inr (x, D') \<Longrightarrow>
    booking_step refresh (D, bs) (D', bs)"
| begin_reading: "begin_booking lid u sid notes D = Inr b \<Longrightarrow> booking_step refresh (D, bs) (D, b # bs)"
| finish_locked: "b \<in> set bs \<Longrightarrow> finish_booking refresh E b D = Inr (v, D') \<Longrightarrow>
    fresh E 0 \<notin> v_id ` set (viewings D) \<Longrightarrow> booking_step refresh (D, bs) (D', remove1 b bs)"
| finish_conflict: "b \<in> set bs \<Longrightarrow> finish_booking refresh E b D = Inl e \<Longrightarrow>
    booking_step refresh (D, bs) (D, remove1 b bs)"
| status_changed: "update_viewing_status E tenant vid st reason D = Inr (v, D') \<Longrightarrow>
    booking_step refresh (D, bs) (D', bs)"

definition booked :: "uuid \<Rightarrow> db \<Rightarrow> int" where
  "booked sid D = int (length (filter (\<lambda>v. v_viewing_slot_id v = sid) (viewings D)))"

definition slots_wf :: "db \<Rightarrow> bool" where
  "slots_wf D \<longleftrightarrow> unique_on sl_id (viewing_slots D) \<and>
     (\<forall>v \<in> set (viewings D). v_viewing_slot_id v \<in> sl_id ` set (viewing_slots D)) \<and>
     (\<forall>s \<in> set (viewing_slots D). sl_reserved_count s = booked (sl_id s) D) \<and>
     (\<forall>s \<in> set (viewing_slots D). booked (sl_id s) D \<le> sl_capacity s)"

lemma slot_flush_fields [simp]:
  "sl_id (slot_flush E old new) = sl_id new"
  "sl_reserved_count (slot_flush E old new) = sl_reserved_count new"
  "sl_capacity (slot_flush E old new) = sl_capacity new"
  by (simp_all add: slot_flush_def)

lemma store_slot_frame [simp]:
  "viewings (store_slot E old new D) = viewings D"
  "viewing_history (store_slot E old new D) = viewing_history D"
  "viewing_slots (store_slot E old new D) =
     update_row sl_id (sl_id old) (\<lambda>_. slot_flush E old new) (viewing_slots D)"
  by (simp_all add: store_slot_def)

lemma own_slot_Inr:
  "own_slot tenant lid sid D = Inr (ctx, s) \<longleftrightarrow>
     require_tenant tenant = Inr ctx \<and> find_row sl_id sid (viewing_slots D) = Some s \<and>
     sl_listing_id s = lid \<and> ensure_tenant_match tenant (sl_agency_tenant_id s) = Inr ()"
  by (auto simp: own_slot_def run_simps get_slot_by_id_def)

lemma create_slot_Inr:
  assumes "create_slot E tenant lid data D = Inr (s, D')"
  shows "viewing_slots D' = viewing_slots D @ [s] \<and> viewings D' = viewings D \<and>
    viewing_history D' = viewing_history D \<and> sl_id s = fresh E 0 \<and> sl_reserved_count s = 0 \<and>
    sl_capacity s = sc_capacity data"
  using assms by (auto simp: create_slot_def run_simps new_slot_def)

lemma create_slot_wf:
  assumes wf: "slots_wf D" and run: "create_slot E tenant lid data D = Inr (s, D')"
    and "0 \<le> sc_capacity data" and new: "fresh E 0 \<notin> sl_id ` set (viewing_slots D)"
  shows "slots_wf D'"
proof -
  note s = create_slot_Inr [OF run]
  have "filter (\<lambda>v. v_viewing_slot_id v = fresh E 0) (viewings D) = []"
    using wf new unfolding slots_wf_def filter_empty_conv by metis
  then show ?thesis
    using wf s new assms(3) by (auto simp: slots_wf_def booked_def)
qed

text \<open>Storing a slot whose reserved count is the stored one keeps the invariant if its capacity covers it.\<close>

lemma store_slot_wf:
  assumes wf: "slots_wf D" and old: "find_row sl_id sid (viewing_slots D) = Some old"
    and new: "sl_id new = sl_id old" "sl_reserved_count new = sl_reserved_count old"
      "sl_reserved_count new \<le> sl_capacity new"
  shows "slots_wf (store_slot E old new D)"
proof -
  have in_old: "old \<in> set (viewing_slots D)" using old by (auto dest: find_row_Some)
  have "map sl_id (viewing_slots (store_slot E old new D)) = map sl_id (viewing_slots D)"
    unfolding store_slot_frame update_row_def using new by auto
  then have "unique_on sl_id (viewing_slots (store_slot E old new D)) = unique_on sl_id (viewing_slots D)"
    "sl_id ` set (viewing_slots (store_slot E old new D)) = sl_id ` set (viewing_slots D)"
    by (simp_all add: unique_on_def del: store_slot_frame) (metis list.set_map)
  then show ?thesis
    using wf in_old new by (auto simp: slots_wf_def booked_def set_update_row)
qed

lemma slots_wf_cong:
  "slots_wf D \<Longrightarrow> viewings D' = viewings D \<Longrightarrow> viewing_slots D' = viewing_slots D \<Longrightarrow> slots_wf D'"
  by (simp add: slots_wf_def booked_def)

lemma update_slot_wf:
  assumes wf: "slots_wf D" and run: "update_slot E tenant lid sid data D = Inr (s, D')"
    and cap: "sl_reserved_count s \<le> sl_capacity s"
  shows "slots_wf D'"
proof -
  from run obtain ctx :: TenantContext and old where
    old: "find_row sl_id sid (viewing_slots D) = Some old" and
    s: "s = slot_flush E old (apply_slot_update data old)" and
    D': "viewing_slots D' = viewing_slots (store_slot E old (apply_slot_update data old) D)"
      "viewings D' = viewings D"
    by (auto simp: update_slot_def run_simps own_slot_Inr)
  have "slots_wf (store_slot E old (apply_slot_update data old) D)"
    using store_slot_wf [OF wf old] cap by (simp add: s apply_slot_update_def)
  then show ?thesis by (rule slots_wf_cong) (simp_all add: D')
qed

lemma deactivate_slot_wf:
  assumes wf: "slots_wf D" and run: "deactivate_slot E tenant lid sid D = Inr (x, D')"
  shows "slots_wf D' \<and> viewings D' = viewings D \<and> viewing_history D' = viewing_history D"
proof -
  from run obtain ctx :: TenantContext and old where old: "find_row sl_id sid (viewing_slots D) = Some old"
    and D': "viewing_slots D' = viewing_slots (store_slot E old (old\<lparr>sl_status := ''inactive''\<rparr>) D)"
      "viewings D' = viewings D" "viewing_history D' = viewing_history D"
    by (auto simp: deactivate_slot_def run_simps own_slot_Inr)
  have "old \<in> set (viewing_slots D)" using old by (auto dest: find_row_Some)
  then have "sl_reserved_count old \<le> sl_capacity old" using wf by (simp add: slots_wf_def)
  then have "slots_wf (store_slot E old (old\<lparr>sl_status := ''inactive''\<rparr>) D)"
    by (intro store_slot_wf [OF wf old]) simp_all
  then show ?thesis using slots_wf_cong D' by (metis store_slot_frame(1))
qed

lemma finish_booking_Inr:
  assumes "finish_booking refresh E b D = Inr (v, D')"
  shows "\<exists>row slot. find_row sl_id (sl_id (bk_slot b)) (viewing_slots D) = Some row \<and>
    slot = (if refresh then row else bk_slot b) \<and> sl_reserved_count slot + 1 \<le> sl_capacity slot \<and>
    viewing_slots D' = update_row sl_id (sl_id (bk_slot b))
      (\<lambda>r. r\<lparr>sl_reserved_count := sl_reserved_count slot + 1, sl_updated_at := now_at E\<rparr>) (viewing_slots D) \<and>
    viewings D' = viewings D @ [v] \<and> v_viewing_slot_id v = sl_id (bk_slot b) \<and> v_id v = fresh E 0 \<and>
    v_status v = ''scheduled'' \<and>
    viewing_history D' = viewing_history D @
      [history_entry E (fresh E 1) v None ''scheduled'' (Some (bk_user_id b)) (Some ''Booking created'')]"
  using assms
  by (auto simp: finish_booking_def increment_reserved_count_def get_slot_by_id_def Let_def
      new_viewing_def split: option.splits if_splits prod.splits)

text \<open>The increment keeps the invariant whenever the value it starts from is the row's current one.\<close>

lemma finish_booking_wf:
  assumes wf: "slots_wf D" and run: "finish_booking refresh E b D = Inr (v, D')"
    and current: "refresh \<or> find_row sl_id (sl_id (bk_slot b)) (viewing_slots D) = Some (bk_slot b)"
  shows "slots_wf D'"
proof -
  let ?sid = "sl_id (bk_slot b)"
  from finish_booking_Inr [OF run] current obtain row where
    row: "find_row sl_id ?sid (viewing_slots D) = Some row" and
    cap: "sl_reserved_count row + 1 \<le> sl_capacity row" and
    D': "viewing_slots D' = update_row sl_id ?sid
      (\<lambda>r. r\<lparr>sl_reserved_count := sl_reserved_count row + 1, sl_updated_at := now_at E\<rparr>) (viewing_slots D)"
      "viewings D' = viewings D @ [v]" "v_viewing_slot_id v = ?sid"
    by auto
  have in_row: "row \<in> set (viewing_slots D)" "sl_id row = ?sid" using row by (auto dest: find_row_Some)
  have only: "s = row" if "s \<in> set (viewing_slots D)" "sl_id s = ?sid" for s
    using wf that in_row by (auto simp: slots_wf_def dest: unique_onD)
  have "map sl_id (viewing_slots D') = map sl_id (viewing_slots D)"
    unfolding D' by (simp add: map_update_row)
  then have ids: "unique_on sl_id (viewing_slots D') = unique_on sl_id (viewing_slots D)"
    "sl_id ` set (viewing_slots D') = sl_id ` set (viewing_slots D)"
    by (simp_all add: unique_on_def) (metis list.set_map)
  have count: "booked s D' = booked s D + (if s = ?sid then 1 else 0)" for s
    by (simp add: booked_def D')
  have slots: "sl_reserved_count s = booked (sl_id s) D' \<and> booked (sl_id s) D' \<le> sl_capacity s"
    if "s \<in> set (viewing_slots D')" for s
  proof -
    from that consider "s = row\<lparr>sl_reserved_count := sl_reserved_count row + 1, sl_updated_at := now_at E\<rparr>"
      | "s \<in> set (viewing_slots D)" "sl_id s \<noteq> ?sid"
      unfolding D'(1) set_update_row using only by blast
    then show ?thesis
    proof cases
      case 1
      then show ?thesis using wf in_row cap by (simp add: count slots_wf_def)
    next
      case 2
      from wf 2(1) have "sl_reserved_count s = booked (sl_id s) D" "booked (sl_id s) D \<le> sl_capacity s"
        by (simp_all add: slots_wf_def)
      with 2(2) show ?thesis by (simp add: count)
    qed
  qed
  have "\<forall>w \<in> set (viewings D'). v_viewing_slot_id w \<in> sl_id ` set (viewing_slots D')"
    unfolding ids(2) D'(2) using wf D'(3) in_row by (auto simp: slots_wf_def image_iff) metis
  then show ?thesis using wf ids(1) by (auto simp: slots_wf_def slots)
qed

lemma viewing_with_status_fields [simp]:
  "v_id (viewing_with_status E st v) = v_id v"
  "v_viewing_slot_id (viewing_with_status E st v) = v_viewing_slot_id v"
  "v_agency_tenant_id (viewing_with_status E st v) = v_agency_tenant_id v"
  by (simp_all add: viewing_with_status_def Let_def)

lemma viewing_with_status_status [simp]: "v_status (viewing_with_status E st v) = st"
proof (cases "v\<lparr>v_status := st\<rparr> = v")
  case True
  then have "v_status v = st" by (metis ScheduledViewing.select_convs(6) ScheduledViewing.simps ScheduledViewing.surjective)
  with True show ?thesis by (simp add: viewing_with_status_def Let_def)
qed (simp add: viewing_with_status_def Let_def)

lemma update_viewing_status_Inr:
  assumes "update_viewing_status E tenant i st reason D = Inr (v, D')"
  shows "\<exists>ctx old. tenant = Some ctx \<and> find_row v_id i (viewings D) = Some old \<and>
    ensure_tenant_match tenant (v_agency_tenant_id old) = Inr () \<and>
    tc_role ctx \<noteq> Some ''support_employee'' \<and>
    allowed_transition VIEWING_STATUS_TRANSITIONS (v_status old) st \<and>
    v = viewing_with_status E st old \<and>
    viewings D' = update_row v_id i (\<lambda>_. v) (viewings D) \<and> viewing_slots D' = viewing_slots D \<and>
    viewing_history D' = viewing_history D @
      [history_entry E (fresh E 0) old (Some (v_status old)) st (tc_actor_id ctx) reason]"
  using assms
  by (fastforce simp: update_viewing_status_def own_viewing_def get_viewing_by_id_def run_simps
      dest!: require_tenant_Some)

lemma update_viewing_status_slots_wf:
  assumes wf: "slots_wf D" and run: "update_viewing_status E tenant i st reason D = Inr (v, D')"
    and uniq: "unique_on v_id (viewings D)"
  shows "slots_wf D'"
proof -
  from update_viewing_status_Inr [OF run] obtain old where
    old: "find_row v_id i (viewings D) = Some old" and v: "v = viewing_with_status E st old" and
    D': "viewings D' = update_row v_id i (\<lambda>_. v) (viewings D)" "viewing_slots D' = viewing_slots D" by blast
  have "map v_viewing_slot_id (viewings D') = map v_viewing_slot_id (viewings D)"
    unfolding D' v update_row_def using old uniq by (auto dest!: find_row_Some dest: unique_onD)
  then have sl: "map v_viewing_slot_id (viewings D') = map v_viewing_slot_id (viewings D)" .
  have "booked s D = int (length (filter (\<lambda>i. i = s) (map v_viewing_slot_id (viewings D))))" for s D
    by (simp add: booked_def filter_map comp_def)
  then have count: "booked s D' = booked s D" for s by (simp only: sl)
  have "v_viewing_slot_id ` set (viewings D') = v_viewing_slot_id ` set (viewings D)"
    by (metis sl list.set_map)
  moreover have "v_viewing_slot_id ` set (viewings D) \<subseteq> sl_id ` set (viewing_slots D)"
    using wf by (auto simp: slots_wf_def)
  ultimately have "\<forall>w \<in> set (viewings D'). v_viewing_slot_id w \<in> sl_id ` set (viewing_slots D)"
    by blast
  then show ?thesis using wf by (simp add: slots_wf_def D'(2) count)
qed

section \<open>History\<close>

text \<open>The status changes a viewing has been through, oldest first.\<close>

definition trail :: "uuid \<Rightarrow> db \<Rightarrow> (string option \<times> string) list" where
  "trail i D = map (\<lambda>h. (h_old_status h, h_new_status h))
     (filter (\<lambda>h. h_scheduled_viewing_id h = i) (viewing_history D))"

definition trail_of :: "string \<Rightarrow> (string option \<times> string) list" where
  "trail_of status = (None, ''scheduled'') #
     (if status = ''scheduled'' then [] else [(Some ''scheduled'', status)])"

definition history_wf :: "db \<Rightarrow> bool" where
  "history_wf D \<longleftrightarrow> unique_on v_id (viewings D) \<and>
     (\<forall>h \<in> set (viewing_history D). h_scheduled_viewing_id h \<in> v_id ` set (viewings D)) \<and>
     (\<forall>v \<in> set (viewings D). v_status v \<in> set VALID_VIEWING_STATUSES \<and>
        trail (v_id v) D = trail_of (v_status v))"

lemma history_entry_fields [simp]:
  "h_scheduled_viewing_id (history_entry E i v os ns cb r) = v_id v"
  "h_old_status (history_entry E i v os ns cb r) = os"
  "h_new_status (history_entry E i v os ns cb r) = ns"
  by (simp_all add: history_entry_def)

lemma finish_booking_history:
  assumes wf: "history_wf D" and run: "finish_booking refresh E b D = Inr (v, D')"
    and new: "fresh E 0 \<notin> v_id ` set (viewings D)"
  shows "history_wf D'"
proof -
  from finish_booking_Inr [OF run] have
    vs: "viewings D' = viewings D @ [v]" "v_id v = fresh E 0" "v_status v = ''scheduled''" and
    hs: "viewing_history D' = viewing_history D @
      [history_entry E (fresh E 1) v None ''scheduled'' (Some (bk_user_id b)) (Some ''Booking created'')]"
    by blast+
  have "trail (fresh E 0) D = []"
    using wf new by (force simp: history_wf_def trail_def filter_empty_conv)
  moreover have "trail i D' = trail i D @ (if i = fresh E 0 then [(None, ''scheduled'')] else [])" for i
    by (simp add: trail_def hs vs)
  ultimately show ?thesis
    using wf new vs
    by (auto simp: history_wf_def hs trail_of_def VALID_VIEWING_STATUSES_def)
qed

lemma update_viewing_status_history:
  assumes wf: "history_wf D" and run: "update_viewing_status E tenant i st reason D = Inr (v, D')"
  shows "history_wf D'"
proof -
  from update_viewing_status_Inr [OF run] obtain ctx :: TenantContext and old where
    old: "find_row v_id i (viewings D) = Some old" and v: "v = viewing_with_status E st old" and
    tr: "allowed_transition VIEWING_STATUS_TRANSITIONS (v_status old) st" and
    vs: "viewings D' = update_row v_id i (\<lambda>_. v) (viewings D)" and
    hs: "viewing_history D' = viewing_history D @
      [history_entry E (fresh E 0) old (Some (v_status old)) st (tc_actor_id ctx) reason]" by blast
  have in_old: "old \<in> set (viewings D)" "v_id old = i" using old by (auto dest: find_row_Some)
  have uniq: "unique_on v_id (viewings D)" using wf by (simp add: history_wf_def)
  have ids: "map v_id (viewings D') = map v_id (viewings D)"
    unfolding vs update_row_def using in_old v by auto
  have sched: "v_status old = ''scheduled''" "st \<noteq> ''scheduled''" "st \<in> set VALID_VIEWING_STATUSES"
    using tr by (auto simp: viewing_transition_iff VALID_VIEWING_STATUSES_def)
  have tl: "trail j D' = trail j D @ (if j = i then [(Some ''scheduled'', st)] else [])" for j
    using in_old(2) sched(1) by (simp add: trail_def hs)
  have "\<forall>w \<in> set (viewings D'). v_status w \<in> set VALID_VIEWING_STATUSES \<and> trail (v_id w) D' = trail_of (v_status w)"
  proof
    fix w assume "w \<in> set (viewings D')"
    then consider "w = v" | "w \<in> set (viewings D)" "v_id w \<noteq> i"
      by (auto simp: vs set_update_row)
    then show "v_status w \<in> set VALID_VIEWING_STATUSES \<and> trail (v_id w) D' = trail_of (v_status w)"
    proof cases
      case 1
      have "trail i D = trail_of ''scheduled''" using wf in_old sched(1) by (auto simp: history_wf_def)
      then show ?thesis using 1 v in_old(2) sched by (simp add: tl trail_of_def)
    next
      case 2
      then show ?thesis using wf by (simp add: tl history_wf_def)
    qed
  qed
  moreover have "\<forall>h \<in> set (viewing_history D'). h_scheduled_viewing_id h \<in> v_id ` set (viewings D')"
  proof -
    have "v_id ` set (viewings D') = v_id ` set (viewings D)" by (metis ids list.set_map)
    then show ?thesis using wf in_old hs by (auto simp: history_wf_def)
  qed
  ultimately show ?thesis using uniq ids by (simp add: history_wf_def unique_on_def)
qed

definition world_wf :: "db \<Rightarrow> bool" where
  "world_wf D \<longleftrightarrow> slots_wf D \<and> history_wf D"

lemma history_wf_cong:
  "history_wf D \<Longrightarrow> viewings D' = viewings D \<Longrightarrow> viewing_history D' = viewing_history D \<Longrightarrow> history_wf D'"
  by (simp add: history_wf_def trail_def)

lemma booking_step_history:
  assumes "booking_step refresh w w'" and "history_wf (fst w)"
  shows "history_wf (fst w')"
  using assms
proof (induction rule: booking_step.induct)
  case (slot_created E tenant lid data D s D' bs)
  then show ?case using create_slot_Inr by (auto intro: history_wf_cong)
next
  case (slot_updated E tenant lid sid data D s D' bs)
  then have "viewings D' = viewings D \<and> viewing_history D' = viewing_history D"
    by (auto simp: update_slot_def run_simps Let_def)
  with slot_updated show ?case by (auto intro: history_wf_cong)
next
  case (slot_deactivated E tenant lid sid D x D' bs)
  then have "viewings D' = viewings D \<and> viewing_history D' = viewing_history D"
    by (auto simp: deactivate_slot_def run_simps)
  with slot_deactivated show ?case by (auto intro: history_wf_cong)
next
  case (finish_locked b bs E D v D')
  then show ?case by (auto intro: finish_booking_history)
next
  case (status_changed E tenant vid st reason D v D' bs)
  then show ?case by (auto intro: update_viewing_status_history)
qed simp_all

lemma booking_step_slots:
  assumes "booking_step True w w'" and "world_wf (fst w)"
  shows "slots_wf (fst w')"
  using assms
proof (induction rule: booking_step.induct)
  case (slot_created E tenant lid data D s D' bs)
  then show ?case by (auto simp: world_wf_def intro: create_slot_wf)
next
  case (slot_updated E tenant lid sid data D s D' bs)
  then show ?case by (auto simp: world_wf_def intro: update_slot_wf)
next
  case (slot_deactivated E tenant lid sid D x D' bs)
  then show ?case using deactivate_slot_wf by (auto simp: world_wf_def)
next
  case (finish_locked b bs E D v D')
  then show ?case by (auto simp: world_wf_def intro: finish_booking_wf)
next
  case (status_changed E tenant vid st reason D v D' bs)
  then show ?case by (auto simp: world_wf_def history_wf_def intro: update_viewing_status_slots_wf)
qed (simp_all add: world_wf_def)

lemma booking_run_history:
  "(booking_step refresh)\<^sup>*\<^sup>* w w' \<Longrightarrow> history_wf (fst w) \<Longrightarrow> history_wf (fst w')"
proof (induction rule: rtranclp_induct)
  case (step w1 w2)
  then show ?case using booking_step_history [OF step.hyps(2)] by simp
qed simp

lemma booking_run_world:
  "(booking_step True)\<^sup>*\<^sup>* w w' \<Longrightarrow> world_wf (fst w) \<Longrightarrow> world_wf (fst w')"
proof (induction rule: rtranclp_induct)
  case (step w1 w2)
  then show ?case
    using booking_step_history [OF step.hyps(2)] booking_step_slots [OF step.hyps(2)]
    by (simp add: world_wf_def)
qed simp



section \<open>Concrete runs\<close>

definition demo_slot :: ListingViewingSlot where
  "demo_slot = \<lparr>sl_id = ''s1'', sl_listing_id = ''l1'', sl_agency_tenant_id = ''t1'', sl_starts_at = 50,
     sl_ends_at = 60, sl_capacity = 1, sl_reserved_count = 0, sl_status = ''active'',
     sl_created_by_user_id = None, sl_created_at = 5, sl_updated_at = 5\<rparr>"

definition demo_slot_db :: db where
  "demo_slot_db = demo_db\<lparr>viewing_slots := [demo_slot]\<rparr>"

definition demo_env2 :: ctx_env where
  "demo_env2 = demo_env\<lparr>fresh := (\<lambda>n. ''g'' @ nat_text n)\<rparr>"

text \<open>The booking user \<open>u\<close> holds after reading the slot in its initial state.\<close>

definition demo_booking :: "uuid \<Rightarrow> booking" where
  "demo_booking u = \<lparr>bk_listing = demo_listing ''l1'' ''active'', bk_slot = demo_slot, bk_user_id = u,
     bk_notes = None\<rparr>"

definition after :: "py_exc + 'a \<times> db \<Rightarrow> db \<Rightarrow> db" where
  "after r D = (case r of Inl e \<Rightarrow> D | Inr (x, D') \<Rightarrow> D')"

definition booked_db :: "bool \<Rightarrow> db" where
  "booked_db refresh = after (finish_booking refresh demo_env (demo_booking ''u1'') demo_slot_db) demo_slot_db"

definition twice_booked_db :: "bool \<Rightarrow> db" where
  "twice_booked_db refresh =
     after (finish_booking refresh demo_env2 (demo_booking ''u2'') (booked_db refresh)) (booked_db refresh)"

lemmas booking_demo_defs = demo_defs demo_slot_def demo_slot_db_def demo_env2_def demo_booking_def
  after_def booked_db_def twice_booked_db_def

lemma world_wf_demo: "world_wf demo_slot_db"
  by (simp add: world_wf_def slots_wf_def history_wf_def booked_def booking_demo_defs unique_on_def)

lemma begin_demo: "begin_booking ''l1'' u ''s1'' None demo_slot_db = Inr (demo_booking u)"
  by (simp add: begin_booking_def get_listing_by_id_def get_slot_by_id_def find_row_def booking_demo_defs)

lemma demo_ids: "nat_text 0 = ''0''"
  by code_simp

lemma finish_demo:
  "\<exists>v. finish_booking refresh demo_env (demo_booking ''u1'') demo_slot_db = Inr (v, booked_db refresh)"
  by (simp add: booked_db_def after_def finish_booking_def increment_reserved_count_def
      get_slot_by_id_def find_row_def demo_slot_db_def demo_booking_def demo_slot_def Let_def)

lemma booked_db_fields:
  "viewings (booked_db refresh) = [new_viewing demo_env (demo_booking ''u1'') (demo_slot\<lparr>sl_reserved_count := 1, sl_updated_at := 100\<rparr>)]"
  "viewing_slots (booked_db refresh) = [demo_slot\<lparr>sl_reserved_count := 1, sl_updated_at := 100\<rparr>]"
  by (simp_all add: booked_db_def after_def finish_booking_def increment_reserved_count_def
      get_slot_by_id_def find_row_def booking_demo_defs Let_def update_row_def new_viewing_def)

lemma finish_again_demo:
  "\<exists>v. finish_booking False demo_env2 (demo_booking ''u2'') (booked_db False) = Inr (v, twice_booked_db False)"
  by (simp add: twice_booked_db_def after_def finish_booking_def increment_reserved_count_def
      get_slot_by_id_def find_row_def booked_db_fields demo_booking_def demo_slot_def Let_def)

lemma twice_booked_db_fields:
  "map v_viewing_slot_id (viewings (twice_booked_db False)) = [''s1'', ''s1'']"
  "map sl_capacity (viewing_slots (twice_booked_db False)) = [1]"
  by (simp_all add: twice_booked_db_def after_def finish_booking_def increment_reserved_count_def
      get_slot_by_id_def find_row_def booked_db_fields demo_booking_def demo_slot_def Let_def
      update_row_def new_viewing_def)

text \<open>Two users read the same last place, then both finish.\<close>

lemma demo_run_once:
  "(booking_step refresh)\<^sup>*\<^sup>* (demo_slot_db, []) (booked_db refresh, [demo_booking ''u2''])"
proof -
  let ?b1 = "demo_booking ''u1''" and ?b2 = "demo_booking ''u2''"
  have "booking_step refresh (demo_slot_db, []) (demo_slot_db, [?b2])"
    "booking_step refresh (demo_slot_db, [?b2]) (demo_slot_db, [?b1, ?b2])"
    by (rule booking_step.begin_reading [OF begin_demo])+
  moreover obtain v where v: "finish_booking refresh demo_env ?b1 demo_slot_db = Inr (v, booked_db refresh)"
    using finish_demo by blast
  have "booking_step refresh (demo_slot_db, [?b1, ?b2]) (booked_db refresh, remove1 ?b1 [?b1, ?b2])"
    by (rule booking_step.finish_locked [OF _ v]) (simp_all add: demo_slot_db_def demo_db_def empty_db_def)
  ultimately show ?thesis by simp
qed

lemma demo_run_twice:
  "(booking_step False)\<^sup>*\<^sup>* (demo_slot_db, []) (twice_booked_db False, [])"
proof -
  obtain v where v: "finish_booking False demo_env2 (demo_booking ''u2'') (booked_db False)
      = Inr (v, twice_booked_db False)"
    using finish_again_demo by blast
  have "booking_step False (booked_db False, [demo_booking ''u2''])
      (twice_booked_db False, remove1 (demo_booking ''u2'') [demo_booking ''u2''])"
    by (rule booking_step.finish_locked [OF _ v])
       (simp_all add: booked_db_fields new_viewing_def demo_env_def demo_env2_def demo_ids)
  then show ?thesis using demo_run_once [of False] by (simp add: rtranclp.rtrancl_into_rtrancl)
qed



text \<open>
  Without the refresh the protocol overbooks: with the locked read returning the object the
  session loaded before it waited for the lock, there is a run from a consistent database in
  which a slot with one place ends with two viewings.
\<close>

theorem stale_lock_overbooks:
  "\<exists>D0 D. world_wf D0 \<and> (booking_step False)\<^sup>*\<^sup>* (D0, []) (D, []) \<and>
     (\<exists>s \<in> set (viewing_slots D). sl_capacity s < booked (sl_id s) D)"
proof -
  have b: "booked ''s1'' (twice_booked_db False) = 2"
    unfolding booked_def using twice_booked_db_fields(1)
    by (cases "viewings (twice_booked_db False)") (auto simp: Cons_eq_map_conv)
  obtain s where s: "viewing_slots (twice_booked_db False) = [s]" "sl_capacity s = 1"
    using twice_booked_db_fields(2) by auto
  have "sl_id s = ''s1''"
    using s(1) by (auto simp: twice_booked_db_def after_def finish_booking_def increment_reserved_count_def
      get_slot_by_id_def find_row_def booked_db_fields demo_booking_def demo_slot_def Let_def update_row_def)
  with s b have "\<exists>s \<in> set (viewing_slots (twice_booked_db False)). sl_capacity s < booked (sl_id s) (twice_booked_db False)"
    by simp
  with world_wf_demo demo_run_twice show ?thesis by blast
qed

text \<open>
  A booking, taken alone, succeeds exactly when the listing is active, the slot is an active
  slot of that listing and a place is left. The time of the slot plays no part, so a slot that
  has already begun or ended can still be booked.
\<close>

theorem booking_accepted_iff:
  "(\<exists>v D'. book_viewing refresh E lid u sid notes D = Inr (v, D')) \<longleftrightarrow>
     (\<exists>l s. find_row l_id lid (listings D) = Some l \<and> l_status l = ''active'' \<and>
        find_row sl_id sid (viewing_slots D) = Some s \<and> sl_status s = ''active'' \<and>
        sl_listing_id s = lid \<and> sl_reserved_count s < sl_capacity s)"
proof -
  have id: "sl_id s = sid" if "find_row sl_id sid (viewing_slots D) = Some s" for s
    using that by (auto dest: find_row_Some)
  show ?thesis
    by (auto simp: book_viewing_def begin_booking_def finish_booking_def increment_reserved_count_def
        get_listing_by_id_def get_slot_by_id_def Let_def id split: option.splits if_splits)
qed

end
