(* ===== verification/Rls.thy ===== *)
theory Rls
  imports Viewings Leads Saved
begin

text \<open>
  Row level security: the session settings of \<open>common/rls.py\<close> and the policies of the
  migrations 0005, 0009 and 0014, in force for the application's role (created without
  \<open>SUPERUSER\<close> and \<open>BYPASSRLS\<close>). A policy is given by the rows it shows, the rows it lets a
  statement insert, the rows it lets one change or delete and the rows it lets a change
  produce; a transaction is accepted when every row it added, changed or removed passes.
\<close>

section \<open>Session settings\<close>

type_synonym settings = "string \<Rightarrow> string option"

definition set_config :: "string \<Rightarrow> string \<Rightarrow> settings \<Rightarrow> settings" where
  "set_config key v S = S(key \<mapsto> v)"

definition or_empty :: "string option \<Rightarrow> string" where
  "or_empty x = (case x of None \<Rightarrow> [] | Some s \<Rightarrow> s)"

definition apply_rls_context_to_session ::
  "uuid option \<Rightarrow> uuid option \<Rightarrow> string option \<Rightarrow> bool \<Rightarrow> settings \<Rightarrow> settings" where
  "apply_rls_context_to_session tenant_id user_id role is_platform_admin S =
     set_config ''app.is_platform_admin'' (if is_platform_admin then ''true'' else ''false'')
    (set_config ''app.role'' (or_empty role)
    (set_config ''app.user_id'' (or_empty user_id)
    (set_config ''app.tenant_id'' (or_empty tenant_id) S)))"

definition clear_rls_context_on_session :: "settings \<Rightarrow> settings" where
  "clear_rls_context_on_session S =
     fold (\<lambda>key. set_config key []) [''app.tenant_id'', ''app.user_id'', ''app.role'', ''app.is_platform_admin''] S"

definition apply_rls_context_from_tenant_context :: "TenantContext option \<Rightarrow> settings \<Rightarrow> settings" where
  "apply_rls_context_from_tenant_context c S =
     (case c of
        None \<Rightarrow> S
      | Some ctx \<Rightarrow> apply_rls_context_to_session (tc_tenant_id ctx) (tc_actor_id ctx) (tc_role ctx)
                      (tc_is_platform_actor ctx) S)"

text \<open>
  The two SQL helpers. A missing setting is NULL; a policy treats NULL as false, and so does a
  disjunction of the two when neither is true.
\<close>

definition platform_setting :: "settings \<Rightarrow> bool" where
  "platform_setting S \<longleftrightarrow> S ''app.is_platform_admin'' = Some ''true''"

definition setting_matches :: "string \<Rightarrow> uuid option \<Rightarrow> settings \<Rightarrow> bool" where
  "setting_matches key v S \<longleftrightarrow> S key \<noteq> None \<and> S key \<noteq> Some [] \<and> v \<noteq> None \<and> v = S key"

definition rls_tenant_check :: "settings \<Rightarrow> uuid option \<Rightarrow> bool" where
  "rls_tenant_check S check_tenant_id \<longleftrightarrow>
     platform_setting S \<or> setting_matches ''app.tenant_id'' check_tenant_id S"

definition rls_user_check :: "settings \<Rightarrow> uuid option \<Rightarrow> bool" where
  "rls_user_check S check_user_id \<longleftrightarrow>
     platform_setting S \<or> setting_matches ''app.user_id'' check_user_id S"

section \<open>Policies\<close>

record 'r policy =
  p_select :: "'r \<Rightarrow> bool"
  p_insert :: "'r \<Rightarrow> bool"
  p_using :: "'r \<Rightarrow> bool"
  p_check :: "'r \<Rightarrow> bool"
  p_delete :: "'r \<Rightarrow> bool"

definition for_all_policy :: "('r \<Rightarrow> bool) \<Rightarrow> 'r policy" where
  "for_all_policy ok = \<lparr>p_select = ok, p_insert = ok, p_using = ok, p_check = ok, p_delete = ok\<rparr>"

definition insert_by_anyone_policy :: "('r \<Rightarrow> bool) \<Rightarrow> 'r policy" where
  "insert_by_anyone_policy ok = (for_all_policy ok)\<lparr>p_insert := \<lambda>_. True\<rparr>"

definition tenant_policy :: "settings \<Rightarrow> ('r \<Rightarrow> uuid) \<Rightarrow> 'r policy" where
  "tenant_policy S tenant = for_all_policy (\<lambda>r. rls_tenant_check S (Some (tenant r)))"

definition tenant_user_policy :: "settings \<Rightarrow> ('r \<Rightarrow> uuid) \<Rightarrow> ('r \<Rightarrow> uuid option) \<Rightarrow> 'r policy" where
  "tenant_user_policy S tenant user =
     for_all_policy (\<lambda>r. rls_tenant_check S (Some (tenant r)) \<or> rls_user_check S (user r))"

definition user_policy :: "settings \<Rightarrow> ('r \<Rightarrow> uuid) \<Rightarrow> 'r policy" where
  "user_policy S user = insert_by_anyone_policy (\<lambda>r. rls_user_check S (Some (user r)))"

definition log_policy :: "settings \<Rightarrow> ('r \<Rightarrow> uuid option) \<Rightarrow> ('r \<Rightarrow> uuid option) \<Rightarrow> 'r policy" where
  "log_policy S tenant user =
     insert_by_anyone_policy (\<lambda>r. rls_tenant_check S (tenant r) \<or> rls_user_check S (user r))"

definition listing_policy :: "settings \<Rightarrow> Listing policy" where
  "listing_policy S =
     (tenant_policy S l_agency_tenant_id)
       \<lparr>p_select := \<lambda>l. l_status l = ''active'' \<or> rls_tenant_check S (Some (l_agency_tenant_id l))\<rparr>"

definition session_owner :: "db \<Rightarrow> ComparisonItem \<Rightarrow> uuid option" where
  "session_owner D i = map_option cs_user_id (find_row cs_id (ci_comparison_session_id i) (comparison_sessions D))"

definition comparison_item_policy :: "settings \<Rightarrow> db \<Rightarrow> ComparisonItem policy" where
  "comparison_item_policy S D = insert_by_anyone_policy (\<lambda>i. rls_user_check S (session_owner D i))"

definition active_listing :: "uuid \<Rightarrow> db \<Rightarrow> bool" where
  "active_listing i D \<longleftrightarrow> (\<exists>l \<in> set (listings D). l_id l = i \<and> l_status l = ''active'')"

definition photo_policy :: "settings \<Rightarrow> db \<Rightarrow> ListingPhotoMetadata policy" where
  "photo_policy S D =
     (tenant_policy S ph_agency_tenant_id)
       \<lparr>p_select := \<lambda>p. rls_tenant_check S (Some (ph_agency_tenant_id p)) \<or>
          (active_listing (ph_listing_id p) D \<and>
           (ph_status p \<in> {''accepted'', ''warning''} \<or>
            (\<exists>d \<in> set (derivatives D). d_listing_photo_metadata_id d = ph_id p \<and> d_is_public_safe d)))\<rparr>"

definition slot_policy :: "settings \<Rightarrow> db \<Rightarrow> ListingViewingSlot policy" where
  "slot_policy S D =
     (tenant_policy S sl_agency_tenant_id)
       \<lparr>p_select := \<lambda>s. rls_tenant_check S (Some (sl_agency_tenant_id s)) \<or>
          (sl_status s = ''active'' \<and> active_listing (sl_listing_id s) D)\<rparr>"

section \<open>What a session sees and what it may commit\<close>

definition rls_view :: "settings \<Rightarrow> db \<Rightarrow> db" where
  "rls_view S D =
     D\<lparr>refresh_sessions := filter (p_select (user_policy S rs_user_id)) (refresh_sessions D),
       agency_profiles := filter (p_select (tenant_policy S ap_agency_tenant_id)) (agency_profiles D),
       listings := filter (p_select (listing_policy S)) (listings D),
       photos := filter (p_select (photo_policy S D)) (photos D),
       saved_listings := filter (p_select (user_policy S sv_user_id)) (saved_listings D),
       comparison_sessions := filter (p_select (user_policy S cs_user_id)) (comparison_sessions D),
       comparison_items := filter (p_select (comparison_item_policy S D)) (comparison_items D),
       leads := filter (p_select (tenant_user_policy S ld_agency_tenant_id ld_user_id)) (leads D),
       spam_results := filter (p_select (tenant_policy S lr_agency_tenant_id)) (spam_results D),
       level_results := filter (p_select (tenant_policy S lr_agency_tenant_id)) (level_results D),
       reviewed_leads := filter (p_select (tenant_policy S rv_agency_tenant_id)) (reviewed_leads D),
       viewing_slots := filter (p_select (slot_policy S D)) (viewing_slots D),
       viewings := filter (p_select (tenant_user_policy S v_agency_tenant_id v_user_id)) (viewings D),
       viewing_history := filter (p_select (tenant_policy S h_agency_tenant_id)) (viewing_history D),
       notifications := filter (p_select (log_policy S n_tenant_id n_recipient_user_id)) (notifications D),
       domain_event_logs := filter (p_select (log_policy S de_agency_tenant_id de_actor_user_id)) (domain_event_logs D),
       audit_logs := filter (p_select (log_policy S al_tenant_id al_actor_user_id)) (audit_logs D),
       search_logs := filter (p_select (log_policy S sg_agency_tenant_id sg_user_id)) (search_logs D)\<rparr>"

definition writes_ok :: "('r \<Rightarrow> 'k) \<Rightarrow> 'r policy \<Rightarrow> 'r list \<Rightarrow> 'r list \<Rightarrow> bool" where
  "writes_ok key P old new \<longleftrightarrow>
     (\<forall>r \<in> set new. r \<notin> set old \<longrightarrow> (if key r \<in> key ` set old then p_check P r else p_insert P r)) \<and>
     (\<forall>r \<in> set old. r \<notin> set new \<longrightarrow> (if key r \<in> key ` set new then p_using P r else p_delete P r))"

definition rls_accepts :: "settings \<Rightarrow> db \<Rightarrow> db \<Rightarrow> bool" where
  "rls_accepts S D D' \<longleftrightarrow>
     writes_ok rs_id (user_policy S rs_user_id) (refresh_sessions D) (refresh_sessions D') \<and>
     writes_ok ap_id (tenant_policy S ap_agency_tenant_id) (agency_profiles D) (agency_profiles D') \<and>
     writes_ok l_id (listing_policy S) (listings D) (listings D') \<and>
     writes_ok ph_id (photo_policy S D) (photos D) (photos D') \<and>
     writes_ok sv_id (user_policy S sv_user_id) (saved_listings D) (saved_listings D') \<and>
     writes_ok cs_id (user_policy S cs_user_id) (comparison_sessions D) (comparison_sessions D') \<and>
     writes_ok ci_id (comparison_item_policy S D) (comparison_items D) (comparison_items D') \<and>
     writes_ok ld_id (tenant_user_policy S ld_agency_tenant_id ld_user_id) (leads D) (leads D') \<and>
     writes_ok lr_id (tenant_policy S lr_agency_tenant_id) (spam_results D) (spam_results D') \<and>
     writes_ok lr_id (tenant_policy S lr_agency_tenant_id) (level_results D) (level_results D') \<and>
     writes_ok rv_id (tenant_policy S rv_agency_tenant_id) (reviewed_leads D) (reviewed_leads D') \<and>
     writes_ok sl_id (slot_policy S D) (viewing_slots D) (viewing_slots D') \<and>
     writes_ok v_id (tenant_user_policy S v_agency_tenant_id v_user_id) (viewings D) (viewings D') \<and>
     writes_ok h_id (tenant_policy S h_agency_tenant_id) (viewing_history D) (viewing_history D') \<and>
     writes_ok n_id (log_policy S n_tenant_id n_recipient_user_id) (notifications D) (notifications D') \<and>
     writes_ok de_id (log_policy S de_agency_tenant_id de_actor_user_id) (domain_event_logs D) (domain_event_logs D') \<and>
     writes_ok al_id (log_policy S al_tenant_id al_actor_user_id) (audit_logs D) (audit_logs D') \<and>
     writes_ok sg_id (log_policy S sg_agency_tenant_id sg_user_id) (search_logs D) (search_logs D')"

section \<open>Tables whose rows have an owner\<close>

lemma writes_ok_refl [simp]: "writes_ok key P rows rows"
  by (simp add: writes_ok_def)

lemma writes_ok_log: "key r \<notin> key ` set rows \<Longrightarrow> p_insert P r \<Longrightarrow> writes_ok key P rows (rows @ [r])"
  by (auto simp: writes_ok_def)

locale owned_table =
  fixes key :: "'r \<Rightarrow> 'k" and P :: "'r policy" and owned :: "'r \<Rightarrow> bool"
  assumes insert_law: "p_insert P r = owned r"
    and using_law: "p_using P r = owned r"
    and check_law: "p_check P r = owned r"
    and delete_law: "p_delete P r = owned r"
begin

lemma writes_ok_iff:
  "writes_ok key P old new \<longleftrightarrow>
     (\<forall>r \<in> set new. r \<in> set old \<or> owned r) \<and> (\<forall>r \<in> set old. r \<in> set new \<or> owned r)"
  by (auto simp: writes_ok_def insert_law using_law check_law delete_law)

lemma append_ok: "owned r \<Longrightarrow> writes_ok key P rows (rows @ [r])"
  by (auto simp: writes_ok_iff)

lemma append_refused: "\<not> owned r \<Longrightarrow> r \<notin> set rows \<Longrightarrow> \<not> writes_ok key P rows (rows @ [r])"
  by (auto simp: writes_ok_iff)

lemma replace_ok:
  assumes "unique_on key rows" and "find_row key k rows = Some old" and "owned old" and "owned new"
  shows "writes_ok key P rows (update_row key k (\<lambda>_. new) rows)"
proof -
  have "r = old" if "r \<in> set rows" "key r = k" for r
    using that assms(1,2) by (auto dest!: find_row_Some dest: unique_onD)
  then show ?thesis using assms(3,4) by (auto simp: writes_ok_iff set_update_row)
qed

lemma foreign_unchanged: "writes_ok key P old new \<Longrightarrow> \<not> owned r \<Longrightarrow> r \<in> set new \<longleftrightarrow> r \<in> set old"
  by (auto simp: writes_ok_iff)

end

lemmas policy_defs = for_all_policy_def insert_by_anyone_policy_def tenant_policy_def
  tenant_user_policy_def user_policy_def log_policy_def listing_policy_def
  comparison_item_policy_def photo_policy_def slot_policy_def

interpretation tenant_rows: owned_table key "tenant_policy S tenant" "\<lambda>r. rls_tenant_check S (Some (tenant r))"
  for key S tenant
  by unfold_locales (simp_all add: policy_defs)

interpretation tenant_user_rows: owned_table key "tenant_user_policy S tenant user"
    "\<lambda>r. rls_tenant_check S (Some (tenant r)) \<or> rls_user_check S (user r)"
  for key S tenant user
  by unfold_locales (simp_all add: policy_defs)

interpretation listing_rows: owned_table l_id "listing_policy S" "\<lambda>l. rls_tenant_check S (Some (l_agency_tenant_id l))"
  for S
  by unfold_locales (simp_all add: policy_defs)

interpretation photo_rows: owned_table ph_id "photo_policy S D" "\<lambda>p. rls_tenant_check S (Some (ph_agency_tenant_id p))"
  for S D
  by unfold_locales (simp_all add: policy_defs)

interpretation slot_rows: owned_table sl_id "slot_policy S D" "\<lambda>s. rls_tenant_check S (Some (sl_agency_tenant_id s))"
  for S D
  by unfold_locales (simp_all add: policy_defs)

lemma log_insert [simp]: "p_insert (log_policy S tenant user) r"
  by (simp add: policy_defs)

section \<open>The settings of a request\<close>

definition request_settings :: "TenantContext \<Rightarrow> settings" where
  "request_settings ctx = apply_rls_context_from_tenant_context (Some ctx) (\<lambda>_. None)"

lemma platform_setting_apply [simp]:
  "platform_setting (apply_rls_context_to_session t u role admin S) = admin"
  by (simp add: platform_setting_def apply_rls_context_to_session_def set_config_def)

lemma setting_matches_apply [simp]:
  "setting_matches ''app.tenant_id'' v (apply_rls_context_to_session t u role admin S) \<longleftrightarrow>
     v = t \<and> t \<noteq> None \<and> t \<noteq> Some []"
  "setting_matches ''app.user_id'' v (apply_rls_context_to_session t u role admin S) \<longleftrightarrow>
     v = u \<and> u \<noteq> None \<and> u \<noteq> Some []"
  by (cases t; cases u; auto simp: setting_matches_def apply_rls_context_to_session_def set_config_def or_empty_def)+

lemma tenant_check_apply:
  "rls_tenant_check (apply_rls_context_to_session t u role admin S) v \<longleftrightarrow>
     admin \<or> v = t \<and> t \<noteq> None \<and> t \<noteq> Some []"
  by (simp add: rls_tenant_check_def)

lemma user_check_apply:
  "rls_user_check (apply_rls_context_to_session t u role admin S) v \<longleftrightarrow>
     admin \<or> v = u \<and> u \<noteq> None \<and> u \<noteq> Some []"
  by (simp add: rls_user_check_def)

lemma tenant_check_request:
  "rls_tenant_check (request_settings ctx) v \<longleftrightarrow>
     tc_is_platform_actor ctx \<or> v = tc_tenant_id ctx \<and> v \<noteq> None \<and> v \<noteq> Some []"
  by (auto simp: request_settings_def apply_rls_context_from_tenant_context_def tenant_check_apply)

lemma user_check_request:
  "rls_user_check (request_settings ctx) v \<longleftrightarrow>
     tc_is_platform_actor ctx \<or> v = tc_actor_id ctx \<and> v \<noteq> None \<and> v \<noteq> Some []"
  by (auto simp: request_settings_def apply_rls_context_from_tenant_context_def user_check_apply)

end
