(* ===== verification/RlsProps.thy ===== *)
theory RlsProps
  imports Rls ListingSearch Demo
begin

text \<open>
  Tenant isolation: every agency operation that the services let pass is also accepted by the
  row policies, and leaves the rows of every other tenant as they were; what a request can
  read under the policies; which public requests the policies let commit.
\<close>

section \<open>Agency operations\<close>

text \<open>The write operations of the agency routes, each run by a request with the given context.\<close>

inductive agency_op :: "ctx_env \<Rightarrow> TenantContext \<Rightarrow> db \<Rightarrow> db \<Rightarrow> bool" where
  create_listing: "create_listing E (Some ctx) data (D, r :: cached redis) = Inr (l, D', r') \<Longrightarrow> agency_op E ctx D D'"
| update_listing: "update_listing E (Some ctx) lid data (D, r :: cached redis) = Inr (l, D', r') \<Longrightarrow> agency_op E ctx D D'"
| archive_listing: "archive_listing E (Some ctx) lid (D, r :: cached redis) = Inr (x, D', r') \<Longrightarrow> agency_op E ctx D D'"
| create_photo: "create_photo E (Some ctx) lid pdata D = Inr (p, D') \<Longrightarrow> agency_op E ctx D D'"
| update_photo: "update_photo E (Some ctx) lid pid pupd D = Inr (p, D') \<Longrightarrow> agency_op E ctx D D'"
| remove_photo: "remove_photo E (Some ctx) lid pid D = Inr (x, D') \<Longrightarrow> agency_op E ctx D D'"
| upload_photo: "upload_photo E M St (Some ctx) lid bytes fname ct cap alt ord (D, ob) = (Inr p, D', ob') \<Longrightarrow>
    agency_op E ctx D D'"
| create_slot: "create_slot E (Some ctx) lid sdata D = Inr (s, D') \<Longrightarrow> agency_op E ctx D D'"
| update_slot: "update_slot E (Some ctx) lid sid supd D = Inr (s, D') \<Longrightarrow> agency_op E ctx D D'"
| deactivate_slot: "deactivate_slot E (Some ctx) lid sid D = Inr (x, D') \<Longrightarrow> agency_op E ctx D D'"
| update_viewing_status: "update_viewing_status E (Some ctx) vid st reason D = Inr (v, D') \<Longrightarrow> agency_op E ctx D D'"
| update_lead_status: "update_lead_status E (Some ctx) leadid st D = Inr (le, D') \<Longrightarrow> agency_op E ctx D D'"
| review_lead: "review_lead E (Some ctx) leadid actor outcome notes D = Inr (rec, D') \<Longrightarrow> agency_op E ctx D D'"

text \<open>Primary keys are unique, and the identifiers a request draws are not those of logged events.\<close>

definition pk_ok :: "db \<Rightarrow> bool" where
  "pk_ok D \<longleftrightarrow> unique_on l_id (listings D) \<and> unique_on ph_id (photos D) \<and> unique_on ld_id (leads D) \<and>
     unique_on sl_id (viewing_slots D) \<and> unique_on v_id (viewings D)"

definition fresh_log :: "ctx_env \<Rightarrow> db \<Rightarrow> bool" where
  "fresh_log E D \<longleftrightarrow> (\<forall>n. fresh E n \<notin> de_id ` set (domain_event_logs D))"

lemma accepts_refl [simp]: "rls_accepts S D D"
  by (simp add: rls_accepts_def)

lemma accepts_log:
  assumes "rls_accepts S D D1" and "domain_event_logs D1 = domain_event_logs D"
    and "i \<notin> de_id ` set (domain_event_logs D)"
  shows "rls_accepts S D (write_domain_event_log E i nm ty ag pl tn ac D1)"
proof -
  have "writes_ok de_id (log_policy S de_agency_tenant_id de_actor_user_id) (domain_event_logs D)
      (domain_event_logs (write_domain_event_log E i nm ty ag pl tn ac D1))"
    unfolding write_domain_event_log_def using assms(2,3) by (auto intro!: writes_ok_log)
  then show ?thesis using assms(1) by (simp add: rls_accepts_def)
qed

lemma accepts_media_log: "rls_accepts S D (write_media_audit_log E i nm tn ph rs dt ac D1) = rls_accepts S D D1"
  by (simp add: rls_accepts_def)

lemma accepts_outbox: "rls_accepts S D (D1\<lparr>outbox_events := es\<rparr>) = rls_accepts S D D1"
  by (simp add: rls_accepts_def)

lemma accepts_tables:
  "writes_ok l_id (listing_policy S) (listings D) ls \<Longrightarrow> rls_accepts S D (D\<lparr>listings := ls\<rparr>)"
  "writes_ok ph_id (photo_policy S D) (photos D) ps \<Longrightarrow> rls_accepts S D (D\<lparr>photos := ps\<rparr>)"
  "writes_ok sl_id (slot_policy S D) (viewing_slots D) ss \<Longrightarrow> rls_accepts S D (D\<lparr>viewing_slots := ss\<rparr>)"
  "writes_ok ld_id (tenant_user_policy S ld_agency_tenant_id ld_user_id) (leads D) les \<Longrightarrow>
     rls_accepts S D (D\<lparr>leads := les\<rparr>)"
  by (simp_all add: rls_accepts_def)

lemma accepts_viewing:
  "writes_ok v_id (tenant_user_policy S v_agency_tenant_id v_user_id) (viewings D) vs \<Longrightarrow>
   writes_ok h_id (tenant_policy S h_agency_tenant_id) (viewing_history D) hs \<Longrightarrow>
     rls_accepts S D (D\<lparr>viewings := vs, viewing_history := hs\<rparr>)"
  by (simp add: rls_accepts_def)

lemma accepts_booking:
  "writes_ok sl_id (slot_policy S D) (viewing_slots D) ss \<Longrightarrow>
   writes_ok v_id (tenant_user_policy S v_agency_tenant_id v_user_id) (viewings D) vs \<Longrightarrow>
   writes_ok h_id (tenant_policy S h_agency_tenant_id) (viewing_history D) hs \<Longrightarrow>
     rls_accepts S D (D\<lparr>viewing_slots := ss, viewings := vs, viewing_history := hs\<rparr>)"
  by (simp add: rls_accepts_def)

lemma accepts_review:
  "rls_accepts S D D1 \<Longrightarrow> reviewed_leads D1 = reviewed_leads D \<Longrightarrow>
   writes_ok rv_id (tenant_policy S rv_agency_tenant_id) (reviewed_leads D) rs \<Longrightarrow>
     rls_accepts S D (D1\<lparr>reviewed_leads := rs\<rparr>)"
  by (simp add: rls_accepts_def)

text \<open>The application's two guards, as the policy check they amount to.\<close>

lemma match_check:
  "ensure_tenant_match (Some ctx) t = Inr u \<Longrightarrow> tc_tenant_id ctx \<noteq> Some [] \<Longrightarrow>
     rls_tenant_check (request_settings ctx) (Some t)"
  by (auto simp: ensure_tenant_match_Inr tenant_check_request)

lemma own_check:
  "tc_tenant_id ctx = Some t \<Longrightarrow> tc_tenant_id ctx \<noteq> Some [] \<Longrightarrow>
     rls_tenant_check (request_settings ctx) (Some t)"
  by (auto simp: tenant_check_request)

lemma create_listing_accepted:
  assumes "create_listing E (Some ctx) data (D, r) = Inr (l, D', r')" and "fresh_log E D"
    and "tc_tenant_id ctx \<noteq> Some []"
  shows "rls_accepts (request_settings ctx) D D'"
  using assms
  by (auto simp: create_listing_def run_simps require_tenant_Inr fresh_log_def new_listing_def
      intro!: accepts_log accepts_tables listing_rows.append_ok own_check)

lemma listing_row_tenant [simp]:
  "l_agency_tenant_id (updated_row E ctx old l1) = l_agency_tenant_id l1"
  "l_agency_tenant_id (archived_row E ctx old) = l_agency_tenant_id old"
  by (simp_all add: updated_row_def archived_row_def)

lemma store_listing_accepted:
  assumes "find_row l_id i (listings D) = Some old" and "pk_ok D"
    and "l_agency_tenant_id new = l_agency_tenant_id old"
    and "rls_tenant_check S (Some (l_agency_tenant_id old))"
  shows "rls_accepts S D (store_listing i new D)"
  unfolding store_listing_def using assms
  by (intro accepts_tables listing_rows.replace_ok [where old = old]) (simp_all add: pk_ok_def)

lemma update_listing_accepted:
  assumes "update_listing E (Some ctx) lid data (D, r) = Inr (l, D', r')" and "fresh_log E D" and "pk_ok D"
    and "tc_tenant_id ctx \<noteq> Some []"
  shows "rls_accepts (request_settings ctx) D D'"
proof -
  from assms(1) obtain old l1 nm ty ag pl tn ac where
    old: "find_row l_id lid (listings D) = Some old"
      "ensure_tenant_match (Some ctx) (l_agency_tenant_id old) = Inr ()" and
    st: "apply_listing_status E (dt_status data) (apply_listing_fields data old) = Inr l1" and
    D': "D' = write_domain_event_log E (fresh E 0) nm ty ag pl tn ac (store_listing lid (updated_row E ctx old l1) D)"
    unfolding update_listing_def run_simps require_tenant_Inr get_listing_by_id_def by auto
  have "l_agency_tenant_id l1 = l_agency_tenant_id old" using apply_listing_status_Inr [OF st] by simp
  then have "rls_accepts (request_settings ctx) D (store_listing lid (updated_row E ctx old l1) D)"
    using match_check [OF old(2) assms(4)] by (intro store_listing_accepted [OF old(1) assms(3)]) simp_all
  then show ?thesis
    unfolding D' using assms(2) by (intro accepts_log) (auto simp: store_listing_def fresh_log_def)
qed

lemma archive_listing_accepted:
  assumes "archive_listing E (Some ctx) lid (D, r) = Inr (x, D', r')" and "fresh_log E D" and "pk_ok D"
    and "tc_tenant_id ctx \<noteq> Some []"
  shows "rls_accepts (request_settings ctx) D D'"
proof -
  from assms(1) obtain old where ctx: "require_tenant (Some ctx) = Inr ctx" and
    old: "find_row l_id lid (listings D) = Some old"
      "ensure_tenant_match (Some ctx) (l_agency_tenant_id old) = Inr ()"
    unfolding archive_listing_def sbind_Inr_iff case_option_Inr_iff get_listing_by_id_def
    by (auto dest: require_tenant_Some)
  have D': "D' = D \<or> D' = write_domain_event_log E (fresh E 0) ''listing.archived'' (Some ''listing'') (Some lid)
      None (tc_tenant_id ctx) (tc_actor_id ctx) (store_listing lid (archived_row E ctx old) D)"
    using assms(1)
    by (cases "l_status old = ''archived''")
       (auto simp: archive_listing_def ctx old get_listing_by_id_def Let_def)
  have "rls_accepts (request_settings ctx) D (store_listing lid (archived_row E ctx old) D)"
    using match_check [OF old(2) assms(4)] by (intro store_listing_accepted [OF old(1) assms(3)]) simp_all
  then show ?thesis
    using D' assms(2) by (auto intro!: accepts_log simp: store_listing_def fresh_log_def)
qed

lemma create_photo_accepted:
  assumes "create_photo E (Some ctx) lid pdata D = Inr (p, D')" and "fresh_log E D"
    and "tc_tenant_id ctx \<noteq> Some []"
  shows "rls_accepts (request_settings ctx) D D'"
  using assms
  by (auto simp: create_photo_def run_simps own_listing_Inr require_tenant_Inr fresh_log_def
      intro!: accepts_log accepts_tables photo_rows.append_ok own_check)

lemma apply_photo_update_tenant [simp]: "ph_agency_tenant_id (apply_photo_update d p) = ph_agency_tenant_id p"
  by (simp add: apply_photo_update_def)

lemma update_photo_accepted:
  assumes "update_photo E (Some ctx) lid pid pupd D = Inr (p, D')" and "fresh_log E D" and "pk_ok D"
    and "tc_tenant_id ctx \<noteq> Some []"
  shows "rls_accepts (request_settings ctx) D D'"
  using assms
  by (auto simp: update_photo_def run_simps own_photo_Inr require_tenant_Inr fresh_log_def pk_ok_def
      intro!: accepts_log accepts_tables photo_rows.replace_ok intro: match_check)

lemma remove_photo_accepted:
  assumes "remove_photo E (Some ctx) lid pid D = Inr (x, D')" and "fresh_log E D" and "pk_ok D"
    and "tc_tenant_id ctx \<noteq> Some []"
  shows "rls_accepts (request_settings ctx) D D'"
  using assms
  by (auto simp: remove_photo_def run_simps own_photo_Inr require_tenant_Inr fresh_log_def pk_ok_def
      intro!: accepts_log accepts_tables photo_rows.replace_ok intro: match_check)

lemma persist_accepted:
  assumes "persist_uploaded_photo E ctx lid key meta cap alt n D = Inr (p, D')" and "fresh_log E D"
    and "tc_tenant_id ctx \<noteq> Some []"
  shows "rls_accepts (request_settings ctx) D D'"
  using assms
  by (auto simp: persist_uploaded_photo_def run_simps fresh_log_def accepts_media_log publish_outbox_Inr
      accepts_outbox intro!: accepts_log accepts_tables photo_rows.append_ok own_check)

lemma upload_photo_accepted:
  assumes "upload_photo E M St (Some ctx) lid bytes fname ct cap alt ord (D, ob) = (Inr p, D', ob')"
    and "fresh_log E D" and "tc_tenant_id ctx \<noteq> Some []"
  shows "rls_accepts (request_settings ctx) D D'"
  using assms
  by (auto simp: upload_photo_def Let_def require_tenant_Inr split: sum.splits prod.splits if_splits
      intro: persist_accepted)

lemma create_slot_accepted:
  assumes "create_slot E (Some ctx) lid sdata D = Inr (s, D')" and "fresh_log E D"
    and "tc_tenant_id ctx \<noteq> Some []"
  shows "rls_accepts (request_settings ctx) D D'"
  using assms
  by (auto simp: create_slot_def run_simps require_tenant_Inr fresh_log_def new_slot_def
      intro!: accepts_log accepts_tables slot_rows.append_ok own_check)

lemma store_slot_accepted:
  assumes "find_row sl_id sid (viewing_slots D) = Some old" and "pk_ok D"
    and "sl_agency_tenant_id new = sl_agency_tenant_id old" and "sl_id new = sl_id old"
    and "rls_tenant_check S (Some (sl_agency_tenant_id old))"
  shows "rls_accepts S D (store_slot E old new D)"
proof -
  have "sl_id old = sid" using assms(1) by (auto dest: find_row_Some)
  then show ?thesis
    using assms
    by (auto simp: pk_ok_def store_slot_def slot_flush_def
        intro!: accepts_tables slot_rows.replace_ok [where old = old])
qed

lemma apply_slot_update_fields [simp]:
  "sl_id (apply_slot_update d s) = sl_id s"
  "sl_agency_tenant_id (apply_slot_update d s) = sl_agency_tenant_id s"
  by (simp_all add: apply_slot_update_def)

lemma update_slot_accepted:
  assumes "update_slot E (Some ctx) lid sid supd D = Inr (s, D')" and "fresh_log E D" and "pk_ok D"
    and "tc_tenant_id ctx \<noteq> Some []"
  shows "rls_accepts (request_settings ctx) D D'"
proof -
  from assms(1) obtain old nm ty ag pl tn ac where
    old: "find_row sl_id sid (viewing_slots D) = Some old"
      "ensure_tenant_match (Some ctx) (sl_agency_tenant_id old) = Inr ()" and
    D': "D' = write_domain_event_log E (fresh E 0) nm ty ag pl tn ac (store_slot E old (apply_slot_update supd old) D)"
    by (auto simp: update_slot_def run_simps own_slot_def get_slot_by_id_def)
  have "rls_accepts (request_settings ctx) D (store_slot E old (apply_slot_update supd old) D)"
    using assms match_check [OF old(2)] by (intro store_slot_accepted [OF old(1)]) auto
  then show ?thesis
    unfolding D' using assms(2) by (intro accepts_log) (auto simp: store_slot_def fresh_log_def)
qed

lemma deactivate_slot_accepted:
  assumes "deactivate_slot E (Some ctx) lid sid D = Inr (x, D')" and "fresh_log E D" and "pk_ok D"
    and "tc_tenant_id ctx \<noteq> Some []"
  shows "rls_accepts (request_settings ctx) D D'"
proof -
  from assms(1) obtain old nm ty ag pl tn ac where
    old: "find_row sl_id sid (viewing_slots D) = Some old"
      "ensure_tenant_match (Some ctx) (sl_agency_tenant_id old) = Inr ()" and
    D': "D' = write_domain_event_log E (fresh E 0) nm ty ag pl tn ac
      (store_slot E old (old\<lparr>sl_status := ''inactive''\<rparr>) D)"
    by (auto simp: deactivate_slot_def run_simps own_slot_def get_slot_by_id_def)
  have "rls_accepts (request_settings ctx) D (store_slot E old (old\<lparr>sl_status := ''inactive''\<rparr>) D)"
    using assms match_check [OF old(2)] by (intro store_slot_accepted [OF old(1)]) auto
  then show ?thesis
    unfolding D' using assms(2) by (intro accepts_log) (auto simp: store_slot_def fresh_log_def)
qed

lemma viewing_with_status_tenant [simp]:
  "v_agency_tenant_id (viewing_with_status E st v) = v_agency_tenant_id v"
  by (simp add: viewing_with_status_def Let_def)

lemma update_viewing_status_accepted:
  assumes "update_viewing_status E (Some ctx) vid st reason D = Inr (v, D')" and "fresh_log E D" and "pk_ok D"
    and "tc_tenant_id ctx \<noteq> Some []"
  shows "rls_accepts (request_settings ctx) D D'"
proof -
  from assms(1) obtain old c nm ty ag pl tn ac where
    old: "find_row v_id vid (viewings D) = Some old"
      "ensure_tenant_match (Some ctx) (v_agency_tenant_id old) = Inr ()" and
    D': "D' = write_domain_event_log E (fresh E 1) nm ty ag pl tn ac
      (D\<lparr>viewings := update_row v_id vid (\<lambda>_. viewing_with_status E st old) (viewings D),
         viewing_history := viewing_history D @
           [history_entry E (fresh E 0) old (Some (v_status old)) st c reason]\<rparr>)"
    by (auto simp: update_viewing_status_def run_simps own_viewing_def get_viewing_by_id_def)
  have h: "h_agency_tenant_id (history_entry E j w os ns c rs) = v_agency_tenant_id w" for j w os ns c rs
    by (simp add: history_entry_def)
  note check = match_check [OF old(2) assms(4)]
  show ?thesis
    unfolding D' using assms(2,3) old(1) check h
    by (auto simp: fresh_log_def pk_ok_def
        intro!: accepts_log accepts_viewing tenant_user_rows.replace_ok [where old = old] tenant_rows.append_ok)
qed

lemma store_lead_accepted:
  assumes "find_row ld_id i (leads D) = Some old" and "pk_ok D"
    and "ld_agency_tenant_id new = ld_agency_tenant_id old"
    and "rls_tenant_check S (Some (ld_agency_tenant_id old))"
  shows "rls_accepts S D (store_lead E old new D)"
proof -
  have "ld_id old = i" using assms(1) by (auto dest: find_row_Some)
  then show ?thesis
    using assms
    by (auto simp: pk_ok_def store_lead_def intro!: accepts_tables tenant_user_rows.replace_ok [where old = old])
qed

lemma update_lead_status_accepted:
  assumes "update_lead_status E (Some ctx) i st D = Inr (le, D')" and "fresh_log E D" and "pk_ok D"
    and "tc_tenant_id ctx \<noteq> Some []"
  shows "rls_accepts (request_settings ctx) D D'"
proof -
  from assms(1) obtain old nm ty ag pl tn ac where
    old: "find_row ld_id i (leads D) = Some old"
      "ensure_tenant_match (Some ctx) (ld_agency_tenant_id old) = Inr ()" and
    D': "D' = write_domain_event_log E (fresh E 0) nm ty ag pl tn ac
      (store_lead E old (lead_with_status E st old) D)"
    by (auto simp: update_lead_status_def run_simps own_lead_Inr)
  have "rls_accepts (request_settings ctx) D (store_lead E old (lead_with_status E st old) D)"
    using assms match_check [OF old(2)] by (intro store_lead_accepted [OF old(1)]) auto
  then show ?thesis
    unfolding D' using assms(2) by (intro accepts_log) (auto simp: store_lead_def fresh_log_def)
qed

lemma mark_reviewed_accepted:
  assumes "find_row ld_id i (leads D) = Some old" and "pk_ok D" and "fresh_log E D"
    and "rls_tenant_check S (Some (ld_agency_tenant_id old))"
  shows "rls_accepts S D (mark_reviewed E ctx old D)"
  using assms store_lead_accepted [OF assms(1,2) _ assms(4), where new = "old\<lparr>ld_status := ''reviewed''\<rparr>"]
  by (auto simp: mark_reviewed_def fresh_log_def store_lead_def intro!: accepts_log)

lemma review_lead_accepted:
  assumes "review_lead E (Some ctx) i actor outcome notes D = Inr (rec, D')" and "fresh_log E D" and "pk_ok D"
    and "tc_tenant_id ctx \<noteq> Some []"
  shows "rls_accepts (request_settings ctx) D D'"
proof -
  from assms(1) obtain old t where
    old: "find_row ld_id i (leads D) = Some old"
      "ensure_tenant_match (Some ctx) (ld_agency_tenant_id old) = Inr ()" and
    t: "tc_tenant_id ctx = Some t" "rv_agency_tenant_id rec = t" and
    D': "D' = (mark_reviewed E ctx old D)\<lparr>reviewed_leads := reviewed_leads D @ [rec]\<rparr>"
    by (auto simp: review_lead_def run_simps own_lead_Inr require_tenant_Inr mark_reviewed_def)
  show ?thesis
    unfolding D' using match_check [OF old(2) assms(4)] mark_reviewed_accepted [OF old(1) assms(3,2)]
      own_check [OF t(1) assms(4)] t(2)
    by (auto intro!: accepts_review tenant_rows.append_ok simp: mark_reviewed_def)
qed

lemmas agency_ops_accepted = create_listing_accepted update_listing_accepted archive_listing_accepted
  create_photo_accepted update_photo_accepted remove_photo_accepted upload_photo_accepted
  create_slot_accepted update_slot_accepted deactivate_slot_accepted update_viewing_status_accepted
  update_lead_status_accepted review_lead_accepted

lemma agency_op_accepted:
  "agency_op E ctx D D' \<Longrightarrow> fresh_log E D \<Longrightarrow> pk_ok D \<Longrightarrow> tc_tenant_id ctx \<noteq> Some [] \<Longrightarrow>
     rls_accepts (request_settings ctx) D D'"
  by (induction rule: agency_op.induct) (blast intro: agency_ops_accepted)+

text \<open>
  C15. Every agency write that the services' own checks let pass is accepted by the row policies
  of the database under the settings of the same request: the guards in the services are at
  least as strict as the policies.
\<close>

theorem agency_ops_pass_row_security:
  assumes "agency_op E ctx D D'" and "fresh_log E D" and "pk_ok D" and "tc_tenant_id ctx \<noteq> Some []"
  shows "rls_accepts (request_settings ctx) D D'"
  using assms by (rule agency_op_accepted)

definition agency_step :: "TenantContext \<Rightarrow> db \<Rightarrow> db \<Rightarrow> bool" where
  "agency_step ctx D D' \<longleftrightarrow> (\<exists>E. agency_op E ctx D D' \<and> fresh_log E D \<and> pk_ok D)"

text \<open>The rows that belong neither to the tenant nor, where a row has a user, to the actor.\<close>

definition same_elsewhere :: "uuid \<Rightarrow> uuid option \<Rightarrow> db \<Rightarrow> db \<Rightarrow> bool" where
  "same_elsewhere t u D D' \<longleftrightarrow>
     (\<forall>r. l_agency_tenant_id r \<noteq> t \<longrightarrow> (r \<in> set (listings D') \<longleftrightarrow> r \<in> set (listings D))) \<and>
     (\<forall>r. ph_agency_tenant_id r \<noteq> t \<longrightarrow> (r \<in> set (photos D') \<longleftrightarrow> r \<in> set (photos D))) \<and>
     (\<forall>r. sl_agency_tenant_id r \<noteq> t \<longrightarrow> (r \<in> set (viewing_slots D') \<longleftrightarrow> r \<in> set (viewing_slots D))) \<and>
     (\<forall>r. h_agency_tenant_id r \<noteq> t \<longrightarrow> (r \<in> set (viewing_history D') \<longleftrightarrow> r \<in> set (viewing_history D))) \<and>
     (\<forall>r. rv_agency_tenant_id r \<noteq> t \<longrightarrow> (r \<in> set (reviewed_leads D') \<longleftrightarrow> r \<in> set (reviewed_leads D))) \<and>
     (\<forall>r. ld_agency_tenant_id r \<noteq> t \<and> ld_user_id r \<noteq> u \<longrightarrow> (r \<in> set (leads D') \<longleftrightarrow> r \<in> set (leads D))) \<and>
     (\<forall>r. v_agency_tenant_id r \<noteq> t \<and> v_user_id r \<noteq> u \<longrightarrow> (r \<in> set (viewings D') \<longleftrightarrow> r \<in> set (viewings D)))"

lemma accepted_same_elsewhere:
  assumes acc: "rls_accepts (request_settings ctx) D D'" and ctx: "acts_for ctx t"
  shows "same_elsewhere t (tc_actor_id ctx) D D'"
proof -
  have not_mine: "\<not> rls_tenant_check (request_settings ctx) (Some a)" if "a \<noteq> t" for a
    using that ctx by (simp add: tenant_check_request acts_for_def)
  have not_me: "\<not> rls_user_check (request_settings ctx) a" if "a \<noteq> tc_actor_id ctx" for a
    using that ctx by (simp add: user_check_request acts_for_def)
  from acc have
    "writes_ok l_id (listing_policy (request_settings ctx)) (listings D) (listings D')"
    "writes_ok ph_id (photo_policy (request_settings ctx) D) (photos D) (photos D')"
    "writes_ok sl_id (slot_policy (request_settings ctx) D) (viewing_slots D) (viewing_slots D')"
    "writes_ok h_id (tenant_policy (request_settings ctx) h_agency_tenant_id) (viewing_history D) (viewing_history D')"
    "writes_ok rv_id (tenant_policy (request_settings ctx) rv_agency_tenant_id) (reviewed_leads D) (reviewed_leads D')"
    "writes_ok ld_id (tenant_user_policy (request_settings ctx) ld_agency_tenant_id ld_user_id) (leads D) (leads D')"
    "writes_ok v_id (tenant_user_policy (request_settings ctx) v_agency_tenant_id v_user_id) (viewings D) (viewings D')"
    by (simp_all add: rls_accepts_def)
  note same = listing_rows.foreign_unchanged [OF this(1)] photo_rows.foreign_unchanged [OF this(2)]
    slot_rows.foreign_unchanged [OF this(3)] tenant_rows.foreign_unchanged [OF this(4)]
    tenant_rows.foreign_unchanged [OF this(5)] tenant_user_rows.foreign_unchanged [OF this(6)]
    tenant_user_rows.foreign_unchanged [OF this(7)]
  show ?thesis
    unfolding same_elsewhere_def by (simp add: same not_mine not_me)
qed

lemma same_elsewhere_trans: "same_elsewhere t u D D1 \<Longrightarrow> same_elsewhere t u D1 D2 \<Longrightarrow> same_elsewhere t u D D2"
  by (simp add: same_elsewhere_def)


section \<open>Public requests\<close>

definition is_plain_user :: "TenantContext \<Rightarrow> bool" where
  "is_plain_user ctx \<longleftrightarrow> tc_tenant_id ctx = None \<and> \<not> tc_is_platform_actor ctx"

lemma plain_user_owns_no_tenant: "is_plain_user ctx \<Longrightarrow> \<not> rls_tenant_check (request_settings ctx) (Some t)"
  by (simp add: is_plain_user_def tenant_check_request)

text \<open>
  An inquiry sent by a user who belongs to no agency is refused by the database: the route
  runs under the user's own settings, and the pending spam result that \<open>create_inquiry\<close> adds
  belongs to the agency, so the policy of \<open>lead_spam_results\<close> rejects the insert although every
  check of the service has passed.
\<close>

theorem inquiry_refused_by_row_security:
  assumes "create_inquiry E lid uid msg D = Inr (lead, D')" and "is_plain_user ctx"
    and "fresh E 1 \<notin> lr_id ` set (spam_results D)"
  shows "\<not> rls_accepts (request_settings ctx) D D'"
proof -
  from assms(1) have "spam_results D' = spam_results D @
      [pending_result E (fresh E 1) (ld_id lead) (ld_agency_tenant_id lead)]"
    by (auto simp: create_inquiry_def run_simps publish_outbox_Inr)
  moreover have "pending_result E (fresh E 1) a b \<notin> set (spam_results D)" for a b
    using assms(3) by (auto simp: pending_result_def image_iff)
  ultimately have "\<not> writes_ok lr_id (tenant_policy (request_settings ctx) lr_agency_tenant_id)
      (spam_results D) (spam_results D')"
    using plain_user_owns_no_tenant [OF assms(2)] by (simp add: tenant_rows.append_refused)
  then show ?thesis by (simp add: rls_accepts_def)
qed

text \<open>
  A booking commits because it changes the session's settings first: its writes are refused
  under the settings of a user who belongs to no agency and accepted under the settings of the
  listing's tenant that \<open>book_viewing\<close> applies before it locks the slot.
\<close>

theorem booking_needs_tenant_settings:
  assumes "book_viewing refresh E lid uid sid notes D = Inr (v, D')" and "is_plain_user ctx"
    and "pk_ok D" and "fresh_log E D" and "v_agency_tenant_id v \<noteq> []"
    and own: "\<forall>s \<in> set (viewing_slots D). sl_id s = sid \<longrightarrow> sl_agency_tenant_id s = v_agency_tenant_id v"
  shows "\<not> rls_accepts (request_settings ctx) D D' \<and>
    rls_accepts (apply_rls_context_to_session (Some (v_agency_tenant_id v)) (Some uid) (Some ''user'') False
      (request_settings ctx)) D D'"
proof -
  from assms(1) obtain b where b: "begin_booking lid uid sid notes D = Inr b"
    "finish_booking refresh E b D = Inr (v, D')"
    by (auto simp: book_viewing_def run_simps)
  from b(1) obtain slot where slot: "find_row sl_id sid (viewing_slots D) = Some slot" and bk: "bk_slot b = slot"
    by (auto simp: begin_booking_def get_slot_by_id_def split: option.splits if_splits)
  then have sid: "sl_id slot = sid" by (auto dest: find_row_Some)
  from b(2) obtain c nm ty ag pl tn ac where
    D': "D' = write_domain_event_log E (fresh E 2) nm ty ag pl tn ac
      (D\<lparr>viewing_slots := update_row sl_id sid (\<lambda>r. r\<lparr>sl_reserved_count := sl_reserved_count slot + 1,
             sl_updated_at := now_at E\<rparr>) (viewing_slots D),
         viewings := viewings D @ [v],
         viewing_history := viewing_history D @ [history_entry E (fresh E 1) v None ''scheduled'' c (Some ''Booking created'')]\<rparr>)"
    by (auto simp: finish_booking_def increment_reserved_count_def get_slot_by_id_def Let_def slot bk sid
        split: if_splits)
  let ?new = "slot\<lparr>sl_reserved_count := sl_reserved_count slot + 1, sl_updated_at := now_at E\<rparr>"
  have in_slot: "slot \<in> set (viewing_slots D)" "sl_id slot = sid" using slot by (auto dest: find_row_Some)
  then have tenant: "sl_agency_tenant_id slot = v_agency_tenant_id v" using own by simp
  have slots: "viewing_slots D' = update_row sl_id sid (\<lambda>_. ?new) (viewing_slots D)"
    unfolding D' update_row_def using assms(3) in_slot
    by (auto simp: pk_ok_def dest: unique_onD)
  have "slot \<notin> set (viewing_slots D')"
    using in_slot by (auto simp: slots set_update_row dest: arg_cong [where f = sl_reserved_count])
  then have refused: "\<not> rls_accepts (request_settings ctx) D D'"
    using in_slot plain_user_owns_no_tenant [OF assms(2)] by (auto simp: rls_accepts_def slot_rows.writes_ok_iff)
  have "rls_accepts S D D'" if "rls_tenant_check S (Some (v_agency_tenant_id v))" for S
    unfolding D' using assms(3,4) slot that tenant slots
    by (auto simp: fresh_log_def pk_ok_def history_entry_def D'
        intro!: accepts_log accepts_booking slot_rows.replace_ok [where old = slot]
          tenant_user_rows.append_ok tenant_rows.append_ok)
  then show ?thesis using refused assms(5) by (simp add: tenant_check_apply)
qed

lemma map_filter_drop:
  "(\<And>x. x \<in> set xs \<Longrightarrow> \<not> Q x \<Longrightarrow> f x = None) \<Longrightarrow> List.map_filter f (filter Q xs) = List.map_filter f xs"
  by (induction xs) (auto simp: List.map_filter_simps split: option.splits)

lemma rls_view_tables [simp]:
  "users (rls_view S D) = users D"
  "derivatives (rls_view S D) = derivatives D"
  "listings (rls_view S D) = filter (p_select (listing_policy S)) (listings D)"
  "photos (rls_view S D) = filter (p_select (photo_policy S D)) (photos D)"
  "viewing_slots (rls_view S D) = filter (p_select (slot_policy S D)) (viewing_slots D)"
  by (simp_all add: rls_view_def)

lemma find_active_view:
  assumes "unique_on l_id (listings D)"
  shows "(find_row l_id i (listings (rls_view S D)) = Some l \<and> l_status l = ''active'') \<longleftrightarrow>
    (find_row l_id i (listings D) = Some l \<and> l_status l = ''active'')"
proof -
  have "unique_on l_id (listings (rls_view S D))"
    using assms by (simp add: unique_on_def distinct_map_filter)
  then show ?thesis
    using assms by (auto simp: find_row_unique policy_defs dest: find_row_Some)
qed

lemma active_listing_iff:
  "unique_on l_id (listings D) \<Longrightarrow>
     active_listing i D \<longleftrightarrow> (\<exists>l. find_row l_id i (listings D) = Some l \<and> l_status l = ''active'')"
  by (auto simp: active_listing_def find_row_unique dest: find_row_Some)

lemma public_media_cases:
  "public_list_listing_media sign i D =
     (if \<exists>l. find_row l_id i (listings D) = Some l \<and> l_status l = ''active''
      then Inr (List.map_filter (\<lambda>p. map_option (public_media_of sign p) (get_public_safe_by_photo (ph_id p) D))
             (list_by_listing i D))
      else Inl (NotFoundError ''Listing not found''))"
  by (auto simp: public_list_listing_media_def get_listing_by_id_def split: option.splits)


section \<open>Concrete requests\<close>

definition demo_public_ctx :: TenantContext where
  "demo_public_ctx = demo_ctx\<lparr>tc_tenant_id := None, tc_role := Some ''user''\<rparr>"

definition demo_slot_row :: ListingViewingSlot where
  "demo_slot_row = \<lparr>sl_id = ''s1'', sl_listing_id = ''l1'', sl_agency_tenant_id = ''t1'', sl_starts_at = 50,
     sl_ends_at = 60, sl_capacity = 1, sl_reserved_count = 0, sl_status = ''active'',
     sl_created_by_user_id = None, sl_created_at = 5, sl_updated_at = 5\<rparr>"

lemma demo_pk: "pk_ok demo_db" "pk_ok (demo_db\<lparr>viewing_slots := [demo_slot_row]\<rparr>)"
  by (simp_all add: pk_ok_def demo_db_def empty_db_def)

lemma demo_fresh: "fresh_log demo_env demo_db" "fresh_log demo_env (demo_db\<lparr>viewing_slots := xs\<rparr>)"
  by (simp_all add: fresh_log_def demo_db_def empty_db_def)

lemma demo_plain: "is_plain_user demo_public_ctx"
  by (simp add: is_plain_user_def demo_public_ctx_def demo_ctx_def)

lemma demo_status_change:
  "\<exists>l D. update_lead_status demo_env (Some demo_ctx) ''d1'' ''closed'' demo_db = Inr (l, D)"
  by (simp add: update_lead_status_def own_lead_def get_lead_by_id_def find_row_def require_tenant_def
      ensure_tenant_match_def demo_defs VALID_LEAD_STATUSES_def lead_transition_iff Let_def)

theorem agency_ops_pass_row_security_witness:
  "\<exists>l D. update_lead_status demo_env (Some demo_ctx) ''d1'' ''closed'' demo_db = Inr (l, D) \<and>
     rls_accepts (request_settings demo_ctx) demo_db D"
proof -
  obtain l D where run: "update_lead_status demo_env (Some demo_ctx) ''d1'' ''closed'' demo_db = Inr (l, D)"
    using demo_status_change by blast
  have "tc_tenant_id demo_ctx \<noteq> Some []" by (simp add: demo_ctx_def)
  from agency_ops_pass_row_security [OF agency_op.update_lead_status [OF run] demo_fresh(1) demo_pk(1) this] run
  show ?thesis by blast
qed


theorem inquiry_refused_by_row_security_witness:
  "\<exists>lead D'. create_inquiry demo_env ''l1'' ''u1'' (Some ''hi'') demo_db = Inr (lead, D') \<and>
     \<not> rls_accepts (request_settings demo_public_ctx) demo_db D'"
proof -
  have "\<exists>lead D'. create_inquiry demo_env ''l1'' ''u1'' (Some ''hi'') demo_db = Inr (lead, D')"
    by (simp add: create_inquiry_def get_listing_by_id_def get_user_by_id_def demo_defs find_row_def
        get_lead_profile_missing_fields_def blank_def publish_outbox_event_in_session_def Let_def)
      (simp add: py_strip_def py_isspace_def)
  then obtain lead D' where run: "create_inquiry demo_env ''l1'' ''u1'' (Some ''hi'') demo_db = Inr (lead, D')"
    by blast
  have "fresh demo_env 1 \<notin> lr_id ` set (spam_results demo_db)" by (simp add: demo_defs)
  from inquiry_refused_by_row_security [OF run demo_plain this] run show ?thesis by blast
qed

theorem booking_needs_tenant_settings_witness:
  "\<exists>v D'. book_viewing True demo_env ''l1'' ''u1'' ''s1'' None (demo_db\<lparr>viewing_slots := [demo_slot_row]\<rparr>) = Inr (v, D') \<and>
     \<not> rls_accepts (request_settings demo_public_ctx) (demo_db\<lparr>viewing_slots := [demo_slot_row]\<rparr>) D'"
proof -
  let ?D = "demo_db\<lparr>viewing_slots := [demo_slot_row]\<rparr>"
  have "\<exists>v D'. book_viewing True demo_env ''l1'' ''u1'' ''s1'' None ?D = Inr (v, D') \<and> v_agency_tenant_id v = ''t1''"
    by (simp add: book_viewing_def begin_booking_def finish_booking_def increment_reserved_count_def
        get_listing_by_id_def get_slot_by_id_def find_row_def demo_slot_row_def demo_db_def empty_db_def
        demo_listing_def new_viewing_def Let_def)
  then obtain v D' where run: "book_viewing True demo_env ''l1'' ''u1'' ''s1'' None ?D = Inr (v, D')"
    and t: "v_agency_tenant_id v = ''t1''" by blast
  have "\<forall>s \<in> set (viewing_slots ?D). sl_id s = ''s1'' \<longrightarrow> sl_agency_tenant_id s = v_agency_tenant_id v"
    by (simp add: t demo_slot_row_def)
  with booking_needs_tenant_settings [OF run demo_plain demo_pk(2) demo_fresh(2)] t run show ?thesis by auto
qed


end
