(* ===== verification/Auth.thy ===== *)
theory Auth
  imports Rls Users
begin

text \<open>
  Authentication: \<open>common/security.py\<close>, the refresh sessions of \<open>auth/repository.py\<close> and
  \<open>auth/service.py\<close>, and the request dependencies of \<open>auth/dependencies.py\<close>. A service method
  is an action on the pair of database and Redis; what it did to Redis stays when its request
  fails, what it did to the database does not (\<open>get_db_session\<close>).
\<close>

section \<open>Actions\<close>

type_synonym ('v, 'a) action = "db \<times> 'v redis \<Rightarrow> (py_exc + 'a) \<times> db \<times> 'v redis"

definition ret :: "'a \<Rightarrow> ('v, 'a) action" where
  "ret x w = (Inr x, w)"

definition throw :: "py_exc \<Rightarrow> ('v, 'a) action" where
  "throw e w = (Inl e, w)"

definition bindA :: "('v, 'a) action \<Rightarrow> ('a \<Rightarrow> ('v, 'b) action) \<Rightarrow> ('v, 'b) action" where
  "bindA m f w = (case m w of (Inl e, w') \<Rightarrow> (Inl e, w') | (Inr x, w') \<Rightarrow> f x w')"

definition query :: "(db \<Rightarrow> 'a) \<Rightarrow> ('v, 'a) action" where
  "query q w = (Inr (q (fst w)), w)"

definition query_or_raise :: "(db \<Rightarrow> py_exc + 'a) \<Rightarrow> ('v, 'a) action" where
  "query_or_raise q w = (q (fst w), w)"

definition write_db :: "(db \<Rightarrow> db) \<Rightarrow> ('v, unit) action" where
  "write_db f w = (Inr (), f (fst w), snd w)"

definition ask_redis :: "('v redis \<Rightarrow> 'a) \<Rightarrow> ('v, 'a) action" where
  "ask_redis q w = (Inr (q (snd w)), w)"

definition write_redis :: "('v redis \<Rightarrow> 'v redis) \<Rightarrow> ('v, unit) action" where
  "write_redis f w = (Inr (), fst w, f (snd w))"

lemmas action_defs = ret_def throw_def query_def query_or_raise_def write_db_def ask_redis_def write_redis_def

lemma bindA_simps [simp]:
  "bindA (ret x) f w = f x w"
  "bindA (throw e) f' w = (Inl e, w)"
  "bindA (query q) fq w = fq (q (fst w)) w"
  "bindA (write_db g) fd w = fd () (g (fst w), snd w)"
  "bindA (ask_redis qr) fr w = fr (qr (snd w)) w"
  "bindA (write_redis h) fh w = fh () (fst w, h (snd w))"
  by (simp_all add: bindA_def action_defs)

lemma bindA_Inr:
  "bindA m f w = (Inr y, w') \<longleftrightarrow> (\<exists>x w1. m w = (Inr x, w1) \<and> f x w1 = (Inr y, w'))"
  by (auto simp: bindA_def split: prod.splits sum.splits)

section \<open>Tokens\<close>

text \<open>
  The JWT library, SHA-256 and bcrypt are parameters. \<open>jwt_decode\<close> gives \<open>None\<close> where the
  library raises (bad signature, malformed token, expired token); \<open>bcrypt_hash\<close> takes the salt
  it draws. Claims are those the code writes; \<open>iat\<close> and \<open>exp\<close> are whole seconds, as the library
  encodes a \<open>datetime\<close>.
\<close>

record claims =
  cl_sub :: "uuid option"
  cl_iat :: int
  cl_exp :: int
  cl_jti :: "uuid option"
  cl_type :: string
  cl_role :: "string option"

record 'tok crypto =
  jwt_encode :: "string \<Rightarrow> claims \<Rightarrow> 'tok"
  jwt_decode :: "timestamp \<Rightarrow> string \<Rightarrow> 'tok \<Rightarrow> claims option"
  sha256_hex :: "'tok \<Rightarrow> string"
  bcrypt_hash :: "uuid \<Rightarrow> string \<Rightarrow> string"
  bcrypt_check :: "string \<Rightarrow> string \<Rightarrow> bool"

record auth_settings =
  jwt_access_secret :: string
  jwt_refresh_secret :: string
  jwt_access_ttl_minutes :: int
  jwt_refresh_ttl_days :: int

record 'tok auth_env =
  ae_crypto :: "'tok crypto"
  ae_settings :: auth_settings

definition hash_password :: "'tok auth_env \<Rightarrow> uuid \<Rightarrow> string \<Rightarrow> string" where
  "hash_password A salt password = bcrypt_hash (ae_crypto A) salt password"

definition verify_password :: "'tok auth_env \<Rightarrow> string \<Rightarrow> string \<Rightarrow> bool" where
  "verify_password A plain_password hashed_password = bcrypt_check (ae_crypto A) plain_password hashed_password"

definition epoch_seconds :: "timestamp \<Rightarrow> int" where
  "epoch_seconds t = t div seconds 1"

definition access_claims :: "'tok auth_env \<Rightarrow> ctx_env \<Rightarrow> uuid \<Rightarrow> uuid \<Rightarrow> string option \<Rightarrow> claims" where
  "access_claims A E jti subject role =
     \<lparr>cl_sub = Some subject, cl_iat = epoch_seconds (now_at E),
      cl_exp = epoch_seconds (now_at E + seconds (60 * jwt_access_ttl_minutes (ae_settings A))),
      cl_jti = Some jti, cl_type = ''access'', cl_role = role\<rparr>"

definition refresh_claims :: "'tok auth_env \<Rightarrow> ctx_env \<Rightarrow> uuid \<Rightarrow> uuid \<Rightarrow> claims" where
  "refresh_claims A E jti subject =
     \<lparr>cl_sub = Some subject, cl_iat = epoch_seconds (now_at E),
      cl_exp = epoch_seconds (now_at E + seconds (86400 * jwt_refresh_ttl_days (ae_settings A))),
      cl_jti = Some jti, cl_type = ''refresh'', cl_role = None\<rparr>"

definition create_access_token :: "'tok auth_env \<Rightarrow> ctx_env \<Rightarrow> uuid \<Rightarrow> uuid \<Rightarrow> string option \<Rightarrow> 'tok" where
  "create_access_token A E jti subject role =
     jwt_encode (ae_crypto A) (jwt_access_secret (ae_settings A)) (access_claims A E jti subject role)"

definition create_refresh_token :: "'tok auth_env \<Rightarrow> ctx_env \<Rightarrow> uuid \<Rightarrow> uuid \<Rightarrow> 'tok" where
  "create_refresh_token A E jti subject =
     jwt_encode (ae_crypto A) (jwt_refresh_secret (ae_settings A)) (refresh_claims A E jti subject)"

definition decode_access_token :: "'tok auth_env \<Rightarrow> ctx_env \<Rightarrow> 'tok \<Rightarrow> claims option" where
  "decode_access_token A E token =
     jwt_decode (ae_crypto A) (now_at E) (jwt_access_secret (ae_settings A)) token"

definition decode_refresh_token :: "'tok auth_env \<Rightarrow> ctx_env \<Rightarrow> 'tok \<Rightarrow> claims option" where
  "decode_refresh_token A E token =
     jwt_decode (ae_crypto A) (now_at E) (jwt_refresh_secret (ae_settings A)) token"

section \<open>Revocation in Redis\<close>

definition blacklist_key :: "string \<Rightarrow> string" where
  "blacklist_key jti = ''blacklist:jti:'' @ jti"

definition blacklist_token :: "timestamp \<Rightarrow> string \<Rightarrow> int \<Rightarrow> 'v redis \<Rightarrow> 'v redis" where
  "blacklist_token now jti ttl_seconds r = redis_set now (blacklist_key jti) (RText ''1'') (Some ttl_seconds) r"

definition is_token_blacklisted :: "timestamp \<Rightarrow> string \<Rightarrow> 'v redis \<Rightarrow> bool" where
  "is_token_blacklisted now jti r = (redis_get now (blacklist_key jti) r \<noteq> None)"

definition session_invalidation_key :: "uuid \<Rightarrow> string" where
  "session_invalidation_key user_id = ''session_invalidated:'' @ user_id"

text \<open>
  \<open>str(ts)\<close> and \<open>float(val)\<close> carry a time stamp through Redis unchanged; the model writes the
  microseconds since the epoch.
\<close>

definition invalidate_user_sessions :: "timestamp \<Rightarrow> uuid \<Rightarrow> 'v redis \<Rightarrow> 'v redis" where
  "invalidate_user_sessions now user_id r =
     redis_set now (session_invalidation_key user_id) (RText (nat_text (nat now))) (Some (86400 * 7)) r"

definition get_session_invalidation_timestamp :: "timestamp \<Rightarrow> uuid \<Rightarrow> 'v redis \<Rightarrow> timestamp option" where
  "get_session_invalidation_timestamp now user_id r =
     (case redis_get now (session_invalidation_key user_id) r of
        Some (RText t) \<Rightarrow> map_option int (py_int t)
      | _ \<Rightarrow> None)"

section \<open>Refresh sessions\<close>

definition session_settings :: "uuid \<Rightarrow> settings \<Rightarrow> settings" where
  "session_settings user_id S = apply_rls_context_to_session None (Some user_id) None False S"

text \<open>What the session's row policies let it read of \<open>refresh_sessions\<close>.\<close>

definition readable_sessions :: "settings \<Rightarrow> db \<Rightarrow> RefreshSession list" where
  "readable_sessions S D = filter (p_select (user_policy S rs_user_id)) (refresh_sessions D)"

definition get_refresh_session_by_token_hash :: "settings \<Rightarrow> string \<Rightarrow> db \<Rightarrow> py_exc + RefreshSession option" where
  "get_refresh_session_by_token_hash S token_hash D =
     scalar_one_or_none MultipleResultsFound
       (filter (\<lambda>s. rs_token_hash s = token_hash) (readable_sessions S D))"

definition get_refresh_session_by_id :: "settings \<Rightarrow> uuid \<Rightarrow> db \<Rightarrow> RefreshSession option" where
  "get_refresh_session_by_id S i D = find_row rs_id i (readable_sessions S D)"

definition get_active_sessions_for_user :: "settings \<Rightarrow> uuid \<Rightarrow> db \<Rightarrow> RefreshSession list" where
  "get_active_sessions_for_user S user_id D =
     filter (\<lambda>s. rs_user_id s = user_id \<and> rs_revoked_at s = None \<and> rs_issued_at s < rs_expires_at s)
       (readable_sessions S D)"

definition create_refresh_session :: "RefreshSession \<Rightarrow> db \<Rightarrow> py_exc + db" where
  "create_refresh_session s D =
     (if rs_token_hash s \<in> rs_token_hash ` set (refresh_sessions D)
      then Inl (IntegrityError ''refresh_sessions_token_hash_key'')
      else Inr (D\<lparr>refresh_sessions := refresh_sessions D @ [s]\<rparr>))"

definition refresh_session_flush :: "ctx_env \<Rightarrow> RefreshSession \<Rightarrow> RefreshSession \<Rightarrow> RefreshSession" where
  "refresh_session_flush E old new = (if new = old then old else new\<lparr>rs_updated_at := now_at E\<rparr>)"

definition update_refresh_session ::
  "ctx_env \<Rightarrow> uuid \<Rightarrow> (RefreshSession \<Rightarrow> RefreshSession) \<Rightarrow> db \<Rightarrow> db" where
  "update_refresh_session E i f D =
     D\<lparr>refresh_sessions := update_row rs_id i (\<lambda>s. refresh_session_flush E s (f s)) (refresh_sessions D)\<rparr>"

definition revoked :: "ctx_env \<Rightarrow> string \<Rightarrow> RefreshSession \<Rightarrow> RefreshSession" where
  "revoked E reason s = s\<lparr>rs_revoked_at := Some (now_at E), rs_revocation_reason := Some reason\<rparr>"

definition refresh_ttl :: "'tok auth_env \<Rightarrow> int" where
  "refresh_ttl A = jwt_refresh_ttl_days (ae_settings A) * 86400"

text \<open>The loop of \<open>revoke_user_all_sessions\<close>: it blacklists the sessions' row identifiers.\<close>

definition revoke_user_all_sessions ::
  "'tok auth_env \<Rightarrow> ctx_env \<Rightarrow> settings \<Rightarrow> uuid \<Rightarrow> string \<Rightarrow> ('v, nat) action" where
  "revoke_user_all_sessions A E S user_id reason =
     bindA (query (get_active_sessions_for_user (session_settings user_id S) user_id)) (\<lambda>sessions.
     bindA (write_db (fold (\<lambda>s. update_refresh_session E (rs_id s) (revoked E reason)) sessions)) (\<lambda>_.
     bindA (write_redis (fold (\<lambda>s. blacklist_token (now_at E) (rs_id s) (refresh_ttl A)) sessions)) (\<lambda>_.
     bindA (write_redis (invalidate_user_sessions (now_at E) user_id)) (\<lambda>_.
     ret (length sessions)))))"

definition revoke_family :: "ctx_env \<Rightarrow> settings \<Rightarrow> uuid \<Rightarrow> string \<Rightarrow> string \<Rightarrow> ('v, unit) action" where
  "revoke_family E S user_id family_id reason =
     bindA (query (get_active_sessions_for_user (session_settings user_id S) user_id)) (\<lambda>sessions.
     bindA (write_db (fold (\<lambda>s. update_refresh_session E (rs_id s) (revoked E reason))
              (filter (\<lambda>s. rs_family_id s = family_id) sessions))) (\<lambda>_.
     write_redis (invalidate_user_sessions (now_at E) user_id)))"

section \<open>The service\<close>

definition lookup_role_slug :: "uuid option \<Rightarrow> db \<Rightarrow> string option" where
  "lookup_role_slug role_id D =
     (case role_id of
        None \<Rightarrow> None
      | Some i \<Rightarrow> (case find_row r_id i (roles D) of
                     None \<Rightarrow> None
                   | Some r \<Rightarrow> if r_slug r = [] then None else Some (r_slug r)))"

record 'tok issued =
  is_access_token :: 'tok
  is_refresh_token :: 'tok
  is_session :: RefreshSession
  is_user :: User

text \<open>\<open>fresh E n\<close>, \<open>n + 1\<close>, \<open>n + 2\<close> and \<open>n + 3\<close> are the family, the two token identifiers and the row's.\<close>

definition new_session ::
  "'tok auth_env \<Rightarrow> ctx_env \<Rightarrow> nat \<Rightarrow> uuid \<Rightarrow> string option \<Rightarrow> string option \<Rightarrow> string option \<Rightarrow> RefreshSession" where
  "new_session A E n user_id family_id ip ua =
     \<lparr>rs_id = fresh E (n + 3), rs_user_id = user_id,
      rs_token_hash = sha256_hex (ae_crypto A) (create_refresh_token A E (fresh E (n + 2)) user_id),
      rs_family_id = (if truthy family_id then the family_id else fresh E n),
      rs_issued_at = now_at E, rs_expires_at = now_at E + seconds (refresh_ttl A),
      rs_last_used_at = Some (now_at E), rs_revoked_at = None, rs_revocation_reason = None,
      rs_replaced_by_session_id = None, rs_ip_address = ip, rs_user_agent = ua,
      rs_created_at = now_at E, rs_updated_at = now_at E\<rparr>"

definition issue_session ::
  "'tok auth_env \<Rightarrow> ctx_env \<Rightarrow> nat \<Rightarrow> uuid \<Rightarrow> string option \<Rightarrow> string option \<Rightarrow> string option \<Rightarrow> string option
     \<Rightarrow> db \<Rightarrow> py_exc + ('tok \<times> 'tok \<times> RefreshSession) \<times> db" where
  "issue_session A E n user_id role family_id ip ua D =
     (let access_token = create_access_token A E (fresh E (n + 1)) user_id (if truthy role then role else None);
          refresh_token = create_refresh_token A E (fresh E (n + 2)) user_id;
          session = new_session A E n user_id family_id ip ua
      in sbind (create_refresh_session session D) (\<lambda>D1. Inr ((access_token, refresh_token, session), D1)))"

definition run_write :: "(db \<Rightarrow> py_exc + 'a \<times> db) \<Rightarrow> ('v, 'a) action" where
  "run_write f w = (case f (fst w) of Inl e \<Rightarrow> (Inl e, w) | Inr (x, D) \<Rightarrow> (Inr x, D, snd w))"

definition account_active :: "User \<Rightarrow> bool" where
  "account_active u \<longleftrightarrow> u_is_active u \<and> u_status u = ''active''"

definition login ::
  "'tok auth_env \<Rightarrow> ctx_env \<Rightarrow> string \<Rightarrow> string \<Rightarrow> string option \<Rightarrow> string option \<Rightarrow> ('v, 'tok issued option) action" where
  "login A E email password ip ua =
     bindA (query (get_user_by_email email)) (\<lambda>found.
     case found of
       None \<Rightarrow> ret None
     | Some user \<Rightarrow>
         if \<not> account_active user then ret None
         else if \<not> verify_password A password (u_password_hash user) then ret None
         else
           bindA (write_db (update_last_login E user)) (\<lambda>_.
           bindA (query (lookup_role_slug (u_role_id user))) (\<lambda>role.
           bindA (run_write (issue_session A E 0 (u_id user) role None ip ua)) (\<lambda>(acc, rt, s).
           ret (Some \<lparr>is_access_token = acc, is_refresh_token = rt, is_session = s,
                       is_user = user_flush E user (user\<lparr>u_last_login_at := Some (now_at E)\<rparr>)\<rparr>)))))"

definition new_user :: "'tok auth_env \<Rightarrow> ctx_env \<Rightarrow> string \<Rightarrow> string \<Rightarrow> string \<Rightarrow> uuid option \<Rightarrow> User" where
  "new_user A E email password name role_id =
     \<lparr>u_id = fresh E 4, u_email = email, u_password_hash = hash_password A (fresh E 5) password,
      u_name = Some name, u_phone = None, u_preferred_language = None, u_role_id = role_id,
      u_is_active = True, u_status = ''active'', u_last_login_at = None, u_password_changed_at = None,
      u_created_at = now_at E, u_updated_at = now_at E, u_deleted_at = None\<rparr>"

definition register ::
  "'tok auth_env \<Rightarrow> ctx_env \<Rightarrow> string \<Rightarrow> string \<Rightarrow> string \<Rightarrow> string option \<Rightarrow> string option
     \<Rightarrow> ('v, 'tok issued option) action" where
  "register A E email password name ip ua =
     bindA (query (get_user_by_email email)) (\<lambda>existing_user.
     if existing_user \<noteq> None then ret None
     else
       bindA (query (\<lambda>D. find_row r_slug ''user'' (roles D))) (\<lambda>user_role.
       (let user = new_user A E email password name (map_option r_id user_role)
        in bindA (write_db (\<lambda>D. D\<lparr>users := users D @ [user]\<rparr>)) (\<lambda>_.
           bindA (query (lookup_role_slug (u_role_id user))) (\<lambda>role.
           bindA (run_write (issue_session A E 0 (u_id user) role None ip ua)) (\<lambda>(acc, rt, s).
           ret (Some \<lparr>is_access_token = acc, is_refresh_token = rt, is_session = s, is_user = user\<rparr>)))))))"

definition rotate_session ::
  "'tok auth_env \<Rightarrow> ctx_env \<Rightarrow> RefreshSession \<Rightarrow> string \<Rightarrow> string option \<Rightarrow> string option
     \<Rightarrow> ('v, 'tok issued option) action" where
  "rotate_session A E session jti ip ua =
     bindA (write_db (update_refresh_session E (rs_id session) (revoked E ''refresh_rotation''))) (\<lambda>_.
     bindA (write_redis (blacklist_token (now_at E) jti (refresh_ttl A))) (\<lambda>_.
     bindA (query (get_user_by_id (rs_user_id session))) (\<lambda>found.
     case found of
       None \<Rightarrow> ret None
     | Some user \<Rightarrow>
         if \<not> account_active user then ret None
         else
           bindA (query (lookup_role_slug (u_role_id user))) (\<lambda>role.
           bindA (run_write (issue_session A E 0 (u_id user) role (Some (rs_family_id session)) ip ua)) (\<lambda>(acc, rt, s).
           bindA (write_db (update_refresh_session E (rs_id session)
                    (\<lambda>old. old\<lparr>rs_replaced_by_session_id := Some (rs_id s)\<rparr>))) (\<lambda>_.
           ret (Some \<lparr>is_access_token = acc, is_refresh_token = rt, is_session = s, is_user = user\<rparr>)))))))"

definition refresh ::
  "'tok auth_env \<Rightarrow> ctx_env \<Rightarrow> settings \<Rightarrow> 'tok \<Rightarrow> string option \<Rightarrow> string option \<Rightarrow> ('v, 'tok issued option) action" where
  "refresh A E S token ip ua =
     (case decode_refresh_token A E token of
        None \<Rightarrow> ret None
      | Some payload \<Rightarrow>
          if \<not> truthy (cl_sub payload) \<or> \<not> truthy (cl_jti payload) then ret None
          else
            (let user_id = the (cl_sub payload); jti = the (cl_jti payload); S1 = session_settings user_id S
             in bindA (ask_redis (is_token_blacklisted (now_at E) jti)) (\<lambda>black.
                if black then ret None
                else
                  bindA (query_or_raise (get_refresh_session_by_token_hash S1 (sha256_hex (ae_crypto A) token))) (\<lambda>found.
                  case found of
                    None \<Rightarrow> ret None
                  | Some session \<Rightarrow>
                      if rs_revoked_at session \<noteq> None
                      then bindA (revoke_family E S1 (rs_user_id session) (rs_family_id session) ''refresh_rotation'') (\<lambda>_.
                             ret None)
                      else if rs_expires_at session < now_at E then ret None
                      else rotate_session A E session jti ip ua))))"

text \<open>\<open>logout\<close>: everything inside the \<open>try\<close> is best effort; the sessions are invalidated in any case.\<close>

definition logout_token :: "'tok auth_env \<Rightarrow> ctx_env \<Rightarrow> settings \<Rightarrow> 'tok \<Rightarrow> db \<times> 'v redis \<Rightarrow> db \<times> 'v redis" where
  "logout_token A E S token w =
     (case decode_refresh_token A E token of
        None \<Rightarrow> w
      | Some payload \<Rightarrow>
          (let jti = (case cl_jti payload of None \<Rightarrow> [] | Some j \<Rightarrow> j);
               r = blacklist_token (now_at E) jti (refresh_ttl A) (snd w)
           in (case get_refresh_session_by_token_hash S (sha256_hex (ae_crypto A) token) (fst w) of
                 Inr (Some session) \<Rightarrow>
                   (if rs_revoked_at session = None
                    then (update_refresh_session E (rs_id session) (revoked E ''logout'') (fst w), r)
                    else (fst w, r))
               | _ \<Rightarrow> (fst w, r))))"

definition logout :: "'tok auth_env \<Rightarrow> ctx_env \<Rightarrow> settings \<Rightarrow> uuid \<Rightarrow> 'tok option \<Rightarrow> ('v, unit) action" where
  "logout A E S user_id refresh_token w =
     (let w1 = (case refresh_token of
                  None \<Rightarrow> w
                | Some token \<Rightarrow> logout_token A E (session_settings user_id S) token w)
      in (Inr (), fst w1, invalidate_user_sessions (now_at E) user_id (snd w1)))"

definition reset_password ::
  "'tok auth_env \<Rightarrow> ctx_env \<Rightarrow> settings \<Rightarrow> uuid \<Rightarrow> string \<Rightarrow> string \<Rightarrow> ('v, bool) action" where
  "reset_password A E S user_id current_password new_password =
     bindA (query (get_user_by_id user_id)) (\<lambda>found.
     case found of
       None \<Rightarrow> ret False
     | Some user \<Rightarrow>
         if \<not> verify_password A current_password (u_password_hash user) then ret False
         else
           bindA (write_db (update_password E user (hash_password A (fresh E 0) new_password))) (\<lambda>_.
           bindA (revoke_user_all_sessions A E S user_id ''password_reset'') (\<lambda>_. ret True)))"

definition revoke_session ::
  "'tok auth_env \<Rightarrow> ctx_env \<Rightarrow> settings \<Rightarrow> uuid \<Rightarrow> string \<Rightarrow> uuid \<Rightarrow> ('v, bool) action" where
  "revoke_session A E S session_id reason revoker_user_id =
     bindA (query (get_refresh_session_by_id (session_settings revoker_user_id S) session_id)) (\<lambda>target.
     case target of
       None \<Rightarrow> ret False
     | Some s \<Rightarrow>
         bindA (write_db (update_refresh_session E (rs_id s) (revoked E reason))) (\<lambda>_.
         bindA (write_redis (blacklist_token (now_at E) (rs_id s) (refresh_ttl A))) (\<lambda>_. ret True)))"

section \<open>Request dependencies\<close>

text \<open>
  The token of an \<open>Authorization\<close> header that starts with \<open>Bearer\<close>; any other header, or none,
  is \<open>None\<close>.
\<close>

definition extract_token :: "'tok option \<Rightarrow> py_exc + 'tok" where
  "extract_token header =
     (case header of
        None \<Rightarrow> Inl (UnauthorizedError ''Missing or invalid Authorization header'')
      | Some token \<Rightarrow> Inr token)"

record actor =
  ac_id :: uuid
  ac_email :: string
  ac_name :: "string option"
  ac_role :: "string option"
  ac_permissions :: "string list"
  ac_is_active :: bool
  ac_tenant_id :: "uuid option"
  ac_membership_id :: "uuid option"

definition permission_keys :: "uuid option \<Rightarrow> db \<Rightarrow> string list" where
  "permission_keys role_id D =
     (case role_id of
        None \<Rightarrow> []
      | Some i \<Rightarrow>
          (case find_row r_id i (roles D) of
             None \<Rightarrow> []
           | Some _ \<Rightarrow> List.map_filter (\<lambda>rp. map_option p_key (find_row p_id (rp_permission_id rp) (permissions D)))
                         (filter (\<lambda>rp. rp_role_id rp = i) (role_permissions D))))"

definition actor_role :: "uuid option \<Rightarrow> db \<Rightarrow> string option" where
  "actor_role role_id D =
     (case role_id of None \<Rightarrow> None | Some i \<Rightarrow> map_option r_slug (find_row r_id i (roles D)))"

definition resolve_tenant_context ::
  "string option \<Rightarrow> uuid \<Rightarrow> string option \<Rightarrow> string list \<Rightarrow> db \<Rightarrow> TenantContext" where
  "resolve_tenant_context request_id actor_id role perms D =
     (let membership = find (\<lambda>m. m_user_id m = actor_id \<and> m_status m = ''active'') (memberships D)
      in \<lparr>tc_actor_id = Some actor_id, tc_role = role, tc_permissions = perms,
          tc_tenant_id = map_option m_agency_tenant_id membership,
          tc_membership_id = map_option m_id membership,
          tc_is_platform_actor = (role = Some ''platform_admin''),
          tc_request_id = request_id, tc_source = ''api''\<rparr>)"

text \<open>The claims that pass the checks made before the account is read.\<close>

definition live_claims :: "'tok auth_env \<Rightarrow> ctx_env \<Rightarrow> 'tok option \<Rightarrow> 'v redis \<Rightarrow> py_exc + uuid" where
  "live_claims A E header r =
     sbind (extract_token header) (\<lambda>token.
     case decode_access_token A E token of
       None \<Rightarrow> Inl (UnauthorizedError ''Invalid or expired access token'')
     | Some payload \<Rightarrow>
         if truthy (cl_jti payload) \<and> is_token_blacklisted (now_at E) (the (cl_jti payload)) r
         then Inl (UnauthorizedError ''Token has been revoked'')
         else if \<not> truthy (cl_sub payload) then Inl (UnauthorizedError ''Invalid token payload'')
         else (case get_session_invalidation_timestamp (now_at E) (the (cl_sub payload)) r of
                 None \<Rightarrow> Inr (the (cl_sub payload))
               | Some ts \<Rightarrow>
                   if seconds (cl_iat payload) < ts
                   then Inl (UnauthorizedError ''Session has been invalidated'')
                   else Inr (the (cl_sub payload))))"

definition get_current_actor ::
  "'tok auth_env \<Rightarrow> ctx_env \<Rightarrow> string option \<Rightarrow> 'tok option \<Rightarrow> db \<times> 'v redis \<Rightarrow> py_exc + actor \<times> TenantContext" where
  "get_current_actor A E request_id header w =
     sbind (live_claims A E header (snd w)) (\<lambda>user_id.
     case find_row u_id user_id (users (fst w)) of
       None \<Rightarrow> Inl (UnauthorizedError ''Actor not found'')
     | Some user \<Rightarrow>
         if \<not> account_active user then Inl (UnauthorizedError ''Actor is not active'')
         else
           (let role = actor_role (u_role_id user) (fst w);
                perms = permission_keys (u_role_id user) (fst w);
                ctx = resolve_tenant_context request_id (u_id user) role perms (fst w)
            in Inr (\<lparr>ac_id = u_id user, ac_email = u_email user, ac_name = u_name user, ac_role = role,
                     ac_permissions = perms, ac_is_active = u_is_active user,
                     ac_tenant_id = tc_tenant_id ctx, ac_membership_id = tc_membership_id ctx\<rparr>, ctx)))"

definition get_optional_current_actor ::
  "'tok auth_env \<Rightarrow> ctx_env \<Rightarrow> string option \<Rightarrow> 'tok option \<Rightarrow> db \<times> 'v redis \<Rightarrow> (actor \<times> TenantContext) option" where
  "get_optional_current_actor A E request_id header w =
     (case header of
        None \<Rightarrow> None
      | Some _ \<Rightarrow> (case get_current_actor A E request_id header w of Inl _ \<Rightarrow> None | Inr a \<Rightarrow> Some a))"

fun require_permission :: "string list \<Rightarrow> actor \<Rightarrow> py_exc + actor" where
  "require_permission [] a = Inr a"
| "require_permission (p # ps) a =
     (if p \<notin> set (ac_permissions a)
      then Inl (AppException 403 (''Missing required permission: '' @ p) (Some ''PERMISSION_DENIED'') [])
      else require_permission ps a)"

definition require_role :: "string list \<Rightarrow> actor \<Rightarrow> py_exc + actor" where
  "require_role allowed a =
     (if ac_role a = None \<or> the (ac_role a) \<notin> set allowed
      then Inl (AppException 403
             (''Role '' @ quoted (case ac_role a of None \<Rightarrow> ''None'' | Some s \<Rightarrow> s) @ '' is not authorized for this action'')
             (Some ''ROLE_DENIED'') [])
      else Inr a)"

definition require_platform_dashboard_access :: "actor \<Rightarrow> py_exc + actor" where
  "require_platform_dashboard_access a =
     sbind (require_role [''platform_admin''] a) (\<lambda>a1. require_permission [''platform:dashboard_read''] a1)"

definition get_tenant_context ::
  "'tok auth_env \<Rightarrow> ctx_env \<Rightarrow> string option \<Rightarrow> 'tok option \<Rightarrow> db \<times> 'v redis \<Rightarrow> py_exc + TenantContext" where
  "get_tenant_context A E request_id header w =
     sbind (get_current_actor A E request_id header w) (\<lambda>(a, ctx).
       Inr (resolve_tenant_context request_id (ac_id a) (ac_role a) (ac_permissions a) (fst w)))"

text \<open>The row security settings the session of a request with that header ends up with.\<close>

definition get_rls_db_session ::
  "'tok auth_env \<Rightarrow> ctx_env \<Rightarrow> string option \<Rightarrow> 'tok option \<Rightarrow> settings \<Rightarrow> db \<times> 'v redis \<Rightarrow> py_exc + settings" where
  "get_rls_db_session A E request_id header S w =
     sbind (get_tenant_context A E request_id header w) (\<lambda>ctx.
       Inr (apply_rls_context_from_tenant_context (Some ctx) S))"

definition get_optional_rls_db_session ::
  "'tok auth_env \<Rightarrow> ctx_env \<Rightarrow> string option \<Rightarrow> 'tok option \<Rightarrow> settings \<Rightarrow> db \<times> 'v redis \<Rightarrow> settings" where
  "get_optional_rls_db_session A E request_id header S w =
     apply_rls_context_from_tenant_context
       (case header of
          None \<Rightarrow> None
        | Some _ \<Rightarrow> (case get_tenant_context A E request_id header w of Inl _ \<Rightarrow> None | Inr ctx \<Rightarrow> Some ctx)) S"

end
