(* ===== verification/Agencies.thy ===== *)
theory Agencies
  imports Users
begin

text \<open>
  Agency profiles and employees: \<open>agencies/repository.py\<close> and \<open>agencies/service.py\<close>.
\<close>

section \<open>Repositories\<close>

text \<open>Nothing in the schema makes \<open>agency_tenant_id\<close> unique, so two profiles of one tenant raise here.\<close>

definition get_profile_by_tenant :: "uuid option \<Rightarrow> db \<Rightarrow> py_exc + AgencyProfile option" where
  "get_profile_by_tenant tenant_id D =
     scalar_one_or_none MultipleResultsFound
       (filter (\<lambda>p. tenant_id = Some (ap_agency_tenant_id p)) (agency_profiles D))"

definition list_employees_by_tenant :: "uuid option \<Rightarrow> db \<Rightarrow> AgencyEmployeeMembership list" where
  "list_employees_by_tenant tenant_id D =
     sort_key (\<lambda>m. Desc (m_created_at m)) (filter (\<lambda>m. tenant_id = Some (m_agency_tenant_id m)) (memberships D))"

definition get_membership_by_id :: "uuid \<Rightarrow> db \<Rightarrow> AgencyEmployeeMembership option" where
  "get_membership_by_id i D = find_row m_id i (memberships D)"

definition get_by_tenant_and_user :: "uuid \<Rightarrow> uuid \<Rightarrow> db \<Rightarrow> py_exc + AgencyEmployeeMembership option" where
  "get_by_tenant_and_user tenant_id user_id D =
     scalar_one_or_none MultipleResultsFound
       (filter (\<lambda>m. m_agency_tenant_id m = tenant_id \<and> m_user_id m = user_id) (memberships D))"

definition get_tenant_by_id :: "uuid \<Rightarrow> db \<Rightarrow> AgencyTenant option" where
  "get_tenant_by_id i D = find_row at_id i (agency_tenants D)"

definition get_active_memberships_for_user :: "uuid \<Rightarrow> db \<Rightarrow> AgencyEmployeeMembership list" where
  "get_active_memberships_for_user user_id D =
     filter (\<lambda>m. m_user_id m = user_id \<and> m_status m = ''active'') (memberships D)"

definition membership_flush ::
  "ctx_env \<Rightarrow> AgencyEmployeeMembership \<Rightarrow> AgencyEmployeeMembership \<Rightarrow> AgencyEmployeeMembership" where
  "membership_flush E old new = (if new = old then old else new\<lparr>m_updated_at := now_at E\<rparr>)"

definition update_membership :: "ctx_env \<Rightarrow> AgencyEmployeeMembership \<Rightarrow> AgencyEmployeeMembership \<Rightarrow> db \<Rightarrow> db" where
  "update_membership E old new D =
     D\<lparr>memberships := update_row m_id (m_id old) (\<lambda>_. membership_flush E old new) (memberships D)\<rparr>"

section \<open>Profile\<close>

definition get_agency_profile :: "TenantContext option \<Rightarrow> db \<Rightarrow> py_exc + AgencyProfile" where
  "get_agency_profile tenant D =
     sbind (require_tenant tenant) (\<lambda>ctx.
     sbind (get_profile_by_tenant (tc_tenant_id ctx) D) (\<lambda>found.
     case found of None \<Rightarrow> Inl (NotFoundError ''Agency profile not found'') | Some p \<Rightarrow> Inr p))"

text \<open>The body after \<open>model_dump(exclude_none=True)\<close>: a field is present exactly when it has a value.\<close>

record ProfileData =
  pr_display_name :: "string option"
  pr_legal_name :: "string option"
  pr_description :: "string option"
  pr_phone :: "string option"
  pr_email :: "string option"
  pr_website_url :: "string option"
  pr_address :: "string option"
  pr_city :: "string option"
  pr_country :: "string option"
  pr_status :: "string option"

definition keep :: "'a option \<Rightarrow> 'a option \<Rightarrow> 'a option" where
  "keep new old = (case new of None \<Rightarrow> old | Some x \<Rightarrow> Some x)"

definition apply_profile_data :: "ProfileData \<Rightarrow> AgencyProfile \<Rightarrow> AgencyProfile" where
  "apply_profile_data d p =
     p\<lparr>ap_display_name := (case pr_display_name d of None \<Rightarrow> ap_display_name p | Some x \<Rightarrow> x),
       ap_legal_name := keep (pr_legal_name d) (ap_legal_name p),
       ap_description := keep (pr_description d) (ap_description p),
       ap_phone := keep (pr_phone d) (ap_phone p),
       ap_email := keep (pr_email d) (ap_email p),
       ap_website_url := keep (pr_website_url d) (ap_website_url p),
       ap_address := keep (pr_address d) (ap_address p),
       ap_city := keep (pr_city d) (ap_city p),
       ap_country := keep (pr_country d) (ap_country p),
       ap_status := (case pr_status d of None \<Rightarrow> ap_status p | Some x \<Rightarrow> x)\<rparr>"

definition new_profile :: "ctx_env \<Rightarrow> uuid \<Rightarrow> AgencyProfile" where
  "new_profile E t =
     \<lparr>ap_id = fresh E 0, ap_agency_tenant_id = t, ap_display_name = [], ap_legal_name = None,
      ap_description = None, ap_phone = None, ap_email = None, ap_website_url = None, ap_address = None,
      ap_city = None, ap_country = None, ap_status = ''active'', ap_created_at = now_at E,
      ap_updated_at = now_at E\<rparr>"

definition profile_flush :: "ctx_env \<Rightarrow> AgencyProfile \<Rightarrow> AgencyProfile \<Rightarrow> AgencyProfile" where
  "profile_flush E old new = (if new = old then old else new\<lparr>ap_updated_at := now_at E\<rparr>)"

text \<open>The first update of a tenant without a profile adds one; later ones change it.\<close>

definition upsert_profile ::
  "ctx_env \<Rightarrow> uuid option \<Rightarrow> AgencyProfile option \<Rightarrow> ProfileData \<Rightarrow> db \<Rightarrow> py_exc + AgencyProfile \<times> db" where
  "upsert_profile E tenant_id found data D =
     (case found of
        Some old \<Rightarrow>
          (let p = profile_flush E old (apply_profile_data data old)
           in Inr (p, D\<lparr>agency_profiles := update_row ap_id (ap_id old) (\<lambda>_. p) (agency_profiles D)\<rparr>))
      | None \<Rightarrow>
          (case tenant_id of
             None \<Rightarrow> Inl (IntegrityError ''agency_profiles.agency_tenant_id is NOT NULL'')
           | Some t \<Rightarrow>
               (let p = apply_profile_data data (new_profile E t)
                in Inr (p, D\<lparr>agency_profiles := agency_profiles D @ [p]\<rparr>))))"

definition tenant_text :: "uuid option \<Rightarrow> string" where
  "tenant_text t = (case t of None \<Rightarrow> ''None'' | Some i \<Rightarrow> i)"

definition update_agency_profile ::
  "ctx_env \<Rightarrow> TenantContext option \<Rightarrow> ProfileData \<Rightarrow> db \<Rightarrow> py_exc + AgencyProfile \<times> db" where
  "update_agency_profile E tenant data D =
     sbind (require_tenant tenant) (\<lambda>ctx.
     if tc_role ctx = Some ''support_employee''
     then Inl (ForbiddenError ''Support employees cannot update agency profile'')
     else sbind (get_profile_by_tenant (tc_tenant_id ctx) D) (\<lambda>found.
     sbind (upsert_profile E (tc_tenant_id ctx) found data D) (\<lambda>(p, D1).
       Inr (p, write_domain_event_log E (fresh E 1) ''agency.profile_updated'' (Some ''agency'')
         (Some (tenant_text (tc_tenant_id ctx))) None (tc_tenant_id ctx) (tc_actor_id ctx) D1))))"

section \<open>Employees\<close>

definition list_employees ::
  "TenantContext option \<Rightarrow> pagination \<Rightarrow> db \<Rightarrow> py_exc + AgencyEmployeeMembership pagination_result" where
  "list_employees tenant p D =
     sbind (require_tenant tenant) (\<lambda>ctx. page_of (list_employees_by_tenant (tc_tenant_id ctx) D) p)"

definition own_employee ::
  "TenantContext option \<Rightarrow> uuid \<Rightarrow> db \<Rightarrow> py_exc + AgencyEmployeeMembership" where
  "own_employee tenant employee_id D =
     (case get_membership_by_id employee_id D of
        None \<Rightarrow> Inl (NotFoundError ''Employee not found'')
      | Some m \<Rightarrow> sbind (ensure_tenant_match tenant (m_agency_tenant_id m)) (\<lambda>_. Inr m))"

definition get_employee :: "TenantContext option \<Rightarrow> uuid \<Rightarrow> db \<Rightarrow> py_exc + AgencyEmployeeMembership" where
  "get_employee tenant employee_id D =
     sbind (require_tenant tenant) (\<lambda>_. own_employee tenant employee_id D)"

definition manages_employees :: "TenantContext option \<Rightarrow> py_exc + TenantContext" where
  "manages_employees tenant =
     sbind (require_tenant tenant) (\<lambda>ctx.
     if tc_role ctx = Some ''support_employee''
     then Inl (ForbiddenError ''Support employees cannot manage employees'') else Inr ctx)"

record EmployeeData =
  em_work_email :: "string option"
  em_role_slug :: "string option"
  em_display_name :: "string option"

definition new_employee_user :: "ctx_env \<Rightarrow> string \<Rightarrow> string \<Rightarrow> string \<Rightarrow> Role \<Rightarrow> User" where
  "new_employee_user E email name password_hash role =
     \<lparr>u_id = fresh E 0, u_email = email, u_password_hash = password_hash, u_name = Some name,
      u_phone = None, u_preferred_language = None, u_role_id = Some (r_id role), u_is_active = True,
      u_status = ''active'', u_last_login_at = None, u_password_changed_at = None,
      u_created_at = now_at E, u_updated_at = now_at E, u_deleted_at = None\<rparr>"

definition new_membership :: "ctx_env \<Rightarrow> uuid \<Rightarrow> User \<Rightarrow> Role \<Rightarrow> string \<Rightarrow> string \<Rightarrow> AgencyEmployeeMembership" where
  "new_membership E t user role name email =
     \<lparr>m_id = fresh E 1, m_agency_tenant_id = t, m_user_id = u_id user, m_role_id = r_id role,
      m_status = ''active'', m_display_name = Some name, m_work_email = Some email,
      m_deactivated_at = None, m_deactivated_by_user_id = None, m_deactivation_reason = None,
      m_created_at = now_at E, m_updated_at = now_at E\<rparr>"

text \<open>\<open>initial_hash\<close> is the hash of the configured initial password.\<close>

definition create_employee ::
  "string \<Rightarrow> ctx_env \<Rightarrow> TenantContext option \<Rightarrow> EmployeeData \<Rightarrow> db \<Rightarrow> py_exc + AgencyEmployeeMembership \<times> db" where
  "create_employee initial_hash E tenant data D =
     sbind (manages_employees tenant) (\<lambda>ctx.
     if \<not> truthy (em_work_email data) then Inl (ValidationError ''work_email is required'')
     else if \<not> truthy (em_display_name data) then Inl (ValidationError ''display_name is required'')
     else if em_role_slug data \<noteq> Some ''support_employee''
     then Inl (ValidationError ''Only support_employee can be created from this flow'')
     else
       (let email = the (em_work_email data); name = the (em_display_name data)
        in if get_user_by_email email D \<noteq> None
           then Inl (ConflictErrorCode ''An account with this email already exists.'' ''EMPLOYEE_EMAIL_EXISTS'')
           else (case find_row r_slug ''support_employee'' (roles D) of
             None \<Rightarrow> Inl (ValidationError ''support_employee role is not configured'')
           | Some role \<Rightarrow>
               (case tc_tenant_id ctx of
                  None \<Rightarrow> Inl (IntegrityError ''agency_employee_memberships.agency_tenant_id is NOT NULL'')
                | Some t \<Rightarrow>
                    (let user = new_employee_user E email name initial_hash role;
                         m = new_membership E t user role name email;
                         D1 = D\<lparr>users := users D @ [user], memberships := memberships D @ [m]\<rparr>
                     in Inr (m, write_domain_event_log E (fresh E 2) ''agency.employee_added''
                          (Some ''employee'') (Some (m_id m))
                          (Some (JObj [(''user_id'', JText (u_id user)), (''role_id'', JText (r_id role)),
                                       (''email'', JText email)]))
                          (Some t) (tc_actor_id ctx) D1))))))"

record EmployeeUpdate =
  eu_role_id :: "uuid option"
  eu_display_name :: "string option"
  eu_work_email :: "string option"

definition apply_employee_update :: "EmployeeUpdate \<Rightarrow> AgencyEmployeeMembership \<Rightarrow> AgencyEmployeeMembership" where
  "apply_employee_update d m =
     m\<lparr>m_role_id := (case eu_role_id d of None \<Rightarrow> m_role_id m | Some x \<Rightarrow> x),
       m_display_name := keep (eu_display_name d) (m_display_name m),
       m_work_email := keep (eu_work_email d) (m_work_email m)\<rparr>"

definition update_employee ::
  "ctx_env \<Rightarrow> TenantContext option \<Rightarrow> uuid \<Rightarrow> EmployeeUpdate \<Rightarrow> db \<Rightarrow> py_exc + AgencyEmployeeMembership \<times> db" where
  "update_employee E tenant employee_id data D =
     sbind (manages_employees tenant) (\<lambda>ctx.
     sbind (own_employee tenant employee_id D) (\<lambda>m.
       (let new = apply_employee_update data m
        in Inr (membership_flush E m new,
             write_domain_event_log E (fresh E 0) ''agency.employee_updated'' (Some ''employee'')
               (Some employee_id) None (tc_tenant_id ctx) (tc_actor_id ctx) (update_membership E m new D)))))"

definition deactivate_employee ::
  "ctx_env \<Rightarrow> TenantContext option \<Rightarrow> uuid \<Rightarrow> db \<Rightarrow> py_exc + unit \<times> db" where
  "deactivate_employee E tenant employee_id D =
     sbind (manages_employees tenant) (\<lambda>ctx.
     sbind (own_employee tenant employee_id D) (\<lambda>m.
       Inr ((), write_domain_event_log E (fresh E 0) ''agency.employee_deactivated'' (Some ''employee'')
         (Some employee_id) None (tc_tenant_id ctx) (tc_actor_id ctx)
         (update_membership E m (m\<lparr>m_status := ''deactivated''\<rparr>) D))))"

text \<open>\<open>AgenciesService.deactivate_employee\<close>: it takes the row it is given and checks nothing.\<close>

definition record_deactivation :: "ctx_env \<Rightarrow> AgencyEmployeeMembership \<Rightarrow> uuid \<Rightarrow> string \<Rightarrow> db \<Rightarrow> db" where
  "record_deactivation E m deactivated_by reason D =
     update_membership E m
       (m\<lparr>m_status := ''deactivated'', m_deactivated_at := Some (now_at E),
          m_deactivated_by_user_id := Some deactivated_by, m_deactivation_reason := Some reason\<rparr>) D"

definition is_tenant_active :: "uuid \<Rightarrow> db \<Rightarrow> bool" where
  "is_tenant_active tenant_id D =
     (case get_tenant_by_id tenant_id D of None \<Rightarrow> False | Some t \<Rightarrow> at_status t = ''active'')"

end
