(* ===== verification/AuthRoutes.thy ===== *)
theory AuthRoutes
  imports Auth Agencies
begin

text \<open>
  The routes of \<open>auth/router.py\<close> and the validators of \<open>auth/schemas.py\<close>. A route is the body
  of its handler; \<open>get_db_session\<close> around it commits or rolls back.
\<close>

section \<open>Request validators\<close>

definition valid_email :: "string \<Rightarrow> string option" where
  "valid_email v = (if v = [] \<or> CHR ''@'' \<notin> set v then None else Some (py_strip (py_lower v)))"

definition LoginRequest :: "string \<Rightarrow> string \<Rightarrow> (string \<times> string) option" where
  "LoginRequest email password = map_option (\<lambda>e. (e, password)) (valid_email email)"

definition RegisterRequest :: "string \<Rightarrow> string \<Rightarrow> string \<Rightarrow> (string \<times> string \<times> string) option" where
  "RegisterRequest email password name =
     (case valid_email email of
        None \<Rightarrow> None
      | Some e \<Rightarrow> if length password < 8 \<or> py_strip name = [] then None else Some (e, password, py_strip name))"

section \<open>Answers\<close>

record ActorSummary =
  as_id :: uuid
  as_email :: string
  as_name :: "string option"
  as_role :: string
  as_permissions :: "string list"
  as_is_active :: bool

record 'tok session_answer =
  sa_access_token :: 'tok
  sa_expires_in :: int
  sa_actor :: ActorSummary
  sa_refresh_cookie :: 'tok
  sa_csrf_cookie :: "string option"

definition or_text :: "string option \<Rightarrow> string \<Rightarrow> string" where
  "or_text x d = (if truthy x then the x else d)"

definition build_actor_summary :: "User \<Rightarrow> db \<Rightarrow> ActorSummary" where
  "build_actor_summary user D =
     \<lparr>as_id = u_id user, as_email = u_email user, as_name = u_name user,
      as_role = or_text (actor_role (u_role_id user) D) ''user'',
      as_permissions = permission_keys (u_role_id user) D, as_is_active = u_is_active user\<rparr>"

definition get_me :: "actor \<Rightarrow> ActorSummary" where
  "get_me a = \<lparr>as_id = ac_id a, as_email = ac_email a, as_name = ac_name a, as_role = or_text (ac_role a) ''user'',
     as_permissions = ac_permissions a, as_is_active = ac_is_active a\<rparr>"

section \<open>CSRF\<close>

text \<open>\<open>compare_digest\<close> is equality. The cookie \<open>new_token\<close> is what \<open>secrets.token_urlsafe\<close> draws.\<close>

definition verify_csrf_token :: "string option \<Rightarrow> string option \<Rightarrow> py_exc + unit" where
  "verify_csrf_token cookie_token header_token =
     (if \<not> truthy cookie_token \<or> \<not> truthy header_token
      then Inl (AppException 403 ''CSRF token missing'' (Some ''CSRF_TOKEN_MISSING'') [])
      else if cookie_token \<noteq> header_token
      then Inl (AppException 403 ''CSRF token invalid'' (Some ''CSRF_TOKEN_INVALID'') [])
      else Inr ())"

definition get_csrf_token :: "string option \<Rightarrow> string \<Rightarrow> string" where
  "get_csrf_token cookie_token new_token = or_text cookie_token new_token"

section \<open>Routes\<close>

record request =
  rq_ip :: "string option"
  rq_user_agent :: "string option"
  rq_request_id :: "string option"

text \<open>The rate limit that opens a route: refusal raises, and so does an unreadable counter.\<close>

definition limited :: "rate_settings \<Rightarrow> ctx_env \<Rightarrow> string \<Rightarrow> string \<Rightarrow> string \<Rightarrow> ('v, unit) action" where
  "limited st E action identifier message w =
     (case check_auth_rate_limit st (now_at E) action identifier (snd w) of
        (Inl e, r) \<Rightarrow> (Inl e, fst w, r)
      | (Inr ok, r) \<Rightarrow> (if ok then Inr () else Inl (RateLimitExceededError message), fst w, r))"

definition audit ::
  "ctx_env \<Rightarrow> uuid \<Rightarrow> string \<Rightarrow> string \<Rightarrow> uuid option \<Rightarrow> uuid option \<Rightarrow> request \<Rightarrow> json option \<Rightarrow> ('v, unit) action" where
  "audit E i act result actor_id tenant_id rq metadata =
     write_db (log_auth_event E i act result actor_id tenant_id (rq_request_id rq) (rq_ip rq) (rq_user_agent rq) metadata)"

definition session_answer_of ::
  "'tok auth_env \<Rightarrow> 'tok issued \<Rightarrow> string option \<Rightarrow> db \<Rightarrow> 'tok session_answer" where
  "session_answer_of A res csrf D =
     \<lparr>sa_access_token = is_access_token res, sa_expires_in = jwt_access_ttl_minutes (ae_settings A) * 60,
      sa_actor = build_actor_summary (is_user res) D, sa_refresh_cookie = is_refresh_token res,
      sa_csrf_cookie = csrf\<rparr>"

definition login_route ::
  "'tok auth_env \<Rightarrow> rate_settings \<Rightarrow> ctx_env \<Rightarrow> request \<Rightarrow> string \<Rightarrow> string \<Rightarrow> ('v, 'tok session_answer) action" where
  "login_route A st E rq email password =
     bindA (limited st E ''login'' email ''Too many login attempts. Try again later.'') (\<lambda>_.
     bindA (login A E email password (rq_ip rq) (rq_user_agent rq)) (\<lambda>result.
     case result of
       None \<Rightarrow>
         bindA (audit E (fresh E 6) ''auth.sign_in.failure'' ''failure'' None None rq
                  (Some (JObj [(''email'', JText email)]))) (\<lambda>_.
         throw (AppException 401 ''Invalid credentials'' (Some ''INVALID_CREDENTIALS'') []))
     | Some res \<Rightarrow>
         bindA (audit E (fresh E 6) ''auth.sign_in.success'' ''success'' (Some (u_id (is_user res))) None rq None) (\<lambda>_.
         query (session_answer_of A res (Some (fresh E 7))))))"

definition register_route ::
  "'tok auth_env \<Rightarrow> rate_settings \<Rightarrow> ctx_env \<Rightarrow> request \<Rightarrow> string \<Rightarrow> string \<Rightarrow> string
     \<Rightarrow> ('v, 'tok session_answer) action" where
  "register_route A st E rq email password name =
     bindA (limited st E ''register'' email ''Too many registration attempts. Try again later.'') (\<lambda>_.
     bindA (register A E email password name (rq_ip rq) (rq_user_agent rq)) (\<lambda>result.
     case result of
       None \<Rightarrow> throw (AppException 409 ''User with this email already exists'' (Some ''USER_EXISTS'') [])
     | Some res \<Rightarrow>
         bindA (audit E (fresh E 6) ''auth.register.success'' ''success'' (Some (u_id (is_user res))) None rq None) (\<lambda>_.
         query (session_answer_of A res (Some (fresh E 7))))))"

definition refresh_route ::
  "'tok auth_env \<Rightarrow> rate_settings \<Rightarrow> ctx_env \<Rightarrow> settings \<Rightarrow> request \<Rightarrow> 'tok option
     \<Rightarrow> ('v, 'tok session_answer) action" where
  "refresh_route A st E S rq cookie =
     (case cookie of
        None \<Rightarrow> throw (AppException 401 ''No refresh token provided'' (Some ''NO_REFRESH_TOKEN'') [])
      | Some refresh_token \<Rightarrow>
          bindA (limited st E ''refresh'' (sha256_hex (ae_crypto A) refresh_token)
                   ''Too many refresh attempts. Try again later.'') (\<lambda>_.
          bindA (refresh A E S refresh_token (rq_ip rq) (rq_user_agent rq)) (\<lambda>result.
          case result of
            None \<Rightarrow>
              bindA (audit E (fresh E 6) ''auth.refresh.failure'' ''failure'' None None rq None) (\<lambda>_.
              throw (AppException 401 ''Invalid or expired refresh token'' (Some ''INVALID_REFRESH_TOKEN'') []))
          | Some res \<Rightarrow>
              bindA (audit E (fresh E 6) ''auth.refresh.success'' ''success'' (Some (u_id (is_user res))) None rq None) (\<lambda>_.
              query (session_answer_of A res None)))))"

definition logout_route ::
  "'tok auth_env \<Rightarrow> ctx_env \<Rightarrow> settings \<Rightarrow> request \<Rightarrow> actor \<Rightarrow> 'tok option \<Rightarrow> ('v, unit) action" where
  "logout_route A E S rq a cookie =
     bindA (logout A E S (ac_id a) cookie) (\<lambda>_.
     audit E (fresh E 6) ''auth.sign_out'' ''success'' (Some (ac_id a)) None
       (rq\<lparr>rq_ip := None, rq_user_agent := None\<rparr>) None)"

definition password_reset_route ::
  "'tok auth_env \<Rightarrow> rate_settings \<Rightarrow> ctx_env \<Rightarrow> settings \<Rightarrow> request \<Rightarrow> actor \<Rightarrow> string \<Rightarrow> string \<Rightarrow> ('v, unit) action" where
  "password_reset_route A st E S rq a current_password new_password =
     bindA (limited st E ''password_reset'' (ac_id a) ''Too many password reset attempts. Try again later.'') (\<lambda>_.
     bindA (reset_password A E S (ac_id a) current_password new_password) (\<lambda>success.
     if \<not> success
     then throw (AppException 400 ''Current password is incorrect'' (Some ''INVALID_PASSWORD'') [])
     else audit E (fresh E 6) ''auth.password_reset'' ''success'' (Some (ac_id a)) None
            (rq\<lparr>rq_ip := None, rq_user_agent := None\<rparr>) None))"

definition revoke_session_route ::
  "'tok auth_env \<Rightarrow> rate_settings \<Rightarrow> ctx_env \<Rightarrow> settings \<Rightarrow> request \<Rightarrow> actor \<Rightarrow> uuid \<Rightarrow> string \<Rightarrow> ('v, unit) action" where
  "revoke_session_route A st E S rq a session_id reason =
     bindA (query_or_raise (\<lambda>_. require_permission [''auth:session_revoke''] a)) (\<lambda>_.
     bindA (limited st E ''session_revoke'' (ac_id a) ''Too many revocation attempts. Try again later.'') (\<lambda>_.
     bindA (revoke_session A E S session_id reason (ac_id a)) (\<lambda>success.
     if \<not> success
     then throw (AppException 404 ''Session not found or not accessible'' (Some ''SESSION_NOT_FOUND'') [])
     else audit E (fresh E 6) ''auth.session_revoked'' ''success'' (Some (ac_id a)) None
            (rq\<lparr>rq_ip := None, rq_user_agent := None\<rparr>)
            (Some (JObj [(''session_id'', JText session_id), (''reason'', JText reason)])))))"

definition deactivate_employee_route ::
  "'tok auth_env \<Rightarrow> rate_settings \<Rightarrow> ctx_env \<Rightarrow> settings \<Rightarrow> request \<Rightarrow> actor \<Rightarrow> uuid \<Rightarrow> string \<Rightarrow> ('v, unit) action" where
  "deactivate_employee_route A st E S rq a membership_id reason =
     bindA (query_or_raise (\<lambda>_. require_permission [''auth:employee_deactivate''] a)) (\<lambda>_.
     bindA (limited st E ''employee_deactivate'' (ac_id a) ''Too many deactivation attempts. Try again later.'') (\<lambda>_.
     bindA (query (find_row m_id membership_id \<circ> memberships)) (\<lambda>target.
     case target of
       None \<Rightarrow> throw (AppException 404 ''Membership not found'' (Some ''MEMBERSHIP_NOT_FOUND'') [])
     | Some m \<Rightarrow>
         bindA (write_db (record_deactivation E m (ac_id a) reason)) (\<lambda>_.
         bindA (revoke_user_all_sessions A E S (m_user_id m) ''employee_deactivation'') (\<lambda>_.
         audit E (fresh E 6) ''auth.employee_deactivated'' ''success'' (Some (ac_id a)) (Some (m_agency_tenant_id m))
           (rq\<lparr>rq_ip := None, rq_user_agent := None\<rparr>)
           (Some (JObj [(''membership_id'', JText membership_id), (''deactivated_user_id'', JText (m_user_id m)),
                        (''reason'', JText reason)])))))))"

end
