(* ===== verification/AuthProps.thy ===== *)
theory AuthProps
  imports AuthRoutes LimiterProps Demo
begin

text \<open>
  Sessions and access: rotation of refresh tokens, what a password reset or a logout revokes,
  what becomes of a replayed token, and who an access token stands for.
\<close>

section \<open>How the session table evolves\<close>

definition unique_hashes :: "db \<Rightarrow> bool" where
  "unique_hashes D \<longleftrightarrow> unique_on rs_token_hash (refresh_sessions D)"

text \<open>Rows are never removed, keep their token, owner and family, and stay revoked once they are.\<close>

definition carried :: "RefreshSession \<Rightarrow> RefreshSession \<Rightarrow> bool" where
  "carried s s' \<longleftrightarrow> rs_id s' = rs_id s \<and> rs_token_hash s' = rs_token_hash s \<and> rs_user_id s' = rs_user_id s \<and>
     rs_family_id s' = rs_family_id s \<and> (rs_revoked_at s \<noteq> None \<longrightarrow> rs_revoked_at s' \<noteq> None)"

definition evolves :: "db \<Rightarrow> db \<Rightarrow> bool" where
  "evolves D D' \<longleftrightarrow> (unique_hashes D \<longrightarrow> unique_hashes D') \<and>
     (\<forall>s \<in> set (refresh_sessions D). \<exists>s' \<in> set (refresh_sessions D'). carried s s')"

lemma carried_refl [simp]: "carried s s"
  by (simp add: carried_def)

lemma carried_trans: "carried s s' \<Longrightarrow> carried s' s'' \<Longrightarrow> carried s s''"
  by (simp add: carried_def)

lemma carried_self: "s \<in> set ss \<Longrightarrow> \<exists>s' \<in> set ss. carried s s'"
  using carried_refl by blast

lemma evolves_refl [simp]: "evolves D D"
  by (simp add: evolves_def carried_self)

lemma evolves_trans: "evolves D1 D2 \<Longrightarrow> evolves D2 D3 \<Longrightarrow> evolves D1 D3"
  unfolding evolves_def by (meson carried_trans)

lemma evolves_same: "refresh_sessions D' = refresh_sessions D \<Longrightarrow> evolves D D'"
  by (simp add: evolves_def unique_hashes_def carried_self)

lemma evolves_append:
  "rs_token_hash s \<notin> rs_token_hash ` set (refresh_sessions D) \<Longrightarrow>
   evolves D (D\<lparr>refresh_sessions := refresh_sessions D @ [s]\<rparr>)"
  using carried_refl by (fastforce simp: evolves_def unique_hashes_def)

definition keeps_identity :: "(RefreshSession \<Rightarrow> RefreshSession) \<Rightarrow> bool" where
  "keeps_identity f \<longleftrightarrow> (\<forall>s. carried s (f s))"

lemma keeps_identity_intros [intro, simp]:
  "keeps_identity (revoked E reason)"
  "keeps_identity (\<lambda>s. s\<lparr>rs_replaced_by_session_id := x\<rparr>)"
  by (simp_all add: keeps_identity_def carried_def revoked_def)

lemma refresh_session_flush_fields [simp]:
  "rs_id (refresh_session_flush E old new) = rs_id new"
  "rs_token_hash (refresh_session_flush E old new) = rs_token_hash new"
  "rs_user_id (refresh_session_flush E old new) = rs_user_id new"
  "rs_family_id (refresh_session_flush E old new) = rs_family_id new"
  "rs_revoked_at (refresh_session_flush E old new) = rs_revoked_at new"
  "rs_expires_at (refresh_session_flush E old new) = rs_expires_at new"
  by (simp_all add: refresh_session_flush_def)

lemma update_refresh_session_evolves:
  assumes "keeps_identity f"
  shows "evolves D (update_refresh_session E i f D)"
proof -
  let ?g = "\<lambda>s. if rs_id s = i then refresh_session_flush E s (f s) else s"
  have rows: "refresh_sessions (update_refresh_session E i f D) = map ?g (refresh_sessions D)"
    by (simp add: update_refresh_session_def update_row_def)
  have g: "carried s (?g s)" for s
    using assms by (simp add: keeps_identity_def carried_def)
  have "map rs_token_hash (map ?g (refresh_sessions D)) = map rs_token_hash (refresh_sessions D)"
    using g by (simp add: carried_def)
  then have "unique_hashes (update_refresh_session E i f D) = unique_hashes D"
    unfolding unique_hashes_def unique_on_def rows by (simp only:)
  moreover have "?g s \<in> set (refresh_sessions (update_refresh_session E i f D))" if "s \<in> set (refresh_sessions D)" for s
    using that unfolding rows set_map by (rule imageI)
  ultimately show ?thesis unfolding evolves_def using g by blast
qed

lemma fold_update_evolves:
  "(\<And>s. keeps_identity (f s)) \<Longrightarrow> evolves D (fold (\<lambda>s. update_refresh_session E (g s) (f s)) ss D)"
proof (induction ss arbitrary: D)
  case (Cons s ss)
  then show ?case using evolves_trans update_refresh_session_evolves by fastforce
qed simp

lemma create_refresh_session_evolves:
  "create_refresh_session s D = Inr D' \<Longrightarrow> evolves D D'"
  by (auto simp: create_refresh_session_def intro: evolves_append split: if_splits)

lemma issue_session_Inr:
  assumes "issue_session A E n u role fam ip ua D = Inr ((acc, rt, s), D')"
  shows "s = new_session A E n u fam ip ua \<and> rt = create_refresh_token A E (fresh E (n + 2)) u \<and>
    acc = create_access_token A E (fresh E (n + 1)) u (if truthy role then role else None) \<and>
    rs_token_hash s \<notin> rs_token_hash ` set (refresh_sessions D) \<and>
    D' = D\<lparr>refresh_sessions := refresh_sessions D @ [s]\<rparr>"
  using assms by (auto simp: issue_session_def create_refresh_session_def Let_def sbind_Inr_iff split: if_splits)

lemma run_write_Inr: "run_write f w = (Inr x, w') \<longleftrightarrow> (\<exists>D. f (fst w) = Inr (x, D) \<and> w' = (D, snd w))"
  by (auto simp: run_write_def split: sum.splits prod.splits)

lemma issue_session_evolves: "issue_session A E n u role fam ip ua D = Inr (x, D') \<Longrightarrow> evolves D D'"
  by (cases x) (auto dest!: issue_session_Inr intro: evolves_append)

lemma update_user_sessions [simp]: "refresh_sessions (update_user E u v D) = refresh_sessions D"
  by (simp add: update_user_def)

section \<open>Rotation\<close>

text \<open>A token whose session is revoked is refused in every state.\<close>

definition dead :: "string \<Rightarrow> db \<Rightarrow> bool" where
  "dead h D \<longleftrightarrow> unique_hashes D \<and> (\<exists>s \<in> set (refresh_sessions D). rs_token_hash s = h \<and> rs_revoked_at s \<noteq> None)"

lemma dead_evolves: "dead h D \<Longrightarrow> evolves D D' \<Longrightarrow> dead h D'"
  unfolding dead_def evolves_def carried_def by blast

lemma lookup_dead:
  assumes "dead h D"
  shows "get_refresh_session_by_token_hash S h D = Inr None \<or>
    (\<exists>s. get_refresh_session_by_token_hash S h D = Inr (Some s) \<and> rs_revoked_at s \<noteq> None)"
proof -
  let ?rows = "filter (\<lambda>s. rs_token_hash s = h) (readable_sessions S D)"
  from assms obtain s where s: "s \<in> set (refresh_sessions D)" "rs_token_hash s = h" "rs_revoked_at s \<noteq> None"
    and uniq: "unique_on rs_token_hash (refresh_sessions D)" by (auto simp: dead_def unique_hashes_def)
  have "unique_on rs_token_hash ?rows"
    using uniq by (simp add: unique_on_def readable_sessions_def distinct_map_filter)
  moreover have "\<forall>r \<in> set ?rows. r = s" using s uniq by (auto simp: readable_sessions_def dest: unique_onD)
  ultimately have "?rows = [] \<or> ?rows = [s]"
    by (cases ?rows; cases "tl ?rows") (auto simp: unique_on_def)
  then show ?thesis using s(3) by (auto simp: get_refresh_session_by_token_hash_def scalar_one_or_none_def)
qed

lemma refresh_dead:
  assumes "dead (sha256_hex (ae_crypto A) tok) (fst w)"
  shows "fst (refresh A E S tok ip ua w) = Inr None"
proof (cases "decode_refresh_token A E tok")
  case None
  then show ?thesis by (simp add: refresh_def ret_def)
next
  case (Some payload)
  with lookup_dead [OF assms, of "session_settings (the (cl_sub payload)) S"] show ?thesis
    by (auto simp: refresh_def Let_def revoke_family_def bindA_def action_defs split: prod.splits)
qed

section \<open>Every route evolves the table\<close>

definition preserving :: "('v, 'a) action \<Rightarrow> bool" where
  "preserving m \<longleftrightarrow> (\<forall>w. evolves (fst w) (fst (snd (m w))))"

named_theorems preserving_intros

lemma preserving_basic [preserving_intros]:
  "preserving (ret x)" "preserving (throw e)" "preserving (query q)" "preserving (query_or_raise q')"
  "preserving (ask_redis qr)" "preserving (write_redis h)"
  by (simp_all add: preserving_def action_defs)

lemma preserving_bindA [preserving_intros]:
  assumes m: "preserving m" and f: "\<And>x. preserving (f x)"
  shows "preserving (bindA m f)"
  unfolding preserving_def
proof (intro allI)
  fix w
  obtain e w1 where m1: "m w = (e, w1)" by (cases "m w")
  then have first: "evolves (fst w) (fst w1)" using m unfolding preserving_def by (metis snd_conv)
  show "evolves (fst w) (fst (snd (bindA m f w)))"
  proof (cases e)
    case (Inr x)
    then have "evolves (fst w1) (fst (snd (f x w1)))" using f unfolding preserving_def by blast
    then show ?thesis using first Inr m1 by (simp add: bindA_def) (rule evolves_trans)
  qed (simp add: bindA_def m1 first)
qed

lemma preserving_write [preserving_intros]: "(\<And>D. evolves D (f D)) \<Longrightarrow> preserving (write_db f)"
  by (simp add: preserving_def write_db_def)

lemma preserving_run_write [preserving_intros]:
  "(\<And>D x D'. f D = Inr (x, D') \<Longrightarrow> evolves D D') \<Longrightarrow> preserving (run_write f)"
  by (auto simp: preserving_def run_write_def split: sum.splits)

lemma preserving_limited [preserving_intros]: "preserving (limited st E action i message)"
  by (auto simp: preserving_def limited_def split: prod.splits sum.splits)

lemma preserving_audit [preserving_intros]: "preserving (audit E i act result a t rq meta)"
  by (auto simp: preserving_def audit_def write_db_def log_auth_event_def Let_def intro!: evolves_same)

lemma preserving_issue [preserving_intros]: "preserving (run_write (issue_session A E n u role fam ip ua))"
  by (intro preserving_intros issue_session_evolves)

lemma preserving_revoke_all [preserving_intros]: "preserving (revoke_user_all_sessions A E S u reason)"
  unfolding revoke_user_all_sessions_def by (intro preserving_intros fold_update_evolves) simp

lemma preserving_revoke_family [preserving_intros]: "preserving (revoke_family E S u fam reason)"
  unfolding revoke_family_def by (intro preserving_intros fold_update_evolves) simp

lemma preserving_issue_with [preserving_intros]:
  "(\<And>a b c. preserving (f (a, b, c))) \<Longrightarrow> preserving (bindA (run_write (issue_session A E n u role fam ip ua)) f)"
  by (rule preserving_bindA [OF preserving_issue]) auto

lemma preserving_login [preserving_intros]: "preserving (login A E email password ip ua)"
  unfolding login_def
  by (intro preserving_intros)
    (auto split: option.split intro!: preserving_intros evolves_same simp: update_last_login_def)

lemma preserving_register [preserving_intros]: "preserving (register A E email password name ip ua)"
  unfolding register_def Let_def
  by (intro preserving_intros) (auto intro!: preserving_intros evolves_same)

lemma preserving_rotate [preserving_intros]: "preserving (rotate_session A E s jti ip ua)"
  unfolding rotate_session_def
  by (intro preserving_intros)
    (auto split: option.split intro!: preserving_intros update_refresh_session_evolves)

lemma preserving_refresh [preserving_intros]: "preserving (refresh A E S token ip ua)"
  unfolding refresh_def Let_def
  by (auto split: option.split intro!: preserving_intros)

lemma preserving_logout [preserving_intros]: "preserving (logout A E S u token)"
  unfolding preserving_def
  by (auto simp: logout_def logout_token_def Let_def update_refresh_session_evolves split: option.split sum.split)

lemma preserving_reset [preserving_intros]: "preserving (reset_password A E S u old new)"
  unfolding reset_password_def
  by (intro preserving_intros)
    (auto split: option.split intro!: preserving_intros evolves_same simp: update_password_def)

lemma preserving_revoke_session [preserving_intros]: "preserving (revoke_session A E S i reason u)"
  unfolding revoke_session_def
  by (intro preserving_intros)
    (auto split: option.split intro!: preserving_intros update_refresh_session_evolves)

lemma update_membership_sessions [simp]: "refresh_sessions (update_membership E old new D) = refresh_sessions D"
  by (simp add: update_membership_def)

lemma preserving_routes:
  "preserving (login_route A st E rq email password)"
  "preserving (register_route A st E rq email password name)"
  "preserving (refresh_route A st E S rq cookie)"
  "preserving (logout_route A E S rq a cookie)"
  "preserving (password_reset_route A st E S rq a current new)"
  "preserving (revoke_session_route A st E S rq a i reason)"
  "preserving (deactivate_employee_route A st E S rq a i reason)"
  unfolding login_route_def register_route_def refresh_route_def logout_route_def password_reset_route_def
    revoke_session_route_def deactivate_employee_route_def
  by (auto split: option.split intro!: preserving_intros evolves_same simp: record_deactivation_def)

text \<open>One request to one of the routes, with its commit or roll back.\<close>

inductive auth_step :: "'tok auth_env \<Rightarrow> rate_settings \<Rightarrow> db \<times> 'v redis \<Rightarrow> db \<times> 'v redis \<Rightarrow> bool"
  for A :: "'tok auth_env" and st :: rate_settings where
  step_login: "auth_step A st w (snd (get_db_session (login_route A st E rq email password) w))"
| step_register: "auth_step A st w (snd (get_db_session (register_route A st E rq email password name) w))"
| step_refresh: "auth_step A st w (snd (get_db_session (refresh_route A st E S rq cookie) w))"
| step_logout: "auth_step A st w (snd (get_db_session (logout_route A E S rq a cookie) w))"
| step_password_reset: "auth_step A st w (snd (get_db_session (password_reset_route A st E S rq a current new) w))"
| step_revoke_session: "auth_step A st w (snd (get_db_session (revoke_session_route A st E S rq a i reason) w))"
| step_deactivate: "auth_step A st w (snd (get_db_session (deactivate_employee_route A st E S rq a i reason) w))"

lemma session_evolves:
  assumes "preserving m"
  shows "evolves (fst w) (fst (snd (get_db_session m w)))"
proof -
  have "evolves (fst w) (fst (snd (m w)))" using assms unfolding preserving_def by blast
  then show ?thesis by (auto simp: get_db_session_def split: prod.splits sum.splits)
qed

lemma auth_step_evolves: "auth_step A st w w' \<Longrightarrow> evolves (fst w) (fst w')"
  by (induction rule: auth_step.induct) (rule session_evolves, rule preserving_routes)+

lemma auth_steps_evolve: "(auth_step A st)\<^sup>*\<^sup>* w w' \<Longrightarrow> evolves (fst w) (fst w')"
  by (induction rule: rtranclp_induct) (auto intro: evolves_trans auth_step_evolves)

lemma user_settings_select [simp]:
  "u \<noteq> [] \<Longrightarrow> p_select (user_policy (session_settings u S) rs_user_id) s \<longleftrightarrow> rs_user_id s = u"
  by (simp add: user_policy_def insert_by_anyone_policy_def for_all_policy_def rls_user_check_def
      session_settings_def eq_commute)

section \<open>A refresh token is good once\<close>

lemma after_write:
  "(\<And>x. preserving (f x)) \<Longrightarrow> evolves (g (fst w)) (fst (snd (bindA (write_db g) f w)))"
  unfolding preserving_def by (metis bindA_simps(4) fst_conv)

lemma rotate_evolves_from:
  "evolves (update_refresh_session E (rs_id s) (revoked E ''refresh_rotation'') (fst w))
     (fst (snd (rotate_session A E s jti ip ua w)))"
  unfolding rotate_session_def
  by (rule after_write, intro preserving_intros)
    (auto split: option.split intro!: preserving_intros update_refresh_session_evolves)

lemma revoked_is_dead:
  assumes "unique_hashes D" and "s \<in> set (refresh_sessions D)"
  shows "dead (rs_token_hash s) (update_refresh_session E (rs_id s) (revoked E reason) D)"
proof -
  let ?D = "update_refresh_session E (rs_id s) (revoked E reason) D"
  have "unique_hashes ?D"
    using assms(1) update_refresh_session_evolves [OF keeps_identity_intros(1)] unfolding evolves_def by blast
  moreover have "refresh_session_flush E s (revoked E reason s) \<in> set (refresh_sessions ?D)"
    using assms(2) by (force simp: update_refresh_session_def update_row_def)
  ultimately show ?thesis
    unfolding dead_def
    by (intro conjI bexI [where x = "refresh_session_flush E s (revoked E reason s)"]) (simp_all add: revoked_def)
qed

lemma token_hash_lookup:
  assumes "get_refresh_session_by_token_hash S h D = Inr (Some s)"
  shows "s \<in> set (refresh_sessions D) \<and> rs_token_hash s = h"
proof -
  from assms have "filter (\<lambda>s. rs_token_hash s = h) (readable_sessions S D) = [s]"
    by (simp add: get_refresh_session_by_token_hash_def scalar_one_or_none_Some)
  then have "s \<in> set (filter (\<lambda>s. rs_token_hash s = h) (readable_sessions S D))" by simp
  then show ?thesis by (simp add: readable_sessions_def)
qed

lemma revoke_family_result: "\<exists>w'. revoke_family E S u fam reason w = (Inr (), w')"
  by (simp add: revoke_family_def write_redis_def)

lemma bindA_InrE:
  assumes "bindA m f w = (Inr y, w')"
  obtains x w1 where "m w = (Inr x, w1)" and "f x w1 = (Inr y, w')"
  using assms by (auto simp: bindA_Inr)

lemma bindA_query_or_raise: "q (fst w) = Inr x \<Longrightarrow> bindA (query_or_raise q) f w = f x w"
  by (simp add: bindA_def query_or_raise_def)

lemma refresh_cases:
  "refresh A E S tok ip ua w =
     (case decode_refresh_token A E tok of
        None \<Rightarrow> (Inr None, w)
      | Some p \<Rightarrow>
          if \<not> truthy (cl_sub p) \<or> \<not> truthy (cl_jti p) \<or> is_token_blacklisted (now_at E) (the (cl_jti p)) (snd w)
          then (Inr None, w)
          else (case get_refresh_session_by_token_hash (session_settings (the (cl_sub p)) S)
                       (sha256_hex (ae_crypto A) tok) (fst w) of
             Inl e \<Rightarrow> (Inl e, w)
           | Inr None \<Rightarrow> (Inr None, w)
           | Inr (Some s) \<Rightarrow>
               if rs_revoked_at s \<noteq> None
               then (Inr None, snd (revoke_family E (session_settings (the (cl_sub p)) S)
                       (rs_user_id s) (rs_family_id s) ''refresh_rotation'' w))
               else if rs_expires_at s < now_at E then (Inr None, w)
               else rotate_session A E s (the (cl_jti p)) ip ua w))"
proof (cases "decode_refresh_token A E tok")
  case (Some p)
  let ?q = "get_refresh_session_by_token_hash (session_settings (the (cl_sub p)) S) (sha256_hex (ae_crypto A) tok) (fst w)"
  show ?thesis
  proof (cases ?q)
    case (Inr found)
    obtain w' where "revoke_family E (session_settings (the (cl_sub p)) S) (rs_user_id (the found))
        (rs_family_id (the found)) ''refresh_rotation'' w = (Inr (), w')"
      using revoke_family_result by blast
    then show ?thesis
      using Some Inr by (cases found) (simp_all add: refresh_def Let_def bindA_query_or_raise bindA_def [of "revoke_family _ _ _ _ _"] ret_def)
  qed (simp add: refresh_def Let_def Some bindA_def [of "query_or_raise _"] query_or_raise_def ret_def)
qed (simp add: refresh_def ret_def)

lemma refresh_Inr:
  assumes "refresh A E S tok ip ua w = (Inr (Some res), w')"
  shows "\<exists>s jti S1. get_refresh_session_by_token_hash S1 (sha256_hex (ae_crypto A) tok) (fst w) = Inr (Some s) \<and>
    rotate_session A E s jti ip ua w = (Inr (Some res), w')"
  using assms by (auto simp: refresh_cases split: option.splits if_splits sum.splits)

lemma refresh_kills:
  assumes "unique_hashes (fst w)" and "refresh A E S tok ip ua w = (Inr (Some res), w')"
  shows "dead (sha256_hex (ae_crypto A) tok) (fst w')"
proof -
  obtain s jti where s: "s \<in> set (refresh_sessions (fst w))" "rs_token_hash s = sha256_hex (ae_crypto A) tok"
    and r: "rotate_session A E s jti ip ua w = (Inr (Some res), w')"
    using refresh_Inr [OF assms(2)] token_hash_lookup by blast
  have "dead (rs_token_hash s) (fst (snd (rotate_session A E s jti ip ua w)))"
    using revoked_is_dead [OF assms(1) s(1)] rotate_evolves_from by (rule dead_evolves)
  then show ?thesis by (simp add: r s(2))
qed

lemma refresh_route_Inr:
  fixes w :: "db \<times> 'v redis"
  assumes "refresh_route A st E S rq (Some tok) w = (Inr ans, w')"
  shows "\<exists>res (w0 :: db \<times> 'v redis) w1. fst w0 = fst w \<and> refresh A E S tok (rq_ip rq) (rq_user_agent rq) w0 = (Inr (Some res), w1) \<and>
    evolves (fst w1) (fst w') \<and> sa_refresh_cookie ans = is_refresh_token res"
proof -
  let ?limit = "limited st E ''refresh'' (sha256_hex (ae_crypto A) tok) ''Too many refresh attempts. Try again later.''"
  from assms obtain x w0 result w1 where l: "?limit w = (Inr x, w0)"
    and r: "refresh A E S tok (rq_ip rq) (rq_user_agent rq) w0 = (Inr result, w1)"
    and rest: "(case result of
        None \<Rightarrow> bindA (audit E (fresh E 6) ''auth.refresh.failure'' ''failure'' None None rq None)
          (\<lambda>_. throw (AppException 401 ''Invalid or expired refresh token'' (Some ''INVALID_REFRESH_TOKEN'') []))
      | Some res \<Rightarrow>
          bindA (audit E (fresh E 6) ''auth.refresh.success'' ''success'' (Some (u_id (is_user res))) None rq None)
            (\<lambda>_. query (session_answer_of A res None))) w1 = (Inr ans, w')"
    unfolding refresh_route_def option.case by (elim bindA_InrE)
  have frame: "fst w0 = fst w" using l by (auto simp: limited_def split: prod.splits sum.splits if_splits)
  obtain res where res: "result = Some res"
    using rest by (cases result) (auto simp: bindA_def throw_def audit_def write_db_def)
  have after: "evolves (fst w1) (fst w')" "sa_refresh_cookie ans = is_refresh_token res"
    using rest unfolding res
    by (auto simp: audit_def query_def session_answer_of_def log_auth_event_def Let_def intro!: evolves_same)
  show ?thesis
    using frame after r unfolding res
    by - (rule exI [of _ res], rule exI [of _ w0], rule exI [of _ w1], simp)
qed

lemma refresh_route_dead:
  assumes "dead (sha256_hex (ae_crypto A) tok) (fst w)"
  shows "\<exists>e. fst (refresh_route A st E S rq (Some tok) w) = Inl e"
proof (cases "fst (refresh_route A st E S rq (Some tok) w)")
  case (Inr ans)
  then obtain w' where "refresh_route A st E S rq (Some tok) w = (Inr ans, w')" by (metis prod.collapse)
  from refresh_route_Inr [OF this] assms show ?thesis
    using refresh_dead by (metis fst_conv option.distinct(1) sum.inject(2))
qed simp

lemma dead_token_refused:
  assumes "dead h (fst w)" and "sha256_hex (ae_crypto A) tok = h"
  shows "\<exists>e. fst (get_db_session (refresh_route A st E S rq (Some tok)) w) = Inl e"
proof -
  obtain e where "fst (refresh_route A st E S rq (Some tok) w) = Inl e"
    using refresh_route_dead [of A tok w st E S rq] assms by auto
  then show ?thesis by (auto simp: get_db_session_def split: prod.splits sum.splits)
qed

text \<open>
  C6. A refresh token is good once: after a refresh with it succeeded, no later request
  presenting it succeeds, whatever requests to the authentication routes come in between and
  however they end.
\<close>

theorem refresh_token_single_use:
  fixes w :: "db \<times> 'v redis"
  assumes "unique_hashes (fst w)"
    and "get_db_session (refresh_route A st E S rq (Some tok)) w = (Inr ans, w1)"
    and "(auth_step A st)\<^sup>*\<^sup>* w1 w2"
  shows "\<exists>e. fst (get_db_session (refresh_route A st E' S' rq' (Some tok)) w2) = Inl e"
proof -
  have route: "refresh_route A st E S rq (Some tok) w = (Inr ans, w1)"
    using assms(2) by (auto simp: get_db_session_def split: prod.splits sum.splits)
  obtain res v1 and v0 :: "db \<times> 'v redis" where "fst v0 = fst w" "refresh A E S tok (rq_ip rq) (rq_user_agent rq) v0 = (Inr (Some res), v1)"
    and after: "evolves (fst v1) (fst w1)"
    using refresh_route_Inr [OF route] by blast
  then have "dead (sha256_hex (ae_crypto A) tok) (fst v1)" using refresh_kills assms(1) by metis
  then have "dead (sha256_hex (ae_crypto A) tok) (fst w1)" using after by (rule dead_evolves)
  then have "dead (sha256_hex (ae_crypto A) tok) (fst w2)"
    using auth_steps_evolve [OF assms(3)] by (rule dead_evolves)
  then show ?thesis by (rule dead_token_refused) simp
qed


text \<open>
  Concrete parameters: a token is its secret with its claims, signed by being so, and its hash is
  its identifier; a password is its own hash.
\<close>

definition demo_crypto :: "(string \<times> claims) crypto" where
  "demo_crypto = \<lparr>jwt_encode = Pair,
     jwt_decode = (\<lambda>now secret tok. if fst tok = secret \<and> now < seconds (cl_exp (snd tok)) then Some (snd tok) else None),
     sha256_hex = (\<lambda>tok. or_empty (cl_jti (snd tok))), bcrypt_hash = (\<lambda>salt p. p), bcrypt_check = (=)\<rparr>"

definition demo_auth :: "(string \<times> claims) auth_env" where
  "demo_auth = \<lparr>ae_crypto = demo_crypto, ae_settings = \<lparr>jwt_access_secret = ''as'', jwt_refresh_secret = ''rs'',
     jwt_access_ttl_minutes = 15, jwt_refresh_ttl_days = 7\<rparr>\<rparr>"

definition demo_request :: request where
  "demo_request = \<lparr>rq_ip = None, rq_user_agent = None, rq_request_id = None\<rparr>"

definition demo_token :: "string \<times> claims" where
  "demo_token = (''rs'', \<lparr>cl_sub = Some ''u1'', cl_iat = 0, cl_exp = 1000, cl_jti = Some ''j1'',
     cl_type = ''refresh'', cl_role = None\<rparr>)"

definition demo_session :: "timestamp option \<Rightarrow> RefreshSession" where
  "demo_session revoked_at =
     \<lparr>rs_id = ''s1'', rs_user_id = ''u1'', rs_token_hash = ''j1'', rs_family_id = ''fam'', rs_issued_at = 5,
      rs_expires_at = seconds 1000, rs_last_used_at = None, rs_revoked_at = revoked_at,
      rs_revocation_reason = None, rs_replaced_by_session_id = None, rs_ip_address = None,
      rs_user_agent = None, rs_created_at = 5, rs_updated_at = 5\<rparr>"

definition demo_auth_db :: "timestamp option \<Rightarrow> db" where
  "demo_auth_db revoked_at = empty_db\<lparr>users := [demo_user ''u1''], refresh_sessions := [demo_session revoked_at]\<rparr>"

lemmas demo_auth_defs = demo_crypto_def demo_auth_def demo_request_def demo_token_def demo_session_def
  demo_auth_db_def demo_user_def demo_env_def empty_db_def

definition demo_limits :: rate_settings where
  "demo_limits = \<lparr>rate_limit_default_max_requests = 60, rate_limit_default_window_seconds = 60\<rparr>"

lemma demo_limit:
  "limited st demo_env ''refresh'' i message (D, Map.empty) =
     (Inr (), D, redis_set 100 (rate_limit_key ''auth:refresh'' i 300) (RText ''1'') (Some 300) Map.empty)"
  by (simp add: limited_def check_auth_rate_limit_def AUTH_RATE_LIMITS_def dict_get_def check_rate_limit_def
      or_default_def redis_get_def demo_env_def)

lemma demo_limit_reset:
  "limited st demo_env ''password_reset'' i message (D, Map.empty) =
     (Inr (), D, redis_set 100 (rate_limit_key ''auth:password_reset'' i 600) (RText ''1'') (Some 600) Map.empty)"
  by (simp add: limited_def check_auth_rate_limit_def AUTH_RATE_LIMITS_def dict_get_def check_rate_limit_def
      or_default_def redis_get_def demo_env_def)

lemma demo_decode: "decode_refresh_token demo_auth demo_env demo_token = Some (snd demo_token)"
  by (simp add: decode_refresh_token_def demo_auth_defs seconds_def)

lemma demo_hash: "sha256_hex (ae_crypto demo_auth) demo_token = ''j1''"
  by (simp add: demo_auth_defs or_empty_def)

lemma demo_lookup:
  "get_refresh_session_by_token_hash (session_settings ''u1'' S) ''j1'' (demo_auth_db x) = Inr (Some (demo_session x))"
  by (simp add: get_refresh_session_by_token_hash_def readable_sessions_def demo_auth_db_def
      scalar_one_or_none_def demo_session_def)

lemma demo_rotate:
  "\<exists>res w'. rotate_session demo_auth demo_env (demo_session None) ''j1'' ip ua (demo_auth_db None, r) = (Inr (Some res), w')"
  by (simp add: rotate_session_def bindA_def [of "run_write _"] run_write_def issue_session_def Let_def get_user_by_id_def
      find_row_def demo_auth_db_def demo_user_def account_active_def create_refresh_session_def new_session_def
      update_refresh_session_def update_row_def demo_session_def refresh_session_flush_def revoked_def
      create_refresh_token_def refresh_claims_def demo_auth_def demo_crypto_def demo_env_def or_empty_def ret_def)

lemma blacklist_frame [simp]:
  "is_token_blacklisted now j (redis_set t (rate_limit_key a b c) v ttl r) = is_token_blacklisted now j r"
  "is_token_blacklisted now j (invalidate_user_sessions t u r) = is_token_blacklisted now j r"
  "\<not> is_token_blacklisted now j Map.empty"
  by (simp_all add: is_token_blacklisted_def blacklist_key_def rate_limit_key_def invalidate_user_sessions_def
      session_invalidation_key_def) (simp add: redis_get_def)

lemma demo_refresh:
  "\<exists>ans w1. get_db_session (refresh_route demo_auth demo_limits demo_env (\<lambda>_. None) demo_request (Some demo_token))
     (demo_auth_db None, (Map.empty :: unit redis)) = (Inr ans, w1)"
proof -
  let ?r = "redis_set 100 (rate_limit_key ''auth:refresh'' ''j1'' 300) (RText ''1'') (Some 300) (Map.empty :: unit redis)"
  obtain res w' where rot: "rotate_session demo_auth demo_env (demo_session None) ''j1'' None None (demo_auth_db None, ?r) = (Inr (Some res), w')"
    using demo_rotate by blast
  have "refresh demo_auth demo_env (\<lambda>_. None) demo_token None None (demo_auth_db None, ?r) = (Inr (Some res), w')"
    using rot
    by (simp add: refresh_cases demo_decode demo_hash demo_lookup)
      (simp add: demo_token_def demo_env_def demo_session_def demo_lookup truthy_def seconds_def)
  then show ?thesis
    by (simp add: get_db_session_def refresh_route_def bindA_def [of "limited _ _ _ _ _"] demo_limit demo_hash
    bindA_def [of "refresh _ _ _ _ _ _"]
      demo_request_def audit_def query_def)
qed

theorem refresh_token_single_use_witness:
  "\<exists>ans w1. get_db_session (refresh_route demo_auth demo_limits demo_env (\<lambda>_. None) demo_request (Some demo_token))
     (demo_auth_db None, (Map.empty :: unit redis)) = (Inr ans, w1) \<and>
   (\<exists>e. fst (get_db_session (refresh_route demo_auth demo_limits demo_env (\<lambda>_. None) demo_request (Some demo_token)) w1) = Inl e)"
proof -
  obtain ans w1 where first: "get_db_session (refresh_route demo_auth demo_limits demo_env (\<lambda>_. None) demo_request (Some demo_token))
     (demo_auth_db None, (Map.empty :: unit redis)) = (Inr ans, w1)" using demo_refresh by blast
  have "unique_hashes (demo_auth_db None)" by (simp add: unique_hashes_def demo_auth_db_def)
  with refresh_token_single_use [OF _ first rtranclp.rtrancl_refl] first show ?thesis by fastforce
qed

section \<open>A password reset ends every session\<close>

lemma fold_revoked_dead:
  assumes "unique_hashes D" and "s \<in> set (refresh_sessions D)" and "rs_id s \<in> rs_id ` set ss"
  shows "dead (rs_token_hash s) (fold (\<lambda>s. update_refresh_session E (rs_id s) (revoked E reason)) ss D)"
  using assms
proof (induction ss arbitrary: D s)
  case (Cons x ss)
  let ?f = "\<lambda>s. update_refresh_session E (rs_id s) (revoked E reason)"
  let ?D = "?f x D"
  show ?case
  proof (cases "rs_id x = rs_id s")
    case True
    have "dead (rs_token_hash s) ?D" using revoked_is_dead [OF Cons.prems(1, 2), of E reason] True by simp
    moreover have "evolves ?D (fold ?f ss ?D)" by (rule fold_update_evolves) simp
    ultimately show ?thesis by (simp add: dead_evolves)
  next
    case False
    have ev: "evolves D ?D" by (rule update_refresh_session_evolves) simp
    then obtain s' where s': "s' \<in> set (refresh_sessions ?D)" "carried s s'"
      using Cons.prems(2) unfolding evolves_def by blast
    have "unique_hashes ?D" using ev Cons.prems(1) unfolding evolves_def by blast
    moreover have "rs_id s' \<in> rs_id ` set ss" using Cons.prems(3) False s'(2) by (auto simp: carried_def)
    ultimately have "dead (rs_token_hash s') (fold ?f ss ?D)" using s'(1) Cons.IH by blast
    then show ?thesis using s'(2) by (simp add: carried_def)
  qed
qed simp

lemma revoke_all_kills:
  assumes "unique_hashes (fst w)" and "s \<in> set (refresh_sessions (fst w))" and "rs_user_id s = u" and "u \<noteq> []"
    and "rs_issued_at s < rs_expires_at s"
  shows "dead (rs_token_hash s) (fst (snd (revoke_user_all_sessions A E S u reason w)))"
proof (cases "rs_revoked_at s = None")
  case True
  then have "s \<in> set (get_active_sessions_for_user (session_settings u S) u (fst w))"
    using assms by (simp add: get_active_sessions_for_user_def readable_sessions_def)
  from fold_revoked_dead [OF assms(1, 2) imageI [OF this]] show ?thesis
    by (simp add: revoke_user_all_sessions_def ret_def)
next
  case False
  have "dead (rs_token_hash s) (fst w)" using assms(1, 2) False unfolding dead_def by blast
  then show ?thesis using preserving_revoke_all dead_evolves unfolding preserving_def by blast
qed

lemma revoke_all_result: "\<exists>n w'. revoke_user_all_sessions A E S u reason w = (Inr n, w')"
  by (simp add: revoke_user_all_sessions_def ret_def)

lemma reset_password_Inr:
  fixes w :: "db \<times> 'v redis"
  assumes "reset_password A E S u current new w = (Inr True, w')"
  shows "\<exists>v :: db \<times> 'v redis. refresh_sessions (fst v) = refresh_sessions (fst w) \<and>
    w' = snd (revoke_user_all_sessions A E S u ''password_reset'' v)"
proof -
  obtain user where user: "get_user_by_id u (fst w) = Some user"
    and ok: "verify_password A current (u_password_hash user)"
    using assms by (auto simp: reset_password_def ret_def split: option.splits if_splits)
  let ?v = "(update_password E user (hash_password A (fresh E 0) new) (fst w), snd w)"
  obtain n v' where "revoke_user_all_sessions A E S u ''password_reset'' ?v = (Inr n, v')"
    using revoke_all_result by blast
  then have "w' = snd (revoke_user_all_sessions A E S u ''password_reset'' ?v)"
    using assms user ok by (simp add: reset_password_def bindA_def [of "revoke_user_all_sessions _ _ _ _ _"] ret_def)
  then show ?thesis by (intro exI [of _ ?v]) (simp add: update_password_def)
qed

lemma password_reset_Inr:
  fixes w :: "db \<times> 'v redis"
  assumes "password_reset_route A st E S rq a current new w = (Inr (), w')"
  shows "\<exists>v :: db \<times> 'v redis. refresh_sessions (fst v) = refresh_sessions (fst w) \<and>
    evolves (fst (snd (revoke_user_all_sessions A E S (ac_id a) ''password_reset'' v))) (fst w')"
proof -
  from assms obtain x w0 success w1
    where l: "limited st E ''password_reset'' (ac_id a) ''Too many password reset attempts. Try again later.'' w = (Inr x, w0)"
    and r: "reset_password A E S (ac_id a) current new w0 = (Inr success, w1)"
    and rest: "(if \<not> success then throw (AppException 400 ''Current password is incorrect'' (Some ''INVALID_PASSWORD'') [])
       else audit E (fresh E 6) ''auth.password_reset'' ''success'' (Some (ac_id a)) None
            (rq\<lparr>rq_ip := None, rq_user_agent := None\<rparr>) None) w1 = (Inr (), w')"
    unfolding password_reset_route_def by (elim bindA_InrE)
  have frame: "fst w0 = fst w" using l by (auto simp: limited_def split: prod.splits sum.splits if_splits)
  have success: "success = True" using rest by (cases success) (auto simp: throw_def)
  have after: "evolves (fst w1) (fst w')"
    using rest by (auto simp: success audit_def write_db_def log_auth_event_def Let_def intro!: evolves_same)
  obtain v :: "db \<times> 'v redis" where "refresh_sessions (fst v) = refresh_sessions (fst w0)"
    "w1 = snd (revoke_user_all_sessions A E S (ac_id a) ''password_reset'' v)"
    using reset_password_Inr r unfolding success by blast
  then show ?thesis using frame after by (intro exI [of _ v]) simp
qed

text \<open>
  C29. A password reset ends every session of the user: no refresh token the user held before is
  accepted after it, whatever requests to the authentication routes follow.
\<close>

theorem password_reset_logs_out:
  fixes w :: "db \<times> 'v redis"
  assumes "unique_hashes (fst w)"
    and "get_db_session (password_reset_route A st E S rq a current new) w = (Inr (), w1)"
    and "s \<in> set (refresh_sessions (fst w))" and "rs_user_id s = ac_id a" and "ac_id a \<noteq> []"
    and "rs_issued_at s < rs_expires_at s" and "sha256_hex (ae_crypto A) tok = rs_token_hash s"
    and "(auth_step A st)\<^sup>*\<^sup>* w1 w2"
  shows "\<exists>e. fst (get_db_session (refresh_route A st E' S' rq' (Some tok)) w2) = Inl e"
proof -
  have "password_reset_route A st E S rq a current new w = (Inr (), w1)"
    using assms(2) by (auto simp: get_db_session_def split: prod.splits sum.splits)
  then obtain v :: "db \<times> 'v redis" where v: "refresh_sessions (fst v) = refresh_sessions (fst w)"
    and after: "evolves (fst (snd (revoke_user_all_sessions A E S (ac_id a) ''password_reset'' v))) (fst w1)"
    using password_reset_Inr by blast
  have "unique_hashes (fst v)" "s \<in> set (refresh_sessions (fst v))"
    using assms(1, 3) by (simp_all add: unique_hashes_def v)
  from revoke_all_kills [OF this assms(4-6)] have
    "dead (rs_token_hash s) (fst (snd (revoke_user_all_sessions A E S (ac_id a) ''password_reset'' v)))" .
  then have "dead (rs_token_hash s) (fst w1)" using after by (rule dead_evolves)
  then have "dead (rs_token_hash s) (fst w2)" using auth_steps_evolve [OF assms(8)] by (rule dead_evolves)
  then show ?thesis by (rule dead_token_refused [OF _ assms(7)])
qed

definition demo_actor :: actor where
  "demo_actor = \<lparr>ac_id = ''u1'', ac_email = ''u1@x'', ac_name = None, ac_role = Some ''user'', ac_permissions = [],
     ac_is_active = True, ac_tenant_id = None, ac_membership_id = None\<rparr>"

lemma demo_reset:
  "\<exists>w1. get_db_session (password_reset_route demo_auth demo_limits demo_env (\<lambda>_. None) demo_request demo_actor ''h'' ''new'')
     (demo_auth_db None, (Map.empty :: unit redis)) = (Inr (), w1)"
proof -
  let ?u = "demo_user ''u1''"
  have reset: "\<exists>w'. reset_password demo_auth demo_env (\<lambda>_. None) ''u1'' ''h'' ''new'' (demo_auth_db None, r) = (Inr True, w')"
    for r :: "unit redis"
  proof -
    obtain n w' where "revoke_user_all_sessions demo_auth demo_env (\<lambda>_. None) ''u1'' ''password_reset''
        (update_password demo_env ?u (hash_password demo_auth (fresh demo_env 0) ''new'') (demo_auth_db None), r) = (Inr n, w')"
      using revoke_all_result by blast
    then show ?thesis
      by (simp add: reset_password_def bindA_def [of "revoke_user_all_sessions _ _ _ _ _"] get_user_by_id_def find_row_def
          demo_auth_db_def ret_def)
        (simp add: demo_user_def verify_password_def demo_auth_def demo_crypto_def)
  qed
  let ?r = "redis_set 100 (rate_limit_key ''auth:password_reset'' ''u1'' 600) (RText ''1'') (Some 600) (Map.empty :: unit redis)"
  obtain w' where "reset_password demo_auth demo_env (\<lambda>_. None) ''u1'' ''h'' ''new'' (demo_auth_db None, ?r) = (Inr True, w')"
    using reset by blast
  then show ?thesis
    by (simp add: get_db_session_def password_reset_route_def bindA_def [of "limited _ _ _ _ _"] demo_actor_def
        demo_limit_reset bindA_def [of "reset_password _ _ _ _ _ _"] audit_def write_db_def)
qed

theorem password_reset_logs_out_witness:
  "\<exists>w1. get_db_session (password_reset_route demo_auth demo_limits demo_env (\<lambda>_. None) demo_request demo_actor ''h'' ''new'')
     (demo_auth_db None, (Map.empty :: unit redis)) = (Inr (), w1) \<and>
   (\<exists>e. fst (get_db_session (refresh_route demo_auth demo_limits demo_env (\<lambda>_. None) demo_request (Some demo_token)) w1) = Inl e)"
proof -
  obtain w1 where reset: "get_db_session (password_reset_route demo_auth demo_limits demo_env (\<lambda>_. None) demo_request demo_actor ''h'' ''new'')
     (demo_auth_db None, (Map.empty :: unit redis)) = (Inr (), w1)" using demo_reset by blast
  have "unique_hashes (fst (demo_auth_db None, (Map.empty :: unit redis)))"
    by (simp add: unique_hashes_def demo_auth_db_def)
  moreover have "demo_session None \<in> set (refresh_sessions (fst (demo_auth_db None, (Map.empty :: unit redis))))"
    by (simp add: demo_auth_db_def)
  ultimately show ?thesis
    using password_reset_logs_out [OF _ reset, of "demo_session None" demo_token w1 demo_env "\<lambda>_. None" demo_request] reset
    by (auto simp: demo_hash demo_actor_def demo_session_def seconds_def)
qed

section \<open>Replaying a revoked token\<close>

lemma check_rate_limit_frame:
  "take 10 k \<noteq> ''ratelimit:'' \<Longrightarrow> redis_get t k (snd (check_rate_limit st now kt i mx win r)) = redis_get t k r"
  by (auto simp: check_rate_limit_def Let_def rate_limit_key_def split: option.split rvalue.split)

lemma check_auth_frame:
  "take 10 k \<noteq> ''ratelimit:'' \<Longrightarrow> redis_get t k (snd (check_auth_rate_limit st now act i r)) = redis_get t k r"
  by (cases "dict_get AUTH_RATE_LIMITS act (30, 300)") (simp add: check_auth_rate_limit_def check_rate_limit_frame)

lemma limited_snd: "snd (limited st E act i message w) = (fst w, snd (check_auth_rate_limit st (now_at E) act i (snd w)))"
  by (auto simp: limited_def split: prod.split sum.split)

lemma blacklist_after_limit:
  "is_token_blacklisted t j (snd (snd (limited st E act i message w))) = is_token_blacklisted t j (snd w)"
  by (simp add: limited_snd is_token_blacklisted_def check_auth_frame blacklist_key_def)

lemma invalidation_after_limit:
  "get_session_invalidation_timestamp t u (snd (snd (limited st E act i message w))) =
   get_session_invalidation_timestamp t u (snd w)"
  by (simp add: limited_snd get_session_invalidation_timestamp_def check_auth_frame session_invalidation_key_def)

text \<open>The answer of \<open>refresh\<close> depends on Redis through the blacklist only.\<close>

lemma rotate_ignores_redis: "fst (rotate_session A E s jti ip ua (D, r)) = fst (rotate_session A E s jti ip ua (D, r'))"
proof -
  let ?D = "update_refresh_session E (rs_id s) (revoked E ''refresh_rotation'') D"
  show ?thesis
  proof (cases "get_user_by_id (rs_user_id s) ?D")
    case (Some user)
    let ?q = "issue_session A E 0 (u_id user) (lookup_role_slug (u_role_id user) ?D) (Some (rs_family_id s)) ip ua ?D"
    show ?thesis
      by (cases ?q) (auto simp: rotate_session_def Some bindA_def [of "run_write _"] run_write_def ret_def)
  qed (simp add: rotate_session_def ret_def)
qed

lemma refresh_ignores_redis:
  assumes "\<And>j. is_token_blacklisted (now_at E) j r = is_token_blacklisted (now_at E) j r'"
  shows "fst (refresh A E S tok ip ua (D, r)) = fst (refresh A E S tok ip ua (D, r'))"
  unfolding refresh_cases
  by (auto simp: assms intro: rotate_ignores_redis split: option.split sum.split)

lemma dead_refresh_redis:
  assumes "dead (sha256_hex (ae_crypto A) tok) (fst w)"
  shows "is_token_blacklisted t j (snd (snd (refresh A E S tok ip ua w))) = is_token_blacklisted t j (snd w)"
proof (cases "decode_refresh_token A E tok")
  case None
  then show ?thesis by (simp add: refresh_cases)
next
  case (Some p)
  have family: "snd (snd (revoke_family E S' u fam reason w)) = invalidate_user_sessions (now_at E) u (snd w)" for S' u fam reason
    by (simp add: revoke_family_def write_redis_def)
  show ?thesis
    using lookup_dead [OF assms, of "session_settings (the (cl_sub p)) S"]
    by (auto simp: refresh_cases Some family)
qed

lemma dead_route_redis:
  assumes "dead (sha256_hex (ae_crypto A) tok) (fst w)"
  shows "is_token_blacklisted t j (snd (snd (refresh_route A st E S rq (Some tok) w))) = is_token_blacklisted t j (snd w)"
proof -
  let ?limit = "limited st E ''refresh'' (sha256_hex (ae_crypto A) tok) ''Too many refresh attempts. Try again later.''"
  obtain res w0 where l: "?limit w = (res, w0)" by (cases "?limit w")
  have frame: "fst w0 = fst w" "is_token_blacklisted t j (snd w0) = is_token_blacklisted t j (snd w)"
    using limited_snd [of st E "''refresh''" _ _ w] blacklist_after_limit [of t j st E "''refresh''" _ _ w] l by (metis fst_conv snd_conv)+
  show ?thesis
  proof (cases res)
    case (Inr u)
    have d: "dead (sha256_hex (ae_crypto A) tok) (fst w0)" using assms frame by simp
    obtain w1 where r: "refresh A E S tok (rq_ip rq) (rq_user_agent rq) w0 = (Inr None, w1)"
      using refresh_dead [OF d] by (metis prod.collapse)
    then have "is_token_blacklisted t j (snd w1) = is_token_blacklisted t j (snd w0)"
      using dead_refresh_redis [OF d] by (metis snd_conv)
    then show ?thesis
      using l r Inr frame
      by (simp add: refresh_route_def bindA_def [of "limited _ _ _ _ _"] bindA_def [of "refresh _ _ _ _ _ _"] audit_def throw_def)
  qed (use l frame in \<open>simp add: refresh_route_def bindA_def [of "limited _ _ _ _ _"]\<close>)
qed



section \<open>Marks in a store whose entries expire\<close>

text \<open>
  What the blacklist and the invalidation marks share: a mark per identifier, under a key of its
  own, that is there until its time is up and that other writes leave alone.
\<close>

locale mark_register = ttl_store get put del
  for get :: "timestamp \<Rightarrow> 'k \<Rightarrow> 's \<Rightarrow> 'v option" and put and del +
  fixes mark_key :: "'i \<Rightarrow> 'k"
  assumes mark_key_inj: "mark_key i = mark_key j \<Longrightarrow> i = j"
begin

lemma marked_until: "now < t + seconds ttl \<Longrightarrow> get now (mark_key i) (put t (mark_key i) v (Some ttl) s) = Some v"
  by (rule visible_until_expiry)

lemma other_mark: "i \<noteq> j \<Longrightarrow> get now (mark_key i) (put t (mark_key j) v ttl s) = get now (mark_key i) s"
  by (rule get_put_other) (auto dest: mark_key_inj)

lemma marks_survive:
  "i \<notin> g ` set xs \<Longrightarrow>
   get now (mark_key i) (fold (\<lambda>x. put t (mark_key (g x)) v ttl) xs s) = get now (mark_key i) s"
  by (induction xs arbitrary: s) (auto simp: other_mark)

end

interpretation black: mark_register redis_get redis_set redis_delete blacklist_key
  by unfold_locales (simp add: blacklist_key_def)

interpretation invalid: mark_register redis_get redis_set redis_delete session_invalidation_key
  by unfold_locales (simp add: session_invalidation_key_def)

lemma blacklisted_until:
  "now < t + seconds ttl \<Longrightarrow> is_token_blacklisted now j (blacklist_token t j ttl r)"
  by (simp add: is_token_blacklisted_def blacklist_token_def black.marked_until)

lemma row_ids_do_not_blacklist:
  "j \<notin> rs_id ` set ss \<Longrightarrow>
   is_token_blacklisted now j (fold (\<lambda>s. blacklist_token t (rs_id s) ttl) ss r) = is_token_blacklisted now j r"
  unfolding is_token_blacklisted_def blacklist_token_def by (subst black.marks_survive) auto

section \<open>Access tokens\<close>

text \<open>
  What the code relies on of the JWT library: a token decodes to the claims it was made of, under
  the secret it was made with, until it expires.
\<close>

definition jwt_ok :: "'tok crypto \<Rightarrow> bool" where
  "jwt_ok K \<longleftrightarrow> (\<forall>now secret c. now < seconds (cl_exp c) \<longrightarrow> jwt_decode K now secret (jwt_encode K secret c) = Some c)"

lemma issued_token_claims:
  assumes "jwt_ok (ae_crypto A)" and "jti \<noteq> []" and "user_id \<noteq> []"
    and "now_at E' < seconds (epoch_seconds (now_at E + seconds (60 * jwt_access_ttl_minutes (ae_settings A))))"
  shows "live_claims A E' (Some (create_access_token A E jti user_id role)) r = Inr user_id \<longleftrightarrow>
    \<not> is_token_blacklisted (now_at E') jti r \<and>
    (\<forall>ts. get_session_invalidation_timestamp (now_at E') user_id r = Some ts \<longrightarrow> ts \<le> seconds (epoch_seconds (now_at E)))"
proof -
  have "decode_access_token A E' (create_access_token A E jti user_id role) = Some (access_claims A E jti user_id role)"
    using assms(1, 4) by (simp add: decode_access_token_def create_access_token_def jwt_ok_def access_claims_def)
  then show ?thesis
    using assms(2, 3)
    by (auto simp: live_claims_def extract_token_def access_claims_def truthy_def split: option.split)
qed

text \<open>
  C33. An access token made for a user is accepted, until it expires, as that user's, exactly
  when its identifier is not blacklisted and the user's sessions were not invalidated after the
  whole second the token was made in.
\<close>

theorem access_token_roundtrip:
  assumes "jwt_ok (ae_crypto A)" and "jti \<noteq> []" and "user_id \<noteq> []"
    and "now_at E' < seconds (epoch_seconds (now_at E + seconds (60 * jwt_access_ttl_minutes (ae_settings A))))"
  shows "live_claims A E' (Some (create_access_token A E jti user_id role)) r = Inr user_id \<longleftrightarrow>
    \<not> is_token_blacklisted (now_at E') jti r \<and>
    (\<forall>ts. get_session_invalidation_timestamp (now_at E') user_id r = Some ts \<longrightarrow> ts \<le> seconds (epoch_seconds (now_at E)))"
  using assms by (rule issued_token_claims)

lemma demo_jwt: "jwt_ok demo_crypto"
  by (simp add: jwt_ok_def demo_crypto_def)

theorem access_token_roundtrip_witness:
  "live_claims demo_auth demo_env (Some (create_access_token demo_auth demo_env ''j'' ''u1'' None)) (Map.empty :: unit redis) = Inr ''u1''"
proof -
  have "now_at demo_env < seconds (epoch_seconds (now_at demo_env + seconds (60 * jwt_access_ttl_minutes (ae_settings demo_auth))))"
    by (simp add: demo_env_def demo_auth_def epoch_seconds_def seconds_def)
  moreover have "jwt_ok (ae_crypto demo_auth)" by (simp add: demo_jwt demo_auth_def)
  ultimately show ?thesis
    by (subst access_token_roundtrip) (simp_all add: get_session_invalidation_timestamp_def redis_get_def)
qed

lemma invalidated_until:
  assumes "0 \<le> t" and "now < t + seconds (86400 * 7)"
  shows "get_session_invalidation_timestamp now u (invalidate_user_sessions t u r) = Some t"
  using assms
  by (simp add: get_session_invalidation_timestamp_def invalidate_user_sessions_def invalid.marked_until)

lemma logout_route_redis:
  fixes w :: "db \<times> 'v redis"
  shows "\<exists>r. snd (snd (logout_route A E S rq a cookie w)) = invalidate_user_sessions (now_at E) (ac_id a) r"
proof -
  obtain w1 where w1: "logout A E S (ac_id a) cookie w = (Inr (), w1)" and
    r: "\<exists>r. snd w1 = invalidate_user_sessions (now_at E) (ac_id a) r"
    by (auto simp: logout_def Let_def)
  then show ?thesis
    by (simp add: logout_route_def bindA_def [of "logout _ _ _ _ _"] audit_def write_db_def)
qed

text \<open>
  After a logout no access token of the user that was made before it is accepted, for as
  long as the mark is kept (7 days): nor is a token made later in the same second, because a
  token carries whole seconds and the mark does not.
\<close>

theorem logout_rejects_tokens:
  fixes w :: "db \<times> 'v redis"
  assumes "jwt_ok (ae_crypto A)" and "jti \<noteq> []" and "ac_id a \<noteq> []" and "0 \<le> now_at E"
    and "get_db_session (logout_route A E S rq a cookie) w = (answer, w')"
    and "seconds (epoch_seconds (now_at E1)) < now_at E"
    and "now_at E' < now_at E + seconds (86400 * 7)"
    and "now_at E' < seconds (epoch_seconds (now_at E1 + seconds (60 * jwt_access_ttl_minutes (ae_settings A))))"
  shows "\<exists>e. live_claims A E' (Some (create_access_token A E1 jti (ac_id a) role)) (snd w') = Inl e"
proof -
  obtain r where "snd w' = invalidate_user_sessions (now_at E) (ac_id a) r"
    using logout_route_redis [of A E S rq a cookie w] assms(5)
    by (auto simp: get_db_session_def split: prod.splits sum.splits)
  then have ts: "get_session_invalidation_timestamp (now_at E') (ac_id a) (snd w') = Some (now_at E)"
    using invalidated_until assms(4, 7) by simp
  have "decode_access_token A E' (create_access_token A E1 jti (ac_id a) role) = Some (access_claims A E1 jti (ac_id a) role)"
    using assms(1, 8) by (simp add: decode_access_token_def create_access_token_def jwt_ok_def access_claims_def)
  then show ?thesis
    using ts assms(2, 3, 6) by (auto simp: live_claims_def extract_token_def access_claims_def truthy_def)
qed

theorem logout_rejects_tokens_witness:
  "\<exists>e. live_claims demo_auth (demo_env\<lparr>now_at := 200\<rparr>)
     (Some (create_access_token demo_auth (demo_env\<lparr>now_at := 150\<rparr>) ''j'' ''u1'' None))
     (snd (snd (get_db_session (logout_route demo_auth demo_env (\<lambda>_. None) demo_request demo_actor None)
        (demo_auth_db None, (Map.empty :: unit redis))))) = Inl e"
proof -
  let ?x = "get_db_session (logout_route demo_auth demo_env (\<lambda>_. None) demo_request demo_actor None)
        (demo_auth_db None, (Map.empty :: unit redis))"
  have "jwt_ok (ae_crypto demo_auth)" by (simp add: demo_jwt demo_auth_def)
  then show ?thesis
    using logout_rejects_tokens [of demo_auth "''j''" demo_actor demo_env "\<lambda>_. None" demo_request None
        "(demo_auth_db None, (Map.empty :: unit redis))" "fst ?x" "snd ?x" "demo_env\<lparr>now_at := 150\<rparr>" "demo_env\<lparr>now_at := 200\<rparr>" None]
    by (simp add: demo_actor_def) (simp add: demo_env_def seconds_def epoch_seconds_def demo_auth_def)
qed

section \<open>Deactivating an employee\<close>

lemma membership_flush_fields [simp]:
  "m_id (membership_flush E m new) = m_id new"
  "m_user_id (membership_flush E m new) = m_user_id new"
  "m_status (membership_flush E m new) = m_status new"
  by (simp_all add: membership_flush_def)

lemma update_membership_find:
  assumes "find_row m_id i (memberships D) = Some m" and "m_id new = m_id m"
  shows "find_row m_id i (memberships (update_membership E m new D)) = Some (membership_flush E m new)"
proof -
  have i: "m_id m = i" using assms(1) by (auto dest: find_row_Some)
  show ?thesis
    using assms i by (simp add: update_membership_def find_row_replace)
qed

text \<open>
  The deactivation route asks for the permission and nothing else: whoever holds it
  deactivates any membership, of whatever tenant, and a user whose only active membership it
  was acts for no tenant afterwards.
\<close>

theorem deactivation_ignores_tenant:
  fixes w :: "db \<times> 'v redis"
  assumes "''auth:employee_deactivate'' \<in> set (ac_permissions a)"
    and "fst (limited st E ''employee_deactivate'' (ac_id a) ''Too many deactivation attempts. Try again later.'' w) = Inr ()"
    and "find_row m_id i (memberships (fst w)) = Some m" and "unique_on m_id (memberships (fst w))"
    and "\<And>m'. m' \<in> set (memberships (fst w)) \<Longrightarrow> m_user_id m' = m_user_id m \<Longrightarrow> m_status m' = ''active'' \<Longrightarrow> m' = m"
  shows "\<exists>w'. get_db_session (deactivate_employee_route A st E S rq a i reason) w = (Inr (), w') \<and>
    map_option m_status (find_row m_id i (memberships (fst w'))) = Some ''deactivated'' \<and>
    tc_tenant_id (resolve_tenant_context rid (m_user_id m) role perms (fst w')) = None"
proof -
  let ?limit = "limited st E ''employee_deactivate'' (ac_id a) ''Too many deactivation attempts. Try again later.''"
  let ?D = "record_deactivation E m (ac_id a) reason (fst w)"
  obtain w0 where l: "?limit w = (Inr (), w0)" using assms(2) by (metis prod.collapse)
  have frame: "fst w0 = fst w" using limited_snd [of st E _ _ _ w] l by (metis fst_conv snd_conv)
  obtain n w1 where r: "revoke_user_all_sessions A E S (m_user_id m) ''employee_deactivation'' (?D, snd w0) = (Inr n, w1)"
    using revoke_all_result by blast
  have fold_frame: "memberships (fold (\<lambda>s. update_refresh_session E (rs_id s) (revoked E x)) ss D) = memberships D" for x ss D
    by (induction ss arbitrary: D) (simp_all add: update_refresh_session_def)
  have m1: "memberships (fst w1) = memberships ?D"
    using r by (auto simp: revoke_user_all_sessions_def ret_def fold_frame)
  obtain w' where route: "get_db_session (deactivate_employee_route A st E S rq a i reason) w = (Inr (), w')"
    and mw: "memberships (fst w') = memberships ?D"
    using l r frame assms(1, 3) m1
    by (simp add: get_db_session_def deactivate_employee_route_def bindA_query_or_raise bindA_def [of "limited _ _ _ _ _"]
        bindA_def [of "revoke_user_all_sessions _ _ _ _ _"] audit_def write_db_def log_auth_event_def Let_def)
  have "map_option m_status (find_row m_id i (memberships ?D)) = Some ''deactivated''"
    unfolding record_deactivation_def by (subst update_membership_find [OF assms(3)]) simp_all
  moreover have "find (\<lambda>m'. m_user_id m' = m_user_id m \<and> m_status m' = ''active'') (memberships ?D) = None"
    using assms(3-5)
    by (auto simp: find_None_iff record_deactivation_def update_membership_def update_row_def split: if_splits)
  ultimately show ?thesis using route mw by (simp add: resolve_tenant_context_def)
qed

definition demo_member :: AgencyEmployeeMembership where
  "demo_member = \<lparr>m_id = ''m2'', m_agency_tenant_id = ''t2'', m_user_id = ''u2'', m_role_id = ''r1'',
     m_status = ''active'', m_display_name = None, m_work_email = None, m_deactivated_at = None,
     m_deactivated_by_user_id = None, m_deactivation_reason = None, m_created_at = 5, m_updated_at = 5\<rparr>"

lemma demo_limit_deactivate:
  "fst (limited st demo_env ''employee_deactivate'' i message (D, Map.empty)) = Inr ()"
  by (simp add: limited_def check_auth_rate_limit_def AUTH_RATE_LIMITS_def dict_get_def check_rate_limit_def
      or_default_def redis_get_def demo_env_def)

text \<open>An administrator of tenant \<open>t1\<close> deactivates an employee of tenant \<open>t2\<close>.\<close>

theorem deactivation_ignores_tenant_witness:
  "\<exists>w'. get_db_session (deactivate_employee_route demo_auth demo_limits demo_env (\<lambda>_. None) demo_request
       (demo_actor\<lparr>ac_permissions := [''auth:employee_deactivate''], ac_tenant_id := Some ''t1''\<rparr>) ''m2'' ''bye'')
     (empty_db\<lparr>memberships := [demo_member]\<rparr>, (Map.empty :: unit redis)) = (Inr (), w') \<and>
   map_option m_status (find_row m_id ''m2'' (memberships (fst w'))) = Some ''deactivated''"
proof -
  let ?a = "demo_actor\<lparr>ac_permissions := [''auth:employee_deactivate''], ac_tenant_id := Some ''t1''\<rparr>"
  let ?w = "(empty_db\<lparr>memberships := [demo_member]\<rparr>, (Map.empty :: unit redis))"
  have "find_row m_id ''m2'' (memberships (fst ?w)) = Some demo_member" by (simp add: find_row_def demo_member_def)
  from deactivation_ignores_tenant [where a = ?a and A = demo_auth and S = "\<lambda>_. None" and rq = demo_request
      and reason = "''bye''" and st = demo_limits and rid = None and role = None and perms = "[]", OF _ demo_limit_deactivate this]
  have "\<exists>w'. get_db_session (deactivate_employee_route demo_auth demo_limits demo_env (\<lambda>_. None) demo_request ?a ''m2'' ''bye'') ?w =
      (Inr (), w') \<and> map_option m_status (find_row m_id ''m2'' (memberships (fst w'))) = Some ''deactivated'' \<and>
      tc_tenant_id (resolve_tenant_context None (m_user_id demo_member) None [] (fst w')) = None"
    by simp
  then show ?thesis by blast
qed

end
