(* ===== verification/Worker.thy ===== *)
theory Worker
  imports Photos Leads
begin

text \<open>
  The worker process (\<open>src/workers\<close>): the polling of the outbox (\<open>outbox.py\<close>), its loop and its
  table of handlers (\<open>main.py\<close>), the lead handler with its client (\<open>handlers/leads.py\<close>,
  \<open>handlers/lead_processing_client.py\<close>) and the image handler (\<open>handlers/listing_media.py\<close>). The
  worker's connection commits each statement on its own, so what a handler wrote before it
  raised stays. The state is the database with the object store.
\<close>

type_synonym world = "db \<times> objects"

section \<open>Payloads\<close>

text \<open>
  What a row's payload comes as: a text (with the value \<open>json.loads\<close> reads in it, if any), a
  dictionary, or something else. asyncpg gives a JSONB column as the text of its value.
\<close>

datatype raw_payload = RawText "json option" | RawDict json | RawOther string

definition fetched :: "json \<Rightarrow> raw_payload" where
  "fetched j = RawText (Some j)"

fun decode_payload :: "raw_payload \<Rightarrow> string + json" where
  "decode_payload (RawText (Some j)) = Inr j"
| "decode_payload (RawText None) = Inl ''JSONDecodeError''"
| "decode_payload (RawDict j) = Inr j"
| "decode_payload (RawOther s) = Inr (JObj [(''_raw'', JText s)])"

fun json_get :: "json \<Rightarrow> string \<Rightarrow> json option" where
  "json_get (JObj entries) key = map_of entries key"
| "json_get _ key = None"

text \<open>Identifiers and texts of a payload, which its publishers write as JSON texts.\<close>

definition text_field :: "json \<Rightarrow> string \<Rightarrow> string option" where
  "text_field payload key = (case json_get payload key of Some (JText s) \<Rightarrow> Some s | _ \<Rightarrow> None)"

definition is_object :: "json \<Rightarrow> bool" where
  "is_object j = (case j of JObj _ \<Rightarrow> True | _ \<Rightarrow> False)"

section \<open>The outbox\<close>

type_synonym outcome = "(string + unit) \<times> world"

text \<open>\<open>_invoke_handler\<close> passes as many of connection, payload and identifier as the handler takes.\<close>

datatype handler =
    OneArg "json \<Rightarrow> world \<Rightarrow> outcome"
  | TwoArgs "json \<Rightarrow> world \<Rightarrow> outcome"
  | ThreeArgs "json \<Rightarrow> uuid \<Rightarrow> world \<Rightarrow> outcome"

fun invoke_handler :: "handler \<Rightarrow> json \<Rightarrow> uuid \<Rightarrow> world \<Rightarrow> outcome" where
  "invoke_handler (OneArg h) payload event_id w = h payload w"
| "invoke_handler (TwoArgs h) payload event_id w = h payload w"
| "invoke_handler (ThreeArgs h) payload event_id w = h payload event_id w"

text \<open>
  One poll: its clock and fresh identifiers, the rows other connections hold locked, and the
  number \<open>random.uniform\<close> draws, in microseconds.
\<close>

record tick =
  tk_env :: ctx_env
  tk_locked :: "uuid \<Rightarrow> bool"
  tk_draw :: "int \<Rightarrow> int \<Rightarrow> int"

definition claimable :: "tick \<Rightarrow> OutboxEvent \<Rightarrow> bool" where
  "claimable t e \<longleftrightarrow> oe_status e = ''pending'' \<and> oe_available_at e \<le> now_at (tk_env t) \<and> \<not> tk_locked t (oe_id e)"

definition set_event :: "uuid \<Rightarrow> (OutboxEvent \<Rightarrow> OutboxEvent) \<Rightarrow> db \<Rightarrow> db" where
  "set_event i f D = D\<lparr>outbox_events := update_row oe_id i f (outbox_events D)\<rparr>"

definition claim_pending_event :: "tick \<Rightarrow> db \<Rightarrow> (OutboxEvent \<times> db) option" where
  "claim_pending_event t D =
     (case sort_key oe_available_at (filter (claimable t) (outbox_events D)) of
        [] \<Rightarrow> None
      | e # _ \<Rightarrow>
          (let mark = (\<lambda>r. r\<lparr>oe_status := ''processing'', oe_updated_at := now_at (tk_env t)\<rparr>)
           in Some (mark e, set_event (oe_id e) mark D)))"

definition mark_delivered :: "tick \<Rightarrow> uuid \<Rightarrow> db \<Rightarrow> db" where
  "mark_delivered t i D =
     set_event i (\<lambda>r. r\<lparr>oe_status := ''delivered'', oe_processed_at := Some (now_at (tk_env t)),
                       oe_updated_at := now_at (tk_env t)\<rparr>) D"

definition base_delay :: "int \<Rightarrow> int" where
  "base_delay retry_count = min 300 (5 * 2 ^ nat (max 0 retry_count))"

text \<open>\<open>random.uniform(delay * 0.75, delay * 1.25)\<close> seconds.\<close>

definition jittered_delay :: "tick \<Rightarrow> int \<Rightarrow> int" where
  "jittered_delay t retry_count =
     tk_draw t (base_delay retry_count * 750000) (base_delay retry_count * 1250000)"

definition mark_retry :: "tick \<Rightarrow> uuid \<Rightarrow> int \<Rightarrow> int \<Rightarrow> string \<Rightarrow> db \<Rightarrow> db" where
  "mark_retry t i retry_count max_retries last_error D =
     (let now = now_at (tk_env t); new_retry = retry_count + 1
      in if max_retries \<le> new_retry
         then set_event i (\<lambda>r. r\<lparr>oe_status := ''dead_letter'', oe_retry_count := new_retry,
                oe_last_error := Some last_error, oe_available_at := now, oe_updated_at := now\<rparr>) D
         else set_event i (\<lambda>r. r\<lparr>oe_status := ''pending'', oe_retry_count := new_retry,
                oe_last_error := Some last_error,
                oe_available_at := now + jittered_delay t retry_count, oe_updated_at := now\<rparr>) D)"

text \<open>\<open>Inl\<close> is an exception that leaves \<open>claim_and_dispatch\<close>: only decoding can raise there.\<close>

definition claim_and_dispatch :: "(string \<rightharpoonup> handler) \<Rightarrow> tick \<Rightarrow> world \<Rightarrow> (string + bool) \<times> world" where
  "claim_and_dispatch handlers t w =
     (case claim_pending_event t (fst w) of
        None \<Rightarrow> (Inr False, w)
      | Some (row, D) \<Rightarrow>
          (case decode_payload (fetched (oe_payload row)) of
             Inl e \<Rightarrow> (Inl e, D, snd w)
           | Inr payload \<Rightarrow>
               (case handlers (oe_event_name row) of
                  None \<Rightarrow>
                    (Inr True, mark_retry t (oe_id row) (oe_retry_count row) (oe_max_retries row)
                       (''no handler registered for '' @ quoted (oe_event_name row)) D, snd w)
                | Some h \<Rightarrow>
                    (case invoke_handler h payload (oe_id row) (D, snd w) of
                       (Inr _, w1) \<Rightarrow> (Inr True, mark_delivered t (oe_id row) (fst w1), snd w1)
                     | (Inl e, w1) \<Rightarrow>
                         (Inr True, mark_retry t (oe_id row) (oe_retry_count row) (oe_max_retries row) e (fst w1),
                          snd w1)))))"

text \<open>
  The polling loop until shutdown, one tick per turn; an exception is logged and the loop goes
  on. The answers say which turns processed an event.
\<close>

fun poll_loop :: "(ctx_env \<Rightarrow> string \<rightharpoonup> handler) \<Rightarrow> tick list \<Rightarrow> world \<Rightarrow> (string + bool) list \<times> world" where
  "poll_loop handlers [] w = ([], w)"
| "poll_loop handlers (t # ts) w =
     (let (answer, w1) = claim_and_dispatch (handlers (tk_env t)) t w;
          (answers, w2) = poll_loop handlers ts w1
      in (answer # answers, w2))"

section \<open>Leads\<close>

text \<open>
  The model service is a parameter: at each attempt it posts callbacks to the backend and
  answers data or fails with an error text. \<open>lm_backend_up\<close> says whether the worker's own
  requests reach the backend.
\<close>

record lead_env =
  lm_classify :: "nat \<Rightarrow> json \<Rightarrow> callback list \<times> (string + json)"
  lm_retry_max :: nat
  lm_retry_base :: int
  lm_retry_max_delay :: int
  lm_worker_token :: string
  lm_backend_token :: string
  lm_backend_up :: bool

definition compute_delay :: "lead_env \<Rightarrow> nat \<Rightarrow> int" where
  "compute_delay L attempt = min (lm_retry_base L * 2 ^ (attempt - 1)) (lm_retry_max_delay L)"

definition option_text :: "string option \<Rightarrow> string" where
  "option_text x = (case x of None \<Rightarrow> ''None'' | Some s \<Rightarrow> s)"

text \<open>The attempts that are left, with the last error: the answer, the callbacks posted and the sleeps.\<close>

fun attempts_from ::
  "lead_env \<Rightarrow> string \<Rightarrow> json \<Rightarrow> nat list \<Rightarrow> string option \<Rightarrow> (string + json) \<times> callback list \<times> int list" where
  "attempts_from L lead_id payload [] last_error =
     (Inl (''Failed to classify lead '' @ lead_id @ '' after '' @ nat_text (lm_retry_max L) @ '' attempts: '' @
           option_text last_error), [], [])"
| "attempts_from L lead_id payload (a # rest) last_error =
     (case lm_classify L a payload of
        (posted, Inr data) \<Rightarrow> (Inr data, posted, [])
      | (posted, Inl e) \<Rightarrow>
          (let (answer, more, sleeps) = attempts_from L lead_id payload rest (Some e)
           in (answer, posted @ more, (if a < lm_retry_max L then [compute_delay L a] else []) @ sleeps)))"

definition forward_to_model_service ::
  "lead_env \<Rightarrow> string \<Rightarrow> string \<Rightarrow> string \<Rightarrow> string option \<Rightarrow> string option
     \<Rightarrow> (string + json) \<times> callback list \<times> int list" where
  "forward_to_model_service L lead_id tenant_id message name email =
     attempts_from L lead_id
       (JObj [(''lead_id'', JText lead_id), (''tenant_id'', JText tenant_id), (''message'', JText message),
              (''name'', jopt name), (''email'', jopt email)])
       [1..<Suc (lm_retry_max L)] None"

text \<open>A request to the callback route: its own session, committed or rolled back.\<close>

definition post_callback :: "lead_env \<Rightarrow> ctx_env \<Rightarrow> callback \<Rightarrow> db \<Rightarrow> (string + unit) \<times> db" where
  "post_callback L E b D =
     (if \<not> lm_backend_up L then (Inl ''All connection attempts failed'', D)
      else (case classification_callback (lm_backend_token L) E (''Bearer '' @ lm_worker_token L) b D of
              Inl e \<Rightarrow> (Inl (exc_text e), D)
            | Inr (r, D1) \<Rightarrow> (Inr (), D1)))"

definition fail_open_callback :: "string \<Rightarrow> string \<Rightarrow> string \<Rightarrow> string \<Rightarrow> json \<Rightarrow> callback" where
  "fail_open_callback lead_id tenant_id stage label details =
     \<lparr>cb_lead_id = lead_id, cb_tenant_id = tenant_id, cb_stage = stage, cb_status = ''completed'',
      cb_label = Some label, cb_score = Some 0, cb_details = Some details, cb_retry_count = 0\<rparr>"

definition falsy :: "json \<Rightarrow> bool" where
  "falsy j \<longleftrightarrow> j \<in> set [JNull, JBool False, JInt 0, JNum 0, JText [], JList [], JObj []]"

text \<open>
  The log line after a success reads \<open>result.get("spam_result", {}).get("label")\<close> and the same
  of \<open>level_result\<close> or an empty dictionary: where a value is not a dictionary it raises, inside the \<open>try\<close>.
\<close>

definition loggable :: "json \<Rightarrow> bool" where
  "loggable data \<longleftrightarrow> is_object data \<and>
     (case json_get data ''spam_result'' of None \<Rightarrow> True | Some j \<Rightarrow> is_object j) \<and>
     (case json_get data ''level_result'' of None \<Rightarrow> True | Some j \<Rightarrow> falsy j \<or> is_object j)"

text \<open>
  The environments of the requests: \<open>Es n\<close> is that of the \<open>n\<close>-th, the service's callbacks first.
\<close>

fun post_all :: "lead_env \<Rightarrow> (nat \<Rightarrow> ctx_env) \<Rightarrow> nat \<Rightarrow> callback list \<Rightarrow> db \<Rightarrow> db" where
  "post_all L Es n [] D = D"
| "post_all L Es n (b # bs) D =
     post_all L Es (Suc n) bs
       (case classification_callback (lm_backend_token L) (Es n) (''Bearer '' @ lm_backend_token L) b D of
          Inl e \<Rightarrow> D | Inr (r, D1) \<Rightarrow> D1)"

definition fail_open :: "lead_env \<Rightarrow> ctx_env \<Rightarrow> ctx_env \<Rightarrow> string \<Rightarrow> string \<Rightarrow> string \<Rightarrow> db \<Rightarrow> (string + unit) \<times> db" where
  "fail_open L E1 E2 lead_id tenant_id err D =
     (let reason = JObj [(''reason'', JText ''model_service_unreachable_fail_open''), (''error'', JText (take 500 err))]
      in (case post_callback L E1 (fail_open_callback lead_id tenant_id ''spam'' ''not_spam'' reason) D of
            (Inl e, D1) \<Rightarrow> (Inl e, D1)
          | (Inr _, D1) \<Rightarrow>
              post_callback L E2 (fail_open_callback lead_id tenant_id ''level'' ''normal'' reason) D1))"

definition handle_lead_created :: "lead_env \<Rightarrow> (nat \<Rightarrow> ctx_env) \<Rightarrow> json \<Rightarrow> db \<Rightarrow> (string + unit) \<times> db" where
  "handle_lead_created L Es payload D =
     (if \<not> is_object payload then (Inl ''AttributeError'', D)
      else
        (let lead_id = (case text_field payload ''lead_id'' of None \<Rightarrow> ''unknown'' | Some s \<Rightarrow> s);
             tenant_id = (case text_field payload ''tenant_id'' of None \<Rightarrow> ''unknown'' | Some s \<Rightarrow> s);
             message = text_field payload ''message''
         in if \<not> truthy message \<or> py_strip (the message) = [] then (Inr (), D)
            else
              (let (answer, posted, sleeps) = forward_to_model_service L lead_id tenant_id (the message)
                     (text_field payload ''name'') (text_field payload ''email'');
                   D1 = post_all L Es 0 posted D;
                   n = length posted
               in (case answer of
                     Inr data \<Rightarrow>
                       if loggable data then (Inr (), D1)
                       else fail_open L (Es n) (Es (Suc n)) lead_id tenant_id ''AttributeError'' D1
                   | Inl e \<Rightarrow> fail_open L (Es n) (Es (Suc n)) lead_id tenant_id e D1))))"

section \<open>Listing images\<close>

text \<open>
  Pillow and OpenCV are parameters: \<open>wm_blur\<close> is \<open>calculate_blur_score\<close>, which never raises,
  and \<open>wm_derivative\<close> is \<open>process_image_for_derivative\<close>, an error text where it raises.
\<close>

record media_worker_env =
  wm_media :: media_env
  wm_store :: store_env
  wm_get_ok :: bool
  wm_blur :: "string \<Rightarrow> rat"
  wm_blur_threshold :: rat
  wm_derivative :: "string \<Rightarrow> string + string \<times> int \<times> int"
  wm_derivative_prefix :: string

definition download_object :: "bool \<Rightarrow> string \<Rightarrow> objects \<Rightarrow> string + string" where
  "download_object ok key ob =
     (if \<not> ok then Inl ''get_object''
      else (case ob key of None \<Rightarrow> Inl ''NoSuchKey'' | Some b \<Rightarrow> Inr b))"

text \<open>The columns of one UPDATE: those that are given.\<close>

record photo_columns =
  pc_moderation_label :: "string option"
  pc_moderation_score :: "rat option"
  pc_quality_score :: "rat option"
  pc_width :: "int option"
  pc_height :: "int option"
  pc_content_type :: "string option"
  pc_file_size_bytes :: "int option"

definition no_columns :: photo_columns where
  "no_columns = \<lparr>pc_moderation_label = None, pc_moderation_score = None, pc_quality_score = None,
     pc_width = None, pc_height = None, pc_content_type = None, pc_file_size_bytes = None\<rparr>"

definition given :: "'a option \<Rightarrow> 'a option \<Rightarrow> 'a option" where
  "given new old = (case new of None \<Rightarrow> old | Some x \<Rightarrow> Some x)"

definition set_columns :: "string \<Rightarrow> photo_columns \<Rightarrow> ListingPhotoMetadata \<Rightarrow> ListingPhotoMetadata" where
  "set_columns status c p =
     p\<lparr>ph_status := status,
       ph_moderation_label := given (pc_moderation_label c) (ph_moderation_label p),
       ph_moderation_score := given (pc_moderation_score c) (ph_moderation_score p),
       ph_quality_score := given (pc_quality_score c) (ph_quality_score p),
       ph_width := given (pc_width c) (ph_width p),
       ph_height := given (pc_height c) (ph_height p),
       ph_content_type := given (pc_content_type c) (ph_content_type p),
       ph_file_size_bytes := given (pc_file_size_bytes c) (ph_file_size_bytes p)\<rparr>"

definition update_photo_status :: "uuid \<Rightarrow> string \<Rightarrow> photo_columns \<Rightarrow> db \<Rightarrow> db" where
  "update_photo_status photo_id status c D =
     D\<lparr>photos := update_row ph_id photo_id (set_columns status c) (photos D)\<rparr>"

definition create_derivative_record :: "ctx_env \<Rightarrow> uuid \<Rightarrow> uuid \<Rightarrow> string \<Rightarrow> int \<Rightarrow> int \<Rightarrow> int \<Rightarrow> db \<Rightarrow> db" where
  "create_derivative_record E i photo_id object_key width height nbytes D =
     D\<lparr>derivatives := derivatives D @
        [\<lparr>d_id = i, d_listing_photo_metadata_id = photo_id, d_variant_name = ''optimized'',
          d_object_key = object_key, d_format = ''webp'', d_width = width, d_height = height,
          d_file_size_bytes = nbytes, d_is_public_safe = True, d_created_at = now_at E\<rparr>]\<rparr>"

definition write_audit_log :: "ctx_env \<Rightarrow> uuid \<Rightarrow> uuid \<Rightarrow> uuid \<Rightarrow> string \<Rightarrow> string \<Rightarrow> json \<Rightarrow> db \<Rightarrow> db" where
  "write_audit_log E i photo_id tenant_id event_name result details D =
     D\<lparr>media_audit_logs := media_audit_logs D @
        [\<lparr>ma_id = i, ma_agency_tenant_id = tenant_id, ma_actor_user_id = None,
          ma_listing_photo_metadata_id = photo_id, ma_event_name = event_name, ma_result = Some result,
          ma_details = Some details, ma_created_at = now_at E\<rparr>]\<rparr>"

definition image_failed :: "ctx_env \<Rightarrow> uuid \<Rightarrow> uuid \<Rightarrow> string \<Rightarrow> db \<Rightarrow> db" where
  "image_failed E photo_id tenant_id err D =
     write_audit_log E (fresh E 1) photo_id tenant_id ''listing.image_rejected'' ''failed''
       (JObj [(''error'', JText err)]) (update_photo_status photo_id ''failed'' no_columns D)"

definition moderate :: "media_env \<Rightarrow> string \<Rightarrow> moderation" where
  "moderate M file_bytes = run_nsfw_moderation (me_hf_token M) (me_threshold M) (me_classify M) file_bytes"

definition process_image ::
  "media_worker_env \<Rightarrow> ctx_env \<Rightarrow> uuid \<Rightarrow> uuid \<Rightarrow> uuid \<Rightarrow> string option \<Rightarrow> int option \<Rightarrow> string \<Rightarrow> world \<Rightarrow> world" where
  "process_image W E listing_id photo_id tenant_id content_type file_size file_bytes w =
     (let verdict = moderate (wm_media W) file_bytes
      in if md_rejected verdict
         then (write_audit_log E (fresh E 1) photo_id tenant_id ''listing.image_rejected'' ''rejected''
                 (JObj [(''reason'', JText ''nsfw''), (''score'', JNum (md_score verdict))])
                 (update_photo_status photo_id ''rejected''
                    (no_columns\<lparr>pc_moderation_label := Some ''nsfw'', pc_moderation_score := Some (md_score verdict)\<rparr>)
                    (fst w)), snd w)
         else
           (let quality = wm_blur W file_bytes; blur = quality < wm_blur_threshold W;
                status = (if blur then ''warning'' else ''accepted'')
            in (case wm_derivative W file_bytes of
                  Inl e \<Rightarrow> (image_failed E photo_id tenant_id e (fst w), snd w)
                | Inr (data, width, height) \<Rightarrow>
                    (let key = generate_derivative_object_key (wm_derivative_prefix W) tenant_id listing_id photo_id
                                 ''optimized'' ''webp''
                     in (case upload_object (wm_store W) key data (snd w) of
                           (Inl e, ob) \<Rightarrow> (image_failed E photo_id tenant_id (exc_text e) (fst w), ob)
                         | (Inr _, ob) \<Rightarrow>
                             (let D1 = update_photo_status photo_id status
                                    \<lparr>pc_moderation_label = Some (md_label verdict),
                                     pc_moderation_score = Some (md_score verdict),
                                     pc_quality_score = Some quality, pc_width = Some width,
                                     pc_height = Some height, pc_content_type = content_type,
                                     pc_file_size_bytes = file_size\<rparr> (fst w);
                                  D2 = create_derivative_record E (fresh E 0) photo_id key width height
                                         (int (length data)) D1;
                                  D3 = write_audit_log E (fresh E 1) photo_id tenant_id
                                         (if blur then ''listing.image_warning'' else ''listing.image_derivative_created'')
                                         status
                                         (JObj [(''quality_score'', JNum quality), (''blur_detected'', JBool blur)]) D2
                              in (D3, ob)))))))"

definition payload_int :: "json \<Rightarrow> string \<Rightarrow> int \<Rightarrow> int option" where
  "payload_int payload key dflt =
     (case json_get payload key of None \<Rightarrow> Some dflt | Some (JInt n) \<Rightarrow> Some n | Some _ \<Rightarrow> None)"

definition handle_listing_image_uploaded :: "media_worker_env \<Rightarrow> ctx_env \<Rightarrow> json \<Rightarrow> uuid \<Rightarrow> world \<Rightarrow> outcome" where
  "handle_listing_image_uploaded W E payload event_id w =
     (if \<not> is_object payload then (Inl ''AttributeError'', w)
      else
        (let listing_id = text_field payload ''listing_id'';
             photo_id = text_field payload ''listing_photo_id'';
             tenant_id = text_field payload ''agency_tenant_id'';
             object_key = text_field payload ''object_key'';
             content_type = (case json_get payload ''content_type'' of
                               None \<Rightarrow> Some ''image/jpeg'' | Some _ \<Rightarrow> text_field payload ''content_type'');
             file_size = payload_int payload ''file_size_bytes'' 0
         in if \<not> (truthy listing_id \<and> truthy photo_id \<and> truthy tenant_id \<and> truthy object_key) then (Inr (), w)
            else (Inr (),
              (case download_object (wm_get_ok W) (the object_key) (snd w) of
                 Inl e \<Rightarrow> (image_failed E (the photo_id) (the tenant_id) e (fst w), snd w)
               | Inr file_bytes \<Rightarrow>
                   process_image W E (the listing_id) (the photo_id) (the tenant_id) content_type file_size
                     file_bytes w))))"

section \<open>The table of handlers\<close>

text \<open>
  The handlers of documents and of specification sheets are parameters here: the first works on
  tables outside \<open>db\<close> and on the object store, the second writes audit rows besides.
\<close>

record worker_env =
  we_leads :: lead_env
  we_media :: media_worker_env
  we_rag :: "json \<Rightarrow> objects \<Rightarrow> (string + unit) \<times> objects"
  we_agency_ai :: "json \<Rightarrow> uuid \<Rightarrow> AuditLog list \<times> objects \<Rightarrow> (string + unit) \<times> AuditLog list \<times> objects"
  we_requests :: "ctx_env \<Rightarrow> nat \<Rightarrow> ctx_env"

definition EVENT_HANDLERS :: "worker_env \<Rightarrow> ctx_env \<Rightarrow> string \<rightharpoonup> handler" where
  "EVENT_HANDLERS W E = map_of
     [(''foundation.test'', OneArg (\<lambda>payload w. (Inr (), w))),
      (''listing.image_uploaded'', ThreeArgs (handle_listing_image_uploaded (we_media W) E)),
      (''rag.document_uploaded'',
        OneArg (\<lambda>payload w. (case we_rag W payload (snd w) of (r, ob) \<Rightarrow> (r, fst w, ob)))),
      (''agency_ai.spec_sheet_uploaded'',
        ThreeArgs (\<lambda>payload i w. (case we_agency_ai W payload i (audit_logs (fst w), snd w) of
                     (r, logs, ob) \<Rightarrow> (r, (fst w)\<lparr>audit_logs := logs\<rparr>, ob)))),
      (''lead.created'',
        OneArg (\<lambda>payload w. (case handle_lead_created (we_leads W) (we_requests W E) payload (fst w) of
                     (r, D) \<Rightarrow> (r, D, snd w))))]"

end
