(* ===== verification/WorkerProps.thy ===== *)
theory WorkerProps
  imports Worker LeadProps Demo
begin

text \<open>
  The worker: what a poll does to the outbox for any table of handlers that leave the outbox
  alone (\<open>outbox_worker\<close>, interpreted on \<open>EVENT_HANDLERS\<close>), the fail-open path of leads, and
  the moderation of images.
\<close>

section \<open>Retry delays\<close>

text \<open>What the code relies on of \<open>random.uniform\<close>.\<close>

definition draws_within :: "tick \<Rightarrow> bool" where
  "draws_within t \<longleftrightarrow> (\<forall>a b. a \<le> b \<longrightarrow> a \<le> tk_draw t a b \<and> tk_draw t a b \<le> b)"

lemma base_delay_bounds: "5 \<le> base_delay k \<and> base_delay k \<le> 300"
proof -
  have "(1::int) \<le> 2 ^ nat (max 0 k)" by simp
  then show ?thesis by (simp add: base_delay_def)
qed

lemma jittered_delay_bounds:
  assumes "draws_within t"
  shows "seconds 3 + 750000 \<le> jittered_delay t k \<and> jittered_delay t k \<le> seconds 375"
proof -
  have "base_delay k * 750000 \<le> base_delay k * 1250000" using base_delay_bounds [of k] by simp
  then have "base_delay k * 750000 \<le> jittered_delay t k \<and> jittered_delay t k \<le> base_delay k * 1250000"
    using assms unfolding draws_within_def jittered_delay_def by blast
  then show ?thesis using base_delay_bounds [of k] by (auto simp: seconds_def)
qed

text \<open>
  C34. A failed event with attempts left is pending again between 3.75 and 375 seconds later,
  however often it has failed.
\<close>

theorem retry_delay_bounds:
  assumes "draws_within t" and "find_row oe_id i (outbox_events D) = Some e" and "k + 1 < m"
  shows "\<exists>e'. find_row oe_id i (outbox_events (mark_retry t i k m err D)) = Some e' \<and>
    oe_status e' = ''pending'' \<and> oe_retry_count e' = k + 1 \<and>
    now_at (tk_env t) + seconds 3 + 750000 \<le> oe_available_at e' \<and>
    oe_available_at e' \<le> now_at (tk_env t) + seconds 375"
  using assms(2, 3) jittered_delay_bounds [OF assms(1), of k]
  by (simp add: mark_retry_def set_event_def Let_def) (subst find_row_update_row, auto)

definition demo_tick :: "timestamp \<Rightarrow> tick" where
  "demo_tick now = \<lparr>tk_env = demo_env\<lparr>now_at := now\<rparr>, tk_locked = (\<lambda>_. False), tk_draw = (\<lambda>a b. a)\<rparr>"

definition demo_event :: OutboxEvent where
  "demo_event = new_outbox_event demo_env ''e1'' ''ghost.event'' (JObj []) ''k1'' None None"

theorem retry_delay_bounds_witness:
  "\<exists>e'. find_row oe_id ''e1'' (outbox_events (mark_retry (demo_tick 100) ''e1'' 0 3 ''boom''
      (empty_db\<lparr>outbox_events := [demo_event]\<rparr>))) = Some e' \<and> oe_available_at e' \<le> 100 + seconds 375"
proof -
  have "draws_within (demo_tick 100)" by (simp add: draws_within_def demo_tick_def)
  moreover have "find_row oe_id ''e1'' (outbox_events (empty_db\<lparr>outbox_events := [demo_event]\<rparr>)) = Some demo_event"
    by (simp add: find_row_def demo_event_def)
  ultimately show ?thesis
    using retry_delay_bounds [of "demo_tick 100" "''e1''" "empty_db\<lparr>outbox_events := [demo_event]\<rparr>" demo_event 0 3 "''boom''"]
    by (auto simp: demo_tick_def)
qed

section \<open>What a poll does to the outbox\<close>

definition attempts_left :: "OutboxEvent \<Rightarrow> nat" where
  "attempts_left e = (if oe_status e = ''pending'' then nat (max 1 (oe_max_retries e - oe_retry_count e)) else 0)"

definition budget :: "OutboxEvent list \<Rightarrow> nat" where
  "budget es = sum_list (map attempts_left es)"

lemma budget_update:
  assumes "unique_on oe_id es" and "e \<in> set es"
  shows "budget (update_row oe_id (oe_id e) f es) + attempts_left e = budget es + attempts_left (f e)"
  using assms
proof (induction es)
  case (Cons x es)
  show ?case
  proof (cases "oe_id x = oe_id e")
    case True
    then have "x = e" using Cons.prems by (auto simp: image_iff)
    have "update_row oe_id (oe_id e) f es = es"
      using Cons.prems(1) True unfolding update_row_def by (intro map_idI) (auto simp: image_iff)
    then show ?thesis using \<open>x = e\<close> by (simp add: budget_def update_row_def)
  next
    case False
    then show ?thesis using Cons by (auto simp: budget_def update_row_def)
  qed
qed simp

text \<open>What a processed event becomes.\<close>

definition settles :: "OutboxEvent \<Rightarrow> OutboxEvent \<Rightarrow> bool" where
  "settles e e' \<longleftrightarrow> oe_id e' = oe_id e \<and> oe_idempotency_key e' = oe_idempotency_key e \<and>
     oe_max_retries e' = oe_max_retries e \<and>
     (oe_status e' = ''delivered'' \<and> oe_retry_count e' = oe_retry_count e \<or>
      oe_retry_count e' = oe_retry_count e + 1 \<and>
      oe_status e' = (if oe_max_retries e \<le> oe_retry_count e + 1 then ''dead_letter'' else ''pending''))"

lemma settles_attempts: "settles e e' \<Longrightarrow> oe_status e = ''pending'' \<Longrightarrow> attempts_left e' < attempts_left e"
  by (auto simp: settles_def attempts_left_def split: if_splits)

text \<open>
  Well-formed outbox tables: distinct identifiers and keys, a known status, attempts left while
  pending, none left when given up.
\<close>

definition event_ok :: "OutboxEvent \<Rightarrow> bool" where
  "event_ok e \<longleftrightarrow> oe_status e \<in> set [''pending'', ''processing'', ''delivered'', ''dead_letter''] \<and>
     (oe_status e = ''pending'' \<longrightarrow> oe_retry_count e = 0 \<or> oe_retry_count e < oe_max_retries e) \<and>
     (oe_status e = ''dead_letter'' \<longrightarrow> oe_max_retries e \<le> oe_retry_count e)"

definition outbox_wf :: "db \<Rightarrow> bool" where
  "outbox_wf D \<longleftrightarrow> unique_on oe_id (outbox_events D) \<and> unique_on oe_idempotency_key (outbox_events D) \<and>
     (\<forall>e \<in> set (outbox_events D). event_ok e)"

lemma settles_ok: "settles e e' \<Longrightarrow> event_ok e'"
  by (auto simp: settles_def event_ok_def split: if_splits)

lemma set_event_twice:
  "(\<And>r. oe_id (f r) = oe_id r) \<Longrightarrow> outbox_events D1 = outbox_events (set_event i f D) \<Longrightarrow>
   outbox_events (set_event i g D1) = update_row oe_id i (g \<circ> f) (outbox_events D)"
  by (simp add: set_event_def update_row_def)

lemma claim_Some:
  assumes "claim_pending_event t D = Some (row, D1)"
  shows "\<exists>e. e \<in> set (outbox_events D) \<and> claimable t e \<and>
    row = e\<lparr>oe_status := ''processing'', oe_updated_at := now_at (tk_env t)\<rparr> \<and>
    D1 = set_event (oe_id e) (\<lambda>r. r\<lparr>oe_status := ''processing'', oe_updated_at := now_at (tk_env t)\<rparr>) D"
proof -
  let ?due = "sort_key oe_available_at (filter (claimable t) (outbox_events D))"
  obtain e es where due: "?due = e # es" using assms by (auto simp: claim_pending_event_def split: list.splits)
  then have "e \<in> set ?due" by simp
  then have "e \<in> set (outbox_events D)" "claimable t e" by simp_all
  then show ?thesis using assms due by (auto simp: claim_pending_event_def Let_def)
qed

locale outbox_worker =
  fixes handlers :: "ctx_env \<Rightarrow> string \<rightharpoonup> handler"
  assumes leave_outbox:
    "handlers E name = Some h \<Longrightarrow> outbox_events (fst (snd (invoke_handler h payload i w))) = outbox_events (fst w)"
begin

lemma dispatch_cases:
  assumes "claim_and_dispatch (handlers (tk_env t)) t w = (answer, w')"
  obtains (idle) "answer = Inr False" and "w' = w"
    | (event) e f where "e \<in> set (outbox_events (fst w))" and "claimable t e" and "answer = Inr True"
        and "outbox_events (fst w') = update_row oe_id (oe_id e) f (outbox_events (fst w))"
        and "settles e (f e)" and "\<And>r. oe_id (f r) = oe_id r" and "\<And>r. oe_idempotency_key (f r) = oe_idempotency_key r"
proof (cases "claim_pending_event t (fst w)")
  case None
  then show ?thesis using assms idle by (simp add: claim_and_dispatch_def)
next
  case (Some p)
  obtain row D where p: "p = (row, D)" by (cases p)
  let ?mark = "\<lambda>r :: OutboxEvent. r\<lparr>oe_status := ''processing'', oe_updated_at := now_at (tk_env t)\<rparr>"
  obtain e where e: "e \<in> set (outbox_events (fst w))" "claimable t e" and row: "row = ?mark e"
    and D: "D = set_event (oe_id e) ?mark (fst w)"
    using claim_Some Some p by blast
  have keep: "oe_id (?mark r) = oe_id r" for r by simp
  let ?retry = "\<lambda>err D. mark_retry t (oe_id row) (oe_retry_count row) (oe_max_retries row) err D"
  have retry: thesis if "answer = Inr True" and "fst w' = ?retry err D1" and "outbox_events D1 = outbox_events D" for err D1
  proof -
    define g :: "OutboxEvent \<Rightarrow> OutboxEvent" where "g = (\<lambda>r. if oe_max_retries e \<le> oe_retry_count e + 1
        then r\<lparr>oe_status := ''dead_letter'', oe_retry_count := oe_retry_count e + 1, oe_last_error := Some err,
               oe_available_at := now_at (tk_env t), oe_updated_at := now_at (tk_env t)\<rparr>
        else r\<lparr>oe_status := ''pending'', oe_retry_count := oe_retry_count e + 1, oe_last_error := Some err,
               oe_available_at := now_at (tk_env t) + jittered_delay t (oe_retry_count e), oe_updated_at := now_at (tk_env t)\<rparr>)"
    have "fst w' = set_event (oe_id e) g D1"
      using that(2) by (simp add: mark_retry_def Let_def g_def row)
    then have "outbox_events (fst w') = update_row oe_id (oe_id e) (g \<circ> ?mark) (outbox_events (fst w))"
      using set_event_twice [of ?mark D1 "oe_id e" "fst w" g] keep that(3) D by simp
    moreover have "settles e ((g \<circ> ?mark) e)" by (simp add: settles_def g_def)
    ultimately show thesis using event [OF e that(1)] by (simp add: g_def)
  qed
  have decoded: "decode_payload (fetched (oe_payload row)) = Inr (oe_payload row)" by (simp add: fetched_def)
  show thesis
  proof (cases "handlers (tk_env t) (oe_event_name row)")
    case None
    then have "answer = Inr True"
      "fst w' = ?retry (''no handler registered for '' @ quoted (oe_event_name row)) D"
      using assms Some p decoded by (auto simp: claim_and_dispatch_def)
    then show thesis using retry by blast
  next
    case h: (Some h)
    obtain r w1 where r: "invoke_handler h (oe_payload row) (oe_id row) (D, snd w) = (r, w1)" by (meson surj_pair)
    have frame: "outbox_events (fst w1) = outbox_events D"
      using leave_outbox [OF h, of "oe_payload row" "oe_id row" "(D, snd w)"] by (simp add: r)
    show thesis
    proof (cases r)
      case (Inl err)
      then have "answer = Inr True" "fst w' = ?retry err (fst w1)"
        using assms Some p decoded h r by (simp_all add: claim_and_dispatch_def) auto
      then show thesis using retry frame by blast
    next
      case (Inr u)
      let ?g = "\<lambda>r :: OutboxEvent. r\<lparr>oe_status := ''delivered'', oe_processed_at := Some (now_at (tk_env t)), oe_updated_at := now_at (tk_env t)\<rparr>"
      have "answer = Inr True" "fst w' = set_event (oe_id e) ?g (fst w1)"
        using assms Some p decoded h r Inr row by (auto simp: claim_and_dispatch_def mark_delivered_def)
      moreover from this have "outbox_events (fst w') = update_row oe_id (oe_id e) (?g \<circ> ?mark) (outbox_events (fst w))"
        using set_event_twice [of ?mark "fst w1" "oe_id e" "fst w" ?g] keep frame D by simp
      moreover have "settles e ((?g \<circ> ?mark) e)" by (simp add: settles_def)
      ultimately show thesis using event [OF e] by simp
    qed
  qed
qed

lemma dispatch_unique:
  assumes "claim_and_dispatch (handlers (tk_env t)) t w = (answer, w')" and "unique_on oe_id (outbox_events (fst w))"
  shows "unique_on oe_id (outbox_events (fst w'))"
  using assms(1) by (cases rule: dispatch_cases) (use assms(2) in \<open>auto simp: unique_on_update_row\<close>)

lemma dispatch_frozen:
  assumes "claim_and_dispatch (handlers (tk_env t)) t w = (answer, w')" and "unique_on oe_id (outbox_events (fst w))"
    and "e \<in> set (outbox_events (fst w))" and "oe_status e \<noteq> ''pending''"
  shows "e \<in> set (outbox_events (fst w'))"
  using assms(1)
proof (cases rule: dispatch_cases)
  case (event e' f)
  then have "oe_id e \<noteq> oe_id e'" using assms(2-4) unique_onD [OF assms(2)] by (metis claimable_def)
  then show ?thesis using assms(3) event(4) by (simp add: set_update_row)
qed (use assms(3) in simp)

lemma dispatch_budget:
  assumes "claim_and_dispatch (handlers (tk_env t)) t w = (answer, w')" and "unique_on oe_id (outbox_events (fst w))"
  shows "budget (outbox_events (fst w')) + (if answer = Inr True then 1 else 0) \<le> budget (outbox_events (fst w))"
  using assms(1)
proof (cases rule: dispatch_cases)
  case (event e f)
  have "attempts_left (f e) < attempts_left e"
    using event(2, 5) settles_attempts by (simp add: claimable_def)
  then show ?thesis using budget_update [OF assms(2) event(1), of f] event(3, 4) by simp
qed simp

lemma run_frozen:
  assumes "poll_loop handlers ts w = (answers, w')" and "unique_on oe_id (outbox_events (fst w))"
    and "e \<in> set (outbox_events (fst w))" and "oe_status e \<noteq> ''pending''"
  shows "e \<in> set (outbox_events (fst w'))"
  using assms
proof (induction ts arbitrary: w answers)
  case (Cons t ts)
  obtain answer w1 where step: "claim_and_dispatch (handlers (tk_env t)) t w = (answer, w1)" by (meson surj_pair)
  then obtain rest where "poll_loop handlers ts w1 = (rest, w')"
    using Cons.prems(1) by (auto simp: Let_def split: prod.splits)
  then show ?case
    using Cons.IH dispatch_unique [OF step] dispatch_frozen [OF step] Cons.prems(2-4) by blast
qed simp

lemma run_budget:
  assumes "poll_loop handlers ts w = (answers, w')" and "unique_on oe_id (outbox_events (fst w))"
  shows "length (filter (\<lambda>a. a = Inr True) answers) + budget (outbox_events (fst w')) \<le> budget (outbox_events (fst w))"
  using assms
proof (induction ts arbitrary: w answers)
  case (Cons t ts)
  obtain answer w1 where step: "claim_and_dispatch (handlers (tk_env t)) t w = (answer, w1)" by (meson surj_pair)
  then obtain rest where run: "poll_loop handlers ts w1 = (rest, w')" and answers: "answers = answer # rest"
    using Cons.prems(1) by (auto simp: Let_def split: prod.splits)
  have "length (filter (\<lambda>a. a = Inr True) rest) + budget (outbox_events (fst w')) \<le> budget (outbox_events (fst w1))"
    using Cons.IH run dispatch_unique [OF step Cons.prems(2)] by blast
  then show ?case using dispatch_budget [OF step Cons.prems(2)] answers by (auto split: if_splits)
qed simp

lemma dispatch_wf:
  assumes "claim_and_dispatch (handlers (tk_env t)) t w = (answer, w')" and "outbox_wf (fst w)"
  shows "outbox_wf (fst w')"
  using assms(1)
proof (cases rule: dispatch_cases)
  case (event e f)
  have keys: "unique_on oe_id (outbox_events (fst w'))" "unique_on oe_idempotency_key (outbox_events (fst w'))"
    using assms(2) event(4, 6, 7) by (simp_all add: outbox_wf_def unique_on_update_row)
  have "event_ok (f e)" using event(5) by (rule settles_ok)
  moreover have "r = e" if "r \<in> set (outbox_events (fst w))" "oe_id r = oe_id e" for r
    using that event(1) assms(2) unique_onD by (auto simp: outbox_wf_def)
  ultimately have "\<forall>r \<in> set (outbox_events (fst w')). event_ok r"
    using assms(2) event(4) by (auto simp: outbox_wf_def set_update_row)
  then show ?thesis using keys by (simp add: outbox_wf_def)
qed (use assms(2) in simp)

end

section \<open>The handlers of the worker\<close>

lemma classification_callback_outbox:
  "classification_callback tok E au b D = Inr (r, D') \<Longrightarrow> outbox_events D' = outbox_events D"
  by (auto simp: classification_callback_def process_spam_callback_def process_level_callback_def Let_def sbind_Inr_iff
      split: if_splits option.splits)

lemma post_callback_outbox: "outbox_events (snd (post_callback L E b D)) = outbox_events D"
  by (auto simp: post_callback_def split: sum.split prod.split dest: classification_callback_outbox)

lemma post_all_outbox: "outbox_events (post_all L Es n bs D) = outbox_events D"
  by (induction bs arbitrary: n D) (auto split: sum.split prod.split dest: classification_callback_outbox)

lemma fail_open_outbox: "outbox_events (snd (fail_open L E1 E2 i t err D)) = outbox_events D"
  by (auto simp: fail_open_def Let_def split: sum.split prod.split) (metis post_callback_outbox snd_conv)+

lemma handle_lead_outbox: "outbox_events (snd (handle_lead_created L Es payload D)) = outbox_events D"
  by (auto simp: handle_lead_created_def Let_def fail_open_outbox post_all_outbox split: prod.split sum.split)

lemma photo_writes_outbox [simp]:
  "outbox_events (update_photo_status i st c D) = outbox_events D"
  "outbox_events (create_derivative_record E j i key wd ht n D) = outbox_events D"
  "outbox_events (write_audit_log E j i t ev res det D) = outbox_events D"
  by (simp_all add: update_photo_status_def create_derivative_record_def write_audit_log_def)

lemma process_image_outbox: "outbox_events (fst (process_image W E l i t ct fs b w)) = outbox_events (fst w)"
  by (auto simp: process_image_def image_failed_def Let_def split: sum.split prod.split)

lemma handle_image_outbox:
  "outbox_events (fst (snd (handle_listing_image_uploaded W E payload i w))) = outbox_events (fst w)"
  by (auto simp: handle_listing_image_uploaded_def image_failed_def process_image_outbox Let_def split: sum.split)

interpretation worker: outbox_worker "EVENT_HANDLERS W" for W
proof
  fix E name h payload i w
  assume "EVENT_HANDLERS W E name = Some h"
  then show "outbox_events (fst (snd (invoke_handler h payload i w))) = outbox_events (fst w)"
    using handle_lead_outbox [of "we_leads W" "we_requests W E" payload "fst w"]
    by (auto simp: EVENT_HANDLERS_def handle_image_outbox split: if_splits prod.split)
qed

text \<open>
  C7. A worker makes no endless work of the events it finds: whatever the handlers do, the
  number of polls of a run that process an event is at most the attempts its pending events
  have left, \<open>max 1 (max_retries - retry_count)\<close> for each.
\<close>

theorem worker_run_terminates:
  assumes "poll_loop (EVENT_HANDLERS W) ts w = (answers, w')" and "unique_on oe_id (outbox_events (fst w))"
  shows "length (filter (\<lambda>a. a = Inr True) answers) \<le> budget (outbox_events (fst w))"
  using worker.run_budget [OF assms] by simp

definition demo_worker :: worker_env where
  "demo_worker = \<lparr>
     we_leads = \<lparr>lm_classify = (\<lambda>a p. ([], Inl ''Request error'')), lm_retry_max = 2, lm_retry_base = 5,
       lm_retry_max_delay = 120, lm_worker_token = ''s'', lm_backend_token = ''s'', lm_backend_up = True\<rparr>,
     we_media = \<lparr>
       wm_media = \<lparr>me_pil = None, me_max_mb = 1, me_hf_token = ''t'', me_threshold = 1 / 2,
         me_classify = (\<lambda>b. Some [(''nsfw'', Some (if b = ''bad'' then 1 else 0))]), me_internal_prefix = ''i''\<rparr>,
       wm_store = \<lparr>so_bucket_ok = True, so_put_ok = True, so_delete_ok = True\<rparr>, wm_get_ok = True,
       wm_blur = (\<lambda>_. 1000), wm_blur_threshold = 100, wm_derivative = (\<lambda>b. Inr (b, 1, 1)),
       wm_derivative_prefix = ''d''\<rparr>,
     we_rag = (\<lambda>p ob. (Inr (), ob)), we_agency_ai = (\<lambda>p i s. (Inr (), s)),
     we_requests = (\<lambda>E n. E\<lparr>fresh := (\<lambda>k. fresh E (10 * n + k))\<rparr>)\<rparr>"

definition demo_outbox :: world where
  "demo_outbox = (empty_db\<lparr>outbox_events := [demo_event]\<rparr>, Map.empty)"

lemma demo_outbox_unique: "unique_on oe_id (outbox_events (fst demo_outbox))"
  by (simp add: demo_outbox_def)

theorem worker_run_terminates_witness:
  "length (filter (\<lambda>a. a = Inr True) (fst (poll_loop (EVENT_HANDLERS demo_worker) [demo_tick 100, demo_tick 200] demo_outbox))) \<le> 3"
proof -
  let ?run = "poll_loop (EVENT_HANDLERS demo_worker) [demo_tick 100, demo_tick 200] demo_outbox"
  have "budget (outbox_events (fst demo_outbox)) = 3"
    by (simp add: budget_def attempts_left_def demo_outbox_def demo_event_def new_outbox_event_def)
  then show ?thesis
    using worker_run_terminates [OF prod.collapse [symmetric, of ?run] demo_outbox_unique] by (simp only:)
qed

text \<open>
  An event that was claimed, delivered or given up is never touched again by a worker's run.
  In particular an event whose worker died while it was processing it stays so.
\<close>

theorem settled_events_frozen:
  assumes "poll_loop (EVENT_HANDLERS W) ts w = (answers, w')" and "unique_on oe_id (outbox_events (fst w))"
    and "e \<in> set (outbox_events (fst w))" and "oe_status e \<noteq> ''pending''"
  shows "e \<in> set (outbox_events (fst w'))"
  by (rule worker.run_frozen [OF assms])

theorem settled_events_frozen_witness:
  "demo_event\<lparr>oe_status := ''processing''\<rparr> \<in> set (outbox_events (fst (snd
     (poll_loop (EVENT_HANDLERS demo_worker) [demo_tick 100]
        (empty_db\<lparr>outbox_events := [demo_event\<lparr>oe_status := ''processing''\<rparr>]\<rparr>, Map.empty)))))"
proof -
  let ?w = "(empty_db\<lparr>outbox_events := [demo_event\<lparr>oe_status := ''processing''\<rparr>]\<rparr>, Map.empty) :: world"
  let ?run = "poll_loop (EVENT_HANDLERS demo_worker) [demo_tick 100] ?w"
  have "unique_on oe_id (outbox_events (fst ?w))"
    "demo_event\<lparr>oe_status := ''processing''\<rparr> \<in> set (outbox_events (fst ?w))"
    "oe_status (demo_event\<lparr>oe_status := ''processing''\<rparr>) \<noteq> ''pending''"
    by simp_all
  then show ?thesis by (rule settled_events_frozen [OF prod.collapse [symmetric, of ?run]])
qed

text \<open>Events are published by the requests and processed by the workers, in any order.\<close>

inductive outbox_step :: "worker_env \<Rightarrow> world \<Rightarrow> world \<Rightarrow> bool" for W :: worker_env where
  published: "\<lbrakk>publish_outbox_event_in_session E i name payload key ty ag D = Inr D'; i \<notin> oe_id ` set (outbox_events D)\<rbrakk>
     \<Longrightarrow> outbox_step W (D, ob) (D', ob)"
| polled: "claim_and_dispatch (EVENT_HANDLERS W (tk_env t)) t w = (answer, w') \<Longrightarrow> outbox_step W w w'"

lemma outbox_step_wf: "outbox_step W w w' \<Longrightarrow> outbox_wf (fst w) \<Longrightarrow> outbox_wf (fst w')"
proof (induction rule: outbox_step.induct)
  case (published E i name payload key ty ag D D' ob)
  then show ?case by (auto simp: publish_outbox_Inr outbox_wf_def event_ok_def new_outbox_event_def)
next
  case (polled t w answer w')
  then show ?case by (rule worker.dispatch_wf)
qed

text \<open>
  C22. The outbox table stays well-formed however publishing and polling interleave: distinct
  identifiers and keys, a known status, attempts left exactly while an event is pending, and
  none left when it was given up.
\<close>

theorem outbox_well_formed:
  assumes "(outbox_step W)\<^sup>*\<^sup>* w w'" and "outbox_wf (fst w)"
  shows "outbox_wf (fst w')"
  using assms by (induction rule: rtranclp_induct) (auto intro: outbox_step_wf)

theorem outbox_well_formed_witness:
  "outbox_wf (fst (snd (claim_and_dispatch (EVENT_HANDLERS demo_worker (tk_env (demo_tick 100))) (demo_tick 100) demo_outbox)))"
proof -
  let ?x = "claim_and_dispatch (EVENT_HANDLERS demo_worker (tk_env (demo_tick 100))) (demo_tick 100) demo_outbox"
  have "outbox_step demo_worker demo_outbox (snd ?x)" by (rule polled [OF prod.collapse [symmetric, of ?x]])
  moreover have "outbox_wf (fst demo_outbox)"
    by (simp add: outbox_wf_def demo_outbox_def event_ok_def demo_event_def new_outbox_event_def)
  ultimately show ?thesis by (rule outbox_well_formed [OF r_into_rtranclp])
qed

section \<open>Moderation of listing images\<close>

lemma set_columns_fields [simp]: "ph_id (set_columns st c p) = ph_id p" "ph_status (set_columns st c p) = st"
  by (simp_all add: set_columns_def)

lemma photo_status_set:
  "p \<in> set (photos (update_photo_status i st c D)) \<Longrightarrow> ph_id p = i \<Longrightarrow> ph_status p = st"
  unfolding update_photo_status_def by (simp add: set_update_row) (elim disjE imageE conjE, simp_all)

lemma photo_writes_frame [simp]:
  "derivatives (update_photo_status i st c D) = derivatives D"
  "derivatives (write_audit_log E j i t ev res det D) = derivatives D"
  "photos (write_audit_log E j i t ev res det D) = photos D"
  by (simp_all add: update_photo_status_def write_audit_log_def)


definition demo_image :: json where
  "demo_image = JObj [(''listing_id'', JText ''l1''), (''listing_photo_id'', JText ''p1''),
     (''agency_tenant_id'', JText ''t1''), (''object_key'', JText ''o/p1'')]"


section \<open>Leads when the model service is away\<close>

lemma unseen:
  assumes "\<forall>r \<in> set rows. lr_lead_id r = i \<longrightarrow> lr_idempotency_key r = None"
  shows "seen_before i k rows = Inr None"
proof -
  have "filter (\<lambda>r. lr_lead_id r = i \<and> lr_idempotency_key r = Some x) rows = []" for x
    using assms by (auto simp: filter_empty_conv)
  then show ?thesis by (simp add: seen_before_def result_by_idempotency_def scalar_one_or_none_def)
qed

lemma upsert_succeeds:
  assumes "unique_on lr_lead_id rows"
  shows "\<exists>r rows'. upsert_result E j i t v rows = Inr (r, rows')"
  using assms by (auto simp: upsert_result_def result_by_lead_wf Let_def split: option.split)

lemma callbacks_succeed:
  assumes "find_row ld_id i (leads D) = Some lead" and "ld_agency_tenant_id lead = t"
  shows "unique_on lr_lead_id (spam_results D) \<Longrightarrow> seen_before i (vd_idempotency_key v) (spam_results D) = Inr None \<Longrightarrow>
      \<exists>r D'. process_spam_callback E i t v D = Inr (r, D')"
    and "unique_on lr_lead_id (level_results D) \<Longrightarrow> seen_before i (vd_idempotency_key v) (level_results D) = Inr None \<Longrightarrow>
      \<exists>r D'. process_level_callback E i t v D = Inr (r, D')"
  using assms upsert_succeeds [of "spam_results D" E "fresh E 0" i t v] upsert_succeeds [of "level_results D" E "fresh E 0" i t v]
  by (auto simp: process_spam_callback_def process_level_callback_def callback_lead_def get_lead_by_id_def Let_def)

lemma flushed_lead:
  assumes "find_row ld_id i (leads D) = Some lead"
    and "leads D' = update_row ld_id i (\<lambda>_. lead_flush E lead (lead\<lparr>ld_processing_status := p\<rparr>)) (leads D)"
  shows "find_row ld_id i (leads D') = Some (lead_flush E lead (lead\<lparr>ld_processing_status := p\<rparr>))"
proof -
  have "ld_id lead = i" using assms(1) by (auto dest: find_row_Some)
  then have "ld_id (lead_flush E lead (lead\<lparr>ld_processing_status := p\<rparr>)) = i" by simp
  then show ?thesis unfolding assms(2) using assms(1) by (simp add: find_row_replace)
qed

text \<open>A callback for a stage that has no verdict yet is accepted and sets the lead's processing status.\<close>

lemma first_spam_callback:
  assumes "find_row ld_id i (leads D) = Some lead" "ld_agency_tenant_id lead = t" "unique_on lr_lead_id (spam_results D)"
    "\<forall>r \<in> set (spam_results D). lr_lead_id r = i \<longrightarrow> lr_idempotency_key r = None"
  obtains r D1 lead1 where "process_spam_callback E i t v D = Inr (r, D1)" "level_results D1 = level_results D"
    "find_row ld_id i (leads D1) = Some lead1" "ld_agency_tenant_id lead1 = t"
    "ld_processing_status lead1 = spam_processing_status v (ld_processing_status lead)"
proof -
  obtain r D1 where run: "process_spam_callback E i t v D = Inr (r, D1)"
    using callbacks_succeed(1) [OF assms(1, 2, 3) unseen [OF assms(4)]] by blast
  have after: "level_results D1 = level_results D \<and> leads D1 = update_row ld_id i (\<lambda>_. lead_flush E lead
       (lead\<lparr>ld_processing_status := spam_processing_status v (ld_processing_status lead)\<rparr>)) (leads D)"
    using process_spam_callback_Inr [OF run] unseen [OF assms(4)] assms(1) by auto
  from that [OF run _ flushed_lead [OF assms(1) conjunct2 [OF after]]] after assms(2) show thesis by simp
qed

lemma first_level_callback:
  assumes "find_row ld_id i (leads D) = Some lead" "ld_agency_tenant_id lead = t" "unique_on lr_lead_id (level_results D)"
    "\<forall>r \<in> set (level_results D). lr_lead_id r = i \<longrightarrow> lr_idempotency_key r = None"
  obtains r D1 lead1 where "process_level_callback E i t v D = Inr (r, D1)" "find_row ld_id i (leads D1) = Some lead1"
    "ld_processing_status lead1 = level_processing_status v (ld_processing_status lead)"
proof -
  obtain r D1 where run: "process_level_callback E i t v D = Inr (r, D1)"
    using callbacks_succeed(2) [OF assms(1, 2, 3) unseen [OF assms(4)]] by blast
  have after: "leads D1 = update_row ld_id i (\<lambda>_. lead_flush E lead
       (lead\<lparr>ld_processing_status := level_processing_status v (ld_processing_status lead)\<rparr>)) (leads D)"
    using process_level_callback_Inr [OF run] unseen [OF assms(4)] assms(1) by auto
  from that [OF run flushed_lead [OF assms(1) after]] show thesis by simp
qed

lemma fail_open_completes:
  assumes wf: "leads_wf D" and lead: "find_row ld_id i (leads D) = Some lead" "ld_agency_tenant_id lead = t"
    and new: "\<forall>r \<in> set (spam_results D). lr_lead_id r = i \<longrightarrow> lr_idempotency_key r = None"
      "\<forall>r \<in> set (level_results D). lr_lead_id r = i \<longrightarrow> lr_idempotency_key r = None"
    and up: "lm_backend_up L" "lm_backend_token L \<noteq> []" "lm_worker_token L = lm_backend_token L"
  shows "\<exists>D2. fail_open L E1 E2 i t err D = (Inr (), D2) \<and>
    map_option ld_processing_status (find_row ld_id i (leads D2)) = Some ''completed''"
proof -
  define reason where "reason = JObj [(''reason'', JText ''model_service_unreachable_fail_open''), (''error'', JText (take 500 err))]"
  let ?spam = "fail_open_callback i t ''spam'' ''not_spam'' reason" and ?level = "fail_open_callback i t ''level'' ''normal'' reason"
  have uniq: "unique_on lr_lead_id (spam_results D)" "unique_on lr_lead_id (level_results D)"
    using wf by (simp_all add: leads_wf_def results_ok_def)
  obtain r D1 lead1 where spam: "process_spam_callback E1 i t (callback_verdict ?spam) D = Inr (r, D1)"
    "level_results D1 = level_results D" "find_row ld_id i (leads D1) = Some lead1" "ld_agency_tenant_id lead1 = t"
    by (rule first_spam_callback [OF lead uniq(1) new(1)])
  obtain r2 D2 lead2 where level: "process_level_callback E2 i t (callback_verdict ?level) D1 = Inr (r2, D2)"
    "find_row ld_id i (leads D2) = Some lead2"
    "ld_processing_status lead2 = level_processing_status (callback_verdict ?level) (ld_processing_status lead1)"
    by (rule first_level_callback [OF spam(3, 4)]) (simp_all add: spam(2) uniq(2) new(2))
  have "ld_processing_status lead2 = ''completed''"
    by (simp add: level(3) level_processing_status_def callback_verdict_def fail_open_callback_def LEAD_PROCESSING_STATUS_COMPLETED_def)
  moreover have "fail_open L E1 E2 i t err D = (Inr (), D2)"
    using spam(1) level(1) up
    by (simp add: fail_open_def Let_def post_callback_def classification_callback_def fail_open_callback_def flip: reason_def)
  ultimately show ?thesis using level(2) by simp
qed

lemma py_strip_blank: "py_strip s = [] \<longleftrightarrow> (\<forall>c \<in> set s. py_isspace c)"
proof -
  have "(\<forall>c \<in> set (dropWhile py_isspace s). py_isspace c) \<longleftrightarrow> (\<forall>c \<in> set s. py_isspace c)"
    by (induction s) auto
  then show ?thesis by (simp add: py_strip_def dropWhile_eq_Nil_conv)
qed

lemma strip_again:
  assumes "py_strip s \<noteq> []"
  shows "py_strip (py_strip s) \<noteq> []"
proof -
  let ?t = "dropWhile py_isspace (rev (dropWhile py_isspace s))"
  have "?t \<noteq> []" using assms by (simp add: py_strip_def)
  then have "\<not> py_isspace (hd ?t)" "hd ?t \<in> set (py_strip s)"
    by (simp_all add: hd_dropWhile py_strip_def del: dropWhile_eq_Nil_conv)
  then show ?thesis unfolding py_strip_blank by blast
qed

text \<open>What an accepted inquiry leaves for the worker.\<close>

lemma accepted_inquiry:
  assumes "leads_wf D" and "create_inquiry E listing user m D = Inr (lead, D1)"
    and "fresh E 0 \<notin> ld_id ` set (leads D)" and "fresh E 1 \<notin> lr_id ` set (spam_results D)"
    and "fresh E 2 \<notin> lr_id ` set (level_results D)"
  obtains msg where "msg \<noteq> []" "py_strip msg \<noteq> []" "ld_message lead = Some msg"
    "oe_payload (last (outbox_events D1)) = inquiry_payload lead msg"
    "leads_wf D1" "find_row ld_id (ld_id lead) (leads D1) = Some lead"
    "\<forall>r \<in> set (spam_results D1). lr_lead_id r = ld_id lead \<longrightarrow> lr_idempotency_key r = None"
    "\<forall>r \<in> set (level_results D1). lr_lead_id r = ld_id lead \<longrightarrow> lr_idempotency_key r = None"
proof -
  have wf: "leads_wf D1" using create_inquiry_wf assms by blast
  obtain li us msg where c: "msg = py_strip (case m of None \<Rightarrow> [] | Some t \<Rightarrow> t)" "msg \<noteq> []" "lead = new_lead E li us msg"
    "leads D1 = leads D @ [lead]"
    "spam_results D1 = spam_results D @ [pending_result E (fresh E 1) (ld_id lead) (ld_agency_tenant_id lead)]"
    "level_results D1 = level_results D @ [pending_result E (fresh E 2) (ld_id lead) (ld_agency_tenant_id lead)]"
    "outbox_events D1 = outbox_events D @ [new_outbox_event E (fresh E 3) ''lead.created''
      (inquiry_payload lead msg) (''lead.created.'' @ ld_id lead) (Some ''lead'') (Some (ld_id lead))]"
    using create_inquiry_Inr [OF assms(2)] by blast
  have i: "ld_id lead = fresh E 0" "ld_message lead = Some msg" using c(3) by (simp_all add: new_lead_def)
  have found: "find_row ld_id (ld_id lead) (leads D1) = Some lead"
    using find_row_unique [of ld_id "leads D1" lead] wf c(4) by (simp add: leads_wf_def)
  have "ld_id lead \<notin> lr_lead_id ` set (spam_results D)" "ld_id lead \<notin> lr_lead_id ` set (level_results D)"
    using assms(1, 3) i by (auto simp: leads_wf_def results_ok_def)
  then have "\<forall>r \<in> set (spam_results D1). lr_lead_id r = ld_id lead \<longrightarrow> lr_idempotency_key r = None"
    "\<forall>r \<in> set (level_results D1). lr_lead_id r = ld_id lead \<longrightarrow> lr_idempotency_key r = None"
    using c(5, 6) by (auto simp: pending_result_def image_iff)
  moreover have "py_strip msg \<noteq> []" using c(1, 2) by (simp add: strip_again)
  ultimately show thesis using that c(2, 7) i(2) wf found by simp
qed

lemma attempts_all_fail:
  assumes "\<And>a p. \<exists>e. lm_classify L a p = ([], Inl e)"
  shows "\<exists>e sleeps. attempts_from L i payload as err = (Inl e, [], sleeps)"
proof (induction as arbitrary: err)
  case (Cons a as)
  obtain e where "lm_classify L a payload = ([], Inl e)" using assms by blast
  moreover obtain e' sleeps where "attempts_from L i payload as (Some e) = (Inl e', [], sleeps)" using Cons by blast
  ultimately show ?case by simp
qed simp

text \<open>
  A lead does not stay pending when the model service is away: for every accepted inquiry
  the handling of the event it published succeeds, and leaves the lead's processing completed.
\<close>

theorem lead_completed_without_model_service:
  assumes "leads_wf D" and "create_inquiry E listing user m D = Inr (lead, D1)"
    and "fresh E 0 \<notin> ld_id ` set (leads D)" and "fresh E 1 \<notin> lr_id ` set (spam_results D)"
    and "fresh E 2 \<notin> lr_id ` set (level_results D)"
    and "\<And>a p. \<exists>e. lm_classify L a p = ([], Inl e)"
    and "lm_backend_up L" and "lm_backend_token L \<noteq> []" and "lm_worker_token L = lm_backend_token L"
  shows "\<exists>D2. handle_lead_created L Es (oe_payload (last (outbox_events D1))) D1 = (Inr (), D2) \<and>
    map_option ld_processing_status (find_row ld_id (ld_id lead) (leads D2)) = Some ''completed''"
proof -
  obtain msg where c: "msg \<noteq> []" "py_strip msg \<noteq> []" "ld_message lead = Some msg"
    "oe_payload (last (outbox_events D1)) = inquiry_payload lead msg"
    "leads_wf D1" "find_row ld_id (ld_id lead) (leads D1) = Some lead"
    "\<forall>r \<in> set (spam_results D1). lr_lead_id r = ld_id lead \<longrightarrow> lr_idempotency_key r = None"
    "\<forall>r \<in> set (level_results D1). lr_lead_id r = ld_id lead \<longrightarrow> lr_idempotency_key r = None"
    by (rule accepted_inquiry [OF assms(1-5)])
  let ?p = "inquiry_payload lead msg"
  obtain e sleeps where fwd: "forward_to_model_service L (ld_id lead) (ld_agency_tenant_id lead) msg
      (text_field ?p ''name'') (text_field ?p ''email'') = (Inl e, [], sleeps)"
    unfolding forward_to_model_service_def using attempts_all_fail [OF assms(6)] by blast
  have fields: "is_object ?p" "text_field ?p ''lead_id'' = Some (ld_id lead)" "text_field ?p ''message'' = Some msg"
    "text_field ?p ''tenant_id'' = Some (ld_agency_tenant_id lead)"
    by (simp_all add: inquiry_payload_def is_object_def text_field_def)
  have "handle_lead_created L Es ?p D1 = fail_open L (Es 0) (Es (Suc 0)) (ld_id lead) (ld_agency_tenant_id lead) e D1"
    using fwd c(1, 2) unfolding handle_lead_created_def by (simp add: fields truthy_def Let_def)
  then show ?thesis
    using fail_open_completes [OF c(5, 6) refl c(7, 8) assms(7-9)] c(4) by simp
qed

lemma demo_inquiry: "\<exists>lead D1. create_inquiry demo_env ''l1'' ''u1'' (Some ''hi'') demo_db = Inr (lead, D1)"
proof -
  have "py_strip ''hi'' = ''hi''" "py_strip ''Ann'' = ''Ann''" by (simp_all add: py_strip_def py_isspace_def)
  then have "get_lead_profile_missing_fields (demo_user ''u1'') = []"
    by (simp add: get_lead_profile_missing_fields_def demo_user_def) (simp add: blank_def py_strip_def py_isspace_def)
  then show ?thesis
    by (simp add: create_inquiry_def get_listing_by_id_def get_user_by_id_def find_row_def demo_db_def Let_def
        publish_outbox_event_in_session_def \<open>py_strip ''hi'' = ''hi''\<close>)
      (simp add: demo_listing_def demo_user_def empty_db_def)
qed

theorem lead_completed_without_model_service_witness:
  "\<exists>lead D1 D2. create_inquiry demo_env ''l1'' ''u1'' (Some ''hi'') demo_db = Inr (lead, D1) \<and>
     handle_lead_created (we_leads demo_worker) (we_requests demo_worker demo_env) (oe_payload (last (outbox_events D1))) D1 =
       (Inr (), D2) \<and>
     map_option ld_processing_status (find_row ld_id (ld_id lead) (leads D2)) = Some ''completed''"
proof -
  obtain lead D1 where run: "create_inquiry demo_env ''l1'' ''u1'' (Some ''hi'') demo_db = Inr (lead, D1)"
    using demo_inquiry by blast
  have fr: "fresh demo_env 0 \<notin> ld_id ` set (leads demo_db)" "fresh demo_env 1 \<notin> lr_id ` set (spam_results demo_db)"
    "fresh demo_env 2 \<notin> lr_id ` set (level_results demo_db)"
    by (simp_all add: demo_defs)
  have L: "\<exists>e. lm_classify (we_leads demo_worker) a p = ([], Inl e)" "lm_backend_up (we_leads demo_worker)"
    "lm_backend_token (we_leads demo_worker) \<noteq> []"
    "lm_worker_token (we_leads demo_worker) = lm_backend_token (we_leads demo_worker)" for a p
    by (simp_all add: demo_worker_def)
  from lead_completed_without_model_service [OF demo_leads_wf run fr L, of "we_requests demo_worker demo_env"] run
  show ?thesis by blast
qed

end
