(* ===== verification/Notifications.thy ===== *)
theory Notifications
  imports Models
begin

text \<open>Notifications of a user: \<open>notifications/repository.py\<close> and \<open>notifications/service.py\<close>.\<close>

definition list_notifications_by_user :: "uuid \<Rightarrow> db \<Rightarrow> Notification list" where
  "list_notifications_by_user user_id D =
     sort_key (\<lambda>n. Desc (n_created_at n)) (filter (\<lambda>n. n_recipient_user_id n = Some user_id) (notifications D))"

definition get_notification_by_id :: "uuid \<Rightarrow> db \<Rightarrow> Notification option" where
  "get_notification_by_id i D = find_row n_id i (notifications D)"

definition list_user_notifications :: "uuid \<Rightarrow> pagination \<Rightarrow> db \<Rightarrow> py_exc + Notification pagination_result" where
  "list_user_notifications user_id p D = page_of (list_notifications_by_user user_id D) p"

text \<open>A notification without recipient is addressed to a whole tenant and is nobody's in particular.\<close>

definition get_notification :: "uuid \<Rightarrow> uuid \<Rightarrow> db \<Rightarrow> py_exc + Notification" where
  "get_notification notification_id user_id D =
     (case get_notification_by_id notification_id D of
        None \<Rightarrow> Inl (NotFoundError ''Notification not found'')
      | Some n \<Rightarrow>
          if n_recipient_user_id n \<noteq> None \<and> n_recipient_user_id n \<noteq> Some user_id
          then Inl (ForbiddenError ''Not your notification'') else Inr n)"

definition notification_flush :: "ctx_env \<Rightarrow> Notification \<Rightarrow> Notification \<Rightarrow> Notification" where
  "notification_flush E old new = (if new = old then old else new\<lparr>n_updated_at := now_at E\<rparr>)"

definition change_notification ::
  "ctx_env \<Rightarrow> (Notification \<Rightarrow> Notification) \<Rightarrow> string \<Rightarrow> uuid \<Rightarrow> uuid \<Rightarrow> db \<Rightarrow> py_exc + Notification \<times> db" where
  "change_notification E f event_name notification_id user_id D =
     sbind (get_notification notification_id user_id D) (\<lambda>n.
       (let new = notification_flush E n (f n);
            D1 = D\<lparr>notifications := update_row n_id notification_id (\<lambda>_. new) (notifications D)\<rparr>
        in Inr (new, write_domain_event_log E (fresh E 0) event_name (Some ''notification'')
             (Some notification_id) None None (Some user_id) D1)))"

definition mark_read :: "ctx_env \<Rightarrow> uuid \<Rightarrow> uuid \<Rightarrow> db \<Rightarrow> py_exc + Notification \<times> db" where
  "mark_read E = change_notification E (\<lambda>n. n\<lparr>n_status := ''read'', n_read_at := Some (now_at E)\<rparr>) ''notification.read''"

definition dismiss :: "ctx_env \<Rightarrow> uuid \<Rightarrow> uuid \<Rightarrow> db \<Rightarrow> py_exc + Notification \<times> db" where
  "dismiss E = change_notification E (\<lambda>n. n\<lparr>n_status := ''dismissed''\<rparr>) ''notification.dismissed''"

record NotificationData =
  nd_recipient_user_id :: "uuid option"
  nd_tenant_id :: "uuid option"
  nd_channel :: string
  nd_template_key :: "string option"
  nd_payload :: "json option"

definition create_notification :: "ctx_env \<Rightarrow> NotificationData \<Rightarrow> db \<Rightarrow> Notification \<times> db" where
  "create_notification E data D =
     (let n = \<lparr>n_id = fresh E 0, n_recipient_user_id = nd_recipient_user_id data, n_tenant_id = nd_tenant_id data,
               n_channel = nd_channel data, n_template_key = nd_template_key data,
               n_payload = nd_payload data, n_status = ''pending'', n_outbox_event_id = None,
               n_created_at = now_at E, n_updated_at = now_at E, n_sent_at = None, n_read_at = None\<rparr>
      in (n, D\<lparr>notifications := notifications D @ [n]\<rparr>))"

end
