(* ===== verification/Rag.thy ===== *)
theory Rag
  imports Photos Worker
begin

text \<open>
  Policy documents: the tables of \<open>rag/models.py\<close>, the document queries of
  \<open>rag/repository.py\<close> and the document service of \<open>rag/service.py\<close>. PyMuPDF and pgvector's
  distance are parameters.
\<close>

section \<open>Tables\<close>

record RagDocument =
  rd_id :: uuid
  rd_tenant_id :: uuid
  rd_filename :: string
  rd_status :: string
  rd_blob_path :: string
  rd_created_at :: timestamp
  rd_updated_at :: timestamp

record RagPage =
  rp_id :: uuid
  rp_document_id :: uuid
  rp_tenant_id :: uuid
  rp_page_number :: nat
  rp_blob_path :: string
  rp_content :: string
  rp_created_at :: timestamp

record 'v RagChunk =
  rc_id :: uuid
  rc_document_id :: uuid
  rc_tenant_id :: uuid
  rc_page_ids :: "uuid list"
  rc_content_hash :: string
  rc_text :: string
  rc_embedding :: "'v option"
  rc_status :: string
  rc_created_at :: timestamp

text \<open>Answers, as \<open>rag/schemas.py\<close> declares them.\<close>

record RagRetrievalCitation =
  ci_document_id :: uuid
  ci_document_filename :: string
  ci_page_number :: nat
  ci_source_label :: string

record RagRetrievalEvidence =
  ev_chunk_id :: uuid
  ev_document_id :: uuid
  ev_page_ids :: "uuid list"
  ev_document_filename :: string
  ev_page_numbers :: "nat list"
  ev_source_label :: string
  ev_vector_rank :: nat
  ev_vector_score :: rat
  ev_rerank_rank :: "int option"
  ev_rerank_score :: "rat option"
  ev_text_preview :: string
  ev_parent_page_text :: "string option"

record RagRetrievalDebug =
  db_reranker_used :: bool
  db_reranker_provider :: "string option"
  db_fallback_reason :: "string option"
  db_confidence_status :: string
  db_retrieval_log_id :: uuid
  db_guardrail_status :: "string option"
  db_guardrail_blocked_reason :: "string option"
  db_generation_provider :: "string option"
  db_vector_candidate_count :: "nat option"
  db_rerank_candidate_count :: "nat option"

record RagPolicyAnswer =
  pa_status :: string
  pa_answer :: string
  pa_citations :: "RagRetrievalCitation list"
  pa_evidence :: "RagRetrievalEvidence list"
  pa_debug :: "RagRetrievalDebug option"

record RagRetrievalLog =
  rl_id :: uuid
  rl_tenant_id :: uuid
  rl_actor_user_id :: "uuid option"
  rl_actor_role :: string
  rl_query :: string
  rl_selected_document_ids :: "uuid list"
  rl_selected_chunk_ids :: "uuid list"
  rl_selected_page_ids :: "uuid list"
  rl_reranker_used :: bool
  rl_reranker_provider :: "string option"
  rl_fallback_reason :: "string option"
  rl_confidence_status :: string
  rl_created_at :: timestamp

record RagChatThread =
  th_id :: uuid
  th_tenant_id :: uuid
  th_owner_user_id :: uuid
  th_title :: string
  th_created_at :: timestamp
  th_updated_at :: timestamp
  th_last_message_at :: timestamp

record RagChatMessage =
  cg_id :: uuid
  cg_thread_id :: uuid
  cg_tenant_id :: uuid
  cg_owner_user_id :: uuid
  cg_role :: string
  cg_content :: string
  cg_sequence_number :: nat
  cg_retrieval_log_id :: "uuid option"
  cg_answer_payload :: "RagPolicyAnswer option"
  cg_created_at :: timestamp

record ToolInvocation =
  ti_id :: uuid
  ti_tenant_id :: uuid
  ti_actor_user_id :: "uuid option"
  ti_tool_name :: string
  ti_input_summary :: "json option"
  ti_output_summary :: "json option"
  ti_status :: string
  ti_failure_reason :: "string option"
  ti_created_at :: timestamp

record 'v rag_db =
  rag_documents :: "RagDocument list"
  rag_pages :: "RagPage list"
  rag_chunks :: "'v RagChunk list"
  rag_retrieval_logs :: "RagRetrievalLog list"
  rag_chat_threads :: "RagChatThread list"
  rag_chat_messages :: "RagChatMessage list"
  tool_invocations :: "ToolInvocation list"

section \<open>Queries\<close>

definition get_document :: "uuid \<Rightarrow> uuid option \<Rightarrow> 'v rag_db \<Rightarrow> RagDocument option" where
  "get_document i tenant_id R =
     find (\<lambda>d. rd_id d = i \<and> Some (rd_tenant_id d) = tenant_id) (rag_documents R)"

definition get_document_for_worker :: "uuid \<Rightarrow> 'v rag_db \<Rightarrow> RagDocument option" where
  "get_document_for_worker i R = find_row rd_id i (rag_documents R)"

definition list_documents_of :: "uuid option \<Rightarrow> 'v rag_db \<Rightarrow> RagDocument list" where
  "list_documents_of tenant_id R =
     sort_key (\<lambda>d. Desc (rd_created_at d)) (filter (\<lambda>d. Some (rd_tenant_id d) = tenant_id) (rag_documents R))"

definition list_failed_documents :: "uuid option \<Rightarrow> 'v rag_db \<Rightarrow> RagDocument list" where
  "list_failed_documents tenant_id R =
     sort_key (\<lambda>d. Desc (rd_created_at d))
       (filter (\<lambda>d. rd_status d = ''failed'' \<and> (case tenant_id of None \<Rightarrow> True | Some t \<Rightarrow> rd_tenant_id d = t))
         (rag_documents R))"

definition list_pages_for_document :: "uuid \<Rightarrow> 'v rag_db \<Rightarrow> RagPage list" where
  "list_pages_for_document i R = sort_key rp_page_number (filter (\<lambda>p. rp_document_id p = i) (rag_pages R))"

definition hard_delete_document :: "uuid \<Rightarrow> 'v rag_db \<Rightarrow> 'v rag_db" where
  "hard_delete_document i R =
     R\<lparr>rag_chunks := filter (\<lambda>c. rc_document_id c \<noteq> i) (rag_chunks R),
       rag_pages := filter (\<lambda>p. rp_document_id p \<noteq> i) (rag_pages R),
       rag_documents := filter (\<lambda>d. rd_id d \<noteq> i) (rag_documents R)\<rparr>"

definition list_processed_documents :: "uuid \<Rightarrow> 'v rag_db \<Rightarrow> RagDocument list" where
  "list_processed_documents tenant_id R =
     filter (\<lambda>d. rd_tenant_id d = tenant_id \<and> rd_status d = ''processed'') (rag_documents R)"

definition list_active_chunks :: "uuid \<Rightarrow> uuid list \<Rightarrow> 'v rag_db \<Rightarrow> 'v RagChunk list" where
  "list_active_chunks tenant_id document_ids R =
     sort_key (\<lambda>c. Desc (rc_created_at c))
       (filter (\<lambda>c. rc_tenant_id c = tenant_id \<and> rc_status c = ''active'' \<and>
                    (document_ids = [] \<or> rc_document_id c \<in> set document_ids)) (rag_chunks R))"

definition list_parent_pages :: "uuid \<Rightarrow> uuid list \<Rightarrow> 'v rag_db \<Rightarrow> RagPage list" where
  "list_parent_pages tenant_id page_ids R =
     (if page_ids = [] then []
      else filter (\<lambda>p. rp_tenant_id p = tenant_id \<and> rp_id p \<in> set page_ids) (rag_pages R))"

text \<open>The cosine distance is pgvector's: a parameter.\<close>

definition search_chunks_by_embedding ::
  "('v \<Rightarrow> 'v \<Rightarrow> rat) \<Rightarrow> uuid \<Rightarrow> 'v \<Rightarrow> int \<Rightarrow> 'v rag_db \<Rightarrow> ('v RagChunk \<times> RagDocument \<times> rat) list" where
  "search_chunks_by_embedding distance tenant_id query top_k R =
     (let joined = concat (map (\<lambda>c. map (Pair c) (filter (\<lambda>d. rd_id d = rc_document_id c) (rag_documents R))) (rag_chunks R));
          found = filter (\<lambda>(c, d). rc_tenant_id c = tenant_id \<and> rc_status c = ''active'' \<and> rd_tenant_id d = tenant_id \<and>
                                   rd_status d = ''processed'' \<and> rc_embedding c \<noteq> None) joined;
          rows = map (\<lambda>(c, d). (c, d, distance (the (rc_embedding c)) query)) found
      in take (nat (min (max 1 top_k) 20)) (sort_key (\<lambda>(c, d, x). x) rows))"

section \<open>The document service\<close>

text \<open>What PyMuPDF makes of a file: it is not installed, it cannot open it, a page raises, or the texts.\<close>

datatype pdf = NoFitz | OpenFails string | PageFails string | PageTexts "string list"

record rag_env =
  ra_max_mb :: nat
  ra_fitz :: "string \<Rightarrow> pdf"
  ra_store :: store_env

definition join_lines :: "string list \<Rightarrow> string" where
  "join_lines ts = concat (map (\<lambda>(i, t). if i = 0 then t else CHR 0x0A # t) (List.enumerate 0 ts))"

definition pdf_no_text :: py_exc where
  "pdf_no_text = AppException 400 ''This PDF has no extractable text. Scanned documents are not yet supported.''
     (Some ''PDF_NO_TEXT'') []"

text \<open>An error of a page is raised outside the inner handlers: the caller answers it as a file without text.\<close>

definition service_extract_text :: "rag_env \<Rightarrow> string \<Rightarrow> py_exc + string" where
  "service_extract_text A file_bytes =
     (case ra_fitz A file_bytes of
        NoFitz \<Rightarrow> Inl (AppException 503 ''PDF text extraction is temporarily unavailable.'' (Some ''PDF_EXTRACTION_UNAVAILABLE'') [])
      | OpenFails e \<Rightarrow>
          Inl (AppException 400 ''The PDF could not be opened. It may be empty or corrupted.'' (Some ''PDF_UNREADABLE'') [])
      | PageFails e \<Rightarrow> Inl pdf_no_text
      | PageTexts pages \<Rightarrow>
          if py_strip (join_lines pages) = [] then Inl pdf_no_text else Inr (join_lines pages))"

definition sanitize_filename :: "string \<Rightarrow> string" where
  "sanitize_filename name =
     (let s = map (\<lambda>c. if c = CHR ''/'' \<or> c = CHR 0x5C then CHR ''_'' else c) name
      in if s = [] then ''document.pdf'' else s)"

definition ends_with :: "string \<Rightarrow> string \<Rightarrow> bool" where
  "ends_with suffix s \<longleftrightarrow> length suffix \<le> length s \<and> drop (length s - length suffix) s = suffix"

definition validate_pdf_upload :: "rag_env \<Rightarrow> string \<Rightarrow> string option \<Rightarrow> string \<Rightarrow> py_exc + unit" where
  "validate_pdf_upload A b content_type filename =
     (if ra_max_mb A * 1024 * 1024 < length b
      then Inl (AppException 413 (''This PDF exceeds the '' @ nat_text (ra_max_mb A) @ ''MB upload limit.'') (Some ''PDF_TOO_LARGE'') [])
      else if \<not> ends_with ''.pdf'' (py_lower filename)
      then Inl (AppException 415 ''Only PDF files are accepted.'' (Some ''PDF_WRONG_TYPE'') [])
      else if take 4 b \<noteq> ''%PDF''
      then Inl (AppException 400 ''This file does not look like a valid PDF.'' (Some ''PDF_INVALID'') [])
      else if truthy content_type \<and>
        py_strip (takeWhile (\<lambda>c. c \<noteq> CHR '';'') (py_lower (the content_type))) \<notin> set [''application/pdf'', ''application/x-pdf'']
      then Inl (AppException 415 ''Only PDF files are accepted.'' (Some ''PDF_WRONG_TYPE'') [])
      else if py_strip b = [] then Inl (AppException 400 ''The PDF is empty.'' (Some ''PDF_EMPTY'') [])
      else Inr ())"

definition rag_object_key :: "uuid option \<Rightarrow> uuid \<Rightarrow> string \<Rightarrow> string" where
  "rag_object_key tenant_id document_id filename =
     ''rag-vault/'' @ (case tenant_id of None \<Rightarrow> ''None'' | Some t \<Rightarrow> t) @ ''/'' @ document_id @ ''/original/'' @ filename"

definition upload_payload :: "RagDocument \<Rightarrow> uuid option \<Rightarrow> string \<Rightarrow> json" where
  "upload_payload d actor_id key =
     JObj [(''document_id'', JText (rd_id d)), (''tenant_id'', JText (rd_tenant_id d)), (''blob_path'', JText key),
           (''filename'', JText (rd_filename d)), (''uploaded_by_user_id'', jopt actor_id)]"

definition storage_failed :: py_exc where
  "storage_failed = AppException 503 (''We couldn'' @ CHR 0x27 # ''t store this document right now. Try again in a moment.'')
     (Some ''DOCUMENT_STORAGE_FAILED'') []"

definition check_pdf :: "rag_env \<Rightarrow> string \<Rightarrow> string \<Rightarrow> string option \<Rightarrow> py_exc + string" where
  "check_pdf A file_bytes filename content_type =
     (let name = sanitize_filename filename
      in sbind (validate_pdf_upload A file_bytes content_type name) (\<lambda>_.
         sbind (service_extract_text A file_bytes) (\<lambda>_. Inr name)))"

text \<open>
  The state is the main tables, the document tables and the object store. The new row's
  identifier is not the one in its object key: the code draws the two separately.
\<close>

type_synonym 'v rag_world = "(db \<times> 'v rag_db) \<times> objects"

definition upload_document ::
  "rag_env \<Rightarrow> ctx_env \<Rightarrow> TenantContext option \<Rightarrow> string \<Rightarrow> string \<Rightarrow> string option \<Rightarrow> 'v rag_world
     \<Rightarrow> (py_exc + RagDocument) \<times> 'v rag_world" where
  "upload_document A E tenant file_bytes filename content_type w =
     (case require_tenant tenant of
        Inl e \<Rightarrow> (Inl e, w)
      | Inr ctx \<Rightarrow>
          if tc_role ctx = Some ''support_employee''
          then (Inl (ForbiddenError ''Support employees cannot upload RAG documents''), w)
          else (case check_pdf A file_bytes filename content_type of
            Inl e \<Rightarrow> (Inl e, w)
          | Inr name \<Rightarrow>
              if \<not> so_bucket_ok (ra_store A) then (Inl (StorageError ''bucket_exists''), w)
              else
                (let key = rag_object_key (tc_tenant_id ctx) (fresh E 0) name
                 in (case upload_object (ra_store A) key file_bytes (snd w) of
                       (Inl _, ob) \<Rightarrow> (Inl storage_failed, fst w, ob)
                     | (Inr _, ob) \<Rightarrow>
                         (case (case tc_tenant_id ctx of
                             None \<Rightarrow> Inl (IntegrityError ''rag_documents.tenant_id is NOT NULL'')
                           | Some t \<Rightarrow>
                               (let d = \<lparr>rd_id = fresh E 1, rd_tenant_id = t, rd_filename = name, rd_status = ''pending'',
                                         rd_blob_path = key, rd_created_at = now_at E, rd_updated_at = now_at E\<rparr>
                                in sbind (publish_outbox_event_in_session E (fresh E 2) ''rag.document_uploaded''
                                     (upload_payload d (tc_actor_id ctx) key) (''rag-document-upload-'' @ rd_id d)
                                     (Some ''rag_document'') (Some (rd_id d)) (fst (fst w))) (\<lambda>D1.
                                   Inr (d, write_domain_event_log E (fresh E 3) ''rag.document_uploaded''
                                     (Some ''rag_document'') (Some (rd_id d))
                                     (Some (JObj [(''document_id'', JText (rd_id d)), (''blob_path'', JText key)]))
                                     (Some t) (tc_actor_id ctx) D1)))) of
                            Inl e \<Rightarrow> (Inl e, fst w, snd (delete_object (ra_store A) key ob))
                          | Inr (d, D1) \<Rightarrow>
                              (Inr d, (D1, (snd (fst w))\<lparr>rag_documents := rag_documents (snd (fst w)) @ [d]\<rparr>), ob))))))"

definition document_flush :: "ctx_env \<Rightarrow> RagDocument \<Rightarrow> RagDocument \<Rightarrow> RagDocument" where
  "document_flush E old new = (if new = old then old else new\<lparr>rd_updated_at := now_at E\<rparr>)"

definition replace_document ::
  "rag_env \<Rightarrow> ctx_env \<Rightarrow> TenantContext option \<Rightarrow> uuid \<Rightarrow> string \<Rightarrow> string \<Rightarrow> string option \<Rightarrow> 'v rag_world
     \<Rightarrow> (py_exc + RagDocument) \<times> 'v rag_world" where
  "replace_document A E tenant document_id file_bytes filename content_type w =
     (case require_tenant tenant of
        Inl e \<Rightarrow> (Inl e, w)
      | Inr ctx \<Rightarrow>
          if tc_role ctx = Some ''support_employee''
          then (Inl (ForbiddenError ''Support employees cannot replace RAG documents''), w)
          else (case get_document document_id (tc_tenant_id ctx) (snd (fst w)) of
            None \<Rightarrow> (Inl (NotFoundError ''RAG document not found''), w)
          | Some old \<Rightarrow>
              if rd_status old = ''processing''
              then (Inl (AppException 409 ''This document is still processing. Wait until it finishes before replacing it.''
                      (Some ''DOCUMENT_PROCESSING'') []), w)
              else (case check_pdf A file_bytes filename content_type of
                Inl e \<Rightarrow> (Inl e, w)
              | Inr name \<Rightarrow>
                  if \<not> so_bucket_ok (ra_store A) then (Inl (StorageError ''bucket_exists''), w)
                  else
                    (let key = rag_object_key (tc_tenant_id ctx) (rd_id old) name
                     in (case upload_object (ra_store A) key file_bytes (snd w) of
                           (Inl _, ob) \<Rightarrow> (Inl storage_failed, fst w, ob)
                         | (Inr _, ob) \<Rightarrow>
                             (let d = document_flush E old (old\<lparr>rd_filename := name, rd_blob_path := key, rd_status := ''pending''\<rparr>)
                              in (case publish_outbox_event_in_session E (fresh E 0) ''rag.document_uploaded''
                                      (upload_payload d (tc_actor_id ctx) key)
                                      (''rag-document-replace-'' @ rd_id d @ ''-'' @ fresh E 1)
                                      (Some ''rag_document'') (Some (rd_id d)) (fst (fst w)) of
                                    Inl e \<Rightarrow> (Inl e, fst w, snd (delete_object (ra_store A) key ob))
                                  | Inr D1 \<Rightarrow>
                                      (let D2 = write_domain_event_log E (fresh E 2) ''rag.document_replaced''
                                             (Some ''rag_document'') (Some (rd_id d))
                                             (Some (JObj [(''document_id'', JText (rd_id d)),
                                                          (''previous_blob_path'', JText (rd_blob_path old)),
                                                          (''blob_path'', JText key)]))
                                             (tc_tenant_id ctx) (tc_actor_id ctx) D1;
                                           R1 = (snd (fst w))\<lparr>rag_documents :=
                                                  update_row rd_id (rd_id old) (\<lambda>_. d) (rag_documents (snd (fst w)))\<rparr>;
                                           ob1 = (if rd_blob_path old \<noteq> key
                                                  then snd (delete_object (ra_store A) (rd_blob_path old) ob) else ob)
                                       in (Inr d, (D2, R1), ob1)))))))))"

definition get_rag_document :: "TenantContext option \<Rightarrow> uuid \<Rightarrow> 'v rag_db \<Rightarrow> py_exc + RagDocument" where
  "get_rag_document tenant i R =
     sbind (require_tenant tenant) (\<lambda>ctx.
     case get_document i (tc_tenant_id ctx) R of
       None \<Rightarrow> Inl (NotFoundError ''RAG document not found'') | Some d \<Rightarrow> Inr d)"

definition list_documents :: "TenantContext option \<Rightarrow> pagination \<Rightarrow> 'v rag_db \<Rightarrow> py_exc + RagDocument pagination_result" where
  "list_documents tenant p R =
     sbind (require_tenant tenant) (\<lambda>ctx. page_of (list_documents_of (tc_tenant_id ctx) R) p)"

text \<open>The blobs first, a failure to delete one ignored, then the rows.\<close>

definition delete_blobs :: "store_env \<Rightarrow> string list \<Rightarrow> objects \<Rightarrow> objects" where
  "delete_blobs S keys ob = fold (\<lambda>k ob. snd (delete_object S k ob)) keys ob"

definition service_hard_delete :: "store_env \<Rightarrow> RagDocument \<Rightarrow> 'v rag_db \<times> objects \<Rightarrow> 'v rag_db \<times> objects" where
  "service_hard_delete S d w =
     (hard_delete_document (rd_id d) (fst w),
      delete_blobs S (rd_blob_path d # map rp_blob_path (list_pages_for_document (rd_id d) (fst w))) (snd w))"

definition purge_failed_documents :: "store_env \<Rightarrow> uuid option \<Rightarrow> 'v rag_db \<times> objects \<Rightarrow> nat \<times> 'v rag_db \<times> objects" where
  "purge_failed_documents S tenant_id w =
     (let ds = list_failed_documents tenant_id (fst w) in (length ds, fold (service_hard_delete S) ds w))"

end
