(* ===== verification/RagWorker.thy ===== *)
theory RagWorker
  imports Rag
begin

text \<open>
  The worker's ingestion of policy documents: \<open>workers/handlers/rag.py\<close>. PyMuPDF, the
  content-defined chunker, SHA-256 and the embedding provider are parameters, and so is the order
  in which a set of strings is iterated.
\<close>

section \<open>Ingestion\<close>

record 'v ingest_env =
  in_store :: store_env
  in_get_ok :: bool
  in_fitz :: "string \<Rightarrow> pdf"
  in_fastcdc :: "(string \<Rightarrow> string list) option"
  in_sha256 :: "string \<Rightarrow> string"
  in_embed :: "string list \<Rightarrow> string + 'v list"
  in_iterate :: "string list \<Rightarrow> string list"

definition extract_text_from_pdf :: "'v ingest_env \<Rightarrow> string \<Rightarrow> string + string list" where
  "extract_text_from_pdf A pdf_bytes =
     (case in_fitz A pdf_bytes of
        NoFitz \<Rightarrow> Inl ''No module named fitz''
      | OpenFails e \<Rightarrow> Inl e
      | PageFails e \<Rightarrow> Inl e
      | PageTexts texts \<Rightarrow> Inr (filter (\<lambda>t. py_strip t \<noteq> []) texts))"

record chunk_data =
  cd_text :: string
  cd_page_ids :: "uuid list"
  cd_hash :: string

definition chunks_of_page :: "(string \<Rightarrow> string) \<Rightarrow> (string \<Rightarrow> string list) \<Rightarrow> RagPage \<Rightarrow> chunk_data list" where
  "chunks_of_page sha pieces p =
     (if py_strip (rp_content p) = [] then []
      else map (\<lambda>t. \<lparr>cd_text = t, cd_page_ids = [rp_id p], cd_hash = sha t\<rparr>)
             (filter (\<lambda>t. py_strip t \<noteq> []) (pieces (rp_content p))))"

definition create_chunks_from_pages :: "'v ingest_env \<Rightarrow> RagPage list \<Rightarrow> string + chunk_data list" where
  "create_chunks_from_pages A pages =
     (case in_fastcdc A of
        None \<Rightarrow> Inl ''No module named fastcdc''
      | Some pieces \<Rightarrow> Inr (concat (map (chunks_of_page (in_sha256 A) pieces) pages)))"

text \<open>The dictionary \<open>chunks_by_hash\<close>, in insertion order.\<close>

fun merge_chunk :: "chunk_data \<Rightarrow> chunk_data list \<Rightarrow> chunk_data list" where
  "merge_chunk c [] = [c]"
| "merge_chunk c (x # xs) =
     (if cd_hash x = cd_hash c then x\<lparr>cd_page_ids := cd_page_ids x @ cd_page_ids c\<rparr> # xs else x # merge_chunk c xs)"

definition chunks_by_hash :: "chunk_data list \<Rightarrow> chunk_data list" where
  "chunks_by_hash cs = fold merge_chunk cs []"

definition chunk_of_hash :: "chunk_data list \<Rightarrow> string \<Rightarrow> chunk_data option" where
  "chunk_of_hash cs h = find (\<lambda>c. cd_hash c = h) cs"

definition page_key :: "uuid \<Rightarrow> uuid \<Rightarrow> nat \<Rightarrow> string" where
  "page_key tenant_id document_id n =
     ''rag-vault/'' @ tenant_id @ ''/'' @ document_id @ ''/pages/page_'' @ nat_text n @ ''.txt''"

text \<open>The pages stored and built so far, and whether a store error ended the loop.\<close>

fun upload_pages ::
  "store_env \<Rightarrow> ctx_env \<Rightarrow> uuid \<Rightarrow> uuid \<Rightarrow> nat \<Rightarrow> string list \<Rightarrow> objects \<Rightarrow> (py_exc option \<times> RagPage list) \<times> objects" where
  "upload_pages S E document_id tenant_id n [] ob = ((None, []), ob)"
| "upload_pages S E document_id tenant_id n (t # ts) ob =
     (case upload_object S (page_key tenant_id document_id n) t ob of
        (Inl e, ob1) \<Rightarrow> ((Some e, []), ob1)
      | (Inr _, ob1) \<Rightarrow>
          (case upload_pages S E document_id tenant_id (Suc n) ts ob1 of
             ((e, ps), ob2) \<Rightarrow>
               ((e, \<lparr>rp_id = fresh E n, rp_document_id = document_id, rp_tenant_id = tenant_id, rp_page_number = n,
                     rp_blob_path = page_key tenant_id document_id n, rp_content = t, rp_created_at = now_at E\<rparr> # ps),
                ob2)))"

text \<open>\<open>existing_by_hash\<close>: of two rows with one hash the later one is kept.\<close>

definition existing_by_hash :: "uuid \<Rightarrow> 'v rag_db \<Rightarrow> string \<Rightarrow> 'v RagChunk option" where
  "existing_by_hash document_id R h =
     find (\<lambda>c. rc_document_id c = document_id \<and> rc_content_hash c = h) (rev (rag_chunks R))"

definition reuse_chunk :: "uuid \<Rightarrow> chunk_data list \<Rightarrow> 'v rag_db \<Rightarrow> 'v RagChunk \<Rightarrow> 'v RagChunk" where
  "reuse_chunk document_id cs R c =
     (case chunk_of_hash cs (rc_content_hash c) of
        None \<Rightarrow> c
      | Some d \<Rightarrow>
          if existing_by_hash document_id R (rc_content_hash c) = Some c
          then c\<lparr>rc_page_ids := cd_page_ids d, rc_status := ''active''\<rparr> else c)"

definition new_chunk ::
  "ctx_env \<Rightarrow> uuid \<Rightarrow> uuid \<Rightarrow> nat \<Rightarrow> chunk_data \<Rightarrow> 'v \<Rightarrow> 'v RagChunk" where
  "new_chunk E document_id tenant_id n d v =
     \<lparr>rc_id = fresh E n, rc_document_id = document_id, rc_tenant_id = tenant_id, rc_page_ids = cd_page_ids d,
      rc_content_hash = cd_hash d, rc_text = cd_text d, rc_embedding = Some v, rc_status = ''active'',
      rc_created_at = now_at E\<rparr>"

definition orphan_chunks_not_in_set :: "uuid \<Rightarrow> string list \<Rightarrow> 'v rag_db \<Rightarrow> 'v rag_db" where
  "orphan_chunks_not_in_set document_id active R =
     R\<lparr>rag_chunks := map (\<lambda>c. if rc_document_id c = document_id \<and> rc_content_hash c \<notin> set active \<and> rc_status c = ''active''
                              then c\<lparr>rc_status := ''orphaned''\<rparr> else c) (rag_chunks R)\<rparr>"

definition set_document_status :: "ctx_env \<Rightarrow> uuid \<Rightarrow> string \<Rightarrow> 'v rag_db \<Rightarrow> 'v rag_db" where
  "set_document_status E i status R =
     R\<lparr>rag_documents := update_row rd_id i (\<lambda>d. document_flush E d (d\<lparr>rd_status := status\<rparr>)) (rag_documents R)\<rparr>"

text \<open>
  The success path. The new rows are those of \<open>hs\<close>, paired with the vectors in order; fewer
  vectors than hashes is an \<open>IndexError\<close>, no vector at all skips the insertion.
\<close>

definition index_rows ::
  "ctx_env \<Rightarrow> uuid \<Rightarrow> uuid \<Rightarrow> RagPage list \<Rightarrow> chunk_data list \<Rightarrow> string list \<Rightarrow> 'v list \<Rightarrow> 'v rag_db \<Rightarrow> 'v rag_db" where
  "index_rows E document_id tenant_id pages cs hs vs R =
     R\<lparr>rag_pages := filter (\<lambda>p. rp_document_id p \<noteq> document_id) (rag_pages R) @ pages,
       rag_chunks := map (reuse_chunk document_id cs R) (rag_chunks R) @
         map (\<lambda>(n, h, v). new_chunk E document_id tenant_id (Suc (length pages) + n) (the (chunk_of_hash cs h)) v)
           (List.enumerate 0 (zip hs vs))\<rparr>"

definition store_index ::
  "ctx_env \<Rightarrow> uuid \<Rightarrow> uuid \<Rightarrow> RagPage list \<Rightarrow> chunk_data list \<Rightarrow> string list \<Rightarrow> 'v list \<Rightarrow> 'v rag_db \<Rightarrow> string + 'v rag_db" where
  "store_index E document_id tenant_id pages cs hs vs R =
     (if vs \<noteq> [] \<and> length vs < length hs then Inl ''list index out of range''
      else Inr (set_document_status E document_id ''processed''
                  (orphan_chunks_not_in_set document_id (map cd_hash cs)
                     (index_rows E document_id tenant_id pages cs hs vs R))))"

text \<open>How the work between the two commits ends, with the page objects stored by then.\<close>

datatype 'v ingestion = IngestRaised string "string list" | IngestDropped "string list" | Ingested "'v rag_db"

definition ingest_chunks ::
  "'v ingest_env \<Rightarrow> ctx_env \<Rightarrow> uuid \<Rightarrow> uuid \<Rightarrow> RagPage list \<Rightarrow> 'v rag_db \<Rightarrow> 'v ingestion" where
  "ingest_chunks A E document_id tenant_id pages R =
     (let paths = map rp_blob_path pages
      in (case create_chunks_from_pages A pages of
            Inl e \<Rightarrow> IngestRaised e paths
          | Inr [] \<Rightarrow> IngestDropped paths
          | Inr cds \<Rightarrow>
              (let cs = chunks_by_hash cds;
                   hs = filter (\<lambda>h. existing_by_hash document_id R h = None) (in_iterate A (map cd_hash cs))
               in (case (if hs = [] then Inr [] else in_embed A (map (\<lambda>h. cd_text (the (chunk_of_hash cs h))) hs)) of
                     Inl e \<Rightarrow> IngestDropped paths
                   | Inr vs \<Rightarrow>
                       (case store_index E document_id tenant_id pages cs hs vs R of
                          Inl e \<Rightarrow> IngestRaised e paths
                        | Inr R1 \<Rightarrow> Ingested R1)))))"

definition ingest ::
  "'v ingest_env \<Rightarrow> ctx_env \<Rightarrow> uuid \<Rightarrow> uuid \<Rightarrow> string \<Rightarrow> 'v rag_db \<Rightarrow> objects \<Rightarrow> 'v ingestion \<times> objects" where
  "ingest A E document_id tenant_id blob_path R ob =
     (case download_object (in_get_ok A) blob_path ob of
        Inl e \<Rightarrow> (IngestRaised e [], ob)
      | Inr pdf_bytes \<Rightarrow>
          (case extract_text_from_pdf A pdf_bytes of
             Inl e \<Rightarrow> (IngestRaised e [], ob)
           | Inr [] \<Rightarrow> (IngestDropped [], ob)
           | Inr texts \<Rightarrow>
               (case upload_pages (in_store A) E document_id tenant_id 1 texts ob of
                  ((Some e, pages), ob1) \<Rightarrow> (IngestRaised (exc_text e) (map rp_blob_path pages), ob1)
                | ((None, pages), ob1) \<Rightarrow> (ingest_chunks A E document_id tenant_id pages R, ob1))))"

text \<open>
  The handler. The first commit leaves the document in \<open>processing\<close>; a failure after it rolls back
  to there and deletes the document, its pages, its chunks and their objects. The inner function
  \<open>hard_delete_failed_document\<close> does what \<open>service_hard_delete\<close> does.
\<close>

definition drop_document :: "'v ingest_env \<Rightarrow> uuid \<Rightarrow> string list \<Rightarrow> 'v rag_db \<times> objects \<Rightarrow> 'v rag_db \<times> objects" where
  "drop_document A i paths w =
     (let ob1 = delete_blobs (in_store A) paths (snd w)
      in (case get_document_for_worker i (fst w) of
            None \<Rightarrow> (fst w, ob1)
          | Some d \<Rightarrow> service_hard_delete (in_store A) d (fst w, ob1)))"

definition handle_rag_document_uploaded ::
  "'v ingest_env \<Rightarrow> ctx_env \<Rightarrow> json \<Rightarrow> 'v rag_db \<times> objects \<Rightarrow> (string + unit) \<times> 'v rag_db \<times> objects" where
  "handle_rag_document_uploaded A E payload w =
     (if \<not> is_object payload then (Inl ''AttributeError'', w)
      else
        (let document_id = text_field payload ''document_id'';
             tenant_id = text_field payload ''tenant_id'';
             blob_path = text_field payload ''blob_path''
         in if \<not> (truthy document_id \<and> truthy tenant_id \<and> truthy blob_path)
            then (Inl ''Missing required fields in RAG upload payload'', w)
            else
              (let i = the document_id
               in (case get_document_for_worker i (fst w) of
                     None \<Rightarrow> (Inl (''Document '' @ i @ '' not found''), w)
                   | Some d \<Rightarrow>
                       (let R1 = set_document_status E i ''processing'' (fst w)
                        in (case ingest A E i (the tenant_id) (the blob_path) R1 (snd w) of
                              (IngestRaised e paths, ob1) \<Rightarrow> (Inl e, drop_document A i paths (R1, ob1))
                            | (IngestDropped paths, ob1) \<Rightarrow> (Inr (), drop_document A i paths (R1, ob1))
                            | (Ingested R2, ob1) \<Rightarrow> (Inr (), R2, ob1)))))))"

end
