(* ===== verification/RagProps.thy ===== *)
theory RagProps
  imports RagWorker Demo
begin

text \<open>
  What the ingestion of a policy document leaves: a document that is processed and indexed, or no
  document; the index of a processed document; and the loss of a document replaced before its
  ingestion.
\<close>

section \<open>Frames\<close>

lemma get_document_set_status:
  "get_document_for_worker i (set_document_status E j s R) =
     (if i = j then map_option (\<lambda>d. document_flush E d (d\<lparr>rd_status := s\<rparr>)) (get_document_for_worker i R)
      else get_document_for_worker i R)"
  by (simp add: get_document_for_worker_def set_document_status_def document_flush_def find_row_update_row)

lemma document_flush_sel [simp]:
  "rd_id (document_flush E old d) = rd_id d" "rd_status (document_flush E old d) = rd_status d"
  "rd_blob_path (document_flush E old d) = rd_blob_path d" "rd_filename (document_flush E old d) = rd_filename d"
  by (simp_all add: document_flush_def)

lemma set_status_frame [simp]:
  "rag_pages (set_document_status E j s R) = rag_pages R" "rag_chunks (set_document_status E j s R) = rag_chunks R"
  by (simp_all add: set_document_status_def)

lemma orphan_frame [simp]:
  "rag_pages (orphan_chunks_not_in_set i hs R) = rag_pages R"
  "rag_documents (orphan_chunks_not_in_set i hs R) = rag_documents R"
  "get_document_for_worker j (orphan_chunks_not_in_set i hs R) = get_document_for_worker j R"
  by (simp_all add: orphan_chunks_not_in_set_def get_document_for_worker_def)

lemma index_rows_frame [simp]:
  "get_document_for_worker j (index_rows E i t pages cs hs vs R) = get_document_for_worker j R"
  by (simp add: index_rows_def get_document_for_worker_def)

section \<open>No document is left unfinished\<close>

lemma store_index_status:
  assumes "store_index E i t pages cs hs vs R = Inr R'"
  shows "map_option rd_status (get_document_for_worker i R') =
      map_option (\<lambda>_. ''processed'') (get_document_for_worker i R)"
  using assms by (auto simp: store_index_def get_document_set_status option.map_comp comp_def split: if_splits)

definition no_trace :: "uuid \<Rightarrow> 'v rag_db \<Rightarrow> bool" where
  "no_trace i R \<longleftrightarrow> (\<forall>d \<in> set (rag_documents R). rd_id d \<noteq> i) \<and> (\<forall>p \<in> set (rag_pages R). rp_document_id p \<noteq> i) \<and>
     (\<forall>c \<in> set (rag_chunks R). rc_document_id c \<noteq> i)"

lemma hard_delete_no_trace: "no_trace i (hard_delete_document i R)"
  by (simp add: no_trace_def hard_delete_document_def)

lemma drop_document_no_trace:
  assumes "get_document_for_worker i R = Some d"
  shows "no_trace i (fst (drop_document A i paths (R, ob)))"
proof -
  from assms have "rd_id d = i" by (auto simp: get_document_for_worker_def dest: find_row_Some)
  with assms show ?thesis by (simp add: drop_document_def service_hard_delete_def hard_delete_no_trace Let_def)
qed

lemma ingest_chunks_Ingested:
  assumes "ingest_chunks A E i t pages R = Ingested R'"
  shows "\<exists>cds vs. create_chunks_from_pages A pages = Inr cds \<and> cds \<noteq> [] \<and>
    (let cs = chunks_by_hash cds; hs = filter (\<lambda>h. existing_by_hash i R h = None) (in_iterate A (map cd_hash cs))
     in (if hs = [] then vs = [] else in_embed A (map (\<lambda>h. cd_text (the (chunk_of_hash cs h))) hs) = Inr vs) \<and>
        store_index E i t pages cs hs vs R = Inr R')"
  using assms unfolding ingest_chunks_def Let_def
  by (auto split: sum.split_asm list.split_asm if_split_asm)

lemma ingest_Ingested:
  assumes "ingest A E i t b R ob = (Ingested R', ob')"
  shows "\<exists>bytes texts pages. download_object (in_get_ok A) b ob = Inr bytes \<and> extract_text_from_pdf A bytes = Inr texts \<and>
     texts \<noteq> [] \<and> upload_pages (in_store A) E i t 1 texts ob = ((None, pages), ob') \<and>
     ingest_chunks A E i t pages R = Ingested R'"
  using assms unfolding ingest_def
  by (auto split: sum.split_asm list.split_asm prod.split_asm option.split_asm)

lemma ingest_status:
  assumes "ingest A E i t b R ob = (Ingested R', ob')"
  shows "map_option rd_status (get_document_for_worker i R') =
      map_option (\<lambda>_. ''processed'') (get_document_for_worker i R)"
proof -
  from ingest_Ingested [OF assms] obtain pages where "ingest_chunks A E i t pages R = Ingested R'" by blast
  from ingest_chunks_Ingested [OF this] show ?thesis by (auto simp: Let_def dest: store_index_status)
qed

lemma handle_known_document:
  assumes "get_document_for_worker i R = Some d" and "is_object payload"
    and "text_field payload ''document_id'' = Some i" "text_field payload ''tenant_id'' = Some t"
      "text_field payload ''blob_path'' = Some b" "i \<noteq> []" "t \<noteq> []" "b \<noteq> []"
  shows "handle_rag_document_uploaded A E payload (R, ob) =
     (let R1 = set_document_status E i ''processing'' R
      in (case ingest A E i t b R1 ob of
            (IngestRaised e paths, ob1) \<Rightarrow> (Inl e, drop_document A i paths (R1, ob1))
          | (IngestDropped paths, ob1) \<Rightarrow> (Inr (), drop_document A i paths (R1, ob1))
          | (Ingested R2, ob1) \<Rightarrow> (Inr (), R2, ob1)))"
  using assms by (simp add: handle_rag_document_uploaded_def truthy_def)


section \<open>The dictionary of chunks\<close>

definition hash_ids :: "string \<Rightarrow> chunk_data list \<Rightarrow> uuid list" where
  "hash_ids h cds = concat (map cd_page_ids (filter (\<lambda>c. cd_hash c = h) cds))"

lemma chunk_of_hash_merge:
  "chunk_of_hash (merge_chunk c cs) h =
     (if h = cd_hash c
      then Some (case chunk_of_hash cs h of None \<Rightarrow> c | Some x \<Rightarrow> x\<lparr>cd_page_ids := cd_page_ids x @ cd_page_ids c\<rparr>)
      else chunk_of_hash cs h)"
  by (induction cs) (auto simp: chunk_of_hash_def)

lemma chunk_of_hash_Some: "chunk_of_hash cs h = Some d \<Longrightarrow> cd_hash d = h \<and> d \<in> set cs"
  by (auto simp: chunk_of_hash_def find_Some_iff)

lemma chunk_of_hash_None: "chunk_of_hash cs h = None \<longleftrightarrow> h \<notin> cd_hash ` set cs"
  by (auto simp: chunk_of_hash_def find_None_iff)

lemma merge_hashes: "cd_hash ` set (merge_chunk c cs) = insert (cd_hash c) (cd_hash ` set cs)"
  by (induction cs) auto

lemma merge_distinct: "distinct (map cd_hash cs) \<Longrightarrow> distinct (map cd_hash (merge_chunk c cs))"
proof (induction cs)
  case (Cons x xs)
  then show ?case using merge_hashes [of c xs] by (auto simp: image_iff)
qed simp

lemma fold_merge:
  assumes "\<forall>h. map_option cd_page_ids (chunk_of_hash acc h) =
      (if h \<in> cd_hash ` set seen then Some (hash_ids h seen) else None)" and "distinct (map cd_hash acc)"
  shows "map_option cd_page_ids (chunk_of_hash (fold merge_chunk cds acc) h) =
      (if h \<in> cd_hash ` set (seen @ cds) then Some (hash_ids h (seen @ cds)) else None) \<and>
    distinct (map cd_hash (fold merge_chunk cds acc))"
  using assms
proof (induction cds arbitrary: acc seen)
  case (Cons c cds)
  have "map_option cd_page_ids (chunk_of_hash (merge_chunk c acc) h) =
      (if h \<in> cd_hash ` set (seen @ [c]) then Some (hash_ids h (seen @ [c])) else None)" for h
    using Cons.prems(1) [rule_format, of h]
    by (cases "chunk_of_hash acc h"; cases "h \<in> cd_hash ` set seen")
      (auto simp: chunk_of_hash_merge hash_ids_def filter_empty_conv image_iff, metis)
  from Cons.IH [of "merge_chunk c acc" "seen @ [c]"] this merge_distinct [OF Cons.prems(2)] show ?case by simp
qed simp

lemma chunks_by_hash_ids:
  "map_option cd_page_ids (chunk_of_hash (chunks_by_hash cds) h) =
     (if h \<in> cd_hash ` set cds then Some (hash_ids h cds) else None)"
  using fold_merge [of "[]" "[]" cds h] by (simp add: chunks_by_hash_def chunk_of_hash_def)

lemma chunks_by_hash_keys: "cd_hash ` set (chunks_by_hash cds) = cd_hash ` set cds"
proof -
  have "h \<in> cd_hash ` set (chunks_by_hash cds) \<longleftrightarrow> h \<in> cd_hash ` set cds" for h
    using chunks_by_hash_ids [of cds h] by (simp add: chunk_of_hash_None split: if_splits) (metis chunk_of_hash_None option.simps(3))
  then show ?thesis by blast
qed

lemma chunks_by_hash_distinct: "distinct (map cd_hash (chunks_by_hash cds))"
  using fold_merge [of "[]" "[]" cds] by (simp add: chunks_by_hash_def chunk_of_hash_def)

section \<open>The pages\<close>

lemma upload_pages_built:
  assumes "upload_pages S E i t n texts ob = ((None, pages), ob')"
  shows "map (\<lambda>p. (rp_page_number p, rp_content p)) pages = List.enumerate n texts \<and>
    (\<forall>p \<in> set pages. rp_document_id p = i \<and> rp_id p = fresh E (rp_page_number p))"
  using assms
proof (induction texts arbitrary: n ob pages)
  case (Cons s ts)
  obtain ob1 where "upload_object S (page_key t i n) s ob = (Inr (), ob1)"
    using Cons.prems by (auto split: sum.split_asm prod.split_asm)
  moreover obtain e ps ob2 where "upload_pages S E i t (Suc n) ts ob1 = ((e, ps), ob2)" by (metis surj_pair)
  ultimately show ?case using Cons.prems Cons.IH [of "Suc n" ob1 ps] by auto
qed simp

section \<open>The index of a processed document\<close>

definition text_hashes :: "(string \<Rightarrow> string) \<Rightarrow> (string \<Rightarrow> string list) \<Rightarrow> string \<Rightarrow> string set" where
  "text_hashes sha pieces content =
     (if py_strip content = [] then {} else sha ` {t \<in> set (pieces content). py_strip t \<noteq> []})"

definition pages_of :: "uuid \<Rightarrow> 'v rag_db \<Rightarrow> RagPage list" where
  "pages_of i R = filter (\<lambda>p. rp_document_id p = i) (rag_pages R)"

definition chunks_of :: "uuid \<Rightarrow> 'v rag_db \<Rightarrow> 'v RagChunk list" where
  "chunks_of i R = filter (\<lambda>c. rc_document_id c = i) (rag_chunks R)"

text \<open>What the index of a document promises: its pages, and where each of its chunks occurs.\<close>

definition indexed :: "(string \<Rightarrow> string) \<Rightarrow> (string \<Rightarrow> string list) \<Rightarrow> uuid \<Rightarrow> string list \<Rightarrow> 'v rag_db \<Rightarrow> bool" where
  "indexed sha pieces i texts R \<longleftrightarrow>
     map (\<lambda>p. (rp_page_number p, rp_content p)) (pages_of i R) = List.enumerate 1 texts \<and>
     rc_content_hash ` {c \<in> set (chunks_of i R). rc_status c = ''active''} = (\<Union>t \<in> set texts. text_hashes sha pieces t) \<and>
     (\<forall>c \<in> set (chunks_of i R). rc_status c = ''active'' \<longrightarrow>
        set (rc_page_ids c) = rp_id ` {p \<in> set (pages_of i R). rc_content_hash c \<in> text_hashes sha pieces (rp_content p)})"

lemma chunks_of_page_hashes: "cd_hash ` set (chunks_of_page sha pieces p) = text_hashes sha pieces (rp_content p)"
  by (auto simp: chunks_of_page_def text_hashes_def image_iff)

lemma cds_hashes:
  "cd_hash ` set (concat (map (chunks_of_page sha pieces) pages)) = (\<Union>p \<in> set pages. text_hashes sha pieces (rp_content p))"
  by (simp add: image_UN chunks_of_page_hashes)

lemma hash_ids_pages:
  "set (hash_ids h (concat (map (chunks_of_page sha pieces) pages))) =
     rp_id ` {p \<in> set pages. h \<in> text_hashes sha pieces (rp_content p)}"
proof -
  have "set (hash_ids h (chunks_of_page sha pieces p)) = (if h \<in> text_hashes sha pieces (rp_content p) then {rp_id p} else {})" for p
    by (auto simp: hash_ids_def chunks_of_page_def text_hashes_def image_iff)
  then have "set (hash_ids h (concat (map (chunks_of_page sha pieces) pages))) =
      (\<Union>p \<in> set pages. if h \<in> text_hashes sha pieces (rp_content p) then {rp_id p} else {})"
    by (simp add: hash_ids_def filter_concat)
  then show ?thesis by (auto split: if_splits)
qed

lemma existing_by_hash_iff:
  assumes "distinct (map rc_content_hash (chunks_of i R))"
  shows "existing_by_hash i R h = Some c \<longleftrightarrow> c \<in> set (chunks_of i R) \<and> rc_content_hash c = h"
proof
  assume "existing_by_hash i R h = Some c"
  then show "c \<in> set (chunks_of i R) \<and> rc_content_hash c = h"
    by (auto simp: existing_by_hash_def find_Some_iff chunks_of_def rev_nth)
next
  assume c: "c \<in> set (chunks_of i R) \<and> rc_content_hash c = h"
  then obtain x where x: "existing_by_hash i R h = Some x"
    by (cases "existing_by_hash i R h") (auto simp: existing_by_hash_def find_None_iff chunks_of_def)
  then have "x \<in> set (chunks_of i R) \<and> rc_content_hash x = h"
    by (auto simp: existing_by_hash_def find_Some_iff chunks_of_def rev_nth)
  with c have "x = c" using assms by (auto simp: distinct_map inj_on_def)
  with x show "existing_by_hash i R h = Some c" by simp
qed

lemma existing_by_hash_None:
  "existing_by_hash i R h = None \<longleftrightarrow> h \<notin> rc_content_hash ` set (chunks_of i R)"
  by (auto simp: existing_by_hash_def find_None_iff chunks_of_def)

definition orphan_one :: "uuid \<Rightarrow> string set \<Rightarrow> 'v RagChunk \<Rightarrow> 'v RagChunk" where
  "orphan_one i H c =
     (if rc_document_id c = i \<and> rc_content_hash c \<notin> H \<and> rc_status c = ''active'' then c\<lparr>rc_status := ''orphaned''\<rparr> else c)"

definition settle :: "uuid \<Rightarrow> chunk_data list \<Rightarrow> 'v rag_db \<Rightarrow> 'v RagChunk \<Rightarrow> 'v RagChunk" where
  "settle i cs R c = orphan_one i (cd_hash ` set cs) (reuse_chunk i cs R c)"

lemma settle_key [simp]:
  "rc_document_id (settle i cs R c) = rc_document_id c" "rc_content_hash (settle i cs R c) = rc_content_hash c"
  by (auto simp: settle_def orphan_one_def reuse_chunk_def split: option.splits)

definition added_chunks :: "ctx_env \<Rightarrow> uuid \<Rightarrow> uuid \<Rightarrow> nat \<Rightarrow> chunk_data list \<Rightarrow> string list \<Rightarrow> 'v list \<Rightarrow> 'v RagChunk list" where
  "added_chunks E i t m cs hs vs =
     map (\<lambda>(n, h, v). new_chunk E i t (Suc m + n) (the (chunk_of_hash cs h)) v) (List.enumerate 0 (zip hs vs))"

lemma enumerate_member: "x \<in> set (List.enumerate n xs) \<Longrightarrow> snd x \<in> set xs"
  by (metis image_eqI map_snd_enumerate set_map)

lemma added_chunks_facts:
  assumes "set hs \<subseteq> cd_hash ` set cs"
  shows "\<forall>c \<in> set (added_chunks E i t m cs hs vs). rc_document_id c = i \<and> rc_status c = ''active'' \<and>
      (\<exists>d. chunk_of_hash cs (rc_content_hash c) = Some d \<and> rc_page_ids c = cd_page_ids d)" (is ?facts)
    and "length vs = length hs \<Longrightarrow> map rc_content_hash (added_chunks E i t m cs hs vs) = hs"
proof -
  have the_d: "\<exists>d. chunk_of_hash cs h = Some d \<and> cd_hash d = h" if "h \<in> set hs" for h
    using assms that chunk_of_hash_None [of cs h] chunk_of_hash_Some [of cs h] by (cases "chunk_of_hash cs h") auto
  then show ?facts
    by (fastforce simp: added_chunks_def new_chunk_def dest!: enumerate_member set_zip_leftD)
  assume len: "length vs = length hs"
  have "map rc_content_hash (added_chunks E i t m cs hs vs) = map (\<lambda>(n, h, v). h) (List.enumerate 0 (zip hs vs))"
    using the_d by (fastforce simp: added_chunks_def new_chunk_def dest!: enumerate_member set_zip_leftD)
  also have "\<dots> = map fst (map snd (List.enumerate 0 (zip hs vs)))"
    by (simp add: split_def comp_def del: map_snd_enumerate)
  also have "\<dots> = hs" using len by (simp only: map_snd_enumerate map_fst_zip)
  finally show "map rc_content_hash (added_chunks E i t m cs hs vs) = hs" .
qed

lemma index_rows_chunks:
  "rag_chunks (orphan_chunks_not_in_set i (map cd_hash cs) (index_rows E i t pages cs hs vs R)) =
     map (settle i cs R) (rag_chunks R) @ map (orphan_one i (cd_hash ` set cs)) (added_chunks E i t (length pages) cs hs vs)"
  by (simp add: orphan_chunks_not_in_set_def index_rows_def added_chunks_def settle_def orphan_one_def comp_def)

lemma store_index_chunks:
  assumes "store_index E i t pages cs hs vs R = Inr R'" and "set hs \<subseteq> cd_hash ` set cs"
  shows "rag_chunks R' = map (settle i cs R) (rag_chunks R) @ added_chunks E i t (length pages) cs hs vs"
    and "rag_pages R' = filter (\<lambda>p. rp_document_id p \<noteq> i) (rag_pages R) @ pages"
proof -
  have "c \<in> set (added_chunks E i t (length pages) cs hs vs) \<Longrightarrow> rc_content_hash c \<in> cd_hash ` set cs" for c
    using added_chunks_facts(1) [OF assms(2), of E i t "length pages" vs] by (metis chunk_of_hash_Some image_eqI)
  then have "map (orphan_one i (cd_hash ` set cs)) (added_chunks E i t (length pages) cs hs vs) =
      added_chunks E i t (length pages) cs hs vs" by (intro map_idI) (simp add: orphan_one_def)
  then show "rag_chunks R' = map (settle i cs R) (rag_chunks R) @ added_chunks E i t (length pages) cs hs vs"
    using assms(1) index_rows_chunks [of i cs E t pages hs vs R] by (force simp: store_index_def split: if_split_asm)
  show "rag_pages R' = filter (\<lambda>p. rp_document_id p \<noteq> i) (rag_pages R) @ pages"
    using assms(1) by (auto simp: store_index_def index_rows_def split: if_splits)
qed

lemma settle_active:
  assumes "distinct (map rc_content_hash (chunks_of i R))" and "c \<in> set (chunks_of i R)"
  shows "rc_status (settle i cs R c) = ''active'' \<longleftrightarrow> rc_content_hash c \<in> cd_hash ` set cs"
    and "chunk_of_hash cs (rc_content_hash c) = Some d \<Longrightarrow> rc_page_ids (settle i cs R c) = cd_page_ids d"
proof -
  have own: "rc_document_id c = i" and found: "existing_by_hash i R (rc_content_hash c) = Some c"
    using assms by (simp_all add: chunks_of_def existing_by_hash_iff)
  show "rc_status (settle i cs R c) = ''active'' \<longleftrightarrow> rc_content_hash c \<in> cd_hash ` set cs"
    using own found chunk_of_hash_None [of cs "rc_content_hash c"] chunk_of_hash_Some [of cs "rc_content_hash c"]
    by (cases "chunk_of_hash cs (rc_content_hash c)") (auto simp: settle_def orphan_one_def reuse_chunk_def)
  show "rc_page_ids (settle i cs R c) = cd_page_ids d" if "chunk_of_hash cs (rc_content_hash c) = Some d"
    using own found that chunk_of_hash_Some [of cs "rc_content_hash c"]
    by (auto simp: settle_def orphan_one_def reuse_chunk_def)
qed

lemma store_index_indexed:
  fixes pages :: "RagPage list" and sha :: "string \<Rightarrow> string" and pieces :: "string \<Rightarrow> string list"
  defines "cds \<equiv> concat (map (chunks_of_page sha pieces) pages)"
  defines "cs \<equiv> chunks_by_hash cds"
  assumes stored: "store_index E i t pages cs hs vs R = Inr R'"
    and hs: "set hs = {h \<in> cd_hash ` set cs. existing_by_hash i R h = None}" "distinct hs" "length vs = length hs"
    and once: "distinct (map rc_content_hash (chunks_of i R))"
    and built: "map (\<lambda>p. (rp_page_number p, rp_content p)) pages = List.enumerate 1 texts" "\<forall>p \<in> set pages. rp_document_id p = i"
  shows "indexed sha pieces i texts R'" and "distinct (map rc_content_hash (chunks_of i R'))"
proof -
  let ?add = "added_chunks E i t (length pages) cs hs vs"
  have sub: "set hs \<subseteq> cd_hash ` set cs" using hs by auto
  note chunks = store_index_chunks [OF stored sub]
  note add = added_chunks_facts(1) [OF sub, of E i t "length pages" vs] added_chunks_facts(2) [OF sub hs(3), of E i t "length pages"]
  have of_R': "chunks_of i R' = map (settle i cs R) (chunks_of i R) @ ?add"
    using add(1) by (simp add: chunks_of_def chunks(1) filter_map comp_def)
  have hashes: "map rc_content_hash (chunks_of i R') = map rc_content_hash (chunks_of i R) @ hs"
    by (simp add: of_R' add(2) comp_def)
  show "distinct (map rc_content_hash (chunks_of i R'))"
    unfolding hashes using once hs by (auto simp: existing_by_hash_None)
  have pages_R': "pages_of i R' = pages" using built(2) by (simp add: pages_of_def chunks(2) filter_id_conv)
  have keys: "cd_hash ` set cs = (\<Union>p \<in> set pages. text_hashes sha pieces (rp_content p))"
    by (simp only: cs_def chunks_by_hash_keys cds_def cds_hashes)
  have contents: "rp_content ` set pages = set texts"
    using arg_cong [OF built(1), of "\<lambda>l. set (map snd l)"] by (simp add: comp_def)
  have active: "rc_content_hash ` {c \<in> set (chunks_of i R'). rc_status c = ''active''} = cd_hash ` set cs" (is "?A = ?H")
  proof
    have "rc_content_hash c \<in> ?H" if c: "c \<in> set (chunks_of i R')" "rc_status c = ''active''" for c
    proof (cases "c \<in> set ?add")
      case True
      then show ?thesis using add(1) by (metis chunk_of_hash_Some image_eqI)
    next
      case False
      then obtain c0 where "c0 \<in> set (chunks_of i R)" "c = settle i cs R c0" using c(1) by (auto simp: of_R')
      then show ?thesis using settle_active(1) [OF once, of c0 cs] c(2) by simp
    qed
    then show "?A \<subseteq> ?H" by blast
    show "?H \<subseteq> ?A"
    proof
      fix h assume h: "h \<in> ?H"
      show "h \<in> ?A"
      proof (cases "existing_by_hash i R h")
        case None
        then have "h \<in> rc_content_hash ` set ?add" using h hs(1) add(2) by (metis (mono_tags, lifting) list.set_map mem_Collect_eq)
        then show ?thesis using add(1) by (auto simp: of_R')
      next
        case (Some c)
        then have "c \<in> set (chunks_of i R)" "rc_content_hash c = h" by (simp_all add: existing_by_hash_iff [OF once])
        then have "settle i cs R c \<in> set (chunks_of i R')" "rc_status (settle i cs R c) = ''active''"
            "rc_content_hash (settle i cs R c) = h"
          using settle_active(1) [OF once, of c cs] h by (simp_all add: of_R')
        then show ?thesis by blast
      qed
    qed
  qed
  have ids: "set (rc_page_ids c) = rp_id ` {p \<in> set pages. rc_content_hash c \<in> text_hashes sha pieces (rp_content p)}"
    if c: "c \<in> set (chunks_of i R')" "rc_status c = ''active''" for c
  proof -
    have "rc_content_hash c \<in> cd_hash ` set cs" using active c by blast
    then obtain d where d: "chunk_of_hash cs (rc_content_hash c) = Some d" by (metis chunk_of_hash_None not_Some_eq)
    have "rc_page_ids c = cd_page_ids d"
      using c(1) d add(1) settle_active(2) [OF once] by (auto simp: of_R')
    moreover have "cd_page_ids d = hash_ids (rc_content_hash c) cds"
      using d chunks_by_hash_ids [of cds "rc_content_hash c"] by (simp add: cs_def split: if_splits)
    ultimately show ?thesis by (simp add: cds_def hash_ids_pages)
  qed
  show "indexed sha pieces i texts R'"
    using built(1) active ids keys by (simp add: indexed_def pages_R' contents [symmetric])
qed

lemma no_trace_None: "no_trace i R \<Longrightarrow> get_document_for_worker i R = None"
  by (auto simp: no_trace_def get_document_for_worker_def find_row_None)

definition demo_ingest :: "nat ingest_env" where
  "demo_ingest = \<lparr>in_store = \<lparr>so_bucket_ok = True, so_put_ok = True, so_delete_ok = True\<rparr>,
     in_get_ok = True, in_fitz = (\<lambda>b. PageTexts [b, '' '', ''b'']), in_fastcdc = Some (\<lambda>t. [t]), in_sha256 = id,
     in_embed = (\<lambda>ts. Inr (map length ts)), in_iterate = rev\<rparr>"

definition demo_rag_document :: RagDocument where
  "demo_rag_document = \<lparr>rd_id = ''r1'', rd_tenant_id = ''t1'', rd_filename = ''a.pdf'', rd_status = ''pending'',
     rd_blob_path = ''k'', rd_created_at = 0, rd_updated_at = 0\<rparr>"

definition demo_rag :: "nat rag_db" where
  "demo_rag = \<lparr>rag_documents = [demo_rag_document], rag_pages = [], rag_chunks = [],
     rag_retrieval_logs = [], rag_chat_threads = [], rag_chat_messages = [], tool_invocations = []\<rparr>"

definition demo_upload :: json where
  "demo_upload = JObj [(''document_id'', JText ''r1''), (''tenant_id'', JText ''t1''), (''blob_path'', JText ''k'')]"

lemma demo_upload_fields [simp]:
  "is_object demo_upload" "text_field demo_upload ''document_id'' = Some ''r1''"
  "text_field demo_upload ''tenant_id'' = Some ''t1''" "text_field demo_upload ''blob_path'' = Some ''k''"
  by (simp_all add: demo_upload_def is_object_def text_field_def)

lemma demo_rag_document_found: "get_document_for_worker ''r1'' demo_rag = Some demo_rag_document"
  by (simp add: get_document_for_worker_def find_row_def demo_rag_def demo_rag_document_def)

text \<open>
  C8. A document that an ingestion leaves processed is indexed: its pages are the PDF's pages with
  text, numbered from one; its active chunks are exactly the pieces the chunker cuts from them, one
  per content hash, and each names exactly the pages its text occurs on. Chunks of an earlier version
  are reused by hash or set aside, and no two rows of the document share a hash.
\<close>

theorem ingestion_builds_index:
  assumes order: "\<And>xs. distinct xs \<Longrightarrow> distinct (in_iterate A xs) \<and> set (in_iterate A xs) = set xs"
    and embed: "\<And>ts vs. in_embed A ts = Inr vs \<Longrightarrow> length vs = length ts"
    and chunker: "in_fastcdc A = Some pieces"
    and run: "handle_rag_document_uploaded A E payload (R, ob) = (r, R', ob')"
    and known: "get_document_for_worker i R = Some d" "is_object payload"
      "text_field payload ''document_id'' = Some i" "text_field payload ''tenant_id'' = Some t"
      "text_field payload ''blob_path'' = Some b" "i \<noteq> []" "t \<noteq> []" "b \<noteq> []"
    and ready: "map_option rd_status (get_document_for_worker i R') = Some ''processed''"
    and once: "distinct (map rc_content_hash (chunks_of i R))"
  shows "\<exists>bytes texts. ob b = Some bytes \<and> in_fitz A bytes = PageTexts texts \<and>
     indexed (in_sha256 A) pieces i (filter (\<lambda>t. py_strip t \<noteq> []) texts) R' \<and>
     distinct (map rc_content_hash (chunks_of i R'))"
proof -
  let ?R1 = "set_document_status E i ''processing'' R"
  have "get_document_for_worker i ?R1 \<noteq> None" using known(1) by (simp add: get_document_set_status)
  then have dropped: "get_document_for_worker i (fst (drop_document A i paths (?R1, ob1))) = None" for paths ob1
    by (auto intro: drop_document_no_trace no_trace_None)
  obtain x ob1 where x: "ingest A E i t b ?R1 ob = (x, ob1)" by (meson surj_pair)
  note handle = run [unfolded handle_known_document [OF known], unfolded Let_def x]
  have "x = Ingested R'"
    using handle ready dropped [of _ ob1] by (cases x) (auto, (metis fst_conv option.simps(3))+)
  from ingest_Ingested [OF x [unfolded this]] obtain bytes texts pages where
    bytes: "download_object (in_get_ok A) b ob = Inr bytes" and texts: "extract_text_from_pdf A bytes = Inr texts"
    and up: "upload_pages (in_store A) E i t 1 texts ob = ((None, pages), ob1)"
    and chunks: "ingest_chunks A E i t pages ?R1 = Ingested R'" by blast
  define cds where "cds = concat (map (chunks_of_page (in_sha256 A) pieces) pages)"
  define cs where "cs = chunks_by_hash cds"
  define hs where "hs = filter (\<lambda>h. existing_by_hash i ?R1 h = None) (in_iterate A (map cd_hash cs))"
  have cut: "create_chunks_from_pages A pages = Inr x \<longleftrightarrow> x = cds" for x
    by (auto simp: create_chunks_from_pages_def chunker cds_def)
  from ingest_chunks_Ingested [OF chunks, unfolded cut Let_def] obtain vs where
    vs: "if hs = [] then vs = [] else in_embed A (map (\<lambda>h. cd_text (the (chunk_of_hash cs h))) hs) = Inr vs"
    and stored: "store_index E i t pages cs hs vs ?R1 = Inr R'"
    unfolding hs_def cs_def by blast
  have "set (in_iterate A (map cd_hash cs)) = cd_hash ` set cs" "distinct (in_iterate A (map cd_hash cs))"
    using order [of "map cd_hash cs"] chunks_by_hash_distinct [of cds] by (simp_all add: cs_def)
  then have hs: "set hs = {h \<in> cd_hash ` set cs. existing_by_hash i ?R1 h = None}" "distinct hs" by (auto simp: hs_def)
  have len: "length vs = length hs" using vs embed by (auto split: if_splits)
  have built: "map (\<lambda>p. (rp_page_number p, rp_content p)) pages = List.enumerate 1 texts" "\<forall>p \<in> set pages. rp_document_id p = i"
    using upload_pages_built [OF up] by auto
  have same: "chunks_of i ?R1 = chunks_of i R" by (simp add: chunks_of_def)
  note result = store_index_indexed [OF stored [unfolded cs_def cds_def] hs [unfolded cs_def cds_def] len
      once [folded same] built]
  show ?thesis using bytes texts result
    by (auto simp: download_object_def extract_text_from_pdf_def split: if_splits option.splits pdf.splits)
qed

lemma demo_extract:
  "extract_text_from_pdf (demo_ingest\<lparr>in_fastcdc := x\<rparr>) ''ab'' = Inr [''ab'', ''b'']"
  "extract_text_from_pdf demo_ingest ''ab'' = Inr [''ab'', ''b'']"
  by (simp_all add: extract_text_from_pdf_def demo_ingest_def py_strip_def py_isspace_def)

lemma demo_chunks:
  "ingest_chunks demo_ingest demo_env ''r1'' ''t1'' pages (set_document_status demo_env ''r1'' ''processing'' demo_rag) \<noteq> IngestDropped x \<and>
   ingest_chunks demo_ingest demo_env ''r1'' ''t1'' pages (set_document_status demo_env ''r1'' ''processing'' demo_rag) \<noteq> IngestRaised e x"
  if "pages = [p, q]" and "rp_content p = ''ab''" "rp_content q = ''b''"
  using that by (simp add: ingest_chunks_def create_chunks_from_pages_def demo_ingest_def chunks_of_page_def py_strip_def
      py_isspace_def chunks_by_hash_def existing_by_hash_def demo_rag_def store_index_def Let_def)

lemma demo_ingestion:
  "\<exists>R' ob'. handle_rag_document_uploaded demo_ingest demo_env demo_upload (demo_rag, [''k'' \<mapsto> ''ab'']) = (Inr (), R', ob') \<and>
     map_option rd_status (get_document_for_worker ''r1'' R') = Some ''processed''"
proof -
  let ?R1 = "set_document_status demo_env ''r1'' ''processing'' demo_rag"
  have store: "in_get_ok demo_ingest" "so_put_ok (in_store demo_ingest)" by (simp_all add: demo_ingest_def)
  then obtain x ob1 where x: "ingest demo_ingest demo_env ''r1'' ''t1'' ''k'' ?R1 [''k'' \<mapsto> ''ab''] = (x, ob1)"
    and "\<forall>e y. x \<noteq> IngestRaised e y \<and> x \<noteq> IngestDropped y"
    by (simp add: ingest_def download_object_def demo_extract upload_object_def demo_chunks)
  then obtain R' where "x = Ingested R'" by (cases x) auto
  with x ingest_status [of demo_ingest demo_env "''r1''" "''t1''" "''k''" ?R1 "[''k'' \<mapsto> ''ab'']" R' ob1] show ?thesis
    by (simp add: handle_known_document [OF demo_rag_document_found] Let_def get_document_set_status demo_rag_document_found)
qed

theorem ingestion_builds_index_witness:
  "\<exists>w. handle_rag_document_uploaded demo_ingest demo_env demo_upload (demo_rag, [''k'' \<mapsto> ''ab'']) = w \<and>
     indexed id (\<lambda>t. [t]) ''r1'' [''ab'', ''b''] (fst (snd w))"
proof -
  obtain R' ob' where
    run: "handle_rag_document_uploaded demo_ingest demo_env demo_upload (demo_rag, [''k'' \<mapsto> ''ab'']) = (Inr (), R', ob')"
    and ready: "map_option rd_status (get_document_for_worker ''r1'' R') = Some ''processed''"
    using demo_ingestion by blast
  have "\<exists>bytes texts. [''k'' \<mapsto> ''ab''] ''k'' = Some bytes \<and> in_fitz demo_ingest bytes = PageTexts texts \<and>
     indexed (in_sha256 demo_ingest) (\<lambda>t. [t]) ''r1'' (filter (\<lambda>t. py_strip t \<noteq> []) texts) R' \<and>
     distinct (map rc_content_hash (chunks_of ''r1'' R'))"
    by (rule ingestion_builds_index [OF _ _ _ run demo_rag_document_found _ _ _ _ _ _ _ ready, where t = "''t1''"])
      (auto simp: demo_ingest_def chunks_of_def demo_rag_def)
  then show ?thesis using run by (auto simp: demo_ingest_def py_strip_def py_isspace_def)
qed


section \<open>A document replaced before its ingestion\<close>

lemma delete_blobs_gone:
  assumes "so_delete_ok S"
  shows "delete_blobs S ks ob k = (if k \<in> set ks then None else ob k)"
  using assms by (induction ks arbitrary: ob) (auto simp: delete_blobs_def delete_object_def)

lemma upload_document_Inr:
  assumes "upload_document A E tenant f n c ((D, R), ob) = (Inr d, (D1, R1), ob1)"
  shows "\<exists>actor. last (map oe_payload (outbox_events D1)) = upload_payload d actor (rd_blob_path d) \<and>
    R1 = R\<lparr>rag_documents := rag_documents R @ [d]\<rparr> \<and> rd_status d = ''pending'' \<and> rd_blob_path d \<noteq> []"
  using assms by (auto simp: upload_document_def Let_def publish_outbox_event_in_session_def write_domain_event_log_def run_simps
      rag_object_key_def split: sum.split_asm option.split_asm if_split_asm prod.split_asm)

lemma replace_document_Inr:
  assumes "replace_document A E tenant i f n c ((D, R), ob) = (Inr d, (D1, R1), ob1)"
  shows "\<exists>ctx old. require_tenant tenant = Inr ctx \<and> get_document i (tc_tenant_id ctx) R = Some old \<and> rd_id d = i \<and> rd_status d = ''pending'' \<and>
    R1 = R\<lparr>rag_documents := update_row rd_id i (\<lambda>_. d) (rag_documents R)\<rparr> \<and>
    (rd_blob_path d \<noteq> rd_blob_path old \<longrightarrow> so_delete_ok (ra_store A) \<longrightarrow> ob1 (rd_blob_path old) = None)"
proof -
  have same: "get_document i t R = Some old \<Longrightarrow> rd_id old = i" for t old
    by (auto simp: get_document_def find_Some_iff)
  show ?thesis
    using assms same
    by (auto simp: replace_document_def Let_def publish_outbox_event_in_session_def delete_object_def
        split: sum.split_asm option.split_asm if_split_asm prod.split_asm)
qed

text \<open>
  A document replaced before its first ingestion is lost: the event of the upload, still in the
  outbox, names the object that the replacement deleted, so its handler fails and deletes the
  replaced document, its rows and the newly stored file.
\<close>

theorem replace_before_ingestion_loses_document:
  assumes uploaded: "upload_document A E tenant f n c ((D, R), ob) = (Inr d, (D1, R1), ob1)"
    and new: "rd_id d \<notin> rd_id ` set (rag_documents R)"
    and replaced: "replace_document A E' tenant (rd_id d) f' n' c' ((D1, R1), ob1) = (Inr d', (D2, R2), ob2)"
    and moved: "rd_blob_path d' \<noteq> rd_blob_path d"
    and worker: "in_store B = ra_store A" "so_delete_ok (ra_store A)"
    and ids: "rd_id d \<noteq> []" "rd_tenant_id d \<noteq> []"
  shows "\<exists>e R3 ob3. handle_rag_document_uploaded B E'' (last (map oe_payload (outbox_events D1))) (R2, ob2) = (Inl e, R3, ob3) \<and>
     no_trace (rd_id d) R3 \<and> ob3 (rd_blob_path d') = None"
proof -
  let ?i = "rd_id d" let ?p = "last (map oe_payload (outbox_events D1))" let ?b = "rd_blob_path d"
  from upload_document_Inr [OF uploaded] obtain actor where p: "?p = upload_payload d actor ?b"
    and R1: "R1 = R\<lparr>rag_documents := rag_documents R @ [d]\<rparr>" and b: "?b \<noteq> []" by blast
  from replace_document_Inr [OF replaced] obtain t old where old: "get_document ?i t R1 = Some old" and d': "rd_id d' = ?i"
    and R2: "R2 = R1\<lparr>rag_documents := update_row rd_id ?i (\<lambda>_. d') (rag_documents R1)\<rparr>"
    and gone: "rd_blob_path d' \<noteq> rd_blob_path old \<longrightarrow> so_delete_ok (ra_store A) \<longrightarrow> ob2 (rd_blob_path old) = None" by blast
  from new have "find (\<lambda>x. rd_id x = ?i \<and> Some (rd_tenant_id x) = t) (rag_documents R) = None"
    by (simp add: find_None_iff) (metis image_eqI)
  moreover have "find P (xs @ [y]) = (case find P xs of None \<Rightarrow> if P y then Some y else None | Some x \<Rightarrow> Some x)" for P y and xs :: "RagDocument list"
    by (induction xs) auto
  ultimately have "old = d" using old by (simp add: get_document_def R1 split: if_splits)
  with gone moved worker have empty: "ob2 ?b = None" by simp
  have found: "get_document_for_worker ?i R2 = Some d'"
  proof -
    have "find_row rd_id ?i (rag_documents R1) = Some d"
      using new by (simp add: R1 find_row_append_new) (metis find_row_None option.simps(4))
    then show ?thesis using d' by (simp add: get_document_for_worker_def R2 find_row_replace)
  qed
  have fields: "is_object ?p" "text_field ?p ''document_id'' = Some ?i" "text_field ?p ''tenant_id'' = Some (rd_tenant_id d)"
    "text_field ?p ''blob_path'' = Some ?b" by (simp_all add: p upload_payload_def is_object_def text_field_def)
  let ?R = "set_document_status E'' ?i ''processing'' R2"
  have "\<exists>e. ingest B E'' ?i (rd_tenant_id d) ?b ?R ob2 = (IngestRaised e [], ob2)"
    using empty by (cases "in_get_ok B") (simp_all add: ingest_def download_object_def)
  then obtain e where "ingest B E'' ?i (rd_tenant_id d) ?b ?R ob2 = (IngestRaised e [], ob2)" ..
  then have run: "handle_rag_document_uploaded B E'' ?p (R2, ob2) = (Inl e, drop_document B ?i [] (?R, ob2))"
    using ids b by (simp add: handle_known_document [OF found fields] Let_def)
  have found': "get_document_for_worker ?i ?R = Some (document_flush E'' d' (d'\<lparr>rd_status := ''processing''\<rparr>))"
    by (simp add: get_document_set_status found)
  have "no_trace ?i (fst (drop_document B ?i [] (?R, ob2)))" by (rule drop_document_no_trace [OF found'])
  moreover have "snd (drop_document B ?i [] (?R, ob2)) (rd_blob_path d') = None"
    using worker by (simp add: drop_document_def found' service_hard_delete_def delete_blobs_gone)
  ultimately show ?thesis using run by (metis prod.collapse)
qed

definition demo_documents :: rag_env where
  "demo_documents = \<lparr>ra_max_mb = 1, ra_fitz = (\<lambda>b. PageTexts [b]), ra_store = in_store demo_ingest\<rparr>"

lemma demo_check: "check_pdf demo_documents ''%PDF'' ''a.pdf'' None = Inr ''a.pdf''"
  by (simp add: check_pdf_def sanitize_filename_def validate_pdf_upload_def demo_documents_def ends_with_def py_lower_def py_lower_char_def
      service_extract_text_def join_lines_def py_strip_def py_isspace_def truthy_def)

lemma demo_store: "ra_store demo_documents = \<lparr>so_bucket_ok = True, so_put_ok = True, so_delete_ok = True\<rparr>"
  by (simp add: demo_documents_def demo_ingest_def)

lemma demo_now: "now_at demo_env = 100"
  by (simp add: demo_env_def)

definition demo_uploaded :: RagDocument where
  "demo_uploaded = \<lparr>rd_id = fresh demo_env 1, rd_tenant_id = ''t1'', rd_filename = ''a.pdf'', rd_status = ''pending'',
     rd_blob_path = rag_object_key (Some ''t1'') (fresh demo_env 0) ''a.pdf'', rd_created_at = 100, rd_updated_at = 100\<rparr>"

lemma demo_upload_run:
  "\<exists>D1 ob1. upload_document demo_documents demo_env (Some demo_ctx) ''%PDF'' ''a.pdf'' None ((empty_db, demo_rag\<lparr>rag_documents := []\<rparr>), Map.empty) =
     (Inr demo_uploaded, (D1, demo_rag\<lparr>rag_documents := [demo_uploaded]\<rparr>), ob1) \<and> length (outbox_events D1) = 1 \<and>
     oe_idempotency_key (hd (outbox_events D1)) = ''rag-document-upload-'' @ fresh demo_env 1"
  by (simp add: upload_document_def demo_check require_tenant_def demo_ctx_def Let_def demo_uploaded_def upload_object_def
      demo_store publish_outbox_event_in_session_def write_domain_event_log_def empty_db_def demo_now new_outbox_event_def)

lemma demo_replace_run:
  assumes "length (outbox_events D1) = 1"
    and "oe_idempotency_key (hd (outbox_events D1)) = ''rag-document-upload-'' @ fresh demo_env 1"
  shows "\<exists>d' D2 R2 ob2. replace_document demo_documents demo_env (Some demo_ctx) (fresh demo_env 1) ''%PDF'' ''a.pdf'' None
       ((D1, demo_rag\<lparr>rag_documents := [demo_uploaded]\<rparr>), ob1) = (Inr d', (D2, R2), ob2) \<and>
     rd_blob_path d' = rag_object_key (Some ''t1'') (fresh demo_env 1) ''a.pdf''"
proof -
  obtain e where "outbox_events D1 = [e]" using assms(1) by (auto simp: length_Suc_conv)
  with assms(2) have "oe_idempotency_key ` set (outbox_events D1) = {''rag-document-upload-'' @ fresh demo_env 1}" by simp
  then show ?thesis
    by (simp add: replace_document_def demo_check require_tenant_def demo_ctx_def Let_def get_document_def demo_uploaded_def
        upload_object_def demo_store publish_outbox_event_in_session_def)
qed

theorem replace_before_ingestion_loses_document_witness:
  "\<exists>D1 R1 ob1 d' D2 R2 ob2.
     upload_document demo_documents demo_env (Some demo_ctx) ''%PDF'' ''a.pdf'' None ((empty_db, demo_rag\<lparr>rag_documents := []\<rparr>), Map.empty) =
       (Inr demo_uploaded, (D1, R1), ob1) \<and>
     replace_document demo_documents demo_env (Some demo_ctx) (rd_id demo_uploaded) ''%PDF'' ''a.pdf'' None ((D1, R1), ob1) =
       (Inr d', (D2, R2), ob2) \<and>
     (\<exists>e R3 ob3. handle_rag_document_uploaded demo_ingest demo_env (last (map oe_payload (outbox_events D1))) (R2, ob2) =
        (Inl e, R3, ob3) \<and> no_trace (rd_id demo_uploaded) R3)"
proof -
  let ?R1 = "demo_rag\<lparr>rag_documents := [demo_uploaded]\<rparr>"
  have i: "rd_id demo_uploaded = fresh demo_env 1" by (simp add: demo_uploaded_def)
  obtain D1 ob1 where up: "upload_document demo_documents demo_env (Some demo_ctx) ''%PDF'' ''a.pdf'' None
      ((empty_db, demo_rag\<lparr>rag_documents := []\<rparr>), Map.empty) = (Inr demo_uploaded, (D1, ?R1), ob1)"
    and D1: "length (outbox_events D1) = 1" "oe_idempotency_key (hd (outbox_events D1)) = ''rag-document-upload-'' @ fresh demo_env 1"
    using demo_upload_run by blast
  obtain d' D2 R2 ob2 where rep: "replace_document demo_documents demo_env (Some demo_ctx) (rd_id demo_uploaded) ''%PDF'' ''a.pdf'' None
      ((D1, ?R1), ob1) = (Inr d', (D2, R2), ob2)" and key: "rd_blob_path d' = rag_object_key (Some ''t1'') (fresh demo_env 1) ''a.pdf''"
    using demo_replace_run [OF D1, of ob1] i by metis
  have "nat_text 0 \<noteq> nat_text 1" using nat_text_inj by force
  then have "rd_blob_path d' \<noteq> rd_blob_path demo_uploaded"
    by (simp add: key demo_uploaded_def rag_object_key_def demo_env_def)
  from replace_before_ingestion_loses_document [OF up _ rep this, of demo_ingest demo_env] show ?thesis
    using up rep i by (fastforce simp: demo_documents_def demo_store demo_ingest_def demo_uploaded_def demo_env_def)
qed

end
