(* ===== verification/Regex.thy ===== *)
theory Regex
  imports Prelude
begin

text \<open>
  Python's \<open>re\<close> for the patterns of the code: literals, character classes, sequence, alternatives,
  greedy repetition, word boundary, end of the text, the flag \<open>IGNORECASE\<close>, \<open>search\<close> and \<open>sub\<close>.
  A match is tried at the first position where there is one, the alternatives from left to right and
  the longest repetition first, as the backtracking matcher does. Texts are Latin-1 here: the letters
  outside it that \<open>IGNORECASE\<close> folds to ASCII ones do not arise.
\<close>

section \<open>Patterns\<close>

datatype rx =
    Lit string
  | Cls "char \<Rightarrow> bool"
  | Sq rx rx
  | Alt rx rx
  | Many nat rx
  | WordEnd
  | TextEnd

definition Opt :: "rx \<Rightarrow> rx" where
  "Opt r = Alt r (Lit [])"

fun Sqs :: "rx list \<Rightarrow> rx" where
  "Sqs [] = Lit []"
| "Sqs [r] = r"
| "Sqs (r # rs) = Sq r (Sqs rs)"

fun Alts :: "rx list \<Rightarrow> rx" where
  "Alts [] = Cls (\<lambda>c. False)"
| "Alts [r] = r"
| "Alts (r # rs) = Alt r (Alts rs)"

fun Times :: "nat \<Rightarrow> rx \<Rightarrow> rx" where
  "Times 0 r = Lit []"
| "Times (Suc n) r = Sq r (Times n r)"

definition code :: "char \<Rightarrow> nat" where
  "code c = of_char c"

definition is_digit :: "char \<Rightarrow> bool" where
  "is_digit c \<longleftrightarrow> 48 \<le> code c \<and> code c \<le> 57"

definition is_lower :: "char \<Rightarrow> bool" where
  "is_lower c \<longleftrightarrow> 97 \<le> code c \<and> code c \<le> 122"

definition is_upper :: "char \<Rightarrow> bool" where
  "is_upper c \<longleftrightarrow> 65 \<le> code c \<and> code c \<le> 90"

definition alnum :: "char \<Rightarrow> bool" where
  "alnum c \<longleftrightarrow> is_digit c \<or> is_lower c \<or> is_upper c"

text \<open>Word characters: \<open>isalnum\<close> or the underscore.\<close>

definition word_char :: "char \<Rightarrow> bool" where
  "word_char c \<longleftrightarrow> alnum c \<or> c = CHR ''_'' \<or> code c \<in> set [170, 178, 179, 181, 185, 186, 188, 189, 190] \<or>
     (192 \<le> code c \<and> code c \<noteq> 215 \<and> code c \<noteq> 247)"

definition among :: "string \<Rightarrow> char \<Rightarrow> bool" where
  "among cs c \<longleftrightarrow> c \<in> set cs"

definition space :: rx where
  "space = Cls py_isspace"

definition digit :: rx where
  "digit = Cls is_digit"

section \<open>Matching\<close>

definition up_char :: "char \<Rightarrow> char" where
  "up_char c = (if is_lower c then char_of (code c - 32) else c)"

definition same_text :: "bool \<Rightarrow> string \<Rightarrow> string \<Rightarrow> bool" where
  "same_text ic u v \<longleftrightarrow> (if ic then py_lower u = py_lower v else u = v)"

definition in_class :: "bool \<Rightarrow> (char \<Rightarrow> bool) \<Rightarrow> char \<Rightarrow> bool" where
  "in_class ic P c \<longleftrightarrow> P c \<or> (ic \<and> (P (py_lower_char c) \<or> P (up_char c)))"

definition boundary :: "string \<Rightarrow> nat \<Rightarrow> bool" where
  "boundary s i \<longleftrightarrow> (0 < i \<and> i \<le> length s \<and> word_char (s ! (i - 1))) \<noteq> (i < length s \<and> word_char (s ! i))"

text \<open>
  The ends of the repetitions of a step: at least \<open>n\<close> more, then as many as make progress. The
  fuel \<open>n + length s + 1\<close> is enough: every optional repetition consumes a character.
\<close>

fun many_ends :: "(nat \<Rightarrow> nat list) \<Rightarrow> nat \<Rightarrow> nat \<Rightarrow> nat \<Rightarrow> nat list" where
  "many_ends step 0 n i = (if n = 0 then [i] else [])"
| "many_ends step (Suc fuel) 0 i = concat (map (many_ends step fuel 0) (filter (\<lambda>j. i < j) (step i))) @ [i]"
| "many_ends step (Suc fuel) (Suc n) i = concat (map (many_ends step fuel n) (step i))"

text \<open>All ends of matches that start at a position, in the order they are tried.\<close>

fun ends :: "bool \<Rightarrow> rx \<Rightarrow> string \<Rightarrow> nat \<Rightarrow> nat list" where
  "ends ic (Lit w) s i = (if i + length w \<le> length s \<and> same_text ic (take (length w) (drop i s)) w then [i + length w] else [])"
| "ends ic (Cls P) s i = (if i < length s \<and> in_class ic P (s ! i) then [Suc i] else [])"
| "ends ic (Sq a b) s i = concat (map (ends ic b s) (ends ic a s i))"
| "ends ic (Alt a b) s i = ends ic a s i @ ends ic b s i"
| "ends ic (Many n r) s i = many_ends (ends ic r s) (n + length s + 1) n i"
| "ends ic WordEnd s i = (if boundary s i then [i] else [])"
| "ends ic TextEnd s i = (if i = length s \<or> (Suc i = length s \<and> s ! i = CHR 0x0A) then [i] else [])"

definition re_search :: "bool \<Rightarrow> rx \<Rightarrow> string \<Rightarrow> bool" where
  "re_search ic r s \<longleftrightarrow> list_ex (\<lambda>i. ends ic r s i \<noteq> []) [0..<Suc (length s)]"

definition re_match :: "bool \<Rightarrow> rx \<Rightarrow> string \<Rightarrow> bool" where
  "re_match ic r s \<longleftrightarrow> ends ic r s 0 \<noteq> []"

text \<open>\<open>re.sub\<close>: the replacement is a function of the text and the position of the match.\<close>

function sub_from :: "bool \<Rightarrow> rx \<Rightarrow> (nat \<Rightarrow> string) \<Rightarrow> string \<Rightarrow> nat \<Rightarrow> string" where
  "sub_from ic r f s i =
     (if length s < i then []
      else (case ends ic r s i of
              e # _ \<Rightarrow>
                if i < e then f i @ sub_from ic r f s e
                else f i @ (if i < length s then s ! i # sub_from ic r f s (Suc i) else [])
            | [] \<Rightarrow> if i < length s then s ! i # sub_from ic r f s (Suc i) else []))"
  by pat_completeness auto
termination
  by (relation "measure (\<lambda>(ic, r, f, s, i). Suc (length s) - i)") auto

declare sub_from.simps [simp del]

definition re_sub :: "bool \<Rightarrow> rx \<Rightarrow> string \<Rightarrow> string \<Rightarrow> string" where
  "re_sub ic r w s = sub_from ic r (\<lambda>i. w) s 0"

text \<open>A pattern that starts with group 1, and the replacement \<open>\1\<close> followed by \<open>w\<close>.\<close>

definition group_one :: "bool \<Rightarrow> rx \<Rightarrow> rx \<Rightarrow> string \<Rightarrow> nat \<Rightarrow> string" where
  "group_one ic g rest s i =
     (case filter (\<lambda>j. ends ic rest s j \<noteq> []) (ends ic g s i) of
        [] \<Rightarrow> [] | j # _ \<Rightarrow> take (j - i) (drop i s))"

definition re_sub_keeping :: "bool \<Rightarrow> rx \<Rightarrow> rx \<Rightarrow> string \<Rightarrow> string \<Rightarrow> string" where
  "re_sub_keeping ic g rest w s = sub_from ic (Sq g rest) (\<lambda>i. group_one ic g rest s i @ w) s 0"

section \<open>Laws\<close>

lemma many_ends_after:
  assumes "\<And>i j. j \<in> set (step i) \<Longrightarrow> i \<le> j"
  shows "j \<in> set (many_ends step fuel n i) \<Longrightarrow> i \<le> j"
  using assms
proof (induction step fuel n i rule: many_ends.induct)
  case (2 step fuel i)
  then show ?case by (auto, meson less_imp_le order_trans)
next
  case (3 step fuel n i)
  then show ?case by (auto, meson order_trans)
qed (auto split: if_splits)

lemma ends_after: "j \<in> set (ends ic r s i) \<Longrightarrow> i \<le> j"
proof (induction r arbitrary: i j)
  case (Sq a b)
  then show ?case by (auto, meson order_trans)
next
  case (Many n r)
  then show ?case by (auto intro: many_ends_after)
qed (auto split: if_splits)

lemma sub_from_no_match:
  assumes "\<forall>i \<le> length s. ends ic r s i = []"
  shows "sub_from ic r f s i = drop i s"
proof (induction "length s - i" arbitrary: i)
  case 0
  then show ?case using assms by (subst sub_from.simps) (auto split: list.splits)
next
  case (Suc n)
  then have "i < length s" by simp
  moreover from Suc have "sub_from ic r f s (Suc i) = drop (Suc i) s" by simp
  ultimately show ?case using assms by (subst sub_from.simps) (simp add: Cons_nth_drop_Suc)
qed

lemma re_search_iff: "re_search ic r s \<longleftrightarrow> (\<exists>i \<le> length s. ends ic r s i \<noteq> [])"
  by (auto simp: re_search_def list_ex_iff less_Suc_eq_le simp del: upt_Suc)

lemma re_sub_no_match: "\<not> re_search ic r s \<Longrightarrow> re_sub ic r w s = s"
  by (simp add: re_sub_def re_search_iff sub_from_no_match)

lemma re_search_literal:
  "re_search ic (Lit w) s \<longleftrightarrow> (\<exists>a v b. s = a @ v @ b \<and> length v = length w \<and> same_text ic v w)"
proof
  assume "re_search ic (Lit w) s"
  then obtain i where i: "i + length w \<le> length s" "same_text ic (take (length w) (drop i s)) w"
    by (auto simp: re_search_iff split: if_splits)
  have "s = take i s @ take (length w) (drop i s) @ drop (i + length w) s"
    by (metis add.commute append_take_drop_id drop_drop)
  with i show "\<exists>a v b. s = a @ v @ b \<and> length v = length w \<and> same_text ic v w"
    by (metis add_leD1 add_le_imp_le_diff add.commute length_drop length_take min.absorb2)
next
  assume "\<exists>a v b. s = a @ v @ b \<and> length v = length w \<and> same_text ic v w"
  then obtain a v b where "s = a @ v @ b" "length v = length w" "same_text ic v w" by blast
  then show "re_search ic (Lit w) s" by (auto simp: re_search_iff intro!: exI [of _ "length a"])
qed

lemma re_search_Alt: "re_search ic (Alt a b) s \<longleftrightarrow> re_search ic a s \<or> re_search ic b s"
  by (auto simp: re_search_iff)

section \<open>Patterns that are lists of phrases\<close>

text \<open>
  A pattern of literals, caseless character classes, sequences and alternatives stands for a set of
  phrases: it is found in a text exactly when one of them is.
\<close>

definition caseless :: "(char \<Rightarrow> bool) \<Rightarrow> bool" where
  "caseless P \<longleftrightarrow> (\<forall>c d. P d \<longrightarrow> (py_lower_char c = py_lower_char d \<or> py_lower_char c = d \<or> up_char c = d) \<longrightarrow> c = d)"

fun plain :: "rx \<Rightarrow> bool" where
  "plain (Lit w) = True"
| "plain (Cls P) = caseless P"
| "plain (Sq a b) = (plain a \<and> plain b)"
| "plain (Alt a b) = (plain a \<and> plain b)"
| "plain r = False"

fun phrases :: "rx \<Rightarrow> string set" where
  "phrases (Lit w) = {w}"
| "phrases (Cls P) = {[c] |c. P c}"
| "phrases (Sq a b) = {u @ v |u v. u \<in> phrases a \<and> v \<in> phrases b}"
| "phrases (Alt a b) = phrases a \<union> phrases b"
| "phrases r = {}"

definition contains :: "bool \<Rightarrow> string \<Rightarrow> string \<Rightarrow> bool" where
  "contains ic s w \<longleftrightarrow> (\<exists>a v b. s = a @ v @ b \<and> length v = length w \<and> same_text ic v w)"

definition at_pos :: "bool \<Rightarrow> string \<Rightarrow> nat \<Rightarrow> string \<Rightarrow> bool" where
  "at_pos ic s i w \<longleftrightarrow> i + length w \<le> length s \<and> same_text ic (take (length w) (drop i s)) w"

lemma same_text_append:
  "length a = length u \<Longrightarrow> same_text ic (a @ b) (u @ v) \<longleftrightarrow> same_text ic a u \<and> same_text ic b v"
  by (simp add: same_text_def py_lower_def)

lemma at_pos_append: "at_pos ic s i (u @ v) \<longleftrightarrow> at_pos ic s i u \<and> at_pos ic s (i + length u) v"
proof (cases "i + length u + length v \<le> length s")
  case True
  have "take (length u + length v) (drop i s) = take (length u) (drop i s) @ take (length v) (drop (i + length u) s)"
    by (simp add: take_add add.commute)
  with True show ?thesis by (simp add: at_pos_def same_text_append)
qed (auto simp: at_pos_def)

lemma at_pos_char: "at_pos ic s i [c] \<longleftrightarrow> i < length s \<and> same_text ic [s ! i] [c]"
  by (auto simp: at_pos_def take_Suc_conv_app_nth)

lemma plain_ends: "plain r \<Longrightarrow> j \<in> set (ends ic r s i) \<longleftrightarrow> (\<exists>w \<in> phrases r. at_pos ic s i w \<and> j = i + length w)"
proof (induction r arbitrary: i j)
  case (Cls P)
  then have cls: "(\<exists>d. P d \<and> same_text ic [c] [d]) \<longleftrightarrow> in_class ic P c" for c
    by (auto simp: caseless_def in_class_def same_text_def py_lower_def, metis+)
  show ?case
  proof
    assume "j \<in> set (ends ic (Cls P) s i)"
    then have j: "j = Suc i" "i < length s" "in_class ic P (s ! i)" by (auto split: if_splits)
    with cls obtain d where "P d" "same_text ic [s ! i] [d]" by blast
    with j show "\<exists>w \<in> phrases (Cls P). at_pos ic s i w \<and> j = i + length w"
      by (intro bexI [of _ "[d]"]) (auto simp: at_pos_char)
  next
    assume "\<exists>w \<in> phrases (Cls P). at_pos ic s i w \<and> j = i + length w"
    then show "j \<in> set (ends ic (Cls P) s i)" using cls by (fastforce simp: at_pos_char)
  qed
next
  case (Sq a b)
  then show ?case by (fastforce simp: at_pos_append)
qed (auto simp: at_pos_def)

lemma contains_at: "contains ic s w \<longleftrightarrow> (\<exists>i \<le> length s. at_pos ic s i w)"
  unfolding contains_def re_search_literal [symmetric] re_search_iff by (auto simp: at_pos_def intro: add_leD1)

theorem re_search_plain:
  assumes "plain r"
  shows "re_search ic r s \<longleftrightarrow> (\<exists>w \<in> phrases r. contains ic s w)"
proof -
  have "ends ic r s i \<noteq> [] \<longleftrightarrow> (\<exists>w \<in> phrases r. at_pos ic s i w)" for i
    using plain_ends [OF assms, of _ ic s i] by (cases "ends ic r s i") auto
  then show ?thesis by (auto simp: re_search_iff contains_at)
qed

end
