(* ===== verification/Redaction.thy ===== *)
theory Redaction
  imports Regex Rag
begin

text \<open>
  Redaction of stored and returned answers: \<open>rag/redaction.py\<close> and \<open>ai/pii_redaction.py\<close>. Presidio
  is a parameter; the regular expressions are those of the source. The ellipsis, a character outside
  Latin-1, is a parameter too.
\<close>

section \<open>Secrets\<close>

definition either_quote :: rx where
  "either_quote = Opt (Cls (\<lambda>c. c = CHR 0x27 \<or> c = CHR 0x22))"

definition bearer :: rx where
  "bearer = Sqs [Lit ''Bearer'', Many 1 space, Many 1 (Cls (\<lambda>c. alnum c \<or> among ''-._~+/'' c)), Many 0 (Lit ''='')]"

definition base64url :: "char \<Rightarrow> bool" where
  "base64url c \<longleftrightarrow> alnum c \<or> among ''-_'' c"

definition jwt :: rx where
  "jwt = Sqs [Lit ''eyJ'', Many 4 (Cls base64url), Lit ''.'', Lit ''eyJ'', Many 4 (Cls base64url), Lit ''.'', Many 1 (Cls base64url)]"

definition provider_key :: rx where
  "provider_key = Sqs [WordEnd, Lit ''sk'', Cls (among ''-_''), Many 20 (Cls alnum), WordEnd]"

definition assign :: rx where
  "assign = Sqs [Many 0 space, Cls (among '':=''), Many 0 space]"

definition key_name :: rx where
  "key_name = Sqs [Lit ''api'', Opt (Cls (among ''_- '')), Lit ''key'', assign]"

definition key_value :: rx where
  "key_value = Sqs [either_quote, Many 16 (Cls (\<lambda>c. alnum c \<or> among ''-_.'' c)), either_quote]"

definition password_name :: rx where
  "password_name =
     Sq (Alts [Lit ''password'', Lit ''passwd'', Lit ''secret'', Sqs [Lit ''private'', Opt (Cls (among ''_-'')), Lit ''key'']]) assign"

definition password_value :: rx where
  "password_value = Sqs [either_quote, Many 8 (Cls (\<lambda>c. \<not> py_isspace c)), either_quote]"

definition blocked_term :: rx where
  "blocked_term =
     Sqs [WordEnd,
          Alts (map (\<lambda>(a, b). Sqs [Lit a, Many 1 space, Lit b])
            [(''system'', ''prompt''), (''developer'', ''prompt''), (''hidden'', ''prompt''), (''internal'', ''instructions'')]),
          WordEnd]"

definition redact_secrets :: "string \<Rightarrow> string" where
  "redact_secrets s =
     re_sub True blocked_term ''[BLOCKED_TERM]''
       (re_sub_keeping True password_name password_value ''[REDACTED]''
         (re_sub_keeping True key_name key_value ''[REDACTED]''
           (re_sub False provider_key ''[REDACTED_KEY]''
             (re_sub False jwt ''[REDACTED_JWT]''
               (re_sub True bearer ''Bearer [REDACTED]'' s)))))"

section \<open>Personal data\<close>

definition hex :: rx where
  "hex = Cls (\<lambda>c. is_digit c \<or> among ''abcdef'' c)"

definition uuid_rx :: rx where
  "uuid_rx = Sqs [Times 8 hex, Lit ''-'', Times 4 hex, Lit ''-'', Times 4 hex, Lit ''-'', Times 4 hex, Lit ''-'', Times 12 hex, TextEnd]"

definition email_rx :: rx where
  "email_rx =
     Sqs [Many 1 (Cls (\<lambda>c. alnum c \<or> among ''._%+-'' c)), Lit ''@'', Many 1 (Cls (\<lambda>c. alnum c \<or> among ''.-'' c)), Lit ''.'',
          Many 2 (Cls (\<lambda>c. is_lower c \<or> is_upper c))]"

definition phone_separator :: rx where
  "phone_separator = Cls (\<lambda>c. among ''-.'' c \<or> py_isspace c)"

definition phone_rx :: rx where
  "phone_rx =
     Sqs [Opt (Sqs [Opt (Lit ''+''), Lit ''1'', Opt phone_separator]), Opt (Lit ''(''), Times 3 digit, Opt (Lit '')''),
          phone_separator, Times 3 digit, phone_separator, Times 4 digit]"

definition regex_fallback_redact :: "string \<Rightarrow> string" where
  "regex_fallback_redact s = re_sub False phone_rx ''[REDACTED_PHONE]'' (re_sub False email_rx ''[REDACTED_EMAIL]'' s)"

text \<open>
  \<open>pi_presidio\<close>: \<open>None\<close> when the engines do not start, else the anonymized text, \<open>None\<close> where they raise.
\<close>

record pii_env =
  pi_enabled :: bool
  pi_presidio :: "(string \<Rightarrow> string option) option"
  pi_ellipsis :: char

definition redact_pii_text :: "pii_env \<Rightarrow> string \<Rightarrow> string" where
  "redact_pii_text P s =
     (if s = [] \<or> \<not> pi_enabled P then s
      else if re_match True uuid_rx s then s
      else (case pi_presidio P of
              None \<Rightarrow> regex_fallback_redact s
            | Some anonymize \<Rightarrow> (case anonymize s of None \<Rightarrow> regex_fallback_redact s | Some t \<Rightarrow> t)))"

definition redact_text :: "pii_env \<Rightarrow> string \<Rightarrow> string" where
  "redact_text P s = redact_pii_text P (redact_secrets s)"

section \<open>Payloads\<close>

text \<open>The budget is what is left of the depth limit: eleven levels are visited.\<close>

fun sanitize_payload :: "pii_env \<Rightarrow> nat \<Rightarrow> json \<Rightarrow> json" where
  "sanitize_payload P 0 j = j"
| "sanitize_payload P (Suc n) (JText s) = JText (redact_text P s)"
| "sanitize_payload P (Suc n) (JObj entries) = JObj (map (\<lambda>(k, v). (k, sanitize_payload P n v)) entries)"
| "sanitize_payload P (Suc n) (JList items) = JList (map (sanitize_payload P n) items)"
| "sanitize_payload P (Suc n) j = j"

definition cap :: "pii_env \<Rightarrow> nat \<Rightarrow> string \<Rightarrow> string" where
  "cap P limit s = (if limit < length s then take limit s @ [pi_ellipsis P] else s)"

text \<open>
  \<open>sanitize_answer_payload\<close> on the dump of an answer, read back: every text is redacted, the
  previews of the evidence are capped and the reason of a block is cut. Identifiers are the exception:
  a UUID contains none of the patterns and is skipped by the second layer.
\<close>

definition sanitize_citation :: "pii_env \<Rightarrow> RagRetrievalCitation \<Rightarrow> RagRetrievalCitation" where
  "sanitize_citation P c =
     c\<lparr>ci_document_filename := redact_text P (ci_document_filename c), ci_source_label := redact_text P (ci_source_label c)\<rparr>"

definition redact_evidence :: "pii_env \<Rightarrow> RagRetrievalEvidence \<Rightarrow> RagRetrievalEvidence" where
  "redact_evidence P e =
     e\<lparr>ev_document_filename := redact_text P (ev_document_filename e), ev_source_label := redact_text P (ev_source_label e),
       ev_text_preview := redact_text P (ev_text_preview e),
       ev_parent_page_text := map_option (redact_text P) (ev_parent_page_text e)\<rparr>"

definition cap_evidence :: "pii_env \<Rightarrow> RagRetrievalEvidence \<Rightarrow> RagRetrievalEvidence" where
  "cap_evidence P e =
     e\<lparr>ev_text_preview := cap P 500 (ev_text_preview e), ev_parent_page_text := map_option (cap P 1000) (ev_parent_page_text e)\<rparr>"

definition redact_debug :: "pii_env \<Rightarrow> RagRetrievalDebug \<Rightarrow> RagRetrievalDebug" where
  "redact_debug P d =
     d\<lparr>db_reranker_provider := map_option (redact_text P) (db_reranker_provider d),
       db_fallback_reason := map_option (redact_text P) (db_fallback_reason d),
       db_confidence_status := redact_text P (db_confidence_status d),
       db_guardrail_status := map_option (redact_text P) (db_guardrail_status d),
       db_guardrail_blocked_reason := map_option (redact_text P) (db_guardrail_blocked_reason d),
       db_generation_provider := map_option (redact_text P) (db_generation_provider d)\<rparr>"

definition redact_answer :: "pii_env \<Rightarrow> RagPolicyAnswer \<Rightarrow> RagPolicyAnswer" where
  "redact_answer P a =
     \<lparr>pa_status = redact_text P (pa_status a), pa_answer = redact_text P (pa_answer a),
      pa_citations = map (sanitize_citation P) (pa_citations a), pa_evidence = map (redact_evidence P) (pa_evidence a),
      pa_debug = map_option (redact_debug P) (pa_debug a)\<rparr>"

definition sanitize_answer :: "pii_env \<Rightarrow> RagPolicyAnswer \<Rightarrow> RagPolicyAnswer" where
  "sanitize_answer P a =
     (let r = redact_answer P a
      in r\<lparr>pa_evidence := map (cap_evidence P) (pa_evidence r),
           pa_debug := map_option (\<lambda>d. d\<lparr>db_guardrail_blocked_reason := map_option (take 120) (db_guardrail_blocked_reason d)\<rparr>)
             (pa_debug r)\<rparr>)"

text \<open>\<open>redact_lead_payload\<close>: the message and the texts under \<open>details\<close> are capped after redaction.\<close>

definition cap_text :: "pii_env \<Rightarrow> nat \<Rightarrow> json \<Rightarrow> json" where
  "cap_text P limit j = (case j of JText s \<Rightarrow> JText (cap P limit s) | _ \<Rightarrow> j)"

definition redact_lead_payload :: "pii_env \<Rightarrow> json \<Rightarrow> json" where
  "redact_lead_payload P payload =
     (case sanitize_payload P 11 payload of
        JObj entries \<Rightarrow>
          JObj (map (\<lambda>(k, v).
            (k, if k = ''message'' then cap_text P 2000 v
                else if k = ''details''
                then (case v of JObj ds \<Rightarrow> JObj (map (\<lambda>(k, v). (k, cap_text P 1000 v)) ds) | _ \<Rightarrow> v)
                else v)) entries)
      | j \<Rightarrow> j)"

end
