(* ===== verification/Retrieval.thy ===== *)
theory Retrieval
  imports Redaction Guardrails
begin

text \<open>
  Answers from policy documents: \<open>rag/retrieval.py\<close> and \<open>RagRetrievalService\<close> of \<open>rag/service.py\<close>.
  The embedding, reranking and generation services, pgvector's distance and the order in which a set
  of identifiers is listed are parameters.
\<close>

section \<open>Candidates\<close>

record RetrievalCandidate =
  cn_chunk_id :: uuid
  cn_document_id :: uuid
  cn_document_filename :: string
  cn_page_ids :: "uuid list"
  cn_page_numbers :: "nat list"
  cn_text :: string
  cn_vector_rank :: nat
  cn_vector_score :: rat
  cn_rerank_rank :: "int option"
  cn_rerank_score :: "rat option"

fun words_from :: "string \<Rightarrow> string \<Rightarrow> string list" where
  "words_from w [] = (if w = [] then [] else [w])"
| "words_from w (c # cs) =
     (if py_isspace c then (if w = [] then words_from [] cs else w # words_from [] cs) else words_from (w @ [c]) cs)"

text \<open>\<open>" ".join(text.split())\<close>.\<close>

definition normalize_text :: "string \<Rightarrow> string" where
  "normalize_text s = join_with '' '' (words_from [] s)"

definition truncate_text :: "char \<Rightarrow> nat \<Rightarrow> string \<Rightarrow> string" where
  "truncate_text dots limit s =
     (let n = normalize_text s in if length n \<le> limit then n else take (limit - 1) n @ [dots])"

definition source_label :: "string \<Rightarrow> nat list \<Rightarrow> string" where
  "source_label filename page_numbers =
     (let pages = join_with '', '' (map nat_text (sort (remdups page_numbers)))
      in if pages \<noteq> [] then filename @ '' p.'' @ pages else filename)"

fun citations_of_pages ::
  "RetrievalCandidate \<Rightarrow> nat list \<Rightarrow> (uuid \<times> nat) set \<Rightarrow> RagRetrievalCitation list \<times> (uuid \<times> nat) set" where
  "citations_of_pages c [] seen = ([], seen)"
| "citations_of_pages c (n # ns) seen =
     (if (cn_document_id c, n) \<in> seen then citations_of_pages c ns seen
      else (case citations_of_pages c ns (insert (cn_document_id c, n) seen) of
              (cs, seen1) \<Rightarrow>
                (\<lparr>ci_document_id = cn_document_id c, ci_document_filename = cn_document_filename c, ci_page_number = n,
                  ci_source_label = source_label (cn_document_filename c) [n]\<rparr> # cs, seen1)))"

fun citations_from :: "RetrievalCandidate list \<Rightarrow> (uuid \<times> nat) set \<Rightarrow> RagRetrievalCitation list" where
  "citations_from [] seen = []"
| "citations_from (c # cs) seen =
     (case citations_of_pages c (cn_page_numbers c) seen of (xs, seen1) \<Rightarrow> xs @ citations_from cs seen1)"

definition build_citations :: "RetrievalCandidate list \<Rightarrow> RagRetrievalCitation list" where
  "build_citations cs = citations_from cs {}"

definition evidence_of :: "char \<Rightarrow> (uuid \<rightharpoonup> string) \<Rightarrow> RetrievalCandidate \<Rightarrow> RagRetrievalEvidence" where
  "evidence_of dots page_text c =
     \<lparr>ev_chunk_id = cn_chunk_id c, ev_document_id = cn_document_id c, ev_page_ids = cn_page_ids c,
      ev_document_filename = cn_document_filename c, ev_page_numbers = cn_page_numbers c,
      ev_source_label = source_label (cn_document_filename c) (cn_page_numbers c),
      ev_vector_rank = cn_vector_rank c, ev_vector_score = cn_vector_score c,
      ev_rerank_rank = cn_rerank_rank c, ev_rerank_score = cn_rerank_score c,
      ev_text_preview = truncate_text dots 240 (cn_text c),
      ev_parent_page_text =
        (case cn_page_ids c of [] \<Rightarrow> None
         | i # _ \<Rightarrow> Some (truncate_text dots 800 (case page_text i of None \<Rightarrow> [] | Some s \<Rightarrow> s)))\<rparr>"

definition build_evidence :: "char \<Rightarrow> (uuid \<rightharpoonup> string) \<Rightarrow> RetrievalCandidate list \<Rightarrow> RagRetrievalEvidence list" where
  "build_evidence dots page_text cs = map (evidence_of dots page_text) cs"

text \<open>What an answer reports beside its evidence.\<close>

record report =
  rt_answer_text :: "string option"
  rt_reranker_used :: bool
  rt_reranker_provider :: "string option"
  rt_fallback_reason :: "string option"
  rt_confidence_status :: string
  rt_guardrail_status :: "string option"
  rt_guardrail_blocked_reason :: "string option"
  rt_generation_provider :: "string option"

definition or_text :: "string option \<Rightarrow> string \<Rightarrow> string" where
  "or_text x dflt = (if truthy x then the x else dflt)"

definition assemble_result ::
  "char \<Rightarrow> string \<Rightarrow> RetrievalCandidate list \<Rightarrow> report \<Rightarrow> uuid \<Rightarrow> (uuid \<rightharpoonup> string) \<Rightarrow> RagPolicyAnswer" where
  "assemble_result dots query cs p log_id page_text =
     (let evidence = build_evidence dots page_text cs;
          (status, answer) =
            (if evidence = []
             then (''insufficient_evidence'', or_text (rt_answer_text p) ''I could not find enough policy evidence to answer that.'')
             else if rt_confidence_status p = ''fallback''
             then (''fallback'', or_text (rt_answer_text p) (''I found partial evidence for: '' @ query))
             else (''answered'', or_text (rt_answer_text p) (''Grounded answer for: '' @ query)))
      in \<lparr>pa_status = status, pa_answer = answer, pa_citations = build_citations cs, pa_evidence = evidence,
          pa_debug = Some
            \<lparr>db_reranker_used = rt_reranker_used p, db_reranker_provider = rt_reranker_provider p,
             db_fallback_reason = rt_fallback_reason p, db_confidence_status = rt_confidence_status p,
             db_retrieval_log_id = log_id, db_guardrail_status = rt_guardrail_status p,
             db_guardrail_blocked_reason = rt_guardrail_blocked_reason p, db_generation_provider = rt_generation_provider p,
             db_vector_candidate_count = Some (length cs),
             db_rerank_candidate_count = Some (length (filter (\<lambda>c. cn_rerank_rank c \<noteq> None) cs))\<rparr>\<rparr>)"

section \<open>The retrieval service\<close>

text \<open>
  \<open>rv_embed\<close>: the first vector of the embedding of the one text. \<open>rv_rerank\<close>: an error, or the results with the index and the score that the provider gives.
  \<open>rv_iterate\<close>: the identifiers of a set, listed.
\<close>

record 'v retrieval_env =
  rv_embed :: "string \<Rightarrow> string + 'v"
  rv_distance :: "'v \<Rightarrow> 'v \<Rightarrow> rat"
  rv_rerank :: "string \<Rightarrow> string list \<Rightarrow> string + (int \<times> rat) list"
  rv_guards :: guard_env
  rv_services :: services
  rv_pii :: pii_env
  rv_iterate :: "uuid list \<Rightarrow> uuid list"

definition list_retrieval_logs_of ::
  "uuid option \<Rightarrow> string option \<Rightarrow> string option \<Rightarrow> timestamp option \<Rightarrow> timestamp option \<Rightarrow> 'v rag_db \<Rightarrow> RagRetrievalLog list" where
  "list_retrieval_logs_of tenant_id actor_role confidence date_from date_to R =
     sort_key (\<lambda>l. (Desc (rl_created_at l), Desc (rl_id l)))
       (filter (\<lambda>l. Some (rl_tenant_id l) = tenant_id \<and>
                    (truthy actor_role \<longrightarrow> actor_role = Some (rl_actor_role l)) \<and>
                    (truthy confidence \<longrightarrow> confidence = Some (rl_confidence_status l)) \<and>
                    (case date_from of None \<Rightarrow> True | Some t \<Rightarrow> t \<le> rl_created_at l) \<and>
                    (case date_to of None \<Rightarrow> True | Some t \<Rightarrow> rl_created_at l \<le> t)) (rag_retrieval_logs R))"

definition list_retrieval_logs ::
  "TenantContext option \<Rightarrow> pagination \<Rightarrow> string option \<Rightarrow> string option \<Rightarrow> timestamp option \<Rightarrow> timestamp option \<Rightarrow> 'v rag_db
     \<Rightarrow> py_exc + RagRetrievalLog pagination_result" where
  "list_retrieval_logs tenant p actor_role confidence date_from date_to R =
     sbind (require_tenant tenant) (\<lambda>ctx.
       if tc_role ctx \<notin> {Some ''agency_admin'', Some ''platform_admin''}
       then Inl (AppException 403 ''Only agency admins can view retrieval logs'' (Some ''ROLE_DENIED'') [])
       else page_of (list_retrieval_logs_of (tc_tenant_id ctx) actor_role confidence date_from date_to R) p)"

text \<open>\<open>tenant_id\<close> and \<open>actor_role\<close> are \<open>NOT NULL\<close>.\<close>

definition insert_log :: "TenantContext \<Rightarrow> RagRetrievalLog \<Rightarrow> 'v rag_db \<Rightarrow> py_exc + 'v rag_db" where
  "insert_log ctx l R =
     (if tc_tenant_id ctx = None \<or> tc_role ctx = None then Inl (IntegrityError ''rag_retrieval_logs NOT NULL'')
      else Inr (R\<lparr>rag_retrieval_logs := rag_retrieval_logs R @ [l]\<rparr>))"

definition new_log :: "ctx_env \<Rightarrow> TenantContext \<Rightarrow> string \<Rightarrow> string \<Rightarrow> RagRetrievalLog" where
  "new_log E ctx query confidence =
     \<lparr>rl_id = fresh E 0, rl_tenant_id = the (tc_tenant_id ctx), rl_actor_user_id = tc_actor_id ctx,
      rl_actor_role = the (tc_role ctx), rl_query = query, rl_selected_document_ids = [], rl_selected_chunk_ids = [],
      rl_selected_page_ids = [], rl_reranker_used = False, rl_reranker_provider = None, rl_fallback_reason = None,
      rl_confidence_status = confidence, rl_created_at = now_at E\<rparr>"

definition empty_report :: "string \<Rightarrow> report" where
  "empty_report reason =
     \<lparr>rt_answer_text = None, rt_reranker_used = False, rt_reranker_provider = None, rt_fallback_reason = Some reason,
      rt_confidence_status = ''insufficient'', rt_guardrail_status = None, rt_guardrail_blocked_reason = None,
      rt_generation_provider = None\<rparr>"

definition set_counts :: "nat option \<Rightarrow> nat option \<Rightarrow> RagPolicyAnswer \<Rightarrow> RagPolicyAnswer" where
  "set_counts v r a =
     a\<lparr>pa_debug := map_option (\<lambda>d. d\<lparr>db_vector_candidate_count := v, db_rerank_candidate_count := r\<rparr>) (pa_debug a)\<rparr>"

text \<open>The three early answers: a log row without a reason, and an answer that gives one.\<close>

definition insufficient_answer ::
  "'v retrieval_env \<Rightarrow> ctx_env \<Rightarrow> TenantContext \<Rightarrow> string \<Rightarrow> string \<Rightarrow> 'v rag_db \<Rightarrow> py_exc + RagPolicyAnswer \<times> 'v rag_db" where
  "insufficient_answer V E ctx query reason R =
     sbind (insert_log ctx (new_log E ctx query ''insufficient'') R) (\<lambda>R1.
       Inr (set_counts (Some 0) (Some 0)
              (assemble_result (pi_ellipsis (rv_pii V)) query [] (empty_report reason) (fresh E 0) Map.empty), R1))"

type_synonym 'v hit = "'v RagChunk \<times> RagDocument \<times> rat"

definition page_number_of :: "RagPage list \<Rightarrow> uuid \<Rightarrow> nat" where
  "page_number_of pages i = (case find (\<lambda>p. rp_id p = i) pages of None \<Rightarrow> 0 | Some p \<Rightarrow> rp_page_number p)"

definition page_text_of :: "RagPage list \<Rightarrow> uuid \<rightharpoonup> string" where
  "page_text_of pages i =
     (case find (\<lambda>p. rp_id p = i) pages of
        None \<Rightarrow> None | Some p \<Rightarrow> if rp_content p = [] then None else Some (rp_content p))"

text \<open>
  The check for documents replaced meanwhile selects the rows again, at \<open>later\<close>, but the session
  already holds these objects: a row that is still there gives back the attributes read before, so a
  document drops out only when its row is gone.
\<close>

definition still_processed :: "uuid \<Rightarrow> 'v rag_db \<Rightarrow> RagDocument \<Rightarrow> bool" where
  "still_processed tenant_id later d \<longleftrightarrow>
     (\<exists>x \<in> set (rag_documents later). rd_id x = rd_id d \<and> rd_tenant_id x = tenant_id) \<and> rd_status d = ''processed''"

definition candidate_of :: "RagPage list \<Rightarrow> nat \<times> 'v hit \<Rightarrow> RetrievalCandidate" where
  "candidate_of pages = (\<lambda>(rank, c, d, x).
     \<lparr>cn_chunk_id = rc_id c, cn_document_id = rd_id d, cn_document_filename = rd_filename d, cn_page_ids = rc_page_ids c,
      cn_page_numbers = sort (map (page_number_of pages) (rc_page_ids c)), cn_text = rc_text c,
      cn_vector_rank = rank, cn_vector_score = 1 - min x 1, cn_rerank_rank = None, cn_rerank_score = None\<rparr>)"

text \<open>Rank and score by original index; of two results with one index the later one counts.\<close>

definition rerank_of :: "(int \<times> rat) list \<Rightarrow> nat \<Rightarrow> (nat \<times> rat) option" where
  "rerank_of results i =
     map_option (\<lambda>(k, j, s). (k, s)) (find (\<lambda>(k, j, s). j = int i) (rev (List.enumerate 1 results)))"

definition reranked :: "(int \<times> rat) list \<Rightarrow> RetrievalCandidate list \<Rightarrow> RetrievalCandidate list" where
  "reranked results cs =
     sort_key (\<lambda>c. the (cn_rerank_rank c))
       (map (\<lambda>(i, c).
          (case rerank_of results i of
             None \<Rightarrow> c\<lparr>cn_rerank_rank := Some (int i + 1), cn_rerank_score := Some 0\<rparr>
           | Some (k, s) \<Rightarrow> c\<lparr>cn_rerank_rank := Some (int k), cn_rerank_score := Some s\<rparr>))
         (List.enumerate 0 cs))"

text \<open>The candidates in their final order, the reason to fall back, and the number of results.\<close>

definition rerank_step ::
  "'v retrieval_env \<Rightarrow> string \<Rightarrow> RetrievalCandidate list \<Rightarrow> RetrievalCandidate list \<times> string option \<times> nat option" where
  "rerank_step V query cs =
     (if cs = [] then (cs, None, None)
      else (case rv_rerank V query (map cn_text cs) of
              Inl e \<Rightarrow> (cs, Some ''reranker_unavailable'', None)
            | Inr [] \<Rightarrow> (cs, None, None)
            | Inr results \<Rightarrow> (reranked results cs, None, Some (length results))))"

definition page_context :: "(uuid \<rightharpoonup> string) \<Rightarrow> RetrievalCandidate \<Rightarrow> string" where
  "page_context page_text c = py_strip (join_with '' '' (List.map_filter page_text (cn_page_ids c)))"

definition build_evidence_blocks :: "char \<Rightarrow> (uuid \<rightharpoonup> string) \<Rightarrow> RetrievalCandidate list \<Rightarrow> string list" where
  "build_evidence_blocks dots page_text cs =
     map (\<lambda>(i, c).
       ''[Source '' @ nat_text i @ ''] '' @ cn_document_filename c @ '' | pages '' @
       join_with '', '' (map nat_text (filter (\<lambda>n. n \<noteq> 0) (cn_page_numbers c))) @ [CHR 0x0A] @
       truncate_text dots 1600 (if page_context page_text c \<noteq> [] then page_context page_text c else cn_text c))
       (List.enumerate 1 (take 6 cs))"

text \<open>
  The grounded answer and what it changes of the report: a blocked generation and a failed one
  turn the confidence into \<open>fallback\<close>.
\<close>

definition generation_step ::
  "'v retrieval_env \<Rightarrow> string \<Rightarrow> RetrievalCandidate list \<Rightarrow> (uuid \<rightharpoonup> string) \<Rightarrow> chat_message list \<Rightarrow> report \<Rightarrow> report \<times> ai_call list" where
  "generation_step V query cs page_text conversation p =
     (if cs = [] then (p, [])
      else (case generate_guardrailed_policy_answer (rv_guards V) (rv_services V) query
                   (build_evidence_blocks (pi_ellipsis (rv_pii V)) page_text cs) conversation (rt_confidence_status p) of
              (Inr g, calls) \<Rightarrow>
                (let q = p\<lparr>rt_answer_text := Some (redact_text (rv_pii V) (gn_answer_text g)), rt_guardrail_status := Some (gn_status g),
                           rt_guardrail_blocked_reason := gn_blocked_reason g, rt_generation_provider := gn_provider g\<rparr>
                 in (if gn_status g = ''blocked''
                     then q\<lparr>rt_fallback_reason := Some (or_text (gn_blocked_reason g) ''guardrail_blocked''),
                            rt_confidence_status := ''fallback''\<rparr>
                     else q, calls))
            | (Inl e, calls) \<Rightarrow>
                (p\<lparr>rt_fallback_reason := Some (or_text (rt_fallback_reason p) ''answer_generation_unavailable''),
                   rt_confidence_status := ''fallback''\<rparr>, calls)))"

definition full_answer ::
  "'v retrieval_env \<Rightarrow> ctx_env \<Rightarrow> TenantContext \<Rightarrow> string \<Rightarrow> bool \<Rightarrow> chat_message list \<Rightarrow> 'v hit list \<Rightarrow> RagPage list \<Rightarrow> 'v rag_db
     \<Rightarrow> (py_exc + RagPolicyAnswer \<times> 'v rag_db) \<times> ai_call list" where
  "full_answer V E ctx query include_debug conversation hits pages R =
     (let dots = pi_ellipsis (rv_pii V);
          (cs, fallback, rerank_count) = rerank_step V query (map (candidate_of pages) (List.enumerate 1 hits));
          page_text = page_text_of pages;
          p0 = \<lparr>rt_answer_text = None, rt_reranker_used = True, rt_reranker_provider = Some ''openrouter'',
                rt_fallback_reason = fallback,
                rt_confidence_status = (if cs = [] then ''insufficient'' else if fallback \<noteq> None then ''fallback'' else ''sufficient''),
                rt_guardrail_status = None, rt_guardrail_blocked_reason = None, rt_generation_provider = None\<rparr>;
          (p, calls) = generation_step V query cs page_text conversation p0;
          log = (new_log E ctx query (rt_confidence_status p))
            \<lparr>rl_selected_document_ids := rv_iterate V (remdups (map cn_document_id cs)),
             rl_selected_chunk_ids := map cn_chunk_id cs,
             rl_selected_page_ids := rv_iterate V (remdups (concat (map cn_page_ids cs))),
             rl_reranker_used := rt_reranker_used p, rl_reranker_provider := rt_reranker_provider p,
             rl_fallback_reason := rt_fallback_reason p\<rparr>
      in (sbind (insert_log ctx log R) (\<lambda>R1.
            let a = assemble_result dots query cs p (rl_id log) page_text
            in Inr (sanitize_answer (rv_pii V) (if include_debug then set_counts (Some (length hits)) rerank_count a else a), R1)),
          calls))"

text \<open>\<open>_trim_conversation_messages\<close> repeats the body of \<open>_normalize_history\<close>.\<close>

definition trim_conversation_messages :: "guard_env \<Rightarrow> chat_message list \<Rightarrow> chat_message list" where
  "trim_conversation_messages G messages =
     map (\<lambda>m. \<lparr>cm_role = py_strip (cm_role m), cm_content = take (ge_max_chars G) (py_strip (cm_content m))\<rparr>)
       (filter (\<lambda>m. py_strip (cm_role m) \<in> set [''user'', ''assistant''] \<and> py_strip (cm_content m) \<noteq> [])
         (py_last (nat (max 0 (ge_max_turns G * 2))) messages))"

text \<open>
  \<open>answer_policy_query\<close>. The last argument but one is what another session may have made of the
  tables by the time of the check for replaced documents.
\<close>

definition answer_policy_query ::
  "'v retrieval_env \<Rightarrow> ctx_env \<Rightarrow> TenantContext option \<Rightarrow> string \<Rightarrow> int \<Rightarrow> bool \<Rightarrow> chat_message list \<Rightarrow> 'v rag_db \<Rightarrow> 'v rag_db
     \<Rightarrow> (py_exc + RagPolicyAnswer \<times> 'v rag_db) \<times> ai_call list" where
  "answer_policy_query V E tenant raw_query top_k include_debug messages later R =
     (case require_tenant tenant of
        Inl e \<Rightarrow> (Inl e, [])
      | Inr ctx \<Rightarrow>
          (let query = py_strip raw_query; conversation = trim_conversation_messages (rv_guards V) messages
           in if query = [] then (Inl (AppException 400 ''Query cannot be empty'' None []), [])
              else (case tc_tenant_id ctx of
                None \<Rightarrow> (insufficient_answer V E ctx query ''no_processed_documents'' R, [])
              | Some t \<Rightarrow>
                  if list_processed_documents t R = [] then (insufficient_answer V E ctx query ''no_processed_documents'' R, [])
                  else (case rv_embed V query of
                    Inl e \<Rightarrow> (Inl (AppException 503 (''Failed to generate query embedding: '' @ e) None []), [])
                  | Inr v \<Rightarrow>
                      (let hits = search_chunks_by_embedding (rv_distance V) t v top_k R;
                           pages = list_parent_pages t (concat (map (\<lambda>(c, d, x). rc_page_ids c) hits)) R;
                           kept = filter (\<lambda>(c, d, x). still_processed t later d) hits
                       in if hits = [] then (insufficient_answer V E ctx query ''no_vector_results'' R, [])
                          else if kept = [] then (insufficient_answer V E ctx query ''documents_replaced_during_retrieval'' R, [])
                          else full_answer V E ctx query include_debug conversation kept pages R)))))"

end
