(* ===== verification/RagChat.thy ===== *)
theory RagChat
  imports Retrieval Leads Listings
begin

text \<open>
  The policy chat: \<open>RagChatService\<close> of \<open>rag/service.py\<close>, the read-only tools of the assistant and
  the cached thread.
\<close>

section \<open>Threads and messages\<close>

definition get_chat_thread :: "uuid \<Rightarrow> uuid option \<Rightarrow> uuid \<Rightarrow> 'v rag_db \<Rightarrow> RagChatThread option" where
  "get_chat_thread i tenant_id owner R =
     find (\<lambda>t. th_id t = i \<and> Some (th_tenant_id t) = tenant_id \<and> th_owner_user_id t = owner) (rag_chat_threads R)"

definition list_chat_messages :: "uuid \<Rightarrow> uuid option \<Rightarrow> uuid \<Rightarrow> 'v rag_db \<Rightarrow> RagChatMessage list" where
  "list_chat_messages i tenant_id owner R =
     sort_key (\<lambda>m. (cg_sequence_number m, cg_created_at m))
       (filter (\<lambda>m. cg_thread_id m = i \<and> Some (cg_tenant_id m) = tenant_id \<and> cg_owner_user_id m = owner) (rag_chat_messages R))"

definition message_count :: "'v rag_db \<Rightarrow> RagChatThread \<Rightarrow> nat" where
  "message_count R t = length (filter (\<lambda>m. cg_thread_id m = th_id t) (rag_chat_messages R))"

definition list_chat_threads :: "uuid option \<Rightarrow> uuid \<Rightarrow> 'v rag_db \<Rightarrow> (RagChatThread \<times> nat) list" where
  "list_chat_threads tenant_id owner R =
     map (\<lambda>t. (t, message_count R t))
       (sort_key (\<lambda>t. (Desc (th_last_message_at t), Desc (th_created_at t)))
         (filter (\<lambda>t. Some (th_tenant_id t) = tenant_id \<and> th_owner_user_id t = owner) (rag_chat_threads R)))"

definition get_next_chat_sequence_number :: "uuid \<Rightarrow> 'v rag_db \<Rightarrow> nat" where
  "get_next_chat_sequence_number i R =
     fold max (map cg_sequence_number (filter (\<lambda>m. cg_thread_id m = i) (rag_chat_messages R))) 0 + 1"

definition create_chat_message :: "RagChatMessage \<Rightarrow> 'v rag_db \<Rightarrow> 'v rag_db" where
  "create_chat_message m R = R\<lparr>rag_chat_messages := rag_chat_messages R @ [m]\<rparr>"

definition update_chat_thread :: "RagChatThread \<Rightarrow> 'v rag_db \<Rightarrow> 'v rag_db" where
  "update_chat_thread t R = R\<lparr>rag_chat_threads := update_row th_id (th_id t) (\<lambda>_. t) (rag_chat_threads R)\<rparr>"

definition derive_thread_title :: "string \<Rightarrow> string" where
  "derive_thread_title content =
     (let compact = normalize_text content in if 80 < length compact then take 77 compact @ ''...'' else compact)"

definition signed_in :: "TenantContext option \<Rightarrow> py_exc + TenantContext \<times> uuid" where
  "signed_in tenant =
     sbind (require_tenant tenant) (\<lambda>ctx.
       case tc_actor_id ctx of
         None \<Rightarrow> Inl (UnauthorizedError ''Sign in to use the policy assistant.'')
       | Some u \<Rightarrow> Inr (ctx, u))"

definition create_thread :: "ctx_env \<Rightarrow> TenantContext option \<Rightarrow> string option \<Rightarrow> 'v rag_db \<Rightarrow> py_exc + RagChatThread \<times> 'v rag_db" where
  "create_thread E tenant title R =
     sbind (signed_in tenant) (\<lambda>(ctx, u).
       (let given = (if truthy title then py_strip (the title) else []);
            name = take 160 (if given = [] then ''New conversation'' else given)
        in case tc_tenant_id ctx of
             None \<Rightarrow> Inl (IntegrityError ''rag_chat_threads.tenant_id is NOT NULL'')
           | Some t \<Rightarrow>
               (let th = \<lparr>th_id = fresh E 0, th_tenant_id = t, th_owner_user_id = u, th_title = name,
                         th_created_at = now_at E, th_updated_at = now_at E, th_last_message_at = now_at E\<rparr>
                in Inr (th, R\<lparr>rag_chat_threads := rag_chat_threads R @ [th]\<rparr>))))"

definition list_threads ::
  "TenantContext option \<Rightarrow> pagination \<Rightarrow> 'v rag_db \<Rightarrow> py_exc + (RagChatThread \<times> nat) pagination_result" where
  "list_threads tenant p R =
     sbind (signed_in tenant) (\<lambda>(ctx, u). page_of (list_chat_threads (tc_tenant_id ctx) u R) p)"

section \<open>The cached thread\<close>

record thread_detail =
  dl_thread :: RagChatThread
  dl_message_count :: nat
  dl_messages :: "RagChatMessage list"

type_synonym chat_cache = "thread_detail redis"

text \<open>
  The dump of a thread, redacted and read back: titles, contents and the answers. An answer is nested
  here, so its caps, which \<open>sanitize_answer_payload\<close> puts on a top-level one, do not apply again.
\<close>

definition sanitize_message :: "pii_env \<Rightarrow> RagChatMessage \<Rightarrow> RagChatMessage" where
  "sanitize_message P m =
     m\<lparr>cg_content := redact_text P (cg_content m), cg_answer_payload := map_option (redact_answer P) (cg_answer_payload m)\<rparr>"

definition sanitize_detail :: "pii_env \<Rightarrow> thread_detail \<Rightarrow> thread_detail" where
  "sanitize_detail P d =
     d\<lparr>dl_thread := (dl_thread d)\<lparr>th_title := redact_text P (th_title (dl_thread d))\<rparr>,
       dl_messages := map (sanitize_message P) (dl_messages d)\<rparr>"

definition rag_chat_cache_key :: "uuid option \<Rightarrow> uuid \<Rightarrow> uuid \<Rightarrow> string" where
  "rag_chat_cache_key tenant_id owner i =
     ''rag_policy_chat:'' @ (case tenant_id of None \<Rightarrow> ''None'' | Some t \<Rightarrow> t) @ '':'' @ owner @ '':'' @ i"

definition thread_detail_of :: "RagChatThread \<Rightarrow> RagChatMessage list \<Rightarrow> thread_detail" where
  "thread_detail_of t ms = \<lparr>dl_thread = t, dl_message_count = length ms, dl_messages = ms\<rparr>"

definition get_thread ::
  "pii_env \<Rightarrow> int \<Rightarrow> ctx_env \<Rightarrow> TenantContext option \<Rightarrow> uuid \<Rightarrow> 'v rag_db \<Rightarrow> chat_cache \<Rightarrow> (py_exc + thread_detail) \<times> chat_cache" where
  "get_thread P ttl E tenant i R r =
     (case signed_in tenant of
        Inl e \<Rightarrow> (Inl e, r)
      | Inr (ctx, u) \<Rightarrow>
          (let key = rag_chat_cache_key (tc_tenant_id ctx) u i
           in (case redis_get (now_at E) key r of
                 Some (RJson d) \<Rightarrow> (Inr d, r)
               | _ \<Rightarrow>
                   (case get_chat_thread i (tc_tenant_id ctx) u R of
                      None \<Rightarrow> (Inl (NotFoundError ''Chat thread not found''), r)
                    | Some t \<Rightarrow>
                        (let d = sanitize_detail P (thread_detail_of t (list_chat_messages i (tc_tenant_id ctx) u R))
                         in (Inr d, redis_set (now_at E) key (RJson d) (Some ttl) r))))))"

section \<open>Tools of the assistant\<close>

definition TOOL_INTENTS :: "(string \<times> string list) list" where
  "TOOL_INTENTS =
     [(''list_recent_leads'', [''last 5 leads'', ''recent leads'', ''latest leads'', ''show me leads'', ''list leads'']),
      (''get_lead'', [''lead details'', ''lead about'', ''info on lead'', ''lead status'', ''details for lead'']),
      (''get_listing'', [''listing details'', ''details for listing'', ''info on listing'', ''listing info'']),
      (''search_listings'', [''search listings'', ''find listing'', ''look up listing'', ''show listings'']),
      (''list_leads_by_date'', [''leads from'', ''leads between'', ''leads of'', ''leads on''])]"

definition occurs_in :: "string \<Rightarrow> string \<Rightarrow> bool" where
  "occurs_in s w \<longleftrightarrow> re_search False (Lit w) s"

definition detect_tool_intent :: "string \<Rightarrow> string option" where
  "detect_tool_intent query = map_option fst (find (\<lambda>(tool, ws). list_ex (occurs_in (py_lower query)) ws) TOOL_INTENTS)"

text \<open>The dash for a missing value is outside Latin-1: a parameter.\<close>

definition format_lead_summary :: "char \<Rightarrow> Lead \<Rightarrow> string" where
  "format_lead_summary dash l =
     ''- '' @ or_text (ld_name l) ''Unnamed'' @ '' | status: '' @ (if ld_status l = [] then ''new'' else ld_status l) @
     '' | email: '' @ or_text (ld_email l) [dash] @ '' | phone: '' @ or_text (ld_phone l) [dash]"

definition record_tool_invocation ::
  "ctx_env \<Rightarrow> TenantContext \<Rightarrow> string \<Rightarrow> json option \<Rightarrow> json option \<Rightarrow> string \<Rightarrow> string option \<Rightarrow> 'v rag_db \<Rightarrow> 'v rag_db" where
  "record_tool_invocation E ctx tool inp out status failure R =
     (case tc_tenant_id ctx of
        None \<Rightarrow> R
      | Some t \<Rightarrow>
          R\<lparr>tool_invocations := tool_invocations R @
             [\<lparr>ti_id = fresh E 3, ti_tenant_id = t, ti_actor_user_id = tc_actor_id ctx, ti_tool_name = tool,
               ti_input_summary = inp, ti_output_summary = out, ti_status = status, ti_failure_reason = failure,
               ti_created_at = now_at E\<rparr>]\<rparr>)"

definition lines_of :: "string list \<Rightarrow> string" where
  "lines_of ss = join_with [CHR 0x0A] ss"

definition leads_block ::
  "char \<Rightarrow> ctx_env \<Rightarrow> TenantContext \<Rightarrow> string \<Rightarrow> int \<Rightarrow> string \<Rightarrow> string \<Rightarrow> (py_exc + Lead list) \<Rightarrow> 'v rag_db \<Rightarrow> string \<times> 'v rag_db" where
  "leads_block dash E ctx tool n none some found R =
     (case found of
        Inl e \<Rightarrow> ([], record_tool_invocation E ctx tool None None ''failed'' (Some (take 200 (exc_text e))) R)
      | Inr ls \<Rightarrow>
          (if ls = [] then none else some @ [CHR 0x0A] @ lines_of (map (format_lead_summary dash) ls),
           record_tool_invocation E ctx tool (Some (JObj [(''limit'', JInt n)]))
             (Some (JObj [(''count'', JInt (int (length ls)))])) ''used'' None R))"

definition maybe_run_assistant_tools ::
  "char \<Rightarrow> int \<Rightarrow> ctx_env \<Rightarrow> TenantContext \<Rightarrow> string \<Rightarrow> db \<Rightarrow> 'v rag_db \<Rightarrow> string \<times> 'v rag_db" where
  "maybe_run_assistant_tools dash max_leads E ctx query D R =
     (case detect_tool_intent query of
        None \<Rightarrow> ([], R)
      | Some tool \<Rightarrow>
          if tool = ''list_recent_leads''
          then leads_block dash E ctx tool 5
                 (''I couldn'' @ [CHR 0x27] @ ''t find any leads in your tenant right now.'')
                 ''Here are the most recent leads in your tenant:''
                 (read_only_list_recent_leads max_leads (Some ctx) 5 D) R
          else if tool = ''list_leads_by_date''
          then leads_block dash E ctx tool 10
                 (''I couldn'' @ [CHR 0x27] @ ''t find any leads in the requested window.'')
                 ''Here are the leads I found in that window:''
                 (read_only_list_leads_by_date max_leads (Some ctx) None None 10 D) R
          else if tool = ''get_lead''
          then (''Please share the lead'' @ [CHR 0x27] @ ''s name or identifier so I can look it up. '' @
                ''I can only fetch leads by their internal id, which I don'' @ [CHR 0x27] @ ''t see '' @ ''in your message.'',
                record_tool_invocation E ctx tool None None ''refused'' (Some ''missing_lead_id'') R)
          else if tool = ''get_listing''
          then (''Please share the listing'' @ [CHR 0x27] @ ''s identifier (id) so I can look it up.'',
                record_tool_invocation E ctx tool None None ''refused'' (Some ''missing_listing_id'') R)
          else (case read_only_search_listings (Some ctx) None None 5 D of
                  Inl e \<Rightarrow> ([], record_tool_invocation E ctx tool None None ''failed'' (Some (take 200 (exc_text e))) R)
                | Inr ls \<Rightarrow> ([], R)))"

section \<open>Sending a message\<close>

record chat_env =
  cv_dash :: char
  cv_max_leads :: int
  cv_ttl :: int

definition conversation_messages_from_chat :: "guard_env \<Rightarrow> RagChatMessage list \<Rightarrow> chat_message list" where
  "conversation_messages_from_chat G ms =
     trim_conversation_messages G
       (map (\<lambda>m. \<lparr>cm_role = cg_role m, cm_content = cg_content m\<rparr>)
         (filter (\<lambda>m. cg_role m \<in> set [''user'', ''assistant''] \<and> cg_content m \<noteq> []) ms))"

definition new_message ::
  "uuid \<Rightarrow> ctx_env \<Rightarrow> RagChatThread \<Rightarrow> uuid \<Rightarrow> string \<Rightarrow> string \<Rightarrow> nat \<Rightarrow> RagPolicyAnswer option \<Rightarrow> RagChatMessage" where
  "new_message i E t owner role content seqno answer =
     \<lparr>cg_id = i, cg_thread_id = th_id t, cg_tenant_id = th_tenant_id t, cg_owner_user_id = owner, cg_role = role,
      cg_content = content, cg_sequence_number = seqno,
      cg_retrieval_log_id =
        (case answer of None \<Rightarrow> None | Some a \<Rightarrow> map_option db_retrieval_log_id (pa_debug a)),
      cg_answer_payload = answer, cg_created_at = now_at E\<rparr>"

definition touched :: "ctx_env \<Rightarrow> RagChatThread \<Rightarrow> RagChatThread" where
  "touched E t = t\<lparr>th_updated_at := now_at E, th_last_message_at := now_at E\<rparr>"

text \<open>The first half, committed on its own: the question and the thread's title and times.\<close>

definition store_question ::
  "ctx_env \<Rightarrow> RagChatThread \<Rightarrow> uuid \<Rightarrow> string \<Rightarrow> 'v rag_db \<Rightarrow> RagChatThread \<times> RagChatMessage \<times> 'v rag_db" where
  "store_question E t owner content R =
     (let m = new_message (fresh E 1) E t owner ''user'' (py_strip content) (get_next_chat_sequence_number (th_id t) R) None;
          t1 = touched E (if th_title t = ''New conversation'' then t\<lparr>th_title := derive_thread_title (cg_content m)\<rparr> else t)
      in (t1, m, update_chat_thread t1 (create_chat_message m R)))"

definition with_tools :: "string \<Rightarrow> RagPolicyAnswer \<Rightarrow> RagPolicyAnswer" where
  "with_tools blocks a =
     (if blocks \<noteq> [] \<and> py_strip (pa_answer a) \<noteq> [] then a\<lparr>pa_answer := pa_answer a @ blank_line @ blocks\<rparr> else a)"

text \<open>
  The clock of the second half is that of \<open>E2\<close>; a failed answer leaves the first half committed and
  the cache as it was.
\<close>

definition send_message ::
  "'v retrieval_env \<Rightarrow> chat_env \<Rightarrow> ctx_env \<Rightarrow> ctx_env \<Rightarrow> TenantContext option \<Rightarrow> uuid \<Rightarrow> string \<Rightarrow> int \<Rightarrow> bool \<Rightarrow> 'v rag_db \<Rightarrow> db
     \<Rightarrow> 'v rag_db \<times> chat_cache \<Rightarrow> (py_exc + RagChatThread \<times> RagChatMessage \<times> RagChatMessage) \<times> 'v rag_db \<times> chat_cache" where
  "send_message V C E E2 tenant i content top_k include_debug later D w =
     (case signed_in tenant of
        Inl e \<Rightarrow> (Inl e, w)
      | Inr (ctx, u) \<Rightarrow>
          (case get_chat_thread i (tc_tenant_id ctx) u (fst w) of
             None \<Rightarrow> (Inl (NotFoundError ''Chat thread not found''), w)
           | Some t \<Rightarrow>
               (let existing = list_chat_messages i (tc_tenant_id ctx) u (fst w);
                    (t1, question, R1) = store_question E t u content (fst w)
                in (case answer_policy_query V E2 tenant (cg_content question) top_k include_debug
                          (conversation_messages_from_chat (rv_guards V) existing) later R1 of
                      (Inl e, calls) \<Rightarrow> (Inl e, R1, snd w)
                    | (Inr (a, R2), calls) \<Rightarrow>
                        (let (blocks, R3) = maybe_run_assistant_tools (cv_dash C) (cv_max_leads C) E2 ctx (cg_content question) D R2;
                             a1 = with_tools blocks a;
                             reply = (new_message (fresh E2 2) E2 t u ''assistant'' (redact_text (rv_pii V) (pa_answer a1))
                                        (get_next_chat_sequence_number (th_id t) R3) (Some a1))
                                     \<lparr>cg_answer_payload := Some (sanitize_answer (rv_pii V) a1)\<rparr>;
                             t2 = touched E2 t1;
                             R4 = update_chat_thread t2 (create_chat_message reply R3);
                             d = sanitize_detail (rv_pii V) (thread_detail_of t2 (existing @ [question, reply]))
                         in (Inr (t2, question, reply), R4,
                             redis_set (now_at E2) (rag_chat_cache_key (tc_tenant_id ctx) u (th_id t)) (RJson d)
                               (Some (cv_ttl C)) (snd w)))))))"

end
