(* ===== verification/RagChatProps.thy ===== *)
theory RagChatProps
  imports RagChat GuardProps Demo
begin

text \<open>
  Answers stay within the tenant's processed documents and are logged; the check for replaced
  documents; the numbering of a chat; and the cached thread, after a success and after a failure.
\<close>

section \<open>Answers\<close>

lemma insert_log_Inr:
  "insert_log ctx l R = Inr R' \<Longrightarrow> R' = R\<lparr>rag_retrieval_logs := rag_retrieval_logs R @ [l]\<rparr> \<and> tc_tenant_id ctx \<noteq> None"
  by (auto simp: insert_log_def split: if_splits)

text \<open>What an answer and the tables after it have to do with each other.\<close>

definition own_hit :: "uuid \<Rightarrow> 'v rag_db \<Rightarrow> uuid \<Rightarrow> uuid \<Rightarrow> bool" where
  "own_hit t R chunk document \<longleftrightarrow>
     (\<exists>c \<in> set (rag_chunks R). \<exists>d \<in> set (rag_documents R). rc_id c = chunk \<and> rd_id d = document \<and> rc_document_id c = document \<and>
        rc_tenant_id c = t \<and> rd_tenant_id d = t \<and> rc_status c = ''active'' \<and> rd_status d = ''processed'')"

lemma search_hits:
  assumes "(c, d, x) \<in> set (search_chunks_by_embedding f t q k R)"
  shows "own_hit t R (rc_id c) (rd_id d)"
proof -
  have "c \<in> set (rag_chunks R) \<and> d \<in> set (rag_documents R) \<and> rd_id d = rc_document_id c \<and> rc_tenant_id c = t \<and>
      rd_tenant_id d = t \<and> rc_status c = ''active'' \<and> rd_status d = ''processed''"
    using assms by (auto simp: search_chunks_by_embedding_def Let_def dest!: in_set_takeD)
  then show "own_hit t R (rc_id c) (rd_id d)" unfolding own_hit_def by metis
qed

lemma search_length: "length (search_chunks_by_embedding f t q k R) \<le> 20"
  by (simp add: search_chunks_by_embedding_def Let_def)

definition candidate_key :: "RetrievalCandidate \<Rightarrow> uuid \<times> uuid" where
  "candidate_key c = (cn_chunk_id c, cn_document_id c)"

lemma set_reranked: "candidate_key ` set (reranked results cs) = candidate_key ` set cs"
proof -
  have "candidate_key ` set (reranked results cs) = (\<lambda>(i, c). candidate_key c) ` set (List.enumerate 0 cs)"
    by (auto simp: reranked_def image_image candidate_key_def split: option.splits intro!: image_cong)
  also have "\<dots> = candidate_key ` snd ` set (List.enumerate 0 cs)" by (simp add: image_image split_def)
  also have "snd ` set (List.enumerate 0 cs) = set cs" by (metis map_snd_enumerate set_map)
  finally show ?thesis .
qed

lemma reranked_length [simp]: "length (reranked results cs) = length cs"
  by (simp add: reranked_def)

lemma rerank_step_keys:
  assumes "rerank_step V query cs = (cs1, fallback, n)"
  shows "candidate_key ` set cs1 = candidate_key ` set cs" and "length cs1 = length cs"
proof -
  have "cs1 = cs \<or> (\<exists>results. cs1 = reranked results cs)"
    using assms by (auto simp: rerank_step_def split: if_splits sum.splits list.splits)
  then show "candidate_key ` set cs1 = candidate_key ` set cs" "length cs1 = length cs"
    by (elim disjE exE, simp_all add: set_reranked)+
qed

lemma candidates_keys:
  fixes hits :: "'v hit list"
  shows "candidate_key ` set (map (candidate_of pages) (List.enumerate n hits)) = (\<lambda>(c, d, x). (rc_id c, rd_id d)) ` set hits"
proof -
  have "candidate_key (candidate_of pages x) = (\<lambda>(c, d, x). (rc_id c, rd_id d)) (snd x)" for x :: "nat \<times> 'v hit"
    by (simp add: candidate_key_def candidate_of_def split_def)
  then have "candidate_key ` set (map (candidate_of pages) (List.enumerate n hits)) =
      (\<lambda>(c, d, x). (rc_id c, rd_id d)) ` snd ` set (List.enumerate n hits)" by (simp add: image_image)
  also have "snd ` set (List.enumerate n hits) = set hits" by (metis map_snd_enumerate set_map)
  finally show ?thesis .
qed

lemma citations_of_pages_document:
  "x \<in> set (fst (citations_of_pages c ns seen)) \<Longrightarrow> ci_document_id x = cn_document_id c"
  by (induction c ns seen rule: citations_of_pages.induct) (auto split: if_splits prod.splits)

lemma citations_document: "x \<in> set (citations_from cs seen) \<Longrightarrow> \<exists>c \<in> set cs. ci_document_id x = cn_document_id c"
proof (induction cs seen rule: citations_from.induct)
  case (2 c cs seen)
  then show ?case using citations_of_pages_document [of x c "cn_page_numbers c" seen]
    by (cases "citations_of_pages c (cn_page_numbers c) seen") auto
qed simp

lemma assemble_facts:
  "map ev_chunk_id (pa_evidence (assemble_result dots q cs p i pt)) = map cn_chunk_id cs"
  "map ev_document_id (pa_evidence (assemble_result dots q cs p i pt)) = map cn_document_id cs"
  "map_option db_retrieval_log_id (pa_debug (assemble_result dots q cs p i pt)) = Some i"
  "pa_citations (assemble_result dots q cs p i pt) = build_citations cs"
  by (simp_all add: assemble_result_def Let_def build_evidence_def evidence_of_def comp_def split_def)

lemma sanitize_facts:
  "map ev_chunk_id (pa_evidence (sanitize_answer P a)) = map ev_chunk_id (pa_evidence a)"
  "map ev_document_id (pa_evidence (sanitize_answer P a)) = map ev_document_id (pa_evidence a)"
  "map_option db_retrieval_log_id (pa_debug (sanitize_answer P a)) = map_option db_retrieval_log_id (pa_debug a)"
  "map ci_document_id (pa_citations (sanitize_answer P a)) = map ci_document_id (pa_citations a)"
  by (simp_all add: sanitize_answer_def redact_answer_def cap_evidence_def redact_evidence_def sanitize_citation_def
      redact_debug_def Let_def comp_def option.map_comp)

lemma counts_facts [simp]:
  "pa_evidence (set_counts v r a) = pa_evidence a" "pa_citations (set_counts v r a) = pa_citations a"
  "map_option db_retrieval_log_id (pa_debug (set_counts v r a)) = map_option db_retrieval_log_id (pa_debug a)"
  by (simp_all add: set_counts_def option.map_comp comp_def)

text \<open>The promise of an answer, for the hits it was made from.\<close>

definition grounded :: "uuid \<Rightarrow> (uuid \<times> uuid) set \<Rightarrow> RagPolicyAnswer \<Rightarrow> RagRetrievalLog \<Rightarrow> bool" where
  "grounded t keys a l \<longleftrightarrow>
     (\<lambda>e. (ev_chunk_id e, ev_document_id e)) ` set (pa_evidence a) \<subseteq> keys \<and>
     ci_document_id ` set (pa_citations a) \<subseteq> ev_document_id ` set (pa_evidence a) \<and>
     rl_tenant_id l = t \<and> map_option db_retrieval_log_id (pa_debug a) = Some (rl_id l) \<and>
     rl_selected_chunk_ids l = map ev_chunk_id (pa_evidence a)"

lemma grounded_assembled:
  assumes "candidate_key ` set cs \<subseteq> keys" and "rl_tenant_id l = t" "rl_selected_chunk_ids l = map cn_chunk_id cs"
  shows "grounded t keys (assemble_result dots q cs p (rl_id l) pt) l"
proof -
  let ?a = "assemble_result dots q cs p (rl_id l) pt"
  have "map (\<lambda>e. (ev_chunk_id e, ev_document_id e)) (pa_evidence ?a) = map candidate_key cs"
    by (simp add: assemble_result_def Let_def build_evidence_def evidence_of_def comp_def split_def candidate_key_def)
  then have "(\<lambda>e. (ev_chunk_id e, ev_document_id e)) ` set (pa_evidence ?a) = candidate_key ` set cs" by (metis set_map)
  moreover have "ev_document_id ` set (pa_evidence ?a) = cn_document_id ` set cs" using assemble_facts(2) by (metis set_map)
  ultimately show ?thesis
    using assms by (auto simp: grounded_def assemble_facts build_citations_def dest: citations_document)
qed

lemma grounded_mono: "grounded t A a l \<Longrightarrow> A \<subseteq> B \<Longrightarrow> grounded t B a l"
  by (auto simp: grounded_def)

lemma grounded_counts [simp]: "grounded t keys (set_counts v r a) l = grounded t keys a l"
  by (simp add: grounded_def)

lemma grounded_sanitized: "grounded t keys a l \<Longrightarrow> grounded t keys (sanitize_answer P a) l"
proof -
  have "(\<lambda>e. (ev_chunk_id e, ev_document_id e)) ` set (pa_evidence (sanitize_answer P a)) =
      (\<lambda>e. (ev_chunk_id e, ev_document_id e)) ` set (pa_evidence a)"
    by (auto simp: sanitize_answer_def redact_answer_def cap_evidence_def redact_evidence_def Let_def image_image)
  then show "grounded t keys a l \<Longrightarrow> grounded t keys (sanitize_answer P a) l"
    using sanitize_facts by (simp add: grounded_def) (metis set_map)
qed

lemma insufficient_grounded:
  assumes "insufficient_answer V E ctx q reason R = Inr (a, R')"
  shows "\<exists>t l. tc_tenant_id ctx = Some t \<and> R' = R\<lparr>rag_retrieval_logs := rag_retrieval_logs R @ [l]\<rparr> \<and> grounded t {} a l \<and>
    length (pa_evidence a) \<le> 20"
proof -
  let ?l = "new_log E ctx q ''insufficient''"
  obtain R1 where R1: "insert_log ctx ?l R = Inr R1" "R' = R1"
    and a: "a = set_counts (Some 0) (Some 0) (assemble_result (pi_ellipsis (rv_pii V)) q [] (empty_report reason) (rl_id ?l) Map.empty)"
    using assms by (auto simp: insufficient_answer_def sbind_def new_log_def split: sum.splits)
  have "grounded (the (tc_tenant_id ctx)) {} a ?l" unfolding a
    by (simp, rule grounded_assembled) (simp_all add: new_log_def)
  moreover have "pa_evidence a = []" by (simp add: a assemble_result_def build_evidence_def)
  ultimately show ?thesis using insert_log_Inr [OF R1(1)] R1(2) by auto
qed

lemma evidence_length:
  "length (pa_evidence (assemble_result dots q cs p i pt)) = length cs" "length (pa_evidence (sanitize_answer P a)) = length (pa_evidence a)"
  by (simp_all add: assemble_result_def build_evidence_def Let_def split_def sanitize_answer_def redact_answer_def)

lemma full_answer_grounded:
  assumes "fst (full_answer V E ctx q dbg conversation hits pages R) = Inr (a, R')"
  shows "\<exists>t l. tc_tenant_id ctx = Some t \<and> R' = R\<lparr>rag_retrieval_logs := rag_retrieval_logs R @ [l]\<rparr> \<and>
    grounded t ((\<lambda>(c, d, x). (rc_id c, rd_id d)) ` set hits) a l \<and> length (pa_evidence a) = length hits"
proof -
  let ?cs = "map (candidate_of pages) (List.enumerate 1 hits)"
  obtain cs fallback n where cs: "rerank_step V q ?cs = (cs, fallback, n)" by (metis surj_pair)
  let ?p0 = "\<lparr>rt_answer_text = None, rt_reranker_used = True, rt_reranker_provider = Some ''openrouter'',
      rt_fallback_reason = fallback,
      rt_confidence_status = (if cs = [] then ''insufficient'' else if fallback \<noteq> None then ''fallback'' else ''sufficient''),
      rt_guardrail_status = None, rt_guardrail_blocked_reason = None, rt_generation_provider = None\<rparr>"
  obtain p calls where p: "generation_step V q cs (page_text_of pages) conversation ?p0 = (p, calls)" by (metis surj_pair)
  define l where "l = (new_log E ctx q (rt_confidence_status p))
            \<lparr>rl_selected_document_ids := rv_iterate V (remdups (map cn_document_id cs)),
             rl_selected_chunk_ids := map cn_chunk_id cs,
             rl_selected_page_ids := rv_iterate V (remdups (concat (map cn_page_ids cs))),
             rl_reranker_used := rt_reranker_used p, rl_reranker_provider := rt_reranker_provider p,
             rl_fallback_reason := rt_fallback_reason p\<rparr>"
  define b where "b = assemble_result (pi_ellipsis (rv_pii V)) q cs p (rl_id l) (page_text_of pages)"
  have full: "fst (full_answer V E ctx q dbg conversation hits pages R) =
      sbind (insert_log ctx l R) (\<lambda>R1. Inr (sanitize_answer (rv_pii V) (if dbg then set_counts (Some (length hits)) n b else b), R1))"
    by (simp only: full_answer_def Let_def cs p prod.case fst_conv l_def b_def)
  with assms obtain R1 where log: "insert_log ctx l R = Inr R1" "R' = R1"
    and a: "a = sanitize_answer (rv_pii V) (if dbg then set_counts (Some (length hits)) n b else b)"
    by (cases "insert_log ctx l R") auto
  have "grounded (the (tc_tenant_id ctx)) ((\<lambda>(c, d, x). (rc_id c, rd_id d)) ` set hits) b l" unfolding b_def
  proof (rule grounded_assembled)
    show "candidate_key ` set cs \<subseteq> (\<lambda>(c, d, x). (rc_id c, rd_id d)) ` set hits"
      by (simp only: rerank_step_keys(1) [OF cs] candidates_keys order_refl)
  qed (simp_all add: l_def new_log_def)
  then have "grounded (the (tc_tenant_id ctx)) ((\<lambda>(c, d, x). (rc_id c, rd_id d)) ` set hits) a l"
    unfolding a by (intro grounded_sanitized) simp
  moreover have "length (pa_evidence a) = length hits"
    by (simp add: a b_def evidence_length rerank_step_keys(2) [OF cs])
  ultimately show ?thesis using insert_log_Inr [OF log(1)] log(2) by auto
qed

lemma answer_grounded:
  assumes "fst (answer_policy_query V E (Some ctx) q k dbg ms later R) = Inr (a, R')"
  shows "\<exists>t l. tc_tenant_id ctx = Some t \<and> R' = R\<lparr>rag_retrieval_logs := rag_retrieval_logs R @ [l]\<rparr> \<and>
     grounded t {(c, d). own_hit t R c d} a l \<and> length (pa_evidence a) \<le> 20"
proof -
  have insufficient: ?thesis if "insufficient_answer V E ctx (py_strip q) reason R = Inr (a, R')" for reason
    using insufficient_grounded [OF that] by (auto intro: grounded_mono)
  let ?hits = "\<lambda>t v. search_chunks_by_embedding (rv_distance V) t v k R"
  have full: ?thesis if t: "tc_tenant_id ctx = Some t"
    and run: "fst (full_answer V E ctx (py_strip q) dbg conversation (filter (\<lambda>(c, d, x). still_processed t later d) (?hits t v)) pages R) =
      Inr (a, R')" for t v pages conversation
  proof -
    let ?kept = "filter (\<lambda>(c, d, x). still_processed t later d) (?hits t v)"
    have "(\<lambda>(c, d, x). (rc_id c, rd_id d)) ` set ?kept \<subseteq> {(c, d). own_hit t R c d}" by (auto dest: search_hits)
    moreover have "length ?kept \<le> 20"
      by (rule order_trans [OF length_filter_le search_length])
    ultimately show ?thesis using full_answer_grounded [OF run] t by (auto intro: grounded_mono)
  qed
  show ?thesis
    using assms insufficient full
    by (auto simp: answer_policy_query_def Let_def require_tenant_def split: if_splits option.splits sum.splits)
qed

text \<open>
  C5. An answer to a policy question rests on the tenant's own documents: each piece of evidence
  is an active chunk of a processed document of the tenant, there are at most twenty, every
  citation names a document of the evidence, and the answer's log row is the one change, with
  the answer's identifier and the chunks in the order they are shown.
\<close>

theorem answer_from_own_documents:
  assumes "fst (answer_policy_query V E (Some ctx) q k dbg ms later R) = Inr (a, R')"
  shows "\<exists>t l. tc_tenant_id ctx = Some t \<and> R' = R\<lparr>rag_retrieval_logs := rag_retrieval_logs R @ [l]\<rparr> \<and>
     grounded t {(c, d). own_hit t R c d} a l \<and> length (pa_evidence a) \<le> 20"
  using assms by (rule answer_grounded)

text \<open>
  The check for documents replaced while an answer is made notices deleted documents only: as
  long as every row is still there, whatever its status became, the answer and the log are those
  of an undisturbed run.
\<close>

theorem replaced_document_still_answered:
  assumes "\<forall>d \<in> set (rag_documents R). \<exists>x \<in> set (rag_documents later). rd_id x = rd_id d \<and> rd_tenant_id x = rd_tenant_id d"
  shows "answer_policy_query V E tenant q k dbg ms later R = answer_policy_query V E tenant q k dbg ms R R"
proof -
  have member: "d \<in> set (rag_documents R) \<and> rd_tenant_id d = t \<and> rd_status d = ''processed''"
    if "(c, d, x) \<in> set (search_chunks_by_embedding f t v k R)" for c d x f t v
    using that by (auto simp: search_chunks_by_embedding_def Let_def dest!: in_set_takeD)
  have same: "filter (\<lambda>(c, d, x). still_processed t later d) (search_chunks_by_embedding f t v k R) =
      filter (\<lambda>(c, d, x). still_processed t R d) (search_chunks_by_embedding f t v k R)" for f t v
  proof (rule filter_cong [OF refl])
    fix h assume h: "h \<in> set (search_chunks_by_embedding f t v k R)"
    obtain c d x where [simp]: "h = (c, d, x)" by (metis surj_pair)
    from member h have d: "d \<in> set (rag_documents R)" "rd_tenant_id d = t" by auto
    with assms have "\<exists>x \<in> set (rag_documents later). rd_id x = rd_id d \<and> rd_tenant_id x = t" by blast
    with d show "(case h of (c, d, x) \<Rightarrow> still_processed t later d) = (case h of (c, d, x) \<Rightarrow> still_processed t R d)"
      by (auto simp: still_processed_def)
  qed
  show ?thesis unfolding answer_policy_query_def Let_def same ..
qed

section \<open>The numbering of a chat\<close>

definition thread_messages :: "uuid \<Rightarrow> 'v rag_db \<Rightarrow> RagChatMessage list" where
  "thread_messages i R = filter (\<lambda>m. cg_thread_id m = i) (rag_chat_messages R)"

definition chat_numbered :: "'v rag_db \<Rightarrow> bool" where
  "chat_numbered R \<longleftrightarrow>
     (\<forall>i. map cg_sequence_number (thread_messages i R) = [1..<Suc (length (thread_messages i R))])"

lemma fold_max_upt: "fold max [Suc 0..<Suc n] 0 = n"
  by (induction n) auto

lemma next_number:
  assumes "chat_numbered R"
  shows "get_next_chat_sequence_number i R = Suc (length (thread_messages i R))"
  using assms by (simp add: get_next_chat_sequence_number_def chat_numbered_def thread_messages_def [symmetric] fold_max_upt
      del: upt_Suc)

lemma numbered_create:
  assumes "chat_numbered R" and "cg_sequence_number m = get_next_chat_sequence_number (cg_thread_id m) R"
  shows "chat_numbered (create_chat_message m R)"
  using assms next_number [OF assms(1), of "cg_thread_id m"]
  by (simp add: chat_numbered_def create_chat_message_def thread_messages_def)

lemma numbered_frame:
  "rag_chat_messages R' = rag_chat_messages R \<Longrightarrow> chat_numbered R' = chat_numbered R"
  "rag_chat_messages R' = rag_chat_messages R \<Longrightarrow> get_next_chat_sequence_number i R' = get_next_chat_sequence_number i R"
  by (simp_all add: chat_numbered_def thread_messages_def get_next_chat_sequence_number_def)

lemma tools_frame:
  "rag_chat_messages (snd (maybe_run_assistant_tools dash n E ctx q D R)) = rag_chat_messages R"
  "rag_chat_threads (snd (maybe_run_assistant_tools dash n E ctx q D R)) = rag_chat_threads R"
  by (auto simp: maybe_run_assistant_tools_def leads_block_def record_tool_invocation_def split: option.splits sum.splits)

lemma update_thread_frame [simp]: "rag_chat_messages (update_chat_thread t R) = rag_chat_messages R"
  by (simp add: update_chat_thread_def)

lemma answer_frame:
  assumes "fst (answer_policy_query V E tenant q k dbg ms later R) = Inr (a, R')"
  shows "rag_chat_messages R' = rag_chat_messages R" "rag_chat_threads R' = rag_chat_threads R"
proof -
  obtain ctx where "tenant = Some ctx" using assms by (cases tenant) (auto simp: answer_policy_query_def require_tenant_def)
  from answer_grounded [of V E ctx q k dbg ms later R a R'] assms this
  show "rag_chat_messages R' = rag_chat_messages R" "rag_chat_threads R' = rag_chat_threads R" by auto
qed

lemma send_message_cases:
  assumes "send_message V C E E2 tenant i content k dbg later D (R, r) = (x, R', r')"
  obtains (refused) e where "x = Inl e" "R' = R" "r' = r"
  | (failed) e ctx u t t1 q where "x = Inl e" "signed_in tenant = Inr (ctx, u)" "get_chat_thread i (tc_tenant_id ctx) u R = Some t"
      "store_question E t u content R = (t1, q, R')" "r' = r"
  | (sent) ctx u t t1 q R1 a R2 a1 R3 reply t2 where "signed_in tenant = Inr (ctx, u)" "get_chat_thread i (tc_tenant_id ctx) u R = Some t"
      "store_question E t u content R = (t1, q, R1)"
      "rag_chat_messages R3 = rag_chat_messages R1" "rag_chat_threads R3 = rag_chat_threads R1"
      "reply = (new_message (fresh E2 2) E2 t u ''assistant'' (redact_text (rv_pii V) (pa_answer a1))
          (get_next_chat_sequence_number (th_id t) R3) (Some a1))\<lparr>cg_answer_payload := Some (sanitize_answer (rv_pii V) a1)\<rparr>"
      "t2 = touched E2 t1" "x = Inr (t2, q, reply)" "R' = update_chat_thread t2 (create_chat_message reply R3)"
      "r' = redis_set (now_at E2) (rag_chat_cache_key (tc_tenant_id ctx) u (th_id t))
         (RJson (sanitize_detail (rv_pii V) (thread_detail_of t2 (list_chat_messages i (tc_tenant_id ctx) u R @ [q, reply]))))
         (Some (cv_ttl C)) r"
proof (cases "signed_in tenant")
  case (Inl e)
  then show thesis using assms by (intro refused) (auto simp: send_message_def)
next
  case (Inr y)
  obtain ctx u where y: "y = (ctx, u)" by (metis surj_pair)
  note signed = Inr [unfolded y]
  show thesis
  proof (cases "get_chat_thread i (tc_tenant_id ctx) u R")
    case None
    then show thesis using assms signed by (intro refused) (auto simp: send_message_def)
  next
    case (Some t)
    obtain t1 q R1 where store: "store_question E t u content R = (t1, q, R1)" by (metis surj_pair)
    let ?h = "conversation_messages_from_chat (rv_guards V) (list_chat_messages i (tc_tenant_id ctx) u R)"
    obtain z calls where z: "answer_policy_query V E2 tenant (cg_content q) k dbg ?h later R1 = (z, calls)" by (metis surj_pair)
    show thesis
    proof (cases z)
      case (Inl e)
      then show thesis using assms signed Some store z by (intro failed) (auto simp: send_message_def Let_def)
    next
      case (Inr v)
      obtain a R2 where v: "v = (a, R2)" by (metis surj_pair)
      obtain blocks R3 where b: "maybe_run_assistant_tools (cv_dash C) (cv_max_leads C) E2 ctx (cg_content q) D R2 = (blocks, R3)"
        by (metis surj_pair)
      have "fst (answer_policy_query V E2 tenant (cg_content q) k dbg ?h later R1) = Inr (a, R2)" by (simp add: z Inr v)
      note frame = answer_frame [OF this] tools_frame [of "cv_dash C" "cv_max_leads C" E2 ctx "cg_content q" D R2, unfolded b snd_conv]
      show thesis
        by (rule sent [OF signed Some store, of R3 _ "with_tools blocks a"])
          (use assms frame in \<open>auto simp: send_message_def Let_def signed Some store z Inr v b\<close>)
    qed
  qed
qed

lemma found_thread:
  assumes "get_chat_thread i tenant_id u R = Some t"
  shows "t \<in> set (rag_chat_threads R)" "th_id t = i" "Some (th_tenant_id t) = tenant_id" "th_owner_user_id t = u"
  using assms by (auto simp: get_chat_thread_def find_Some_iff)

lemma store_question_facts:
  assumes "store_question E t u content R = (t1, q, R1)"
  shows "rag_chat_messages R1 = rag_chat_messages R @ [q]" "rag_chat_threads R1 = update_row th_id (th_id t) (\<lambda>_. t1) (rag_chat_threads R)"
    "cg_thread_id q = th_id t" "cg_tenant_id q = th_tenant_id t" "cg_owner_user_id q = u" "th_id t1 = th_id t"
    "th_tenant_id t1 = th_tenant_id t" "th_owner_user_id t1 = th_owner_user_id t"
    "cg_sequence_number q = get_next_chat_sequence_number (th_id t) R"
  using assms by (auto simp: store_question_def Let_def new_message_def touched_def create_chat_message_def update_chat_thread_def)

lemma store_question_numbered:
  assumes "chat_numbered R" and "store_question E t u content R = (t1, q, R1)"
  shows "chat_numbered R1"
proof -
  note q = store_question_facts [OF assms(2)]
  have "chat_numbered (create_chat_message q R)" by (rule numbered_create) (simp_all add: assms q)
  then show ?thesis using q(1) numbered_frame(1) [of R1 "create_chat_message q R"] by (simp add: create_chat_message_def)
qed

text \<open>
  The messages of every thread are numbered from one without a gap, in the order they were
  stored; sending a message keeps this, whether the answer succeeds or fails.
\<close>

theorem chat_stays_numbered:
  assumes numbered: "chat_numbered R" and run: "send_message V C E E2 tenant i content k dbg later D (R, r) = (x, R', r')"
  shows "chat_numbered R'"
proof (rule send_message_cases [OF run])
  fix e ctx u t t1 q assume "store_question E t u content R = (t1, q, R')"
  then show ?thesis by (rule store_question_numbered [OF numbered])
next
  fix ctx u t t1 q R1 a R2 a1 R3 reply t2
  assume store: "store_question E t u content R = (t1, q, R1)" and same: "rag_chat_messages R3 = rag_chat_messages R1"
    and reply: "reply = (new_message (fresh E2 2) E2 t u ''assistant'' (redact_text (rv_pii V) (pa_answer a1))
          (get_next_chat_sequence_number (th_id t) R3) (Some a1))\<lparr>cg_answer_payload := Some (sanitize_answer (rv_pii V) a1)\<rparr>"
    and R': "R' = update_chat_thread t2 (create_chat_message reply R3)"
  have "chat_numbered R3" using store_question_numbered [OF numbered store] numbered_frame(1) [OF same] by simp
  then have "chat_numbered (create_chat_message reply R3)" by (rule numbered_create) (simp add: reply new_message_def)
  then show ?thesis using numbered_frame(1) [of R' "create_chat_message reply R3"] by (simp add: R')
qed (use numbered in simp)

section \<open>The cached thread\<close>

lemma list_messages_snoc:
  assumes "chat_numbered R" and "rag_chat_messages R1 = rag_chat_messages R @ [m]"
    and "cg_thread_id m = i" "Some (cg_tenant_id m) = tenant_id" "cg_owner_user_id m = u"
    and "cg_sequence_number m = get_next_chat_sequence_number i R"
  shows "list_chat_messages i tenant_id u R1 = list_chat_messages i tenant_id u R @ [m]"
proof -
  have "cg_sequence_number x < cg_sequence_number m" if "x \<in> set (rag_chat_messages R)" "cg_thread_id x = i" for x
  proof -
    have "cg_sequence_number x \<in> set (map cg_sequence_number (thread_messages i R))" using that by (auto simp: thread_messages_def)
    then have "cg_sequence_number x \<le> length (thread_messages i R)"
      using assms(1) [unfolded chat_numbered_def, rule_format, of i] by (simp del: set_map upt_Suc)
    then show ?thesis using next_number [OF assms(1), of i] assms(6) by simp
  qed
  then have "\<forall>x \<in> set (filter (\<lambda>m. cg_thread_id m = i \<and> Some (cg_tenant_id m) = tenant_id \<and> cg_owner_user_id m = u) (rag_chat_messages R)).
      (cg_sequence_number x, cg_created_at x) \<le> (cg_sequence_number m, cg_created_at m)"
    by (simp add: less_eq_prod_def)
  from sort_key_snoc_last [OF this] show ?thesis using assms by (simp add: list_chat_messages_def)
qed

lemma get_thread_cached:
  assumes "signed_in tenant = Inr (ctx, u)" and "redis_get (now_at E) (rag_chat_cache_key (tc_tenant_id ctx) u i) r = Some (RJson d)"
  shows "get_thread P ttl E tenant i R r = (Inr d, r)"
  using assms by (simp add: get_thread_def Let_def)

lemma get_thread_fresh:
  assumes "signed_in tenant = Inr (ctx, u)" and "get_chat_thread i (tc_tenant_id ctx) u R = Some t"
  shows "fst (get_thread P ttl E tenant i R Map.empty) =
    Inr (sanitize_detail P (thread_detail_of t (list_chat_messages i (tc_tenant_id ctx) u R)))"
  using assms by (simp add: get_thread_def Let_def redis_get_def)

lemma get_chat_thread_updated:
  assumes "unique_on th_id (rag_chat_threads R)" and "get_chat_thread i tenant_id u R = Some t"
    and "rag_chat_threads R' = update_row th_id i (\<lambda>_. t2) (rag_chat_threads R)"
    and "th_id t2 = i" "th_tenant_id t2 = th_tenant_id t" "th_owner_user_id t2 = th_owner_user_id t"
  shows "get_chat_thread i tenant_id u R' = Some t2"
proof -
  have "find (\<lambda>t. th_id t = i \<and> Some (th_tenant_id t) = tenant_id \<and> th_owner_user_id t = u)
      (update_row th_id i (\<lambda>_. t2) ts) = Some t2"
    if "find (\<lambda>t. th_id t = i \<and> Some (th_tenant_id t) = tenant_id \<and> th_owner_user_id t = u) ts = Some t" for ts
    using that assms(4-6) by (induction ts) (auto simp: update_row_def split: if_splits)
  with assms show ?thesis by (simp add: get_chat_thread_def)
qed

lemma update_row_twice:
  "th_id a = i \<Longrightarrow> update_row th_id i (\<lambda>_. b) (update_row th_id i (\<lambda>_. a) ts) = update_row th_id i (\<lambda>_. b) ts"
  by (simp add: update_row_def)


text \<open>
  A message whose answer fails is stored, but a cached thread keeps hiding it: the thread that
  is read stays the one cached before, until its entry expires or another message is answered.
\<close>

theorem failed_send_hides_question:
  assumes failed: "send_message V C E E2 tenant i content k dbg later D (R, r) = (Inl e, R', r')"
    and thread: "signed_in tenant = Inr (ctx, u)" "get_chat_thread i (tc_tenant_id ctx) u R = Some t"
    and numbered: "chat_numbered R"
    and cached: "redis_get (now_at E3) (rag_chat_cache_key (tc_tenant_id ctx) u i) r = Some (RJson d)"
  shows "\<exists>q. list_chat_messages i (tc_tenant_id ctx) u R' = list_chat_messages i (tc_tenant_id ctx) u R @ [q] \<and>
      cg_content q = py_strip content \<and> fst (get_thread P n E3 tenant i R' r') = Inr d"
proof -
  obtain t1 q where store: "store_question E t u content R = (t1, q, R')" and r: "r' = r"
    using failed thread by (auto simp: send_message_def Let_def split: prod.splits sum.splits)
  note th = found_thread [OF thread(2)] and q = store_question_facts [OF store]
  have "list_chat_messages i (tc_tenant_id ctx) u R' = list_chat_messages i (tc_tenant_id ctx) u R @ [q]"
    by (rule list_messages_snoc [OF numbered q(1)]) (simp_all add: q th)
  moreover have "cg_content q = py_strip content"
    using store by (auto simp: store_question_def Let_def new_message_def)
  moreover have "fst (get_thread P n E3 tenant i R' r') = Inr d"
    by (simp add: r get_thread_cached [OF thread(1) cached])
  ultimately show ?thesis by blast
qed

section \<open>Examples\<close>

definition demo_retrieval :: "nat retrieval_env" where
  "demo_retrieval = \<lparr>rv_embed = (\<lambda>q. Inr 0), rv_distance = (\<lambda>a b. 0), rv_rerank = (\<lambda>q ts. Inr [(0, 1)]),
     rv_guards = demo_guards, rv_services = demo_services,
     rv_pii = \<lparr>pi_enabled = False, pi_presidio = None, pi_ellipsis = CHR ''.''\<rparr>, rv_iterate = id\<rparr>"

definition demo_thread :: RagChatThread where
  "demo_thread = \<lparr>th_id = ''h1'', th_tenant_id = ''t1'', th_owner_user_id = ''u1'', th_title = ''New conversation'',
     th_created_at = 0, th_updated_at = 0, th_last_message_at = 0\<rparr>"

definition demo_policies :: "string \<Rightarrow> nat rag_db" where
  "demo_policies status =
     \<lparr>rag_documents = [\<lparr>rd_id = ''r1'', rd_tenant_id = ''t1'', rd_filename = ''a.pdf'', rd_status = status,
                        rd_blob_path = ''k'', rd_created_at = 0, rd_updated_at = 0\<rparr>],
      rag_pages = [],
      rag_chunks = [\<lparr>rc_id = ''c1'', rc_document_id = ''r1'', rc_tenant_id = ''t1'', rc_page_ids = [], rc_content_hash = ''h'',
                     rc_text = ''Pets are allowed.'', rc_embedding = Some 0, rc_status = ''active'', rc_created_at = 0\<rparr>],
      rag_retrieval_logs = [], rag_chat_threads = [demo_thread], rag_chat_messages = [], tool_invocations = []\<rparr>"

lemma demo_signed: "signed_in (Some demo_ctx) = Inr (demo_ctx, ''u1'')"
  by (simp add: signed_in_def require_tenant_def demo_ctx_def)

lemma demo_numbered: "chat_numbered (demo_policies s)"
  by (simp add: chat_numbered_def thread_messages_def demo_policies_def)

lemma demo_search:
  "search_chunks_by_embedding f ''t1'' v 8 (demo_policies ''processed'') =
     [(hd (rag_chunks (demo_policies ''processed'')), hd (rag_documents (demo_policies ''processed'')), f 0 v)]"
  by (simp add: search_chunks_by_embedding_def demo_policies_def Let_def)

lemma demo_full: "\<exists>a R'. fst (full_answer V E demo_ctx q dbg conversation hits pages R) = Inr (a, R')"
  by (simp add: full_answer_def Let_def split_def insert_log_def demo_ctx_def)

lemma demo_answer:
  "\<exists>a R'. fst (answer_policy_query demo_retrieval demo_env (Some demo_ctx) ''Pets?'' 8 dbg ms (demo_policies s) (demo_policies ''processed'')) =
     Inr (a, R')"
proof -
  have "list_processed_documents ''t1'' (demo_policies ''processed'') \<noteq> []"
    by (simp add: list_processed_documents_def demo_policies_def)
  moreover have "still_processed ''t1'' (demo_policies s) (hd (rag_documents (demo_policies ''processed'')))"
    by (simp add: still_processed_def demo_policies_def)
  moreover have "py_strip ''Pets?'' = ''Pets?''" by (simp add: py_strip_def py_isspace_def)
  moreover have "rv_embed demo_retrieval q = Inr 0" for q by (simp add: demo_retrieval_def)
  moreover have "require_tenant (Some demo_ctx) = Inr demo_ctx" "tc_tenant_id demo_ctx = Some ''t1''"
    by (simp_all add: require_tenant_def demo_ctx_def)
  ultimately show ?thesis
    using demo_full by (simp add: answer_policy_query_def Let_def demo_search)
qed

theorem answer_from_own_documents_witness:
  "\<exists>a R' l. fst (answer_policy_query demo_retrieval demo_env (Some demo_ctx) ''Pets?'' 8 True [] (demo_policies ''processed'')
       (demo_policies ''processed'')) = Inr (a, R') \<and>
     grounded ''t1'' {(c, d). own_hit ''t1'' (demo_policies ''processed'') c d} a l"
proof -
  obtain a R' where run: "fst (answer_policy_query demo_retrieval demo_env (Some demo_ctx) ''Pets?'' 8 True []
      (demo_policies ''processed'') (demo_policies ''processed'')) = Inr (a, R')" using demo_answer by blast
  have "tc_tenant_id demo_ctx = Some ''t1''" by (simp add: demo_ctx_def)
  with answer_from_own_documents [OF run] run show ?thesis by auto
qed

theorem replaced_document_still_answered_witness:
  "answer_policy_query demo_retrieval demo_env (Some demo_ctx) ''Pets?'' 8 True [] (demo_policies ''pending'') (demo_policies ''processed'') =
   answer_policy_query demo_retrieval demo_env (Some demo_ctx) ''Pets?'' 8 True [] (demo_policies ''processed'') (demo_policies ''processed'')"
  by (rule replaced_document_still_answered) (simp add: demo_policies_def)

definition demo_chat :: chat_env where
  "demo_chat = \<lparr>cv_dash = CHR ''-'', cv_max_leads = 10, cv_ttl = 86400\<rparr>"

lemma demo_thread_found: "get_chat_thread ''h1'' (Some ''t1'') ''u1'' (demo_policies s) = Some demo_thread"
  by (simp add: get_chat_thread_def demo_policies_def demo_thread_def)

lemma demo_ctx_facts: "tc_tenant_id demo_ctx = Some ''t1''" "tc_role demo_ctx = Some ''agency_owner''"
  by (simp_all add: demo_ctx_def)

lemma demo_strip: "py_strip ''Pets?'' = ''Pets?''"
  by (simp add: py_strip_def py_isspace_def)

lemma stored_frame:
  "rag_documents (snd (snd (store_question E t u c R))) = rag_documents R"
  "cg_content (fst (snd (store_question E t u c R))) = py_strip c"
  by (simp_all add: store_question_def Let_def update_chat_thread_def create_chat_message_def new_message_def)

lemma demo_send:
  "\<exists>y R' r'. send_message demo_retrieval demo_chat demo_env demo_env (Some demo_ctx) ''h1'' ''Pets?'' 8 True later D
     (demo_policies ''pending'', Map.empty) = (Inr y, R', r')"
proof -
  obtain t1 q R1 where store: "store_question demo_env demo_thread ''u1'' ''Pets?'' (demo_policies ''pending'') = (t1, q, R1)"
    by (metis surj_pair)
  have "cg_content q = ''Pets?''" "rag_documents R1 = rag_documents (demo_policies ''pending'')"
    using stored_frame [of demo_env demo_thread "''u1''" "''Pets?''" "demo_policies ''pending''"] demo_strip by (simp_all add: store)
  moreover from this have "list_processed_documents ''t1'' R1 = []" by (simp add: list_processed_documents_def demo_policies_def)
  ultimately show ?thesis
    by (simp add: send_message_def demo_signed demo_thread_found store Let_def answer_policy_query_def require_tenant_def
        demo_strip insufficient_answer_def insert_log_def split_def demo_ctx_facts)
qed


theorem chat_stays_numbered_witness:
  "\<exists>y R' r'. send_message demo_retrieval demo_chat demo_env demo_env (Some demo_ctx) ''h1'' ''Pets?'' 8 True (demo_policies ''pending'') empty_db
       (demo_policies ''pending'', Map.empty) = (Inr y, R', r') \<and> chat_numbered R'"
proof -
  obtain y R' r' where run: "send_message demo_retrieval demo_chat demo_env demo_env (Some demo_ctx) ''h1'' ''Pets?'' 8 True
      (demo_policies ''pending'') empty_db (demo_policies ''pending'', Map.empty) = (Inr y, R', r')" using demo_send by metis
  from chat_stays_numbered [OF demo_numbered run] run show ?thesis by blast
qed

theorem failed_send_hides_question_witness:
  "\<exists>e R' r' q. send_message (demo_retrieval\<lparr>rv_embed := (\<lambda>q. Inl ''down'')\<rparr>) demo_chat demo_env demo_env (Some demo_ctx) ''h1'' ''Pets?'' 8 True
       (demo_policies ''processed'') empty_db
       (demo_policies ''processed'', [rag_chat_cache_key (Some ''t1'') ''u1'' ''h1'' \<mapsto> (RJson (thread_detail_of demo_thread []), None)]) =
       (Inl e, R', r') \<and>
     list_chat_messages ''h1'' (Some ''t1'') ''u1'' R' = [q] \<and>
     fst (get_thread (rv_pii demo_retrieval) 60 demo_env (Some demo_ctx) ''h1'' R' r') = Inr (thread_detail_of demo_thread [])"
proof -
  let ?V = "demo_retrieval\<lparr>rv_embed := (\<lambda>q. Inl ''down'')\<rparr>" let ?R = "demo_policies ''processed''"
  let ?r = "[rag_chat_cache_key (Some ''t1'') ''u1'' ''h1'' \<mapsto> (RJson (thread_detail_of demo_thread []), None)] :: chat_cache"
  have tenant: "tc_tenant_id demo_ctx = Some ''t1''" by (simp add: demo_ctx_def)
  obtain t1 q R1 where store: "store_question demo_env demo_thread ''u1'' ''Pets?'' ?R = (t1, q, R1)" by (metis surj_pair)
  have "cg_content q = ''Pets?''" "rag_documents R1 = rag_documents ?R"
    using stored_frame [of demo_env demo_thread "''u1''" "''Pets?''" ?R] demo_strip by (simp_all add: store)
  moreover from this have "list_processed_documents ''t1'' R1 \<noteq> []" by (simp add: list_processed_documents_def demo_policies_def)
  ultimately have "\<exists>e. send_message ?V demo_chat demo_env demo_env (Some demo_ctx) ''h1'' ''Pets?'' 8 True ?R empty_db (?R, ?r) = (Inl e, R1, ?r)"
    by (simp add: send_message_def demo_signed demo_thread_found store Let_def answer_policy_query_def require_tenant_def
        demo_strip tenant)
  then obtain e where run: "send_message ?V demo_chat demo_env demo_env (Some demo_ctx) ''h1'' ''Pets?'' 8 True ?R empty_db (?R, ?r) = (Inl e, R1, ?r)" ..
  have "redis_get (now_at demo_env) (rag_chat_cache_key (tc_tenant_id demo_ctx) ''u1'' ''h1'') ?r = Some (RJson (thread_detail_of demo_thread []))"
    by (simp add: redis_get_def live_def tenant)
  note cached = this
  have found: "get_chat_thread ''h1'' (tc_tenant_id demo_ctx) ''u1'' ?R = Some demo_thread" by (simp only: tenant demo_thread_found)
  have empty: "list_chat_messages ''h1'' (Some ''t1'') ''u1'' ?R = []" by (simp add: list_chat_messages_def demo_policies_def)
  from failed_send_hides_question [OF run demo_signed found demo_numbered cached, of "rv_pii demo_retrieval" 60] run
  show ?thesis unfolding tenant empty by (metis append_Nil)
qed

end
