(* ===== verification/Ocr.thy ===== *)
theory Ocr
  imports Retrieval Worker "HOL-Library.AList"
begin

text \<open>
  Listing fields from the text of a specification sheet: \<open>ai/ocr.py\<close>. A field that the dictionary of
  specifications lacks is \<open>None\<close>. \<open>Decimal(text)\<close> on arbitrary text and Python's text of a JSON
  value that is no string are parameters.
\<close>

section \<open>Groups of a pattern\<close>

text \<open>
  The texts that the parts of a sequence match, in the order the matcher tries them; the first is
  the match, its parts are the groups.
\<close>

fun parts_at :: "bool \<Rightarrow> rx list \<Rightarrow> string \<Rightarrow> nat \<Rightarrow> string list list" where
  "parts_at ic [] s i = [[]]"
| "parts_at ic (r # rs) s i =
     concat (map (\<lambda>j. map ((#) (take (j - i) (drop i s))) (parts_at ic rs s j)) (ends ic r s i))"

definition search_parts :: "bool \<Rightarrow> rx list \<Rightarrow> string \<Rightarrow> string list option" where
  "search_parts ic rs s =
     (case concat (map (parts_at ic rs s) [0..<Suc (length s)]) of [] \<Rightarrow> None | ps # _ \<Rightarrow> Some ps)"

fun Upto :: "nat \<Rightarrow> rx \<Rightarrow> rx" where
  "Upto 0 r = Lit []"
| "Upto (Suc n) r = Opt (Sq r (Upto n r))"

definition digits :: rx where
  "digits = Many 1 digit"

definition AREA_SIZE_RE :: "rx list" where
  "AREA_SIZE_RE =
     [Sq digits (Opt (Sq (Lit ''.'') digits)), Many 0 space,
      Alts [Lit ''sqm'', Sqs [Lit ''sq'', Opt (Lit ''.''), Opt space, Lit ''m''], Lit ''m2'', Lit ''m^2'', Lit ''sqft'',
            Lit ''square feet'', Sqs [Lit ''sq'', Opt (Lit ''.''), Opt space, Lit ''ft'']]]"

definition BEDROOMS_RE :: "rx list" where
  "BEDROOMS_RE =
     [digits, Many 0 space,
      Alts [Sqs [Lit ''bed'', Opt (Lit ''room''), Opt (Lit ''s'')], Lit ''br'', Lit ''beds''], WordEnd]"

definition BATHROOMS_RE :: "rx list" where
  "BATHROOMS_RE =
     [digits, Many 0 space, Alts [Sqs [Lit ''bath'', Opt (Lit ''room''), Opt (Lit ''s'')], Lit ''ba''], WordEnd]"

definition PARKING_RE :: "rx list" where
  "PARKING_RE =
     [digits, Many 0 space, Alts [Lit ''parking'', Sqs [Lit ''car'', Many 0 space, Lit ''space''], Lit ''garage''], WordEnd]"

definition FLOOR_RE :: "rx list" where
  "FLOOR_RE = [Alts [Lit ''floor'', Lit ''level''], Many 0 space, digits]"

definition city_re :: "rx list" where
  "city_re =
     [Alts [Lit ''city'', Lit ''in'', Lit ''at''], Many 1 space,
      Sq (Cls is_upper) (Many 1 (Cls (\<lambda>c. is_lower c \<or> is_upper c)))]"

definition address_char :: rx where
  "address_char = Cls (\<lambda>c. alnum c \<or> among '' ,.-'' c \<or> c = CHR 0x27)"

definition address_re :: "rx list" where
  "address_re =
     [Alts [Lit ''address'', Lit ''street'', Lit ''location''], Many 0 space, Opt (Cls (among '':-'')), Many 0 space,
      Sq (Times 3 address_char) (Upto 77 address_char)]"

section \<open>Hints\<close>

definition PROPERTY_TYPE_HINTS :: "(string \<times> string list) list" where
  "PROPERTY_TYPE_HINTS =
     [(''apartment'', [''apartment'', ''apt'', ''flat'']), (''villa'', [''villa'']),
      (''house'', [''house'', ''townhouse'', ''duplex'']), (''office'', [''office'']), (''studio'', [''studio'']),
      (''shop'', [''shop'', ''store'', ''retail''])]"

definition PURPOSE_HINTS :: "(string \<times> string list) list" where
  "PURPOSE_HINTS = [(''rent'', [''rent'', ''for rent'', ''rental'']), (''sale'', [''sale'', ''for sale'', ''buy''])]"

definition FURNISHING_HINTS :: "(string \<times> string list) list" where
  "FURNISHING_HINTS =
     [(''furnished'', [''furnished'']), (''unfurnished'', [''unfurnished'', ''not furnished'']),
      (''semi-furnished'', [''semi furnished'', ''semi-furnished'', ''partially furnished''])]"

definition contains_any :: "string \<Rightarrow> string list \<Rightarrow> bool" where
  "contains_any haystack needles = list_ex (\<lambda>w. re_search False (Lit w) (py_lower haystack)) needles"

definition first_hint :: "(string \<times> string list) list \<Rightarrow> string \<Rightarrow> string option" where
  "first_hint hints s = map_option fst (find (\<lambda>(value, ws). contains_any s ws) hints)"

section \<open>Heuristic extraction\<close>

datatype decimal = Finite rat | NotFinite string

record ListingSpecs =
  es_property_type :: "string option"
  es_listing_purpose :: "string option"
  es_bedrooms :: "int option"
  es_bathrooms :: "int option"
  es_parking :: "int option"
  es_floor :: "int option"
  es_area_size :: "decimal option"
  es_area_unit :: "string option"
  es_furnishing :: "string option"
  es_address :: "string option"
  es_city :: "string option"
  es_location_text :: "string option"
  es_raw_text_excerpt :: string
  es_field_confidence :: "(string \<times> string) list"
  es_source_snippets :: "(string \<times> string) list"

definition no_specs :: ListingSpecs where
  "no_specs =
     \<lparr>es_property_type = None, es_listing_purpose = None, es_bedrooms = None, es_bathrooms = None, es_parking = None,
      es_floor = None, es_area_size = None, es_area_unit = None, es_furnishing = None, es_address = None,
      es_city = None, es_location_text = None, es_raw_text_excerpt = [], es_field_confidence = [],
      es_source_snippets = []\<rparr>"

definition without :: "char list \<Rightarrow> string \<Rightarrow> string" where
  "without cs s = filter (\<lambda>c. c \<notin> set cs) s"

definition heuristic_unit :: "string \<Rightarrow> string" where
  "heuristic_unit s =
     (let u = without [CHR ''.'', CHR '' '', CHR ''^''] (py_lower s) in if u = ''m2'' then ''sqm'' else u)"

text \<open>
  A number with a label: \<open>_first_match\<close> of the group at \<open>k\<close>, and the text of the whole match.
  Python refuses to read integers of more than 4300 digits.
\<close>

definition counted :: "rx list \<Rightarrow> nat \<Rightarrow> string \<Rightarrow> (int \<times> string) option" where
  "counted re k s =
     (case search_parts True re s of
        None \<Rightarrow> None
      | Some ps \<Rightarrow>
          if 4300 < length (ps ! k) then None else (case py_int (ps ! k) of None \<Rightarrow> None | Some n \<Rightarrow> Some (int n, concat ps)))"

definition mark_field :: "'a option \<Rightarrow> string \<Rightarrow> string \<Rightarrow> (string \<times> string) list \<Rightarrow> (string \<times> string) list" where
  "mark_field found key v m = (case found of None \<Rightarrow> m | Some _ \<Rightarrow> AList.update key v m)"

definition snippet :: "('a \<times> string) option \<Rightarrow> string \<Rightarrow> (string \<times> string) list \<Rightarrow> (string \<times> string) list" where
  "snippet found key m = (case found of None \<Rightarrow> m | Some (_, s) \<Rightarrow> AList.update key s m)"

text \<open>\<open>Decimal\<close> of digits with an optional fraction.\<close>

definition digits_number :: "string \<Rightarrow> nat" where
  "digits_number ds = (case py_int ds of None \<Rightarrow> 0 | Some n \<Rightarrow> n)"

definition plain_decimal :: "string \<Rightarrow> rat" where
  "plain_decimal s =
     (let whole = takeWhile is_digit s; fraction = drop (Suc (length whole)) s
      in of_nat (digits_number whole) + of_nat (digits_number fraction) / 10 ^ length fraction)"

definition rstrip_chars :: "char list \<Rightarrow> string \<Rightarrow> string" where
  "rstrip_chars cs s = rev (dropWhile (\<lambda>c. c \<in> set cs) (rev s))"

definition extract_listing_specs :: "string \<Rightarrow> ListingSpecs" where
  "extract_listing_specs s =
     (if s = [] then no_specs
      else
        (let cleaned = normalize_text s;
             area = search_parts True AREA_SIZE_RE cleaned;
             size = map_option (\<lambda>ps. plain_decimal (ps ! 0)) area;
             bedrooms = counted BEDROOMS_RE 0 cleaned;
             bathrooms = counted BATHROOMS_RE 0 cleaned;
             parking = counted PARKING_RE 0 cleaned;
             floor = counted FLOOR_RE 2 cleaned;
             property_type = first_hint PROPERTY_TYPE_HINTS cleaned;
             purpose = first_hint PURPOSE_HINTS cleaned;
             furnishing = first_hint FURNISHING_HINTS cleaned;
             city = map_option (\<lambda>ps. (ps ! 2, concat ps)) (search_parts False city_re cleaned);
             address = map_option (\<lambda>ps. (rstrip_chars '',.'' (py_strip (ps ! 4)), concat ps)) (search_parts False address_re cleaned)
         in \<lparr>es_property_type = property_type, es_listing_purpose = purpose, es_bedrooms = map_option fst bedrooms,
             es_bathrooms = map_option fst bathrooms, es_parking = map_option fst parking, es_floor = map_option fst floor,
             es_area_size = map_option Finite size, es_area_unit = map_option (\<lambda>ps. heuristic_unit (ps ! 2)) area,
             es_furnishing = furnishing, es_address = map_option fst address, es_city = map_option fst city,
             es_location_text = None, es_raw_text_excerpt = take 1500 cleaned,
             es_field_confidence =
               mark_field address ''address'' ''low'' (mark_field city ''city'' ''low'' (mark_field furnishing ''furnishing'' ''medium''
               (mark_field purpose ''listing_purpose'' ''medium'' (mark_field property_type ''property_type'' ''medium''
               (mark_field floor ''floor'' ''high'' (mark_field parking ''parking'' ''high'' (mark_field bathrooms ''bathrooms'' ''high''
               (mark_field bedrooms ''bedrooms'' ''high''
               (mark_field size ''area_size'' (if size = Some 0 then ''low'' else ''high'') []))))))))),
             es_source_snippets =
               snippet address ''address'' (snippet city ''city'' (snippet floor ''floor'' (snippet parking ''parking''
               (snippet bathrooms ''bathrooms'' (snippet bedrooms ''bedrooms''
               (snippet (map_option (\<lambda>ps. ((), concat ps)) area) ''area_size'' []))))))\<rparr>))"

text \<open>The JSON of the specifications: the keys that are set. Python writes a number that is not finite as it stands.\<close>

definition texts_json :: "(string \<times> string) list \<Rightarrow> json" where
  "texts_json m = JObj (map (\<lambda>(k, v). (k, JText v)) m)"

definition entry :: "string \<Rightarrow> ('a \<Rightarrow> json) \<Rightarrow> 'a option \<Rightarrow> (string \<times> json) list" where
  "entry key f x = (case x of None \<Rightarrow> [] | Some v \<Rightarrow> [(key, f v)])"

definition storable :: "ListingSpecs \<Rightarrow> bool" where
  "storable p \<longleftrightarrow> (case es_area_size p of Some (NotFinite w) \<Rightarrow> False | _ \<Rightarrow> True)"

definition decimal_json :: "decimal \<Rightarrow> json" where
  "decimal_json d = (case d of Finite x \<Rightarrow> JNum x | NotFinite w \<Rightarrow> JText w)"

definition specs_json :: "ListingSpecs \<Rightarrow> json" where
  "specs_json p = JObj
     (entry ''property_type'' JText (es_property_type p) @ entry ''listing_purpose'' JText (es_listing_purpose p) @
      entry ''bedrooms'' JInt (es_bedrooms p) @ entry ''bathrooms'' JInt (es_bathrooms p) @
      entry ''parking'' JInt (es_parking p) @ entry ''floor'' JInt (es_floor p) @
      entry ''area_size'' decimal_json (es_area_size p) @ entry ''area_unit'' JText (es_area_unit p) @
      entry ''furnishing'' JText (es_furnishing p) @ entry ''address'' JText (es_address p) @
      entry ''city'' JText (es_city p) @ entry ''location_text'' JText (es_location_text p) @
      [(''raw_text_excerpt'', JText (es_raw_text_excerpt p)), (''field_confidence'', texts_json (es_field_confidence p)),
       (''source_snippets'', texts_json (es_source_snippets p))])"

section \<open>Extraction with the language model\<close>

text \<open>\<open>oc_int\<close>: \<open>int(text)\<close>; \<open>oc_decimal\<close>: \<open>Decimal(text)\<close>; \<open>oc_loads\<close>: \<open>json.loads\<close>, or the text of its error.\<close>

record ocr_env =
  oc_services :: services
  oc_int :: "string \<Rightarrow> int option"
  oc_decimal :: "string \<Rightarrow> decimal option"
  oc_loads :: "string \<Rightarrow> string + json"
  oc_show :: "json \<Rightarrow> string"

definition json_text :: "(json \<Rightarrow> string) \<Rightarrow> json \<Rightarrow> string" where
  "json_text show j = (case j of JText s \<Rightarrow> s | _ \<Rightarrow> show j)"

text \<open>\<open>re.search(r"\{.*\}", content, re.DOTALL)\<close>.\<close>

definition braces :: "string \<Rightarrow> string option" where
  "braces s = map_option concat (search_parts False [Lit ''{'', Many 0 (Cls (\<lambda>c. True)), Lit ''}''] s)"

definition ocr_parse_json_object :: "(string \<Rightarrow> string + json) \<Rightarrow> string \<Rightarrow> json" where
  "ocr_parse_json_object loads content =
     (if py_strip content = [] then JObj []
      else (case loads content of
              Inr (JObj entries) \<Rightarrow> JObj entries
            | _ \<Rightarrow>
                (case braces content of
                   None \<Rightarrow> JObj []
                 | Some inner \<Rightarrow> (case loads inner of Inr (JObj entries) \<Rightarrow> JObj entries | _ \<Rightarrow> JObj []))))"

definition ocr_system_prompt :: string where
  "ocr_system_prompt =
     ''You normalize OCR text for a real-estate listing form. '' @
     ''Return compact JSON only. Use these keys: '' @
     ''property_type, listing_purpose, bedrooms, bathrooms, parking, floor, '' @
     ''area_size, area_unit, furnishing, address, city, location_text, '' @
     ''raw_text_excerpt, field_confidence, source_snippets. '' @
     ''Use null for unknown values. Choose controlled values: '' @
     ''property_type in apartment, villa, house, office, studio, shop; '' @
     ''listing_purpose in rent, sale; area_unit in sqm or sqft; '' @
     ''furnishing in furnished, unfurnished, semi-furnished. '' @
     ''Keep raw_text_excerpt short and exact. '' @
     ''Use source_snippets as short exact quotes from the OCR text when possible. '' @
     ''Do not add commentary.''"

text \<open>A key that is missing and one that is null count the same.\<close>

definition given_text :: "ocr_env \<Rightarrow> json \<Rightarrow> string \<Rightarrow> string option" where
  "given_text V parsed key =
     (case json_get parsed key of None \<Rightarrow> None | Some JNull \<Rightarrow> None | Some j \<Rightarrow> Some (json_text (oc_show V) j))"

definition prefer_text :: "ocr_env \<Rightarrow> json \<Rightarrow> string \<Rightarrow> string option \<Rightarrow> string option" where
  "prefer_text V parsed key old = (case given_text V parsed key of None \<Rightarrow> old | Some s \<Rightarrow> Some (py_strip s))"

definition prefer_with :: "(string \<Rightarrow> 'a option) \<Rightarrow> ocr_env \<Rightarrow> json \<Rightarrow> string \<Rightarrow> 'a option \<Rightarrow> 'a option" where
  "prefer_with f V parsed key old =
     (case given_text V parsed key of
        None \<Rightarrow> old
      | Some s \<Rightarrow> if s = [] then old else (case f s of None \<Rightarrow> old | Some x \<Rightarrow> Some x))"

definition prefer_unit :: "ocr_env \<Rightarrow> json \<Rightarrow> string option \<Rightarrow> string option" where
  "prefer_unit V parsed old =
     (case given_text V parsed ''area_unit'' of
        None \<Rightarrow> old
      | Some s \<Rightarrow>
          (let unit = without [CHR ''.'', CHR '' ''] (py_lower (py_strip s))
           in if unit \<in> set [''sqm'', ''m2'', ''m^2''] then Some ''sqm'' else if unit = ''sqft'' then Some ''sqft'' else old))"

definition merge_texts :: "ocr_env \<Rightarrow> json \<Rightarrow> string \<Rightarrow> (string \<times> string) list \<Rightarrow> (string \<times> string) list" where
  "merge_texts V parsed key m =
     (case json_get parsed key of
        Some (JObj entries) \<Rightarrow>
          foldl (\<lambda>m (k, v). if py_strip k = [] then m else AList.update k (json_text (oc_show V) v) m) m entries
      | _ \<Rightarrow> m)"

definition merge_specs :: "ocr_env \<Rightarrow> json \<Rightarrow> ListingSpecs \<Rightarrow> ListingSpecs" where
  "merge_specs V parsed h =
     \<lparr>es_property_type = prefer_text V parsed ''property_type'' (es_property_type h),
      es_listing_purpose = prefer_text V parsed ''listing_purpose'' (es_listing_purpose h),
      es_bedrooms = prefer_with (oc_int V) V parsed ''bedrooms'' (es_bedrooms h),
      es_bathrooms = prefer_with (oc_int V) V parsed ''bathrooms'' (es_bathrooms h),
      es_parking = prefer_with (oc_int V) V parsed ''parking'' (es_parking h),
      es_floor = prefer_with (oc_int V) V parsed ''floor'' (es_floor h),
      es_area_size = prefer_with (oc_decimal V) V parsed ''area_size'' (es_area_size h),
      es_area_unit = prefer_unit V parsed (es_area_unit h),
      es_furnishing = prefer_text V parsed ''furnishing'' (es_furnishing h),
      es_address = prefer_text V parsed ''address'' (es_address h),
      es_city = prefer_text V parsed ''city'' (es_city h),
      es_location_text = prefer_text V parsed ''location_text'' (es_location_text h),
      es_raw_text_excerpt =
        take 1500 (py_strip (case json_get parsed ''raw_text_excerpt'' of
          None \<Rightarrow> es_raw_text_excerpt h
        | Some j \<Rightarrow> if falsy j then es_raw_text_excerpt h else json_text (oc_show V) j)),
      es_field_confidence = merge_texts V parsed ''field_confidence'' (es_field_confidence h),
      es_source_snippets = merge_texts V parsed ''source_snippets'' (es_source_snippets h)\<rparr>"

definition ocr_messages :: "string \<Rightarrow> chat_message list" where
  "ocr_messages s =
     [\<lparr>cm_role = ''system'', cm_content = ocr_system_prompt\<rparr>,
      \<lparr>cm_role = ''user'', cm_content = ''Normalize this OCR text into the listing form schema:'' @ blank_line @ take 8000 s\<rparr>]"

definition extract_listing_specs_via_llm :: "ocr_env \<Rightarrow> string \<Rightarrow> ListingSpecs" where
  "extract_listing_specs_via_llm V s =
     (let heuristic = extract_listing_specs s
      in if py_strip s = [] then heuristic
         else (case sv_chat (oc_services V) (ocr_messages s) of
                 Inl e \<Rightarrow> heuristic
               | Inr reply \<Rightarrow> merge_specs V (ocr_parse_json_object (oc_loads V) (or_empty_text reply)) heuristic))"

end
