(* ===== verification/AgencyAIProps.thy ===== *)
theory AgencyAIProps
  imports AgencyAI GuardProps Demo
begin

text \<open>
  Jobs of the agency AI: an abstract state machine of jobs, the refinement of every operation to it
  and the life cycle that follows; drafts that settle their job and comparisons that do not; what
  the reader of specification sheets never finds.
\<close>

section \<open>The state machine of jobs\<close>

definition settled :: "AgencyAIJob \<Rightarrow> bool" where
  "settled j \<longleftrightarrow> jb_status j \<in> set [''completed'', ''failed'']"

inductive job_step :: "AgencyAIJob list \<Rightarrow> AgencyAIJob list \<Rightarrow> bool" where
  queued: "new_job ttl E job_type t a s = Inr j \<Longrightarrow> jb_id j \<notin> jb_id ` set js \<Longrightarrow> job_step js (js @ [j])"
| taken: "job_step js (update_row jb_id i (mark_processing now) js)"
| failed: "\<forall>j \<in> set js. jb_id j = i \<longrightarrow> jb_status j \<noteq> ''queued'' \<Longrightarrow>
     job_step js (update_row jb_id i (mark_failed now err) js)"
| completed: "\<forall>j \<in> set js. jb_id j = i \<longrightarrow> jb_status j \<noteq> ''queued'' \<Longrightarrow>
     job_step js (update_row jb_id i (mark_completed now payload) js)"

definition job_ok :: "AgencyAIJob \<Rightarrow> bool" where
  "job_ok j \<longleftrightarrow> jb_job_type j \<in> set VALID_JOB_TYPES \<and>
     jb_status j \<in> set [''queued'', ''processing'', ''completed'', ''failed''] \<and>
     (jb_started_at j = None \<longleftrightarrow> jb_status j = ''queued'') \<and> (jb_completed_at j \<noteq> None \<longleftrightarrow> settled j) \<and>
     (jb_status j = ''completed'' \<longrightarrow> jb_result_payload j \<noteq> None) \<and>
     (jb_status j = ''failed'' \<longrightarrow> (\<exists>e. jb_error_message j = Some e \<and> length e \<le> 1024))"

definition job_rank :: "AgencyAIJob \<Rightarrow> nat" where
  "job_rank j = (if jb_status j = ''queued'' then 0 else if jb_status j = ''processing'' then 1 else 2)"

definition same_job :: "AgencyAIJob \<Rightarrow> AgencyAIJob \<Rightarrow> bool" where
  "same_job j k \<longleftrightarrow> jb_id k = jb_id j \<and> jb_job_type k = jb_job_type j \<and> jb_tenant_id k = jb_tenant_id j \<and>
     jb_actor_user_id k = jb_actor_user_id j \<and> jb_source_reference_id k = jb_source_reference_id j \<and>
     jb_created_at k = jb_created_at j \<and> jb_expires_at k = jb_expires_at j \<and> job_rank j \<le> job_rank k"

definition jobs_ok :: "AgencyAIJob list \<Rightarrow> bool" where
  "jobs_ok js \<longleftrightarrow> unique_on jb_id js \<and> (\<forall>j \<in> set js. job_ok j)"

definition jobs_advance :: "AgencyAIJob list \<Rightarrow> AgencyAIJob list \<Rightarrow> bool" where
  "jobs_advance js ks \<longleftrightarrow> (\<exists>ms ns. ks = ms @ ns \<and> list_all2 same_job js ms)"

lemma jobs_advanceI: "list_all2 same_job js ms \<Longrightarrow> jobs_advance js (ms @ ns)"
  by (auto simp: jobs_advance_def)

lemma marks_same [simp]:
  "same_job j (mark_processing now j)" "same_job j (mark_failed now err j)" "same_job j (mark_completed now payload j)"
  by (auto simp: same_job_def job_rank_def mark_processing_def mark_failed_def mark_completed_def)

lemma marks_ok:
  "job_ok j \<Longrightarrow> job_ok (mark_processing now j)"
  "job_ok j \<Longrightarrow> jb_status j \<noteq> ''queued'' \<Longrightarrow> job_ok (mark_failed now err j)"
  "job_ok j \<Longrightarrow> jb_status j \<noteq> ''queued'' \<Longrightarrow> job_ok (mark_completed now payload j)"
  by (auto simp: job_ok_def settled_def mark_processing_def mark_failed_def mark_completed_def)

lemma same_job_refl [simp]: "same_job j j"
  by (simp add: same_job_def)

lemma same_job_trans: "same_job i j \<Longrightarrow> same_job j k \<Longrightarrow> same_job i k"
  by (auto simp: same_job_def)

lemma same_ids: "list_all2 same_job js ms \<Longrightarrow> map jb_id ms = map jb_id js"
  by (induction rule: list_all2_induct) (auto simp: same_job_def)

lemma update_same: "(\<And>j. same_job j (f j)) \<Longrightarrow> list_all2 same_job js (update_row jb_id i f js)"
  by (simp add: update_row_def list_all2_map2 list_all2_same)

lemma new_job_ok: "new_job ttl E job_type t a s = Inr j \<Longrightarrow> job_ok j \<and> jb_id j = fresh E 0 \<and> jb_status j = ''queued''"
  by (auto simp: new_job_def job_ok_def settled_def split: if_splits)

lemma jobs_advance_update:
  assumes "jobs_ok js" and "\<And>j. same_job j (f j)" and "\<And>j. j \<in> set js \<Longrightarrow> jb_id j = i \<Longrightarrow> job_ok (f j)"
  shows "jobs_ok (update_row jb_id i f js) \<and> jobs_advance js (update_row jb_id i f js)"
proof -
  have all: "list_all2 same_job js (update_row jb_id i f js)" by (rule update_same [OF assms(2)])
  have "map jb_id (update_row jb_id i f js) = map jb_id js" by (rule same_ids [OF all])
  then have "unique_on jb_id (update_row jb_id i f js)" using assms(1) by (simp add: jobs_ok_def unique_on_def)
  with assms all show ?thesis by (auto simp: jobs_ok_def update_row_def jobs_advance_def)
qed

lemma job_step_ok: "job_step js ks \<Longrightarrow> jobs_ok js \<Longrightarrow> jobs_ok ks \<and> jobs_advance js ks"
proof (induction rule: job_step.induct)
  case (queued ttl E job_type t a s j js)
  have "list_all2 same_job js js" by (simp add: list_all2_same)
  with queued new_job_ok [OF queued(1)] show ?case by (auto simp: jobs_ok_def unique_on_def jobs_advance_def)
next
  case (taken js i now)
  then show ?case by (intro jobs_advance_update) (auto simp: jobs_ok_def marks_ok)
next
  case (failed js i now err)
  then show ?case by (intro jobs_advance_update) (auto simp: jobs_ok_def marks_ok)
next
  case (completed js i now payload)
  then show ?case by (intro jobs_advance_update) (auto simp: jobs_ok_def marks_ok)
qed

lemma jobs_advance_refl: "jobs_advance js js"
  using jobs_advanceI [of js js "[]"] by (simp add: list_all2_same)

lemma jobs_advance_trans:
  assumes "jobs_advance js ks" and "jobs_advance ks ls"
  shows "jobs_advance js ls"
proof -
  obtain ms ns ms' ns' where "ks = ms @ ns" "list_all2 same_job js ms" "ls = ms' @ ns'" "list_all2 same_job (ms @ ns) ms'"
    using assms by (auto simp: jobs_advance_def)
  moreover from this(4) obtain u v where "ms' = u @ v" "list_all2 same_job ms u" by (auto simp: list_all2_append1)
  ultimately have "list_all2 same_job js u" "ls = u @ (v @ ns')"
    using list_all2_trans [of same_job same_job same_job js ms u] same_job_trans by auto
  then show ?thesis using jobs_advanceI by blast
qed

lemma job_steps_ok: "job_step\<^sup>*\<^sup>* js ks \<Longrightarrow> jobs_ok js \<Longrightarrow> jobs_ok ks \<and> jobs_advance js ks"
  by (induction rule: rtranclp_induct) (auto intro: jobs_advance_refl jobs_advance_trans dest: job_step_ok)

section \<open>The operations refine it\<close>

lemma audit_event_jobs [simp]: "snd (audit_event E u t a r m w) = snd w"
  by (simp add: audit_event_def)

lemma marked_jobs [simp]:
  "ai_jobs (snd (fail_job E i err w)) = update_row jb_id i (mark_failed (now_at E) err) (ai_jobs (snd w))"
  "ai_jobs (snd (complete_job E i p w)) = update_row jb_id i (mark_completed (now_at E) p) (ai_jobs (snd w))"
  by (simp_all add: fail_job_def complete_job_def update_job_def)

lemma created_rows [simp]:
  "ai_jobs (create_lead_reply_draft d A) = ai_jobs A" "ai_jobs (create_comparison_summary s A) = ai_jobs A"
  by (simp_all add: create_lead_reply_draft_def create_comparison_summary_def)

text \<open>The rows of the job \<open>i\<close> are not queued, and the operation marks that job at most once.\<close>

definition marks_job :: "uuid \<Rightarrow> AgencyAIJob list \<Rightarrow> AgencyAIJob list \<Rightarrow> bool" where
  "marks_job i js ks \<longleftrightarrow> ks = js \<or> (\<exists>now err. ks = update_row jb_id i (mark_failed now err) js) \<or>
     (\<exists>now p. ks = update_row jb_id i (mark_completed now p) js)"

lemma marks_job_intros [intro]:
  "marks_job i js js" "marks_job i js (update_row jb_id i (mark_failed now err) js)"
  "marks_job i js (update_row jb_id i (mark_completed now p) js)"
  by (auto simp: marks_job_def)

lemma marks_job_step:
  "marks_job i js ks \<Longrightarrow> \<forall>j \<in> set js. jb_id j = i \<longrightarrow> jb_status j \<noteq> ''queued'' \<Longrightarrow> job_step\<^sup>*\<^sup>* js ks"
  by (auto simp: marks_job_def intro: job_step.intros)

lemma finish_listing_draft_marks:
  "marks_job i (ai_jobs (snd w)) (ai_jobs (snd (snd (finish_listing_draft S E ctx l i g w))))"
  by (auto simp: finish_listing_draft_def Let_def split: sum.splits)

lemma finish_lead_reply_marks:
  "marks_job i (ai_jobs (snd w)) (ai_jobs (snd (snd (finish_lead_reply S E ctx l c i g w))))"
  by (auto simp: finish_lead_reply_def Let_def split: sum.splits)

lemma finish_comparison_marks:
  "marks_job i (ai_jobs (snd w)) (ai_jobs (snd (snd (finish_comparison S E u ls i g w))))"
  by (auto simp: finish_comparison_def Let_def split: sum.splits)

lemma start_job_jobs:
  assumes "new_job ttl E ty t a s = Inr j" and "jb_id j \<notin> jb_id ` set (ai_jobs (snd w))"
  shows "ai_jobs (snd (start_job E j w)) = ai_jobs (snd w) @ [mark_processing (now_at E) j]"
proof -
  have "map (\<lambda>r. if jb_id r = jb_id j then mark_processing (now_at E) r else r) (ai_jobs (snd w)) = ai_jobs (snd w)"
    using assms(2) by (intro map_idI) (auto simp: image_iff)
  then show ?thesis by (simp add: start_job_def create_job_def update_job_def update_row_def)
qed

lemma start_job_steps:
  assumes new: "new_job ttl E ty t a s = Inr j" and fresh: "jb_id j \<notin> jb_id ` set (ai_jobs (snd w))"
    and marks: "marks_job (jb_id j) (ai_jobs (snd (start_job E j w))) ks"
  shows "job_step\<^sup>*\<^sup>* (ai_jobs (snd w)) ks"
proof -
  have "job_step (ai_jobs (snd w)) (ai_jobs (snd w) @ [j])" using new fresh by (rule queued)
  moreover have "job_step (ai_jobs (snd w) @ [j]) (ai_jobs (snd (start_job E j w)))"
    by (simp add: start_job_def create_job_def update_job_def taken)
  moreover have "job_step\<^sup>*\<^sup>* (ai_jobs (snd (start_job E j w))) ks"
    using fresh new_job_ok [OF new]
    by (intro marks_job_step [OF marks]) (auto simp: start_job_jobs [OF new fresh] mark_processing_def image_iff)
  ultimately show ?thesis by (meson converse_rtranclp_into_rtranclp)
qed

lemma new_job_fresh: "new_job ttl E ty t a s = Inr j \<Longrightarrow> jb_id j = fresh E 0"
  by (simp add: new_job_ok)

lemma generation_status: "gn_status (fst (generate_guardrailed_agency_text G V a b c)) \<noteq> ''generated''"
  by (auto simp: generate_guardrailed_agency_text_def agency_from_chat_def no_text_def passed_def Let_def
      split: option.split sum.split prod.split)

lemma queue_listing_draft_cases:
  obtains (refused) e where "queue_listing_draft S E tenant c x l w = (Inl e, w)"
  | (ran) ctx j g r w2 where "draft_context tenant l (fst w) = Inr ctx"
      "new_job (as_job_ttl S) E ''listing_draft'' (tc_tenant_id ctx) (tc_actor_id ctx) l = Inr j"
      "finish_listing_draft S E ctx l (jb_id j) g (start_job E j w) = (r, w2)" "gn_status g \<noteq> ''generated''"
      "queue_listing_draft S E tenant c x l w = (Inr r, w2)"
proof (cases "draft_context tenant l (fst w)")
  case (Inl e)
  then show ?thesis using refused by (simp add: queue_listing_draft_def)
next
  case (Inr ctx)
  show ?thesis
  proof (cases "new_job (as_job_ttl S) E ''listing_draft'' (tc_tenant_id ctx) (tc_actor_id ctx) l")
    case (Inl e)
    then show ?thesis using refused Inr by (simp add: queue_listing_draft_def)
  next
    case j: (Inr j)
    obtain g calls where g: "generate_guardrailed_agency_text (as_guards S) (as_services S) listing_draft_system_prompt
        (draft_prompt S c x) [] = (g, calls)" by fastforce
    obtain r w2 where r: "finish_listing_draft S E ctx l (jb_id j) g (start_job E j w) = (r, w2)" by (metis surj_pair)
    have "gn_status g \<noteq> ''generated''" using generation_status g by (metis fst_conv)
    then show ?thesis by (rule ran [OF Inr j r]) (use Inr j g r in \<open>simp add: queue_listing_draft_def\<close>)
  qed
qed

lemma queue_lead_reply_draft_cases:
  obtains (refused) e where "queue_lead_reply_draft S E tenant d c w = (Inl e, w)"
  | (ran) ctx j g r w2 lead where "own_lead_for_reply tenant d (fst w) = Inr (ctx, lead)"
      "new_job (as_job_ttl S) E ''lead_reply_draft'' (tc_tenant_id ctx) (tc_actor_id ctx) (Some d) = Inr j"
      "finish_lead_reply S E ctx d c (jb_id j) g (start_job E j w) = (r, w2)" "gn_status g \<noteq> ''generated''"
      "queue_lead_reply_draft S E tenant d c w = (Inr r, w2)"
proof (cases "own_lead_for_reply tenant d (fst w)")
  case (Inl e)
  then show ?thesis using refused by (simp add: queue_lead_reply_draft_def)
next
  case (Inr p)
  obtain ctx lead where p: "p = (ctx, lead)" by (cases p)
  show ?thesis
  proof (cases "new_job (as_job_ttl S) E ''lead_reply_draft'' (tc_tenant_id ctx) (tc_actor_id ctx) (Some d)")
    case (Inl e)
    then show ?thesis using refused Inr p by (simp add: queue_lead_reply_draft_def)
  next
    case j: (Inr j)
    obtain g calls where g: "generate_guardrailed_agency_text (as_guards S) (as_services S) lead_reply_system_prompt
        (lead_reply_prompt (as_dumps S) c (lead_snapshot (as_isoformat S) lead)
          (map_option public_listing_snapshot (get_listing_by_id (ld_listing_id lead) (fst w)))) [] = (g, calls)"
      by fastforce
    obtain r w2 where r: "finish_lead_reply S E ctx d c (jb_id j) g (start_job E j w) = (r, w2)" by (metis surj_pair)
    have "gn_status g \<noteq> ''generated''" using generation_status g by (metis fst_conv)
    then show ?thesis by (intro ran [OF _ j r]) (use Inr p j g r in \<open>simp_all add: queue_lead_reply_draft_def\<close>)
  qed
qed

lemma queue_comparison_summary_cases:
  obtains (refused) e where "available_listings is (fst w) = Inl e" "queue_comparison_summary S E u is w = (Inl e, w)"
  | (ran) ls j g calls where "available_listings is (fst w) = Inr ls"
      "generate_guardrailed_agency_text (as_guards S) (as_services S) (comparison_system_prompt (as_dash S))
         (comparison_prompt (as_dash S) ls) [] = (g, calls)"
      "new_job (as_job_ttl S) E ''comparison_summary'' None (Some u) None = Inr j"
      "queue_comparison_summary S E u is w = finish_comparison S E u is (jb_id j) g (start_job E j w)"
proof (cases "available_listings is (fst w)")
  case (Inl e)
  then show ?thesis using refused by (simp add: queue_comparison_summary_def)
next
  case (Inr ls)
  show ?thesis
  proof (cases "new_job (as_job_ttl S) E ''comparison_summary'' None (Some u) None")
    case (Inl e)
    then show ?thesis by (simp add: new_job_def VALID_JOB_TYPES_def)
  next
    case j: (Inr j)
    obtain g calls where g: "generate_guardrailed_agency_text (as_guards S) (as_services S) (comparison_system_prompt (as_dash S))
         (comparison_prompt (as_dash S) ls) [] = (g, calls)" by fastforce
    show ?thesis by (rule ran [OF Inr g j]) (use Inr j g in \<open>simp add: queue_comparison_summary_def\<close>)
  qed
qed

lemma queue_listing_draft_steps:
  assumes "fresh E 0 \<notin> jb_id ` set (ai_jobs (snd w))"
  shows "job_step\<^sup>*\<^sup>* (ai_jobs (snd w)) (ai_jobs (snd (snd (queue_listing_draft S E tenant c x l w))))"
proof (cases rule: queue_listing_draft_cases [of S E tenant c x l w])
  case (ran ctx j g r w2)
  from ran(3) finish_listing_draft_marks [of "jb_id j" "start_job E j w" S E ctx l g] ran(2, 5) assms show ?thesis
    by (auto simp: new_job_fresh intro: start_job_steps)
qed simp

lemma queue_lead_reply_draft_steps:
  assumes "fresh E 0 \<notin> jb_id ` set (ai_jobs (snd w))"
  shows "job_step\<^sup>*\<^sup>* (ai_jobs (snd w)) (ai_jobs (snd (snd (queue_lead_reply_draft S E tenant d c w))))"
proof (cases rule: queue_lead_reply_draft_cases [of S E tenant d c w])
  case (ran ctx j g r w2 lead)
  from ran(3) finish_lead_reply_marks [of "jb_id j" "start_job E j w" S E ctx d c g] ran(2, 5) assms show ?thesis
    by (auto simp: new_job_fresh intro: start_job_steps)
qed simp

lemma queue_comparison_summary_steps:
  assumes "fresh E 0 \<notin> jb_id ` set (ai_jobs (snd w))"
  shows "job_step\<^sup>*\<^sup>* (ai_jobs (snd w)) (ai_jobs (snd (snd (queue_comparison_summary S E u is w))))"
proof (cases rule: queue_comparison_summary_cases [of "is" w S E u])
  case (ran ls j g calls)
  with finish_comparison_marks [of "jb_id j" "start_job E j w" S E u "is" g] assms show ?thesis
    by (auto simp: new_job_fresh intro: start_job_steps)
qed simp

lemma queue_spec_extraction_steps:
  assumes "fresh E 0 \<notin> jb_id ` set (ai_jobs (snd (fst w)))"
  shows "job_step\<^sup>*\<^sup>* (ai_jobs (snd (fst w))) (ai_jobs (snd (fst (snd (queue_spec_extraction S E tenant f n c w)))))"
proof -
  let ?A = "snd (fst w)" and ?B = "snd (fst (snd (queue_spec_extraction S E tenant f n c w)))"
  have "?B = ?A \<or> (\<exists>t a j. new_job (as_job_ttl S) E ''ocr_extraction'' t a None = Inr j \<and> ?B = create_job j ?A)"
    by (auto simp: queue_spec_extraction_def sbind_def Let_def split: sum.splits prod.splits if_splits)
  then show ?thesis
  proof
    assume "\<exists>t a j. new_job (as_job_ttl S) E ''ocr_extraction'' t a None = Inr j \<and> ?B = create_job j ?A"
    then obtain t a j where "new_job (as_job_ttl S) E ''ocr_extraction'' t a None = Inr j" "?B = create_job j ?A" by blast
    then have "job_step (ai_jobs ?A) (ai_jobs ?A @ [j])" using assms by (intro queued) (simp_all add: new_job_fresh)
    with \<open>?B = create_job j ?A\<close> show ?thesis by (simp add: create_job_def r_into_rtranclp)
  qed simp
qed

lemma run_spec_extraction_marks:
  assumes "get_ai_job i None (snd w) = Some j" and "jb_job_type j = ''ocr_extraction''"
  shows "marks_job i (update_row jb_id i (mark_processing (now_at E)) (ai_jobs (snd w)))
    (ai_jobs (snd (snd (run_spec_extraction S E i f c w))))"
proof (cases "as_read S f (or_octets c)")
  case (Inl e)
  with assms show ?thesis by (simp add: run_spec_extraction_def update_job_def Let_def marks_job_intros)
next
  case (Inr s)
  show ?thesis
  proof (cases "py_strip s = []")
    case True
    with assms Inr show ?thesis by (simp add: run_spec_extraction_def update_job_def Let_def marks_job_intros)
  next
    case False
    with assms Inr show ?thesis
      by (cases "storable (extract_listing_specs_via_llm (as_ocr S) s)")
        (simp_all add: run_spec_extraction_def update_job_def Let_def marks_job_intros)
  qed
qed

lemma taken_not_queued:
  "\<forall>k \<in> set (update_row jb_id i (mark_processing now) js). jb_id k = i \<longrightarrow> jb_status k \<noteq> ''queued''"
proof -
  have "jb_id r = i \<Longrightarrow> jb_status (mark_processing now r) \<noteq> ''queued''" for r
    by (simp add: mark_processing_def)
  then show ?thesis by (auto simp: update_row_def)
qed

lemma run_spec_extraction_steps:
  "job_step\<^sup>*\<^sup>* (ai_jobs (snd w)) (ai_jobs (snd (snd (run_spec_extraction S E i f c w))))"
proof (cases "\<exists>j. get_ai_job i None (snd w) = Some j \<and> jb_job_type j = ''ocr_extraction''")
  case True
  then obtain j where "get_ai_job i None (snd w) = Some j" "jb_job_type j = ''ocr_extraction''" by blast
  note marks = run_spec_extraction_marks [OF this, of E S f c]
  have "job_step\<^sup>*\<^sup>* (update_row jb_id i (mark_processing (now_at E)) (ai_jobs (snd w)))
      (ai_jobs (snd (snd (run_spec_extraction S E i f c w))))"
    by (rule marks_job_step [OF marks taken_not_queued])
  then show ?thesis using taken by (blast intro: converse_rtranclp_into_rtranclp)
next
  case False
  then have "run_spec_extraction S E i f c w = (Inr (), w)"
    by (auto simp: run_spec_extraction_def split: option.split)
  then show ?thesis by simp
qed

section \<open>The life cycle\<close>

datatype ai_op =
    Draft "TenantContext option" json "json option" "uuid option"
  | Reply "TenantContext option" uuid string
  | Compare uuid "uuid list"
  | QueueSheet "TenantContext option" string string "string option"
  | Work bool json

type_synonym ai_state = "ai_world \<times> objects"

definition ai_step :: "ai_env \<Rightarrow> ctx_env \<Rightarrow> ai_op \<Rightarrow> ai_state \<Rightarrow> ai_state" where
  "ai_step S E a w =
     (case a of
        Draft tenant c x l \<Rightarrow> (snd (queue_listing_draft S E tenant c x l (fst w)), snd w)
      | Reply tenant d c \<Rightarrow> (snd (queue_lead_reply_draft S E tenant d c (fst w)), snd w)
      | Compare u is \<Rightarrow> (snd (queue_comparison_summary S E u is (fst w)), snd w)
      | QueueSheet tenant f n c \<Rightarrow> snd (queue_spec_extraction S E tenant f n c w)
      | Work get_ok payload \<Rightarrow> snd (handle_agency_ai_spec_sheet_uploaded S get_ok E payload w))"

inductive ai_reach :: "ai_state \<Rightarrow> ai_state \<Rightarrow> bool" for w where
  start: "ai_reach w w"
| step: "ai_reach w v \<Longrightarrow> fresh E 0 \<notin> jb_id ` set (ai_jobs (snd (fst v))) \<Longrightarrow> ai_reach w (ai_step S E a v)"

lemma work_steps:
  "job_step\<^sup>*\<^sup>* (ai_jobs (snd (fst w))) (ai_jobs (snd (fst (snd (handle_agency_ai_spec_sheet_uploaded S ok E p w)))))"
proof -
  have "fst (snd (handle_agency_ai_spec_sheet_uploaded S ok E p w)) = fst w \<or>
      (\<exists>i f c. fst (snd (handle_agency_ai_spec_sheet_uploaded S ok E p w)) = snd (run_spec_extraction S E i f c (fst w)))"
    by (auto simp: handle_agency_ai_spec_sheet_uploaded_def Let_def split: sum.splits prod.splits) (metis snd_conv)+
  then show ?thesis
  proof
    assume "\<exists>i f c. fst (snd (handle_agency_ai_spec_sheet_uploaded S ok E p w)) = snd (run_spec_extraction S E i f c (fst w))"
    then obtain i f c where "fst (snd (handle_agency_ai_spec_sheet_uploaded S ok E p w)) = snd (run_spec_extraction S E i f c (fst w))"
      by blast
    then show ?thesis using run_spec_extraction_steps [of "fst w" S E i f c] by simp
  qed simp
qed

lemma ai_step_steps:
  "fresh E 0 \<notin> jb_id ` set (ai_jobs (snd (fst w))) \<Longrightarrow>
     job_step\<^sup>*\<^sup>* (ai_jobs (snd (fst w))) (ai_jobs (snd (fst (ai_step S E a w))))"
  by (cases a) (simp_all add: ai_step_def queue_listing_draft_steps queue_lead_reply_draft_steps
      queue_comparison_summary_steps queue_spec_extraction_steps work_steps)

text \<open>
  C9. Every agency AI operation, the worker's included, is a sequence of steps of the job machine;
  so in any interleaving the jobs stay well formed: settled jobs carry a result or an error and the
  times of their states, and no job disappears, changes hands or goes back to an earlier state.
\<close>

theorem ai_jobs_lifecycle:
  assumes "ai_reach w v" and "jobs_ok (ai_jobs (snd (fst w)))"
  shows "job_step\<^sup>*\<^sup>* (ai_jobs (snd (fst w))) (ai_jobs (snd (fst v))) \<and> jobs_ok (ai_jobs (snd (fst v))) \<and>
    jobs_advance (ai_jobs (snd (fst w))) (ai_jobs (snd (fst v)))"
proof -
  from assms(1) have "job_step\<^sup>*\<^sup>* (ai_jobs (snd (fst w))) (ai_jobs (snd (fst v)))"
    by induction (auto dest: ai_step_steps intro: rtranclp_trans)
  then show ?thesis using assms(2) by (simp add: job_steps_ok)
qed

section \<open>Drafts settle their job\<close>

definition settled_as :: "uuid \<Rightarrow> string \<Rightarrow> AgencyAIJob list \<Rightarrow> AgencyAIJob list \<Rightarrow> bool" where
  "settled_as i status js ks \<longleftrightarrow>
     (\<exists>j. ks = js @ [j] \<and> jb_id j = i \<and> settled j \<and> (status = ''generated'' \<longleftrightarrow> jb_status j = ''completed''))"

lemma update_last:
  assumes "jb_id j \<notin> jb_id ` set js" and "jb_id k = jb_id j"
  shows "update_row jb_id (jb_id j) f (js @ [k]) = js @ [f k]"
proof -
  have "map (\<lambda>r. if jb_id r = jb_id j then f r else r) js = js" using assms(1) by (intro map_idI) (auto simp: image_iff)
  with assms(2) show ?thesis by (simp add: update_row_def)
qed

lemma settled_marks [simp]:
  "settled (mark_failed now e j)" "settled (mark_completed now p j)"
  "jb_id (mark_failed now e j) = jb_id j" "jb_id (mark_completed now p j) = jb_id j" "jb_id (mark_processing now j) = jb_id j"
  "jb_status (mark_failed now e j) = ''failed''" "jb_status (mark_completed now p j) = ''completed''"
  by (simp_all add: settled_def mark_failed_def mark_completed_def mark_processing_def)

lemma marked_settled:
  assumes "new_job ttl E ty t a s = Inr j" and "jb_id j \<notin> jb_id ` set (ai_jobs (snd w))"
  shows "status \<noteq> ''generated'' \<Longrightarrow>
      settled_as (jb_id j) status (ai_jobs (snd w)) (update_row jb_id (jb_id j) (mark_failed now e) (ai_jobs (snd (start_job E j w))))"
    and "settled_as (jb_id j) ''generated'' (ai_jobs (snd w))
      (update_row jb_id (jb_id j) (mark_completed now p) (ai_jobs (snd (start_job E j w))))"
  unfolding start_job_jobs [OF assms] by (simp_all add: update_last [OF assms(2)] settled_as_def)

lemma refused_status [simp]:
  "dr_status (draft_refused i s r) = s" "dr_job_id (draft_refused i s r) = i"
  "re_status (reply_refused i c s r) = s" "re_job_id (reply_refused i c s r) = i"
  by (simp_all add: draft_refused_def reply_refused_def)

lemma listing_draft_settles:
  assumes "fresh E 0 \<notin> jb_id ` set (ai_jobs (snd w))" and "queue_listing_draft S E tenant c x l w = (Inr r, w2)"
  shows "settled_as (dr_job_id r) (dr_status r) (ai_jobs (snd w)) (ai_jobs (snd w2))"
proof (cases rule: queue_listing_draft_cases [of S E tenant c x l w])
  case (ran ctx j g r' w2')
  have fresh: "jb_id j \<notin> jb_id ` set (ai_jobs (snd w))" using assms(1) new_job_fresh [OF ran(2)] by simp
  from ran(3-5) assms(2) show ?thesis
    by (auto simp: finish_listing_draft_def Let_def status_or_failed_def intro!: marked_settled [OF ran(2) fresh]
        split: if_splits sum.splits)
qed (use assms in simp)

lemma lead_reply_settles:
  assumes "fresh E 0 \<notin> jb_id ` set (ai_jobs (snd w))" and "queue_lead_reply_draft S E tenant d c w = (Inr r, w2)"
  shows "settled_as (re_job_id r) (re_status r) (ai_jobs (snd w)) (ai_jobs (snd w2))"
proof (cases rule: queue_lead_reply_draft_cases [of S E tenant d c w])
  case (ran ctx j g r' w2' lead)
  have fresh: "jb_id j \<notin> jb_id ` set (ai_jobs (snd w))" using assms(1) new_job_fresh [OF ran(2)] by simp
  from ran(3-5) assms(2) show ?thesis
    by (auto simp: finish_lead_reply_def Let_def status_or_failed_def intro!: marked_settled [OF ran(2) fresh]
        split: if_splits sum.splits)
qed (use assms in simp)

text \<open>
  C20. A listing draft and a lead reply that are answered at all, whatever the model and the safety
  judge do, leave their job settled: it is the one new job, completed if the answer is a generated
  text and failed otherwise.
\<close>

theorem drafts_settle_their_job:
  assumes "fresh E 0 \<notin> jb_id ` set (ai_jobs (snd w))"
  shows "(\<forall>r w2. queue_listing_draft S E tenant c x l w = (Inr r, w2) \<longrightarrow>
       settled_as (dr_job_id r) (dr_status r) (ai_jobs (snd w)) (ai_jobs (snd w2))) \<and>
     (\<forall>r w2. queue_lead_reply_draft S E tenant d channel w = (Inr r, w2) \<longrightarrow>
       settled_as (re_job_id r) (re_status r) (ai_jobs (snd w)) (ai_jobs (snd w2)))"
  using listing_draft_settles [OF assms] lead_reply_settles [OF assms] by blast

section \<open>Jobs that are never settled\<close>

text \<open>
  A comparison whose generated answer has a number or a truth value where a list of notes is
  expected fails with an exception after its job was committed as processing: the job is left in
  processing without a result or an error, and no summary is stored.
\<close>

theorem comparison_job_stuck:
  assumes "available_listings is (fst w) = Inr ls"
    and "generate_guardrailed_agency_text (as_guards S) (as_services S) (comparison_system_prompt (as_dash S))
         (comparison_prompt (as_dash S) ls) [] = (g, calls)"
    and "\<not> is_blocked g" and "as_parse S (gn_answer_text g) = Inr payload" and "str_field S payload ''summary'' \<noteq> []"
    and "items_of (json_get payload ''key_differences'') = Inl e"
    and "fresh E 0 \<notin> jb_id ` set (ai_jobs (snd w))"
  shows "\<exists>j w2. queue_comparison_summary S E u is w = (Inl e, w2) \<and> ai_jobs (snd w2) = ai_jobs (snd w) @ [j] \<and>
     jb_status j = ''processing'' \<and> jb_completed_at j = None \<and> jb_error_message j = None \<and>
     comparison_summaries (snd w2) = comparison_summaries (snd w)"
proof (cases rule: queue_comparison_summary_cases [of "is" w S E u])
  case (refused e')
  then show ?thesis using assms(1) by simp
next
  case (ran ls' j g' calls')
  have fresh: "jb_id j \<notin> jb_id ` set (ai_jobs (snd w))" using assms(7) new_job_fresh [OF ran(3)] by simp
  from ran(1, 2) assms(1, 2) have "g' = g" by simp
  with ran(4) assms have "queue_comparison_summary S E u is w = (Inl e, start_job E j w)"
    by (simp add: finish_comparison_def Let_def notes_of_def sbind_def)
  moreover have "mark_processing (now_at E) j = j\<lparr>jb_status := ''processing'', jb_started_at := Some (now_at E)\<rparr>"
    using new_job_ok [OF ran(3)] by (simp add: mark_processing_def)
  moreover have "jb_completed_at j = None" "jb_error_message j = None" using ran(3) by (auto simp: new_job_def VALID_JOB_TYPES_def)
  moreover have "comparison_summaries (snd (start_job E j w)) = comparison_summaries (snd w)"
    by (simp add: start_job_def update_job_def create_job_def)
  ultimately show ?thesis using start_job_jobs [OF ran(3) fresh] by simp
qed

text \<open>
  A specification sheet for which the model answers an area that is no finite number is never
  settled: the worker raises when the result is stored, and the job stays in processing, whatever
  state the sheet and the other fields are in.
\<close>

theorem unstorable_area_leaves_job_processing:
  assumes "get_ai_job i None (snd w) = Some j" and "jb_job_type j = ''ocr_extraction''" and "jb_status j = ''queued''"
    and "as_read S f (or_octets c) = Inr s" and "py_strip s \<noteq> []"
    and "sv_chat (as_services S) (ocr_messages s) = Inr (Some reply)"
    and "json_get (ocr_parse_json_object (oc_loads (as_ocr S)) reply) ''area_size'' = Some (JText v)"
    and "v \<noteq> []" and "oc_decimal (as_ocr S) v = Some (NotFinite nan)"
  shows "\<exists>e w2. run_spec_extraction S E i f c w = (Inl e, w2) \<and>
     map_option jb_status (get_ai_job i None (snd w2)) = Some ''processing''"
proof -
  let ?h = "extract_listing_specs s" and ?p = "ocr_parse_json_object (oc_loads (as_ocr S)) reply"
  have "extract_listing_specs_via_llm (as_ocr S) s = merge_specs (as_ocr S) ?p ?h"
    using assms(5, 6) by (simp add: extract_listing_specs_via_llm_def as_services_def Let_def or_empty_text_def)
  moreover have "given_text (as_ocr S) ?p ''area_size'' = Some v" using assms(7) by (simp add: given_text_def json_text_def)
  then have "es_area_size (merge_specs (as_ocr S) ?p ?h) = Some (NotFinite nan)"
    using assms(8, 9) by (simp add: merge_specs_def prefer_with_def)
  ultimately have "\<not> storable (extract_listing_specs_via_llm (as_ocr S) s)" by (simp add: storable_def)
  with assms have "run_spec_extraction S E i f c w =
      (Inl ''invalid input syntax for type json'', fst w, update_job i (mark_processing (now_at E)) (snd w))"
    by (simp add: run_spec_extraction_def Let_def)
  moreover have "get_ai_job i None (update_job i (mark_processing now) A) = map_option (mark_processing now) (get_ai_job i None A)"
    for now A
  proof -
    have "find (\<lambda>k. jb_id k = i) (map (\<lambda>r. if jb_id r = i then mark_processing now r else r) js) =
        map_option (mark_processing now) (find (\<lambda>k. jb_id k = i) js)" for js by (induction js) auto
    then show ?thesis by (simp add: get_ai_job_def update_job_def update_row_def)
  qed
  ultimately show ?thesis using assms(1, 3) by (simp add: mark_processing_def)
qed

section \<open>What the heuristics never find\<close>

lemma found_within: "re_search False (Lit (u @ w @ v)) s \<Longrightarrow> re_search False (Lit w) s"
  unfolding re_search_literal by (auto simp: same_text_def) (metis append.assoc)

text \<open>
  The heuristic reading of a specification sheet knows one kind of furnishing: every text that
  mentions furnished, unfurnished, not furnished, semi or partially furnished reads as furnished.
\<close>

theorem unfurnished_reads_as_furnished:
  "es_furnishing (extract_listing_specs s) =
     (if s \<noteq> [] \<and> re_search False (Lit ''furnished'') (py_lower (normalize_text s)) then Some ''furnished'' else None)"
proof -
  let ?l = "py_lower (normalize_text s)"
  have "re_search False (Lit w) ?l \<Longrightarrow> re_search False (Lit ''furnished'') ?l"
    if "w \<in> set [''unfurnished'', ''not furnished'', ''semi furnished'', ''semi-furnished'', ''partially furnished'']" for w
    using that found_within [of "''un''" "''furnished''" "[]" ?l] found_within [of "''not ''" "''furnished''" "[]" ?l]
      found_within [of "''semi ''" "''furnished''" "[]" ?l] found_within [of "''semi-''" "''furnished''" "[]" ?l]
      found_within [of "''partially ''" "''furnished''" "[]" ?l] by auto
  then have "first_hint FURNISHING_HINTS (normalize_text s) =
      (if re_search False (Lit ''furnished'') ?l then Some ''furnished'' else None)"
    by (auto simp: first_hint_def FURNISHING_HINTS_def contains_any_def)
  then show ?thesis by (simp add: extract_listing_specs_def no_specs_def Let_def)
qed

section \<open>Prompts that no pattern matches\<close>

fun begins :: "string \<Rightarrow> string \<Rightarrow> bool" where
  "begins [] s = True"
| "begins (c # cs) [] = False"
| "begins (c # cs) (d # ds) = (c = d \<and> begins cs ds)"

fun found :: "string \<Rightarrow> string \<Rightarrow> bool" where
  "found k [] = (k = [])"
| "found k (c # cs) = (begins k (c # cs) \<or> found k cs)"

lemma begins_iff: "begins k s \<longleftrightarrow> (\<exists>b. s = k @ b)"
  by (induction k s rule: begins.induct) auto

lemma found_iff: "found k s \<longleftrightarrow> (\<exists>a b. s = a @ k @ b)"
proof (induction s)
  case (Cons c s)
  have "(\<exists>a b. c # s = a @ k @ b) \<longleftrightarrow> (\<exists>b. c # s = k @ b) \<or> (\<exists>a b. s = a @ k @ b)"
    by (metis append_Cons append_Nil list.exhaust list.inject)
  with Cons show ?case by (simp add: begins_iff)
qed simp

lemma found_trans: "found k w \<Longrightarrow> found w s \<Longrightarrow> found k s"
  by (auto simp: found_iff) (metis append.assoc)

lemma contains_found: "contains True s w \<Longrightarrow> found (py_lower w) (py_lower s)"
  by (auto simp: contains_def same_text_def found_iff py_lower_def) blast

definition key_parts :: "string list" where
  "key_parts = [''instructions'', '' prompt'', ''api'', ''secret'', ''password'', ''token'', ''write me'', ''joke'', ''weather'',
     ''france'', ''how '']"

definition SCOPE_PHRASES :: "string list" where
  "SCOPE_PHRASES =
     [''write me code'', ''tell me a joke'', ''what'' @ [CHR 0x27] @ ''s the weather'', ''whats the weather'', ''what is the weather'',
      ''capital of france''] @
     concat (map (\<lambda>v. map (\<lambda>n. v @ n) [''hack'', ''steal'', ''attack'', ''break into'']) [''how do I '', ''how can I ''])"

lemma scope_phrases:
  "list_all plain OUT_OF_SCOPE_PATTERNS_AGENCY"
  "(\<Union>r \<in> set OUT_OF_SCOPE_PATTERNS_AGENCY. phrases r) = set SCOPE_PHRASES"
  by (simp add: OUT_OF_SCOPE_PATTERNS_AGENCY_def OUT_OF_SCOPE_PATTERNS_def quote_s_def Opt_def)
    (simp add: OUT_OF_SCOPE_PATTERNS_AGENCY_def OUT_OF_SCOPE_PATTERNS_def quote_s_def Opt_def SCOPE_PHRASES_def phrases_Sq
      Sigma_def insert_commute del: phrases.simps(2,3))

lemma key_parts_found:
  "list_all (\<lambda>w. list_ex (\<lambda>k. found k (py_lower w)) key_parts) (INJECTION_PHRASES @ SCOPE_PHRASES)"
  by code_simp

lemma harmless_prompt:
  assumes "list_all (\<lambda>k. \<not> found k (py_lower s)) key_parts"
  shows "detect_block_reason_agency s = None"
proof -
  have safe: "\<not> contains True s w" if "w \<in> set (INJECTION_PHRASES @ SCOPE_PHRASES)" for w
    using assms that key_parts_found contains_found [of s w] found_trans unfolding list_all_iff list_ex_iff by blast
  have "\<not> re_search True r s" if "r \<in> set PROMPT_INJECTION_PATTERNS" for r
    using that plain_injection phrases_injection safe by (simp add: list_all_iff re_search_plain) blast
  moreover have "\<not> re_search True r s" if "r \<in> set OUT_OF_SCOPE_PATTERNS_AGENCY" for r
    using that scope_phrases safe by (simp add: list_all_iff re_search_plain) blast
  ultimately show ?thesis by (auto simp: detect_block_reason_agency_def detect_with_def any_match_def list_ex_iff)
qed


section \<open>Witnesses\<close>

definition demo_answer :: string where
  "demo_answer = ''{}''"

text \<open>The parser of the demonstration reads every text as the given object.\<close>

definition demo_ai :: "json \<Rightarrow> ai_env" where
  "demo_ai j =
     \<lparr>as_guards = demo_guards\<lparr>ge_safety_model := []\<rparr>,
      as_ocr = \<lparr>oc_services = demo_services\<lparr>sv_chat := (\<lambda>ms. Inr (Some demo_answer))\<rparr>, oc_int = (\<lambda>s. None),
        oc_decimal = (\<lambda>s. if s = ''NaN'' then Some (NotFinite ''NaN'') else None), oc_loads = (\<lambda>s. Inr j),
        oc_show = (\<lambda>j. ''?'')\<rparr>,
      as_store = \<lparr>so_bucket_ok = True, so_put_ok = True, so_delete_ok = True\<rparr>, as_read = (\<lambda>b c. Inr b),
      as_dumps = (\<lambda>j. ''{}''), as_dumps_indented = (\<lambda>j. ''{}''), as_isoformat = (\<lambda>t. ''now''), as_job_ttl = 86400,
      as_dash = CHR ''-'', as_ocr_provider = ''azure'', as_ocr_max_mb = 10, as_ocr_types = ''application/pdf''\<rparr>"

definition empty_ai :: ai_db where
  "empty_ai = \<lparr>ai_jobs = [], lead_reply_drafts = [], comparison_summaries = []\<rparr>"

definition demo_notes :: json where
  "demo_notes = JObj [(''summary'', JText ''Both''), (''key_differences'', JInt 3)]"

lemma demo_listing_found: "available_listings [''l1''] (fst (demo_db, empty_ai)) = Inr [demo_listing ''l1'' ''active'']"
  by (simp add: demo_db_def empty_db_def get_listing_by_id_def demo_listing_def find_row_def sbind_def)

lemma demo_prompt: "detect_block_reason_agency (comparison_prompt (CHR ''-'') [demo_listing ''l1'' ''active'']) = None"
  by (rule harmless_prompt) code_simp

lemma demo_generation:
  assumes "detect_block_reason_agency prompt = None"
  shows "\<exists>g calls. generate_guardrailed_agency_text (as_guards (demo_ai j)) (as_services (demo_ai j)) p prompt [] = (g, calls) \<and>
     gn_answer_text g = demo_answer \<and> gn_status g = ''degraded''"
proof -
  have "\<not> re_search True LEAK_PATTERN demo_answer" "py_strip demo_answer = demo_answer" by code_simp+
  with assms show ?thesis
    by (simp add: generate_guardrailed_agency_text_def agency_from_chat_def demo_ai_def as_services_def judge_content_safety_def
        unsafe_def demo_guards_def demo_services_def or_empty_text_def Let_def passed_def content_safety_configured_def)
      (simp add: demo_answer_def)
qed

theorem comparison_job_stuck_witness:
  "\<exists>e j w2. queue_comparison_summary (demo_ai demo_notes) demo_env ''u1'' [''l1''] (demo_db, empty_ai) = (Inl e, w2) \<and>
     ai_jobs (snd w2) = [j] \<and> jb_status j = ''processing''"
proof -
  let ?S = "demo_ai demo_notes"
  obtain g calls where g: "generate_guardrailed_agency_text (as_guards ?S) (as_services ?S) (comparison_system_prompt (as_dash ?S))
      (comparison_prompt (as_dash ?S) [demo_listing ''l1'' ''active'']) [] = (g, calls)"
    and answer: "gn_answer_text g = demo_answer" "gn_status g = ''degraded''"
    using demo_generation [OF demo_prompt, of demo_notes "comparison_system_prompt (CHR ''-'')"] by (auto simp: demo_ai_def)
  have items: "items_of (json_get demo_notes ''key_differences'') = Inl (TypeError ''object is not iterable'')"
    by (simp add: demo_notes_def items_of_def falsy_def)
  have "str_field ?S demo_notes ''summary'' = py_strip ''Both''"
    by (simp add: str_field_def demo_notes_def falsy_def py_str_def json_text_def)
  also have "\<dots> \<noteq> []" by code_simp
  finally have summary: "str_field ?S demo_notes ''summary'' \<noteq> []" .
  have "as_parse ?S (gn_answer_text g) = Inr demo_notes"
    by (simp add: as_parse_def parse_json_object_def demo_ai_def demo_notes_def)
  from comparison_job_stuck [OF _ g _ this summary items, of "[''l1'']" "(demo_db, empty_ai)" demo_env "''u1''"]
  show ?thesis using answer demo_listing_found unfolding is_blocked_def demo_answer_def by (simp add: empty_ai_def) blast
qed

lemma demo_draft_runs:
  "\<exists>r w2. queue_listing_draft (demo_ai demo_notes) demo_env (Some demo_ctx) (JObj []) None None (demo_db, empty_ai) = (Inr r, w2)"
proof -
  have "draft_context (Some demo_ctx) None (fst (demo_db, empty_ai)) = Inr demo_ctx"
    by (simp add: draft_context_def require_tenant_def sbind_def demo_ctx_def)
  then show ?thesis
    by (cases rule: queue_listing_draft_cases [of "demo_ai demo_notes" demo_env "Some demo_ctx" "JObj []" None None "(demo_db, empty_ai)"])
      (auto simp: queue_listing_draft_def new_job_def VALID_JOB_TYPES_def split: prod.splits)
qed

theorem drafts_settle_their_job_witness:
  "\<exists>r w2. queue_listing_draft (demo_ai demo_notes) demo_env (Some demo_ctx) (JObj []) None None (demo_db, empty_ai) = (Inr r, w2) \<and>
     settled_as (dr_job_id r) (dr_status r) [] (ai_jobs (snd w2))"
proof -
  obtain r w2 where run: "queue_listing_draft (demo_ai demo_notes) demo_env (Some demo_ctx) (JObj []) None None (demo_db, empty_ai) =
      (Inr r, w2)" using demo_draft_runs by blast
  have "fresh demo_env 0 \<notin> jb_id ` set (ai_jobs (snd (demo_db, empty_ai)))" by (simp add: empty_ai_def)
  note drafts_settle_their_job [OF this, of "demo_ai demo_notes" "Some demo_ctx" "JObj []" None None "''d1''" "''email''"]
  with run show ?thesis by (cases w2) (auto simp: empty_ai_def)
qed

theorem ai_jobs_lifecycle_witness:
  "\<exists>v. ai_reach ((demo_db, empty_ai), Map.empty) v \<and> length (ai_jobs (snd (fst v))) = 1 \<and> jobs_ok (ai_jobs (snd (fst v)))"
proof -
  let ?w = "((demo_db, empty_ai), Map.empty) :: ai_state" and ?S = "demo_ai demo_notes"
  let ?v = "ai_step ?S demo_env (Draft (Some demo_ctx) (JObj []) None None) ?w"
  obtain r w2 where run: "queue_listing_draft ?S demo_env (Some demo_ctx) (JObj []) None None (fst ?w) = (Inr r, w2)"
    using demo_draft_runs by auto
  have fresh: "fresh demo_env 0 \<notin> jb_id ` set (ai_jobs (snd (fst ?w)))" by (simp add: empty_ai_def)
  have reach: "ai_reach ?w ?v" by (rule ai_reach.step [OF ai_reach.start fresh])
  have "settled_as (dr_job_id r) (dr_status r) (ai_jobs (snd (fst ?w))) (ai_jobs (snd w2))"
    by (rule listing_draft_settles [OF fresh run])
  then have "length (ai_jobs (snd (fst ?v))) = 1" using run by (auto simp: ai_step_def settled_as_def empty_ai_def)
  moreover have "jobs_ok (ai_jobs (snd (fst ?w)))" by (simp add: jobs_ok_def empty_ai_def unique_on_def)
  ultimately show ?thesis using ai_jobs_lifecycle [OF reach] reach by blast
qed

definition demo_sheet :: ai_world where
  "demo_sheet = (demo_db, empty_ai\<lparr>ai_jobs := [\<lparr>jb_id = ''j1'', jb_job_type = ''ocr_extraction'', jb_status = ''queued'',
     jb_tenant_id = Some ''t1'', jb_actor_user_id = Some ''u1'', jb_source_reference_id = None, jb_result_payload = None,
     jb_error_message = None, jb_created_at = 5, jb_started_at = None, jb_completed_at = None, jb_expires_at = None\<rparr>]\<rparr>)"

theorem unstorable_area_leaves_job_processing_witness:
  "\<exists>e w2. run_spec_extraction (demo_ai (JObj [(''area_size'', JText ''NaN'')])) demo_env ''j1'' ''Flat'' None demo_sheet = (Inl e, w2) \<and>
     map_option jb_status (get_ai_job ''j1'' None (snd w2)) = Some ''processing''"
proof (rule unstorable_area_leaves_job_processing)
  show "get_ai_job ''j1'' None (snd demo_sheet) = Some (hd (ai_jobs (snd demo_sheet)))"
    by (simp add: demo_sheet_def get_ai_job_def empty_ai_def)
  show "py_strip ''Flat'' \<noteq> []" by code_simp
  have "py_strip demo_answer \<noteq> []" by code_simp
  then show "json_get (ocr_parse_json_object (oc_loads (as_ocr (demo_ai (JObj [(''area_size'', JText ''NaN'')])))) demo_answer)
      ''area_size'' = Some (JText ''NaN'')"
    by (simp add: ocr_parse_json_object_def demo_ai_def)
qed (simp_all add: demo_sheet_def demo_ai_def as_services_def)

end
