(* ===== verification/Assistant.thy ===== *)
theory Assistant
  imports AgencyAI Viewings Users
begin

text \<open>
  The assistant of a listing page: \<open>ai/listing_user_assistant.py\<close>. LangGraph's agent, the language
  model, the JSON reader and writer, \<open>isoformat\<close> and the text of a decimal are parameters. Times are
  microseconds since 1970 in UTC, the time zone of the database driver's values.
\<close>

section \<open>Calendar\<close>

definition day_of :: "timestamp \<Rightarrow> int" where
  "day_of t = t div seconds 86400"

definition hour_of :: "timestamp \<Rightarrow> int" where
  "hour_of t = t mod seconds 86400 div seconds 3600"

definition minute_of :: "timestamp \<Rightarrow> int" where
  "minute_of t = t mod seconds 3600 div seconds 60"

text \<open>\<open>weekday()\<close>: Monday is 0, and 1 January 1970 was a Thursday.\<close>

definition weekday_of :: "timestamp \<Rightarrow> int" where
  "weekday_of t = (day_of t + 3) mod 7"

text \<open>
  The proleptic Gregorian calendar: month and day of a day number, counted in years that begin in
  March so that the leap day is the last one.
\<close>

definition month_day :: "int \<Rightarrow> int \<times> int" where
  "month_day day =
     (let z = day + 719468;
          doe = z mod 146097;
          yoe = (doe - doe div 1460 + doe div 36524 - doe div 146096) div 365;
          doy = doe - (365 * yoe + yoe div 4 - yoe div 100);
          mp = (5 * doy + 2) div 153
      in (if mp < 10 then mp + 3 else mp - 9, doy - (153 * mp + 2) div 5 + 1))"

definition month_name :: "int \<Rightarrow> string" where
  "month_name m =
     [''Jan'', ''Feb'', ''Mar'', ''Apr'', ''May'', ''Jun'', ''Jul'', ''Aug'', ''Sep'', ''Oct'', ''Nov'', ''Dec''] ! nat (m - 1)"

definition weekday_name :: "int \<Rightarrow> string" where
  "weekday_name d = [''Mon'', ''Tue'', ''Wed'', ''Thu'', ''Fri'', ''Sat'', ''Sun''] ! nat d"

definition two_digits :: "int \<Rightarrow> string" where
  "two_digits n = (if n < 10 then CHR ''0'' # int_text n else int_text n)"

text \<open>\<open>%I:%M %p\<close>, \<open>%a %b %d\<close> and the two texts of a slot.\<close>

definition clock_text :: "timestamp \<Rightarrow> string" where
  "clock_text t =
     (let h = hour_of t; h12 = (if h mod 12 = 0 then 12 else h mod 12)
      in two_digits h12 @ '':'' @ two_digits (minute_of t) @ (if h < 12 then '' AM'' else '' PM''))"

definition date_text :: "string \<Rightarrow> timestamp \<Rightarrow> string" where
  "date_text sep t =
     (case month_day (day_of t) of
        (m, d) \<Rightarrow> weekday_name (weekday_of t) @ sep @ month_name m @ '' '' @ two_digits d)"

definition format_slot_start :: "timestamp \<Rightarrow> string" where
  "format_slot_start t = date_text '' '' t @ '' at '' @ clock_text t @ '' UTC''"

definition format_slot_end :: "timestamp \<Rightarrow> string" where
  "format_slot_end t = clock_text t @ '' UTC''"

definition format_slot_label :: "ListingViewingSlot \<Rightarrow> string" where
  "format_slot_label s = format_slot_start (sl_starts_at s) @ '' to '' @ format_slot_end (sl_ends_at s)"

definition available_slot_labels :: "ListingViewingSlot list \<Rightarrow> string list" where
  "available_slot_labels slots = map format_slot_label (take 3 slots)"

section \<open>Wishes\<close>

definition has_words :: "string \<Rightarrow> string \<Rightarrow> bool" where
  "has_words w s \<longleftrightarrow> re_search False (Lit w) s"

definition WEEKDAYS :: "(string \<times> int) list" where
  "WEEKDAYS =
     [(''monday'', 0), (''tuesday'', 1), (''wednesday'', 2), (''thursday'', 3), (''friday'', 4), (''saturday'', 5), (''sunday'', 6)]"

definition to_24_hour :: "int \<Rightarrow> string option \<Rightarrow> bool \<Rightarrow> int" where
  "to_24_hour hour meridiem default_to_pm =
     (case meridiem of
        None \<Rightarrow> if default_to_pm \<and> 1 \<le> hour \<and> hour \<le> 7 then hour + 12 else hour
      | Some m \<Rightarrow>
          if py_lower m = ''pm'' \<and> hour < 12 then hour + 12
          else if py_lower m = ''am'' \<and> hour = 12 then 0 else hour)"

text \<open>The patterns \<open>word\s+(\d{1,2})(?::\d{2})?\s*(am|pm)?\<close>: the groups are the parts 2 and 5.\<close>

definition clock_re :: "rx \<Rightarrow> rx list" where
  "clock_re word =
     [word, Many 1 space, Sq digit (Opt digit), Opt (Sqs [Lit '':'', digit, digit]), Many 0 space, Opt (Alt (Lit ''am'') (Lit ''pm''))]"

definition hour_wish :: "rx \<Rightarrow> string \<Rightarrow> int option" where
  "hour_wish word s =
     map_option (\<lambda>ps. let meridiem = (if ps ! 5 = [] then None else Some (ps ! 5))
       in to_24_hour (int (digits_number (ps ! 2))) meridiem (meridiem = None \<and> \<not> has_words ''morning'' s))
       (search_parts False (clock_re word) s)"

record wishes =
  ws_target_date :: "int option"
  ws_weekday :: "int option"
  ws_after_hour :: "int option"
  ws_before_hour :: "int option"
  ws_around_hour :: "int option"

definition or_else :: "'a option \<Rightarrow> 'a option \<Rightarrow> 'a option" where
  "or_else x y = (case x of None \<Rightarrow> y | Some v \<Rightarrow> Some v)"

definition parse_time_preferences :: "string \<Rightarrow> timestamp \<Rightarrow> wishes" where
  "parse_time_preferences query now =
     (let s = py_lower query;
          part_of_day =
            (if has_words ''morning'' s then (Some 6, Some 12)
             else if has_words ''afternoon'' s then (Some 12, Some 17)
             else if has_words ''evening'' s \<or> has_words ''tonight'' s then (Some 17, Some 21) else (None, None))
      in \<lparr>ws_target_date =
            (if has_words ''tomorrow'' s then Some (day_of now + 1)
             else if has_words ''today'' s then Some (day_of now) else None),
          ws_weekday = map_option snd (find (\<lambda>(name, d). has_words name s) WEEKDAYS),
          ws_after_hour = or_else (hour_wish (Lit ''after'') s) (fst part_of_day),
          ws_before_hour = or_else (hour_wish (Lit ''before'') s) (snd part_of_day),
          ws_around_hour = hour_wish (Alt (Lit ''around'') (Lit ''at'')) s\<rparr>)"

section \<open>Matching a slot\<close>

text \<open>\<open>min(candidates, key=...)\<close>: the first of the least; the candidates are not empty.\<close>

definition first_least :: "('a \<Rightarrow> int) \<Rightarrow> 'a list \<Rightarrow> 'a option" where
  "first_least f xs = find (\<lambda>x. \<forall>y \<in> set xs. f x \<le> f y) xs"

text \<open>A wish narrows the candidates; no candidate left ends the search.\<close>

definition narrow :: "'w option \<Rightarrow> ('w \<Rightarrow> 'a \<Rightarrow> bool) \<Rightarrow> 'a list option \<Rightarrow> 'a list option" where
  "narrow w P xs =
     (case xs of
        None \<Rightarrow> None
      | Some ys \<Rightarrow>
          (case w of
             None \<Rightarrow> Some ys
           | Some v \<Rightarrow> (let zs = filter (P v) ys in if zs = [] then None else Some zs)))"

definition free_from :: "timestamp \<Rightarrow> ListingViewingSlot \<Rightarrow> bool" where
  "free_from now s \<longleftrightarrow> now \<le> sl_starts_at s \<and> sl_reserved_count s < sl_capacity s"

definition match_slot :: "timestamp \<Rightarrow> string \<Rightarrow> ListingViewingSlot list \<Rightarrow> ListingViewingSlot option" where
  "match_slot now query slots =
     (let candidates = filter (free_from now) slots
      in if candidates = [] then None
         else
           (let p = parse_time_preferences query now
            in (case narrow (ws_before_hour p) (\<lambda>h s. hour_of (sl_starts_at s) \<le> h)
                      (narrow (ws_after_hour p) (\<lambda>h s. h \<le> hour_of (sl_starts_at s))
                        (narrow (ws_weekday p) (\<lambda>d s. weekday_of (sl_starts_at s) = d)
                          (narrow (ws_target_date p) (\<lambda>d s. day_of (sl_starts_at s) = d) (Some candidates)))) of
                  None \<Rightarrow> None
                | Some ys \<Rightarrow>
                    (case ws_around_hour p of
                       Some h \<Rightarrow> first_least (\<lambda>s. \<bar>hour_of (sl_starts_at s) - h\<bar>) ys
                     | None \<Rightarrow> first_least sl_starts_at ys))))"

definition assistant_normalize :: "string \<Rightarrow> string" where
  "assistant_normalize s = re_sub False (Many 1 space) '' '' (py_lower (py_strip s))"

definition normalize_time_token :: "timestamp \<Rightarrow> string" where
  "normalize_time_token t = assistant_normalize (dropWhile (\<lambda>c. c = CHR ''0'') (clock_text t))"

definition assistant_message_mentions_slot :: "string \<Rightarrow> ListingViewingSlot \<Rightarrow> bool" where
  "assistant_message_mentions_slot content s =
     (let among_texts = list_ex (\<lambda>w. has_words w content);
          times = (\<lambda>t. [normalize_time_token t, assistant_normalize (clock_text t)])
      in among_texts [assistant_normalize (date_text '' '' (sl_starts_at s)), assistant_normalize (date_text '', '' (sl_starts_at s))] \<and>
         among_texts (times (sl_starts_at s)) \<and> among_texts (times (sl_ends_at s)))"

definition match_slot_from_conversation :: "chat_message list \<Rightarrow> ListingViewingSlot list \<Rightarrow> ListingViewingSlot option" where
  "match_slot_from_conversation messages slots =
     (case concat (map (\<lambda>m. filter (assistant_message_mentions_slot (assistant_normalize (cm_content m))) slots)
             (filter (\<lambda>m. cm_role m = ''assistant'') (rev messages))) of
        [] \<Rightarrow> None | s # _ \<Rightarrow> Some s)"

definition CONFIRMATIONS :: "string list" where
  "CONFIRMATIONS =
     [''yes'', ''yes please'', ''please'', ''book it'', ''book that'', ''that works'', ''sounds good'', ''confirm'']"

definition is_generic_booking_confirmation :: "string \<Rightarrow> bool" where
  "is_generic_booking_confirmation query =
     (let s = assistant_normalize query
      in re_match False (Sq (Alts (map Lit CONFIRMATIONS)) TextEnd) s \<or>
         list_ex (\<lambda>w. re_search False (whole_word w) s) [''just me'', ''1 person'', ''for one person''])"

definition ASSISTANT_OUT_OF_SCOPE :: "string list" where
  "ASSISTANT_OUT_OF_SCOPE =
     [''compare'', ''neighborhood'', ''school'', ''investment advice'', ''mortgage'', ''another listing'', ''market trend'']"

definition is_out_of_scope :: "string \<Rightarrow> bool" where
  "is_out_of_scope query = list_ex (\<lambda>w. re_search True (whole_word w) query) ASSISTANT_OUT_OF_SCOPE"

section \<open>Tools\<close>

text \<open>
  What the agent's graph returns: its messages, each with its text as \<open>_message_text\<close> reads it. The
  graph itself, which calls the model and the three tools, is the parameter \<open>av_agent\<close>.
\<close>

datatype agent_message = HumanMsg string | AiMsg string "string list" | ToolMsg string

record assistant_tools =
  at_context :: json
  at_inquiry :: "string \<Rightarrow> json"
  at_viewing :: "string \<Rightarrow> json"

record assistant_env =
  av_agent :: "assistant_tools \<Rightarrow> string \<Rightarrow> agent_message list \<Rightarrow> string + agent_message list"
  av_plain_llm :: "string \<Rightarrow> string option"
  av_loads :: "string \<Rightarrow> json option"
  av_isoformat :: "timestamp \<Rightarrow> string"
  av_decimal :: "rat \<Rightarrow> string"
  av_max_context :: nat
  av_max_slots :: nat
  av_max_chars :: nat
  av_installed :: bool
  av_endpoint_set :: bool
  av_deployment_set :: bool

record LeadProfileSnapshot =
  lp_name :: "string option"
  lp_email :: "string option"
  lp_phone :: "string option"
  lp_missing_fields :: "string list"

definition stripped :: "string option \<Rightarrow> string option" where
  "stripped x = (if truthy x then Some (py_strip (the x)) else None)"

text \<open>The actor of the request is the user's identifier, if any.\<close>

definition get_user_profile :: "uuid option \<Rightarrow> db \<Rightarrow> LeadProfileSnapshot option" where
  "get_user_profile actor D =
     (if \<not> truthy actor then None
      else map_option (\<lambda>u. \<lparr>lp_name = stripped (u_name u), lp_email = stripped (Some (u_email u)), lp_phone = stripped (u_phone u),
                             lp_missing_fields = get_lead_profile_missing_fields u\<rparr>) (get_user_by_id (the actor) D))"

definition format_price :: "(rat \<Rightarrow> string) \<Rightarrow> rat option \<Rightarrow> string option \<Rightarrow> string" where
  "format_price decimal price currency =
     (case price of
        None \<Rightarrow> ''price on request''
      | Some x \<Rightarrow>
          if \<not> truthy currency then ''price on request''
          else the currency @ '' '' @
            (if x < 0 then (let n = nat (floor (- x)) in (if n = 0 then ''0'' else CHR ''-'' # group_thousands (nat_text n)))
             else group_thousands (nat_text (nat (floor x)))))"

definition format_area :: "(rat \<Rightarrow> string) \<Rightarrow> rat option \<Rightarrow> string option \<Rightarrow> string" where
  "format_area decimal area_size area_unit =
     (case area_size of
        None \<Rightarrow> ''not specified''
      | Some x \<Rightarrow> if truthy area_unit then decimal x @ '' '' @ the area_unit else decimal x)"

definition serialize_listing :: "assistant_env \<Rightarrow> Listing \<Rightarrow> json" where
  "serialize_listing V l = JObj
     [(''id'', JText (l_id l)), (''title'', JText (l_title l)),
      (''description'', JText (take (av_max_context V) (py_strip (or_empty_text (l_description l))))),
      (''property_type'', jopt (l_property_type l)), (''listing_purpose'', jopt (l_listing_purpose l)),
      (''price'', JText (format_price (av_decimal V) (l_price l) (l_currency l))),
      (''bedrooms'', opt_json JInt (l_bedrooms l)), (''bathrooms'', opt_json JInt (l_bathrooms l)),
      (''area'', JText (format_area (av_decimal V) (l_area_size l) (l_area_unit l))),
      (''furnishing'', jopt (l_furnishing l)), (''location_text'', jopt (l_location_text l)), (''address'', jopt (l_address l)),
      (''city'', jopt (l_city l)), (''country'', jopt (l_country l))]"

definition serialize_slot :: "assistant_env \<Rightarrow> ListingViewingSlot \<Rightarrow> json" where
  "serialize_slot V s = JObj
     [(''id'', JText (sl_id s)), (''starts_at'', JText (av_isoformat V (sl_starts_at s))),
      (''ends_at'', JText (av_isoformat V (sl_ends_at s))), (''capacity'', JInt (sl_capacity s)),
      (''reserved_count'', JInt (sl_reserved_count s)), (''status'', JText (sl_status s)),
      (''label'', JText (format_slot_label s))]"

definition get_listing_context :: "assistant_env \<Rightarrow> Listing \<Rightarrow> ListingViewingSlot list \<Rightarrow> json" where
  "get_listing_context V l slots = JObj
     [(''assistant_message'', JText ''Loaded current listing context.''),
      (''metadata'', JObj [(''intent'', JText ''listing_facts''), (''tool'', JText ''get_listing_context'')]),
      (''listing'', serialize_listing V l), (''active_viewing_slots'', JList (map (serialize_slot V) slots))]"

definition inquiry_prompt :: "Listing \<Rightarrow> string \<Rightarrow> LeadProfileSnapshot \<Rightarrow> string" where
  "inquiry_prompt l user_request p =
     join_with [CHR 0x0A]
       [''Draft one concise property inquiry message for human review.'',
        ''Listing title: '' @ l_title l,
        ''Listing city: '' @ (if truthy (l_city l) then the (l_city l)
           else if truthy (l_location_text l) then the (l_location_text l) else ''Unknown''),
        ''User intent: '' @ py_strip user_request,
        ''Available profile fields: name='' @ or_empty_text (lp_name p) @ '', email='' @ or_empty_text (lp_email p) @
          '', phone='' @ or_empty_text (lp_phone p),
        ''Do not invent facts. Do not include any signature block beyond the provided profile fields.'']"

text \<open>\<open>_invoke_plain_llm\<close>: \<open>None\<close> when the client is missing, not configured, fails or answers a blank.\<close>

definition invoke_plain_llm :: "assistant_env \<Rightarrow> string \<Rightarrow> string option" where
  "invoke_plain_llm V prompt =
     (if \<not> av_installed V \<or> \<not> av_endpoint_set V \<or> \<not> av_deployment_set V then None
      else (case av_plain_llm V (take (av_max_context V) prompt) of
              None \<Rightarrow> None | Some s \<Rightarrow> nonblank_or_none (py_strip s)))"

definition draft_inquiry_message :: "assistant_env \<Rightarrow> Listing \<Rightarrow> string \<Rightarrow> LeadProfileSnapshot \<Rightarrow> string" where
  "draft_inquiry_message V l user_request p =
     (case invoke_plain_llm V (inquiry_prompt l user_request p) of
        Some s \<Rightarrow> s
      | None \<Rightarrow>
          py_strip (''Hello, I'' @ [CHR 0x27] @ ''m interested in '' @ l_title l @
            (if truthy (l_city l) then '' in '' @ the (l_city l) else []) @ ''. '' @ py_strip user_request))"

definition tool_metadata :: "string \<Rightarrow> (string \<times> json) list \<Rightarrow> string \<Rightarrow> json" where
  "tool_metadata intent extra tool = JObj ((''intent'', JText intent) # extra @ [(''tool'', JText tool)])"

definition prepare_inquiry_tool :: "assistant_env \<Rightarrow> uuid option \<Rightarrow> Listing \<Rightarrow> db \<Rightarrow> string \<Rightarrow> json" where
  "prepare_inquiry_tool V actor l D user_request =
     (if \<not> truthy actor
      then JObj [(''assistant_message'', JText ''Sign in to prepare an inquiry for this listing.''),
                 (''metadata'', tool_metadata ''lead_inquiry'' [(''auth_required'', JBool True)] ''send_inquiry'')]
      else (case get_user_profile actor D of
              None \<Rightarrow>
                JObj [(''assistant_message'', JText ''Sign in again to continue with an inquiry for this listing.''),
                      (''metadata'', tool_metadata ''lead_inquiry'' [(''auth_required'', JBool True)] ''send_inquiry'')]
            | Some p \<Rightarrow>
                if lp_missing_fields p \<noteq> []
                then JObj [(''assistant_message'',
                              JText ''Complete your profile with your name and at least one contact method before sending an inquiry.''),
                           (''metadata'', tool_metadata ''lead_inquiry''
                              [(''profile_incomplete'', JBool True),
                               (''missing_fields'', JList (map JText (lp_missing_fields p)))] ''send_inquiry'')]
                else JObj [(''assistant_message'',
                              JText ''I prepared an inquiry draft for this listing. Review it and confirm before sending.''),
                           (''pending_action'', JObj [(''type'', JText ''lead_inquiry''),
                              (''payload'', JObj [(''message'', JText (draft_inquiry_message V l user_request p))])]),
                           (''metadata'', JObj [(''intent'', JText ''lead_inquiry''), (''tool'', JText ''send_inquiry''),
                              (''profile_name'', jopt (lp_name p)), (''profile_email'', jopt (lp_email p)),
                              (''profile_phone'', jopt (lp_phone p))])]))"

definition chosen_slot :: "timestamp \<Rightarrow> string \<Rightarrow> chat_message list \<Rightarrow> ListingViewingSlot list \<Rightarrow> ListingViewingSlot option" where
  "chosen_slot now user_request conversation slots =
     or_else (if is_generic_booking_confirmation user_request then match_slot_from_conversation conversation slots else None)
       (match_slot now user_request slots)"

definition booking_action :: "assistant_env \<Rightarrow> string \<Rightarrow> ListingViewingSlot \<Rightarrow> json" where
  "booking_action V user_request s = JObj
     [(''type'', JText ''viewing_booking''),
      (''payload'', JObj
         [(''viewing_slot_id'', JText (sl_id s)), (''scheduled_start_at'', JText (av_isoformat V (sl_starts_at s))),
          (''scheduled_end_at'', JText (av_isoformat V (sl_ends_at s))), (''scheduled_label'', JText (format_slot_label s)),
          (''notes'', JText (take 500 (py_strip user_request)))])]"

definition no_match_message :: "ListingViewingSlot list \<Rightarrow> string" where
  "no_match_message slots =
     (if available_slot_labels slots = []
      then ''I couldn'' @ [CHR 0x27] @ ''t find a matching viewing slot. Try a different day or time window.''
      else ''I couldn'' @ [CHR 0x27] @ ''t match that request to a bookable slot. Available slots right now: '' @
           join_with '', '' (available_slot_labels slots) @ ''. Tell me one of those times or say '' @ [CHR 0x27] @
           ''book the next available slot'' @ [CHR 0x27] @ ''.'')"

definition prepare_viewing_tool ::
  "assistant_env \<Rightarrow> timestamp \<Rightarrow> uuid option \<Rightarrow> Listing \<Rightarrow> ListingViewingSlot list \<Rightarrow> chat_message list \<Rightarrow> string \<Rightarrow> json" where
  "prepare_viewing_tool V now actor l slots conversation user_request =
     (if \<not> truthy actor
      then JObj [(''assistant_message'', JText ''Sign in to prepare a viewing request for this listing.''),
                 (''metadata'', tool_metadata ''viewing_booking'' [(''auth_required'', JBool True)] ''schedule_viewing'')]
      else if slots = []
      then JObj [(''assistant_message'', JText ''There are no active viewing slots for this listing right now.''),
                 (''metadata'', tool_metadata ''viewing_booking'' [(''no_slots'', JBool True)] ''schedule_viewing'')]
      else (case chosen_slot now user_request conversation slots of
              None \<Rightarrow>
                JObj [(''assistant_message'', JText (no_match_message slots)),
                      (''metadata'', tool_metadata ''viewing_booking'' [(''slot_match'', JText ''none'')] ''schedule_viewing'')]
            | Some s \<Rightarrow>
                JObj [(''assistant_message'',
                         JText (''I found a viewing slot on '' @ format_slot_start (sl_starts_at s) @
                                ''. Review it and confirm before booking.'')),
                      (''pending_action'', booking_action V user_request s),
                      (''metadata'', JObj [(''intent'', JText ''viewing_booking''), (''tool'', JText ''schedule_viewing''),
                         (''matched_slot_id'', JText (sl_id s)), (''matched_slot_reason'', JText ''best_valid_slot''),
                         (''listing_id'', JText (l_id l))])]))"

section \<open>The answer\<close>

record ListingAssistantResponse =
  ga_assistant_message :: string
  ga_pending_action :: "json option"
  ga_metadata :: "(string \<times> json) list"

definition maybe_parse_tool_payload :: "(string \<Rightarrow> json option) \<Rightarrow> agent_message \<Rightarrow> json option" where
  "maybe_parse_tool_payload loads m =
     (case m of
        ToolMsg s \<Rightarrow>
          if s = [] then None
          else (case loads s of Some (JObj entries) \<Rightarrow> Some (JObj entries) | _ \<Rightarrow> None)
      | _ \<Rightarrow> None)"

text \<open>The tools of this module write a text as message and an object as metadata; other values are read as missing.\<close>

definition message_of :: "json \<Rightarrow> string" where
  "message_of parsed = (case text_field parsed ''assistant_message'' of None \<Rightarrow> [] | Some s \<Rightarrow> s)"

definition metadata_of :: "json \<Rightarrow> (string \<times> json) list" where
  "metadata_of parsed = (case json_get parsed ''metadata'' of Some (JObj es) \<Rightarrow> es | _ \<Rightarrow> [])"

definition pending_of :: "json \<Rightarrow> json option" where
  "pending_of parsed =
     (case json_get parsed ''pending_action'' of None \<Rightarrow> None | Some j \<Rightarrow> if falsy j then None else Some j)"

text \<open>What \<open>ListingAssistantPendingAction\<close> accepts.\<close>

definition valid_pending :: "json \<Rightarrow> bool" where
  "valid_pending j \<longleftrightarrow>
     text_field j ''type'' \<in> {Some ''lead_inquiry'', Some ''viewing_booking''} \<and>
     (case json_get j ''payload'' of Some (JObj _) \<Rightarrow> True | _ \<Rightarrow> False)"

definition action_tool :: "json \<Rightarrow> bool" where
  "action_tool parsed \<longleftrightarrow>
     map_of (metadata_of parsed) ''tool'' \<in> {Some (JText ''send_inquiry''), Some (JText ''schedule_viewing'')}"

record answer_acc =
  ac_message :: string
  ac_pending :: "json option"
  ac_metadata :: "(string \<times> json) list"
  ac_latest :: "json option"

definition or_text_else :: "string \<Rightarrow> string \<Rightarrow> string" where
  "or_text_else s dflt = (if s = [] then dflt else s)"

definition read_payload :: "json \<Rightarrow> answer_acc \<Rightarrow> py_exc + answer_acc" where
  "read_payload parsed a =
     (let metadata = fold (\<lambda>(k, v). AList.update k v) (metadata_of parsed) (ac_metadata a)
      in if pending_of parsed \<noteq> None \<and> ac_pending a = None \<and> \<not> valid_pending (the (pending_of parsed))
         then Inl (ValueError ''ListingAssistantPendingAction'')
         else
           (let pending = or_else (ac_pending a) (pending_of parsed)
            in if action_tool parsed
               then Inr \<lparr>ac_message = or_text_else (message_of parsed) (ac_message a), ac_pending = pending,
                         ac_metadata = metadata, ac_latest = Some parsed\<rparr>
               else Inr \<lparr>ac_message = or_text_else (ac_message a) (message_of parsed), ac_pending = pending,
                         ac_metadata = metadata, ac_latest = ac_latest a\<rparr>))"

definition tool_names :: "string list" where
  "tool_names = [''get_listing_context'', ''send_inquiry'', ''schedule_viewing'']"

definition read_message :: "(string \<Rightarrow> json option) \<Rightarrow> agent_message \<Rightarrow> answer_acc \<Rightarrow> py_exc + answer_acc" where
  "read_message loads m a =
     (case maybe_parse_tool_payload loads m of
        Some (JObj (e # es)) \<Rightarrow> read_payload (JObj (e # es)) a
      | _ \<Rightarrow>
          (case m of
             AiMsg content calls \<Rightarrow>
               Inr (a\<lparr>ac_message := or_text_else (ac_message a) content,
                      ac_metadata := (if calls \<noteq> [] \<and> ''tool_calls'' \<notin> fst ` set (ac_metadata a)
                        then AList.update ''tool_calls'' (JList (map JText (filter (\<lambda>n. n \<in> set tool_names) calls))) (ac_metadata a)
                        else ac_metadata a)\<rparr>)
           | _ \<Rightarrow> Inr a))"

fun read_messages :: "(string \<Rightarrow> json option) \<Rightarrow> agent_message list \<Rightarrow> answer_acc \<Rightarrow> py_exc + answer_acc" where
  "read_messages loads [] a = Inr a"
| "read_messages loads (m # ms) a = sbind (read_message loads m a) (read_messages loads ms)"

definition response_from_agent_result ::
  "(string \<Rightarrow> json option) \<Rightarrow> agent_message list \<Rightarrow> py_exc + ListingAssistantResponse" where
  "response_from_agent_result loads messages =
     sbind (read_messages loads (rev messages) \<lparr>ac_message = [], ac_pending = None, ac_metadata = [], ac_latest = None\<rparr>) (\<lambda>a.
       let message = (case ac_latest a of None \<Rightarrow> ac_message a | Some p \<Rightarrow> or_text_else (message_of p) (ac_message a))
       in Inr \<lparr>ga_assistant_message =
                 or_text_else message (''I couldn'' @ [CHR 0x27] @ ''t produce a listing assistant response.''),
               ga_pending_action = ac_pending a, ga_metadata = ac_metadata a\<rparr>)"

definition build_conversation_messages :: "assistant_env \<Rightarrow> chat_message list \<Rightarrow> string \<Rightarrow> agent_message list" where
  "build_conversation_messages V conversation message =
     concat (map (\<lambda>m. let content = py_strip (take (av_max_chars V) (cm_content m))
                      in if content = [] then []
                         else if cm_role m = ''assistant'' then [AiMsg content []] else [HumanMsg content])
        (py_last 8 conversation)) @
     (if conversation = [] \<or> py_strip (cm_content (last conversation)) \<noteq> py_strip message
      then [HumanMsg (py_strip message)] else [])"

definition assistant_system_prompt :: string where
  "assistant_system_prompt =
     join_with [CHR 0x0A]
       [''You are AkarAI'' @ [CHR 0x27] @ ''s listing-page assistant for one specific listing.'',
        ''You must stay within this listing only.'',
        ''For factual listing questions, call get_listing_context before answering.'',
        ''If the user wants to contact the agency or send a message, call send_inquiry.'',
        ''If the user wants to book or schedule a viewing, call schedule_viewing.'',
        ''If the user confirms a slot you already proposed, call schedule_viewing again and include that exact slot timing in the tool input.'',
        ''The send_inquiry and schedule_viewing tools only prepare confirmable actions. They do not mutate anything.'',
        ''Never claim a lead was sent or a viewing was booked unless the frontend later confirms it.'',
        ''If the user asks about neighborhoods, schools, financing, investment advice, comparisons, or other listings, refuse briefly.'',
        ''Keep answers concise.'']"

definition assistant_unavailable :: "string \<Rightarrow> py_exc" where
  "assistant_unavailable detail = ServiceUnavailableError detail ''SERVICE_UNAVAILABLE''"

definition assistant_tools_for ::
  "assistant_env \<Rightarrow> ctx_env \<Rightarrow> uuid option \<Rightarrow> Listing \<Rightarrow> ListingViewingSlot list \<Rightarrow> chat_message list \<Rightarrow> db \<Rightarrow> assistant_tools" where
  "assistant_tools_for V E actor l slots conversation D =
     \<lparr>at_context = get_listing_context V l slots, at_inquiry = prepare_inquiry_tool V actor l D,
      at_viewing = prepare_viewing_tool V (now_at E) actor l slots (py_last 8 conversation)\<rparr>"

definition send_assistant_message ::
  "assistant_env \<Rightarrow> ctx_env \<Rightarrow> uuid option \<Rightarrow> uuid \<Rightarrow> string \<Rightarrow> chat_message list \<Rightarrow> db \<Rightarrow> py_exc + ListingAssistantResponse" where
  "send_assistant_message V E actor listing_id message conversation D =
     (case get_listing_by_id listing_id D of
        None \<Rightarrow> Inl (NotFoundError ''Listing not found'')
      | Some l \<Rightarrow>
          if l_status l \<noteq> ''active'' then Inl (NotFoundError ''Listing not found'')
          else
            (let slots = take (av_max_slots V) (list_bookable_by_listing E listing_id D)
             in if is_out_of_scope message
                then Inr \<lparr>ga_assistant_message = ''I can only help with this listing'' @ [CHR 0x27] @
                            ''s facts, prepare an inquiry, or prepare a viewing booking for this listing.'',
                          ga_pending_action = None,
                          ga_metadata = [(''scope'', JText ''listing_only''), (''intent'', JText ''refusal'')]\<rparr>
                else if \<not> av_installed V
                then Inl (assistant_unavailable ''Listing assistant agent dependencies are not installed.'')
                else if \<not> av_endpoint_set V
                then Inl (assistant_unavailable ''Azure OpenAI is not configured for the listing assistant.'')
                else if \<not> av_deployment_set V
                then Inl (assistant_unavailable ''Azure OpenAI chat deployment is not configured.'')
                else (case av_agent V (assistant_tools_for V E actor l slots conversation D) assistant_system_prompt
                             (build_conversation_messages V conversation message) of
                        Inl e \<Rightarrow> Inl (assistant_unavailable ''Listing assistant agent is unavailable right now.'')
                      | Inr messages \<Rightarrow>
                          sbind (response_from_agent_result (av_loads V) messages) (\<lambda>r.
                            Inr (if ga_pending_action r = None \<and> ''intent'' \<notin> fst ` set (ga_metadata r)
                                 then r\<lparr>ga_metadata := ga_metadata r @ [(''intent'', JText ''listing_facts'')]\<rparr> else r)))))"

end
