(* ===== verification/AssistantProps.thy ===== *)
theory AssistantProps
  imports Assistant Demo
begin

text \<open>
  The listing assistant: the slot it chooses fits the wish and can be booked, the actions it proposes
  come from its own tools, and the answer that names another action than the one it proposes.
\<close>

section \<open>Choosing a slot\<close>

lemma first_least_Some:
  "first_least f xs = Some x \<Longrightarrow> x \<in> set xs \<and> (\<forall>y \<in> set xs. f x \<le> f y)"
  by (auto simp: first_least_def find_Some_iff)

lemma first_least_None: "first_least f xs = None \<longleftrightarrow> xs = []"
proof
  assume none: "first_least f xs = None"
  show "xs = []"
  proof (rule ccontr)
    assume "xs \<noteq> []"
    then have "f (arg_min_list f xs) = Min (f ` set xs)" "arg_min_list f xs \<in> set xs"
      by (simp_all add: f_arg_min_list_f arg_min_list_in)
    with none show False by (auto simp: first_least_def find_None_iff)
  qed
qed (simp add: first_least_def)

definition wish_ok :: "'w option \<Rightarrow> ('w \<Rightarrow> 'a \<Rightarrow> bool) \<Rightarrow> 'a \<Rightarrow> bool" where
  "wish_ok w P x \<longleftrightarrow> (case w of None \<Rightarrow> True | Some v \<Rightarrow> P v x)"

definition keep :: "'a list \<Rightarrow> 'a list option" where
  "keep xs = (if xs = [] then None else Some xs)"

lemma wish_ok_simps [simp]: "wish_ok None P = (\<lambda>x. True)" "wish_ok (Some v) P = P v"
  by (simp_all add: wish_ok_def fun_eq_iff)

lemma narrow_keep: "narrow w P (keep xs) = keep (filter (wish_ok w P) xs)"
  by (cases w) (auto simp: narrow_def keep_def Let_def)

lemma keep_None [simp]: "narrow w P None = None"
  by (simp add: narrow_def)

definition fits :: "wishes \<Rightarrow> timestamp \<Rightarrow> ListingViewingSlot \<Rightarrow> bool" where
  "fits p now s \<longleftrightarrow> free_from now s \<and> wish_ok (ws_target_date p) (\<lambda>d s. day_of (sl_starts_at s) = d) s \<and>
     wish_ok (ws_weekday p) (\<lambda>d s. weekday_of (sl_starts_at s) = d) s \<and>
     wish_ok (ws_after_hour p) (\<lambda>h s. h \<le> hour_of (sl_starts_at s)) s \<and>
     wish_ok (ws_before_hour p) (\<lambda>h s. hour_of (sl_starts_at s) \<le> h) s"

definition distance_to :: "wishes \<Rightarrow> ListingViewingSlot \<Rightarrow> int" where
  "distance_to p s =
     (case ws_around_hour p of None \<Rightarrow> sl_starts_at s | Some h \<Rightarrow> \<bar>hour_of (sl_starts_at s) - h\<bar>)"

lemma match_slot_reference:
  "match_slot now query slots =
     (let p = parse_time_preferences query now in first_least (distance_to p) (filter (fits p now) slots))"
proof (cases "filter (free_from now) slots = []")
  case True
  then have "filter (fits p now) slots = []" for p by (auto simp: filter_empty_conv fits_def)
  with True show ?thesis by (simp add: match_slot_def first_least_def)
next
  case False
  let ?p = "parse_time_preferences query now" and ?c = "filter (free_from now) slots"
  have "Some ?c = keep ?c" using False by (simp add: keep_def)
  then have "narrow (ws_before_hour ?p) (\<lambda>h s. hour_of (sl_starts_at s) \<le> h)
      (narrow (ws_after_hour ?p) (\<lambda>h s. h \<le> hour_of (sl_starts_at s))
        (narrow (ws_weekday ?p) (\<lambda>d s. weekday_of (sl_starts_at s) = d)
          (narrow (ws_target_date ?p) (\<lambda>d s. day_of (sl_starts_at s) = d) (Some ?c)))) =
      keep (filter (wish_ok (ws_before_hour ?p) (\<lambda>h s. hour_of (sl_starts_at s) \<le> h))
        (filter (wish_ok (ws_after_hour ?p) (\<lambda>h s. h \<le> hour_of (sl_starts_at s)))
          (filter (wish_ok (ws_weekday ?p) (\<lambda>d s. weekday_of (sl_starts_at s) = d))
            (filter (wish_ok (ws_target_date ?p) (\<lambda>d s. day_of (sl_starts_at s) = d)) ?c))))"
    (is "?n = _") by (simp only: narrow_keep)
  also have "\<dots> = keep (filter (fits ?p now) slots)"
    unfolding filter_filter by (rule arg_cong [of _ _ keep], rule filter_cong [OF refl]) (simp add: fits_def conj_assoc)
  finally have n: "?n = keep (filter (fits ?p now) slots)" .
  have "match_slot now query slots = (case ?n of None \<Rightarrow> None
      | Some ys \<Rightarrow> (case ws_around_hour ?p of
          Some h \<Rightarrow> first_least (\<lambda>s. \<bar>hour_of (sl_starts_at s) - h\<bar>) ys | None \<Rightarrow> first_least sl_starts_at ys))"
    using False by (simp only: match_slot_def Let_def if_False)
  also have "\<dots> = first_least (distance_to ?p) (filter (fits ?p now) slots)"
    unfolding n by (cases "ws_around_hour ?p") (simp_all add: keep_def first_least_def distance_to_def [abs_def])
  finally show ?thesis by (simp add: Let_def)
qed


section \<open>Proposed actions\<close>

text \<open>What the graph is documented to do: a tool message carries what a tool returned, or no JSON.\<close>

definition tool_outputs :: "assistant_tools \<Rightarrow> json set" where
  "tool_outputs T = insert (at_context T) (range (at_inquiry T) \<union> range (at_viewing T))"

definition runs_tools :: "assistant_env \<Rightarrow> bool" where
  "runs_tools V \<longleftrightarrow> (\<forall>T p ms out s j. av_agent V T p ms = Inr out \<and> ToolMsg s \<in> set out \<and> av_loads V s = Some j \<longrightarrow> j \<in> tool_outputs T)"

lemma read_message_pending:
  assumes "read_message loads m a = Inr b" and "ac_pending b \<noteq> ac_pending a"
  shows "\<exists>s p. m = ToolMsg s \<and> loads s = Some p \<and> ac_pending b = pending_of p"
  using assms
  by (auto simp: read_message_def maybe_parse_tool_payload_def read_payload_def Let_def or_else_def
      split: agent_message.splits if_splits option.splits json.splits list.splits)

lemma read_messages_pending:
  "read_messages loads ms a = Inr b \<Longrightarrow> ac_pending b \<noteq> ac_pending a \<Longrightarrow>
     \<exists>s p. ToolMsg s \<in> set ms \<and> loads s = Some p \<and> ac_pending b = pending_of p"
proof (induction ms arbitrary: a)
  case (Cons m ms)
  then obtain c where c: "read_message loads m a = Inr c" "read_messages loads ms c = Inr b"
    by (auto simp: sbind_def split: sum.splits)
  show ?case
  proof (cases "ac_pending b = ac_pending c")
    case True
    with Cons.prems(2) read_message_pending [OF c(1)] show ?thesis by auto
  next
    case False
    from Cons.IH [OF c(2) False] show ?thesis by auto
  qed
qed simp

lemma response_pending:
  assumes "response_from_agent_result loads ms = Inr r" and "ga_pending_action r = Some j"
  shows "\<exists>s p. ToolMsg s \<in> set ms \<and> loads s = Some p \<and> pending_of p = Some j"
proof -
  let ?a = "\<lparr>ac_message = [], ac_pending = None, ac_metadata = [], ac_latest = None\<rparr>"
  obtain b where "read_messages loads (rev ms) ?a = Inr b" "ac_pending b = Some j"
    using assms by (auto simp: response_from_agent_result_def sbind_def Let_def split: sum.splits)
  with read_messages_pending [of loads "rev ms" ?a b] show ?thesis by auto
qed

lemma context_pending: "pending_of (get_listing_context V l slots) = None"
  by (simp add: pending_of_def get_listing_context_def)

lemma inquiry_pending:
  "pending_of (prepare_inquiry_tool V actor l D req) = Some j \<Longrightarrow>
     truthy actor \<and> (\<exists>u p. get_user_by_id (the actor) D = Some u \<and> get_lead_profile_missing_fields u = [] \<and>
       get_user_profile actor D = Some p \<and>
       j = JObj [(''type'', JText ''lead_inquiry''), (''payload'', JObj [(''message'', JText (draft_inquiry_message V l req p))])])"
  by (auto simp: pending_of_def prepare_inquiry_tool_def get_user_profile_def falsy_def split: if_splits option.splits)

lemma viewing_pending:
  "pending_of (prepare_viewing_tool V now actor l slots conversation req) = Some j \<Longrightarrow>
     truthy actor \<and> (\<exists>s. chosen_slot now req conversation slots = Some s \<and> j = booking_action V req s)"
  by (auto simp: pending_of_def prepare_viewing_tool_def falsy_def booking_action_def split: if_splits option.splits)

lemma head_in: "(case xs of [] \<Rightarrow> None | s # _ \<Rightarrow> Some s) = Some x \<Longrightarrow> x \<in> set xs"
  by (cases xs) auto

lemma chosen_slot_in: "chosen_slot now req conversation slots = Some s \<Longrightarrow> s \<in> set slots"
proof -
  have conv: "match_slot_from_conversation conversation slots = Some s \<Longrightarrow> s \<in> set slots" for s
  proof -
    assume "match_slot_from_conversation conversation slots = Some s"
    then have "s \<in> set (concat (map (\<lambda>m. filter (assistant_message_mentions_slot (assistant_normalize (cm_content m))) slots)
             (filter (\<lambda>m. cm_role m = ''assistant'') (rev conversation))))"
      unfolding match_slot_from_conversation_def by (rule head_in)
    then show ?thesis by auto
  qed
  have query: "match_slot now req slots = Some s \<Longrightarrow> s \<in> set slots" for s
    using first_least_Some by (fastforce simp: match_slot_reference Let_def)
  show "chosen_slot now req conversation slots = Some s \<Longrightarrow> s \<in> set slots"
    using conv query by (auto simp: chosen_slot_def or_else_def split: if_splits option.splits)
qed

definition bookable :: "ctx_env \<Rightarrow> uuid \<Rightarrow> db \<Rightarrow> ListingViewingSlot \<Rightarrow> bool" where
  "bookable E i D s \<longleftrightarrow> s \<in> set (viewing_slots D) \<and> sl_listing_id s = i \<and> sl_status s = ''active'' \<and>
     now_at E \<le> sl_starts_at s \<and> sl_reserved_count s < sl_capacity s"

text \<open>
  C13. Whatever the language model answers and whichever tools it calls, an action that the assistant
  proposes is one its own tools prepared for this listing, and only for a signed-in user: a booking
  of a slot that can be booked now, or an inquiry of a user whose profile is complete. The assistant
  changes nothing itself.
\<close>

theorem proposed_action_is_prepared:
  assumes "runs_tools V" and "send_assistant_message V E actor i message conversation D = Inr r"
    and "ga_pending_action r = Some j"
  shows "\<exists>l. get_listing_by_id i D = Some l \<and> l_status l = ''active'' \<and> truthy actor \<and>
    ((\<exists>s req. bookable E i D s \<and> j = booking_action V req s) \<or>
     (\<exists>u p req. get_user_by_id (the actor) D = Some u \<and> get_lead_profile_missing_fields u = [] \<and>
        get_user_profile actor D = Some p \<and>
        j = JObj [(''type'', JText ''lead_inquiry''), (''payload'', JObj [(''message'', JText (draft_inquiry_message V l req p))])]))"
proof -
  obtain l where l: "get_listing_by_id i D = Some l" "l_status l = ''active''"
    using assms(2) by (auto simp: send_assistant_message_def split: option.splits if_splits)
  let ?slots = "take (av_max_slots V) (list_bookable_by_listing E i D)"
  let ?T = "assistant_tools_for V E actor l ?slots conversation D"
  obtain out r' where out: "av_agent V ?T assistant_system_prompt (build_conversation_messages V conversation message) = Inr out"
    and r': "response_from_agent_result (av_loads V) out = Inr r'" "ga_pending_action r' = Some j"
    using assms(2, 3) l by (auto simp: send_assistant_message_def Let_def sbind_def split: if_splits sum.splits)
  obtain s p where tool: "ToolMsg s \<in> set out" "av_loads V s = Some p" and pending: "pending_of p = Some j"
    using response_pending [OF r'] by blast
  have "p \<in> tool_outputs ?T" using assms(1) out tool unfolding runs_tools_def by blast
  then consider req where "p = prepare_inquiry_tool V actor l D req"
    | req where "p = prepare_viewing_tool V (now_at E) actor l ?slots (py_last 8 conversation) req"
    using pending context_pending by (auto simp: tool_outputs_def assistant_tools_for_def)
  then show ?thesis
  proof cases
    case (1 req)
    with pending inquiry_pending l show ?thesis by blast
  next
    case (2 req)
    with pending viewing_pending chosen_slot_in obtain x where x: "truthy actor" "x \<in> set ?slots" "j = booking_action V req x" by blast
    from x(2) have "bookable E i D x" by (auto simp: list_bookable_by_listing_def bookable_def dest: in_set_takeD)
    with x l show ?thesis by blast
  qed
qed

section \<open>Two actions in one answer\<close>

definition no_tool :: "agent_message \<Rightarrow> bool" where
  "no_tool m \<longleftrightarrow> (case m of ToolMsg s \<Rightarrow> False | _ \<Rightarrow> True)"

lemma read_messages_append:
  "read_messages loads (ms @ ns) a = sbind (read_messages loads ms a) (read_messages loads ns)"
  by (induction ms arbitrary: a) (auto simp: sbind_def split: sum.splits)

lemma read_no_tools:
  "list_all no_tool ms \<Longrightarrow> \<exists>b. read_messages loads ms a = Inr b \<and> ac_pending b = ac_pending a \<and> ac_latest b = ac_latest a"
proof (induction ms arbitrary: a)
  case (Cons m ms)
  then obtain c where "read_message loads m a = Inr c" "ac_pending c = ac_pending a" "ac_latest c = ac_latest a"
    by (auto simp: no_tool_def read_message_def maybe_parse_tool_payload_def split: agent_message.splits)
  moreover obtain b where "read_messages loads ms c = Inr b" "ac_pending b = ac_pending c" "ac_latest b = ac_latest c"
    using Cons.IH [of c] Cons.prems by auto
  ultimately show ?case by (simp add: sbind_def)
qed simp

definition action_payload :: "json \<Rightarrow> bool" where
  "action_payload p \<longleftrightarrow> is_object p \<and> p \<noteq> JObj [] \<and> action_tool p"

lemma read_action:
  assumes "s \<noteq> []" "loads s = Some p" "action_payload p"
    and "ac_pending a \<noteq> None \<or> (\<forall>j. pending_of p = Some j \<longrightarrow> valid_pending j)"
  shows "\<exists>b. read_message loads (ToolMsg s) a = Inr b \<and> ac_pending b = or_else (ac_pending a) (pending_of p) \<and> ac_latest b = Some p"
proof -
  obtain e es where "p = JObj (e # es)" using assms(3) by (cases p) (auto simp: action_payload_def is_object_def neq_Nil_conv)
  with assms show ?thesis
    by (auto simp: read_message_def maybe_parse_tool_payload_def read_payload_def Let_def action_payload_def)
qed

text \<open>
  When the agent prepared two actions, the answer describes the first one and proposes the last
  one: the text the user confirms belongs to another action than the one that is carried out.
\<close>

theorem answer_describes_other_action:
  assumes result: "out = us @ [ToolMsg x] @ vs @ [ToolMsg y] @ ws" and quiet: "list_all no_tool (us @ vs @ ws)"
    and first: "x \<noteq> []" "loads x = Some p" "action_payload p" "message_of p \<noteq> []"
    and second: "y \<noteq> []" "loads y = Some q" "action_payload q" "pending_of q = Some j" "valid_pending j"
  shows "\<exists>r. response_from_agent_result loads out = Inr r \<and> ga_assistant_message r = message_of p \<and> ga_pending_action r = Some j"
proof -
  let ?a = "\<lparr>ac_message = [], ac_pending = None, ac_metadata = [], ac_latest = None\<rparr>"
  from quiet have q: "list_all no_tool (rev us)" "list_all no_tool (rev vs)" "list_all no_tool (rev ws)"
    by (simp_all add: list_all_rev)
  obtain b where b: "read_messages loads (rev ws) ?a = Inr b" "ac_pending b = None" using read_no_tools [OF q(3), of loads ?a] by auto
  obtain c where c: "read_message loads (ToolMsg y) b = Inr c" "ac_pending c = Some j"
    using read_action [where loads = loads and a = b, OF second(1, 2, 3)] second(4, 5) b(2) by (auto simp: or_else_def)
  obtain d where d: "read_messages loads (rev vs) c = Inr d" "ac_pending d = Some j" using read_no_tools [OF q(2), of loads c] c(2) by auto
  obtain e where e: "read_message loads (ToolMsg x) d = Inr e" "ac_pending e = Some j" "ac_latest e = Some p"
    using read_action [where loads = loads and a = d, OF first(1, 2, 3)] d(2) by (auto simp: or_else_def)
  obtain f where f: "read_messages loads (rev us) e = Inr f" "ac_pending f = Some j" "ac_latest f = Some p"
    using read_no_tools [OF q(1), of loads e] e by auto
  have "read_messages loads (rev out) ?a = Inr f"
    using b c d e f by (simp add: result read_messages_append sbind_def)
  with f first(4) show ?thesis by (simp add: response_from_agent_result_def sbind_def or_text_else_def Let_def)
qed

section \<open>Concrete runs\<close>

text \<open>An agent that calls \<open>schedule_viewing\<close> once, and a reader that knows the text this yields.\<close>

definition quiet_assistant :: assistant_env where
  "quiet_assistant = \<lparr>av_agent = (\<lambda>T p ms. Inl ''down''), av_plain_llm = (\<lambda>s. None), av_loads = (\<lambda>s. None),
     av_isoformat = int_text, av_decimal = (\<lambda>r. int_text (floor r)), av_max_context = 10, av_max_slots = 3, av_max_chars = 20,
     av_installed = True, av_endpoint_set = True, av_deployment_set = True\<rparr>"

definition free_slot :: ListingViewingSlot where
  "free_slot = \<lparr>sl_id = ''v1'', sl_listing_id = ''l1'', sl_agency_tenant_id = ''t1'', sl_starts_at = 200, sl_ends_at = 300,
     sl_capacity = 1, sl_reserved_count = 0, sl_status = ''active'', sl_created_by_user_id = None, sl_created_at = 5,
     sl_updated_at = 5\<rparr>"

definition prepared_booking :: json where
  "prepared_booking =
     prepare_viewing_tool quiet_assistant 100 (Some ''u1'') (demo_listing ''l1'' ''active'') [free_slot] [] ''book''"

definition booking_assistant :: assistant_env where
  "booking_assistant = quiet_assistant
     \<lparr>av_agent := (\<lambda>T p ms. if at_viewing T ''book'' = prepared_booking then Inr [ToolMsg ''t''] else Inl ''down''),
      av_loads := (\<lambda>s. if s = ''t'' then Some prepared_booking else None)\<rparr>"

lemma booking_assistant_runs: "runs_tools booking_assistant"
  unfolding runs_tools_def
proof (intro allI impI, elim conjE)
  fix T p ms out s j
  assume "av_agent booking_assistant T p ms = Inr out" "ToolMsg s \<in> set out" "av_loads booking_assistant s = Some j"
  then have "j = at_viewing T ''book''" by (auto simp: booking_assistant_def split: if_splits)
  then show "j \<in> tool_outputs T" by (auto simp: tool_outputs_def)
qed

lemma booking_tool_same:
  "prepare_viewing_tool booking_assistant now actor l slots ms req = prepare_viewing_tool quiet_assistant now actor l slots ms req"
proof -
  have "booking_action booking_assistant = booking_action quiet_assistant"
    by (simp add: booking_action_def booking_assistant_def fun_eq_iff)
  then show ?thesis by (simp add: prepare_viewing_tool_def split: option.split)
qed

lemma free_slot_chosen: "chosen_slot 100 ''book'' [] [free_slot] = Some free_slot"
  by code_simp

lemma book_in_scope: "\<not> is_out_of_scope ''book''"
  by code_simp

lemma prepared_booking_payload:
  "pending_of prepared_booking = Some (booking_action quiet_assistant ''book'' free_slot)"
  "action_payload prepared_booking"
  by (simp_all add: prepared_booking_def prepare_viewing_tool_def truthy_def free_slot_chosen pending_of_def action_payload_def is_object_def
      action_tool_def metadata_of_def json_get.simps falsy_def booking_action_def)

lemma booking_action_valid: "valid_pending (booking_action V req s)"
  by (simp add: valid_pending_def booking_action_def text_field_def json_get.simps)

lemma booking_reply:
  "\<exists>r. response_from_agent_result (av_loads booking_assistant) [ToolMsg ''t''] = Inr r \<and>
     ga_pending_action r = Some (booking_action quiet_assistant ''book'' free_slot)"
proof -
  let ?a = "\<lparr>ac_message = [], ac_pending = None, ac_metadata = [], ac_latest = None\<rparr>"
  obtain b where "read_message (av_loads booking_assistant) (ToolMsg ''t'') ?a = Inr b"
    "ac_pending b = Some (booking_action quiet_assistant ''book'' free_slot)"
    using read_action [of "''t''" "av_loads booking_assistant" prepared_booking ?a] prepared_booking_payload booking_action_valid
    by (auto simp: booking_assistant_def or_else_def)
  then show ?thesis by (simp add: response_from_agent_result_def sbind_def Let_def)
qed

theorem proposed_action_is_prepared_witness:
  "\<exists>r. send_assistant_message booking_assistant demo_env (Some ''u1'') ''l1'' ''book'' [] (demo_db\<lparr>viewing_slots := [free_slot]\<rparr>) = Inr r \<and>
     ga_pending_action r = Some (booking_action quiet_assistant ''book'' free_slot) \<and>
     bookable demo_env ''l1'' (demo_db\<lparr>viewing_slots := [free_slot]\<rparr>) free_slot"
proof -
  let ?D = "demo_db\<lparr>viewing_slots := [free_slot]\<rparr>" and ?l = "demo_listing ''l1'' ''active''"
  obtain r where r: "response_from_agent_result (av_loads booking_assistant) [ToolMsg ''t''] = Inr r"
    "ga_pending_action r = Some (booking_action quiet_assistant ''book'' free_slot)" using booking_reply by blast
  have slots: "take (av_max_slots booking_assistant) (list_bookable_by_listing demo_env ''l1'' ?D) = [free_slot]"
    by (simp add: list_bookable_by_listing_def free_slot_def demo_env_def booking_assistant_def quiet_assistant_def)
  have "at_viewing (assistant_tools_for booking_assistant demo_env (Some ''u1'') ?l [free_slot] [] ?D) ''book'' = prepared_booking"
    by (simp add: assistant_tools_for_def prepared_booking_def booking_tool_same py_last_def demo_env_def)
  then have "av_agent booking_assistant (assistant_tools_for booking_assistant demo_env (Some ''u1'') ?l [free_slot] [] ?D) p ms =
      Inr [ToolMsg ''t'']" for p ms by (simp add: booking_assistant_def)
  moreover have "get_listing_by_id ''l1'' ?D = Some ?l" by code_simp
  ultimately have run: "send_assistant_message booking_assistant demo_env (Some ''u1'') ''l1'' ''book'' [] ?D = Inr r"
    using r slots book_in_scope
    by (simp add: send_assistant_message_def sbind_def demo_listing_def booking_assistant_def quiet_assistant_def)
  from proposed_action_is_prepared [OF booking_assistant_runs run r(2)] have "bookable demo_env ''l1'' ?D free_slot"
    by (auto simp: bookable_def booking_action_def free_slot_def demo_env_def)
  with run r(2) show ?thesis by blast
qed

definition prepared_inquiry :: json where
  "prepared_inquiry = JObj
     [(''assistant_message'', JText ''inquiry''), (''pending_action'', JObj [(''type'', JText ''lead_inquiry''), (''payload'', JObj [])]),
      (''metadata'', JObj [(''tool'', JText ''send_inquiry'')])]"

theorem answer_describes_other_action_witness:
  "\<exists>r. response_from_agent_result (\<lambda>s. if s = ''i'' then Some prepared_inquiry else Some prepared_booking)
       ([] @ [ToolMsg ''i''] @ [] @ [ToolMsg ''b''] @ [AiMsg ''ok'' []]) = Inr r \<and>
     ga_assistant_message r = ''inquiry'' \<and> ga_pending_action r = Some (booking_action quiet_assistant ''book'' free_slot)"
proof -
  have "action_payload prepared_inquiry" "message_of prepared_inquiry = ''inquiry''" by code_simp+
  then show ?thesis
    using answer_describes_other_action [OF refl, of "[]" "[]" "[AiMsg ''ok'' []]" "''i''"
        "\<lambda>s. if s = ''i'' then Some prepared_inquiry else Some prepared_booking" prepared_inquiry "''b''" prepared_booking
        "booking_action quiet_assistant ''book'' free_slot"] prepared_booking_payload booking_action_valid
    by (simp add: no_tool_def)
qed

end
