(* ===== verification/Search.thy ===== *)
theory Search
  imports ListingSearch AgencyAI
begin

text \<open>
  Search assistance: \<open>search/service.py\<close>, \<open>search/repository.py\<close>, \<open>search/schemas.py\<close> and
  \<open>search/router.py\<close>. The language model, the transcription, the JSON reader and the texts of
  Python's and pydantic's exceptions are parameters. Times are in microseconds.
\<close>

section \<open>Logs\<close>

definition LONG_DIGITS :: rx where
  "LONG_DIGITS = Sqs [WordEnd, Many 5 digit, WordEnd]"

definition redact_log_text :: "string option \<Rightarrow> string option" where
  "redact_log_text x = (if \<not> truthy x then None else Some (re_sub False LONG_DIGITS ''[REDACTED]'' (take 200 (the x))))"

definition sanitize_search_log_entry ::
  "string option \<Rightarrow> string \<Rightarrow> json \<Rightarrow> int \<Rightarrow> string option \<Rightarrow> string option \<Rightarrow> string option \<Rightarrow> json" where
  "sanitize_search_log_entry raw_query source_mode filters result_count provider fallback_reason transcript = JObj
     [(''source_mode'', JText source_mode), (''raw_query_redacted'', jopt (redact_log_text raw_query)),
      (''transcript_redacted'', jopt (redact_log_text transcript)), (''filters'', filters),
      (''result_count'', JInt result_count), (''provider'', jopt provider), (''fallback_reason'', jopt fallback_reason)]"

text \<open>What the columns of a log row are when the constructor leaves them out.\<close>

definition blank_search_log :: "ctx_env \<Rightarrow> uuid \<Rightarrow> uuid option \<Rightarrow> SearchLog" where
  "blank_search_log E i user_id =
     \<lparr>sg_id = i, sg_user_id = user_id, sg_agency_tenant_id = None, sg_source_mode = ''manual'', sg_event_type = ''manual_search'',
      sg_raw_query_redacted = None, sg_transcript_redacted = None, sg_intent = None, sg_filters = None, sg_sort = None,
      sg_result_count = 0, sg_provider = None, sg_fallback_reason = None, sg_created_at = now_at E\<rparr>"

definition create_search_log :: "SearchLog \<Rightarrow> db \<Rightarrow> db" where
  "create_search_log g D = D\<lparr>search_logs := search_logs D @ [g]\<rparr>"

definition create_manual_search_log ::
  "ctx_env \<Rightarrow> uuid \<Rightarrow> uuid option \<Rightarrow> json \<Rightarrow> string option \<Rightarrow> int \<Rightarrow> db \<Rightarrow> db" where
  "create_manual_search_log E i user_id filters srt result_count =
     create_search_log ((blank_search_log E i user_id)
       \<lparr>sg_filters := Some filters, sg_sort := srt, sg_result_count := result_count\<rparr>)"

definition create_ai_text_search_log ::
  "ctx_env \<Rightarrow> uuid \<Rightarrow> uuid option \<Rightarrow> string option \<Rightarrow> json option \<Rightarrow> json \<Rightarrow> int \<Rightarrow> string option \<Rightarrow> string option \<Rightarrow> db \<Rightarrow> db" where
  "create_ai_text_search_log E i user_id raw_query_redacted intent filters result_count provider fallback_reason =
     create_search_log ((blank_search_log E i user_id)
       \<lparr>sg_source_mode := ''ai_text'', sg_event_type := ''ai_text_search'', sg_raw_query_redacted := raw_query_redacted,
        sg_intent := intent, sg_filters := Some filters, sg_result_count := result_count, sg_provider := provider,
        sg_fallback_reason := fallback_reason\<rparr>)"

definition create_voice_search_log ::
  "ctx_env \<Rightarrow> uuid \<Rightarrow> uuid option \<Rightarrow> string option \<Rightarrow> json option \<Rightarrow> json \<Rightarrow> int \<Rightarrow> string option \<Rightarrow> string option \<Rightarrow> db \<Rightarrow> db" where
  "create_voice_search_log E i user_id transcript_redacted intent filters result_count provider fallback_reason =
     create_search_log ((blank_search_log E i user_id)
       \<lparr>sg_source_mode := ''voice'', sg_event_type := ''voice_search'', sg_transcript_redacted := transcript_redacted,
        sg_intent := intent, sg_filters := Some filters, sg_result_count := result_count, sg_provider := provider,
        sg_fallback_reason := fallback_reason\<rparr>)"

definition create_confirmation_log ::
  "ctx_env \<Rightarrow> uuid \<Rightarrow> uuid option \<Rightarrow> string \<Rightarrow> json \<Rightarrow> string list option \<Rightarrow> db \<Rightarrow> db" where
  "create_confirmation_log E i user_id source_mode filters edits =
     create_search_log ((blank_search_log E i user_id)
       \<lparr>sg_source_mode := source_mode, sg_event_type := ''search_confirmation'', sg_filters := Some filters,
        sg_intent := (case edits of
           None \<Rightarrow> None
         | Some es \<Rightarrow> if es = [] then None else Some (JObj [(''edits'', JList (map JText es))])),
        sg_result_count := 0\<rparr>)"

text \<open>A tenant \<open>None\<close> compares as \<open>IS NULL\<close>.\<close>

definition search_logs_by_tenant :: "uuid option \<Rightarrow> db \<Rightarrow> SearchLog list" where
  "search_logs_by_tenant tenant_id D =
     sort_key (\<lambda>g. Desc (sg_created_at g)) (filter (\<lambda>g. sg_agency_tenant_id g = tenant_id) (search_logs D))"

definition domain_logs_by_tenant :: "uuid option \<Rightarrow> db \<Rightarrow> DomainEventLog list" where
  "domain_logs_by_tenant tenant_id D =
     sort_key (\<lambda>d. Desc (de_created_at d)) (filter (\<lambda>d. de_agency_tenant_id d = tenant_id) (domain_event_logs D))"

definition list_search_logs ::
  "Common.settings \<Rightarrow> TenantContext option \<Rightarrow> int \<Rightarrow> int \<Rightarrow> db \<Rightarrow> py_exc + SearchLog pagination_result" where
  "list_search_logs st tenant page page_size D =
     sbind (require_tenant tenant) (\<lambda>ctx.
       page_of (search_logs_by_tenant (tc_tenant_id ctx) D) (PaginationRequest st page (Some page_size)))"

definition list_domain_logs ::
  "Common.settings \<Rightarrow> TenantContext option \<Rightarrow> int \<Rightarrow> int \<Rightarrow> db \<Rightarrow> py_exc + DomainEventLog pagination_result" where
  "list_domain_logs st tenant page page_size D =
     sbind (require_tenant tenant) (\<lambda>ctx.
       page_of (domain_logs_by_tenant (tc_tenant_id ctx) D) (PaginationRequest st page (Some page_size)))"

section \<open>Filters\<close>

record ConfirmedSearchFilters =
  cf_q :: "string option"
  cf_city :: "string option"
  cf_location :: "string option"
  cf_property_type :: "string option"
  cf_listing_purpose :: "string option"
  cf_min_price :: "rat option"
  cf_max_price :: "rat option"
  cf_bedrooms :: "int option"
  cf_bathrooms :: "int option"
  cf_parking :: "int option"
  cf_floor :: "int option"
  cf_furnishing :: "string option"
  cf_min_area_size :: "rat option"
  cf_max_area_size :: "rat option"
  cf_sort :: "string option"
  cf_page :: int
  cf_page_size :: int

definition no_filters :: ConfirmedSearchFilters where
  "no_filters =
     \<lparr>cf_q = None, cf_city = None, cf_location = None, cf_property_type = None, cf_listing_purpose = None,
      cf_min_price = None, cf_max_price = None, cf_bedrooms = None, cf_bathrooms = None, cf_parking = None, cf_floor = None,
      cf_furnishing = None, cf_min_area_size = None, cf_max_area_size = None, cf_sort = None, cf_page = 1, cf_page_size = 20\<rparr>"

text \<open>
  A field of the model: a value that fails its validators, or the \<open>v < 0\<close> before them, is \<open>None\<close>;
  the outer option is the failure. Booleans count as numbers, as in Python.
\<close>

definition text_filter :: "(string \<times> json) list \<Rightarrow> string \<Rightarrow> string option option" where
  "text_filter data key =
     (case map_of data key of None \<Rightarrow> Some None | Some (JText s) \<Rightarrow> Some (Some s) | _ \<Rightarrow> None)"

definition float_filter :: "(string \<times> json) list \<Rightarrow> string \<Rightarrow> rat option option" where
  "float_filter data key =
     (case map_of data key of
        None \<Rightarrow> Some None
      | Some (JBool b) \<Rightarrow> Some (Some (if b then 1 else 0))
      | Some (JInt n) \<Rightarrow> if n < 0 then None else Some (Some (of_int n))
      | Some (JNum x) \<Rightarrow> if x < 0 then None else Some (Some x)
      | _ \<Rightarrow> None)"

definition int_filter :: "(string \<times> json) list \<Rightarrow> string \<Rightarrow> int option option" where
  "int_filter data key =
     (case map_of data key of
        None \<Rightarrow> Some None
      | Some (JBool b) \<Rightarrow> Some (Some (if b then 1 else 0))
      | Some (JInt n) \<Rightarrow> if n < 0 then None else Some (Some n)
      | Some (JNum x) \<Rightarrow> if x < 0 \<or> of_int (floor x) \<noteq> x then None else Some (Some (floor x))
      | _ \<Rightarrow> None)"

definition make_filters :: "(string \<times> json) list \<Rightarrow> ConfirmedSearchFilters option" where
  "make_filters data =
     Option.bind (text_filter data ''q'') (\<lambda>q.
     Option.bind (text_filter data ''city'') (\<lambda>city.
     Option.bind (text_filter data ''location'') (\<lambda>location.
     Option.bind (text_filter data ''property_type'') (\<lambda>property_type.
     Option.bind (text_filter data ''listing_purpose'') (\<lambda>listing_purpose.
     Option.bind (float_filter data ''min_price'') (\<lambda>min_price.
     Option.bind (float_filter data ''max_price'') (\<lambda>max_price.
     Option.bind (int_filter data ''bedrooms'') (\<lambda>bedrooms.
     Option.bind (int_filter data ''bathrooms'') (\<lambda>bathrooms.
     Option.bind (int_filter data ''parking'') (\<lambda>parking.
     Option.bind (int_filter data ''floor'') (\<lambda>floor_no.
     Option.bind (text_filter data ''furnishing'') (\<lambda>furnishing.
     Option.bind (float_filter data ''min_area_size'') (\<lambda>min_area.
     Option.bind (float_filter data ''max_area_size'') (\<lambda>max_area.
     Option.bind (text_filter data ''sort'') (\<lambda>srt.
     Option.bind (int_filter data ''page'') (\<lambda>page.
     Option.bind (int_filter data ''page_size'') (\<lambda>page_size.
       Some \<lparr>cf_q = q, cf_city = city, cf_location = location, cf_property_type = property_type,
             cf_listing_purpose = listing_purpose, cf_min_price = min_price, cf_max_price = max_price, cf_bedrooms = bedrooms,
             cf_bathrooms = bathrooms, cf_parking = parking, cf_floor = floor_no, cf_furnishing = furnishing,
             cf_min_area_size = min_area, cf_max_area_size = max_area, cf_sort = srt,
             cf_page = (case page of None \<Rightarrow> 1 | Some n \<Rightarrow> n),
             cf_page_size = (case page_size of None \<Rightarrow> 20 | Some n \<Rightarrow> n)\<rparr>)))))))))))))))))"

section \<open>Intents\<close>

record UnclearLocation =
  ul_phrase :: string
  ul_reason :: string
  ul_suggested_action :: "string option"
  ul_resolved_city :: "string option"

record SearchIntent =
  si_source_mode :: string
  si_filters :: ConfirmedSearchFilters
  si_confidence :: string
  si_raw_query :: "string option"
  si_transcript :: "string option"
  si_provider :: "string option"
  si_fallback_reason :: "string option"
  si_unclear_location :: "UnclearLocation option"

record intent_env =
  ie_chat :: "chat_message list \<Rightarrow> string + (string \<times> string option)"
  ie_loads :: "string \<Rightarrow> string + json"
  ie_invalid :: "(string \<times> json) list \<Rightarrow> string"
  ie_transcribe :: "string \<Rightarrow> string \<Rightarrow> py_exc + string option"

definition extraction_prompt :: string where
  "extraction_prompt =
     ''Extract property search filters from the user query as JSON. '' @
     ''Return ONLY valid JSON with keys from: city, location, property_type, listing_purpose, '' @
     ''min_price, max_price, bedrooms, bathrooms, parking, floor, furnishing, '' @
     ''min_area_size, max_area_size. '' @
     ''Use null for missing fields. Example: {'' @ [CHR 0x22] @ ''city'' @ [CHR 0x22] @ '': '' @ [CHR 0x22] @ ''Beirut'' @
     [CHR 0x22] @ '', '' @ [CHR 0x22] @ ''bedrooms'' @ [CHR 0x22] @ '': 2}''"

definition VAGUE_PATTERNS :: "string list" where
  "VAGUE_PATTERNS = [''near'', ''close to'', ''around'', ''somewhere'', ''anywhere'', ''vicinity'']"

definition is_vague :: "string \<Rightarrow> bool" where
  "is_vague location = list_ex (\<lambda>w. re_search False (Lit w) (py_lower location)) VAGUE_PATTERNS"

text \<open>\<open>data.get("location") or data.get("city", "")\<close>; \<open>None\<close> when it is no text but not empty.\<close>

definition raw_location :: "(string \<times> json) list \<Rightarrow> json" where
  "raw_location data =
     (case map_of data ''location'' of
        Some j \<Rightarrow> if falsy j then (case map_of data ''city'' of None \<Rightarrow> JText [] | Some c \<Rightarrow> c) else j
      | None \<Rightarrow> (case map_of data ''city'' of None \<Rightarrow> JText [] | Some c \<Rightarrow> c))"

definition unclear :: "string \<Rightarrow> UnclearLocation" where
  "unclear phrase = \<lparr>ul_phrase = phrase, ul_reason = ''vague_area'', ul_suggested_action = Some ''select_city'', ul_resolved_city = None\<rparr>"

text \<open>A vague location is taken out of the filters and reported.\<close>

definition split_location :: "(string \<times> json) list \<Rightarrow> ((string \<times> json) list \<times> UnclearLocation option) option" where
  "split_location data =
     (case raw_location data of
        JText s \<Rightarrow>
          Some (if s \<noteq> [] \<and> is_vague s then (filter (\<lambda>(k, v). k \<noteq> ''location'' \<and> k \<noteq> ''city'') data, Some (unclear s))
                else (data, None))
      | j \<Rightarrow> if falsy j then Some (data, None) else None)"

text \<open>The object that \<open>json.loads\<close> returns is a dictionary: each key once.\<close>

definition read_filters :: "intent_env \<Rightarrow> json \<Rightarrow> string + (ConfirmedSearchFilters \<times> UnclearLocation option)" where
  "read_filters V j =
     (case j of
        JObj entries \<Rightarrow>
          (let data = AList.clearjunk entries
           in (case split_location data of
                 None \<Rightarrow> Inl (ie_invalid V data)
               | Some (kept, u) \<Rightarrow>
                   (case make_filters (filter (\<lambda>(k, v). v \<noteq> JNull) kept) of
                      None \<Rightarrow> Inl (ie_invalid V kept) | Some f \<Rightarrow> Inr (f, u))))
      | _ \<Rightarrow> Inl (ie_invalid V []))"

definition read_intent :: "intent_env \<Rightarrow> string \<Rightarrow> string + (ConfirmedSearchFilters \<times> UnclearLocation option \<times> string option)" where
  "read_intent V q =
     (case ie_chat V [\<lparr>cm_role = ''system'', cm_content = extraction_prompt\<rparr>, \<lparr>cm_role = ''user'', cm_content = q\<rparr>] of
        Inl e \<Rightarrow> Inl e
      | Inr (answer, model) \<Rightarrow>
          (case braces answer of
             None \<Rightarrow> Inl ''No JSON in response''
           | Some inner \<Rightarrow>
               (case ie_loads V inner of
                  Inl e \<Rightarrow> Inl e
                | Inr j \<Rightarrow> (case read_filters V j of Inl e \<Rightarrow> Inl e | Inr (f, u) \<Rightarrow> Inr (f, u, model)))))"

definition extract_search_intent :: "intent_env \<Rightarrow> string \<Rightarrow> SearchIntent" where
  "extract_search_intent V q =
     (case read_intent V q of
        Inr (f, u, model) \<Rightarrow>
          \<lparr>si_source_mode = ''ai_text'', si_filters = f, si_confidence = ''high'', si_raw_query = Some q, si_transcript = None,
           si_provider = model, si_fallback_reason = None, si_unclear_location = u\<rparr>
      | Inl e \<Rightarrow>
          \<lparr>si_source_mode = ''ai_text'', si_filters = no_filters, si_confidence = ''fallback'', si_raw_query = Some q,
           si_transcript = None, si_provider = None, si_fallback_reason = Some (take 200 e), si_unclear_location = None\<rparr>)"

record VoiceSearchResponse =
  vr_transcript :: string
  vr_provider :: string
  vr_confidence :: string
  vr_intent :: SearchIntent

definition voice_empty :: py_exc where
  "voice_empty =
     AppException 422 (''We couldn'' @ [CHR 0x27] @ ''t detect speech in that recording. Try again or type your search instead.'')
       (Some ''VOICE_TRANSCRIPTION_EMPTY'') []"

definition voice_unavailable :: py_exc where
  "voice_unavailable =
     ServiceUnavailableError ''Voice transcription is unavailable right now. Try again or type your search instead.''
       ''VOICE_TRANSCRIPTION_UNAVAILABLE''"

definition transcribe_and_extract :: "intent_env \<Rightarrow> string \<Rightarrow> string \<Rightarrow> py_exc + VoiceSearchResponse" where
  "transcribe_and_extract V audio content_type =
     (case ie_transcribe V audio content_type of
        Inl (AppException c d k h) \<Rightarrow> Inl (AppException c d k h)
      | Inl e \<Rightarrow> Inl voice_unavailable
      | Inr x \<Rightarrow>
          if \<not> truthy x \<or> py_strip (the x) = [] then Inl voice_empty
          else
            (let s = the x
             in Inr \<lparr>vr_transcript = s, vr_provider = ''azure_whisper'', vr_confidence = ''usable'',
                     vr_intent = (extract_search_intent V s)\<lparr>si_source_mode := ''voice'', si_transcript := Some s\<rparr>\<rparr>))"

section \<open>Routes\<close>

definition extract_intent_route ::
  "search_limits \<Rightarrow> rate_settings \<Rightarrow> intent_env \<Rightarrow> timestamp \<Rightarrow> string \<Rightarrow> string \<Rightarrow> 'v redis
     \<Rightarrow> (py_exc + SearchIntent \<times> UnclearLocation option) \<times> 'v redis" where
  "extract_intent_route c st V now client_ip q r =
     (case check_search_rate_limit c st now ''ai_text'' client_ip r of
        (Inl e, r1) \<Rightarrow> (Inl e, r1)
      | (Inr allowed, r1) \<Rightarrow>
          if \<not> allowed then (Inl (RateLimitExceededError ''Too many AI-search requests. Please try again later.''), r1)
          else (let intent = extract_search_intent V q in (Inr (intent, si_unclear_location intent), r1)))"

definition log_search_confirmation ::
  "ctx_env \<Rightarrow> uuid \<Rightarrow> string \<Rightarrow> json \<Rightarrow> string list option \<Rightarrow> db \<Rightarrow> db" where
  "log_search_confirmation E i source_mode confirmed_filters edits = create_confirmation_log E i None source_mode confirmed_filters edits"

record voice_settings =
  vs_allowed_content_types :: "string list"
  vs_max_file_size_mb :: nat

definition voice_search ::
  "search_limits \<Rightarrow> rate_settings \<Rightarrow> voice_settings \<Rightarrow> intent_env \<Rightarrow> timestamp \<Rightarrow> string \<Rightarrow> string option \<Rightarrow> string \<Rightarrow> 'v redis
     \<Rightarrow> (py_exc + VoiceSearchResponse) \<times> 'v redis" where
  "voice_search c st vs V now client_ip content_type audio r =
     (case check_search_rate_limit c st now ''voice'' client_ip r of
        (Inl e, r1) \<Rightarrow> (Inl e, r1)
      | (Inr allowed, r1) \<Rightarrow>
          (let ty = (if truthy content_type then the content_type else ''audio/wav'');
               max_bytes = vs_max_file_size_mb vs * 1024 * 1024;
               audio_bytes = take (max_bytes + 1) audio
           in if \<not> allowed then (Inl (RateLimitExceededError ''Too many voice search requests. Please try again later.''), r1)
              else if ty \<notin> set (vs_allowed_content_types vs)
              then (Inl (AppException 415 (''Unsupported audio format: '' @ ty) (Some ''UNSUPPORTED_AUDIO_FORMAT'') []), r1)
              else if max_bytes < length audio_bytes
              then (Inl (AppException 413 (''Audio recording exceeds the '' @ nat_text (vs_max_file_size_mb vs) @ ''MB limit.'')
                          (Some ''AUDIO_FILE_TOO_LARGE'') []), r1)
              else (transcribe_and_extract V audio_bytes ty, r1)))"

end
