(* ===== verification/SearchProps.thy ===== *)
theory SearchProps
  imports Search Demo
begin

text \<open>
  Search assistance: what the filters that a language model proposes can be, the vague city that
  stays in them, and the search log of an agency, which is always empty.
\<close>

section \<open>Proposed filters\<close>

definition nonneg :: "'a::{zero, ord} option \<Rightarrow> bool" where
  "nonneg x \<longleftrightarrow> (case x of None \<Rightarrow> True | Some v \<Rightarrow> 0 \<le> v)"

definition sound_numbers :: "ConfirmedSearchFilters \<Rightarrow> bool" where
  "sound_numbers f \<longleftrightarrow>
     nonneg (cf_min_price f) \<and> nonneg (cf_max_price f) \<and> nonneg (cf_bedrooms f) \<and> nonneg (cf_bathrooms f) \<and>
     nonneg (cf_parking f) \<and> nonneg (cf_floor f) \<and> nonneg (cf_min_area_size f) \<and> nonneg (cf_max_area_size f) \<and>
     0 \<le> cf_page f \<and> 0 \<le> cf_page_size f"

text \<open>The place that is searched, the location before the city, is not vague.\<close>

definition settled_place :: "ConfirmedSearchFilters \<Rightarrow> bool" where
  "settled_place f \<longleftrightarrow>
     (case cf_location f of
        Some l \<Rightarrow> \<not> is_vague l
      | None \<Rightarrow> (case cf_city f of Some c \<Rightarrow> \<not> is_vague c | None \<Rightarrow> True))"

lemma float_filter_nonneg: "float_filter data key = Some x \<Longrightarrow> nonneg x"
  by (auto simp: float_filter_def nonneg_def split: option.splits json.splits if_splits)

lemma int_filter_nonneg: "int_filter data key = Some x \<Longrightarrow> nonneg x"
  by (auto simp: int_filter_def nonneg_def split: option.splits json.splits if_splits)

lemmas filter_numbers = float_filter_nonneg int_filter_nonneg

lemma int_filter_default:
  "int_filter data key = Some x \<Longrightarrow> 0 \<le> (case x of None \<Rightarrow> 1 | Some n \<Rightarrow> n)"
  "int_filter data key = Some x \<Longrightarrow> 0 \<le> (case x of None \<Rightarrow> 20 | Some n \<Rightarrow> n)"
  by (auto simp: int_filter_def split: option.splits json.splits if_splits)

lemma make_filters_sound: "make_filters data = Some f \<Longrightarrow> sound_numbers f"
  unfolding make_filters_def
  by (auto simp: bind_eq_Some_conv sound_numbers_def intro: filter_numbers int_filter_default)

lemma make_filters_place:
  "make_filters data = Some f \<Longrightarrow>
     text_filter data ''location'' = Some (cf_location f) \<and> text_filter data ''city'' = Some (cf_city f)"
  unfolding make_filters_def by (auto simp: bind_eq_Some_conv)

lemma map_of_not_null:
  "distinct (map fst xs) \<Longrightarrow> map_of (filter (\<lambda>(k, v). v \<noteq> JNull) xs) key = Some v \<longleftrightarrow> map_of xs key = Some v \<and> v \<noteq> JNull"
proof -
  assume d: "distinct (map fst xs)"
  then have "distinct (map fst (filter (\<lambda>(k, v). v \<noteq> JNull) xs))" by (rule distinct_map_filter)
  with d show ?thesis by (simp add: map_of_eq_Some_iff)
qed

lemma text_filter_not_null:
  assumes "distinct (map fst xs)" and "text_filter (filter (\<lambda>(k, v). v \<noteq> JNull) xs) key = Some x"
  shows "case x of Some s \<Rightarrow> map_of xs key = Some (JText s) | None \<Rightarrow> map_of xs key = None \<or> map_of xs key = Some JNull"
proof (cases "map_of (filter (\<lambda>(k, v). v \<noteq> JNull) xs) key")
  case None
  with assms have "x = None" "\<not> (\<exists>v. map_of xs key = Some v \<and> v \<noteq> JNull)"
    using map_of_not_null [OF assms(1), of key] by (auto simp: text_filter_def)
  then show ?thesis by (cases "map_of xs key") auto
next
  case (Some v)
  with assms map_of_not_null [OF assms(1)] show ?thesis by (auto simp: text_filter_def split: json.splits)
qed

lemma vague_empty [simp]: "\<not> is_vague []"
  by code_simp

lemma no_filters_sound: "sound_numbers no_filters" "settled_place no_filters"
  by (simp_all add: sound_numbers_def settled_place_def no_filters_def nonneg_def)

lemma read_filters_sound:
  assumes "read_filters V j = Inr (f, u)"
  shows "sound_numbers f" "settled_place f" "case u of None \<Rightarrow> True | Some x \<Rightarrow> cf_location f = None \<and> cf_city f = None \<and> is_vague (ul_phrase x)"
proof -
  obtain es kept where split: "split_location (AList.clearjunk es) = Some (kept, u)"
    and made: "make_filters (filter (\<lambda>(k, v). v \<noteq> JNull) kept) = Some f"
    using assms by (auto simp: read_filters_def Let_def split: json.splits option.splits)
  let ?d = "AList.clearjunk es"
  have distinct: "distinct (map fst ?d)" by (simp add: distinct_clearjunk)
  show "sound_numbers f" by (rule make_filters_sound [OF made])
  consider (vague) s where "raw_location ?d = JText s" "is_vague s" "kept = filter (\<lambda>(k, v). k \<noteq> ''location'' \<and> k \<noteq> ''city'') ?d" "u = Some (unclear s)"
    | (clear) "kept = ?d" "u = None" "case raw_location ?d of JText s \<Rightarrow> \<not> is_vague s | _ \<Rightarrow> True"
    using split by (auto simp: split_location_def split: json.splits if_splits)
  then have "settled_place f \<and> (case u of None \<Rightarrow> True | Some x \<Rightarrow> cf_location f = None \<and> cf_city f = None \<and> is_vague (ul_phrase x))"
  proof cases
    case vague
    have "map_of (filter P xs) key = None" if "\<And>v. \<not> P (key, v)" for P key and xs :: "(string \<times> json) list"
      using that by (auto simp: map_of_eq_None_iff)
    then have "text_filter (filter (\<lambda>(k, v). v \<noteq> JNull) kept) key = Some None" if "key \<in> {''location'', ''city''}" for key
      using that by (auto simp: text_filter_def vague(3))
    then show ?thesis using make_filters_place [OF made] vague by (simp add: settled_place_def unclear_def)
  next
    case clear
    note l = text_filter_not_null [OF distinct, of "''location''" "cf_location f"]
    note c = text_filter_not_null [OF distinct, of "''city''" "cf_city f"]
    show ?thesis
      using make_filters_place [OF made] clear l c
      by (auto simp: settled_place_def raw_location_def falsy_def split: option.splits if_splits)
  qed
  then show "settled_place f" "case u of None \<Rightarrow> True | Some x \<Rightarrow> cf_location f = None \<and> cf_city f = None \<and> is_vague (ul_phrase x)"
    by blast+
qed

text \<open>
  Whatever the language model answers, the intent search always gets an answer: either the
  fallback with no filter at all, or filters whose numbers are not negative and whose first place (the
  location, or the city when there is no location) is not vague. A vague place is reported and then neither location nor city is a filter.
\<close>

theorem intent_filters_sound:
  "sound_numbers (si_filters (extract_search_intent V q)) \<and> settled_place (si_filters (extract_search_intent V q)) \<and>
   (case si_fallback_reason (extract_search_intent V q) of
      Some e \<Rightarrow> si_filters (extract_search_intent V q) = no_filters \<and> length e \<le> 200
    | None \<Rightarrow> (case si_unclear_location (extract_search_intent V q) of
        None \<Rightarrow> True
      | Some x \<Rightarrow> cf_location (si_filters (extract_search_intent V q)) = None \<and>
          cf_city (si_filters (extract_search_intent V q)) = None \<and> is_vague (ul_phrase x)))"
proof (cases "read_intent V q")
  case (Inl e)
  then show ?thesis by (simp add: extract_search_intent_def no_filters_sound)
next
  case (Inr x)
  obtain f u model where x: "x = (f, u, model)" by (cases x) auto
  obtain j where "read_filters V j = Inr (f, u)"
    using Inr by (auto simp: x read_intent_def split: sum.splits prod.splits option.splits)
  from read_filters_sound [OF this] show ?thesis by (cases u) (simp_all add: extract_search_intent_def Inr x)
qed

text \<open>
  A vague city is not noticed when a location is given beside it: only one of the two is looked at.
\<close>

lemma vague_city_survives:
  assumes "map_of data ''location'' = Some (JText l)" "l \<noteq> []" "\<not> is_vague l" "map_of data ''city'' = Some (JText c)"
    and "read_filters V (JObj data) = Inr (f, u)"
  shows "cf_city f = Some c \<and> u = None"
proof -
  let ?d = "AList.clearjunk data"
  have d: "map_of ?d key = map_of data key" for key by (simp add: map_of_clearjunk)
  then have split: "split_location ?d = Some (?d, None)" using assms(1-3) by (simp add: split_location_def raw_location_def falsy_def)
  then have made: "make_filters (filter (\<lambda>(k, v). v \<noteq> JNull) ?d) = Some f" "u = None"
    using assms(5) by (auto simp: read_filters_def Let_def split: option.splits)
  have "map_of (filter (\<lambda>(k, v). v \<noteq> JNull) ?d) ''city'' = Some (JText c)"
    using assms(4) by (subst map_of_not_null) (simp_all add: d distinct_clearjunk)
  with made make_filters_place [OF made(1)] show ?thesis by (simp add: text_filter_def)
qed

section \<open>The search log of an agency\<close>

text \<open>The requests that write search logs.\<close>

inductive logs_run :: "db \<times> cached redis \<Rightarrow> db \<times> cached redis \<Rightarrow> bool" where
  logs_start: "logs_run w w"
| logs_search: "logs_run w v \<Longrightarrow> public_search_listings S st E ip actor f srt page page_size cursor v = (x, v') \<Longrightarrow> logs_run w v'"
| logs_confirm: "logs_run w v \<Longrightarrow> logs_run w (log_search_confirmation E i mode filters edits (fst v), snd v)"

definition unowned :: "db \<Rightarrow> bool" where
  "unowned D \<longleftrightarrow> list_all (\<lambda>g. sg_agency_tenant_id g = None) (search_logs D)"

lemma log_search_event_unowned: "unowned (fst w) \<Longrightarrow> unowned (fst (log_search_event E i u fs srt n w))"
  by (simp add: unowned_def log_search_event_def)

lemma search_unowned:
  "unowned (fst v) \<Longrightarrow> unowned (fst (snd (public_search_listings S st E ip actor f srt page page_size cursor v)))"
  by (simp add: public_search_listings_def Let_def log_search_event_unowned split: prod.split sum.split option.split cached.split)

lemma confirm_unowned: "unowned D \<Longrightarrow> unowned (log_search_confirmation E i mode filters edits D)"
  by (simp add: unowned_def log_search_confirmation_def create_confirmation_log_def create_search_log_def blank_search_log_def)

lemma logs_run_unowned: "logs_run w v \<Longrightarrow> unowned (fst w) \<Longrightarrow> unowned (fst v)"
proof (induction rule: logs_run.induct)
  case (logs_search w v S st E ip actor f srt page page_size cursor x v')
  with search_unowned [of v S st E ip actor f srt page page_size cursor] show ?case by simp
qed (simp_all add: confirm_unowned)

text \<open>
  The search log of an agency stays empty: after any searches and confirmations, whoever made
  them, no row carries a tenant, and every page of the log that an agency reads has no item.
\<close>

theorem agency_search_log_stays_empty:
  assumes "logs_run w v" and "search_logs (fst w) = []"
    and "require_tenant tenant = Inr ctx" and "tc_tenant_id ctx = Some t"
    and "list_search_logs st tenant page page_size (fst v) = Inr result"
  shows "pr_items result = [] \<and> pr_total result = 0"
proof -
  have "unowned (fst v)" using logs_run_unowned [OF assms(1)] assms(2) by (simp add: unowned_def)
  then have "search_logs_by_tenant (Some t) (fst v) = []"
    by (auto simp: search_logs_by_tenant_def unowned_def list_all_iff filter_empty_conv sort_key_simps)
  with assms(3-5) show ?thesis
    by (auto simp: list_search_logs_def sbind_def page_of_def sql_page_def PaginationResult_def offset_limit_def split: if_splits)
qed

theorem agency_search_log_stays_empty_witness:
  "\<exists>v result. logs_run (demo_db, Map.empty) v \<and> length (search_logs (fst v)) = 1 \<and>
     list_search_logs default_settings (Some demo_ctx) 1 20 (fst v) = Inr result \<and> pr_items result = [] \<and> pr_total result = 0"
proof -
  let ?v = "(log_search_confirmation demo_env ''g1'' ''ai_text'' JNull None demo_db, Map.empty) :: db \<times> cached redis"
  have run: "logs_run (demo_db, Map.empty) ?v" using logs_confirm [OF logs_start, of "(demo_db, Map.empty)"] by simp
  have ctx: "require_tenant (Some demo_ctx) = Inr demo_ctx" "tc_tenant_id demo_ctx = Some ''t1''"
    by (simp_all add: require_tenant_def demo_ctx_def)
  obtain result where page: "list_search_logs default_settings (Some demo_ctx) 1 20 (fst ?v) = Inr result"
    by (simp add: list_search_logs_def ctx(1) sbind_def page_of_def sql_page_def PaginationRequest_def default_settings_def
        pg_offset_def pg_limit_def)
  have "length (search_logs (fst ?v)) = 1"
    by (simp add: log_search_confirmation_def create_confirmation_log_def create_search_log_def demo_db_def empty_db_def)
  with agency_search_log_stays_empty [OF run _ ctx page] run page show ?thesis by (auto simp: demo_db_def empty_db_def)
qed

end
