(* ===== verification/Dashboard.thy ===== *)
theory Dashboard
  imports Search Assistant Redaction
begin

text \<open>
  The platform dashboard: \<open>admin/query_service.py\<close>, \<open>admin/service.py\<close>, the routes of \<open>admin/router.py\<close>
  and \<open>audit/feature_mapping.py\<close>. Dates are day numbers, times microseconds, both in UTC. Parameters
  are the rounding of a float to four digits, the microseconds of a \<open>timedelta\<close> of float seconds,
  Python's text of a JSON value that is no text, the digest of a cache key and the texts of dates.
\<close>

record City =
  ci_id :: uuid
  ci_name :: string
  ci_country :: string
  ci_is_active :: bool

record dash_env =
  dv_edge :: "int \<Rightarrow> nat \<Rightarrow> nat \<Rightarrow> int"
  dv_round :: "rat \<Rightarrow> rat"
  dv_str :: "json \<Rightarrow> string"
  dv_pii :: pii_env
  dv_digest :: "(string \<times> json) list \<Rightarrow> string"
  dv_date :: "int \<Rightarrow> string"
  dv_time :: "timestamp \<Rightarrow> string"
  dv_max_window_days :: int
  dv_insights_ttl :: int
  dv_audit_ttl :: int
  dv_audit_max_page_size :: int
  dv_top_limit :: nat
  dv_buckets :: int

section \<open>Scope\<close>

record DashboardFilterScope =
  sc_date_from :: int
  sc_date_to :: int
  sc_range_preset :: string
  sc_city :: "string option"
  sc_property_type :: "string option"
  sc_listing_purpose :: "string option"

definition RANGE_PRESETS :: "string list" where
  "RANGE_PRESETS = [''last_7_days'', ''last_30_days'', ''last_90_days'', ''custom'']"

definition or_custom :: "string option \<Rightarrow> string" where
  "or_custom preset = (if truthy preset then the preset else ''custom'')"

definition normalize_scope ::
  "dash_env \<Rightarrow> int \<Rightarrow> int \<Rightarrow> string option \<Rightarrow> string option \<Rightarrow> string option \<Rightarrow> string option \<Rightarrow> py_exc + DashboardFilterScope" where
  "normalize_scope V df dt range_preset city property_type listing_purpose =
     (if dt < df then Inl (ValueError ''date_from must be on or before date_to'')
      else if dv_max_window_days V < dt - df
      then Inl (ValueError (''Requested window of '' @ int_text (dt - df) @ '' days exceeds the platform maximum of '' @
             int_text (dv_max_window_days V) @ '' days.''))
      else if or_custom range_preset \<notin> set RANGE_PRESETS
      then Inl (ValueError (''Unsupported range_preset: '' @ or_custom range_preset))
      else Inr \<lparr>sc_date_from = df, sc_date_to = dt, sc_range_preset = or_custom range_preset, sc_city = city,
                sc_property_type = property_type, sc_listing_purpose = listing_purpose\<rparr>)"

definition day_start :: "int \<Rightarrow> timestamp" where
  "day_start d = d * seconds 86400"

section \<open>Filter values\<close>

definition budget_of :: "rat \<Rightarrow> string" where
  "budget_of price =
     (if price < 50000 then ''<50k'' else if price < 100000 then ''50k-100k'' else if price < 250000 then ''100k-250k''
      else if price < 500000 then ''250k-500k'' else if price < 1000000 then ''500k-1M'' else ''1M+'')"

text \<open>Comparing a text, a list or a dictionary with a number is a \<open>TypeError\<close>.\<close>

definition budget_band :: "json \<Rightarrow> py_exc + string" where
  "budget_band price =
     (case price of
        JNull \<Rightarrow> Inr ''unknown''
      | JBool b \<Rightarrow> Inr (budget_of (if b then 1 else 0))
      | JInt n \<Rightarrow> Inr (budget_of (of_int n))
      | JNum x \<Rightarrow> Inr (budget_of x)
      | _ \<Rightarrow> Inl (TypeError ''not supported between instances''))"

definition nonblank :: "string \<Rightarrow> string list" where
  "nonblank s = (if py_strip s = [] then [] else [py_strip s])"

fun normalize_filter_values :: "(json \<Rightarrow> string) \<Rightarrow> json \<Rightarrow> string list" where
  "normalize_filter_values show JNull = []"
| "normalize_filter_values show (JText s) = nonblank s"
| "normalize_filter_values show (JList items) = concat (map (normalize_filter_values show) items)"
| "normalize_filter_values show (JBool b) = nonblank (show (JBool b))"
| "normalize_filter_values show (JInt n) = nonblank (show (JInt n))"
| "normalize_filter_values show (JNum x) = nonblank (show (JNum x))"
| "normalize_filter_values show (JObj entries) = nonblank (show (JObj entries))"

text \<open>An entry of a dictionary, \<open>None\<close> when it is missing.\<close>

definition get_or_null :: "json \<Rightarrow> string \<Rightarrow> json" where
  "get_or_null j key = (case json_get j key of None \<Rightarrow> JNull | Some v \<Rightarrow> v)"

fun known_cities :: "(string \<Rightarrow> string option) \<Rightarrow> string list \<Rightarrow> string list \<Rightarrow> string list" where
  "known_cities lookup seen [] = []"
| "known_cities lookup seen (c # cs) =
     (case lookup (py_lower c) of
        None \<Rightarrow> known_cities lookup seen cs
      | Some n \<Rightarrow> if n \<in> set seen then known_cities lookup seen cs else n # known_cities lookup (n # seen) cs)"

definition normalize_known_cities :: "dash_env \<Rightarrow> (string \<Rightarrow> string option) \<Rightarrow> json \<Rightarrow> string list" where
  "normalize_known_cities V lookup value = known_cities lookup [] (normalize_filter_values (dv_str V) value)"

definition filter_contains_value :: "dash_env \<Rightarrow> json \<Rightarrow> string \<Rightarrow> bool" where
  "filter_contains_value V value expected =
     (let e = py_lower (py_strip expected)
      in e \<noteq> [] \<and> list_ex (\<lambda>c. py_lower c = e) (normalize_filter_values (dv_str V) value))"

definition wants :: "string option \<Rightarrow> json \<Rightarrow> bool" where
  "wants expected actual \<longleftrightarrow> (if truthy expected then actual = JText (the expected) else True)"

definition matches_filter_scope :: "dash_env \<Rightarrow> json option \<Rightarrow> DashboardFilterScope \<Rightarrow> bool" where
  "matches_filter_scope V filters s =
     (case filters of
        Some (JObj (e # es)) \<Rightarrow>
          (let f = JObj (e # es)
           in (if truthy (sc_city s) then filter_contains_value V (get_or_null f ''city'') (the (sc_city s)) else True) \<and>
              wants (sc_property_type s) (get_or_null f ''property_type'') \<and>
              wants (sc_listing_purpose s) (get_or_null f ''listing_purpose''))
      | _ \<Rightarrow> True)"

section \<open>Reads\<close>

definition fetch_search_logs_for_scope :: "dash_env \<Rightarrow> DashboardFilterScope \<Rightarrow> db \<Rightarrow> SearchLog list" where
  "fetch_search_logs_for_scope V s D =
     filter (\<lambda>g. matches_filter_scope V (sg_filters g) s)
       (sort_key sg_created_at
         (filter (\<lambda>g. day_start (sc_date_from s) \<le> sg_created_at g \<and> sg_created_at g < day_start (sc_date_to s + 1)) (search_logs D)))"

definition equals_column :: "string option \<Rightarrow> string option \<Rightarrow> bool" where
  "equals_column wanted column \<longleftrightarrow> (if truthy wanted then column = wanted else True)"

definition fetch_listing_inventory_for_scope :: "DashboardFilterScope \<Rightarrow> db \<Rightarrow> Listing list" where
  "fetch_listing_inventory_for_scope s D =
     filter (\<lambda>l. l_status l \<noteq> ''archived'' \<and>
         (if truthy (sc_city s) then map_option py_lower (l_city l) = Some (py_lower (the (sc_city s))) else True) \<and>
         equals_column (sc_property_type s) (l_property_type l) \<and> equals_column (sc_listing_purpose s) (l_listing_purpose l))
       (listings D)"

definition fetch_active_city_lookup :: "City list \<Rightarrow> string \<Rightarrow> string option" where
  "fetch_active_city_lookup cities name =
     (if name \<noteq> [] \<and> name \<in> set (map (\<lambda>c. py_lower (py_strip (ci_name c))) (filter ci_is_active cities)) then Some name else None)"

definition list_active_city_names :: "City list \<Rightarrow> string list" where
  "list_active_city_names cities = sort (map ci_name (filter ci_is_active cities))"

section \<open>Ranking\<close>

text \<open>A dictionary of counters, given by the labels that were counted.\<close>

definition tally :: "string list \<Rightarrow> (string \<times> nat) list" where
  "tally labels = map (\<lambda>l. (l, count_list labels l)) (remdups labels)"

record RankedSegment =
  seg_label :: string
  seg_search_count :: nat
  seg_share :: rat
  seg_rank :: nat

definition rank_segments :: "dash_env \<Rightarrow> string list \<Rightarrow> RankedSegment list" where
  "rank_segments V labels =
     map (\<lambda>(rank, label, n). \<lparr>seg_label = label, seg_search_count = n,
            seg_share = dv_round V (if labels = [] then 0 else of_nat n / of_nat (length labels)), seg_rank = rank\<rparr>)
       (enumerate 1 (take (dv_top_limit V) (sort_key (\<lambda>(label, n). (- int n, label)) (tally labels))))"

section \<open>Trend\<close>

definition bucket_dates :: "dash_env \<Rightarrow> int \<Rightarrow> int \<Rightarrow> (timestamp \<times> timestamp) list" where
  "bucket_dates V df dt =
     (if dv_buckets V \<le> 0 then []
      else if df = dt then [(day_start df, day_start df + seconds 86400)]
      else
        (let span = day_start (dt + 1) - day_start df; n = nat (dv_buckets V)
         in if span \<le> 0 then []
            else map (\<lambda>i. (day_start df + dv_edge V span n i, day_start df + dv_edge V span n (i + 1))) [0..<n]))"

record SearchVolumeTrendPoint =
  tp_bucket_start :: timestamp
  tp_bucket_end :: timestamp
  tp_search_count :: nat

definition build_trend :: "dash_env \<Rightarrow> SearchLog list \<Rightarrow> DashboardFilterScope \<Rightarrow> SearchVolumeTrendPoint list" where
  "build_trend V logs s =
     map (\<lambda>(b, e). \<lparr>tp_bucket_start = b, tp_bucket_end = e,
            tp_search_count = length (filter (\<lambda>g. b \<le> sg_created_at g \<and> sg_created_at g < e) logs)\<rparr>)
       (bucket_dates V (sc_date_from s) (sc_date_to s))"

section \<open>Demand and supply\<close>

record DemandGapEntry =
  dg_dimension_type :: string
  dg_dimension_label :: string
  dg_demand_count :: nat
  dg_supply_count :: nat
  dg_gap_score :: rat
  dg_gap_direction :: string

definition demand_gap :: "dash_env \<Rightarrow> string \<Rightarrow> nat \<Rightarrow> nat \<Rightarrow> DemandGapEntry" where
  "demand_gap V city demand supply =
     (let ratio = of_nat demand / of_nat supply
      in \<lparr>dg_dimension_type = ''city'', dg_dimension_label = city, dg_demand_count = demand, dg_supply_count = supply,
          dg_gap_score = (if supply = 0 then 1 else dv_round V (min ratio 5)),
          dg_gap_direction =
            (if supply = 0 then ''undersupplied''
             else if 3 / 2 \<le> ratio then ''undersupplied'' else if ratio \<le> 1 / 2 then ''oversupplied'' else ''balanced'')\<rparr>)"

text \<open>\<open>log.filters or {}\<close>, of the logs where this is a dictionary.\<close>

definition log_filters :: "SearchLog list \<Rightarrow> json list" where
  "log_filters logs =
     filter is_object (map (\<lambda>g. case sg_filters g of None \<Rightarrow> JObj [] | Some j \<Rightarrow> if falsy j then JObj [] else j) logs)"

definition searched_cities :: "dash_env \<Rightarrow> (string \<Rightarrow> string option) \<Rightarrow> SearchLog list \<Rightarrow> string list" where
  "searched_cities V lookup logs =
     concat (map (\<lambda>f. map py_lower (normalize_known_cities V lookup (get_or_null f ''city''))) (log_filters logs))"

definition supplied_cities :: "(string \<Rightarrow> string option) \<Rightarrow> Listing list \<Rightarrow> string list" where
  "supplied_cities lookup ls =
     concat (map (\<lambda>l. case lookup (py_lower (py_strip (or_empty_text (l_city l)))) of
         None \<Rightarrow> [] | Some c \<Rightarrow> if l_status l = ''active'' then [py_lower c] else []) ls)"

definition derive_demand_gaps ::
  "dash_env \<Rightarrow> SearchLog list \<Rightarrow> Listing list \<Rightarrow> (string \<Rightarrow> string option) \<Rightarrow> DemandGapEntry list" where
  "derive_demand_gaps V logs ls lookup =
     (let demand = searched_cities V lookup logs; supply = supplied_cities lookup ls
      in take (dv_top_limit V)
           (sort_key (\<lambda>e. (- dg_gap_score e, dg_dimension_label e))
             (map (\<lambda>c. demand_gap V c (count_list demand c) (count_list supply c))
               (filter (\<lambda>c. count_list demand c \<noteq> 0 \<or> count_list supply c \<noteq> 0) (sort (remdups (demand @ supply)))))))"

section \<open>The snapshot\<close>

record DemandInsightSnapshot =
  sn_generated_at :: timestamp
  sn_scope :: DashboardFilterScope
  sn_search_volume_total :: nat
  sn_search_volume_trend :: "SearchVolumeTrendPoint list"
  sn_top_areas :: "RankedSegment list"
  sn_top_budget_bands :: "RankedSegment list"
  sn_top_property_types :: "RankedSegment list"
  sn_demand_gaps :: "DemandGapEntry list"

definition price_for_band :: "json \<Rightarrow> json" where
  "price_for_band f = (if get_or_null f ''max_price'' = JNull then get_or_null f ''min_price'' else get_or_null f ''max_price'')"

fun budget_labels :: "json list \<Rightarrow> py_exc + string list" where
  "budget_labels [] = Inr []"
| "budget_labels (f # fs) =
     sbind (budget_band (price_for_band f)) (\<lambda>b. sbind (budget_labels fs) (\<lambda>bs. Inr (if b = ''unknown'' then bs else b # bs)))"

definition property_labels :: "dash_env \<Rightarrow> json list \<Rightarrow> string list" where
  "property_labels V fs =
     concat (map (\<lambda>f. let j = get_or_null f ''property_type'' in if falsy j then [] else [json_text (dv_str V) j]) fs)"

definition build_demand_insight_snapshot ::
  "dash_env \<Rightarrow> ctx_env \<Rightarrow> City list \<Rightarrow> int \<Rightarrow> int \<Rightarrow> string option \<Rightarrow> string option \<Rightarrow> string option \<Rightarrow> string option
     \<Rightarrow> db \<Rightarrow> py_exc + DemandInsightSnapshot" where
  "build_demand_insight_snapshot V E cities df dt range_preset city property_type listing_purpose D =
     sbind (normalize_scope V df dt range_preset city property_type listing_purpose) (\<lambda>s.
       let logs = fetch_search_logs_for_scope V s D; ls = fetch_listing_inventory_for_scope s D;
           lookup = fetch_active_city_lookup cities; fs = log_filters logs
       in sbind (budget_labels fs) (\<lambda>bands.
            Inr \<lparr>sn_generated_at = now_at E, sn_scope = s, sn_search_volume_total = length logs,
                 sn_search_volume_trend = build_trend V logs s, sn_top_areas = rank_segments V (searched_cities V lookup logs),
                 sn_top_budget_bands = rank_segments V bands, sn_top_property_types = rank_segments V (property_labels V fs),
                 sn_demand_gaps = derive_demand_gaps V logs ls lookup\<rparr>))"

end
