(* ===== verification/AuditView.thy ===== *)
theory AuditView
  imports Dashboard Auth
begin

text \<open>
  The audit viewer, the role overview and the cached reads of the platform dashboard:
  \<open>admin/query_service.py\<close>, \<open>admin/service.py\<close>, \<open>admin/router.py\<close> and \<open>audit/feature_mapping.py\<close>.
\<close>

section \<open>Feature areas\<close>

definition ACTION_PREFIX_MAP :: "(string \<times> string) list" where
  "ACTION_PREFIX_MAP =
     [(''listing.image'', ''media''), (''listing.photo'', ''media''), (''auth.'', ''auth''), (''agency_ai.'', ''ai_assistant''),
      (''ai_assistant.'', ''ai_assistant''), (''platform_dashboard.'', ''platform_dashboard''), (''agency.'', ''agency''),
      (''listing.'', ''listing''), (''lead.'', ''lead''), (''viewing.'', ''viewing''), (''search.'', ''search''), (''rag.'', ''rag''),
      (''media.'', ''media''), (''photo'', ''media'')]"

definition RESOURCE_TYPE_MAP :: "string \<rightharpoonup> string" where
  "RESOURCE_TYPE_MAP = map_of
     [(''user'', ''auth''), (''session'', ''auth''), (''agency'', ''agency''), (''agency_tenant'', ''agency''),
      (''agency_employee_membership'', ''agency''), (''listing'', ''listing''), (''saved_listing'', ''listing''),
      (''comparison_session'', ''listing''), (''lead'', ''lead''), (''viewing_slot'', ''viewing''), (''scheduled_viewing'', ''viewing''),
      (''search_log'', ''search''), (''rag_document'', ''rag''), (''rag_chunk'', ''rag''), (''agency_ai_job'', ''ai_assistant''),
      (''agency_assistant_tool_invocation'', ''ai_assistant''), (''listing_photo_metadata'', ''media''),
      (''audit_log'', ''platform_dashboard'')]"

definition FEATURE_AREAS :: "string list" where
  "FEATURE_AREAS =
     [''auth'', ''agency'', ''listing'', ''lead'', ''viewing'', ''search'', ''rag'', ''ai_assistant'', ''media'',
      ''platform_dashboard'', ''other'']"

definition starts :: "string \<Rightarrow> string \<Rightarrow> bool" where
  "starts p s \<longleftrightarrow> take (length p) s = p"

definition normalize_feature_area :: "string \<Rightarrow> string option \<Rightarrow> string" where
  "normalize_feature_area action resource_type =
     (case (if action = [] then None else find (\<lambda>(p, area). starts p (py_lower (py_strip action))) ACTION_PREFIX_MAP) of
        Some (p, area) \<Rightarrow> area
      | None \<Rightarrow>
          (case (if truthy resource_type then RESOURCE_TYPE_MAP (the resource_type) else None) of
             Some area \<Rightarrow> area | None \<Rightarrow> ''other''))"

section \<open>Metadata\<close>

definition ALLOWED_METADATA_KEYS :: "string list" where
  "ALLOWED_METADATA_KEYS =
     [''actor_role'', ''feature_area'', ''ip_address_truncated'', ''required_permission'', ''tenant_scope'', ''scope'',
      ''action_label'', ''result_label'']"

definition truncate_ip :: "string \<Rightarrow> string option" where
  "truncate_ip s =
     (let parts = split_on (CHR ''.'') [] s
      in if length parts = 4 then Some (join_with ''.'' (take 3 parts) @ ''.0'') else None)"

text \<open>The value of the address entry when it is a text; it is taken out of the copied entries.\<close>

definition ip_of :: "(string \<times> json) list \<Rightarrow> string option" where
  "ip_of metadata = (case map_of metadata ''ip_address_truncated'' of Some (JText s) \<Rightarrow> truncate_ip s | _ \<Rightarrow> None)"

definition is_ip_text :: "string \<times> json \<Rightarrow> bool" where
  "is_ip_text e \<longleftrightarrow> fst e = ''ip_address_truncated'' \<and> (case snd e of JText s \<Rightarrow> True | _ \<Rightarrow> False)"

definition entries_of :: "json \<Rightarrow> (string \<times> json) list" where
  "entries_of j = (case j of JObj es \<Rightarrow> es | _ \<Rightarrow> [])"

definition redact_audit_metadata :: "pii_env \<Rightarrow> (string \<times> json) list \<Rightarrow> (string \<times> json) list" where
  "redact_audit_metadata P metadata =
     (let allowed = filter (\<lambda>e. fst e \<in> set ALLOWED_METADATA_KEYS) metadata;
          safe = entries_of (sanitize_payload P 11 (JObj (filter (\<lambda>e. \<not> is_ip_text e) allowed)))
      in (case ip_of allowed of None \<Rightarrow> safe | Some ip \<Rightarrow> AList.update ''ip_address_truncated'' (JText ip) safe))"

definition build_audit_view_metadata :: "pii_env \<Rightarrow> (string \<times> json) list \<Rightarrow> string \<Rightarrow> (string \<times> json) list" where
  "build_audit_view_metadata P metadata role_name =
     fold (\<lambda>(k, v). AList.update k v) (redact_audit_metadata P metadata)
       (if role_name = [] then [] else [(''actor_role'', JText role_name)])"

section \<open>The audit viewer\<close>

record PlatformAuditLogView =
  pv_id :: uuid
  pv_created_at :: timestamp
  pv_actor_role :: string
  pv_feature_area :: string
  pv_action :: string
  pv_result :: string
  pv_redacted_metadata :: "(string \<times> json) list"
  pv_actor_user_id :: "uuid option"
  pv_tenant_scope_label :: string

text \<open>
  \<open>_coerce_actor_role(metadata.get("actor_role") or ("agency" if row.tenant_id else "platform"))\<close>.
\<close>

definition audit_metadata :: "AuditLog \<Rightarrow> (string \<times> json) list" where
  "audit_metadata r = (case al_event_metadata r of Some (JObj es) \<Rightarrow> es | _ \<Rightarrow> [])"

definition resolved_actor_role :: "dash_env \<Rightarrow> AuditLog \<Rightarrow> string" where
  "resolved_actor_role V r =
     (let j = get_or_null (JObj (audit_metadata r)) ''actor_role''
      in if falsy j then (if al_tenant_id r = None then ''platform'' else ''agency'') else json_text (dv_str V) j)"

definition audit_view :: "dash_env \<Rightarrow> AuditLog \<Rightarrow> PlatformAuditLogView" where
  "audit_view V r =
     \<lparr>pv_id = al_id r, pv_created_at = al_created_at r, pv_actor_role = resolved_actor_role V r,
      pv_feature_area = normalize_feature_area (al_action r) (al_resource_type r), pv_action = al_action r,
      pv_result = (if truthy (al_result r) then the (al_result r) else ''unknown''),
      pv_redacted_metadata = build_audit_view_metadata (dv_pii V) (audit_metadata r) (resolved_actor_role V r),
      pv_actor_user_id = al_actor_user_id r,
      pv_tenant_scope_label = (if al_tenant_id r = None then ''platform'' else ''agency'')\<rparr>"

record audit_filter =
  af_date_from :: "timestamp option"
  af_date_to :: "timestamp option"
  af_feature_area :: "string option"
  af_actor_role :: "string option"
  af_result :: "string option"

definition wanted :: "'a option \<Rightarrow> 'a \<Rightarrow> bool" where
  "wanted x v \<longleftrightarrow> (case x of None \<Rightarrow> True | Some w \<Rightarrow> v = w)"

definition audit_matches :: "dash_env \<Rightarrow> audit_filter \<Rightarrow> AuditLog \<Rightarrow> bool" where
  "audit_matches V f r \<longleftrightarrow>
     (case af_date_from f of None \<Rightarrow> True | Some t \<Rightarrow> t \<le> al_created_at r) \<and>
     (case af_date_to f of None \<Rightarrow> True | Some t \<Rightarrow> al_created_at r \<le> t) \<and>
     (case af_result f of None \<Rightarrow> True | Some x \<Rightarrow> al_result r = Some x) \<and>
     wanted (af_feature_area f) (normalize_feature_area (al_action r) (al_resource_type r)) \<and>
     wanted (af_actor_role f) (resolved_actor_role V r)"

record PaginatedAuditLogResponse =
  pa_items :: "PlatformAuditLogView list"
  pa_page :: int
  pa_page_size :: int
  pa_total :: nat
  pa_has_next :: bool
  pa_has_previous :: bool

definition audit_rows :: "dash_env \<Rightarrow> audit_filter \<Rightarrow> db \<Rightarrow> PlatformAuditLogView list" where
  "audit_rows V f D =
     map (audit_view V) (filter (audit_matches V f) (sort_key (\<lambda>r. Desc (al_created_at r)) (audit_logs D)))"

definition clamp_page_size :: "dash_env \<Rightarrow> int \<Rightarrow> int" where
  "clamp_page_size V page_size = max 1 (min page_size (dv_audit_max_page_size V))"

definition list_audit_logs :: "dash_env \<Rightarrow> int \<Rightarrow> int \<Rightarrow> audit_filter \<Rightarrow> db \<Rightarrow> PaginatedAuditLogResponse" where
  "list_audit_logs V page page_size f D =
     (let page = max 1 page; page_size = clamp_page_size V page_size; rows = audit_rows V f D
      in \<lparr>pa_items = offset_limit (nat ((page - 1) * page_size)) (nat page_size) rows, pa_page = page, pa_page_size = page_size,
          pa_total = length rows, pa_has_next = page * page_size < int (length rows), pa_has_previous = 1 < page\<rparr>)"

section \<open>Roles\<close>

definition ROLE_DISPLAY_NAMES :: "string \<rightharpoonup> string" where
  "ROLE_DISPLAY_NAMES = map_of
     [(''user'', ''User''), (''agency_admin'', ''Agency Admin''), (''support_employee'', ''Support Employee''),
      (''platform_admin'', ''Platform Admin'')]"

definition ROLE_SURFACE_ACCESS :: "string \<rightharpoonup> string list" where
  "ROLE_SURFACE_ACCESS = map_of
     [(''user'', [''Public marketplace search'', ''Saved listings'', ''Comparison sessions'', ''Lead inquiries'', ''Viewing bookings'']),
      (''agency_admin'', [''Agency dashboard'', ''Agency listings (read/write)'', ''Agency leads (read/write)'',
          ''Agency viewings (read/write)'', ''Agency AI workflows'']),
      (''support_employee'', [''Read-only agency context'', ''Tenant support actions (read)'']),
      (''platform_admin'', [''Platform admin dashboard'', ''Aggregate marketplace insights'', ''Redacted AI audit log viewer'',
          ''Role / access overview''])]"

definition ROLE_RESTRICTED_SURFACES :: "string \<rightharpoonup> string list" where
  "ROLE_RESTRICTED_SURFACES = map_of
     [(''user'', [''Agency dashboard'', ''Platform admin dashboard'', ''Aggregate marketplace insights'', ''AI audit log viewer'']),
      (''agency_admin'', [''Platform admin dashboard'', ''Aggregate marketplace insights'', ''AI audit log viewer'',
          ''Other agency tenants'']),
      (''support_employee'', [''Agency listings (write)'', ''Agency leads (write)'', ''Platform admin dashboard'',
          ''Aggregate marketplace insights'', ''AI audit log viewer'']),
      (''platform_admin'', [''Agency-scoped mutations (without explicit authorization)''])]"

record RoleAccessSummary =
  ra_role_slug :: string
  ra_display_name :: string
  ra_granted_permissions :: "string list"
  ra_surface_access :: "string list"
  ra_restricted_surfaces :: "string list"

text \<open>The keys a role is granted: the join of the three tables, as a sorted set.\<close>

definition granted_permissions :: "string \<Rightarrow> db \<Rightarrow> string list" where
  "granted_permissions slug D =
     sort (remdups (concat (map (\<lambda>g. concat (map (\<lambda>r. concat (map (\<lambda>p.
           if r_id r = rp_role_id g \<and> p_id p = rp_permission_id g \<and> r_slug r = slug then [p_key p] else [])
         (permissions D))) (roles D))) (role_permissions D))))"

definition build_role_overview :: "db \<Rightarrow> RoleAccessSummary list" where
  "build_role_overview D =
     sort_key ra_role_slug (map (\<lambda>r. let slug = r_slug r in
         \<lparr>ra_role_slug = slug,
          ra_display_name = (case ROLE_DISPLAY_NAMES slug of Some n \<Rightarrow> n | None \<Rightarrow> if r_name r = [] then slug else r_name r),
          ra_granted_permissions = granted_permissions slug D,
          ra_surface_access = dict_get ROLE_SURFACE_ACCESS slug [],
          ra_restricted_surfaces = dict_get ROLE_RESTRICTED_SURFACES slug []\<rparr>) (roles D))"

section \<open>Cached reads\<close>

datatype dash_cached =
    CInsights DemandInsightSnapshot
  | CAudit PaginatedAuditLogResponse
  | CRoles "RoleAccessSummary list"

type_synonym dash_world = "db \<times> dash_cached redis"

definition PLATFORM_DASHBOARD_AUDIT_CACHE_NAMESPACE :: string where
  "PLATFORM_DASHBOARD_AUDIT_CACHE_NAMESPACE = ''platform_dashboard:audit''"

definition PLATFORM_DASHBOARD_ROLES_CACHE_NAMESPACE :: string where
  "PLATFORM_DASHBOARD_ROLES_CACHE_NAMESPACE = ''platform_dashboard:roles''"

definition log_dashboard_view :: "ctx_env \<Rightarrow> string \<Rightarrow> string \<Rightarrow> uuid option \<Rightarrow> db \<Rightarrow> db" where
  "log_dashboard_view E action outcome actor D =
     log_auth_event E (fresh E 0) action outcome actor None None None None
       (Some (JObj [(''feature_area'', JText ''platform_dashboard'')])) D"

text \<open>The shape of every read: a live cache entry, or the query, which is then cached; an audit row either way.\<close>

definition cached_read ::
  "ctx_env \<Rightarrow> string \<Rightarrow> string \<Rightarrow> string \<Rightarrow> int \<Rightarrow> uuid option \<Rightarrow> ('c \<Rightarrow> 'a option) \<Rightarrow> ('a \<Rightarrow> 'c)
     \<Rightarrow> (db \<Rightarrow> py_exc + 'a) \<Rightarrow> db \<times> 'c redis \<Rightarrow> (py_exc + 'a) \<times> db \<times> 'c redis" where
  "cached_read E namespace key action ttl actor read wrap build w =
     (case Option.bind (cache_get (now_at E) namespace key (snd w)) read of
        Some hit \<Rightarrow> (Inr hit, log_dashboard_view E action ''cache_hit'' actor (fst w), snd w)
      | None \<Rightarrow>
          (case build (fst w) of
             Inl e \<Rightarrow> (Inl e, w)
           | Inr x \<Rightarrow> (Inr x, log_dashboard_view E action ''fresh'' actor (fst w),
                        cache_set (now_at E) namespace key (wrap x) ttl (snd w))))"

definition insights_payload :: "dash_env \<Rightarrow> int \<Rightarrow> int \<Rightarrow> string option \<Rightarrow> string option \<Rightarrow> string option \<Rightarrow> string option \<Rightarrow> (string \<times> json) list" where
  "insights_payload V df dt range_preset city property_type listing_purpose =
     [(''date_from'', JText (dv_date V df)), (''date_to'', JText (dv_date V dt)),
      (''range_preset'', JText (or_custom range_preset)), (''city'', jopt city), (''property_type'', jopt property_type),
      (''listing_purpose'', jopt listing_purpose)]"

definition build_insights_cache_key :: "dash_env \<Rightarrow> (string \<times> json) list \<Rightarrow> string" where
  "build_insights_cache_key V payload = ''insights:v1:'' @ dv_digest V payload"

definition build_audit_cache_key :: "dash_env \<Rightarrow> (string \<times> json) list \<Rightarrow> string" where
  "build_audit_cache_key V payload = ''audit:v1:'' @ dv_digest V payload"

definition scope_error :: "py_exc + 'a \<Rightarrow> py_exc + 'a" where
  "scope_error x =
     (case x of Inl (ValueError m) \<Rightarrow> Inl (AppException 422 m (Some ''INVALID_DASHBOARD_SCOPE'') []) | _ \<Rightarrow> x)"

definition get_demand_insights ::
  "dash_env \<Rightarrow> ctx_env \<Rightarrow> City list \<Rightarrow> int \<Rightarrow> int \<Rightarrow> string option \<Rightarrow> string option \<Rightarrow> string option \<Rightarrow> string option
     \<Rightarrow> uuid option \<Rightarrow> dash_world \<Rightarrow> (py_exc + DemandInsightSnapshot) \<times> dash_world" where
  "get_demand_insights V E cities df dt range_preset city property_type listing_purpose actor w =
     cached_read E PLATFORM_DASHBOARD_INSIGHTS_CACHE_NAMESPACE
       (build_insights_cache_key V (insights_payload V df dt range_preset city property_type listing_purpose))
       ''platform_dashboard.insights.read'' (dv_insights_ttl V) actor
       (\<lambda>c. case c of CInsights s \<Rightarrow> Some s | _ \<Rightarrow> None) CInsights
       (\<lambda>D. scope_error (build_demand_insight_snapshot V E cities df dt range_preset city property_type listing_purpose D)) w"

definition audit_payload :: "dash_env \<Rightarrow> int \<Rightarrow> int \<Rightarrow> audit_filter \<Rightarrow> (string \<times> json) list" where
  "audit_payload V page page_size f =
     [(''page'', JInt page), (''page_size'', JInt page_size), (''date_from'', jopt (map_option (dv_time V) (af_date_from f))),
      (''date_to'', jopt (map_option (dv_time V) (af_date_to f))), (''feature_area'', jopt (af_feature_area f)),
      (''actor_role'', jopt (af_actor_role f)), (''result'', jopt (af_result f))]"

definition service_list_audit_logs ::
  "dash_env \<Rightarrow> ctx_env \<Rightarrow> int \<Rightarrow> int \<Rightarrow> audit_filter \<Rightarrow> uuid option \<Rightarrow> dash_world
     \<Rightarrow> (py_exc + PaginatedAuditLogResponse) \<times> dash_world" where
  "service_list_audit_logs V E page page_size f actor w =
     (let page = max 1 page; page_size = clamp_page_size V page_size
      in cached_read E PLATFORM_DASHBOARD_AUDIT_CACHE_NAMESPACE (build_audit_cache_key V (audit_payload V page page_size f))
           ''platform_dashboard.audit_logs.read'' (dv_audit_ttl V) actor
           (\<lambda>c. case c of CAudit r \<Rightarrow> Some r | _ \<Rightarrow> None) CAudit (\<lambda>D. Inr (list_audit_logs V page page_size f D)) w)"

definition get_role_overview ::
  "dash_env \<Rightarrow> ctx_env \<Rightarrow> uuid option \<Rightarrow> dash_world \<Rightarrow> (py_exc + RoleAccessSummary list) \<times> dash_world" where
  "get_role_overview V E actor w =
     cached_read E PLATFORM_DASHBOARD_ROLES_CACHE_NAMESPACE ''overview:v1'' ''platform_dashboard.roles.read'' (dv_audit_ttl V) actor
       (\<lambda>c. case c of CRoles r \<Rightarrow> Some r | _ \<Rightarrow> None) CRoles (\<lambda>D. Inr (build_role_overview D)) w"

section \<open>Routes\<close>

text \<open>A date text that cannot be read counts as missing.\<close>

definition default_insights_window :: "timestamp \<Rightarrow> string option \<Rightarrow> int \<times> int" where
  "default_insights_window now range_preset =
     (let today = day_of now; preset = (if truthy range_preset then the range_preset else ''last_30_days'')
      in if preset = ''last_7_days'' then (today - 7, today)
         else if preset = ''last_90_days'' then (today - 90, today) else (today - 30, today))"

definition insights_window :: "timestamp \<Rightarrow> string option \<Rightarrow> int option \<Rightarrow> int option \<Rightarrow> int \<times> int" where
  "insights_window now range_preset parsed_from parsed_to =
     (let (f, t) = default_insights_window now range_preset
      in (case parsed_from of None \<Rightarrow> f | Some d \<Rightarrow> d, case parsed_to of None \<Rightarrow> t | Some d \<Rightarrow> d))"

definition get_dashboard_insights ::
  "dash_env \<Rightarrow> ctx_env \<Rightarrow> City list \<Rightarrow> actor \<Rightarrow> int option \<Rightarrow> int option \<Rightarrow> string option \<Rightarrow> string option \<Rightarrow> string option
     \<Rightarrow> string option \<Rightarrow> dash_world \<Rightarrow> (py_exc + DemandInsightSnapshot) \<times> dash_world" where
  "get_dashboard_insights V E cities a parsed_from parsed_to range_preset city property_type listing_purpose w =
     (case require_platform_dashboard_access a of
        Inl e \<Rightarrow> (Inl e, w)
      | Inr a \<Rightarrow>
          (case insights_window (now_at E) range_preset parsed_from parsed_to of
             (df, dt) \<Rightarrow>
               get_demand_insights V E cities df dt range_preset city property_type listing_purpose (Some (ac_id a)) w))"

definition list_audit_logs_route ::
  "dash_env \<Rightarrow> ctx_env \<Rightarrow> actor \<Rightarrow> int \<Rightarrow> int \<Rightarrow> audit_filter \<Rightarrow> dash_world \<Rightarrow> (py_exc + PaginatedAuditLogResponse) \<times> dash_world" where
  "list_audit_logs_route V E a page page_size f w =
     (case require_platform_dashboard_access a of
        Inl e \<Rightarrow> (Inl e, w) | Inr a \<Rightarrow> service_list_audit_logs V E page page_size f (Some (ac_id a)) w)"

definition get_role_overview_route ::
  "dash_env \<Rightarrow> ctx_env \<Rightarrow> actor \<Rightarrow> dash_world \<Rightarrow> (py_exc + RoleAccessSummary list) \<times> dash_world" where
  "get_role_overview_route V E a w =
     (case require_platform_dashboard_access a of
        Inl e \<Rightarrow> (Inl e, w) | Inr a \<Rightarrow> get_role_overview V E (Some (ac_id a)) w)"

end
