(* ===== verification/DashProps.thy ===== *)
theory DashProps
  imports AuditView Demo
begin

text \<open>
  The platform dashboard: its trend counts every search once, a search makes it fresh, a city without
  any supply ranks below better served ones, and the audit viewer discloses no more than it should.
\<close>

section \<open>Trend\<close>

text \<open>What the microseconds of a multiple of the bucket length are documented to be.\<close>

definition edges_ok :: "dash_env \<Rightarrow> bool" where
  "edges_ok V \<longleftrightarrow>
     (\<forall>span n. 0 < span \<longrightarrow> 0 < n \<longrightarrow> dv_edge V span n 0 = 0 \<and> dv_edge V span n n = span \<and> mono (dv_edge V span n))"

definition count_in :: "timestamp \<Rightarrow> timestamp \<Rightarrow> SearchLog list \<Rightarrow> nat" where
  "count_in b e logs = length (filter (\<lambda>g. b \<le> sg_created_at g \<and> sg_created_at g < e) logs)"

lemma count_in_split: "b \<le> m \<Longrightarrow> m \<le> e \<Longrightarrow> count_in b m logs + count_in m e logs = count_in b e logs"
  unfolding count_in_def by (induction logs) auto

lemma count_in_buckets:
  "mono f \<Longrightarrow> sum_list (map (\<lambda>i. count_in (f i) (f (Suc i)) logs) [0..<n]) = count_in (f 0) (f n) logs"
proof (induction n)
  case (Suc n)
  have "f 0 \<le> f n" "f n \<le> f (Suc n)" by (rule monoD [OF Suc.prems], simp)+
  with Suc count_in_split [of "f 0" "f n" "f (Suc n)" logs] show ?case by simp
qed (simp add: count_in_def)

lemma trend_point: "build_trend V logs s =
    map (\<lambda>(b, e). \<lparr>tp_bucket_start = b, tp_bucket_end = e, tp_search_count = count_in b e logs\<rparr>)
      (bucket_dates V (sc_date_from s) (sc_date_to s))"
  by (simp add: build_trend_def count_in_def)

lemma day_start_mono: "df \<le> dt \<Longrightarrow> 0 < day_start (dt + 1) - day_start df"
  by (simp add: day_start_def seconds_def algebra_simps)

definition window_edge :: "dash_env \<Rightarrow> int \<Rightarrow> int \<Rightarrow> nat \<Rightarrow> timestamp" where
  "window_edge V df dt i = day_start df + dv_edge V (day_start (dt + 1) - day_start df) (nat (dv_buckets V)) i"

lemma bucket_dates_window:
  assumes "edges_ok V" "0 < dv_buckets V" "df \<le> dt"
  obtains f n where "mono f" "bucket_dates V df dt = map (\<lambda>i. (f i, f (Suc i))) [0..<n]" "0 < n"
    "f 0 = day_start df" "f n = day_start (dt + 1)"
proof (cases "df = dt")
  case True
  let ?f = "\<lambda>i::nat. day_start df + seconds 86400 * int i"
  have "bucket_dates V df dt = map (\<lambda>i. (?f i, ?f (Suc i))) [0..<1]" using True assms(2) by (simp add: bucket_dates_def)
  moreover have "mono ?f" by (rule monoI) (simp add: seconds_def)
  moreover have "?f 1 = day_start (dt + 1)" by (simp add: True day_start_def algebra_simps)
  ultimately show thesis using that [of ?f 1] by simp
next
  case False
  let ?span = "day_start (dt + 1) - day_start df" and ?n = "nat (dv_buckets V)"
  have span: "0 < ?span" by (rule day_start_mono [OF assms(3)])
  have edge: "dv_edge V ?span ?n 0 = 0" "dv_edge V ?span ?n ?n = ?span" "mono (dv_edge V ?span ?n)"
    using assms(1, 2) span by (simp_all add: edges_ok_def)
  have "bucket_dates V df dt = map (\<lambda>i. (window_edge V df dt i, window_edge V df dt (Suc i))) [0..<?n]"
    using False assms(2) span by (simp add: bucket_dates_def window_edge_def Let_def)
  moreover have "mono (window_edge V df dt)" using edge(3) by (auto simp: mono_def window_edge_def)
  ultimately show thesis using that [of "window_edge V df dt" ?n] edge assms(2) by (simp add: window_edge_def)
qed

lemma snapshot_cases:
  assumes "build_demand_insight_snapshot V E cities df dt preset city pt lp D = Inr s"
  obtains sc where "sn_scope s = sc" "sc_date_from sc = df" "sc_date_to sc = dt" "df \<le> dt" "dt - df \<le> dv_max_window_days V"
    "sn_search_volume_total s = length (fetch_search_logs_for_scope V sc D)"
    "sn_search_volume_trend s = build_trend V (fetch_search_logs_for_scope V sc D) sc"
  using assms that
  by (auto simp: build_demand_insight_snapshot_def normalize_scope_def sbind_def Let_def split: if_splits sum.splits)

lemma scope_logs_in_window:
  "filter (\<lambda>g. day_start (sc_date_from s) \<le> sg_created_at g \<and> sg_created_at g < day_start (sc_date_to s + 1))
     (fetch_search_logs_for_scope V s D) = fetch_search_logs_for_scope V s D"
  by (rule filter_True) (auto simp: fetch_search_logs_for_scope_def)

lemma adjoining:
  "(\<And>i. b (g (Suc i)) = e (g i)) \<Longrightarrow> map b (tl (map g [0..<Suc m])) = map e (butlast (map g [0..<Suc m]))"
  by (rule nth_equalityI) (simp_all add: nth_tl nth_butlast del: upt_Suc)

text \<open>
  C17. The trend of a snapshot is a row of adjoining intervals from the first day of the window to the
  end of its last day, and counts every search of the total exactly once.
\<close>

theorem trend_counts_every_search:
  assumes "edges_ok V" and "0 < dv_buckets V"
    and "build_demand_insight_snapshot V E cities df dt preset city pt lp D = Inr s"
  shows "sum_list (map tp_search_count (sn_search_volume_trend s)) = sn_search_volume_total s \<and>
    tp_bucket_start (hd (sn_search_volume_trend s)) = day_start df \<and>
    tp_bucket_end (last (sn_search_volume_trend s)) = day_start (dt + 1) \<and>
    map tp_bucket_start (tl (sn_search_volume_trend s)) = map tp_bucket_end (butlast (sn_search_volume_trend s))"
proof -
  obtain sc where sc: "sc_date_from sc = df" "sc_date_to sc = dt" "df \<le> dt"
    "sn_search_volume_total s = length (fetch_search_logs_for_scope V sc D)"
    "sn_search_volume_trend s = build_trend V (fetch_search_logs_for_scope V sc D) sc"
    by (rule snapshot_cases [OF assms(3)])
  obtain f n where f: "mono f" "bucket_dates V df dt = map (\<lambda>i. (f i, f (Suc i))) [0..<n]" "0 < n"
    "f 0 = day_start df" "f n = day_start (dt + 1)" by (rule bucket_dates_window [OF assms(1, 2) sc(3)])
  let ?logs = "fetch_search_logs_for_scope V sc D"
  have trend: "sn_search_volume_trend s =
      map (\<lambda>i. \<lparr>tp_bucket_start = f i, tp_bucket_end = f (Suc i), tp_search_count = count_in (f i) (f (Suc i)) ?logs\<rparr>) [0..<n]"
    by (simp add: sc trend_point f(2) comp_def)
  have "sum_list (map tp_search_count (sn_search_volume_trend s)) = count_in (f 0) (f n) ?logs"
    unfolding trend using count_in_buckets [OF f(1), of ?logs n] by (simp add: comp_def)
  also have "\<dots> = length ?logs"
    unfolding f(4, 5) count_in_def using scope_logs_in_window [of sc V D] by (simp add: sc)
  finally have sum: "sum_list (map tp_search_count (sn_search_volume_trend s)) = sn_search_volume_total s" by (simp add: sc)
  obtain m where m: "n = Suc m" using f(3) by (cases n) auto
  have "map tp_bucket_start (tl (sn_search_volume_trend s)) = map tp_bucket_end (butlast (sn_search_volume_trend s))"
    unfolding trend m by (rule adjoining) simp
  moreover have "tp_bucket_start (hd (sn_search_volume_trend s)) = day_start df"
    unfolding trend m f(4) [symmetric] by (simp add: hd_map hd_upt del: upt_Suc)
  moreover have "tp_bucket_end (last (sn_search_volume_trend s)) = day_start (dt + 1)"
    unfolding trend f(5) [symmetric] m by simp
  ultimately show ?thesis using sum by blast
qed

section \<open>Demand and supply\<close>

text \<open>What rounding to four digits is documented to be.\<close>

definition rounds_ok :: "dash_env \<Rightarrow> bool" where
  "rounds_ok V \<longleftrightarrow> mono (dv_round V) \<and> (\<forall>n. dv_round V (of_nat n) = of_nat n)"

lemma sorted_before:
  assumes "sorted (map k xs)" "a \<in> set xs" "b \<in> set xs" "k a < k b"
  shows "\<exists>us vs ws. xs = us @ a # vs @ b # ws"
proof -
  obtain us rest where xs: "xs = us @ a # rest" using assms(2) by (auto dest: split_list)
  have "b \<notin> set us" using assms(1, 4) by (auto simp: xs sorted_append)
  then have "b \<in> set rest" using assms(3, 4) by (auto simp: xs)
  then obtain vs ws where "rest = vs @ b # ws" by (auto dest: split_list)
  with xs show ?thesis by blast
qed

lemma gaps_sorted: "sorted (map (\<lambda>e. (- dg_gap_score e, dg_dimension_label e)) (derive_demand_gaps V logs ls lookup))"
  unfolding derive_demand_gaps_def Let_def take_map [symmetric] by (rule sorted_wrt_take) simp

lemma gap_scores:
  assumes "e \<in> set (derive_demand_gaps V logs ls lookup)"
  shows "dg_gap_score e = (if dg_supply_count e = 0 then 1 else dv_round V (min (of_nat (dg_demand_count e) / of_nat (dg_supply_count e)) 5))"
  using assms by (auto simp: derive_demand_gaps_def Let_def demand_gap_def dest!: in_set_takeD)

text \<open>
  A city that is searched but has no listing at all gets the score 1, however many searches there
  are, and stands in the ranking after every city with at least two searches for each of its listings.
\<close>

theorem unserved_city_ranks_below:
  assumes "rounds_ok V"
    and "e \<in> set (derive_demand_gaps V logs ls lookup)" "dg_supply_count e = 0"
    and "d \<in> set (derive_demand_gaps V logs ls lookup)" "0 < dg_supply_count d" "2 * dg_supply_count d \<le> dg_demand_count d"
  shows "dg_gap_score e = 1 \<and> (\<exists>us vs ws. derive_demand_gaps V logs ls lookup = us @ d # vs @ e # ws)"
proof -
  have "2 \<le> (of_nat (dg_demand_count d) / of_nat (dg_supply_count d) :: rat)"
    using assms(5, 6) by (simp add: field_simps)
  then have "dv_round V (of_nat 2) \<le> dv_round V (min (of_nat (dg_demand_count d) / of_nat (dg_supply_count d)) 5)"
    using assms(1) by (intro monoD [where f = "dv_round V"]) (auto simp: rounds_ok_def)
  moreover have "dv_round V (of_nat 2) = of_nat 2" using assms(1) unfolding rounds_ok_def by blast
  ultimately have "2 \<le> dg_gap_score d" using gap_scores [OF assms(4)] assms(5) by simp
  moreover have one: "dg_gap_score e = 1" using gap_scores [OF assms(2)] assms(3) by simp
  ultimately have "(- dg_gap_score d, dg_dimension_label d) < (- dg_gap_score e, dg_dimension_label e)" by simp
  from sorted_before [OF gaps_sorted assms(4, 2) this] one show ?thesis by blast
qed

section \<open>Freshness\<close>

lemma invalidated_insights: "cache_get now PLATFORM_DASHBOARD_INSIGHTS_CACHE_NAMESPACE key (invalidate_platform_dashboard r) = None"
  by (simp add: cache_get_def invalidate_platform_dashboard_def cache_invalidate_namespace_def cache_key_def)

text \<open>
  After a search was logged the demand insights are read from the database, whatever the cache
  held: the answer is the snapshot of the rows as they are now, the new search among them.
\<close>

theorem insights_fresh_after_search:
  "fst (get_demand_insights V E cities df dt preset city pt lp actor (log_search_event E' i user filters srt n w)) =
     scope_error (build_demand_insight_snapshot V E cities df dt preset city pt lp (fst (log_search_event E' i user filters srt n w)))"
  by (simp add: get_demand_insights_def cached_read_def log_search_event_def invalidated_insights split: sum.split)

text \<open>A confirmed search is a search log as well, but leaves the cached snapshot in place.\<close>

lemma confirmation_leaves_insights_stale:
  assumes "cache_get (now_at E) PLATFORM_DASHBOARD_INSIGHTS_CACHE_NAMESPACE
      (build_insights_cache_key V (insights_payload V df dt preset city pt lp)) r = Some (CInsights s)"
  shows "fst (get_demand_insights V E cities df dt preset city pt lp actor (log_search_confirmation E' i mode filters edits D, r)) = Inr s"
  using assms by (simp add: get_demand_insights_def cached_read_def)

section \<open>The audit viewer\<close>

text \<open>
  What an entry of the metadata of a shown row may be: under an allowed key, a redacted value of the
  row, an address without its last part, or the role that stands for a missing one.
\<close>

definition disclosed :: "dash_env \<Rightarrow> AuditLog \<Rightarrow> string \<times> json \<Rightarrow> bool" where
  "disclosed V r e \<longleftrightarrow> fst e \<in> set ALLOWED_METADATA_KEYS \<and>
     ((\<exists>x \<in> set (audit_metadata r). fst x = fst e \<and> \<not> is_ip_text x \<and> snd e = sanitize_payload (dv_pii V) 10 (snd x)) \<or>
      (fst e = ''ip_address_truncated'' \<and> (\<exists>a. length (filter ((=) (CHR ''.'')) a) = 2 \<and> snd e = JText (a @ ''.0''))) \<or>
      (fst e = ''actor_role'' \<and> snd e \<in> {JText ''platform'', JText ''agency''}))"

lemma split_on_free: "c \<notin> set w \<Longrightarrow> p \<in> set (split_on c w s) \<Longrightarrow> c \<notin> set p"
  by (induction c w s rule: split_on.induct) (auto split: if_splits)

lemma filter_none: "c \<notin> set p \<Longrightarrow> filter ((=) c) p = []"
  by (induction p) auto

lemma truncate_ip_hides:
  assumes "truncate_ip s = Some ip"
  shows "\<exists>a. length (filter ((=) (CHR ''.'')) a) = 2 \<and> ip = a @ ''.0''"
proof -
  let ?parts = "split_on (CHR ''.'') [] s"
  have "length ?parts = 4" and ip: "ip = join_with ''.'' (take 3 ?parts) @ ''.0''"
    using assms by (auto simp: truncate_ip_def Let_def split: if_splits)
  then obtain p q r t where parts: "?parts = [p, q, r, t]" by (auto simp: length_Suc_conv eval_nat_numeral)
  then have "CHR ''.'' \<notin> set x" if "x \<in> {p, q, r}" for x using that split_on_free [of "CHR ''.''" "[]" x s] by auto
  then have "length (filter ((=) (CHR ''.'')) (join_with ''.'' [p, q, r])) = 2" by (simp add: filter_none)
  then show ?thesis using ip by (intro exI [of _ "join_with ''.'' [p, q, r]"]) (simp add: parts)
qed

lemma set_update_subset: "set (AList.update k v al) \<subseteq> insert (k, v) (set al)"
  by (induction al) auto

lemma fold_update_mem:
  "distinct (map fst al) \<Longrightarrow> e \<in> set (fold (\<lambda>(k, v). AList.update k v) l al) \<Longrightarrow>
     e \<in> set l \<or> (e \<in> set al \<and> fst e \<notin> fst ` set l)"
proof (induction l arbitrary: al)
  case (Cons x l)
  obtain k v where x: "x = (k, v)" by fastforce
  have d: "distinct (map fst (AList.update k v al))" using Cons.prems(1) by (rule distinct_update)
  from Cons.IH [OF d] Cons.prems(2) have "e \<in> set l \<or> (e \<in> set (AList.update k v al) \<and> fst e \<notin> fst ` set l)"
    by (simp add: x)
  moreover have "e = (k, v) \<or> (e \<in> set al \<and> fst e \<noteq> k)" if "e \<in> set (AList.update k v al)"
  proof -
    have "map_of (AList.update k v al) (fst e) = Some (snd e)" using that map_of_eq_Some_iff [OF d] by simp
    then show ?thesis using map_of_eq_Some_iff [OF Cons.prems(1), of "fst e" "snd e"]
      by (cases e) (auto simp: update_conv split: if_splits)
  qed
  ultimately show ?case by (auto simp: x)
qed simp

lemma redacted_entry:
  assumes "e \<in> set (redact_audit_metadata P md)"
  shows "fst e \<in> set ALLOWED_METADATA_KEYS \<and>
    ((\<exists>x \<in> set md. fst x = fst e \<and> \<not> is_ip_text x \<and> snd e = sanitize_payload P 10 (snd x)) \<or>
     (fst e = ''ip_address_truncated'' \<and> (\<exists>a. length (filter ((=) (CHR ''.'')) a) = 2 \<and> snd e = JText (a @ ''.0''))))"
proof -
  let ?allowed = "filter (\<lambda>e. fst e \<in> set ALLOWED_METADATA_KEYS) md"
  let ?safe = "map (\<lambda>(k, v). (k, sanitize_payload P 10 v)) (filter (\<lambda>e. \<not> is_ip_text e) ?allowed)"
  have "entries_of (sanitize_payload P 11 (JObj (filter (\<lambda>e. \<not> is_ip_text e) ?allowed))) = ?safe"
    by (simp add: entries_of_def eval_nat_numeral)
  then have "redact_audit_metadata P md = (case ip_of ?allowed of None \<Rightarrow> ?safe
      | Some ip \<Rightarrow> AList.update ''ip_address_truncated'' (JText ip) ?safe)"
    by (simp only: redact_audit_metadata_def Let_def)
  then consider "e \<in> set ?safe" | ip where "ip_of ?allowed = Some ip" "e = (''ip_address_truncated'', JText ip)"
    using assms set_update_subset [of "''ip_address_truncated''" _ ?safe] by (auto split: option.splits)
  then show ?thesis
  proof cases
    case 1
    then obtain a b where "(a, b) \<in> set md" "a \<in> set ALLOWED_METADATA_KEYS" "\<not> is_ip_text (a, b)" "e = (a, sanitize_payload P 10 b)"
      by auto
    then show ?thesis by (auto intro: bexI [of _ "(a, b)"])
  next
    case 2
    then obtain s where "truncate_ip s = Some ip" by (auto simp: ip_of_def split: option.splits json.splits)
    with truncate_ip_hides 2 show ?thesis by (simp add: ALLOWED_METADATA_KEYS_def)
  qed
qed

lemma view_entry:
  assumes "e \<in> set (build_audit_view_metadata P md role)"
  shows "e \<in> set (redact_audit_metadata P md) \<or>
    (e = (''actor_role'', JText role) \<and> ''actor_role'' \<notin> fst ` set (redact_audit_metadata P md))"
  using fold_update_mem [of "if role = [] then [] else [(''actor_role'', JText role)]" e "redact_audit_metadata P md"] assms
  by (cases "role = []") (auto simp: build_audit_view_metadata_def image_iff)

lemma redacted_keeps_role:
  assumes "(''actor_role'', j) \<in> set md"
  shows "''actor_role'' \<in> fst ` set (redact_audit_metadata P md)"
proof -
  let ?allowed = "filter (\<lambda>e. fst e \<in> set ALLOWED_METADATA_KEYS) md"
  have "(''actor_role'', j) \<in> set (filter (\<lambda>e. \<not> is_ip_text e) ?allowed)"
    using assms by (simp add: is_ip_text_def ALLOWED_METADATA_KEYS_def)
  then have "''actor_role'' \<in> fst ` set (entries_of (sanitize_payload P 11 (JObj (filter (\<lambda>e. \<not> is_ip_text e) ?allowed))))"
    by (force simp: entries_of_def eval_nat_numeral)
  then show ?thesis by (auto simp: redact_audit_metadata_def Let_def dom_update split: option.split)
qed

lemma view_disclosed: "list_all (disclosed V r) (pv_redacted_metadata (audit_view V r))"
proof (unfold list_all_iff, rule ballI)
  fix e
  assume "e \<in> set (pv_redacted_metadata (audit_view V r))"
  then have "e \<in> set (build_audit_view_metadata (dv_pii V) (audit_metadata r) (resolved_actor_role V r))"
    by (simp add: audit_view_def)
  from view_entry [OF this] consider "e \<in> set (redact_audit_metadata (dv_pii V) (audit_metadata r))"
    | "e = (''actor_role'', JText (resolved_actor_role V r))"
      "''actor_role'' \<notin> fst ` set (redact_audit_metadata (dv_pii V) (audit_metadata r))" by blast
  then show "disclosed V r e"
  proof cases
    case 1
    then show ?thesis using redacted_entry unfolding disclosed_def by blast
  next
    case 2
    then have "map_of (audit_metadata r) ''actor_role'' = None" using redacted_keeps_role by (auto simp: map_of_eq_None_iff)
    then have "resolved_actor_role V r = ''platform'' \<or> resolved_actor_role V r = ''agency''"
      by (simp add: resolved_actor_role_def get_or_null_def falsy_def)
    then show ?thesis using 2 by (auto simp: disclosed_def ALLOWED_METADATA_KEYS_def)
  qed
qed


section \<open>Concrete runs\<close>

definition demo_dash :: dash_env where
  "demo_dash =
     \<lparr>dv_edge = (\<lambda>span n i. span * int i div int n), dv_round = (\<lambda>x. x), dv_str = (\<lambda>j. []),
      dv_pii = \<lparr>pi_enabled = False, pi_presidio = None, pi_ellipsis = CHR ''.''\<rparr>, dv_digest = (\<lambda>es. []), dv_date = int_text, dv_time = int_text,
      dv_max_window_days = 90, dv_insights_ttl = 120, dv_audit_ttl = 60, dv_audit_max_page_size = 100, dv_top_limit = 10,
      dv_buckets = 4\<rparr>"

lemma demo_dash_laws: "edges_ok demo_dash" "rounds_ok demo_dash"
  by (auto simp: demo_dash_def edges_ok_def rounds_ok_def mono_def intro!: zdiv_mono1 mult_left_mono)

definition searched :: "string \<Rightarrow> SearchLog" where
  "searched city = (blank_search_log demo_env ''g1'' None)\<lparr>sg_filters := Some (JObj [(''city'', JText city)])\<rparr>"

theorem trend_counts_every_search_witness:
  "\<exists>s. build_demand_insight_snapshot demo_dash demo_env [] 0 3 None None None None
       (demo_db\<lparr>search_logs := [searched ''a'', searched ''b'']\<rparr>) = Inr s \<and>
     sum_list (map tp_search_count (sn_search_volume_trend s)) = 2"
proof -
  let ?D = "demo_db\<lparr>search_logs := [searched ''a'', searched ''b'']\<rparr>"
  obtain s where s: "build_demand_insight_snapshot demo_dash demo_env [] 0 3 None None None None ?D = Inr s"
    "sn_search_volume_total s = 2"
    by (simp add: build_demand_insight_snapshot_def normalize_scope_def or_custom_def truthy_def RANGE_PRESETS_def demo_dash_def
        sbind_def Let_def log_filters_def fetch_search_logs_for_scope_def searched_def blank_search_log_def demo_env_def
        day_start_def seconds_def matches_filter_scope_def wants_def is_object_def falsy_def price_for_band_def get_or_null_def
        budget_band_def)
  from trend_counts_every_search [OF demo_dash_laws(1) _ s(1)] s show ?thesis by (auto simp: demo_dash_def)
qed

definition demo_gaps :: "DemandGapEntry list" where
  "demo_gaps = derive_demand_gaps demo_dash [searched ''a'', searched ''b'', searched ''b'']
     [(demo_listing ''l1'' ''active'')\<lparr>l_city := Some ''b''\<rparr>] (fetch_active_city_lookup [\<lparr>ci_id = ''c1'', ci_name = ''a'',
       ci_country = ''x'', ci_is_active = True\<rparr>, \<lparr>ci_id = ''c2'', ci_name = ''b'', ci_country = ''x'', ci_is_active = True\<rparr>])"

lemma demo_gaps: "demo_gaps = [demand_gap demo_dash ''b'' 2 1, demand_gap demo_dash ''a'' 1 0]"
  by code_simp

theorem unserved_city_ranks_below_witness:
  "\<exists>us vs ws. demo_gaps = us @ demand_gap demo_dash ''b'' 2 1 # vs @ demand_gap demo_dash ''a'' 1 0 # ws"
proof -
  have "demand_gap demo_dash ''a'' 1 0 \<in> set demo_gaps" "demand_gap demo_dash ''b'' 2 1 \<in> set demo_gaps" by (simp_all add: demo_gaps)
  moreover have "dg_supply_count (demand_gap demo_dash ''a'' 1 0) = 0" "0 < dg_supply_count (demand_gap demo_dash ''b'' 2 1)"
    "2 * dg_supply_count (demand_gap demo_dash ''b'' 2 1) \<le> dg_demand_count (demand_gap demo_dash ''b'' 2 1)"
    by (simp_all add: demand_gap_def Let_def)
  ultimately show ?thesis using unserved_city_ranks_below [OF demo_dash_laws(2)] unfolding demo_gaps_def by blast
qed

end
