(* ===== verification/Evals.thy ===== *)
theory Evals
  imports AuditView
begin

text \<open>
  The evaluation of policy answers: \<open>rag/evals.py\<close>, the evaluation rows of \<open>rag/service.py\<close> and
  \<open>rag/repository.py\<close>, and their views in \<open>admin/service.py\<close>. The judge, the rounding of floats and
  the texts of JSON values are parameters; fixtures, answers and latencies are inputs.
\<close>

section \<open>Data\<close>

record EvalExample =
  ee_id :: string
  ee_query :: string
  ee_tenant_fixture :: string
  ee_expected_behavior :: string
  ee_reference_answer :: string
  ee_expected_source_labels :: "string list"
  ee_expect_tenant_leakage :: bool
  ee_evaluation_mode :: string
  ee_notes :: "string option"

record SeededTenantFixture =
  fx_tenant_id :: uuid
  fx_actor_user_id :: uuid
  fx_tenant_fixture :: string
  fx_document_ids :: "uuid list"
  fx_document_labels :: "string list"

record RagEvaluationExampleCreate =
  ec_id :: string
  ec_query :: string
  ec_tenant_fixture :: string
  ec_expected_behavior :: string
  ec_expected_source_labels :: "string list"
  ec_notes :: "string option"
  ec_passed :: bool
  ec_summary :: json

record RagEvaluationRun =
  er_id :: uuid
  er_run_label :: string
  er_started_at :: timestamp
  er_completed_at :: "timestamp option"
  er_total_examples :: nat
  er_passed_examples :: nat
  er_failed_examples :: nat
  er_summary :: json
  er_created_at :: timestamp

record RagEvaluationExample =
  ex_id :: string
  ex_run_id :: uuid
  ex_query :: string
  ex_tenant_fixture :: string
  ex_expected_behavior :: string
  ex_expected_source_labels :: "string list"
  ex_notes :: "string option"
  ex_passed :: bool
  ex_summary :: json
  ex_created_at :: timestamp

record eval_db =
  evaluation_runs :: "RagEvaluationRun list"
  evaluation_examples :: "RagEvaluationExample list"

text \<open>A cell of the judge's table: missing, not a number, a number, or something else.\<close>

datatype raw_score = RawNone | RawNan | RawFloat rat | RawOther

type_synonym ragas_row = "string \<Rightarrow> raw_score"

record eval_env =
  ev_round4 :: "rat \<Rightarrow> rat"
  ev_round1 :: "rat \<Rightarrow> rat"
  ev_judge :: "(string \<times> string \<times> string \<times> string list) list \<Rightarrow> py_exc + (string \<times> ragas_row) list"
  ev_answer :: "SeededTenantFixture \<Rightarrow> string \<Rightarrow> nat \<Rightarrow> py_exc + RagPolicyAnswer \<times> rat"
  ev_exc_text :: "py_exc \<Rightarrow> string"
  ev_azure_missing :: "string list"

section \<open>Thresholds\<close>

definition THRESHOLDS :: "(string \<times> rat) list" where
  "THRESHOLDS =
     [(''faithfulness'', 7 / 10), (''context_precision'', 65 / 100), (''context_recall'', 65 / 100), (''answer_relevancy'', 65 / 100),
      (''hit_at_1'', 6 / 10), (''hit_at_5'', 9 / 10), (''tenant_leakage_count'', 0), (''p95_latency_ms'', 15000)]"

definition threshold :: "string \<Rightarrow> rat" where
  "threshold metric = the (map_of THRESHOLDS metric)"

definition threshold_pass :: "string \<Rightarrow> rat option \<Rightarrow> bool" where
  "threshold_pass metric v =
     (case v of
        None \<Rightarrow> False
      | Some x \<Rightarrow> if metric = ''tenant_leakage_count'' then floor x = floor (threshold metric) else threshold metric \<le> x)"

definition load_eval_examples :: "EvalExample list \<Rightarrow> string \<Rightarrow> py_exc + EvalExample list" where
  "load_eval_examples records mode =
     (if mode \<notin> {''blocking'', ''manual''} then Inl (ValueError (''Unsupported evaluation mode: '' @ mode))
      else if mode = ''blocking''
      then (let filtered = filter (\<lambda>r. ee_evaluation_mode r = ''blocking'') records
            in if length filtered \<noteq> 20
               then Inl (ValueError (''Blocking dataset must contain exactly 20 examples; found '' @ nat_text (length filtered)))
               else Inr filtered)
      else if length records \<noteq> 40
      then Inl (ValueError (''Manual dataset must contain exactly 40 examples; found '' @ nat_text (length records)))
      else Inr records)"

section \<open>Metrics of one answer\<close>

definition clean_metric :: "raw_score \<Rightarrow> rat option" where
  "clean_metric v = (case v of RawFloat x \<Rightarrow> Some x | _ \<Rightarrow> None)"

definition behavior_ok :: "string \<Rightarrow> RagPolicyAnswer \<Rightarrow> bool" where
  "behavior_ok expected a \<longleftrightarrow>
     (if expected = ''answer'' then pa_status a \<in> {''answered'', ''fallback''}
      else if expected = ''refuse'' then pa_status a = ''insufficient_evidence'' else False)"

definition hit_at_k :: "string list \<Rightarrow> string list \<Rightarrow> nat \<Rightarrow> bool" where
  "hit_at_k actual expected k \<longleftrightarrow> (if expected = [] then False else list_ex (\<lambda>l. l \<in> set expected) (take k actual))"

definition leaked_sources :: "RagPolicyAnswer \<Rightarrow> SeededTenantFixture \<Rightarrow> string list" where
  "leaked_sources a fx = map ev_source_label (filter (\<lambda>e. ev_document_id e \<notin> set (fx_document_ids fx)) (pa_evidence a))"

definition ragas_fields :: "string list" where
  "ragas_fields = [''faithfulness'', ''context_precision'', ''context_recall'', ''answer_relevancy'']"

definition latency_stats :: "eval_env \<Rightarrow> rat list \<Rightarrow> (string \<times> rat) list" where
  "latency_stats V ls =
     (if ls = [] then [(''min'', 0), (''max'', 0), (''avg'', 0), (''p50'', 0), (''p95'', 0)]
      else
        (let xs = sort ls; n = length xs;
             median = (if odd n then xs ! (n div 2) else (xs ! (n div 2 - 1) + xs ! (n div 2)) / 2)
         in [(''min'', ev_round1 V (hd xs)), (''max'', ev_round1 V (last xs)), (''avg'', ev_round1 V (sum_list xs / of_nat n)),
             (''p50'', ev_round1 V median), (''p95'', ev_round1 V (xs ! min (n - 1) (nat (ceiling (of_nat n * (95 / 100 :: rat))) - 1)))]))"

section \<open>Summary\<close>

text \<open>One evaluated example: its fixture, its answer, its latency and the judge's row, empty when there is none.\<close>

record eval_row =
  vw_example :: EvalExample
  vw_fixture :: SeededTenantFixture
  vw_answer :: RagPolicyAnswer
  vw_latency :: rat
  vw_scores :: ragas_row

definition answerable :: "EvalExample \<Rightarrow> bool" where
  "answerable x \<longleftrightarrow> ee_expected_behavior x = ''answer''"

definition row_hit :: "nat \<Rightarrow> eval_row \<Rightarrow> bool" where
  "row_hit k r = hit_at_k (map ev_source_label (pa_evidence (vw_answer r))) (ee_expected_source_labels (vw_example r)) k"

definition source_match :: "eval_row \<Rightarrow> bool" where
  "source_match r \<longleftrightarrow>
     set (ee_expected_source_labels (vw_example r)) \<subseteq> set (map ev_source_label (pa_evidence (vw_answer r)))"

definition row_leaks :: "eval_row \<Rightarrow> string list" where
  "row_leaks r = leaked_sources (vw_answer r) (vw_fixture r)"

definition cleaned :: "eval_row \<Rightarrow> string \<Rightarrow> rat option" where
  "cleaned r field = clean_metric (vw_scores r field)"

definition threshold_violations :: "eval_row \<Rightarrow> string list" where
  "threshold_violations r =
     (if behavior_ok (ee_expected_behavior (vw_example r)) (vw_answer r) then [] else [''behavior'']) @
     (if row_leaks r = [] then [] else [''tenant_leakage'']) @
     (if answerable (vw_example r)
      then (if row_hit 1 r then [] else [''hit_at_1'']) @ (if row_hit 5 r then [] else [''hit_at_5'']) @
           filter (\<lambda>f. \<not> threshold_pass f (cleaned r f)) ragas_fields
      else [])"

definition jnum :: "rat option \<Rightarrow> json" where
  "jnum x = (case x of None \<Rightarrow> JNull | Some v \<Rightarrow> JNum v)"

definition only_answerable :: "eval_row \<Rightarrow> json \<Rightarrow> json" where
  "only_answerable r j = (if answerable (vw_example r) then j else JNull)"

definition example_summary :: "eval_env \<Rightarrow> eval_row \<Rightarrow> json" where
  "example_summary V r = JObj
     [(''dataset_example_id'', JText (ee_id (vw_example r))), (''reference_answer'', JText (ee_reference_answer (vw_example r))),
      (''answer_status'', JText (pa_status (vw_answer r))),
      (''behavior_ok'', JBool (behavior_ok (ee_expected_behavior (vw_example r)) (vw_answer r))),
      (''expected_sources'', JList (map JText (ee_expected_source_labels (vw_example r)))),
      (''actual_sources'', JList (map (JText \<circ> ev_source_label) (pa_evidence (vw_answer r)))),
      (''latency_ms'', JNum (ev_round1 V (vw_latency r))), (''hit_at_1'', only_answerable r (JBool (row_hit 1 r))),
      (''hit_at_5'', only_answerable r (JBool (row_hit 5 r))), (''expected_source_match'', only_answerable r (JBool (source_match r))),
      (''tenant_leakage'', JBool (row_leaks r \<noteq> [])), (''tenant_leakage_sources'', JList (map JText (row_leaks r))),
      (''ragas'', if answerable (vw_example r) then JObj (map (\<lambda>f. (f, jnum (cleaned r f))) ragas_fields)
         else JObj [(''skipped_reason'', JText ''refusal_case'')]),
      (''threshold_violations'', JList (map JText (threshold_violations r))),
      (''retrieval_log_id'', case pa_debug (vw_answer r) of None \<Rightarrow> JNull | Some d \<Rightarrow> JText (db_retrieval_log_id d))]"

definition persisted_example :: "eval_env \<Rightarrow> eval_row \<Rightarrow> RagEvaluationExampleCreate" where
  "persisted_example V r =
     \<lparr>ec_id = ''placeholder-'' @ ee_id (vw_example r), ec_query = ee_query (vw_example r),
      ec_tenant_fixture = ee_tenant_fixture (vw_example r), ec_expected_behavior = ee_expected_behavior (vw_example r),
      ec_expected_source_labels = ee_expected_source_labels (vw_example r), ec_notes = ee_notes (vw_example r),
      ec_passed = (threshold_violations r = []), ec_summary = example_summary V r\<rparr>"

definition scores_of :: "eval_row list \<Rightarrow> string \<Rightarrow> rat list" where
  "scores_of rows field =
     concat (map (\<lambda>r. case cleaned r field of None \<Rightarrow> [] | Some x \<Rightarrow> [x]) (filter (\<lambda>r. answerable (vw_example r)) rows))"

definition mean4 :: "eval_env \<Rightarrow> rat list \<Rightarrow> rat option" where
  "mean4 V xs = (if xs = [] then None else Some (ev_round4 V (sum_list xs / of_nat (length xs))))"

definition share4 :: "eval_env \<Rightarrow> (eval_row \<Rightarrow> bool) \<Rightarrow> eval_row list \<Rightarrow> rat option" where
  "share4 V P rows =
     (let xs = filter (\<lambda>r. answerable (vw_example r)) rows
      in if xs = [] then None else Some (ev_round4 V (of_nat (length (filter P xs)) / of_nat (length xs))))"

record eval_summary =
  es_total_examples :: nat
  es_answerable_examples :: nat
  es_refusal_examples :: nat
  es_judge_errors :: "string list"
  es_metrics :: "(string \<times> rat option) list"
  es_tenant_leakage_examples :: "string list"
  es_latency_ms :: "(string \<times> rat) list"

definition summarize_results ::
  "eval_env \<Rightarrow> eval_row list \<Rightarrow> string list \<Rightarrow> RagEvaluationExampleCreate list \<times> eval_summary" where
  "summarize_results V rows judge_errors =
     (let answerable_count = length (filter (\<lambda>r. answerable (vw_example r)) rows);
          leaking = map (\<lambda>r. ee_id (vw_example r)) (filter (\<lambda>r. row_leaks r \<noteq> []) rows)
      in (map (persisted_example V) rows,
          \<lparr>es_total_examples = length rows, es_answerable_examples = answerable_count,
           es_refusal_examples = length rows - answerable_count, es_judge_errors = judge_errors,
           es_metrics = map (\<lambda>f. (f, mean4 V (scores_of rows f))) ragas_fields @
             [(''hit_at_1'', share4 V (row_hit 1) rows), (''hit_at_5'', share4 V (row_hit 5) rows),
              (''expected_source_match_rate'', share4 V source_match rows),
              (''tenant_leakage_count'', Some (of_nat (length leaking)))],
           es_tenant_leakage_examples = leaking, es_latency_ms = latency_stats V (map vw_latency rows)\<rparr>))"

definition metric :: "eval_summary \<Rightarrow> string \<Rightarrow> rat option" where
  "metric s name = (case map_of (es_metrics s) name of None \<Rightarrow> None | Some x \<Rightarrow> x)"

definition enforce_thresholds :: "eval_summary \<Rightarrow> bool \<Rightarrow> string list" where
  "enforce_thresholds s allow_judge_failures =
     filter (\<lambda>m. \<not> threshold_pass m (metric s m)) (ragas_fields @ [''hit_at_1'', ''hit_at_5'']) @
     (if threshold_pass ''tenant_leakage_count'' (metric s ''tenant_leakage_count'') then [] else [''tenant_leakage_count'']) @
     (if threshold ''p95_latency_ms'' < (case map_of (es_latency_ms s) ''p95'' of None \<Rightarrow> 0 | Some x \<Rightarrow> x)
      then [''p95_latency_ms''] else []) @
     (if es_judge_errors s \<noteq> [] \<and> \<not> allow_judge_failures then [''judge_failures''] else [])"

definition summary_json :: "eval_summary \<Rightarrow> (string \<times> json) list" where
  "summary_json s =
     [(''total_examples'', JInt (int (es_total_examples s))), (''answerable_examples'', JInt (int (es_answerable_examples s))),
      (''refusal_examples'', JInt (int (es_refusal_examples s))), (''judge_failures'', JInt (int (length (es_judge_errors s)))),
      (''judge_errors'', JList (map JText (es_judge_errors s))),
      (''metrics'', JObj (map (\<lambda>(k, x). (k, jnum x)) (es_metrics s) @
         [(''tenant_leakage_examples'', JList (map JText (es_tenant_leakage_examples s)))])),
      (''latency_ms'', JObj (map (\<lambda>(k, x). (k, JNum x)) (es_latency_ms s))),
      (''thresholds'', JObj (map (\<lambda>(k, x). (k, JNum x)) THRESHOLDS))]"

section \<open>A run\<close>

definition require_azure_eval_config :: "eval_env \<Rightarrow> py_exc + unit" where
  "require_azure_eval_config V =
     (if ev_azure_missing V = [] then Inr ()
      else Inl (RuntimeError (''Missing Azure judge config: '' @ join_with '', '' (ev_azure_missing V))))"

definition evaluate_with_ragas ::
  "eval_env \<Rightarrow> (string \<times> string \<times> string \<times> string list) list \<Rightarrow> bool \<Rightarrow> py_exc + ragas_row list \<times> string list" where
  "evaluate_with_ragas V rows allow_failures =
     (if rows = [] then Inr ([], [])
      else (case sbind (require_azure_eval_config V) (\<lambda>_. ev_judge V rows) of
              Inl e \<Rightarrow> if allow_failures then Inr ([], [''RAGAS judge unavailable: '' @ ev_exc_text V e]) else Inl e
            | Inr raw \<Rightarrow>
                Inr (map snd raw,
                     map (\<lambda>(q, row). ''RAGAS row missing score for question: '' @ q)
                       (filter (\<lambda>(q, row). list_ex (\<lambda>f. clean_metric (row f) = None) ragas_fields) raw))))"

text \<open>The answers of a run, in order; an unknown fixture or a failing query ends it.\<close>

fun answer_examples ::
  "eval_env \<Rightarrow> (string \<Rightarrow> SeededTenantFixture option) \<Rightarrow> nat \<Rightarrow> EvalExample list
     \<Rightarrow> py_exc + (EvalExample \<times> SeededTenantFixture \<times> RagPolicyAnswer \<times> rat) list" where
  "answer_examples V fixtures top_k [] = Inr []"
| "answer_examples V fixtures top_k (x # xs) =
     (case fixtures (ee_tenant_fixture x) of
        None \<Rightarrow> Inl (KeyError (ee_tenant_fixture x))
      | Some fx \<Rightarrow>
          sbind (ev_answer V fx (ee_query x) top_k) (\<lambda>(a, latency).
            sbind (answer_examples V fixtures top_k xs) (\<lambda>rest. Inr ((x, fx, a, latency) # rest))))"

definition ragas_input ::
  "(EvalExample \<times> SeededTenantFixture \<times> RagPolicyAnswer \<times> rat) list \<Rightarrow> (string \<times> string \<times> string \<times> string list) list" where
  "ragas_input rows =
     map (\<lambda>(x, fx, a, l). (ee_query x, pa_answer a, ee_reference_answer x,
            map (\<lambda>e. if truthy (ev_parent_page_text e) then the (ev_parent_page_text e) else ev_text_preview e) (pa_evidence a)))
       (filter (\<lambda>(x, fx, a, l). answerable x) rows)"

text \<open>
  The judge's rows belong to the answerable examples in order, by identifier; an example without one
  has an empty row.
\<close>

definition attach_scores ::
  "(EvalExample \<times> SeededTenantFixture \<times> RagPolicyAnswer \<times> rat) list \<Rightarrow> ragas_row list \<Rightarrow> eval_row list" where
  "attach_scores answered scores =
     (let ids = map ee_id (filter answerable (map fst answered));
          ragas_by_example = map_of (rev (zip ids (scores @ replicate (length ids) (\<lambda>f. RawNone))))
      in map (\<lambda>(x, fx, a, l). \<lparr>vw_example = x, vw_fixture = fx, vw_answer = a, vw_latency = l,
           vw_scores = (case ragas_by_example (ee_id x) of None \<Rightarrow> \<lambda>f. RawNone | Some s \<Rightarrow> s)\<rparr>) answered)"

definition relabel :: "string \<Rightarrow> eval_row \<Rightarrow> RagEvaluationExampleCreate \<Rightarrow> RagEvaluationExampleCreate" where
  "relabel run_label r x = x\<lparr>ec_id := run_label @ '':'' @ ee_id (vw_example r)\<rparr>"

definition record_evaluation_run_with_examples ::
  "eval_env \<Rightarrow> ctx_env \<Rightarrow> string \<Rightarrow> RagEvaluationExampleCreate list \<Rightarrow> json option \<Rightarrow> eval_db
     \<Rightarrow> py_exc + RagEvaluationRun \<times> eval_db" where
  "record_evaluation_run_with_examples V E run_label examples summary D =
     (let total = length examples; passed = length (filter ec_passed examples);
          actual = (case summary of
              Some j \<Rightarrow> if falsy j then None else Some j | None \<Rightarrow> None);
          run = \<lparr>er_id = fresh E 0, er_run_label = run_label, er_started_at = now_at E, er_completed_at = Some (now_at E),
                 er_total_examples = total, er_passed_examples = passed, er_failed_examples = total - passed,
                 er_summary = (case actual of
                    Some j \<Rightarrow> j
                  | None \<Rightarrow> JObj [(''total_examples'', JInt (int total)), (''passed'', JInt (int passed)),
                      (''failed'', JInt (int (total - passed))),
                      (''pass_rate'', JNum (if 0 < total then ev_round4 V (of_nat passed / of_nat total) else 0)),
                      (''latency_ms'', JObj [])]),
                 er_created_at = now_at E\<rparr>;
          rows = map (\<lambda>x. \<lparr>ex_id = ec_id x, ex_run_id = er_id run, ex_query = ec_query x,
                   ex_tenant_fixture = ec_tenant_fixture x, ex_expected_behavior = ec_expected_behavior x,
                   ex_expected_source_labels = ec_expected_source_labels x, ex_notes = ec_notes x, ex_passed = ec_passed x,
                   ex_summary = ec_summary x, ex_created_at = now_at E\<rparr>) examples
      in if distinct (map ec_id examples) \<and> set (map ec_id examples) \<inter> set (map ex_id (evaluation_examples D)) = {}
         then Inr (run, \<lparr>evaluation_runs = evaluation_runs D @ [run], evaluation_examples = evaluation_examples D @ rows\<rparr>)
         else Inl (IntegrityError ''rag_evaluation_examples.id''))"

definition run_eval ::
  "eval_env \<Rightarrow> ctx_env \<Rightarrow> EvalExample list \<Rightarrow> (string \<Rightarrow> SeededTenantFixture option) \<Rightarrow> string \<Rightarrow> nat \<Rightarrow> string \<Rightarrow> bool
     \<Rightarrow> eval_db \<Rightarrow> py_exc + (RagEvaluationRun \<times> eval_summary \<times> string list \<times> eval_db)" where
  "run_eval V E records fixtures mode top_k run_label allow_judge_failures D =
     sbind (load_eval_examples records mode) (\<lambda>examples.
     sbind (if list_ex answerable examples \<and> \<not> allow_judge_failures then require_azure_eval_config V else Inr ()) (\<lambda>_.
     sbind (answer_examples V fixtures top_k examples) (\<lambda>answered.
     sbind (evaluate_with_ragas V (ragas_input answered) allow_judge_failures) (\<lambda>(scores, judge_errors).
       (let rows = attach_scores answered scores;
            (persisted, summary) = summarize_results V rows judge_errors;
            failures = enforce_thresholds summary allow_judge_failures;
            stored = JObj (summary_json summary @
              [(''threshold_failures'', JList (map JText failures)), (''run_label'', JText run_label), (''mode'', JText mode)]);
            renamed = map2 (relabel run_label) rows persisted
        in sbind (record_evaluation_run_with_examples V E run_label renamed (Some stored) D) (\<lambda>(run, D1).
             Inr (run, summary, failures, D1)))))))"

section \<open>Reads\<close>

definition evaluation_runs_newest :: "eval_db \<Rightarrow> RagEvaluationRun list" where
  "evaluation_runs_newest D = sort_key (\<lambda>r. Desc (er_created_at r)) (evaluation_runs D)"

definition get_evaluation_run :: "uuid \<Rightarrow> eval_db \<Rightarrow> RagEvaluationRun option" where
  "get_evaluation_run i D = find_row er_id i (evaluation_runs D)"

definition list_evaluation_examples_by_run_id :: "uuid \<Rightarrow> eval_db \<Rightarrow> RagEvaluationExample list" where
  "list_evaluation_examples_by_run_id i D =
     sort_key (\<lambda>x. (ex_created_at x, ex_id x)) (filter (\<lambda>x. ex_run_id x = i) (evaluation_examples D))"

text \<open>\<open>ILIKE\<close> is a parameter.\<close>

definition delete_evaluation_runs_by_label_patterns ::
  "(string \<Rightarrow> string \<Rightarrow> bool) \<Rightarrow> string list \<Rightarrow> eval_db \<Rightarrow> nat \<times> eval_db" where
  "delete_evaluation_runs_by_label_patterns ilike patterns D =
     (let ids = map er_id (filter (\<lambda>r. list_ex (ilike (er_run_label r)) patterns) (evaluation_runs D))
      in (length ids,
          \<lparr>evaluation_runs = filter (\<lambda>r. er_id r \<notin> set ids) (evaluation_runs D),
           evaluation_examples = filter (\<lambda>x. ex_run_id x \<notin> set ids) (evaluation_examples D)\<rparr>))"

record RagEvalRunListItem =
  ri_run_id :: uuid
  ri_run_label :: string
  ri_created_at :: timestamp
  ri_completed_at :: "timestamp option"
  ri_mode :: string
  ri_run_classification :: string
  ri_total_examples :: nat
  ri_passed_examples :: nat
  ri_failed_examples :: nat
  ri_faithfulness :: "rat option"
  ri_context_precision :: "rat option"
  ri_context_recall :: "rat option"
  ri_answer_relevancy :: "rat option"
  ri_hit_at_1 :: "rat option"
  ri_hit_at_5 :: "rat option"
  ri_tenant_leakage_count :: int
  ri_p95_latency_ms :: "rat option"
  ri_judge_failures :: int
  ri_threshold_failures :: "string list"
  ri_passed :: bool

record RagEvalExampleView =
  xv_example_id :: string
  xv_query :: string
  xv_tenant_fixture :: string
  xv_expected_behavior :: string
  xv_passed :: bool
  xv_answer_status :: "string option"
  xv_faithfulness :: "rat option"
  xv_context_precision :: "rat option"
  xv_context_recall :: "rat option"
  xv_answer_relevancy :: "rat option"
  xv_hit_at_1 :: "bool option"
  xv_hit_at_5 :: "bool option"
  xv_expected_source_match :: "bool option"
  xv_leaked_sources :: "string list"
  xv_latency_ms :: "rat option"
  xv_failure_reasons :: "string list"

text \<open>
  \<open>x.get(key, {}) or {}\<close> and \<open>x.get(key, []) or []\<close>: the summaries are written by this program, so
  the value is a dictionary or a list where there is one. \<open>float\<close> of a text is a parameter.
\<close>

definition sub_dict :: "json \<Rightarrow> string \<Rightarrow> json" where
  "sub_dict j key = (if falsy (get_or_null j key) then JObj [] else get_or_null j key)"

definition sub_items :: "json \<Rightarrow> string \<Rightarrow> json list" where
  "sub_items j key = (case get_or_null j key of JList js \<Rightarrow> js | _ \<Rightarrow> [])"

definition to_float :: "(string \<Rightarrow> rat option) \<Rightarrow> json \<Rightarrow> rat option" where
  "to_float parse j =
     (case j of JInt n \<Rightarrow> Some (of_int n) | JNum x \<Rightarrow> Some x | JBool b \<Rightarrow> Some (if b then 1 else 0) | JText s \<Rightarrow> parse s | _ \<Rightarrow> None)"

definition to_bool :: "json \<Rightarrow> bool option" where
  "to_bool j = (if j = JNull then None else Some (\<not> falsy j))"

text \<open>\<open>int(x or 0)\<close> of a number.\<close>

definition int_or_zero :: "json \<Rightarrow> int" where
  "int_or_zero j = (case j of JInt n \<Rightarrow> n | JNum x \<Rightarrow> if x < 0 then - floor (- x) else floor x | JBool b \<Rightarrow> if b then 1 else 0 | _ \<Rightarrow> 0)"

definition infer_eval_mode :: "string \<Rightarrow> string" where
  "infer_eval_mode run_label = (if re_search False (Lit ''manual'') (py_lower run_label) then ''manual'' else ''blocking'')"

definition eval_mode :: "RagEvaluationRun \<Rightarrow> string" where
  "eval_mode r =
     (case get_or_null (er_summary r) ''mode'' of JText s \<Rightarrow> if s = [] then infer_eval_mode (er_run_label r) else s
      | _ \<Rightarrow> infer_eval_mode (er_run_label r))"

definition classify_eval_run :: "string \<Rightarrow> nat \<Rightarrow> string \<Rightarrow> string" where
  "classify_eval_run mode total_examples run_label =
     (let label = py_lower run_label
      in if (mode = ''blocking'' \<and> total_examples = 20) \<or> (mode = ''manual'' \<and> total_examples = 40) then ''full_suite''
         else if list_ex (\<lambda>p. starts p label) [''ragas-test-run-'', ''int-test-eval-'', ''int-fail-eval-''] then ''test'' else ''ad_hoc'')"

definition serialize_eval_run :: "dash_env \<Rightarrow> (string \<Rightarrow> rat option) \<Rightarrow> RagEvaluationRun \<Rightarrow> RagEvalRunListItem" where
  "serialize_eval_run V parse r =
     (let summary = er_summary r; metrics = sub_dict summary ''metrics''; latency = sub_dict summary ''latency_ms'';
          failures = sub_items summary ''threshold_failures''; get = (\<lambda>k. to_float parse (get_or_null metrics k))
      in \<lparr>ri_run_id = er_id r, ri_run_label = er_run_label r, ri_created_at = er_created_at r, ri_completed_at = er_completed_at r,
          ri_mode = eval_mode r, ri_run_classification = classify_eval_run (eval_mode r) (er_total_examples r) (er_run_label r),
          ri_total_examples = er_total_examples r, ri_passed_examples = er_passed_examples r,
          ri_failed_examples = er_failed_examples r, ri_faithfulness = get ''faithfulness'',
          ri_context_precision = get ''context_precision'', ri_context_recall = get ''context_recall'',
          ri_answer_relevancy = get ''answer_relevancy'', ri_hit_at_1 = get ''hit_at_1'', ri_hit_at_5 = get ''hit_at_5'',
          ri_tenant_leakage_count = int_or_zero (get_or_null metrics ''tenant_leakage_count''),
          ri_p95_latency_ms = to_float parse (get_or_null latency ''p95''),
          ri_judge_failures = int_or_zero (get_or_null summary ''judge_failures''),
          ri_threshold_failures = map (json_text (dv_str V)) failures, ri_passed = (failures = [])\<rparr>)"

definition serialize_eval_example :: "dash_env \<Rightarrow> (string \<Rightarrow> rat option) \<Rightarrow> RagEvaluationExample \<Rightarrow> RagEvalExampleView" where
  "serialize_eval_example V parse x =
     (let summary = ex_summary x; metrics = sub_dict summary ''metrics''; answer = sub_dict summary ''answer'';
          get = (\<lambda>k. to_float parse (get_or_null metrics k)); flag = (\<lambda>k. to_bool (get_or_null metrics k))
      in \<lparr>xv_example_id = ex_id x, xv_query = ex_query x, xv_tenant_fixture = ex_tenant_fixture x,
          xv_expected_behavior = ex_expected_behavior x, xv_passed = ex_passed x,
          xv_answer_status = text_field answer ''status'', xv_faithfulness = get ''faithfulness'',
          xv_context_precision = get ''context_precision'', xv_context_recall = get ''context_recall'',
          xv_answer_relevancy = get ''answer_relevancy'', xv_hit_at_1 = flag ''hit_at_1'', xv_hit_at_5 = flag ''hit_at_5'',
          xv_expected_source_match = flag ''expected_source_match'',
          xv_leaked_sources = map (json_text (dv_str V)) (sub_items summary ''leaked_sources''),
          xv_latency_ms = to_float parse (get_or_null summary ''latency_ms''),
          xv_failure_reasons = map (json_text (dv_str V)) (sub_items summary ''failure_reasons'')\<rparr>)"

section \<open>Cached views\<close>

datatype eval_cached =
    CRuns "RagEvalRunListItem pagination_result"
  | CRun "RagEvalRunListItem \<times> RagEvalExampleView list"

definition PLATFORM_DASHBOARD_RAG_EVALS_CACHE_NAMESPACE :: string where
  "PLATFORM_DASHBOARD_RAG_EVALS_CACHE_NAMESPACE = ''platform_dashboard:rag_evals''"

definition list_rag_eval_runs ::
  "Common.settings \<Rightarrow> dash_env \<Rightarrow> (string \<Rightarrow> rat option) \<Rightarrow> ctx_env \<Rightarrow> int \<Rightarrow> int \<Rightarrow> uuid option \<Rightarrow> eval_db \<Rightarrow> db \<times> eval_cached redis
     \<Rightarrow> (py_exc + RagEvalRunListItem pagination_result) \<times> db \<times> eval_cached redis" where
  "list_rag_eval_runs st V parse E page page_size actor evals w =
     (let p = PaginationRequest st page (Some page_size)
      in cached_read E PLATFORM_DASHBOARD_RAG_EVALS_CACHE_NAMESPACE
           (''runs:'' @ build_audit_cache_key V [(''page'', JInt (pg_page p)), (''page_size'', JInt (pg_page_size p))])
           ''platform_dashboard.rag_evals.read'' (dv_audit_ttl V) actor (\<lambda>c. case c of CRuns x \<Rightarrow> Some x | _ \<Rightarrow> None) CRuns
           (\<lambda>D. page_of (map (serialize_eval_run V parse) (evaluation_runs_newest evals)) p) w)"

definition get_rag_eval_run_detail ::
  "dash_env \<Rightarrow> (string \<Rightarrow> rat option) \<Rightarrow> ctx_env \<Rightarrow> uuid \<Rightarrow> uuid option \<Rightarrow> eval_db \<Rightarrow> db \<times> eval_cached redis
     \<Rightarrow> (py_exc + RagEvalRunListItem \<times> RagEvalExampleView list) \<times> db \<times> eval_cached redis" where
  "get_rag_eval_run_detail V parse E run_id actor evals w =
     cached_read E PLATFORM_DASHBOARD_RAG_EVALS_CACHE_NAMESPACE (''run:'' @ run_id) ''platform_dashboard.rag_eval_detail.read''
       (dv_audit_ttl V) actor (\<lambda>c. case c of CRun x \<Rightarrow> Some x | _ \<Rightarrow> None) CRun
       (\<lambda>D. case get_evaluation_run run_id evals of
              None \<Rightarrow> Inl (AppException 404 ''RAG eval run not found'' (Some ''RAG_EVAL_RUN_NOT_FOUND'') [])
            | Some r \<Rightarrow>
                Inr (serialize_eval_run V parse r,
                     map (serialize_eval_example V parse) (list_evaluation_examples_by_run_id run_id evals))) w"

end
