(* ===== verification/EvalProps.thy ===== *)
theory EvalProps
  imports Evals
begin

text \<open>
  The evaluation gate: what a run without failures shows, the behaviour it does not look at, and the
  scores of an example that the dashboard loses.
\<close>

section \<open>The gate\<close>

lemma leakage_metric: "metric (snd (summarize_results V rows errors)) ''tenant_leakage_count'' =
    Some (of_nat (length (filter (\<lambda>r. row_leaks r \<noteq> []) rows)))"
  by (simp add: summarize_results_def metric_def ragas_fields_def Let_def)

lemma share_metric:
  "metric (snd (summarize_results V rows errors)) ''hit_at_1'' = share4 V (row_hit 1) rows"
  "metric (snd (summarize_results V rows errors)) ''hit_at_5'' = share4 V (row_hit 5) rows"
  by (simp_all add: summarize_results_def metric_def ragas_fields_def Let_def)

lemma score_metric: "f \<in> set ragas_fields \<Longrightarrow> metric (snd (summarize_results V rows errors)) f = mean4 V (scores_of rows f)"
  by (auto simp: summarize_results_def metric_def ragas_fields_def Let_def)

lemma enforced:
  assumes "enforce_thresholds s allow = []"
  shows "m \<in> set (ragas_fields @ [''hit_at_1'', ''hit_at_5'']) \<Longrightarrow> threshold_pass m (metric s m)"
    and "threshold_pass ''tenant_leakage_count'' (metric s ''tenant_leakage_count'')"
    and "es_judge_errors s = [] \<or> allow"
  using assms by (auto simp: enforce_thresholds_def filter_empty_conv split: if_splits)

definition own_evidence :: "eval_row \<Rightarrow> bool" where
  "own_evidence r \<longleftrightarrow> list_all (\<lambda>e. ev_document_id e \<in> set (fx_document_ids (vw_fixture r))) (pa_evidence (vw_answer r))"

definition reaches :: "rat option \<Rightarrow> rat \<Rightarrow> bool" where
  "reaches x t \<longleftrightarrow> (case x of None \<Rightarrow> False | Some v \<Rightarrow> t \<le> v)"

lemma own_evidence_iff: "own_evidence r \<longleftrightarrow> row_leaks r = []"
  by (simp add: own_evidence_def row_leaks_def leaked_sources_def filter_empty_conv list_all_iff)

lemma no_leak: "threshold_pass ''tenant_leakage_count'' (Some (of_nat n)) \<Longrightarrow> n = 0"
  by (simp add: threshold_pass_def threshold_def THRESHOLDS_def)

lemma pass_reaches: "m \<noteq> ''tenant_leakage_count'' \<Longrightarrow> threshold_pass m x \<longleftrightarrow> reaches x (threshold m)"
  by (simp add: threshold_pass_def reaches_def split: option.split)


definition with_status :: "(eval_row \<Rightarrow> string) \<Rightarrow> eval_row \<Rightarrow> eval_row" where
  "with_status f r = r\<lparr>vw_answer := (vw_answer r)\<lparr>pa_status := f r\<rparr>\<rparr>"

lemma with_status_simps [simp]:
  "vw_example (with_status f r) = vw_example r" "vw_latency (with_status f r) = vw_latency r"
  "row_leaks (with_status f r) = row_leaks r" "row_hit k (with_status f r) = row_hit k r"
  "source_match (with_status f r) = source_match r" "cleaned (with_status f r) = cleaned r"
  by (simp_all add: with_status_def row_leaks_def leaked_sources_def row_hit_def source_match_def cleaned_def fun_eq_iff)

lemma with_status_filter:
  "(\<And>r. P (with_status f r) = P r) \<Longrightarrow> filter P (map (with_status f) rows) = map (with_status f) (filter P rows)"
  by (simp add: filter_map comp_def)

lemma with_status_metrics:
  "scores_of (map (with_status f) rows) field = scores_of rows field"
  "(\<And>r. P (with_status f r) = P r) \<Longrightarrow> share4 V P (map (with_status f) rows) = share4 V P rows"
  by (simp_all add: scores_of_def share4_def with_status_filter comp_def Let_def)

lemma with_status_summary:
  "snd (summarize_results V (map (with_status f) rows) errors) = snd (summarize_results V rows errors)"
  by (simp add: summarize_results_def Let_def with_status_metrics with_status_filter comp_def ragas_fields_def)

text \<open>
  The gate does not see whether the assistant answered or refused: with every answer's status
  replaced by any other, the same run fails the same thresholds.
\<close>

theorem gate_ignores_behavior:
  "enforce_thresholds (snd (summarize_results V (map (with_status f) rows) errors)) allow =
     enforce_thresholds (snd (summarize_results V rows errors)) allow"
  by (simp add: with_status_summary)

section \<open>The dashboard's view\<close>

lemma summary_lookup:
  "get_or_null (example_summary V r) ''metrics'' = JNull" "get_or_null (example_summary V r) ''answer'' = JNull"
  "get_or_null (example_summary V r) ''leaked_sources'' = JNull" "get_or_null (example_summary V r) ''failure_reasons'' = JNull"
  "get_or_null (example_summary V r) ''latency_ms'' = JNum (ev_round1 V (vw_latency r))"
  by (simp_all add: get_or_null_def example_summary_def)

lemma empty_dict [simp]: "get_or_null (JObj []) key = JNull"
  by (simp add: get_or_null_def)

text \<open>
  The dashboard reads an example's summary under other names than the evaluation writes it: of
  whatever was measured it shows no score, no answer status, no leaked source and no reason, only the
  latency and whether the example passed.
\<close>

theorem dashboard_loses_example_scores:
  "serialize_eval_example W parse
     \<lparr>ex_id = i, ex_run_id = run, ex_query = ec_query (persisted_example V r), ex_tenant_fixture = ec_tenant_fixture (persisted_example V r),
      ex_expected_behavior = ec_expected_behavior (persisted_example V r),
      ex_expected_source_labels = ec_expected_source_labels (persisted_example V r), ex_notes = ec_notes (persisted_example V r),
      ex_passed = ec_passed (persisted_example V r), ex_summary = ec_summary (persisted_example V r), ex_created_at = t\<rparr> =
   \<lparr>xv_example_id = i, xv_query = ee_query (vw_example r), xv_tenant_fixture = ee_tenant_fixture (vw_example r),
    xv_expected_behavior = ee_expected_behavior (vw_example r), xv_passed = (threshold_violations r = []), xv_answer_status = None,
    xv_faithfulness = None, xv_context_precision = None, xv_context_recall = None, xv_answer_relevancy = None, xv_hit_at_1 = None,
    xv_hit_at_5 = None, xv_expected_source_match = None, xv_leaked_sources = [], xv_latency_ms = Some (ev_round1 V (vw_latency r)),
    xv_failure_reasons = []\<rparr>"
  by (simp add: serialize_eval_example_def persisted_example_def sub_dict_def sub_items_def summary_lookup falsy_def to_float_def
      to_bool_def text_field_def Let_def)

section \<open>A passing run\<close>

definition good_row :: eval_row where
  "good_row =
     \<lparr>vw_example = \<lparr>ee_id = ''e1'', ee_query = ''q'', ee_tenant_fixture = ''a'', ee_expected_behavior = ''answer'', ee_reference_answer = ''r'',
        ee_expected_source_labels = [''s''], ee_expect_tenant_leakage = False, ee_evaluation_mode = ''blocking'', ee_notes = None\<rparr>,
      vw_fixture = \<lparr>fx_tenant_id = ''t1'', fx_actor_user_id = ''u1'', fx_tenant_fixture = ''a'', fx_document_ids = [''d1''],
        fx_document_labels = [''s'']\<rparr>,
      vw_answer = \<lparr>pa_status = ''answered'', pa_answer = ''r'', pa_citations = [],
        pa_evidence = [\<lparr>ev_chunk_id = ''c1'', ev_document_id = ''d1'', ev_page_ids = [], ev_document_filename = ''f'', ev_page_numbers = [],
          ev_source_label = ''s'', ev_vector_rank = 1, ev_vector_score = 1, ev_rerank_rank = None, ev_rerank_score = None,
          ev_text_preview = ''t'', ev_parent_page_text = None\<rparr>], pa_debug = None\<rparr>,
      vw_latency = 5, vw_scores = (\<lambda>f. RawFloat 1)\<rparr>"

definition exact_eval :: eval_env where
  "exact_eval =
     \<lparr>ev_round4 = (\<lambda>x. x), ev_round1 = (\<lambda>x. x), ev_judge = (\<lambda>rows. Inr []), ev_answer = (\<lambda>fx q k. Inl (KeyError q)),
      ev_exc_text = exc_text, ev_azure_missing = []\<rparr>"


end
