(* ===== verification/ModelService.thy ===== *)
theory ModelService
  imports Worker
begin

text \<open>
  The lead model service (\<open>src/model-service/app\<close>): \<open>predictors.py\<close>, \<open>service.py\<close> and the route
  \<open>/classify\<close>. The loaded models, the sigmoid and the delivery of a callback are parameters; a model
  that raises is \<open>Inl\<close> with the exception's text.
\<close>

section \<open>Predictors\<close>

text \<open>What the artifact offers: \<open>predict_proba\<close> with its \<open>classes_\<close>, \<open>decision_function\<close>, or \<open>predict\<close> alone.\<close>

datatype spam_pipeline =
    WithProba "string list" "string \<Rightarrow> string \<Rightarrow> string + rat list"
  | WithDecision "string \<Rightarrow> string \<Rightarrow> string + rat"
  | PredictOnly "string \<Rightarrow> string \<Rightarrow> string + string"

record model_env =
  mv_pipeline :: "spam_pipeline option"
  mv_input_columns :: "string list"
  mv_sigmoid :: "rat \<Rightarrow> rat"
  mv_spam_threshold :: rat
  mv_empty_message_is_spam :: bool
  mv_level :: "(string \<Rightarrow> string + rat \<times> rat) option"
  mv_post :: "callback \<Rightarrow> bool \<times> string option"

fun index_of_one :: "nat \<Rightarrow> string list \<Rightarrow> nat option" where
  "index_of_one n [] = None"
| "index_of_one n (c # cs) = (if c = ''1'' then Some n else index_of_one (Suc n) cs)"

definition resolve_positive_class_index :: "string list \<Rightarrow> nat" where
  "resolve_positive_class_index classes =
     (if classes = [] then 1
      else (case index_of_one 0 classes of Some i \<Rightarrow> i | None \<Rightarrow> min 1 (length classes - 1)))"

definition bounded_sigmoid :: "model_env \<Rightarrow> rat \<Rightarrow> rat" where
  "bounded_sigmoid V score = mv_sigmoid V (max (min score 60) (-60))"

definition input_column :: "model_env \<Rightarrow> string" where
  "input_column V = (case mv_input_columns V of [] \<Rightarrow> ''text'' | c # _ \<Rightarrow> c)"

definition probability_details :: "rat \<Rightarrow> (string \<times> json) list" where
  "probability_details p =
     [(''not_spam_probability'', JNum p), (''lead_probability'', JNum p), (''spam_probability'', JNum (1 - p))]"

definition predict_not_spam_probability :: "model_env \<Rightarrow> spam_pipeline \<Rightarrow> string \<Rightarrow> string + rat \<times> json" where
  "predict_not_spam_probability V pipeline s =
     (case pipeline of
        WithProba classes f \<Rightarrow>
          (case f (input_column V) s of
             Inl e \<Rightarrow> Inl e
           | Inr probabilities \<Rightarrow>
               (let i = resolve_positive_class_index classes
                in if i < length probabilities
                   then Inr (probabilities ! i, JObj (probability_details (probabilities ! i)))
                   else Inl ''index out of bounds''))
      | WithDecision f \<Rightarrow>
          (case f (input_column V) s of
             Inl e \<Rightarrow> Inl e
           | Inr score \<Rightarrow>
               (let p = bounded_sigmoid V score
                in Inr (p, JObj (probability_details p @ [(''score_source'', JText ''decision_function''), (''raw_decision_score'', JNum score)]))))
      | PredictOnly f \<Rightarrow>
          (case f (input_column V) s of
             Inl e \<Rightarrow> Inl e
           | Inr prediction \<Rightarrow>
               (let p = (if prediction = ''1'' then 1 else 0)
                in Inr (p, JObj (probability_details p @ [(''score_source'', JText ''predict_only'')])))))"

record stage_outcome =
  so_status :: string
  so_label :: "string option"
  so_score :: "rat option"
  so_details :: json

definition completed_stage :: "string \<Rightarrow> rat \<Rightarrow> json \<Rightarrow> stage_outcome" where
  "completed_stage label score details =
     \<lparr>so_status = ''completed'', so_label = Some label, so_score = Some score, so_details = details\<rparr>"

definition failed_stage :: "string \<Rightarrow> stage_outcome" where
  "failed_stage e = \<lparr>so_status = ''failed'', so_label = None, so_score = None, so_details = JObj [(''error'', JText e)]\<rparr>"

definition because :: "string \<Rightarrow> json" where
  "because reason = JObj [(''reason'', JText reason)]"

definition classify_spam :: "model_env \<Rightarrow> string \<Rightarrow> string option \<Rightarrow> string option \<Rightarrow> stage_outcome" where
  "classify_spam V message name email =
     (if mv_empty_message_is_spam V \<and> py_strip message = [] then completed_stage ''spam'' 1 (because ''empty_message'')
      else (case mv_pipeline V of
              None \<Rightarrow> completed_stage ''not_spam'' 0 (because ''model_unavailable_fail_open'')
            | Some pipeline \<Rightarrow>
                (case predict_not_spam_probability V pipeline
                        (py_strip ((case name of None \<Rightarrow> [] | Some n \<Rightarrow> n) @ '' '' @ (case email of None \<Rightarrow> [] | Some e \<Rightarrow> e) @ '' '' @ message)) of
                   Inl e \<Rightarrow> failed_stage e
                 | Inr (p, details) \<Rightarrow>
                     completed_stage (if mv_spam_threshold V \<le> 1 - p then ''spam'' else ''not_spam'') (1 - p) details)))"

definition classify_level :: "model_env \<Rightarrow> string \<Rightarrow> string option \<Rightarrow> stage_outcome" where
  "classify_level V message name =
     (case mv_level V of
        None \<Rightarrow> completed_stage ''normal'' 0 (because ''model_unavailable_fail_open'')
      | Some model \<Rightarrow>
          (case model (py_strip ((case name of None \<Rightarrow> [] | Some n \<Rightarrow> n) @ '' '' @ message)) of
             Inl e \<Rightarrow> failed_stage e
           | Inr (normal, hot) \<Rightarrow>
               completed_stage (if 1 / 2 \<le> hot then ''hot'' else ''normal'') hot
                 (JObj [(''hot_probability'', JNum hot), (''normal_probability'', JNum normal)])))"

section \<open>The service\<close>

definition stage_callback :: "uuid \<Rightarrow> uuid \<Rightarrow> string \<Rightarrow> stage_outcome \<Rightarrow> callback" where
  "stage_callback lead_id tenant_id stage o1 =
     \<lparr>cb_lead_id = lead_id, cb_tenant_id = tenant_id, cb_stage = stage, cb_status = so_status o1, cb_label = so_label o1,
      cb_score = so_score o1, cb_details = Some (so_details o1), cb_retry_count = 0\<rparr>"

definition stage_json :: "string \<Rightarrow> stage_outcome \<Rightarrow> json" where
  "stage_json stage o1 = JObj
     [(''stage'', JText stage), (''status'', JText (so_status o1)), (''label'', jopt (so_label o1)),
      (''score'', case so_score o1 of None \<Rightarrow> JNull | Some x \<Rightarrow> JNum x), (''details'', so_details o1)]"

definition classify_response :: "uuid \<Rightarrow> uuid \<Rightarrow> stage_outcome \<Rightarrow> stage_outcome option \<Rightarrow> json" where
  "classify_response lead_id tenant_id spam level = JObj
     [(''lead_id'', JText lead_id), (''tenant_id'', JText tenant_id), (''spam_result'', stage_json ''spam'' spam),
      (''level_result'', case level of None \<Rightarrow> JNull | Some l \<Rightarrow> stage_json ''level'' l)]"

text \<open>
  \<open>_send_callback\<close>: whether the request reaches the backend, and the error that is raised. The first
  component of the result are the callbacks that reached the backend.
\<close>

definition send_callback :: "model_env \<Rightarrow> callback \<Rightarrow> callback list \<times> string option" where
  "send_callback V b = (if fst (mv_post V b) then [b] else [], snd (mv_post V b))"

definition classify_lead ::
  "model_env \<Rightarrow> uuid \<Rightarrow> uuid \<Rightarrow> string \<Rightarrow> string option \<Rightarrow> string option \<Rightarrow> callback list \<times> (string + json)" where
  "classify_lead V lead_id tenant_id message name email =
     (let spam = classify_spam V message name email
      in (case send_callback V (stage_callback lead_id tenant_id ''spam'' spam) of
            (sent, Some e) \<Rightarrow> (sent, Inl e)
          | (sent, None) \<Rightarrow>
              if so_label spam = Some ''spam'' then (sent, Inr (classify_response lead_id tenant_id spam None))
              else
                (let level = classify_level V message name
                 in (case send_callback V (stage_callback lead_id tenant_id ''level'' level) of
                       (sent2, Some e) \<Rightarrow> (sent @ sent2, Inl e)
                     | (sent2, None) \<Rightarrow> (sent @ sent2, Inr (classify_response lead_id tenant_id spam (Some level)))))))"

text \<open>The route: a request body without its identifiers is refused.\<close>

definition classify :: "model_env \<Rightarrow> nat \<Rightarrow> json \<Rightarrow> callback list \<times> (string + json)" where
  "classify V attempt body =
     (case (text_field body ''lead_id'', text_field body ''tenant_id'') of
        (Some lead_id, Some tenant_id) \<Rightarrow>
          classify_lead V lead_id tenant_id (case text_field body ''message'' of None \<Rightarrow> [] | Some s \<Rightarrow> s)
            (text_field body ''name'') (text_field body ''email'')
      | _ \<Rightarrow> ([], Inl ''422 Unprocessable Entity''))"

end
