(* ===== verification/ModelProps.thy ===== *)
theory ModelProps
  imports ModelService WorkerProps
begin

text \<open>
  Leads with the model service's own code as the service the worker calls: every accepted inquiry is
  settled, and a spam check that raised does not stop a lead from being completed.
\<close>

section \<open>From the inquiry to the verdict\<close>

definition final_stage :: "model_env \<Rightarrow> string \<Rightarrow> string option \<Rightarrow> string option \<Rightarrow> stage_outcome" where
  "final_stage V message name email =
     (let spam = classify_spam V message name email
      in if so_label spam = Some ''spam'' then spam else classify_level V message name)"

definition accepts_all :: "model_env \<Rightarrow> bool" where
  "accepts_all V \<longleftrightarrow> (\<forall>b. mv_post V b = (True, None))"

lemma send_accepted: "accepts_all V \<Longrightarrow> send_callback V b = ([b], None)"
  by (simp add: accepts_all_def send_callback_def)

lemma classify_accepted:
  assumes "accepts_all V" "text_field body ''lead_id'' = Some i" "text_field body ''tenant_id'' = Some t" "text_field body ''message'' = Some m"
  defines "name \<equiv> text_field body ''name''" and "email \<equiv> text_field body ''email''"
  shows "\<exists>data. loggable data \<and> classify V n body =
    (stage_callback i t ''spam'' (classify_spam V m name email) #
       (if so_label (classify_spam V m name email) = Some ''spam'' then [] else [stage_callback i t ''level'' (classify_level V m name)]),
     Inr data)"
  using assms
  by (auto simp: classify_def classify_lead_def send_accepted Let_def loggable_def classify_response_def stage_json_def is_object_def falsy_def)

definition settled_stage :: "stage_outcome \<Rightarrow> bool" where
  "settled_stage o1 \<longleftrightarrow> (\<exists>l x d. o1 = completed_stage l x d) \<or> (\<exists>e. o1 = failed_stage e)"

lemma settled_stages: "settled_stage (classify_spam V m n e)" "settled_stage (classify_level V m n)"
  unfolding settled_stage_def classify_spam_def classify_level_def by (simp split: option.split sum.split prod.split; blast)+

lemma stage_status: "settled_stage o1 \<Longrightarrow> so_status o1 \<in> {''completed'', ''failed''}"
  by (auto simp: settled_stage_def completed_stage_def failed_stage_def)

lemma labelled_completed: "settled_stage o1 \<Longrightarrow> so_label o1 = Some l \<Longrightarrow> so_status o1 = ''completed''"
  by (auto simp: settled_stage_def completed_stage_def failed_stage_def)

lemma verdict_of_stage [simp]:
  "vd_status (callback_verdict (stage_callback i t s o1)) = so_status o1"
  "vd_label (callback_verdict (stage_callback i t s o1)) = so_label o1"
  "cb_lead_id (stage_callback i t s o1) = i" "cb_tenant_id (stage_callback i t s o1) = t" "cb_stage (stage_callback i t s o1) = s"
  by (simp_all add: stage_callback_def callback_verdict_def)

lemma stage_processing:
  "settled_stage o1 \<Longrightarrow> level_processing_status (callback_verdict (stage_callback i t s o1)) p = so_status o1"
  "so_label o1 = Some ''spam'' \<Longrightarrow> settled_stage o1 \<Longrightarrow>
     spam_processing_status (callback_verdict (stage_callback i t s o1)) p = ''completed''"
  using stage_status [of o1] labelled_completed [of o1]
  by (auto simp: level_processing_status_def spam_processing_status_def LEAD_PROCESSING_STATUS_COMPLETED_def
      LEAD_PROCESSING_STATUS_FAILED_def)

lemma settled_by_callbacks:
  assumes wf: "leads_wf D" and lead: "find_row ld_id i (leads D) = Some lead" "ld_agency_tenant_id lead = t"
    and new: "\<forall>r \<in> set (spam_results D). lr_lead_id r = i \<longrightarrow> lr_idempotency_key r = None"
      "\<forall>r \<in> set (level_results D). lr_lead_id r = i \<longrightarrow> lr_idempotency_key r = None"
    and token: "lm_backend_token L \<noteq> []" and settled: "settled_stage spam" "settled_stage level"
  defines "posted \<equiv> stage_callback i t ''spam'' spam #
    (if so_label spam = Some ''spam'' then [] else [stage_callback i t ''level'' level])"
  shows "map_option ld_processing_status (find_row ld_id i (leads (post_all L Es 0 posted D))) =
    Some (so_status (if so_label spam = Some ''spam'' then spam else level))"
proof -
  have uniq: "unique_on lr_lead_id (spam_results D)" "unique_on lr_lead_id (level_results D)"
    using wf by (simp_all add: leads_wf_def results_ok_def)
  obtain r D1 lead1 where s: "process_spam_callback (Es 0) i t (callback_verdict (stage_callback i t ''spam'' spam)) D = Inr (r, D1)"
    "level_results D1 = level_results D" "find_row ld_id i (leads D1) = Some lead1" "ld_agency_tenant_id lead1 = t"
    "ld_processing_status lead1 = spam_processing_status (callback_verdict (stage_callback i t ''spam'' spam)) (ld_processing_status lead)"
    by (rule first_spam_callback [OF lead uniq(1) new(1)])
  have post1: "classification_callback (lm_backend_token L) (Es 0) (''Bearer '' @ lm_backend_token L) (stage_callback i t ''spam'' spam) D = Inr (r, D1)"
    using s(1) token by (simp add: classification_callback_def)
  show ?thesis
  proof (cases "so_label spam = Some ''spam''")
    case True
    then show ?thesis
      using s(3, 5) post1 stage_processing(2) [OF True settled(1)] labelled_completed [OF settled(1)] by (simp add: posted_def)
  next
    case False
    obtain r2 D2 lead2 where l: "process_level_callback (Es (Suc 0)) i t (callback_verdict (stage_callback i t ''level'' level)) D1 = Inr (r2, D2)"
      "find_row ld_id i (leads D2) = Some lead2"
      "ld_processing_status lead2 = level_processing_status (callback_verdict (stage_callback i t ''level'' level)) (ld_processing_status lead1)"
      by (rule first_level_callback [OF s(3, 4)]) (simp_all add: s(2) uniq(2) new(2))
    have "classification_callback (lm_backend_token L) (Es (Suc 0)) (''Bearer '' @ lm_backend_token L) (stage_callback i t ''level'' level) D1 = Inr (r2, D2)"
      using l(1) token by (simp add: classification_callback_def)
    then show ?thesis using False post1 l(2, 3) stage_processing(1) [OF settled(2)] by (simp add: posted_def)
  qed
qed

text \<open>
  C10. With the model service's code as the service the worker calls, every accepted inquiry is settled:
  the handler of its event succeeds, and the lead's processing has the status of the last stage that
  ran, completed or failed, whatever the models answer.
\<close>

theorem inquiry_settled_by_model_service:
  assumes "leads_wf D" and "create_inquiry E listing user m D = Inr (lead, D1)"
    and "fresh E 0 \<notin> ld_id ` set (leads D)" and "fresh E 1 \<notin> lr_id ` set (spam_results D)"
    and "fresh E 2 \<notin> lr_id ` set (level_results D)"
    and "lm_classify L = classify V" and "accepts_all V" and "0 < lm_retry_max L" and "lm_backend_token L \<noteq> []"
  shows "\<exists>D2. handle_lead_created L Es (oe_payload (last (outbox_events D1))) D1 = (Inr (), D2) \<and>
    map_option ld_processing_status (find_row ld_id (ld_id lead) (leads D2)) =
      Some (so_status (final_stage V (the (ld_message lead)) (ld_name lead) (ld_email lead))) \<and>
    so_status (final_stage V (the (ld_message lead)) (ld_name lead) (ld_email lead)) \<in> {''completed'', ''failed''}"
proof -
  obtain msg where c: "msg \<noteq> []" "py_strip msg \<noteq> []" "ld_message lead = Some msg"
    "oe_payload (last (outbox_events D1)) = inquiry_payload lead msg"
    "leads_wf D1" "find_row ld_id (ld_id lead) (leads D1) = Some lead"
    "\<forall>r \<in> set (spam_results D1). lr_lead_id r = ld_id lead \<longrightarrow> lr_idempotency_key r = None"
    "\<forall>r \<in> set (level_results D1). lr_lead_id r = ld_id lead \<longrightarrow> lr_idempotency_key r = None"
    by (rule accepted_inquiry [OF assms(1-5)])
  let ?p = "inquiry_payload lead msg" and ?i = "ld_id lead" and ?t = "ld_agency_tenant_id lead"
  let ?spam = "classify_spam V msg (ld_name lead) (ld_email lead)" and ?level = "classify_level V msg (ld_name lead)"
  let ?posted = "stage_callback ?i ?t ''spam'' ?spam # (if so_label ?spam = Some ''spam'' then [] else [stage_callback ?i ?t ''level'' ?level])"
  have fields: "is_object ?p" "text_field ?p ''lead_id'' = Some ?i" "text_field ?p ''message'' = Some msg"
    "text_field ?p ''tenant_id'' = Some ?t" "text_field ?p ''name'' = ld_name lead" "text_field ?p ''email'' = ld_email lead"
    by (cases "ld_name lead"; cases "ld_email lead"; simp add: inquiry_payload_def is_object_def text_field_def jopt_def)+
  let ?body = "JObj [(''lead_id'', JText ?i), (''tenant_id'', JText ?t), (''message'', JText msg),
      (''name'', jopt (ld_name lead)), (''email'', jopt (ld_email lead))]"
  have body: "text_field ?body ''lead_id'' = Some ?i" "text_field ?body ''tenant_id'' = Some ?t" "text_field ?body ''message'' = Some msg"
    "text_field ?body ''name'' = ld_name lead" "text_field ?body ''email'' = ld_email lead"
    by (cases "ld_name lead"; cases "ld_email lead"; simp add: text_field_def jopt_def)+
  obtain data where "loggable data" and answer: "classify V 1 ?body = (?posted, Inr data)"
    using classify_accepted [OF assms(7) body(1-3), of 1] unfolding body(4, 5) by blast
  moreover have "[1..<Suc (lm_retry_max L)] = 1 # [2..<Suc (lm_retry_max L)]"
    using assms(8) by (simp add: upt_rec numeral_2_eq_2 del: upt_Suc)
  ultimately have run: "handle_lead_created L Es ?p D1 = (Inr (), post_all L Es 0 ?posted D1)"
    using c(1, 2) by (simp add: handle_lead_created_def fields truthy_def forward_to_model_service_def assms(6) Let_def)
  have settled: "settled_stage (final_stage V msg (ld_name lead) (ld_email lead))"
    by (simp add: final_stage_def settled_stages Let_def)
  have "map_option ld_processing_status (find_row ld_id ?i (leads (post_all L Es 0 ?posted D1))) =
      Some (so_status (final_stage V msg (ld_name lead) (ld_email lead)))"
    using settled_by_callbacks [OF c(5, 6) refl c(7, 8) assms(9) settled_stages] by (simp add: final_stage_def Let_def)
  then show ?thesis using run stage_status [OF settled] c(3, 4) by simp
qed

lemma failed_spam_check_completes_lead:
  assumes "mv_pipeline V = Some pipeline" "\<And>s. predict_not_spam_probability V pipeline s = Inl e" "py_strip msg \<noteq> []" "mv_level V = None"
  shows "so_label (classify_spam V msg name email) = None \<and> so_status (final_stage V msg name email) = ''completed''"
  using assms by (simp add: final_stage_def classify_spam_def classify_level_def failed_stage_def completed_stage_def Let_def)

definition demo_models :: model_env where
  "demo_models =
     \<lparr>mv_pipeline = Some (PredictOnly (\<lambda>c s. Inr ''1'')), mv_input_columns = [], mv_sigmoid = (\<lambda>x. x), mv_spam_threshold = 1 / 2,
      mv_empty_message_is_spam = True, mv_level = Some (\<lambda>s. Inl ''out of memory''), mv_post = (\<lambda>b. (True, None))\<rparr>"

theorem inquiry_settled_by_model_service_witness:
  "\<exists>lead D1 D2. create_inquiry demo_env ''l1'' ''u1'' (Some ''hi'') demo_db = Inr (lead, D1) \<and>
     handle_lead_created ((we_leads demo_worker)\<lparr>lm_classify := classify demo_models, lm_retry_max := 3\<rparr>) (we_requests demo_worker demo_env)
       (oe_payload (last (outbox_events D1))) D1 = (Inr (), D2) \<and>
     map_option ld_processing_status (find_row ld_id (ld_id lead) (leads D2)) \<in> {Some ''completed'', Some ''failed''}"
proof -
  obtain lead D1 where run: "create_inquiry demo_env ''l1'' ''u1'' (Some ''hi'') demo_db = Inr (lead, D1)"
    using demo_inquiry by blast
  have fr: "fresh demo_env 0 \<notin> ld_id ` set (leads demo_db)" "fresh demo_env 1 \<notin> lr_id ` set (spam_results demo_db)"
    "fresh demo_env 2 \<notin> lr_id ` set (level_results demo_db)"
    by (simp_all add: demo_defs)
  let ?L = "(we_leads demo_worker)\<lparr>lm_classify := classify demo_models, lm_retry_max := 3\<rparr>"
  have L: "lm_classify ?L = classify demo_models" "accepts_all demo_models" "0 < lm_retry_max ?L" "lm_backend_token ?L \<noteq> []"
    by (simp_all add: demo_worker_def accepts_all_def demo_models_def)
  from inquiry_settled_by_model_service [OF demo_leads_wf run fr L, of "we_requests demo_worker demo_env"] run
  show ?thesis by fastforce
qed

end
