(* ===== verification/Analytics.thy ===== *)
theory Analytics
  imports LeadProps
begin

text \<open>
  The agency dashboard (\<open>analytics/service.py\<close>, \<open>schemas.py\<close>, \<open>router.py\<close>) and the rates of
  \<open>LeadProcessingQueryService\<close> behind its second route. The rows of the predictions artifact, the
  readers of a date and of a float, the rounding of floats and the present day are parameters.
\<close>

section \<open>Dates\<close>

datatype date = Date (dt_year: nat) (dt_month: nat) (dt_day: nat)

instantiation date :: linorder
begin

definition less_eq_date :: "date \<Rightarrow> date \<Rightarrow> bool" where
  "less_eq_date a b \<longleftrightarrow> dt_year a < dt_year b \<or> dt_year a = dt_year b \<and>
     (dt_month a < dt_month b \<or> dt_month a = dt_month b \<and> dt_day a \<le> dt_day b)"

definition less_date :: "date \<Rightarrow> date \<Rightarrow> bool" where
  "less_date a b \<longleftrightarrow> a \<le> b \<and> \<not> b \<le> a"

instance
  by standard (auto simp: less_eq_date_def less_date_def date.expand)

end

definition month_start :: "date \<Rightarrow> date" where
  "month_start d = Date (dt_year d) (dt_month d) 1"

definition next_month :: "date \<Rightarrow> date" where
  "next_month d = (if dt_month d = 12 then Date (dt_year d + 1) 1 1 else Date (dt_year d) (dt_month d + 1) 1)"

definition zero_pad :: "nat \<Rightarrow> string \<Rightarrow> string" where
  "zero_pad w s = replicate (w - length s) CHR ''0'' @ s"

definition date_isoformat :: "date \<Rightarrow> string" where
  "date_isoformat d = zero_pad 4 (nat_text (dt_year d)) @ ''-'' @ zero_pad 2 (nat_text (dt_month d)) @ ''-'' @
     zero_pad 2 (nat_text (dt_day d))"

definition month_label :: "date \<Rightarrow> string" where
  "month_label d = [''Jan'', ''Feb'', ''Mar'', ''Apr'', ''May'', ''Jun'', ''Jul'', ''Aug'', ''Sep'', ''Oct'', ''Nov'', ''Dec'']
     ! (dt_month d - 1) @ '' '' @ nat_text (dt_year d)"

section \<open>The predictions artifact\<close>

record MonthlyObservation =
  mo_month :: date
  mo_value :: rat
  mo_prediction :: rat

text \<open>A row of \<open>csv.DictReader\<close>: a column that is missing is None.\<close>

record csv_row =
  cr_date :: "string option"
  cr_model :: "string option"
  cr_actual :: "string option"
  cr_prediction :: "string option"

record forecast_env =
  fe_file :: "csv_row list option"
  fe_date :: "string \<Rightarrow> py_exc + date"
  fe_float :: "string \<Rightarrow> py_exc + rat"
  fe_round2 :: "rat \<Rightarrow> rat"
  fe_today :: date

definition MODEL_NAME :: string where "MODEL_NAME = ''lightgbm''"

definition forecast_unavailable :: "string \<Rightarrow> py_exc" where
  "forecast_unavailable detail = ServiceUnavailableError detail ''SERVICE_UNAVAILABLE''"

definition observation :: "forecast_env \<Rightarrow> string \<Rightarrow> string \<Rightarrow> string option \<Rightarrow> py_exc + MonthlyObservation" where
  "observation V raw_date raw_actual raw_prediction =
     sbind (fe_date V raw_date) (\<lambda>m. sbind (fe_float V raw_actual) (\<lambda>v.
       sbind (case raw_prediction of Some p \<Rightarrow> fe_float V p | None \<Rightarrow> fe_float V raw_actual) (\<lambda>p.
         Inr \<lparr>mo_month = m, mo_value = v, mo_prediction = p\<rparr>)))"

fun observations :: "forecast_env \<Rightarrow> csv_row list \<Rightarrow> py_exc + MonthlyObservation list" where
  "observations V [] = Inr []"
| "observations V (r # rs) =
     (if cr_model r \<noteq> Some MODEL_NAME then observations V rs
      else (case (cr_date r, cr_actual r) of
              (Some (c # cs), Some actual) \<Rightarrow>
                sbind (observation V (c # cs) actual (cr_prediction r)) (\<lambda>x.
                  sbind (observations V rs) (\<lambda>xs. Inr (x # xs)))
            | _ \<Rightarrow> observations V rs))"

text \<open>\<open>_load_predictions\<close> under \<open>lru_cache(maxsize=1)\<close>: the first list that is read is kept, an error is not.\<close>

definition load_predictions ::
  "forecast_env \<Rightarrow> MonthlyObservation list option \<Rightarrow> (py_exc + MonthlyObservation list) \<times> MonthlyObservation list option" where
  "load_predictions V lru =
     (case lru of
        Some rows \<Rightarrow> (Inr rows, lru)
      | None \<Rightarrow>
          (case fe_file V of
             None \<Rightarrow> (Inl (forecast_unavailable ''Forecast history artifact is missing''), None)
           | Some csv \<Rightarrow>
               (case observations V csv of
                  Inl e \<Rightarrow> (Inl e, None)
                | Inr [] \<Rightarrow> (Inl (forecast_unavailable ''Forecast history artifact is empty''), None)
                | Inr rows \<Rightarrow> (Inr rows, Some rows))))"

section \<open>The forecast\<close>

record ForecastChartPoint =
  fp_month :: string
  fp_label :: string
  fp_value :: rat
  fp_point_type :: string

record AgencyTransactionsForecastResponse =
  fr_metric :: string
  fr_model_name :: string
  fr_history_start_month :: string
  fr_history_end_month :: string
  fr_forecast_month :: string
  fr_latest_actual_value :: rat
  fr_forecast_value :: rat
  fr_series :: "ForecastChartPoint list"

definition chart_point :: "forecast_env \<Rightarrow> date \<Rightarrow> rat \<Rightarrow> string \<Rightarrow> ForecastChartPoint" where
  "chart_point V m x kind =
     \<lparr>fp_month = date_isoformat m, fp_label = month_label m, fp_value = fe_round2 V x, fp_point_type = kind\<rparr>"

text \<open>\<open>xs[-n:]\<close>.\<close>

definition last_items :: "int \<Rightarrow> 'a list \<Rightarrow> 'a list" where
  "last_items n xs = (if 0 < n then drop (length xs - nat n) xs else drop (nat (- n)) xs)"

text \<open>The row of the month itself, or else the first of the earliest later ones.\<close>

definition forecast_row :: "date \<Rightarrow> MonthlyObservation list \<Rightarrow> MonthlyObservation option" where
  "forecast_row target rows =
     (case find (\<lambda>x. mo_month x = target) rows of
        Some x \<Rightarrow> Some x
      | None \<Rightarrow>
          (case filter (\<lambda>x. target \<le> mo_month x) rows of
             [] \<Rightarrow> None
           | y # ys \<Rightarrow> Some (fold (\<lambda>x best. if mo_month x < mo_month best then x else best) ys y)))"

definition get_transactions_forecast ::
  "forecast_env \<Rightarrow> TenantContext option \<Rightarrow> int \<Rightarrow> MonthlyObservation list option
     \<Rightarrow> (py_exc + AgencyTransactionsForecastResponse) \<times> MonthlyObservation list option" where
  "get_transactions_forecast V tenant history_months lru =
     (case require_tenant tenant of
        Inl e \<Rightarrow> (Inl e, lru)
      | Inr ctx \<Rightarrow>
          if tc_role ctx \<noteq> Some ''agency_admin'' then (Inl (ForbiddenError ''Only agency admins can view transaction forecasts''), lru)
          else (let (loaded, lru') = load_predictions V lru
                in (sbind loaded (\<lambda>all_history.
                      let filtered = filter (\<lambda>x. mo_month x \<le> month_start (fe_today V)) all_history
                      in if length filtered < 12
                         then Inl (forecast_unavailable ''Not enough historical data is available for forecasting'')
                         else let target = next_month (mo_month (last filtered))
                              in (case forecast_row target all_history of
                                    None \<Rightarrow> Inl (forecast_unavailable ''Forecast month is missing from the artifact predictions'')
                                  | Some row \<Rightarrow>
                                      let window = last_items history_months filtered
                                      in Inr \<lparr>fr_metric = ''average_transactions_per_agency'', fr_model_name = MODEL_NAME,
                                           fr_history_start_month = date_isoformat (mo_month (hd window)),
                                           fr_history_end_month = date_isoformat (mo_month (last window)),
                                           fr_forecast_month = date_isoformat target,
                                           fr_latest_actual_value = fe_round2 V (mo_value (last filtered)),
                                           fr_forecast_value = fe_round2 V (mo_prediction row),
                                           fr_series = map (\<lambda>x. chart_point V (mo_month x) (mo_value x) ''historical'') window @
                                             [chart_point V target (mo_prediction row) ''forecast'']\<rparr>)), lru')))"

text \<open>The route takes between 12 and 60 months.\<close>

definition transactions_forecast_route ::
  "forecast_env \<Rightarrow> TenantContext \<Rightarrow> int \<Rightarrow> MonthlyObservation list option
     \<Rightarrow> (py_exc + AgencyTransactionsForecastResponse) \<times> MonthlyObservation list option" where
  "transactions_forecast_route V tenant history_months lru =
     (if history_months < 12 \<or> 60 < history_months then (Inl (ValidationError ''history_months''), lru)
      else get_transactions_forecast V (Some tenant) history_months lru)"

section \<open>Lead processing trends\<close>

record LeadProcessingTrendsResponse =
  lt_tenant_id :: uuid
  lt_summary :: lead_summary
  lt_spam_rate :: rat
  lt_hot_rate :: rat
  lt_review_rate :: rat
  lt_fallback_count :: nat

definition get_trend_summary :: "(rat \<Rightarrow> rat) \<Rightarrow> uuid \<Rightarrow> db \<Rightarrow> LeadProcessingTrendsResponse" where
  "get_trend_summary round4 tenant_id D =
     (let s = get_lead_processing_summary tenant_id D;
          total = (if su_total_leads s = 0 then 1 else su_total_leads s);
          not_spam = su_not_spam_count s
      in \<lparr>lt_tenant_id = tenant_id, lt_summary = s,
          lt_spam_rate = round4 (of_nat (su_spam_count s) / of_nat total),
          lt_hot_rate = (if 0 < not_spam then round4 (of_nat (su_hot_count s) / of_nat (max not_spam 1)) else 0),
          lt_review_rate = round4 (of_nat (su_reviewed_count s) / of_nat total),
          lt_fallback_count = su_fallback_count s\<rparr>)"

text \<open>A context without a tenant selects no rows, and its answer does not validate.\<close>

definition lead_processing_trends_route ::
  "(rat \<Rightarrow> rat) \<Rightarrow> TenantContext \<Rightarrow> db \<Rightarrow> py_exc + LeadProcessingTrendsResponse" where
  "lead_processing_trends_route round4 tenant D =
     (case tc_tenant_id tenant of
        None \<Rightarrow> Inl (ValueError ''tenant_id'')
      | Some t \<Rightarrow> Inr (get_trend_summary round4 t D))"

section \<open>A history without gaps\<close>

definition month_number :: "date \<Rightarrow> nat" where
  "month_number d = 12 * dt_year d + (dt_month d - 1)"

definition is_month :: "date \<Rightarrow> bool" where
  "is_month d \<longleftrightarrow> 1 \<le> dt_month d \<and> dt_month d \<le> 12 \<and> dt_day d = 1"

text \<open>Each row is for the month after the one before it.\<close>

fun monthly :: "MonthlyObservation list \<Rightarrow> bool" where
  "monthly [] = True"
| "monthly [x] = is_month (mo_month x)"
| "monthly (x # y # xs) \<longleftrightarrow> is_month (mo_month x) \<and> mo_month y = next_month (mo_month x) \<and> monthly (y # xs)"

lemma is_month_next: "is_month d \<Longrightarrow> is_month (next_month d)"
  by (auto simp: is_month_def next_month_def)

lemma month_number_next: "is_month d \<Longrightarrow> month_number (next_month d) = Suc (month_number d)"
  by (cases d) (auto simp: is_month_def next_month_def month_number_def)

lemma month_le_iff: "is_month a \<Longrightarrow> is_month b \<Longrightarrow> a \<le> b \<longleftrightarrow> month_number a \<le> month_number b"
  by (cases a; cases b) (auto simp: is_month_def month_number_def less_eq_date_def; arith)

lemma month_eq_iff: "is_month a \<Longrightarrow> is_month b \<Longrightarrow> a = b \<longleftrightarrow> month_number a = month_number b"
  using month_le_iff [of a b] month_le_iff [of b a] by auto

lemma monthly_nth:
  "monthly xs \<Longrightarrow> i < length xs \<Longrightarrow>
     is_month (mo_month (xs ! i)) \<and> month_number (mo_month (xs ! i)) = month_number (mo_month (hd xs)) + i"
proof (induction xs arbitrary: i rule: monthly.induct)
  case (3 x y xs)
  then show ?case by (cases i) (force simp: month_number_next)+
qed simp_all

lemma filter_prefix: "k \<le> length xs \<Longrightarrow> (\<And>i. i < length xs \<Longrightarrow> P (xs ! i) \<longleftrightarrow> i < k) \<Longrightarrow> filter P xs = take k xs"
proof (induction xs arbitrary: k)
  case (Cons x xs)
  have "P (xs ! i) \<longleftrightarrow> i < k - 1" if "i < length xs" for i
    using Cons.prems(2) [of "Suc i"] that by auto
  moreover have "P x \<longleftrightarrow> 0 < k" using Cons.prems(2) [of 0] by simp
  ultimately show ?case using Cons.IH [of "k - 1"] Cons.prems(1) by (cases k) auto
qed simp

lemma find_nth:
  assumes "k < length xs" "\<And>i. i < length xs \<Longrightarrow> P (xs ! i) \<longleftrightarrow> i = k"
  shows "find P xs = Some (xs ! k)"
  using assms by (auto simp: find_Some_iff)

lemma history_until_now:
  assumes "monthly xs" and k: "k < length xs" and "mo_month (xs ! k) = month_start today"
  shows "filter (\<lambda>x. mo_month x \<le> month_start today) xs = take (Suc k) xs"
proof (rule filter_prefix)
  fix i assume "i < length xs"
  then show "mo_month (xs ! i) \<le> month_start today \<longleftrightarrow> i < Suc k"
    using monthly_nth [OF assms(1)] k assms(3) month_le_iff by (metis add_le_cancel_left less_Suc_eq_le)
qed (use k in simp)

lemma row_of_next_month:
  assumes "monthly xs" and k: "Suc k < length xs"
  shows "forecast_row (next_month (mo_month (xs ! k))) xs = Some (xs ! Suc k)"
proof -
  have "find (\<lambda>x. mo_month x = next_month (mo_month (xs ! k))) xs = Some (xs ! Suc k)"
  proof (rule find_nth [OF k])
    fix i assume "i < length xs"
    then show "mo_month (xs ! i) = next_month (mo_month (xs ! k)) \<longleftrightarrow> i = Suc k"
      using monthly_nth [OF assms(1), of i] monthly_nth [OF assms(1), of k] k
      by (auto simp: month_eq_iff is_month_next month_number_next)
  qed
  then show ?thesis by (simp add: forecast_row_def)
qed

section \<open>Properties\<close>

text \<open>
  With an artifact that has a row for every month from at least eleven months before the present
  one to at least the next, an agency administrator is always answered: the forecast is the prediction
  of the month after the present one, the latest value that of the present month, and the series the
  last months up to the present one, at most as many as asked for, followed by the forecast.
\<close>

theorem forecast_for_next_month:
  assumes rows: "fst (load_predictions V lru) = Inr xs" "monthly xs"
    and now: "mo_month (xs ! k) = month_start (fe_today V)" "11 \<le> k" "Suc k < length xs"
    and who: "require_tenant (Some tenant) = Inr tenant" "tc_role tenant = Some ''agency_admin''"
    and n: "12 \<le> n" "n \<le> 60"
  shows "\<exists>r. fst (transactions_forecast_route V tenant n lru) = Inr r \<and>
    fr_forecast_month r = date_isoformat (next_month (month_start (fe_today V))) \<and>
    fr_forecast_value r = fe_round2 V (mo_prediction (xs ! Suc k)) \<and>
    fr_latest_actual_value r = fe_round2 V (mo_value (xs ! k)) \<and>
    fr_history_end_month r = date_isoformat (month_start (fe_today V)) \<and>
    fr_series r = map (\<lambda>x. chart_point V (mo_month x) (mo_value x) ''historical'') (drop (Suc k - nat n) (take (Suc k) xs)) @
      [chart_point V (next_month (month_start (fe_today V))) (mo_prediction (xs ! Suc k)) ''forecast''] \<and>
    length (fr_series r) = min (nat n) (Suc k) + 1"
proof -
  have filtered: "filter (\<lambda>x. mo_month x \<le> month_start (fe_today V)) xs = take (Suc k) xs"
    using history_until_now rows(2) now by simp
  have latest: "last (take (Suc k) xs) = xs ! k" using now by (simp add: take_Suc_conv_app_nth)
  have row: "forecast_row (next_month (month_start (fe_today V))) xs = Some (xs ! Suc k)"
    using row_of_next_month rows(2) now by metis
  have window: "last_items n (take (Suc k) xs) = drop (Suc k - nat n) (take (Suc k) xs)"
    using n now by (simp add: last_items_def min_def)
  have closing: "last (drop (Suc k - nat n) (take (Suc k) xs)) = xs ! k"
    using n now latest by (subst last_drop) auto
  show ?thesis
    using rows(1) who n now closing
    by (auto simp: transactions_forecast_route_def get_transactions_forecast_def filtered latest row window
        Let_def split: prod.splits)
qed

text \<open>
  Whatever inquiries, reviews and callbacks arrive, the trends of an agency report that no lead is
  pending: the count asks for the legacy processing status, which no lead of the pipeline ever gets.
\<close>

theorem pending_leads_never_counted:
  assumes "lead_step\<^sup>*\<^sup>* D0 D" "leads_wf D0" "lead_processing_trends_route round4 tenant D = Inr r"
  shows "su_pending_count (lt_summary r) = 0"
proof -
  have "leads_wf D" using assms(1,2) by (induction rule: rtranclp_induct) (auto intro: lead_step_wf)
  then have "\<forall>l \<in> set (leads D). ld_processing_status l \<noteq> ''pending''"
    by (auto simp: leads_wf_def lead_ok_def LEAD_PROCESSING_STATUS_PENDING_SPAM_def LEAD_PROCESSING_STATUS_PENDING_LEVEL_def
        LEAD_PROCESSING_STATUS_COMPLETED_def LEAD_PROCESSING_STATUS_FAILED_def)
  then have "filter (\<lambda>l. ld_processing_status l = ''pending'') (filter P (leads D)) = []" for P
    by (auto simp: filter_empty_conv)
  then show ?thesis using assms(3)
    by (auto simp: lead_processing_trends_route_def get_trend_summary_def get_lead_processing_summary_def count_rows_def Let_def
        split: option.splits)
qed

section \<open>Witnesses\<close>

definition demo_months :: "MonthlyObservation list" where
  "demo_months = map (\<lambda>i. \<lparr>mo_month = Date (2024 + (i div 12)) (Suc (i mod 12)) 1, mo_value = of_nat i, mo_prediction = 1 / 2\<rparr>) [0..<14]"

definition demo_forecast_env :: forecast_env where
  "demo_forecast_env = \<lparr>fe_file = None, fe_date = (\<lambda>s. Inl (ValueError s)), fe_float = (\<lambda>s. Inl (ValueError s)),
     fe_round2 = (\<lambda>x. x), fe_today = Date 2025 1 17\<rparr>"

theorem forecast_for_next_month_witness:
  "\<exists>r. fst (transactions_forecast_route demo_forecast_env (demo_ctx\<lparr>tc_role := Some ''agency_admin''\<rparr>) 12 (Some demo_months)) = Inr r \<and>
    fr_forecast_month r = date_isoformat (Date 2025 2 1) \<and> length (fr_series r) = 13"
proof -
  have "monthly demo_months" by code_simp
  moreover have "mo_month (demo_months ! 12) = month_start (fe_today demo_forecast_env)" by code_simp
  moreover have "Suc 12 < length demo_months" by code_simp
  moreover have "next_month (month_start (fe_today demo_forecast_env)) = Date 2025 2 1" by code_simp
  ultimately show ?thesis
    using forecast_for_next_month [where V = demo_forecast_env and lru = "Some demo_months" and xs = demo_months and k = 12
        and n = 12 and tenant = "demo_ctx\<lparr>tc_role := Some ''agency_admin''\<rparr>"]
    by (auto simp: load_predictions_def require_tenant_def demo_ctx_def)
qed

theorem pending_leads_never_counted_witness:
  "\<exists>r. lead_processing_trends_route (\<lambda>x. x) demo_ctx demo_db = Inr r \<and> su_pending_count (lt_summary r) = 0"
proof -
  obtain r where r: "lead_processing_trends_route (\<lambda>x. x) demo_ctx demo_db = Inr r"
    by (auto simp: lead_processing_trends_route_def demo_ctx_def)
  then show ?thesis using pending_leads_never_counted [OF rtranclp.rtrancl_refl demo_leads_wf r] by blast
qed

end
