(* ===== verification/Repair.thy ===== *)
theory Repair
  imports Worker Analytics
begin

text \<open>
  The scripts that mend lead processing: \<open>scripts/repair_stuck_lead_processing.py\<close>, which queues the
  event of every lead that waits for a classification again, and
  \<open>scripts/backfill_legacy_lead_processing.py\<close>, which moves leads of the old processing status into the
  pipeline. Both run in one transaction: an exception or a dry run leaves the database as it was.
\<close>

section \<open>Repairing stuck leads\<close>

record RepairSummary =
  rs_scanned :: nat
  rs_requeued_dead_letter :: nat
  rs_requeued_stale_processing :: nat
  rs_created_repair_event :: nat
  rs_skipped_pending_event :: nat
  rs_skipped_existing_repair :: nat

definition iter_stuck_statuses :: "string list" where
  "iter_stuck_statuses = [LEAD_PROCESSING_STATUS_PENDING_SPAM, LEAD_PROCESSING_STATUS_PENDING_LEVEL]"

definition stuck_leads :: "db \<Rightarrow> Lead list" where
  "stuck_leads D = sort_key ld_created_at (filter (\<lambda>l. ld_processing_status l \<in> set iter_stuck_statuses) (leads D))"

definition lead_events :: "uuid \<Rightarrow> db \<Rightarrow> OutboxEvent list" where
  "lead_events lead_id D =
     sort_key (\<lambda>e. Desc (oe_created_at e))
       (filter (\<lambda>e. oe_event_name e = ''lead.created'' \<and> oe_aggregate_type e = Some ''lead'' \<and>
                    oe_aggregate_id e = Some lead_id) (outbox_events D))"

definition repair_key :: "uuid \<Rightarrow> string" where
  "repair_key lead_id = ''repair-lead.created.'' @ lead_id"

definition created_key :: "uuid \<Rightarrow> string" where
  "created_key lead_id = ''lead.created.'' @ lead_id"

definition build_repair_payload :: "Lead \<Rightarrow> json" where
  "build_repair_payload lead = inquiry_payload lead (case ld_message lead of None \<Rightarrow> [] | Some m \<Rightarrow> m)"

datatype repair_action =
    SkipExistingRepair
  | RequeueDeadLetter OutboxEvent
  | RequeueStaleProcessing OutboxEvent
  | SkipPendingEvent
  | CreateRepairEvent

definition repair_action_of :: "timestamp \<Rightarrow> uuid \<Rightarrow> OutboxEvent list \<Rightarrow> repair_action" where
  "repair_action_of cutoff lead_id events =
     (if (case find (\<lambda>e. oe_idempotency_key e = repair_key lead_id) events of
            Some e \<Rightarrow> oe_status e \<in> {''pending'', ''processing'', ''delivered''} | None \<Rightarrow> False)
      then SkipExistingRepair
      else (case find (\<lambda>e. oe_idempotency_key e = created_key lead_id \<and> oe_status e = ''dead_letter'') events of
              Some e \<Rightarrow> RequeueDeadLetter e
            | None \<Rightarrow>
                (case find (\<lambda>e. oe_idempotency_key e = created_key lead_id \<and> oe_status e = ''processing'' \<and>
                                oe_updated_at e < cutoff) events of
                   Some e \<Rightarrow> RequeueStaleProcessing e
                 | None \<Rightarrow>
                     if find (\<lambda>e. oe_status e \<in> {''pending'', ''processing''}) events \<noteq> None then SkipPendingEvent
                     else CreateRepairEvent)))"

fun count_action :: "repair_action \<Rightarrow> RepairSummary \<Rightarrow> RepairSummary" where
  "count_action SkipExistingRepair s = s\<lparr>rs_skipped_existing_repair := rs_skipped_existing_repair s + 1\<rparr>"
| "count_action (RequeueDeadLetter e) s = s\<lparr>rs_requeued_dead_letter := rs_requeued_dead_letter s + 1\<rparr>"
| "count_action (RequeueStaleProcessing e) s = s\<lparr>rs_requeued_stale_processing := rs_requeued_stale_processing s + 1\<rparr>"
| "count_action SkipPendingEvent s = s\<lparr>rs_skipped_pending_event := rs_skipped_pending_event s + 1\<rparr>"
| "count_action CreateRepairEvent s = s\<lparr>rs_created_repair_event := rs_created_repair_event s + 1\<rparr>"

text \<open>The column's \<open>onupdate\<close> is the constant start time of the process.\<close>

definition requeue :: "ctx_env \<Rightarrow> OutboxEvent \<Rightarrow> OutboxEvent" where
  "requeue E r = r\<lparr>oe_status := ''pending'', oe_retry_count := 0, oe_last_error := None, oe_processed_at := None,
     oe_available_at := now_at E, oe_updated_at := boot_at E\<rparr>"

fun apply_action :: "ctx_env \<Rightarrow> uuid \<Rightarrow> Lead \<Rightarrow> repair_action \<Rightarrow> db \<Rightarrow> py_exc + db" where
  "apply_action E i lead (RequeueDeadLetter e) D = Inr (set_event (oe_id e) (requeue E) D)"
| "apply_action E i lead (RequeueStaleProcessing e) D = Inr (set_event (oe_id e) (requeue E) D)"
| "apply_action E i lead CreateRepairEvent D =
     publish_outbox_event_in_session E i ''lead.created'' (build_repair_payload lead) (repair_key (ld_id lead))
       (Some ''lead'') (Some (ld_id lead)) D"
| "apply_action E i lead _ D = Inr D"

fun repair_leads ::
  "ctx_env \<Rightarrow> timestamp \<Rightarrow> bool \<Rightarrow> nat \<Rightarrow> Lead list \<Rightarrow> RepairSummary \<times> db \<Rightarrow> py_exc + RepairSummary \<times> db" where
  "repair_leads E cutoff apply_changes n [] (s, D) = Inr (s, D)"
| "repair_leads E cutoff apply_changes n (lead # rest) (s, D) =
     (let a = repair_action_of cutoff (ld_id lead) (lead_events (ld_id lead) D)
      in sbind (if apply_changes then apply_action E (fresh E n) lead a D else Inr D) (\<lambda>D'.
           repair_leads E cutoff apply_changes (Suc n) rest (count_action a s, D')))"

definition repair_stuck_lead_processing :: "ctx_env \<Rightarrow> bool \<Rightarrow> db \<Rightarrow> (py_exc + RepairSummary) \<times> db" where
  "repair_stuck_lead_processing E apply_changes D =
     (case repair_leads E (now_at E - seconds 600) apply_changes 0 (stuck_leads D)
             (\<lparr>rs_scanned = length (stuck_leads D), rs_requeued_dead_letter = 0, rs_requeued_stale_processing = 0,
               rs_created_repair_event = 0, rs_skipped_pending_event = 0, rs_skipped_existing_repair = 0\<rparr>, D) of
        Inl e \<Rightarrow> (Inl e, D)
      | Inr (s, D') \<Rightarrow> (Inr s, if apply_changes then D' else D))"

section \<open>Moving legacy leads into the pipeline\<close>

definition LEAD_PROCESSING_STATUS_PENDING :: string where
  "LEAD_PROCESSING_STATUS_PENDING = ''pending''"

record BackfillSummary =
  bf_scanned :: nat
  bf_empty_completed :: nat
  bf_non_empty_queued :: nat
  bf_spam_rows_created :: nat
  bf_level_rows_created :: nat
  bf_outbox_created :: nat

definition is_empty_message :: "string option \<Rightarrow> bool" where
  "is_empty_message message \<longleftrightarrow> py_strip (case message of None \<Rightarrow> [] | Some m \<Rightarrow> m) = []"

definition legacy_leads :: "db \<Rightarrow> Lead list" where
  "legacy_leads D = sort_key ld_created_at (filter (\<lambda>l. ld_processing_status l = LEAD_PROCESSING_STATUS_PENDING) (leads D))"

definition set_processing_status :: "ctx_env \<Rightarrow> Lead \<Rightarrow> string \<Rightarrow> db \<Rightarrow> db" where
  "set_processing_status E lead status D = store_lead E lead (lead\<lparr>ld_processing_status := status\<rparr>) D"

definition spam_verdict_row :: "Lead \<Rightarrow> LeadResult \<Rightarrow> LeadResult" where
  "spam_verdict_row lead r =
     r\<lparr>lr_status := LEAD_PROCESSING_STATUS_COMPLETED, lr_label := Some ''spam'', lr_score := Some 1,
       lr_details := Some (JObj [(''reason'', JText ''empty_message_legacy_backfill'')]),
       lr_idempotency_key := Some (''legacy_empty_spam_'' @ ld_id lead)\<rparr>"

definition complete_empty_lead :: "ctx_env \<Rightarrow> nat \<Rightarrow> Lead \<Rightarrow> LeadResult option \<Rightarrow> db \<Rightarrow> db" where
  "complete_empty_lead E n lead spam D =
     set_processing_status E lead LEAD_PROCESSING_STATUS_COMPLETED
       (D\<lparr>spam_results :=
          (case spam of
             None \<Rightarrow> spam_results D @ [spam_verdict_row lead (pending_result E (fresh E n) (ld_id lead) (ld_agency_tenant_id lead))]
           | Some r \<Rightarrow> update_row lr_id (lr_id r)
               (\<lambda>_. if spam_verdict_row lead r = r then r else (spam_verdict_row lead r)\<lparr>lr_updated_at := now_at E\<rparr>)
               (spam_results D))\<rparr>)"

definition add_pending :: "ctx_env \<Rightarrow> uuid \<Rightarrow> Lead \<Rightarrow> LeadResult option \<Rightarrow> LeadResult list \<Rightarrow> LeadResult list" where
  "add_pending E i lead existing rows =
     (case existing of None \<Rightarrow> rows @ [pending_result E i (ld_id lead) (ld_agency_tenant_id lead)] | Some _ \<Rightarrow> rows)"

definition queue_legacy_lead ::
  "ctx_env \<Rightarrow> nat \<Rightarrow> Lead \<Rightarrow> LeadResult option \<Rightarrow> LeadResult option \<Rightarrow> OutboxEvent option \<Rightarrow> db \<Rightarrow> py_exc + db" where
  "queue_legacy_lead E n lead spam level event D =
     (let D1 = D\<lparr>spam_results := add_pending E (fresh E n) lead spam (spam_results D),
                 level_results := add_pending E (fresh E (n + 1)) lead level (level_results D)\<rparr>
      in sbind (case event of
                  None \<Rightarrow> publish_outbox_event_in_session E (fresh E (n + 2)) ''lead.created'' (build_repair_payload lead)
                            (created_key (ld_id lead)) (Some ''lead'') (Some (ld_id lead)) D1
                | Some _ \<Rightarrow> Inr D1) (\<lambda>D2.
           Inr (set_processing_status E lead LEAD_PROCESSING_STATUS_PENDING_SPAM D2)))"

definition backfill_lead ::
  "ctx_env \<Rightarrow> bool \<Rightarrow> bool \<Rightarrow> nat \<Rightarrow> Lead \<Rightarrow> BackfillSummary \<times> db \<Rightarrow> py_exc + BackfillSummary \<times> db" where
  "backfill_lead E empty_is_spam apply_changes n lead = (\<lambda>(s, D).
     sbind (result_by_lead (ld_id lead) (spam_results D)) (\<lambda>spam.
     sbind (result_by_lead (ld_id lead) (level_results D)) (\<lambda>level.
     sbind (scalar_one_or_none MultipleResultsFound
              (filter (\<lambda>e. oe_idempotency_key e = created_key (ld_id lead)) (outbox_events D))) (\<lambda>event.
       (let new = (\<lambda>x. if x = None then 1 else 0)
        in if is_empty_message (ld_message lead) \<and> empty_is_spam
           then Inr (s\<lparr>bf_empty_completed := bf_empty_completed s + 1,
                       bf_spam_rows_created := bf_spam_rows_created s + new spam\<rparr>,
                     if apply_changes then complete_empty_lead E n lead spam D else D)
           else sbind (if apply_changes then queue_legacy_lead E n lead spam level event D else Inr D) (\<lambda>D'.
                Inr (s\<lparr>bf_non_empty_queued := bf_non_empty_queued s + 1,
                       bf_spam_rows_created := bf_spam_rows_created s + new spam,
                       bf_level_rows_created := bf_level_rows_created s + new level,
                       bf_outbox_created := bf_outbox_created s + (if event = None then 1 else 0)\<rparr>, D')))))))"

fun backfill_leads ::
  "ctx_env \<Rightarrow> bool \<Rightarrow> bool \<Rightarrow> nat \<Rightarrow> Lead list \<Rightarrow> BackfillSummary \<times> db \<Rightarrow> py_exc + BackfillSummary \<times> db" where
  "backfill_leads E empty_is_spam apply_changes n [] w = Inr w"
| "backfill_leads E empty_is_spam apply_changes n (lead # rest) w =
     sbind (backfill_lead E empty_is_spam apply_changes n lead w)
       (backfill_leads E empty_is_spam apply_changes (n + 3) rest)"

definition backfill_legacy_lead_processing :: "ctx_env \<Rightarrow> bool \<Rightarrow> bool \<Rightarrow> db \<Rightarrow> (py_exc + BackfillSummary) \<times> db" where
  "backfill_legacy_lead_processing E empty_is_spam apply_changes D =
     (case backfill_leads E empty_is_spam apply_changes 0 (legacy_leads D)
             (\<lparr>bf_scanned = length (legacy_leads D), bf_empty_completed = 0, bf_non_empty_queued = 0,
               bf_spam_rows_created = 0, bf_level_rows_created = 0, bf_outbox_created = 0\<rparr>, D) of
        Inl e \<Rightarrow> (Inl e, D)
      | Inr (s, D') \<Rightarrow> (Inr s, if apply_changes then D' else D))"

end
