(* ===== verification/DryRun.thy ===== *)
theory DryRun
  imports Common
begin

text \<open>
  Scripts that go through a list of items in one transaction and can be run dry: the contract of one step
  and what it gives for the whole script.
\<close>

text \<open>The steps in order, numbered; each answers what it counts. An exception ends the script.\<close>

fun script_run :: "(bool \<Rightarrow> nat \<Rightarrow> 'i \<Rightarrow> 's \<Rightarrow> 'e + 'c \<times> 's) \<Rightarrow> bool \<Rightarrow> nat \<Rightarrow> 'i list \<Rightarrow> 's \<Rightarrow> 'e + 'c list \<times> 's" where
  "script_run step apply_changes n [] s = Inr ([], s)"
| "script_run step apply_changes n (i # rest) s =
     sbind (step apply_changes n i s) (\<lambda>(c, s'). sbind (script_run step apply_changes (Suc n) rest s') (\<lambda>(cs, s''). Inr (c # cs, s'')))"

text \<open>The counters that the steps answered, applied in order.\<close>

definition counted :: "('c \<Rightarrow> 'c) list \<times> 's \<Rightarrow> 'c \<Rightarrow> 'c \<times> 's" where
  "counted w c = (fold (\<lambda>f. f) (fst w) c, snd w)"

lemma counted_simps [simp]:
  "counted ([], s) c = (c, s)" "counted (f # fs, s) c = counted (fs, s) (f c)"
  by (simp_all add: counted_def)

text \<open>
  A step that succeeds is foretold by a dry step on any state in which the item looks the same, and leaves
  alone how the items yet to come look.
\<close>

locale dry_runnable =
  fixes step :: "bool \<Rightarrow> nat \<Rightarrow> 'i \<Rightarrow> 's \<Rightarrow> 'e + 'c \<times> 's"
    and view :: "'i \<Rightarrow> 's \<Rightarrow> 'v"
    and apart :: "'i list \<Rightarrow> 's \<Rightarrow> bool"
  assumes foretold: "step True n i s = Inr (c, s') \<Longrightarrow> view i s0 = view i s \<Longrightarrow> step False n i s0 = Inr (c, s0)"
    and undisturbed: "step True n i s = Inr (c, s') \<Longrightarrow> apart (i # rest) s \<Longrightarrow>
      apart rest s' \<and> (\<forall>j \<in> set rest. view j s' = view j s)"
begin

lemma dry_run:
  assumes "script_run step True n is s = Inr (cs, s')" "apart is s" "\<forall>i \<in> set is. view i s0 = view i s"
  shows "script_run step False n is s0 = Inr (cs, s0)"
  using assms
proof (induction "is" arbitrary: n s cs)
  case (Cons i rest)
  from Cons.prems(1) obtain c s1 cs1 where one: "step True n i s = Inr (c, s1)"
      and rest: "script_run step True (Suc n) rest s1 = Inr (cs1, s')" and cs: "cs = c # cs1"
    by (auto simp: sbind_Inr_iff)
  have "script_run step False (Suc n) rest s0 = Inr (cs1, s0)"
    using Cons.IH [OF rest] undisturbed [OF one Cons.prems(2)] Cons.prems(3) by simp
  then show ?case using foretold [OF one] Cons.prems(3) by (simp add: cs)
qed simp

end

end
