(* ===== verification/RepairProps.thy ===== *)
theory RepairProps
  imports Repair DryRun
begin

text \<open>
  What the repair scripts guarantee: the repair serves every stuck lead or nobody, its dry run tells
  what it will do, and together with the migration it leaves no lead behind.
\<close>

lemmas action_splits = if_splits option.splits

definition concerns :: "uuid \<Rightarrow> OutboxEvent \<Rightarrow> bool" where
  "concerns i e \<longleftrightarrow> oe_event_name e = ''lead.created'' \<and> oe_aggregate_type e = Some ''lead'' \<and> oe_aggregate_id e = Some i"

lemma lead_events_sorted: "lead_events i D = sort_key (\<lambda>e. Desc (oe_created_at e)) (filter (concerns i) (outbox_events D))"
  by (simp add: lead_events_def concerns_def [abs_def])

lemma set_lead_events: "set (lead_events i D) = {e \<in> set (outbox_events D). concerns i e}"
  by (auto simp: lead_events_sorted)

lemma requeue_fields [simp]:
  "oe_id (requeue E r) = oe_id r" "oe_idempotency_key (requeue E r) = oe_idempotency_key r"
  "oe_status (requeue E r) = ''pending''" "oe_aggregate_id (requeue E r) = oe_aggregate_id r"
  "concerns i (requeue E r) = concerns i r"
  by (simp_all add: requeue_def concerns_def)

lemma find_in: "find P xs = Some x \<Longrightarrow> x \<in> set xs \<and> P x"
  by (induction xs) (auto split: if_splits)

lemma action_event:
  "repair_action_of c i es = RequeueDeadLetter e \<Longrightarrow> e \<in> set es"
  "repair_action_of c i es = RequeueStaleProcessing e \<Longrightarrow> e \<in> set es"
  unfolding repair_action_of_def by (auto split: action_splits dest: find_in)

lemma action_skip:
  "repair_action_of c i es = SkipExistingRepair \<Longrightarrow>
     \<exists>e \<in> set es. oe_idempotency_key e = repair_key i \<and> oe_status e \<in> {''pending'', ''processing'', ''delivered''}"
  "repair_action_of c i es = SkipPendingEvent \<Longrightarrow> \<exists>e \<in> set es. oe_status e \<in> {''pending'', ''processing''}"
  unfolding repair_action_of_def
  by (auto split: action_splits dest!: find_in)+

text \<open>Requeueing and publishing are the only two changes.\<close>

lemma apply_action_cases:
  assumes "apply_action E f lead a D = Inr D'" "a = repair_action_of c (ld_id lead) (lead_events (ld_id lead) D)"
  obtains (same) "D' = D" "a = SkipExistingRepair \<or> a = SkipPendingEvent"
  | (requeued) e where "e \<in> set (lead_events (ld_id lead) D)" "D' = set_event (oe_id e) (requeue E) D"
  | (published) pl where "a = CreateRepairEvent"
      "D' = D\<lparr>outbox_events := outbox_events D @
        [new_outbox_event E f ''lead.created'' pl (repair_key (ld_id lead)) (Some ''lead'') (Some (ld_id lead))]\<rparr>"
proof (cases a)
  case (RequeueDeadLetter e)
  then show ?thesis using assms action_event(1) requeued by (metis apply_action.simps(1) sum.inject(2))
next
  case (RequeueStaleProcessing e)
  then show ?thesis using assms action_event(2) requeued by (metis apply_action.simps(2) sum.inject(2))
next
  case CreateRepairEvent
  with assms(1) show ?thesis by (intro published) (auto simp: publish_outbox_Inr)
next
  case SkipExistingRepair
  with assms(1) show ?thesis by (intro same) auto
next
  case SkipPendingEvent
  with assms(1) show ?thesis by (intro same) auto
qed

section \<open>Every stuck lead is served\<close>

text \<open>An event of the lead waits or is being handled, or its repair was delivered.\<close>

definition served :: "uuid \<Rightarrow> db \<Rightarrow> bool" where
  "served i D \<longleftrightarrow> (\<exists>e \<in> set (lead_events i D). oe_status e \<in> {''pending'', ''processing''} \<or>
     oe_idempotency_key e = repair_key i \<and> oe_status e = ''delivered'')"

lemma set_event_events: "outbox_events (set_event i f D) = map (\<lambda>r. if oe_id r = i then f r else r) (outbox_events D)"
  by (simp add: set_event_def update_row_def)

lemma served_requeue: "served i D \<Longrightarrow> served i (set_event k (requeue E) D)"
proof -
  assume "served i D"
  then obtain e where e: "e \<in> set (outbox_events D)" "concerns i e" and
    st: "oe_status e \<in> {''pending'', ''processing''} \<or> oe_idempotency_key e = repair_key i \<and> oe_status e = ''delivered''"
    by (auto simp: served_def set_lead_events)
  let ?e = "if oe_id e = k then requeue E e else e"
  have "?e \<in> set (lead_events i (set_event k (requeue E) D))"
    using e by (simp add: set_lead_events set_event_events)
  moreover have "oe_status ?e \<in> {''pending'', ''processing''} \<or> oe_idempotency_key ?e = repair_key i \<and> oe_status ?e = ''delivered''"
    using st by simp
  ultimately show ?thesis unfolding served_def by blast
qed

lemma apply_action_served:
  assumes "apply_action E f lead a D = Inr D'" "a = repair_action_of c (ld_id lead) (lead_events (ld_id lead) D)"
  shows "served i D \<Longrightarrow> served i D'" and "served (ld_id lead) D'"
proof -
  show "served i D \<Longrightarrow> served i D'"
    using assms by (cases rule: apply_action_cases) (auto simp: served_requeue, auto simp: served_def set_lead_events)
  show "served (ld_id lead) D'"
    using assms
  proof (cases rule: apply_action_cases)
    case same
    from same(2) have "served (ld_id lead) D"
    proof
      assume "a = SkipExistingRepair"
      then show ?thesis using action_skip(1) [OF assms(2) [symmetric, THEN trans]] unfolding served_def by blast
    next
      assume "a = SkipPendingEvent"
      then show ?thesis using action_skip(2) [OF assms(2) [symmetric, THEN trans]] unfolding served_def by blast
    qed
    then show ?thesis by (simp add: same)
  next
    case (requeued e)
    then have "requeue E e \<in> set (lead_events (ld_id lead) D')"
      by (simp add: set_lead_events set_event_events)
    moreover have "oe_status (requeue E e) = ''pending''" by simp
    ultimately show ?thesis unfolding served_def by blast
  next
    case (published pl)
    let ?e = "new_outbox_event E f ''lead.created'' pl (repair_key (ld_id lead)) (Some ''lead'') (Some (ld_id lead))"
    have "?e \<in> set (lead_events (ld_id lead) D')"
      by (simp add: published set_lead_events concerns_def new_outbox_event_def)
    moreover have "oe_status ?e = ''pending''" by simp
    ultimately show ?thesis unfolding served_def by blast
  qed
qed

lemma repair_serves:
  assumes "repair_leads E c True n ls (s, D) = Inr (s', D')"
  shows "(served i D \<longrightarrow> served i D') \<and> (\<forall>l \<in> set ls. served (ld_id l) D')"
  using assms
proof (induction ls arbitrary: n s D i)
  case (Cons l ls)
  let ?a = "repair_action_of c (ld_id l) (lead_events (ld_id l) D)"
  from Cons.prems obtain D1 where D1: "apply_action E (fresh E n) l ?a D = Inr D1"
      and rest: "repair_leads E c True (Suc n) ls (count_action ?a s, D1) = Inr (s', D')"
    by (auto simp: Let_def sbind_Inr_iff)
  show ?case using apply_action_served [OF D1 refl] Cons.IH [OF rest] by auto
qed simp

lemma repair_keeps_leads:
  "repair_leads E c b n ls (s, D) = Inr (s', D') \<Longrightarrow> leads D' = leads D"
proof (induction ls arbitrary: n s D)
  case (Cons l ls)
  let ?a = "repair_action_of c (ld_id l) (lead_events (ld_id l) D)"
  from Cons.prems obtain D1 where D1: "(if b then apply_action E (fresh E n) l ?a D else Inr D) = Inr D1"
      and rest: "repair_leads E c b (Suc n) ls (count_action ?a s, D1) = Inr (s', D')"
    by (auto simp: Let_def sbind_Inr_iff)
  have "leads D1 = leads D"
    using D1 by (cases ?a) (auto simp: set_event_def publish_outbox_Inr split: if_splits)
  then show ?case using Cons.IH [OF rest] by simp
qed simp

section \<open>Leads do not disturb each other\<close>

text \<open>No two events of different leads yet to come share an identifier.\<close>

definition owners :: "db \<Rightarrow> (uuid \<times> uuid option) set" where
  "owners D = (\<lambda>r. (oe_id r, oe_aggregate_id r)) ` set (outbox_events D)"

definition apart :: "uuid set \<Rightarrow> db \<Rightarrow> bool" where
  "apart rem D \<longleftrightarrow> (\<forall>n i k. (n, Some i) \<in> owners D \<longrightarrow> (n, Some k) \<in> owners D \<longrightarrow> i \<in> rem \<longrightarrow> k \<in> rem \<longrightarrow> i = k)"

lemma owner: "r \<in> set (outbox_events D) \<Longrightarrow> (oe_id r, oe_aggregate_id r) \<in> owners D"
  by (auto simp: owners_def)

lemma owners_requeue: "owners (set_event k (requeue E) D) = owners D"
proof -
  have "map (\<lambda>r. (oe_id r, oe_aggregate_id r)) (outbox_events (set_event k (requeue E) D)) =
      map (\<lambda>r. (oe_id r, oe_aggregate_id r)) (outbox_events D)"
    by (simp add: set_event_events)
  then show ?thesis unfolding owners_def by (metis list.set_map)
qed

lemma apart_unique: "unique_on oe_id (outbox_events D) \<Longrightarrow> apart rem D"
proof -
  assume u: "unique_on oe_id (outbox_events D)"
  have "i = k" if "(n, Some i) \<in> owners D" "(n, Some k) \<in> owners D" for n i k
  proof -
    from that obtain r r' where r: "r \<in> set (outbox_events D)" "oe_id r = n" "oe_aggregate_id r = Some i"
        and r': "r' \<in> set (outbox_events D)" "oe_id r' = n" "oe_aggregate_id r' = Some k"
      by (auto simp: owners_def)
    then have "r = r'" using unique_onD [OF u] by blast
    then show ?thesis using r(3) r'(3) by simp
  qed
  then show ?thesis unfolding apart_def by blast
qed

lemma apply_action_apart:
  assumes "apply_action E f lead a D = Inr D'" "a = repair_action_of c (ld_id lead) (lead_events (ld_id lead) D)"
    and "apart rem D" "ld_id lead \<in> rem"
  shows "apart (rem - {ld_id lead}) D'"
  using assms(1,2)
proof (cases rule: apply_action_cases)
  case same
  then show ?thesis using assms(3) unfolding apart_def by blast
next
  case (requeued e)
  then show ?thesis using assms(3) by (simp add: apart_def owners_requeue)
next
  case (published pl)
  have new: "owners D' = insert (f, Some (ld_id lead)) (owners D)" by (simp add: published owners_def new_outbox_event_def)
  show ?thesis unfolding apart_def
  proof (intro allI impI)
    fix n i k
    assume own: "(n, Some i) \<in> owners D'" "(n, Some k) \<in> owners D'" and rem: "i \<in> rem - {ld_id lead}" "k \<in> rem - {ld_id lead}"
    then have "(n, Some i) \<in> owners D" "(n, Some k) \<in> owners D" by (auto simp: new)
    then show "i = k" using assms(3) rem unfolding apart_def by blast
  qed
qed

lemma apply_action_others:
  assumes "apply_action E f lead a D = Inr D'" "a = repair_action_of c (ld_id lead) (lead_events (ld_id lead) D)"
    and "apart rem D" "ld_id lead \<in> rem" "k \<in> rem" "k \<noteq> ld_id lead"
  shows "lead_events k D' = lead_events k D"
  using assms(1,2)
proof (cases rule: apply_action_cases)
  case (requeued e)
  have "\<not> concerns k r" if "r \<in> set (outbox_events D)" "oe_id r = oe_id e" for r
  proof
    assume "concerns k r"
    then have "(oe_id e, Some k) \<in> owners D" using owner [OF that(1)] that(2) by (simp add: concerns_def)
    moreover have "(oe_id e, Some (ld_id lead)) \<in> owners D"
      using owner [of e D] requeued(1) by (simp add: set_lead_events concerns_def)
    ultimately show False using assms(3-6) unfolding apart_def by blast
  qed
  then have "filter (concerns k) (map (\<lambda>r. if oe_id r = oe_id e then requeue E r else r) rs) = filter (concerns k) rs"
    if "set rs \<subseteq> set (outbox_events D)" for rs
    using that by (induction rs) auto
  then show ?thesis by (simp add: requeued lead_events_sorted set_event_events)
next
  case (published pl)
  then show ?thesis using assms(6) by (simp add: lead_events_sorted concerns_def new_outbox_event_def)
qed simp

text \<open>The script is a run of steps that can be run dry.\<close>

definition repair_step ::
  "ctx_env \<Rightarrow> timestamp \<Rightarrow> bool \<Rightarrow> nat \<Rightarrow> Lead \<Rightarrow> db \<Rightarrow> py_exc + (RepairSummary \<Rightarrow> RepairSummary) \<times> db" where
  "repair_step E cutoff apply_changes n lead D =
     (let a = repair_action_of cutoff (ld_id lead) (lead_events (ld_id lead) D)
      in sbind (if apply_changes then apply_action E (fresh E n) lead a D else Inr D) (\<lambda>D'. Inr (count_action a, D')))"

lemma repair_leads_run:
  "repair_leads E c b n ls (s, D) = sbind (script_run (repair_step E c) b n ls D) (\<lambda>w. Inr (counted w s))"
proof (induction ls arbitrary: n s D)
  case (Cons l ls)
  let ?a = "repair_action_of c (ld_id l) (lead_events (ld_id l) D)"
  show ?case
  proof (cases "if b then apply_action E (fresh E n) l ?a D else Inr D")
    case (Inr D1)
    moreover from Inr have "repair_step E c b n l D = Inr (count_action ?a, D1)" by (simp add: repair_step_def Let_def)
    ultimately show ?thesis
      by (cases "script_run (repair_step E c) b (Suc n) ls D1") (auto simp: Let_def Cons.IH)
  next
    case (Inl e)
    moreover from Inl have "repair_step E c b n l D = Inl e" by (simp add: repair_step_def Let_def)
    ultimately show ?thesis by (simp add: Let_def)
  qed
qed simp

interpretation repairs: dry_runnable "repair_step E c" "\<lambda>l. lead_events (ld_id l)"
  "\<lambda>ls D. unique_on ld_id ls \<and> apart (ld_id ` set ls) D"
proof
  fix n i s x s' s0
  assume "repair_step E c True n i s = Inr (x, s')" "lead_events (ld_id i) s0 = lead_events (ld_id i) s"
  then show "repair_step E c False n i s0 = Inr (x, s0)" by (auto simp: repair_step_def Let_def sbind_Inr_iff)
next
  fix n i s x s' and rest :: "Lead list"
  assume run: "repair_step E c True n i s = Inr (x, s')" and apart: "unique_on ld_id (i # rest) \<and> apart (ld_id ` set (i # rest)) s"
  let ?a = "repair_action_of c (ld_id i) (lead_events (ld_id i) s)"
  from run have s': "apply_action E (fresh E n) i ?a s = Inr s'" by (auto simp: repair_step_def Let_def sbind_Inr_iff)
  have rem: "ld_id ` set (i # rest) - {ld_id i} = ld_id ` set rest" using apart by auto
  have "apart (ld_id ` set rest) s'" using apply_action_apart [OF s' refl, of "ld_id ` set (i # rest)"] apart rem by simp
  moreover have "lead_events (ld_id j) s' = lead_events (ld_id j) s" if "j \<in> set rest" for j
    using apply_action_others [OF s' refl, of "ld_id ` set (i # rest)" "ld_id j"] apart that by (metis image_eqI list.set_intros unique_on_Cons)
  ultimately show "(unique_on ld_id rest \<and> apart (ld_id ` set rest) s') \<and> (\<forall>j \<in> set rest. lead_events (ld_id j) s' = lead_events (ld_id j) s)"
    using apart by simp
qed

lemma taken_key_stays:
  assumes "apply_action E f lead a D = Inr D'" "a = repair_action_of c (ld_id lead) (lead_events (ld_id lead) D)"
    and "key \<in> oe_idempotency_key ` set (outbox_events D)"
  shows "key \<in> oe_idempotency_key ` set (outbox_events D')"
  using assms(1,2)
proof (cases rule: apply_action_cases)
  case (requeued e)
  have "map oe_idempotency_key (outbox_events D') = map oe_idempotency_key (outbox_events D)"
    by (simp add: requeued set_event_events)
  then show ?thesis using assms(3) by (metis list.set_map)
qed (use assms(3) in auto)

abbreviation key_error :: py_exc where
  "key_error \<equiv> IntegrityError ''outbox_events_idempotency_key_key''"

lemma taken_key_aborts:
  assumes "l \<in> set ls" "repair_action_of c (ld_id l) (lead_events (ld_id l) D) = CreateRepairEvent"
    and "repair_key (ld_id l) \<in> oe_idempotency_key ` set (outbox_events D)"
    and "unique_on ld_id ls" "apart (ld_id ` set ls) D"
  shows "repair_leads E c True n ls (s, D) = Inl key_error"
  using assms
proof (induction ls arbitrary: n s D)
  case (Cons x ls)
  let ?a = "repair_action_of c (ld_id x) (lead_events (ld_id x) D)"
  show ?case
  proof (cases "apply_action E (fresh E n) x ?a D")
    case (Inl e)
    then have "e = key_error" by (cases ?a) (auto simp: publish_outbox_event_in_session_def split: if_splits)
    then show ?thesis using Inl by (simp add: Let_def)
  next
    case (Inr D1)
    have "x \<noteq> l" using Inr Cons.prems(2,3) by (auto simp: publish_outbox_event_in_session_def)
    then have mem: "l \<in> set ls" and other: "ld_id l \<noteq> ld_id x" using Cons.prems(1,4) by (auto, metis imageI)
    have rem: "ld_id ` set (x # ls) - {ld_id x} = ld_id ` set ls" using Cons.prems(4) by auto
    have "apart (ld_id ` set ls) D1" using apply_action_apart [OF Inr refl Cons.prems(5)] rem by simp
    moreover have "lead_events (ld_id l) D1 = lead_events (ld_id l) D"
      using apply_action_others [OF Inr refl Cons.prems(5)] mem other by simp
    ultimately have "repair_leads E c True (Suc n) ls (count_action ?a s, D1) = Inl key_error"
      using Cons.IH [OF mem] Cons.prems(2,4) taken_key_stays [OF Inr refl Cons.prems(3)] by simp
    then show ?thesis using Inr by (simp add: Let_def)
  qed
qed simp

lemma stuck_leads_unique: "unique_on ld_id (leads D) \<Longrightarrow> unique_on ld_id (stuck_leads D)"
  by (auto simp: unique_on_def stuck_leads_def distinct_map inj_on_def)

text \<open>
  C27. The dry run of the repair foretells the repair: whenever the repair succeeds, the dry run on the same
  database reports the same numbers of leads scanned, requeued, given a new event and skipped, and leaves
  the database as it is.
\<close>

theorem dry_run_predicts_repair:
  assumes "repair_stuck_lead_processing E True D = (Inr s, D')"
    and "unique_on ld_id (leads D)" "unique_on oe_id (outbox_events D)"
  shows "repair_stuck_lead_processing E False D = (Inr s, D)"
proof -
  let ?s0 = "\<lparr>rs_scanned = length (stuck_leads D), rs_requeued_dead_letter = 0, rs_requeued_stale_processing = 0,
      rs_created_repair_event = 0, rs_skipped_pending_event = 0, rs_skipped_existing_repair = 0\<rparr>"
  from assms(1) obtain D1 where "repair_leads E (now_at E - seconds 600) True 0 (stuck_leads D) (?s0, D) = Inr (s, D1)"
    by (auto simp: repair_stuck_lead_processing_def split: sum.splits)
  then obtain fs where real: "script_run (repair_step E (now_at E - seconds 600)) True 0 (stuck_leads D) D = Inr (fs, D1)"
      and s: "fst (counted (fs, D1) ?s0) = s"
    by (auto simp: repair_leads_run sbind_Inr_iff counted_def)
  have "script_run (repair_step E (now_at E - seconds 600)) False 0 (stuck_leads D) D = Inr (fs, D)"
    by (rule repairs.dry_run [OF real]) (use stuck_leads_unique [OF assms(2)] apart_unique [OF assms(3)] in auto)
  then show ?thesis using s by (simp add: repair_stuck_lead_processing_def repair_leads_run counted_def)
qed

text \<open>
  C37. One lead whose repair event ended as a dead letter blocks the repair of all: when it has no other
  event that waits, is being handled or is a dead letter, the repair publishes its key a second time and the
  whole transaction, with every other lead's requeueing, is rolled back, now and at every later run.
\<close>

theorem dead_repair_blocks_all:
  assumes "lead \<in> set (leads D)" "ld_processing_status lead \<in> set iter_stuck_statuses"
    and "\<exists>e \<in> set (lead_events (ld_id lead) D). oe_idempotency_key e = repair_key (ld_id lead)"
    and "\<forall>e \<in> set (lead_events (ld_id lead) D).
      (if oe_idempotency_key e = repair_key (ld_id lead) then oe_status e = ''dead_letter'' else oe_status e = ''delivered'')"
    and "unique_on ld_id (leads D)" "unique_on oe_id (outbox_events D)"
  shows "repair_stuck_lead_processing E True D = (Inl key_error, D)"
proof -
  let ?es = "lead_events (ld_id lead) D"
  have mem: "lead \<in> set (stuck_leads D)" using assms(1,2) by (simp add: stuck_leads_def)
  have "find (\<lambda>e. oe_idempotency_key e = created_key (ld_id lead) \<and> oe_status e = ''dead_letter'') ?es = None"
    using assms(4) by (auto simp: find_None_iff created_key_def repair_key_def)
  moreover have "find (\<lambda>e. oe_idempotency_key e = created_key (ld_id lead) \<and> oe_status e = ''processing'' \<and>
      oe_updated_at e < now_at E - seconds 600) ?es = None"
    using assms(4) by (fastforce simp: find_None_iff split: if_splits)
  moreover have "find (\<lambda>e. oe_status e \<in> {''pending'', ''processing''}) ?es = None"
    using assms(4) by (fastforce simp: find_None_iff split: if_splits)
  moreover have "oe_status e = ''dead_letter''" if "find (\<lambda>e. oe_idempotency_key e = repair_key (ld_id lead)) ?es = Some e" for e
    using find_in [OF that] assms(4) by metis
  ultimately have "repair_action_of (now_at E - seconds 600) (ld_id lead) ?es = CreateRepairEvent"
    by (auto simp: repair_action_of_def split: option.split)
  moreover have "repair_key (ld_id lead) \<in> oe_idempotency_key ` set (outbox_events D)"
    using assms(3) by (auto simp: set_lead_events) (metis imageI)
  ultimately show ?thesis
    using taken_key_aborts [OF mem _ _ stuck_leads_unique [OF assms(5)] apart_unique [OF assms(6)]]
    by (simp add: repair_stuck_lead_processing_def)
qed

section \<open>No legacy lead is left behind\<close>

lemma set_processing_status_leads:
  "status \<noteq> LEAD_PROCESSING_STATUS_PENDING \<Longrightarrow> ld_processing_status r = LEAD_PROCESSING_STATUS_PENDING \<Longrightarrow>
   r \<in> set (leads (set_processing_status E lead status D)) \<Longrightarrow> r \<in> set (leads D) \<and> ld_id r \<noteq> ld_id lead"
  by (auto simp: set_processing_status_def update_row_def split: if_splits)

lemma set_processing_status_ids:
  "map ld_id (leads (set_processing_status E lead status D)) = map ld_id (leads D)"
  by (auto simp: set_processing_status_def update_row_def)

lemma queue_legacy_lead_effect:
  assumes "queue_legacy_lead E n lead spam level event D = Inr D'"
  obtains D1 where "D' = set_processing_status E lead LEAD_PROCESSING_STATUS_PENDING_SPAM D1" "leads D1 = leads D"
  using assms by (cases event) (auto simp: queue_legacy_lead_def Let_def sbind_Inr_iff publish_outbox_Inr)

lemma backfill_lead_cases:
  assumes "backfill_lead E b True n lead (s, D) = Inr (s', D')"
  obtains spam where "D' = complete_empty_lead E n lead spam D"
  | spam level event where "queue_legacy_lead E n lead spam level event D = Inr D'"
  using assms by (auto simp: backfill_lead_def sbind_Inr_iff Let_def split: if_splits)

lemma backfill_lead_effect:
  assumes "backfill_lead E b True n lead (s, D) = Inr (s', D')"
  shows "map ld_id (leads D') = map ld_id (leads D) \<and>
    (\<forall>r \<in> set (leads D'). ld_processing_status r = LEAD_PROCESSING_STATUS_PENDING \<longrightarrow> r \<in> set (leads D) \<and> ld_id r \<noteq> ld_id lead)"
proof -
  from assms obtain D1 st where "D' = set_processing_status E lead st D1" "leads D1 = leads D"
      "st \<noteq> LEAD_PROCESSING_STATUS_PENDING"
  proof (cases rule: backfill_lead_cases)
    case (1 spam)
    show ?thesis
      by (rule that [OF 1 [unfolded complete_empty_lead_def]])
        (simp_all add: processing_status_defs LEAD_PROCESSING_STATUS_PENDING_def)
  next
    case (2 spam level event)
    then obtain D1 where "D' = set_processing_status E lead LEAD_PROCESSING_STATUS_PENDING_SPAM D1" "leads D1 = leads D"
      by (rule queue_legacy_lead_effect)
    then show ?thesis
      by (rule that) (simp add: processing_status_defs LEAD_PROCESSING_STATUS_PENDING_def)
  qed
  then show ?thesis using set_processing_status_leads set_processing_status_ids by metis
qed

lemma backfill_leads_effect:
  assumes "backfill_leads E b True n ls (s, D) = Inr (s', D')"
  shows "map ld_id (leads D') = map ld_id (leads D) \<and>
    (\<forall>r \<in> set (leads D'). ld_processing_status r = LEAD_PROCESSING_STATUS_PENDING \<longrightarrow> r \<in> set (leads D) \<and> ld_id r \<notin> ld_id ` set ls)"
  using assms
proof (induction ls arbitrary: n s D)
  case (Cons l ls)
  from Cons.prems obtain s1 D1 where "backfill_lead E b True n l (s, D) = Inr (s1, D1)"
      and "backfill_leads E b True (n + 3) ls (s1, D1) = Inr (s', D')"
    by (auto simp: sbind_Inr_iff)
  then show ?case using backfill_lead_effect Cons.IH by fastforce
qed simp

text \<open>
  C16. After the migration of the legacy leads and a repair, when both succeed, no lead has the legacy
  processing status and every lead that still waits for a classification has an event that waits or is
  being handled, or a repair event that was delivered; no lead is added or lost.
\<close>

theorem migrated_leads_are_served:
  assumes "backfill_legacy_lead_processing E b True D = (Inr s, D1)"
    and "repair_stuck_lead_processing E' True D1 = (Inr s', D2)"
  shows "map ld_id (leads D2) = map ld_id (leads D) \<and>
    (\<forall>lead \<in> set (leads D2). ld_processing_status lead \<noteq> LEAD_PROCESSING_STATUS_PENDING \<and>
       (ld_processing_status lead \<in> set iter_stuck_statuses \<longrightarrow> served (ld_id lead) D2))"
proof -
  from assms(1) obtain s0 where "backfill_leads E b True 0 (legacy_leads D) (s0, D) = Inr (s, D1)"
    by (auto simp: backfill_legacy_lead_processing_def split: sum.splits)
  note b = backfill_leads_effect [OF this]
  from assms(2) obtain s1 where r: "repair_leads E' (now_at E' - seconds 600) True 0 (stuck_leads D1) (s1, D1) = Inr (s', D2)"
    by (auto simp: repair_stuck_lead_processing_def split: sum.splits)
  have same: "leads D2 = leads D1" using repair_keeps_leads [OF r] .
  have "ld_processing_status lead \<noteq> LEAD_PROCESSING_STATUS_PENDING" if "lead \<in> set (leads D1)" for lead
    using b that by (auto simp: legacy_leads_def)
  moreover have "served (ld_id lead) D2" if "lead \<in> set (leads D1)" "ld_processing_status lead \<in> set iter_stuck_statuses" for lead
    using repair_serves [OF r] that by (simp add: stuck_leads_def)
  ultimately show ?thesis using b same by simp
qed

section \<open>The migration can be run dry as well\<close>

definition backfill_step ::
  "ctx_env \<Rightarrow> bool \<Rightarrow> bool \<Rightarrow> nat \<Rightarrow> Lead \<Rightarrow> db \<Rightarrow> py_exc + (BackfillSummary \<Rightarrow> BackfillSummary) \<times> db" where
  "backfill_step E empty_is_spam apply_changes n lead D =
     sbind (result_by_lead (ld_id lead) (spam_results D)) (\<lambda>spam.
     sbind (result_by_lead (ld_id lead) (level_results D)) (\<lambda>level.
     sbind (scalar_one_or_none MultipleResultsFound
              (filter (\<lambda>e. oe_idempotency_key e = created_key (ld_id lead)) (outbox_events D))) (\<lambda>event.
       (let new = (\<lambda>x. if x = None then 1 else 0)
        in if is_empty_message (ld_message lead) \<and> empty_is_spam
           then Inr (\<lambda>s. s\<lparr>bf_empty_completed := bf_empty_completed s + 1,
                            bf_spam_rows_created := bf_spam_rows_created s + new spam\<rparr>,
                     if apply_changes then complete_empty_lead E n lead spam D else D)
           else sbind (if apply_changes then queue_legacy_lead E n lead spam level event D else Inr D) (\<lambda>D'.
                Inr (\<lambda>s. s\<lparr>bf_non_empty_queued := bf_non_empty_queued s + 1,
                            bf_spam_rows_created := bf_spam_rows_created s + new spam,
                            bf_level_rows_created := bf_level_rows_created s + new level,
                            bf_outbox_created := bf_outbox_created s + (if event = None then 1 else 0)\<rparr>, D'))))))"

lemma sbind_assoc: "sbind (sbind m f) g = sbind m (\<lambda>x. sbind (f x) g)"
  by (cases m) simp_all

lemma backfill_lead_step:
  "backfill_lead E e b n lead (s, D) = sbind (backfill_step E e b n lead D) (\<lambda>(f, D'). Inr (f s, D'))"
  unfolding backfill_lead_def backfill_step_def
  by (simp add: sbind_assoc Let_def split del: if_split cong: sbind_cong) (auto simp: sbind_assoc intro!: sbind_cong)

lemma backfill_leads_run:
  "backfill_leads E e b (3 * n) ls (s, D) =
     sbind (script_run (\<lambda>b n. backfill_step E e b (3 * n)) b n ls D) (\<lambda>w. Inr (counted w s))"
proof (induction ls arbitrary: n s D)
  case (Cons l ls)
  show ?case
  proof (cases "backfill_step E e b (3 * n) l D")
    case (Inr w)
    obtain f D1 where w: "w = (f, D1)" by fastforce
    have "3 * n + 3 = 3 * Suc n" by simp
    then show ?thesis using Inr Cons.IH [of "Suc n" "f s" D1]
      by (cases "script_run (\<lambda>b n. backfill_step E e b (3 * n)) b (Suc n) ls D1") (auto simp: w backfill_lead_step add.commute)
  qed (simp add: backfill_lead_step)
qed simp

text \<open>What the migration of a lead looks at, and when the leads to come do not share a row.\<close>

definition legacy_view :: "Lead \<Rightarrow> db \<Rightarrow> LeadResult list \<times> LeadResult list \<times> OutboxEvent list" where
  "legacy_view l D =
     (filter (\<lambda>r. lr_lead_id r = ld_id l) (spam_results D), filter (\<lambda>r. lr_lead_id r = ld_id l) (level_results D),
      filter (\<lambda>e. oe_idempotency_key e = created_key (ld_id l)) (outbox_events D))"

definition row_owners :: "db \<Rightarrow> (uuid \<times> uuid) set" where
  "row_owners D = (\<lambda>r. (lr_id r, lr_lead_id r)) ` set (spam_results D)"

definition rows_apart :: "uuid set \<Rightarrow> db \<Rightarrow> bool" where
  "rows_apart rem D \<longleftrightarrow> (\<forall>n i k. (n, i) \<in> row_owners D \<longrightarrow> (n, k) \<in> row_owners D \<longrightarrow> i \<in> rem \<longrightarrow> k \<in> rem \<longrightarrow> i = k)"

lemma row_owner: "r \<in> set (spam_results D) \<Longrightarrow> (lr_id r, lr_lead_id r) \<in> row_owners D"
  by (simp add: row_owners_def)

lemma rows_apart_unique: "unique_on lr_id (spam_results D) \<Longrightarrow> rows_apart rem D"
  unfolding rows_apart_def row_owners_def by (auto dest: unique_onD)

lemma created_key_eq [simp]: "created_key i = created_key k \<longleftrightarrow> i = k"
  by (simp add: created_key_def)

lemma set_processing_status_frame [simp]:
  "spam_results (set_processing_status E l st D) = spam_results D"
  "level_results (set_processing_status E l st D) = level_results D"
  "outbox_events (set_processing_status E l st D) = outbox_events D"
  by (simp_all add: set_processing_status_def)

lemma spam_verdict_row_keys [simp]:
  "lr_id (spam_verdict_row l r) = lr_id r" "lr_lead_id (spam_verdict_row l r) = lr_lead_id r"
  by (simp_all add: spam_verdict_row_def)

lemma filter_other_rows:
  assumes "\<And>r. r \<in> set rows \<Longrightarrow> lr_id r = i \<Longrightarrow> lr_lead_id r \<noteq> k" "lr_lead_id x \<noteq> k"
  shows "filter (\<lambda>r. lr_lead_id r = k) (update_row lr_id i (\<lambda>_. x) rows) = filter (\<lambda>r. lr_lead_id r = k) rows"
  using assms by (induction rows) (auto simp: update_row_def)

text \<open>The new table of spam results: a row of the lead is added, or its one row replaced.\<close>

lemma complete_empty_lead_rows:
  assumes "result_by_lead (ld_id l) (spam_results D) = Inr spam" "rows_apart rem D" "ld_id l \<in> rem"
  shows "rows_apart (rem - {ld_id l}) (complete_empty_lead E n l spam D)"
    and "k \<in> rem \<Longrightarrow> k \<noteq> ld_id l \<Longrightarrow> filter (\<lambda>r. lr_lead_id r = k) (spam_results (complete_empty_lead E n l spam D)) =
      filter (\<lambda>r. lr_lead_id r = k) (spam_results D)"
proof -
  have "(rows_apart (rem - {ld_id l}) (complete_empty_lead E n l spam D)) \<and>
    (k \<in> rem \<longrightarrow> k \<noteq> ld_id l \<longrightarrow> filter (\<lambda>r. lr_lead_id r = k) (spam_results (complete_empty_lead E n l spam D)) =
      filter (\<lambda>r. lr_lead_id r = k) (spam_results D))" for k
  proof (cases spam)
    case None
    then have "row_owners (complete_empty_lead E n l spam D) = insert (fresh E n, ld_id l) (row_owners D)"
      by (simp add: row_owners_def complete_empty_lead_def pending_result_def)
    then have "rows_apart (rem - {ld_id l}) (complete_empty_lead E n l spam D)"
      using assms(2) by (simp add: rows_apart_def)
    then show ?thesis by (simp add: None complete_empty_lead_def pending_result_def)
  next
    case (Some r)
    then have "filter (\<lambda>r. lr_lead_id r = ld_id l) (spam_results D) = [r]"
      using assms(1) by (auto simp: result_by_lead_def scalar_one_or_none_def split: list.splits)
    then have r: "r \<in> set (spam_results D)" "lr_lead_id r = ld_id l" by (auto simp: filter_eq_Cons_iff)
    let ?x = "if spam_verdict_row l r = r then r else (spam_verdict_row l r)\<lparr>lr_updated_at := now_at E\<rparr>"
    have x: "lr_id ?x = lr_id r" "lr_lead_id ?x = ld_id l" using r(2) by simp_all
    have rows: "spam_results (complete_empty_lead E n l spam D) = update_row lr_id (lr_id r) (\<lambda>_. ?x) (spam_results D)"
      by (simp add: Some complete_empty_lead_def)
    have "row_owners (complete_empty_lead E n l spam D) \<subseteq> insert (lr_id r, ld_id l) (row_owners D)"
      using x by (auto simp: row_owners_def rows update_row_def)
    then have "rows_apart (rem - {ld_id l}) (complete_empty_lead E n l spam D)"
      using assms(2) unfolding rows_apart_def by blast
    moreover have "lr_lead_id r' \<noteq> k" if "r' \<in> set (spam_results D)" "lr_id r' = lr_id r" "k \<in> rem" "k \<noteq> ld_id l" for r'
    proof
      assume "lr_lead_id r' = k"
      then have "(lr_id r, k) \<in> row_owners D" "(lr_id r, ld_id l) \<in> row_owners D"
        using row_owner [OF that(1)] row_owner [OF r(1)] that(2) r(2) by simp_all
      then show False using assms(2,3) that(3,4) unfolding rows_apart_def by blast
    qed
    ultimately show ?thesis using x by (simp add: rows filter_other_rows)
  qed
  then show "rows_apart (rem - {ld_id l}) (complete_empty_lead E n l spam D)"
    and "k \<in> rem \<Longrightarrow> k \<noteq> ld_id l \<Longrightarrow> filter (\<lambda>r. lr_lead_id r = k) (spam_results (complete_empty_lead E n l spam D)) =
      filter (\<lambda>r. lr_lead_id r = k) (spam_results D)" by blast+
qed

lemma queue_legacy_lead_rows:
  assumes "queue_legacy_lead E n l spam level event D = Inr D'"
  shows "row_owners D' \<subseteq> insert (fresh E n, ld_id l) (row_owners D)"
    and "k \<noteq> ld_id l \<Longrightarrow> filter (\<lambda>r. lr_lead_id r = k) (spam_results D') = filter (\<lambda>r. lr_lead_id r = k) (spam_results D)"
    and "k \<noteq> ld_id l \<Longrightarrow> filter (\<lambda>r. lr_lead_id r = k) (level_results D') = filter (\<lambda>r. lr_lead_id r = k) (level_results D)"
    and "k \<noteq> ld_id l \<Longrightarrow> filter (\<lambda>e. oe_idempotency_key e = created_key k) (outbox_events D') =
      filter (\<lambda>e. oe_idempotency_key e = created_key k) (outbox_events D)"
  using assms
  by (auto simp: queue_legacy_lead_def Let_def sbind_Inr_iff publish_outbox_Inr add_pending_def row_owners_def pending_result_def
      split: option.splits)

lemma backfill_step_undisturbed:
  assumes "backfill_step E e True n l D = Inr (f, D')" "rows_apart rem D" "ld_id l \<in> rem"
  shows "rows_apart (rem - {ld_id l}) D' \<and> (\<forall>j. ld_id j \<in> rem - {ld_id l} \<longrightarrow> legacy_view j D' = legacy_view j D)"
proof -
  obtain spam level event where found: "result_by_lead (ld_id l) (spam_results D) = Inr spam"
      "result_by_lead (ld_id l) (level_results D) = Inr level"
      "scalar_one_or_none MultipleResultsFound (filter (\<lambda>e. oe_idempotency_key e = created_key (ld_id l)) (outbox_events D)) = Inr event"
    using assms(1) unfolding backfill_step_def sbind_Inr_iff by blast
  have "D' = complete_empty_lead E n l spam D \<or> queue_legacy_lead E n l spam level event D = Inr D'"
    using assms(1) by (cases "queue_legacy_lead E n l spam level event D") (simp_all add: backfill_step_def found Let_def split: if_splits)
  then consider (empty) "result_by_lead (ld_id l) (spam_results D) = Inr spam" "D' = complete_empty_lead E n l spam D"
    | (queued) "queue_legacy_lead E n l spam level event D = Inr D'"
    using found(1) by blast
  then show ?thesis
  proof cases
    case empty
    have "level_results D' = level_results D" "outbox_events D' = outbox_events D" by (simp_all add: empty complete_empty_lead_def)
    then show ?thesis using complete_empty_lead_rows [OF empty(1) assms(2,3)] by (auto simp: empty(2) legacy_view_def)
  next
    case queued
    note rows = queue_legacy_lead_rows [OF queued]
    have "rows_apart (rem - {ld_id l}) D'" using rows(1) assms(2) unfolding rows_apart_def by blast
    then show ?thesis using rows(2-4) by (auto simp: legacy_view_def)
  qed
qed

lemma backfill_step_foretold:
  assumes "backfill_step E e True n l D = Inr (f, D')" "legacy_view l D0 = legacy_view l D"
  shows "backfill_step E e False n l D0 = Inr (f, D0)"
proof -
  let ?es = "\<lambda>D. filter (\<lambda>e. oe_idempotency_key e = created_key (ld_id l)) (outbox_events D)"
  have same: "result_by_lead (ld_id l) (spam_results D0) = result_by_lead (ld_id l) (spam_results D)"
      "result_by_lead (ld_id l) (level_results D0) = result_by_lead (ld_id l) (level_results D)" "?es D0 = ?es D"
    using assms(2) by (simp_all add: legacy_view_def result_by_lead_def)
  obtain spam level event where found: "result_by_lead (ld_id l) (spam_results D) = Inr spam"
      "result_by_lead (ld_id l) (level_results D) = Inr level" "scalar_one_or_none MultipleResultsFound (?es D) = Inr event"
    using assms(1) unfolding backfill_step_def sbind_Inr_iff by blast
  show ?thesis
  proof (cases "is_empty_message (ld_message l) \<and> e")
    case True
    then show ?thesis using assms(1) by (auto simp: backfill_step_def same found Let_def split del: if_split)
  next
    case False
    then show ?thesis using assms(1)
      by (cases "queue_legacy_lead E n l spam level event D") (auto simp: backfill_step_def same found Let_def split del: if_split)
  qed
qed

interpretation migrations: dry_runnable "\<lambda>b n. backfill_step E e b (3 * n)" legacy_view
  "\<lambda>ls D. unique_on ld_id ls \<and> rows_apart (ld_id ` set ls) D"
proof
  fix n i s c s' and rest :: "Lead list"
  assume step: "backfill_step E e True (3 * n) i s = Inr (c, s')"
    and apart: "unique_on ld_id (i # rest) \<and> rows_apart (ld_id ` set (i # rest)) s"
  then have "ld_id ` set (i # rest) - {ld_id i} = ld_id ` set rest" by auto
  then show "(unique_on ld_id rest \<and> rows_apart (ld_id ` set rest) s') \<and> (\<forall>j \<in> set rest. legacy_view j s' = legacy_view j s)"
    using backfill_step_undisturbed [OF step, of "ld_id ` set (i # rest)"] apart by auto
qed (rule backfill_step_foretold)

text \<open>
  The dry run of the migration foretells the migration as well.
\<close>

theorem dry_run_predicts_backfill:
  assumes "backfill_legacy_lead_processing E e True D = (Inr s, D')"
    and "unique_on ld_id (leads D)" "unique_on lr_id (spam_results D)"
  shows "backfill_legacy_lead_processing E e False D = (Inr s, D)"
proof -
  let ?s0 = "\<lparr>bf_scanned = length (legacy_leads D), bf_empty_completed = 0, bf_non_empty_queued = 0,
      bf_spam_rows_created = 0, bf_level_rows_created = 0, bf_outbox_created = 0\<rparr>"
  note runs = backfill_leads_run [of E e _ 0, simplified]
  from assms(1) obtain fs D1 where real: "script_run (\<lambda>b n. backfill_step E e b (3 * n)) True 0 (legacy_leads D) D = Inr (fs, D1)"
      and s: "fst (counted (fs, D1) ?s0) = s"
    by (auto simp: backfill_legacy_lead_processing_def runs sbind_Inr_iff counted_def split: sum.splits)
  have "unique_on ld_id (legacy_leads D)" using assms(2) by (auto simp: unique_on_def legacy_leads_def distinct_map inj_on_def)
  then have "script_run (\<lambda>b n. backfill_step E e b (3 * n)) False 0 (legacy_leads D) D = Inr (fs, D)"
    by (intro migrations.dry_run [OF real]) (use rows_apart_unique [OF assms(3)] in auto)
  then show ?thesis using s by (simp add: backfill_legacy_lead_processing_def runs counted_def)
qed

section \<open>Witnesses\<close>

definition stuck_event :: "uuid \<Rightarrow> uuid \<Rightarrow> string \<Rightarrow> string \<Rightarrow> OutboxEvent" where
  "stuck_event i lead_id key status =
     (new_outbox_event demo_env i ''lead.created'' (JObj []) key (Some ''lead'') (Some lead_id))\<lparr>oe_status := status\<rparr>"

definition stuck_db :: db where
  "stuck_db = empty_db\<lparr>leads := [demo_lead ''d1'' ''new'' ''pending_spam'', demo_lead ''d2'' ''new'' ''pending_level''],
     outbox_events := [stuck_event ''e1'' ''d1'' ''lead.created.d1'' ''dead_letter'',
                       stuck_event ''e2'' ''d2'' ''lead.created.d2'' ''delivered'']\<rparr>"

definition blocked_db :: db where
  "blocked_db = stuck_db\<lparr>outbox_events := outbox_events stuck_db @ [stuck_event ''e3'' ''d2'' (repair_key ''d2'') ''dead_letter'']\<rparr>"

definition legacy_db :: db where
  "legacy_db = stuck_db\<lparr>leads := [demo_lead ''d1'' ''new'' ''pending'', demo_lead ''d2'' ''new'' ''pending'']\<rparr>"

lemma stuck_unique: "unique_on ld_id (leads stuck_db)" "unique_on oe_id (outbox_events stuck_db)"
  by code_simp+

theorem dry_run_predicts_repair_witness:
  "\<exists>s. repair_stuck_lead_processing demo_env False stuck_db = (Inr s, stuck_db) \<and> rs_requeued_dead_letter s = 1 \<and>
     rs_created_repair_event s = 1"
proof -
  obtain s where s: "fst (repair_stuck_lead_processing demo_env True stuck_db) = Inr s"
      and "rs_requeued_dead_letter s = 1" "rs_created_repair_event s = 1"
  proof -
    have "case fst (repair_stuck_lead_processing demo_env True stuck_db) of
        Inl e \<Rightarrow> False | Inr s \<Rightarrow> rs_requeued_dead_letter s = 1 \<and> rs_created_repair_event s = 1"
      by code_simp
    then show thesis using that by (auto split: sum.splits)
  qed
  then show ?thesis using dry_run_predicts_repair [OF _ stuck_unique] by (metis prod.collapse)
qed

theorem dead_repair_blocks_all_witness:
  "repair_stuck_lead_processing demo_env True blocked_db = (Inl key_error, blocked_db)"
proof (rule dead_repair_blocks_all [where lead = "demo_lead ''d2'' ''new'' ''pending_level''"])
  show "\<exists>e \<in> set (lead_events (ld_id (demo_lead ''d2'' ''new'' ''pending_level'')) blocked_db).
      oe_idempotency_key e = repair_key (ld_id (demo_lead ''d2'' ''new'' ''pending_level''))" by code_simp
  show "\<forall>e \<in> set (lead_events (ld_id (demo_lead ''d2'' ''new'' ''pending_level'')) blocked_db).
      (if oe_idempotency_key e = repair_key (ld_id (demo_lead ''d2'' ''new'' ''pending_level''))
       then oe_status e = ''dead_letter'' else oe_status e = ''delivered'')" by code_simp
qed code_simp+

theorem migrated_leads_are_served_witness:
  "\<exists>s D1 s' D2. backfill_legacy_lead_processing demo_env True True legacy_db = (Inr s, D1) \<and>
     repair_stuck_lead_processing demo_env True D1 = (Inr s', D2) \<and> map ld_id (leads D2) = [''d1'', ''d2'']"
proof -
  have "case backfill_legacy_lead_processing demo_env True True legacy_db of
      (Inl e, D1) \<Rightarrow> False
    | (Inr s, D1) \<Rightarrow> (case repair_stuck_lead_processing demo_env True D1 of (Inl e, D2) \<Rightarrow> False | (Inr s', D2) \<Rightarrow> True)"
    by code_simp
  then obtain s D1 s' D2 where run: "backfill_legacy_lead_processing demo_env True True legacy_db = (Inr s, D1)"
      "repair_stuck_lead_processing demo_env True D1 = (Inr s', D2)"
    by (auto split: prod.splits sum.splits)
  have "map ld_id (leads legacy_db) = [''d1'', ''d2'']" by code_simp
  with migrated_leads_are_served [OF run] run show ?thesis by auto
qed

end
