(* ===== verification/PhotoRepair.thy ===== *)
theory PhotoRepair
  imports WorkerProps Rls Repair
begin

text \<open>
  \<open>scripts/repair_uploaded_listing_photos.py\<close>, which queues again the photos that are still marked
  uploaded, and the policies under which the image worker stores its verdict: the script commits after
  every photo, and the worker's connection (\<open>workers/main.py\<close>) has none of the settings that
  \<open>listing_photo_metadata\<close> asks for.
\<close>

section \<open>The script\<close>

definition uploaded_photos :: "db \<Rightarrow> ListingPhotoMetadata list" where
  "uploaded_photos D = sort_key ph_created_at (filter (\<lambda>p. ph_status p = ''uploaded'') (photos D))"

definition photo_repair_key :: "uuid \<Rightarrow> string" where
  "photo_repair_key photo_id = ''repair-listing.image_uploaded-'' @ photo_id"

definition photo_repair_payload :: "ListingPhotoMetadata \<Rightarrow> json" where
  "photo_repair_payload photo = JObj
     [(''listing_id'', JText (ph_listing_id photo)), (''listing_photo_id'', JText (ph_id photo)),
      (''agency_tenant_id'', JText (ph_agency_tenant_id photo)), (''object_key'', JText (ph_object_key photo)),
      (''content_type'', JText (case ph_content_type photo of None \<Rightarrow> ''image/jpeg'' | Some c \<Rightarrow> if c = [] then ''image/jpeg'' else c)),
      (''file_size_bytes'', JInt (case ph_file_size_bytes photo of None \<Rightarrow> 0 | Some n \<Rightarrow> n)),
      (''uploaded_by_user_id'', JNull)]"

text \<open>Queued and skipped photos are counted; what is committed stays when a later photo raises.\<close>

fun repair_photos ::
  "ctx_env \<Rightarrow> nat \<Rightarrow> ListingPhotoMetadata list \<Rightarrow> nat \<times> nat \<Rightarrow> db \<Rightarrow> (py_exc + nat \<times> nat) \<times> db" where
  "repair_photos E n [] c D = (Inr c, D)"
| "repair_photos E n (photo # rest) (queued, skipped) D =
     (case sbind (scalar_one_or_none MultipleResultsFound
              (take 1 (filter (\<lambda>d. d_listing_photo_metadata_id d = ph_id photo) (derivatives D)))) (\<lambda>derivative.
            if derivative \<noteq> None then Inr None
            else sbind (scalar_one_or_none MultipleResultsFound
                     (filter (\<lambda>e. oe_idempotency_key e = photo_repair_key (ph_id photo)) (outbox_events D))) (\<lambda>event.
                   if event \<noteq> None then Inr None
                   else sbind (publish_outbox_event_in_session E (fresh E n) ''listing.image_uploaded''
                            (photo_repair_payload photo) (photo_repair_key (ph_id photo)) (Some ''listing_photo'')
                            (Some (ph_id photo)) D) (\<lambda>D'. Inr (Some D')))) of
        Inl e \<Rightarrow> (Inl e, D)
      | Inr None \<Rightarrow> repair_photos E (Suc n) rest (queued, skipped + 1) D
      | Inr (Some D') \<Rightarrow> repair_photos E (Suc n) rest (queued + 1, skipped) D')"

definition repair_uploaded_photos :: "ctx_env \<Rightarrow> db \<Rightarrow> (py_exc + nat \<times> nat) \<times> db" where
  "repair_uploaded_photos E D = repair_photos E 0 (uploaded_photos D) (0, 0) D"

section \<open>What a run does\<close>

definition derivative_made :: "ListingPhotoMetadata \<Rightarrow> db \<Rightarrow> bool" where
  "derivative_made p D \<longleftrightarrow> ph_id p \<in> d_listing_photo_metadata_id ` set (derivatives D)"

definition repair_queued :: "ListingPhotoMetadata \<Rightarrow> db \<Rightarrow> bool" where
  "repair_queued p D \<longleftrightarrow> photo_repair_key (ph_id p) \<in> oe_idempotency_key ` set (outbox_events D)"

definition to_queue :: "ListingPhotoMetadata \<Rightarrow> db \<Rightarrow> bool" where
  "to_queue p D \<longleftrightarrow> \<not> derivative_made p D \<and> \<not> repair_queued p D"

definition queue_photo :: "ctx_env \<Rightarrow> nat \<Rightarrow> ListingPhotoMetadata \<Rightarrow> db \<Rightarrow> db" where
  "queue_photo E n p D = D\<lparr>outbox_events := outbox_events D @
     [new_outbox_event E (fresh E n) ''listing.image_uploaded'' (photo_repair_payload p) (photo_repair_key (ph_id p))
        (Some ''listing_photo'') (Some (ph_id p))]\<rparr>"

lemma queue_photo_frame [simp]:
  "photos (queue_photo E n p D) = photos D" "derivatives (queue_photo E n p D) = derivatives D"
  "derivative_made q (queue_photo E n p D) = derivative_made q D"
  by (simp_all add: queue_photo_def derivative_made_def)

lemma repair_queued_after [simp]: "repair_queued q (queue_photo E n p D) \<longleftrightarrow> ph_id q = ph_id p \<or> repair_queued q D"
  by (auto simp: repair_queued_def queue_photo_def photo_repair_key_def)

lemma queue_photo_unique:
  "to_queue p D \<Longrightarrow> unique_on oe_idempotency_key (outbox_events D) \<Longrightarrow>
     unique_on oe_idempotency_key (outbox_events (queue_photo E n p D))"
  by (simp add: queue_photo_def to_queue_def repair_queued_def)

text \<open>One photo: with unique keys the two queries never raise.\<close>

lemma first_or_none: "scalar_one_or_none e (take 1 xs) = Inr (if xs = [] then None else Some (hd xs))"
  by (cases xs) (simp_all add: scalar_one_or_none_def)

lemma unique_row_or_none:
  assumes "unique_on key rows"
  shows "scalar_one_or_none e (filter (\<lambda>r. key r = k) rows) = Inr (find_row key k rows)"
proof (cases "find_row key k rows")
  case None
  then have "filter (\<lambda>r. key r = k) rows = []" by (auto simp: find_row_def find_None_iff filter_empty_conv)
  then show ?thesis by (simp add: None scalar_one_or_none_def)
next
  case (Some r)
  then have r: "r \<in> set rows" "key r = k" by (auto dest: find_row_Some)
  have "filter (\<lambda>r. key r = k) rows = [r]"
    using assms r by (induction rows) (auto simp: filter_empty_conv image_iff)
  then show ?thesis by (simp add: Some scalar_one_or_none_def)
qed

lemma repair_photos_step:
  assumes "unique_on oe_idempotency_key (outbox_events D)"
  shows "repair_photos E n (p # rest) (q, s) D =
    (if to_queue p D then repair_photos E (Suc n) rest (q + 1, s) (queue_photo E n p D)
     else repair_photos E (Suc n) rest (q, s + 1) D)"
proof -
  have "(filter (\<lambda>d. d_listing_photo_metadata_id d = ph_id p) (derivatives D) = []) = (\<not> derivative_made p D)"
    by (force simp: derivative_made_def filter_empty_conv image_iff)
  moreover have "(find_row oe_idempotency_key (photo_repair_key (ph_id p)) (outbox_events D) = None) = (\<not> repair_queued p D)"
    by (force simp: repair_queued_def find_row_def find_None_iff image_iff)
  ultimately show ?thesis
    by (simp only: repair_photos.simps first_or_none unique_row_or_none [OF assms] sbind_simps)
      (simp add: to_queue_def publish_outbox_event_in_session_def repair_queued_def queue_photo_def)
qed

lemma repair_photos_run:
  assumes "unique_on oe_idempotency_key (outbox_events D)" "unique_on ph_id ps"
  shows "\<exists>D'. repair_photos E n ps (q, s) D =
      (Inr (q + length (filter (\<lambda>p. to_queue p D) ps), s + length (filter (\<lambda>p. \<not> to_queue p D) ps)), D') \<and>
    photos D' = photos D \<and> derivatives D' = derivatives D \<and> unique_on oe_idempotency_key (outbox_events D') \<and>
    (\<forall>p \<in> set ps. \<not> to_queue p D') \<and> (\<forall>p. repair_queued p D \<longrightarrow> repair_queued p D')"
  using assms
proof (induction ps arbitrary: n q s D)
  case (Cons p ps)
  let ?D = "if to_queue p D then queue_photo E n p D else D"
  have u: "unique_on oe_idempotency_key (outbox_events ?D)" using Cons.prems(1) queue_photo_unique by simp
  have apart: "to_queue x ?D = to_queue x D" if "x \<in> set ps" for x
    using Cons.prems(2) that by (force simp: to_queue_def image_iff)
  then have counts: "length (filter (\<lambda>x. to_queue x ?D) ps) = length (filter (\<lambda>x. to_queue x D) ps)"
      "length (filter (\<lambda>x. \<not> to_queue x ?D) ps) = length (filter (\<lambda>x. \<not> to_queue x D) ps)"
    by (auto intro!: arg_cong [where f = length] filter_cong)
  let ?q = "if to_queue p D then q + 1 else q" and ?s = "if to_queue p D then s else s + 1"
  obtain D' where D': "repair_photos E (Suc n) ps (?q, ?s) ?D =
      (Inr (?q + length (filter (\<lambda>x. to_queue x D) ps), ?s + length (filter (\<lambda>x. \<not> to_queue x D) ps)), D')"
      "photos D' = photos ?D" "derivatives D' = derivatives ?D" "unique_on oe_idempotency_key (outbox_events D')"
      "\<forall>x \<in> set ps. \<not> to_queue x D'" "\<forall>x. repair_queued x ?D \<longrightarrow> repair_queued x D'"
    using Cons.IH [OF u, of "Suc n" ?q ?s] Cons.prems(2) unfolding counts by auto
  have "\<not> to_queue p D'"
    using D'(3,6) by (cases "to_queue p D") (auto simp: to_queue_def derivative_made_def)
  moreover have "repair_queued x D \<longrightarrow> repair_queued x D'" for x using D'(6) by (cases "to_queue p D") auto
  ultimately show ?case
    using D' repair_photos_step [OF Cons.prems(1), of E n p ps q s] by (cases "to_queue p D") auto
qed simp

text \<open>
  C26. The script always ends well: it queues exactly the uploaded photos that have neither a derivative nor a
  repair event, and after it every uploaded photo has one or the other, so that a second run queues nothing.
\<close>

theorem photo_repair_is_complete:
  assumes "unique_on oe_idempotency_key (outbox_events D)" "unique_on ph_id (photos D)"
  shows "\<exists>s D'. repair_uploaded_photos E D = (Inr (length (filter (\<lambda>p. to_queue p D) (uploaded_photos D)), s), D') \<and>
    photos D' = photos D \<and> (\<forall>p \<in> set (uploaded_photos D'). derivative_made p D' \<or> repair_queued p D') \<and>
    repair_uploaded_photos E' D' = (Inr (0, length (uploaded_photos D)), D')"
proof -
  have u: "unique_on ph_id (uploaded_photos D)"
    using assms(2) by (auto simp: unique_on_def uploaded_photos_def distinct_map inj_on_def)
  obtain D' where D': "repair_uploaded_photos E D = (Inr (length (filter (\<lambda>p. to_queue p D) (uploaded_photos D)),
        length (filter (\<lambda>p. \<not> to_queue p D) (uploaded_photos D))), D')"
      "photos D' = photos D" "unique_on oe_idempotency_key (outbox_events D')" "\<forall>p \<in> set (uploaded_photos D). \<not> to_queue p D'"
    using repair_photos_run [OF assms(1) u, of E 0 0 0] by (auto simp: repair_uploaded_photos_def)
  have same: "uploaded_photos D' = uploaded_photos D" by (simp add: uploaded_photos_def D'(2))
  have idle: "repair_photos E' n ps (0, s) D' = (Inr (0, s + length ps), D')" if "\<forall>p \<in> set ps. \<not> to_queue p D'" for ps n s
    using that by (induction ps arbitrary: n s) (simp_all add: repair_photos_step [OF D'(3)] del: repair_photos.simps(2))
  then have "repair_uploaded_photos E' D' = (Inr (0, length (uploaded_photos D)), D')"
    using D'(4) by (simp add: repair_uploaded_photos_def same)
  then show ?thesis using D' by (auto simp: same to_queue_def)
qed

section \<open>The worker's verdict under the policies\<close>

text \<open>
  What a connection with the settings \<open>S\<close> makes of statements that lead from \<open>D\<close> to \<open>D'\<close> where no policy
  is in force: an UPDATE passes over the rows that the policy does not admit, without an error. The
  other two tables the image handler writes, the derivatives and the media audit log, have no policies.
\<close>

definition under_photo_policy :: "settings \<Rightarrow> db \<Rightarrow> db \<Rightarrow> db" where
  "under_photo_policy S D D' =
     D'\<lparr>photos := map2 (\<lambda>old new. if p_using (photo_policy S D) old then new else old) (photos D) (photos D')\<rparr>"

definition no_settings :: settings where
  "no_settings = (\<lambda>_. None)"

lemma no_settings_admit_nothing: "\<not> p_using (photo_policy no_settings D) p"
  by (simp add: photo_policy_def tenant_policy_def for_all_policy_def rls_tenant_check_def platform_setting_def
      setting_matches_def no_settings_def)

lemma under_no_settings:
  "length (photos D') = length (photos D) \<Longrightarrow> photos (under_photo_policy no_settings D D') = photos D"
  by (simp add: under_photo_policy_def no_settings_admit_nothing) (simp add: list_eq_iff_nth_eq)

text \<open>
  C39. An image that passes moderation gets its public derivative, but the row of the photo stays as it was:
  it is shown to the public and remains uploaded for the agency, without score or warning, and the
  repair script passes over it because the derivative exists.
\<close>

theorem worker_verdict_lost_under_row_security:
  assumes "\<not> md_rejected (moderate (wm_media W) b)" and "ob (ph_object_key p) = Some b" and "wm_get_ok W"
    and "wm_derivative W b = Inr (data, width, height)" and "so_bucket_ok (wm_store W)" "so_put_ok (wm_store W)"
    and "p \<in> set (uploaded_photos D)" and "list_all (\<lambda>x. x \<noteq> []) [ph_id p, ph_listing_id p, ph_agency_tenant_id p, ph_object_key p]"
    and "handle_listing_image_uploaded W E (photo_repair_payload p) ev (D, ob) = (r, (D1, ob1))"
  shows "let D' = under_photo_policy no_settings D D1 in
    photos D' = photos D \<and> derivative_made p D' \<and> get_public_safe_by_photo (ph_id p) D' \<noteq> None \<and>
    p \<in> set (uploaded_photos D') \<and> \<not> to_queue p D'"
proof -
  have fields: "text_field (photo_repair_payload p) ''listing_id'' = Some (ph_listing_id p)"
      "text_field (photo_repair_payload p) ''listing_photo_id'' = Some (ph_id p)"
      "text_field (photo_repair_payload p) ''agency_tenant_id'' = Some (ph_agency_tenant_id p)"
      "text_field (photo_repair_payload p) ''object_key'' = Some (ph_object_key p)"
      "is_object (photo_repair_payload p)"
    by (simp_all add: text_field_def photo_repair_payload_def is_object_def)
  have "(D1, ob1) = process_image W E (ph_listing_id p) (ph_id p) (ph_agency_tenant_id p)
      (case json_get (photo_repair_payload p) ''content_type'' of None \<Rightarrow> Some ''image/jpeg''
       | Some _ \<Rightarrow> text_field (photo_repair_payload p) ''content_type'')
      (payload_int (photo_repair_payload p) ''file_size_bytes'' 0) b (D, ob)"
    using assms(8,9) by (simp add: handle_listing_image_uploaded_def fields assms(2,3) Worker.download_object_def truthy_def Let_def)
  then have D1: "length (photos D1) = length (photos D)"
      "\<exists>d. derivatives D1 = derivatives D @ [d] \<and> d_listing_photo_metadata_id d = ph_id p \<and> d_is_public_safe d"
    using assms(1,4-6)
    by (simp_all add: process_image_def Let_def upload_object_def update_photo_status_def create_derivative_record_def
        write_audit_log_def update_row_def)
  let ?D = "under_photo_policy no_settings D D1"
  have same: "photos ?D = photos D" "derivatives ?D = derivatives D1"
    using under_no_settings [OF D1(1)] by (simp_all add: under_photo_policy_def)
  then have "derivative_made p ?D" using D1(2) by (auto simp: derivative_made_def)
  moreover have "get_public_safe_by_photo (ph_id p) ?D \<noteq> None"
    using D1(2) by (auto simp: get_public_safe_None same)
  ultimately show ?thesis using assms(7) by (simp add: same to_queue_def uploaded_photos_def Let_def)
qed

section \<open>Concrete runs\<close>

definition waiting_photo :: ListingPhotoMetadata where
  "waiting_photo = (demo_photo ''p2'' ''l1'')\<lparr>ph_status := ''uploaded'', ph_object_key := ''o/p2''\<rparr>"

definition waiting_db :: db where
  "waiting_db = demo_db\<lparr>photos := [demo_photo ''p1'' ''l1'', waiting_photo]\<rparr>"

lemma uploaded_waiting: "uploaded_photos waiting_db = [waiting_photo]"
  by (simp add: uploaded_photos_def waiting_db_def waiting_photo_def demo_defs)

lemma to_queue_waiting: "to_queue waiting_photo waiting_db"
  by (simp add: to_queue_def derivative_made_def repair_queued_def waiting_db_def waiting_photo_def demo_defs demo_db_def empty_db_def)

theorem photo_repair_is_complete_witness:
  "\<exists>s D'. repair_uploaded_photos demo_env waiting_db = (Inr (1, s), D') \<and> photos D' = photos waiting_db \<and>
     repair_uploaded_photos demo_env D' = (Inr (0, 1), D')"
proof -
  have "unique_on oe_idempotency_key (outbox_events waiting_db)" "unique_on ph_id (photos waiting_db)"
    by (simp_all add: waiting_db_def waiting_photo_def demo_defs demo_db_def empty_db_def)
  from photo_repair_is_complete [OF this, of demo_env demo_env] show ?thesis
    by (auto simp: uploaded_waiting to_queue_waiting)
qed

theorem worker_verdict_lost_under_row_security_witness:
  "\<exists>r D1 ob1. handle_listing_image_uploaded (we_media demo_worker) demo_env (photo_repair_payload waiting_photo) ''e1''
       (waiting_db, [''o/p2'' \<mapsto> ''good'']) = (r, (D1, ob1)) \<and>
     waiting_photo \<in> set (uploaded_photos (under_photo_policy no_settings waiting_db D1)) \<and>
     derivative_made waiting_photo (under_photo_policy no_settings waiting_db D1)"
proof -
  obtain r D1 ob1 where run: "handle_listing_image_uploaded (we_media demo_worker) demo_env (photo_repair_payload waiting_photo)
      ''e1'' (waiting_db, [''o/p2'' \<mapsto> ''good'']) = (r, (D1, ob1))"
    by (cases "handle_listing_image_uploaded (we_media demo_worker) demo_env (photo_repair_payload waiting_photo)
      ''e1'' (waiting_db, [''o/p2'' \<mapsto> ''good''])") auto
  have ok: "\<not> md_rejected (moderate (wm_media (we_media demo_worker)) ''good'')" "wm_get_ok (we_media demo_worker)"
      "wm_derivative (we_media demo_worker) ''good'' = Inr (''good'', 1, 1)"
      "so_bucket_ok (wm_store (we_media demo_worker))" "so_put_ok (wm_store (we_media demo_worker))"
    by (simp_all add: moderate_def demo_worker_def run_nsfw_moderation_def nsfw_score_def)
  have keys: "[''o/p2'' \<mapsto> ''good''] (ph_object_key waiting_photo) = Some ''good''"
      "list_all (\<lambda>x. x \<noteq> []) [ph_id waiting_photo, ph_listing_id waiting_photo, ph_agency_tenant_id waiting_photo,
         ph_object_key waiting_photo]"
    by (simp_all add: waiting_photo_def demo_defs)
  have "waiting_photo \<in> set (uploaded_photos waiting_db)" by (simp add: uploaded_waiting)
  from worker_verdict_lost_under_row_security [OF ok(1) keys(1) ok(2-5) this keys(2) run] run
  show ?thesis by (auto simp: Let_def)
qed

end
