(* ===== verification/Console.thy ===== *)
theory Console
  imports AgencyAI AuthRoutes
begin

text \<open>
  The Streamlit console of the platform administrators: the HTTP client \<open>admin/api_client.py\<close>, the
  session of \<open>admin/auth.py\<close> and the access gate and login of \<open>admin/components.py\<close> and
  \<open>admin/app.py\<close>. The HTTP transport, \<open>str\<close> of a JSON value, the JSON reader and writer and whether the
  cookie component is ready are parameters; widgets are not modelled.
\<close>

section \<open>The client\<close>

text \<open>What goes over the wire: method, path, bearer token, query parameters, body.\<close>

record http_request =
  hq_method :: string
  hq_path :: string
  hq_token :: "json option"
  hq_params :: "(string \<times> json) list"
  hq_body :: "json option"

text \<open>What comes back: \<open>response.json()\<close> is None where it raises \<open>ValueError\<close>.\<close>

record http_reply =
  hr_status :: int
  hr_content :: bool
  hr_json :: "json option"
  hr_body :: string

record console_env =
  cn_send :: "http_request \<Rightarrow> string + http_reply"
  cn_str :: "json \<Rightarrow> string"
  cn_loads :: "string \<Rightarrow> json option"
  cn_dumps :: "json \<Rightarrow> string"
  cn_cookies_installed :: bool

datatype console_exc =
    AdminAPIError int string json
  | Raised py_exc

definition raised :: "py_exc + 'a \<Rightarrow> console_exc + 'a" where
  "raised r = (case r of Inl e \<Rightarrow> Inl (Raised e) | Inr x \<Rightarrow> Inr x)"

text \<open>\<open>.get\<close> of a value that need not be a dictionary.\<close>

definition dict_get :: "json \<Rightarrow> string \<Rightarrow> py_exc + json option" where
  "dict_get j key = (case j of JObj _ \<Rightarrow> Inr (json_get j key) | _ \<Rightarrow> Inl (AttributeError ''object has no attribute get''))"

definition or_null :: "json option \<Rightarrow> json" where
  "or_null x = (case x of None \<Rightarrow> JNull | Some j \<Rightarrow> j)"

definition text_of :: "console_env \<Rightarrow> json \<Rightarrow> string" where
  "text_of V j = (case j of JText s \<Rightarrow> s | _ \<Rightarrow> cn_str V j)"

definition error_part :: "console_env \<Rightarrow> json \<Rightarrow> py_exc + string list" where
  "error_part V item =
     (case item of
        JObj _ \<Rightarrow>
          (let loc = or_null (json_get item ''loc''); msg = or_null (json_get item ''msg'')
           in if \<not> falsy loc \<and> \<not> falsy msg
              then sbind (items_of (Some loc)) (\<lambda>parts.
                     Inr [join_with ''.'' (map (text_of V) parts) @ '': '' @ text_of V msg])
              else if \<not> falsy msg then Inr [text_of V msg] else Inr [])
      | _ \<Rightarrow> Inr (if falsy item then [] else [text_of V item]))"

fun error_parts :: "console_env \<Rightarrow> json list \<Rightarrow> py_exc + string list" where
  "error_parts V [] = Inr []"
| "error_parts V (item # rest) =
     sbind (error_part V item) (\<lambda>p. sbind (error_parts V rest) (\<lambda>ps. Inr (p @ ps)))"

definition speaking :: "json option \<Rightarrow> string option" where
  "speaking v = (case v of Some (JText s) \<Rightarrow> if py_strip s = [] then None else Some s | _ \<Rightarrow> None)"

definition coerce_detail :: "console_env \<Rightarrow> json \<Rightarrow> py_exc + string" where
  "coerce_detail V value =
     (case value of
        JText s \<Rightarrow> Inr (if py_strip s = [] then ''Request failed'' else s)
      | JList items \<Rightarrow>
          sbind (error_parts V items) (\<lambda>parts.
            Inr (if join_with ''; '' parts = [] then ''Request failed'' else join_with ''; '' parts))
      | JObj _ \<Rightarrow>
          Inr (case speaking (json_get value ''message'') of
                 Some s \<Rightarrow> s
               | None \<Rightarrow> (case speaking (json_get value ''detail'') of Some s \<Rightarrow> s | None \<Rightarrow> ''Request failed''))
      | _ \<Rightarrow> Inr ''Request failed'')"

definition build_error :: "console_env \<Rightarrow> http_reply \<Rightarrow> console_exc" where
  "build_error V r =
     (case hr_json r of
        None \<Rightarrow>
          AdminAPIError (hr_status r) (if py_strip (hr_body r) = [] then ''Request failed'' else py_strip (hr_body r)) (JText ''API_ERROR'')
      | Some (JObj es) \<Rightarrow>
          (case coerce_detail V (or_null (json_get (JObj es) ''detail'')) of
             Inl e \<Rightarrow> Raised e
           | Inr d \<Rightarrow> AdminAPIError (hr_status r) d
               (let ec = or_null (json_get (JObj es) ''error_code'') in if falsy ec then JText ''API_ERROR'' else ec))
      | Some (JList js) \<Rightarrow>
          (case coerce_detail V (JList js) of
             Inl e \<Rightarrow> Raised e | Inr d \<Rightarrow> AdminAPIError (hr_status r) d (JText ''API_ERROR''))
      | Some _ \<Rightarrow> AdminAPIError (hr_status r) ''Request failed'' (JText ''API_ERROR''))"

definition parse_reply :: "console_env \<Rightarrow> http_reply \<Rightarrow> console_exc + json" where
  "parse_reply V r =
     (if 400 \<le> hr_status r then Inl (build_error V r)
      else if hr_status r = 204 \<or> \<not> hr_content r then Inr (JObj [])
      else (case hr_json r of
              Some j \<Rightarrow> Inr j
            | None \<Rightarrow> Inl (AdminAPIError (hr_status r) ''Invalid JSON from backend'' (JText ''INVALID_JSON''))))"

definition send :: "console_env \<Rightarrow> http_request \<Rightarrow> console_exc + json" where
  "send V q =
     (case cn_send V q of
        Inl e \<Rightarrow> Inl (AdminAPIError 0 (''Backend unreachable: '' @ e) (JText ''BACKEND_UNREACHABLE''))
      | Inr r \<Rightarrow> parse_reply V r)"

text \<open>Parameters that are None are left out; a falsy token sends no \<open>Authorization\<close> header.\<close>

definition api_request :: "console_env \<Rightarrow> string \<Rightarrow> string \<Rightarrow> json option \<Rightarrow> (string \<times> json) list \<Rightarrow> console_exc + json" where
  "api_request V meth path token params =
     send V \<lparr>hq_method = meth, hq_path = path, hq_token = (case token of Some t \<Rightarrow> if falsy t then None else Some t | None \<Rightarrow> None),
             hq_params = filter (\<lambda>(k, v). v \<noteq> JNull) params, hq_body = None\<rparr>"

definition post_json :: "console_env \<Rightarrow> string \<Rightarrow> json \<Rightarrow> console_exc + json" where
  "post_json V path body =
     send V \<lparr>hq_method = ''POST'', hq_path = path, hq_token = None, hq_params = [], hq_body = Some body\<rparr>"

definition login_call :: "console_env \<Rightarrow> string \<Rightarrow> string \<Rightarrow> console_exc + json" where
  "login_call V email password =
     post_json V ''/auth/login'' (JObj [(''email'', JText email), (''password'', JText password)])"

definition get_current_actor_call :: "console_env \<Rightarrow> json \<Rightarrow> console_exc + json" where
  "get_current_actor_call V token = api_request V ''GET'' ''/auth/me'' (Some token) []"

definition get_insights_call ::
  "console_env \<Rightarrow> json \<Rightarrow> string option \<Rightarrow> string option \<Rightarrow> string option \<Rightarrow> string option \<Rightarrow> string option \<Rightarrow> string option
     \<Rightarrow> console_exc + json" where
  "get_insights_call V token date_from date_to range_preset city property_type listing_purpose =
     api_request V ''GET'' ''/api/v1/platform/dashboard/insights'' (Some token)
       [(''date_from'', jopt date_from), (''date_to'', jopt date_to), (''range_preset'', jopt range_preset),
        (''city'', jopt city), (''property_type'', jopt property_type), (''listing_purpose'', jopt listing_purpose)]"

definition list_audit_logs_call ::
  "console_env \<Rightarrow> json \<Rightarrow> int \<Rightarrow> int \<Rightarrow> string option \<Rightarrow> string option \<Rightarrow> string option \<Rightarrow> string option \<Rightarrow> string option
     \<Rightarrow> console_exc + json" where
  "list_audit_logs_call V token page page_size date_from date_to feature_area role_name outcome =
     api_request V ''GET'' ''/api/v1/platform/audit-logs'' (Some token)
       [(''page'', JInt page), (''page_size'', JInt page_size), (''date_from'', jopt date_from), (''date_to'', jopt date_to),
        (''feature_area'', jopt feature_area), (''actor_role'', jopt role_name), (''result'', jopt outcome)]"

definition get_role_overview_call :: "console_env \<Rightarrow> json \<Rightarrow> console_exc + json" where
  "get_role_overview_call V token = api_request V ''GET'' ''/api/v1/platform/roles/overview'' (Some token) []"

definition list_rag_eval_runs_call :: "console_env \<Rightarrow> json \<Rightarrow> int \<Rightarrow> int \<Rightarrow> console_exc + json" where
  "list_rag_eval_runs_call V token page page_size =
     api_request V ''GET'' ''/api/v1/platform/rag-evals/runs'' (Some token) [(''page'', JInt page), (''page_size'', JInt page_size)]"

definition get_rag_eval_run_call :: "console_env \<Rightarrow> json \<Rightarrow> string \<Rightarrow> console_exc + json" where
  "get_rag_eval_run_call V token run_id =
     api_request V ''GET'' (''/api/v1/platform/rag-evals/runs/'' @ run_id) (Some token) []"

section \<open>The session\<close>

definition PLATFORM_DASHBOARD_PERMISSION :: string where
  "PLATFORM_DASHBOARD_PERMISSION = ''platform:dashboard_read''"

definition TOKEN_COOKIE_KEY :: string where "TOKEN_COOKIE_KEY = ''akarai_platform_admin/token''"

definition ACTOR_COOKIE_KEY :: string where "ACTOR_COOKIE_KEY = ''akarai_platform_admin/actor''"

record AuthState =
  au_token :: json
  au_actor :: json

text \<open>The session state of the browser tab and the cookies of the browser.\<close>

record console =
  co_token :: "json option"
  co_actor :: "json option"
  co_cookies :: "string \<rightharpoonup> string"

definition no_session :: console where
  "no_session = \<lparr>co_token = None, co_actor = None, co_cookies = Map.empty\<rparr>"

definition cookie_store :: "console_env \<Rightarrow> bool \<Rightarrow> bool" where
  "cookie_store V ready \<longleftrightarrow> cn_cookies_installed V \<and> ready"

definition clear_cookie_auth :: "console_env \<Rightarrow> bool \<Rightarrow> console \<Rightarrow> console" where
  "clear_cookie_auth V ready s =
     (if cookie_store V ready
      then s\<lparr>co_cookies := (co_cookies s)(TOKEN_COOKIE_KEY := None, ACTOR_COOKIE_KEY := None)\<rparr> else s)"

definition persist_cookie_auth :: "console_env \<Rightarrow> bool \<Rightarrow> json \<Rightarrow> json \<Rightarrow> console \<Rightarrow> py_exc + console" where
  "persist_cookie_auth V ready token actor s =
     (if \<not> cookie_store V ready then Inr s
      else (case token of
              JText t \<Rightarrow> Inr (s\<lparr>co_cookies := (co_cookies s)(TOKEN_COOKIE_KEY \<mapsto> t, ACTOR_COOKIE_KEY \<mapsto> cn_dumps V actor)\<rparr>)
            | _ \<Rightarrow> Inl (AttributeError ''object has no attribute encode'')))"

definition load_from_cookies :: "console_env \<Rightarrow> bool \<Rightarrow> console \<Rightarrow> AuthState option \<times> console" where
  "load_from_cookies V ready s =
     (if \<not> cookie_store V ready then (None, s)
      else (case (co_cookies s TOKEN_COOKIE_KEY, co_cookies s ACTOR_COOKIE_KEY) of
              (Some (c # token), Some (d # actor_raw)) \<Rightarrow>
                (case cn_loads V (d # actor_raw) of
                   Some (JObj es) \<Rightarrow>
                     (Some \<lparr>au_token = JText (c # token), au_actor = JObj es\<rparr>,
                      s\<lparr>co_token := Some (JText (c # token)), co_actor := Some (JObj es)\<rparr>)
                 | _ \<Rightarrow> (None, clear_cookie_auth V ready s))
            | _ \<Rightarrow> (None, s)))"

definition get_auth_state :: "console_env \<Rightarrow> bool \<Rightarrow> console \<Rightarrow> AuthState option \<times> console" where
  "get_auth_state V ready s =
     (if falsy (or_null (co_token s)) \<or> falsy (or_null (co_actor s)) then load_from_cookies V ready s
      else (Some \<lparr>au_token = or_null (co_token s), au_actor = or_null (co_actor s)\<rparr>, s))"

text \<open>What the backend answers to a login: the token and the account, asked for when it is not in the answer.\<close>

definition login_answer :: "console_env \<Rightarrow> string \<Rightarrow> string \<Rightarrow> console_exc + json \<times> json" where
  "login_answer V email password =
     sbind (login_call V email password) (\<lambda>payload.
     sbind (raised (dict_get payload ''access_token'')) (\<lambda>token.
       if falsy (or_null token) then Inl (AdminAPIError 401 ''Login response missing access token'' (JText ''INVALID_LOGIN''))
       else let given = or_null (json_get payload ''actor'')
            in sbind (if falsy given then get_current_actor_call V (or_null token) else Inr given) (\<lambda>actor.
                 Inr (or_null token, actor))))"

definition sign_in :: "console_env \<Rightarrow> bool \<Rightarrow> string \<Rightarrow> string \<Rightarrow> console \<Rightarrow> (console_exc + AuthState) \<times> console" where
  "sign_in V ready email password s =
     (case login_answer V email password of
        Inl e \<Rightarrow> (Inl e, s)
      | Inr (token, actor) \<Rightarrow>
          (let s1 = s\<lparr>co_token := Some token, co_actor := Some actor\<rparr>
           in (case persist_cookie_auth V ready token actor s1 of
                 Inl e \<Rightarrow> (Inl (Raised e), s1)
               | Inr s2 \<Rightarrow> (Inr \<lparr>au_token = token, au_actor = actor\<rparr>, s2))))"

definition sign_out :: "console_env \<Rightarrow> bool \<Rightarrow> console \<Rightarrow> console" where
  "sign_out V ready s = clear_cookie_auth V ready (s\<lparr>co_token := None, co_actor := None\<rparr>)"

section \<open>Pages\<close>

definition role_of :: "AuthState \<Rightarrow> py_exc + json" where
  "role_of a = sbind (dict_get (au_actor a) ''role'') (\<lambda>r. Inr (case r of None \<Rightarrow> JText [] | Some j \<Rightarrow> j))"

definition permissions_of :: "AuthState \<Rightarrow> py_exc + json list" where
  "permissions_of a = sbind (dict_get (au_actor a) ''permissions'') items_of"

definition has_dashboard_access :: "AuthState \<Rightarrow> py_exc + bool" where
  "has_dashboard_access a =
     sbind (role_of a) (\<lambda>r.
       if r \<noteq> JText ''platform_admin'' then Inr False
       else sbind (permissions_of a) (\<lambda>ps. Inr (JText PLATFORM_DASHBOARD_PERMISSION \<in> set ps)))"

datatype console_page =
    LoginPage
  | NotPlatformAdmin
  | MissingPermission
  | ShowDashboard AuthState
  | Crash py_exc

definition require_dashboard_access :: "AuthState option \<Rightarrow> console_page" where
  "require_dashboard_access state =
     (case state of
        None \<Rightarrow> LoginPage
      | Some a \<Rightarrow>
          (case role_of a of
             Inl e \<Rightarrow> Crash e
           | Inr r \<Rightarrow>
               if r \<noteq> JText ''platform_admin'' then NotPlatformAdmin
               else (case has_dashboard_access a of
                       Inl e \<Rightarrow> Crash e
                     | Inr ok \<Rightarrow> if ok then ShowDashboard a else MissingPermission)))"

definition show_page :: "console_env \<Rightarrow> bool \<Rightarrow> console \<Rightarrow> console_page \<times> console" where
  "show_page V ready s =
     (case get_auth_state V ready s of
        (None, s1) \<Rightarrow> (LoginPage, s1)
      | (Some _, s1) \<Rightarrow> (let (state, s2) = get_auth_state V ready s1 in (require_dashboard_access state, s2)))"

text \<open>\<open>_attempt_login\<close>: the text that is shown, None after a login.\<close>

definition backend_error_text :: "console_exc \<Rightarrow> string option" where
  "backend_error_text e =
     (case e of
        AdminAPIError status detail ec \<Rightarrow>
          if status = 0 then Some ''Cannot reach the platform admin backend right now. Try again in a moment.''
          else if status = 403 then Some ''You do not have access to this dashboard view. Ask a platform admin to grant the required permission.''
          else Some (''Backend error: '' @ detail)
      | Raised _ \<Rightarrow> None)"

definition attempt_login :: "console_env \<Rightarrow> bool \<Rightarrow> string \<Rightarrow> string \<Rightarrow> console \<Rightarrow> (py_exc + string option) \<times> console" where
  "attempt_login V ready email password s =
     (if email = [] \<or> password = [] then (Inr (Some ''Email and password are required.''), s)
      else (case sign_in V ready (py_strip email) password s of
              (Inr _, s1) \<Rightarrow> (Inr None, s1)
            | (Inl (Raised e), s1) \<Rightarrow> (Inl e, s1)
            | (Inl (AdminAPIError status detail ec), s1) \<Rightarrow>
                (Inr (if status \<in> {401, 403} then Some ''Sign in failed. Check your credentials and try again.''
                      else backend_error_text (AdminAPIError status detail ec)), s1)))"

text \<open>\<open>render_backend_error\<close>: after a 401 the session is given up and the page runs again.\<close>

definition render_backend_error :: "console_env \<Rightarrow> bool \<Rightarrow> console_exc \<Rightarrow> console \<Rightarrow> string option \<times> console" where
  "render_backend_error V ready e s =
     (case e of
        AdminAPIError status detail ec \<Rightarrow>
          if status = 401 then (Some ''Your session expired. Please sign in again.'', sign_out V ready s)
          else (backend_error_text e, s)
      | Raised _ \<Rightarrow> (None, s))"

end
