(* ===== verification/ConsoleProps.thy ===== *)
theory ConsoleProps
  imports Console AuthProps
begin

text \<open>
  The console's gate is the backend's gate, the dashboard is shown only with the answer of a login, and
  what a sign-out leaves behind when the cookies are not ready.
\<close>

section \<open>The backend's gate\<close>

text \<open>The body of an answer to \<open>/auth/login\<close> (\<open>SessionResponse\<close>).\<close>

definition actor_json :: "ActorSummary \<Rightarrow> json" where
  "actor_json a = JObj
     [(''id'', JText (as_id a)), (''email'', JText (as_email a)), (''name'', jopt (as_name a)), (''role'', JText (as_role a)),
      (''permissions'', JList (map JText (as_permissions a))), (''tenant_id'', JNull), (''is_active'', JBool (as_is_active a))]"

definition session_json :: "string \<Rightarrow> int \<Rightarrow> ActorSummary \<Rightarrow> json" where
  "session_json token expires a = JObj
     [(''access_token'', JText token), (''token_type'', JText ''bearer''), (''expires_in'', JInt expires), (''actor'', actor_json a)]"

lemma actor_json_not_falsy [simp]: "\<not> falsy (actor_json a)"
  by (simp add: actor_json_def falsy_def)

lemma login_answer_session:
  assumes "cn_send V \<lparr>hq_method = ''POST'', hq_path = ''/auth/login'', hq_token = None, hq_params = [],
      hq_body = Some (JObj [(''email'', JText email), (''password'', JText password)])\<rparr>
    = Inr \<lparr>hr_status = 200, hr_content = True, hr_json = Some (session_json token expires a), hr_body = b\<rparr>"
    and "token \<noteq> []"
  shows "login_answer V email password = Inr (JText token, actor_json a)"
  using assms
  by (simp add: login_answer_def login_call_def post_json_def send_def parse_reply_def dict_get_def session_json_def
      raised_def or_null_def falsy_def actor_json_def)

lemma sign_in_answer:
  "login_answer V email password = Inr (JText t, actor) \<Longrightarrow>
   \<exists>s'. sign_in V ready email password s = (Inr \<lparr>au_token = JText t, au_actor = actor\<rparr>, s') \<and>
     co_token s' = Some (JText t) \<and> co_actor s' = Some actor"
  by (auto simp: sign_in_def persist_cookie_auth_def Let_def)

lemma session_kept:
  assumes "co_token s = Some t" "co_actor s = Some actor" "\<not> falsy t" "\<not> falsy actor"
  shows "show_page V ready s = (require_dashboard_access (Some \<lparr>au_token = t, au_actor = actor\<rparr>), s)"
  using assms by (simp add: show_page_def get_auth_state_def or_null_def)

lemma gate_of_summary:
  "require_dashboard_access (Some \<lparr>au_token = t, au_actor = actor_json a\<rparr>) =
     (if as_role a \<noteq> ''platform_admin'' then NotPlatformAdmin
      else if PLATFORM_DASHBOARD_PERMISSION \<in> set (as_permissions a)
      then ShowDashboard \<lparr>au_token = t, au_actor = actor_json a\<rparr> else MissingPermission)"
  by (auto simp: require_dashboard_access_def role_of_def has_dashboard_access_def permissions_of_def dict_get_def
      actor_json_def items_of_def falsy_def)

lemma platform_gate:
  "require_platform_dashboard_access a = Inr a \<longleftrightarrow>
     ac_role a = Some ''platform_admin'' \<and> PLATFORM_DASHBOARD_PERMISSION \<in> set (ac_permissions a)"
  by (cases "ac_role a")
    (simp_all add: require_platform_dashboard_access_def require_role_def PLATFORM_DASHBOARD_PERMISSION_def)

lemma or_text_platform: "or_text x ''user'' = ''platform_admin'' \<longleftrightarrow> x = Some ''platform_admin''"
  by (cases x) (auto simp: or_text_def truthy_def)

lemma gate_of_actor:
  assumes "get_current_actor A E rid header w = Inr (a, ctx)" "find_row u_id (ac_id a) (users (fst w)) = Some user"
  shows "require_platform_dashboard_access a = Inr a \<longleftrightarrow>
    as_role (build_actor_summary user (fst w)) = ''platform_admin'' \<and>
    PLATFORM_DASHBOARD_PERMISSION \<in> set (as_permissions (build_actor_summary user (fst w)))"
proof -
  from assms(1) obtain i row where "find_row u_id i (users (fst w)) = Some row"
      and a: "ac_id a = u_id row" "ac_role a = actor_role (u_role_id row) (fst w)" "ac_permissions a = permission_keys (u_role_id row) (fst w)"
    by (auto simp: get_current_actor_def sbind_Inr_iff Let_def split: option.splits if_splits)
  then have "row = user" using assms(2) find_row_Some [of u_id i "users (fst w)" row] by simp
  with a show ?thesis by (simp add: platform_gate build_actor_summary_def or_text_platform)
qed

text \<open>
  C18. The console admits whom the backend admits: after a login that the backend answered with the
  session of an account, the next page shows the dashboard exactly when the backend's own check of that
  account passes its dashboard routes, for the same database.
\<close>

theorem console_admits_whom_backend_admits:
  assumes "cn_send V \<lparr>hq_method = ''POST'', hq_path = ''/auth/login'', hq_token = None, hq_params = [],
      hq_body = Some (JObj [(''email'', JText email), (''password'', JText password)])\<rparr>
    = Inr \<lparr>hr_status = 200, hr_content = True, hr_json = Some (session_json token expires (build_actor_summary user D)), hr_body = b\<rparr>"
    and "token \<noteq> []"
    and "get_current_actor A E rid header (D, r) = Inr (a, ctx)" "find_row u_id (ac_id a) (users D) = Some user"
  shows "\<exists>st. fst (sign_in V ready email password s) = Inr st \<and>
    (fst (show_page V ready' (snd (sign_in V ready email password s))) = ShowDashboard st \<longleftrightarrow>
     require_platform_dashboard_access a = Inr a)"
proof -
  from sign_in_answer [OF login_answer_session [OF assms(1,2)]]
  obtain s' where s': "sign_in V ready email password s = (Inr \<lparr>au_token = JText token, au_actor = actor_json (build_actor_summary user D)\<rparr>, s')"
      "co_token s' = Some (JText token)" "co_actor s' = Some (actor_json (build_actor_summary user D))"
    by blast
  have "\<not> falsy (JText token)" using assms(2) by (simp add: falsy_def)
  then show ?thesis
    using session_kept [OF s'(2,3)] gate_of_actor [OF assms(3)] assms(4) by (auto simp: s'(1) gate_of_summary)
qed

section \<open>Where a session comes from\<close>

datatype console_action =
    View bool
  | Login bool string string
  | SignOut bool
  | Expired bool console_exc

fun act_on :: "console_env \<Rightarrow> console_action \<Rightarrow> console \<Rightarrow> console" where
  "act_on V (View ready) s = snd (show_page V ready s)"
| "act_on V (Login ready email password) s = snd (attempt_login V ready email password s)"
| "act_on V (SignOut ready) s = sign_out V ready s"
| "act_on V (Expired ready e) s = snd (render_backend_error V ready e s)"

definition answered :: "console_env \<Rightarrow> console_action set \<Rightarrow> json \<Rightarrow> json \<Rightarrow> bool" where
  "answered V acts token actor \<longleftrightarrow>
     (\<exists>ready email password. Login ready email password \<in> acts \<and> login_answer V (py_strip email) password = Inr (token, actor))"

text \<open>What \<open>json\<close> promises for the dictionaries that logins answer: they are read back as they were written.\<close>

definition reads_back :: "console_env \<Rightarrow> bool" where
  "reads_back V \<longleftrightarrow> (\<forall>email password token actor j. login_answer V email password = Inr (token, actor) \<and>
     cn_loads V (cn_dumps V actor) = Some j \<longrightarrow> j = actor)"

definition sourced :: "console_env \<Rightarrow> console_action set \<Rightarrow> console \<Rightarrow> bool" where
  "sourced V acts s \<longleftrightarrow>
     (\<forall>t j. co_token s = Some t \<and> co_actor s = Some j \<longrightarrow> answered V acts t j) \<and>
     (\<forall>t raw. co_cookies s TOKEN_COOKIE_KEY = Some t \<and> co_cookies s ACTOR_COOKIE_KEY = Some raw \<longrightarrow>
        (\<exists>j. raw = cn_dumps V j \<and> answered V acts (JText t) j))"

lemma cookie_keys [simp]: "TOKEN_COOKIE_KEY \<noteq> ACTOR_COOKIE_KEY" "ACTOR_COOKIE_KEY \<noteq> TOKEN_COOKIE_KEY"
  by (simp_all add: TOKEN_COOKIE_KEY_def ACTOR_COOKIE_KEY_def)

lemma sourced_clear: "sourced V acts s \<Longrightarrow> sourced V acts (clear_cookie_auth V ready s)"
  by (auto simp: sourced_def clear_cookie_auth_def)

lemma sourced_sign_out: "sourced V acts s \<Longrightarrow> sourced V acts (sign_out V ready s)"
  unfolding sign_out_def by (rule sourced_clear) (auto simp: sourced_def)

lemma sourced_load:
  assumes "reads_back V" "sourced V acts s"
  shows "sourced V acts (snd (load_from_cookies V ready s)) \<and>
    (\<forall>a. fst (load_from_cookies V ready s) = Some a \<longrightarrow> answered V acts (au_token a) (au_actor a))"
proof -
  have "answered V acts (JText t) j"
    if "co_cookies s TOKEN_COOKIE_KEY = Some t" "co_cookies s ACTOR_COOKIE_KEY = Some raw" "cn_loads V raw = Some j" for t raw j
    using assms that unfolding sourced_def reads_back_def answered_def by metis
  then show ?thesis using assms(2) sourced_clear [OF assms(2), of ready]
    by (auto simp: load_from_cookies_def split: option.splits list.splits json.splits prod.splits)
      (auto simp: sourced_def)
qed

lemma sourced_state:
  assumes "reads_back V" "sourced V acts s"
  shows "sourced V acts (snd (get_auth_state V ready s)) \<and>
    (\<forall>a. fst (get_auth_state V ready s) = Some a \<longrightarrow> answered V acts (au_token a) (au_actor a))"
proof (cases "falsy (or_null (co_token s)) \<or> falsy (or_null (co_actor s))")
  case True
  then show ?thesis using sourced_load [OF assms] by (simp add: get_auth_state_def)
next
  case False
  then obtain t j where "co_token s = Some t" "co_actor s = Some j"
    by (auto simp: or_null_def falsy_def split: option.splits)
  then show ?thesis using False assms(2) by (auto simp: get_auth_state_def or_null_def sourced_def)
qed

lemma sourced_page:
  assumes "reads_back V" "sourced V acts s"
  shows "sourced V acts (snd (show_page V ready s)) \<and>
    (\<forall>a. fst (show_page V ready s) = ShowDashboard a \<longrightarrow> answered V acts (au_token a) (au_actor a))"
proof -
  obtain o1 s1 where g1: "get_auth_state V ready s = (o1, s1)" by fastforce
  have s1: "sourced V acts s1" using sourced_state [OF assms, of ready] g1 by simp
  obtain o2 s2 where g2: "get_auth_state V ready s1 = (o2, s2)" by fastforce
  show ?thesis using sourced_state [OF assms(1) s1, of ready] s1
    by (auto simp: show_page_def g1 g2 require_dashboard_access_def split: option.splits sum.splits if_splits)
qed

lemma sourced_sign_in:
  assumes "sourced V acts s" "Login b email password \<in> acts"
  shows "sourced V acts (snd (sign_in V ready (py_strip email) password s))"
proof (cases "login_answer V (py_strip email) password")
  case (Inl e)
  then show ?thesis using assms by (simp add: sign_in_def)
next
  case (Inr p)
  obtain token actor where p: "p = (token, actor)" by fastforce
  have "answered V acts token actor" using Inr assms(2) by (auto simp: answered_def p)
  then show ?thesis using assms(1)
    by (auto simp: sign_in_def Inr p Let_def persist_cookie_auth_def sourced_def split: json.splits)
qed

lemma sourced_act:
  assumes "reads_back V" "sourced V acts s" "x \<in> acts"
  shows "sourced V acts (act_on V x s)"
proof (cases x)
  case (View ready)
  then show ?thesis using sourced_page [OF assms(1,2)] by simp
next
  case (Login ready email password)
  have "sourced V acts (snd (sign_in V ready (py_strip email) password s))"
    using sourced_sign_in assms(2,3) Login by blast
  then show ?thesis using assms(2) by (auto simp: Login attempt_login_def split: prod.splits sum.splits console_exc.splits)
next
  case (Expired ready e)
  then show ?thesis using assms(2) sourced_sign_out by (auto simp: render_backend_error_def split: console_exc.split)
qed (use assms(2) sourced_sign_out in simp)

lemma sourced_run:
  "reads_back V \<Longrightarrow> sourced V acts s \<Longrightarrow> set xs \<subseteq> acts \<Longrightarrow> sourced V acts (fold (act_on V) xs s)"
  by (induction xs arbitrary: s) (simp_all add: sourced_act)

text \<open>
  C35. Whatever page views, logins, sign-outs and expired sessions a browser goes through, with the cookies
  ready or not, the dashboard is shown only with the token and the account that the backend answered
  together to one of the logins made, and only for a platform administrator with the dashboard permission.
\<close>

theorem dashboard_needs_login:
  assumes "reads_back V" "fst (show_page V ready (fold (act_on V) acts no_session)) = ShowDashboard a"
  shows "answered V (set acts) (au_token a) (au_actor a) \<and> role_of a = Inr (JText ''platform_admin'') \<and>
    has_dashboard_access a = Inr True"
proof -
  have "sourced V (set acts) (fold (act_on V) acts no_session)"
    by (rule sourced_run [OF assms(1)]) (simp_all add: sourced_def no_session_def)
  from sourced_page [OF assms(1) this] have "answered V (set acts) (au_token a) (au_actor a)" using assms(2) by blast
  then show ?thesis using assms(2)
    by (auto simp: show_page_def require_dashboard_access_def split: prod.splits option.splits sum.splits if_splits)
qed

text \<open>
  A sign-out while the cookies are not ready does not last: the cookies of the last login stay in the
  browser, and the next page on which they are ready shows the dashboard again, with the same token.
\<close>

theorem sign_out_undone_by_cookies:
  assumes "cn_cookies_installed V" "login_answer V email password = Inr (JText token, JObj actor)" "token \<noteq> []" "actor \<noteq> []"
    and "cn_dumps V (JObj actor) \<noteq> []" "cn_loads V (cn_dumps V (JObj actor)) = Some (JObj actor)"
  shows "fst (show_page V True (sign_out V False (snd (sign_in V True email password s)))) =
    fst (show_page V True (snd (sign_in V True email password s)))"
proof -
  let ?a = "\<lparr>au_token = JText token, au_actor = JObj actor\<rparr>"
  obtain s1 where s1: "sign_in V True email password s = (Inr ?a, s1)"
      and kept: "co_token s1 = Some (JText token)" "co_actor s1 = Some (JObj actor)"
      and cookies: "co_cookies s1 TOKEN_COOKIE_KEY = Some token" "co_cookies s1 ACTOR_COOKIE_KEY = Some (cn_dumps V (JObj actor))"
    using assms(1,2) by (auto simp: sign_in_def persist_cookie_auth_def cookie_store_def Let_def)
  have solid: "\<not> falsy (JText token)" "\<not> falsy (JObj actor)" using assms(3,4) by (simp_all add: falsy_def)
  have out: "sign_out V False s1 = s1\<lparr>co_token := None, co_actor := None\<rparr>"
    by (simp add: sign_out_def clear_cookie_auth_def cookie_store_def)
  have "get_auth_state V True (sign_out V False s1) = (Some ?a, s1\<lparr>co_token := Some (JText token), co_actor := Some (JObj actor)\<rparr>)"
    using assms(1,3,5,6) cookies
    by (auto simp: out get_auth_state_def or_null_def falsy_def load_from_cookies_def cookie_store_def split: list.splits)
  then have "fst (show_page V True (sign_out V False s1)) = require_dashboard_access (Some ?a)"
    using solid by (simp add: show_page_def get_auth_state_def or_null_def)
  then show ?thesis using session_kept [OF kept solid] by (simp add: s1)
qed

section \<open>Witnesses\<close>

definition platform_db :: db where
  "platform_db = empty_db\<lparr>users := [demo_user ''u1''], roles := 
       [\<lparr>r_id = ''r1'', r_name = ''Platform'', r_slug = ''platform_admin'', r_scope = ''platform'', r_description = None, r_created_at = 1, r_updated_at = 1\<rparr>],
     permissions := [\<lparr>p_id = ''p1'', p_key = ''platform:dashboard_read'', p_scope = ''platform'', p_description = None, p_created_at = 1, p_updated_at = 1\<rparr>],
     role_permissions := [\<lparr>rp_role_id = ''r1'', rp_permission_id = ''p1'', rp_created_at = 1\<rparr>]\<rparr>"

definition platform_console :: console_env where
  "platform_console =
     \<lparr>cn_send = (\<lambda>q. Inr \<lparr>hr_status = 200, hr_content = True,
        hr_json = Some (session_json ''t'' 900 (build_actor_summary (demo_user ''u1'') platform_db)), hr_body = []\<rparr>),
      cn_str = (\<lambda>j. []), cn_loads = (\<lambda>s. Some (actor_json (build_actor_summary (demo_user ''u1'') platform_db))),
      cn_dumps = (\<lambda>j. ''{}''), cn_cookies_installed = True\<rparr>"

lemma platform_login: "login_answer platform_console email password =
    Inr (JText ''t'', actor_json (build_actor_summary (demo_user ''u1'') platform_db))"
  by (rule login_answer_session [where expires = 900 and b = "[]"]) (simp_all add: platform_console_def)

lemma platform_actor:
  "\<exists>a ctx. get_current_actor demo_auth demo_env None (Some (create_access_token demo_auth demo_env ''j'' ''u1'' None))
     (platform_db, (Map.empty :: unit redis)) = Inr (a, ctx) \<and> ac_id a = ''u1'' \<and> require_platform_dashboard_access a = Inr a"
proof -
  have "now_at demo_env < seconds (epoch_seconds (now_at demo_env + seconds (60 * jwt_access_ttl_minutes (ae_settings demo_auth))))"
    by (simp add: demo_env_def demo_auth_def epoch_seconds_def seconds_def)
  moreover have "jwt_ok (ae_crypto demo_auth)" by (simp add: demo_jwt demo_auth_def)
  ultimately have "live_claims demo_auth demo_env (Some (create_access_token demo_auth demo_env ''j'' ''u1'' None)) (Map.empty :: unit redis) = Inr ''u1''"
    by (subst issued_token_claims) (simp_all add: get_session_invalidation_timestamp_def redis_get_def)
  then show ?thesis
    by (simp add: get_current_actor_def platform_db_def find_row_def demo_user_def account_active_def Let_def platform_gate
        actor_role_def permission_keys_def PLATFORM_DASHBOARD_PERMISSION_def)
qed

theorem console_admits_whom_backend_admits_witness:
  "\<exists>st. fst (show_page platform_console False (snd (sign_in platform_console True ''e'' ''p'' no_session))) = ShowDashboard st"
proof -
  obtain a ctx where actor: "get_current_actor demo_auth demo_env None (Some (create_access_token demo_auth demo_env ''j'' ''u1'' None))
      (platform_db, (Map.empty :: unit redis)) = Inr (a, ctx)" "ac_id a = ''u1''" "require_platform_dashboard_access a = Inr a"
    using platform_actor by blast
  have "find_row u_id (ac_id a) (users platform_db) = Some (demo_user ''u1'')"
    by (simp add: actor(2) platform_db_def find_row_def demo_user_def)
  with console_admits_whom_backend_admits [where V = platform_console and email = "''e''" and password = "''p''" and token = "''t''"
      and expires = 900 and user = "demo_user ''u1''" and D = platform_db and b = "[]" and s = no_session and ready = True and ready' = False,
      OF _ _ actor(1)] actor(3)
  show ?thesis by (auto simp: platform_console_def)
qed

theorem dashboard_needs_login_witness:
  "\<exists>a. fst (show_page platform_console True (fold (act_on platform_console) [Login True ''e'' ''p'', SignOut False, View True] no_session)) = ShowDashboard a \<and>
     au_token a = JText ''t''"
proof -
  let ?acts = "[Login True ''e'' ''p'', SignOut False, View True]"
  have "reads_back platform_console" by (auto simp: reads_back_def platform_login) (simp add: platform_console_def)
  moreover obtain a where shown: "fst (show_page platform_console True (fold (act_on platform_console) ?acts no_session)) = ShowDashboard a"
  proof -
    have "case fst (show_page platform_console True (fold (act_on platform_console) ?acts no_session)) of ShowDashboard a \<Rightarrow> True | _ \<Rightarrow> False"
      by code_simp
    then show thesis using that by (auto split: console_page.splits)
  qed
  ultimately have "answered platform_console (set ?acts) (au_token a) (au_actor a)" using dashboard_needs_login by blast
  then have "au_token a = JText ''t''" by (auto simp: answered_def platform_login)
  with shown show ?thesis by blast
qed

theorem sign_out_undone_by_cookies_witness:
  "\<exists>a. fst (show_page platform_console True (sign_out platform_console False (snd (sign_in platform_console True ''e'' ''p'' no_session)))) = ShowDashboard a"
proof -
  obtain es where es: "actor_json (build_actor_summary (demo_user ''u1'') platform_db) = JObj es" "es \<noteq> []"
    by (simp add: actor_json_def)
  have "cn_cookies_installed platform_console" "cn_dumps platform_console (JObj es) \<noteq> []"
      "cn_loads platform_console (cn_dumps platform_console (JObj es)) = Some (JObj es)"
    by (simp_all add: platform_console_def es)
  with sign_out_undone_by_cookies [of platform_console "''e''" "''p''" "''t''" es no_session]
  have same: "fst (show_page platform_console True (sign_out platform_console False (snd (sign_in platform_console True ''e'' ''p'' no_session)))) =
      fst (show_page platform_console True (snd (sign_in platform_console True ''e'' ''p'' no_session)))"
    by (simp add: platform_login es)
  have "case fst (show_page platform_console True (snd (sign_in platform_console True ''e'' ''p'' no_session))) of ShowDashboard a \<Rightarrow> True | _ \<Rightarrow> False"
    by code_simp
  then show ?thesis unfolding same by (auto split: console_page.splits)
qed

end
