(* ===== verification/AppConfig.thy ===== *)
theory AppConfig
  imports Common
begin

text \<open>
  The settings (\<open>common/config.py\<close>): validators, the values derived for cookies and CORS, and
  \<open>configure_secrets\<close>, which reads the secrets of a deployment from Vault when the process starts. The
  answers of Vault and the JSON reader are parameters; values in Vault are texts, as \<open>vault/seed.py\<close>
  writes them. The settings that no operation here reads are left out.
\<close>

section \<open>Validators\<close>

definition APP_ENVS :: "string list" where
  "APP_ENVS = [''development'', ''testing'', ''staging'', ''production'']"

definition SAMESITE_VALUES :: "string list" where
  "SAMESITE_VALUES = [''lax'', ''strict'', ''none'']"

text \<open>The messages name the allowed values as Python prints a set; the order is left open there and is not shown here.\<close>

definition validate_app_env :: "string \<Rightarrow> py_exc + string" where
  "validate_app_env v = (if v \<in> set APP_ENVS then Inr v else Inl (ValueError (''app_env must be one of the allowed values, got '' @ quoted v)))"

definition validate_samesite :: "string \<Rightarrow> py_exc + string" where
  "validate_samesite v =
     (if py_lower v \<in> set SAMESITE_VALUES then Inr (py_lower v)
      else Inl (ValueError (''auth_cookie_samesite must be one of the allowed values, got '' @ quoted v)))"

text \<open>What \<open>json.loads\<close> makes of the text: an error, a value that is no list, a list with an item that is no text, or texts.\<close>

datatype origins_json = NotJson string | NoList | OtherItems | Origins "string list"

definition validate_cors_origins :: "(string \<Rightarrow> origins_json) \<Rightarrow> string \<Rightarrow> py_exc + string" where
  "validate_cors_origins loads v =
     (case loads v of
        NotJson e \<Rightarrow> Inl (ValueError (''cors_origins must be valid JSON array: '' @ e))
      | NoList \<Rightarrow> Inl (ValueError ''cors_origins must be a JSON array'')
      | OtherItems \<Rightarrow> Inl (ValueError ''Each CORS origin must be a string'')
      | Origins xs \<Rightarrow> Inr v)"

section \<open>Settings\<close>

record app_settings =
  cf_app_env :: string
  cf_cors_origins :: string
  cf_auth_cookie_secure :: bool
  cf_auth_cookie_samesite :: string
  cf_guardrails_config_path :: string
  cf_jwt_access_secret :: string
  cf_jwt_refresh_secret :: string
  cf_hf_token :: string
  cf_azure_openai_endpoint :: string
  cf_azure_openai_chat_deployment :: string
  cf_azure_openai_embedding_deployment :: string
  cf_azure_whisper_deployment :: string
  cf_azure_openai_embedding_model :: string
  cf_azure_openai_api_key :: string
  cf_openrouter_api_key :: string
  cf_openrouter_base_url :: string
  cf_openrouter_rerank_model :: string
  cf_openrouter_content_safety_model :: string
  cf_azure_cv_endpoint :: string
  cf_azure_cv_api_key :: string
  cf_callback_token :: string
  cf_service_url :: string

text \<open>\<open>Settings()\<close>: the validated fields. The first failing field decides the exception here; pydantic reports all.\<close>

definition validated :: "(string \<Rightarrow> origins_json) \<Rightarrow> app_settings \<Rightarrow> py_exc + app_settings" where
  "validated loads s =
     sbind (validate_app_env (cf_app_env s)) (\<lambda>_.
     sbind (validate_cors_origins loads (cf_cors_origins s)) (\<lambda>_.
     sbind (validate_samesite (cf_auth_cookie_samesite s)) (\<lambda>same. Inr (s\<lparr>cf_auth_cookie_samesite := same\<rparr>))))"

definition exposed :: "app_settings \<Rightarrow> bool" where
  "exposed s \<longleftrightarrow> cf_app_env s \<in> {''production'', ''staging''}"

definition loaded_origins :: "(string \<Rightarrow> origins_json) \<Rightarrow> app_settings \<Rightarrow> string list" where
  "loaded_origins loads s = (case loads (cf_cors_origins s) of Origins xs \<Rightarrow> xs | _ \<Rightarrow> [])"

definition effective_cors_origins :: "(string \<Rightarrow> origins_json) \<Rightarrow> app_settings \<Rightarrow> py_exc + string list" where
  "effective_cors_origins loads s =
     (let origins = loaded_origins loads s
      in if exposed s
         then if ''*'' \<in> set origins
              then Inl (ValueError ''Wildcard CORS origin (*) not allowed in production with credentials'')
              else if origins = [] then Inl (ValueError ''cors_origins must be explicitly configured for production'')
              else Inr origins
         else Inr origins)"

definition effective_cookie_secure :: "app_settings \<Rightarrow> bool" where
  "effective_cookie_secure s = (if exposed s then True else cf_auth_cookie_secure s)"

definition effective_cookie_samesite :: "app_settings \<Rightarrow> string" where
  "effective_cookie_samesite s = (if exposed s then ''strict'' else cf_auth_cookie_samesite s)"

definition effective_cors_allow_credentials :: "(string \<Rightarrow> origins_json) \<Rightarrow> app_settings \<Rightarrow> py_exc + bool" where
  "effective_cors_allow_credentials loads s =
     (if exposed s
      then let origins = loaded_origins loads s
           in if ''*'' \<in> set origins then Inl (ValueError ''Wildcard CORS origin (*) not allowed with credentials in production'')
              else Inr (0 < length origins)
      else Inr True)"

definition effective_guardrails_config_path :: "string \<Rightarrow> app_settings \<Rightarrow> string" where
  "effective_guardrails_config_path default_path s =
     (if cf_guardrails_config_path s \<noteq> [] then cf_guardrails_config_path s else default_path)"

section \<open>Secrets\<close>

datatype vault_answer = InvalidPath | VaultFails string | Secret "string \<rightharpoonup> string"

text \<open>\<open>va_status\<close>: initialized and sealed, or the text of the exception.\<close>

record vault =
  va_status :: "string + bool \<times> bool"
  va_read :: "string \<Rightarrow> vault_answer"
  va_dash :: string

type_synonym loading = "(py_exc + unit) \<times> app_settings"

definition then_load :: "loading \<Rightarrow> (app_settings \<Rightarrow> loading) \<Rightarrow> loading" where
  "then_load l f = (case l of (Inl e, s) \<Rightarrow> (Inl e, s) | (Inr _, s) \<Rightarrow> f s)"

definition unreadable :: "string \<Rightarrow> string \<Rightarrow> py_exc" where
  "unreadable path e = RuntimeError (''Failed to read secret akarai/'' @ path @ '' from Vault: '' @ e)"

text \<open>The dash of the messages is no Latin-1 character; it is a field of the record.\<close>

definition jwt_missing :: "vault \<Rightarrow> py_exc" where
  "jwt_missing v = RuntimeError (''Vault secret akarai/jwt not found '' @ va_dash v @ '' has vault-init run?'')"

definition text_or :: "(string \<rightharpoonup> string) \<Rightarrow> string \<Rightarrow> string \<Rightarrow> string" where
  "text_or data key old = (case data key of Some v \<Rightarrow> v | None \<Rightarrow> old)"

definition stripped_or :: "(string \<rightharpoonup> string) \<Rightarrow> string \<Rightarrow> string \<Rightarrow> string" where
  "stripped_or data key old = (let v = py_strip (text_or data key []) in if v \<noteq> [] then v else old)"

definition load_jwt :: "vault \<Rightarrow> app_settings \<Rightarrow> loading" where
  "load_jwt v s =
     (case va_read v ''jwt'' of
        InvalidPath \<Rightarrow> (Inl (jwt_missing v), s)
      | VaultFails e \<Rightarrow> (Inl (unreadable ''jwt'' e), s)
      | Secret data \<Rightarrow>
          (case data ''access_secret'' of
             None \<Rightarrow> (Inl (unreadable ''jwt'' (quoted ''access_secret'')), s)
           | Some access \<Rightarrow>
               (case data ''refresh_secret'' of
                  None \<Rightarrow> (Inl (unreadable ''jwt'' (quoted ''refresh_secret'')), s\<lparr>cf_jwt_access_secret := access\<rparr>)
                | Some ref \<Rightarrow> (Inr (), s\<lparr>cf_jwt_access_secret := access, cf_jwt_refresh_secret := ref\<rparr>))))"

definition load_optional ::
  "string \<Rightarrow> (app_settings \<Rightarrow> app_settings) \<Rightarrow> ((string \<rightharpoonup> string) \<Rightarrow> app_settings \<Rightarrow> app_settings) \<Rightarrow> vault \<Rightarrow> app_settings \<Rightarrow> loading" where
  "load_optional path absent fill v s =
     (case va_read v path of
        InvalidPath \<Rightarrow> (Inr (), absent s)
      | VaultFails e \<Rightarrow> (Inl (unreadable path e), s)
      | Secret data \<Rightarrow> (Inr (), fill data s))"

definition load_ai :: "vault \<Rightarrow> app_settings \<Rightarrow> loading" where
  "load_ai = load_optional ''ai'' (\<lambda>s. s\<lparr>cf_hf_token := []\<rparr>) (\<lambda>data s. s\<lparr>cf_hf_token := text_or data ''hf_token'' []\<rparr>)"

definition load_azure :: "vault \<Rightarrow> app_settings \<Rightarrow> loading" where
  "load_azure = load_optional ''azure'' (\<lambda>s. s\<lparr>cf_azure_openai_api_key := []\<rparr>)
     (\<lambda>data s. s\<lparr>cf_azure_openai_endpoint := text_or data ''endpoint'' (cf_azure_openai_endpoint s),
        cf_azure_openai_chat_deployment := text_or data ''chat_deployment'' (cf_azure_openai_chat_deployment s),
        cf_azure_openai_embedding_deployment := text_or data ''embedding_deployment'' (cf_azure_openai_embedding_deployment s),
        cf_azure_whisper_deployment := text_or data ''whisper_deployment'' (cf_azure_whisper_deployment s),
        cf_azure_openai_embedding_model := text_or data ''embedding_model'' (cf_azure_openai_embedding_model s),
        cf_azure_openai_api_key := text_or data ''api_key'' []\<rparr>)"

definition load_openrouter :: "vault \<Rightarrow> app_settings \<Rightarrow> loading" where
  "load_openrouter = load_optional ''openrouter'' (\<lambda>s. s)
     (\<lambda>data s. s\<lparr>cf_openrouter_api_key := stripped_or data ''api_key'' (cf_openrouter_api_key s),
        cf_openrouter_base_url := stripped_or data ''base_url'' (cf_openrouter_base_url s),
        cf_openrouter_rerank_model := stripped_or data ''rerank_model'' (cf_openrouter_rerank_model s),
        cf_openrouter_content_safety_model := stripped_or data ''content_safety_model'' (cf_openrouter_content_safety_model s)\<rparr>)"

definition load_azure_cv :: "vault \<Rightarrow> app_settings \<Rightarrow> loading" where
  "load_azure_cv = load_optional ''azure_cv'' (\<lambda>s. s)
     (\<lambda>data s. s\<lparr>cf_azure_cv_endpoint := stripped_or data ''endpoint'' (cf_azure_cv_endpoint s),
        cf_azure_cv_api_key := stripped_or data ''api_key'' (cf_azure_cv_api_key s)\<rparr>)"

definition load_lead_model_service :: "vault \<Rightarrow> app_settings \<Rightarrow> loading" where
  "load_lead_model_service = load_optional ''lead_model_service'' (\<lambda>s. s)
     (\<lambda>data s. s\<lparr>cf_callback_token := stripped_or data ''callback_token'' (cf_callback_token s),
        cf_service_url := stripped_or data ''service_url'' (cf_service_url s)\<rparr>)"

definition check_vault_health :: "vault \<Rightarrow> bool" where
  "check_vault_health v = (case va_status v of Inl _ \<Rightarrow> False | Inr (initialized, sealed) \<Rightarrow> initialized \<and> \<not> sealed)"

definition configure_secrets :: "string \<Rightarrow> vault \<Rightarrow> app_settings \<Rightarrow> loading" where
  "configure_secrets vault_addr v s =
     (if cf_app_env s = ''testing''
      then (Inr (), s\<lparr>cf_jwt_access_secret := ''test-access-secret-for-unit-tests'',
                      cf_jwt_refresh_secret := ''test-refresh-secret-for-unit-tests''\<rparr>)
      else (case va_status v of
              Inl e \<Rightarrow> (Inl (RuntimeError (''Vault is unreachable at '' @ vault_addr @ '': '' @ e)), s)
            | Inr (initialized, sealed) \<Rightarrow>
                if \<not> initialized then (Inl (RuntimeError (''Vault is not initialized '' @ va_dash v @ '' cannot load secrets'')), s)
                else if sealed then (Inl (RuntimeError (''Vault is sealed '' @ va_dash v @ '' cannot load secrets'')), s)
                else then_load (load_jwt v s) (\<lambda>s1. then_load (load_ai v s1) (\<lambda>s2. then_load (load_azure v s2) (\<lambda>s3.
                     then_load (load_openrouter v s3) (\<lambda>s4. then_load (load_azure_cv v s4) (load_lead_model_service v)))))))"

section \<open>Properties\<close>

lemmas load_defs = load_ai_def load_azure_def load_openrouter_def load_azure_cv_def load_lead_model_service_def

lemma then_load_Inr: "then_load l f = (Inr u, s') \<longleftrightarrow> (\<exists>s. l = (Inr (), s) \<and> f s = (Inr u, s'))"
  by (auto simp: then_load_def split: prod.splits sum.splits)

text \<open>What an optional secret leaves alone, whether it is there or not.\<close>

lemma optional_keeps:
  assumes "load_optional path absent fill v s = (Inr u, s')" "\<And>t. f (absent t) = f t" "\<And>d t. f (fill d t) = f t"
  shows "f s' = f s"
  using assms by (auto simp: load_optional_def split: vault_answer.splits)

definition jwt_secrets :: "app_settings \<Rightarrow> string \<times> string" where
  "jwt_secrets s = (cf_jwt_access_secret s, cf_jwt_refresh_secret s)"

lemma later_loads_keep_jwt:
  "load_ai v s = (Inr u, s') \<Longrightarrow> jwt_secrets s' = jwt_secrets s"
  "load_azure v s = (Inr u, s') \<Longrightarrow> jwt_secrets s' = jwt_secrets s"
  "load_openrouter v s = (Inr u, s') \<Longrightarrow> jwt_secrets s' = jwt_secrets s"
  "load_azure_cv v s = (Inr u, s') \<Longrightarrow> jwt_secrets s' = jwt_secrets s"
  "load_lead_model_service v s = (Inr u, s') \<Longrightarrow> jwt_secrets s' = jwt_secrets s"
  unfolding load_defs by (erule optional_keeps; simp add: jwt_secrets_def)+

lemma load_jwt_Inr:
  "load_jwt v s = (Inr u, s') \<Longrightarrow>
     \<exists>data. va_read v ''jwt'' = Secret data \<and> data ''access_secret'' = Some (cf_jwt_access_secret s') \<and>
       data ''refresh_secret'' = Some (cf_jwt_refresh_secret s')"
  by (auto simp: load_jwt_def split: vault_answer.splits option.splits)

text \<open>
  A process that starts outside the testing environment has the signing secrets that Vault holds, of a
  Vault that is initialized and not sealed: whenever loading the secrets succeeds, whatever the optional
  secrets are, and otherwise it raises.
\<close>

theorem secrets_come_from_vault:
  assumes "cf_app_env s \<noteq> ''testing''" "configure_secrets addr v s = (Inr u, s')"
  shows "check_vault_health v \<and> (\<exists>data. va_read v ''jwt'' = Secret data \<and>
    data ''access_secret'' = Some (cf_jwt_access_secret s') \<and> data ''refresh_secret'' = Some (cf_jwt_refresh_secret s'))"
proof -
  from assms have healthy: "check_vault_health v"
    by (auto simp: configure_secrets_def check_vault_health_def split: sum.splits prod.splits if_splits)
  obtain s1 s2 s3 s4 s5 where "load_jwt v s = (Inr (), s1)" and loads: "load_ai v s1 = (Inr (), s2)" "load_azure v s2 = (Inr (), s3)"
      "load_openrouter v s3 = (Inr (), s4)" "load_azure_cv v s4 = (Inr (), s5)" "load_lead_model_service v s5 = (Inr u, s')"
    using assms by (auto simp: configure_secrets_def then_load_Inr split: sum.splits prod.splits if_splits)
  moreover have "jwt_secrets s' = jwt_secrets s1" using loads later_loads_keep_jwt by metis
  ultimately show ?thesis using healthy load_jwt_Inr by (fastforce simp: jwt_secrets_def)
qed

text \<open>
  In production and staging cross-origin requests with credentials are never open to every origin: when
  the application starts, its allowed origins are the configured ones without the wildcard, at least one,
  and cookies are secure and strict.
\<close>

theorem production_origins_are_explicit:
  assumes "validated loads s = Inr s'" "exposed s'" "effective_cors_origins loads s' = Inr origins"
  shows "loads (cf_cors_origins s) = Origins origins \<and> ''*'' \<notin> set origins \<and> origins \<noteq> [] \<and>
    effective_cors_allow_credentials loads s' = Inr True \<and> effective_cookie_secure s' \<and> effective_cookie_samesite s' = ''strict''"
  using assms
  by (auto simp: validated_def sbind_Inr_iff validate_cors_origins_def effective_cors_origins_def loaded_origins_def Let_def
      effective_cors_allow_credentials_def effective_cookie_secure_def effective_cookie_samesite_def
      split: origins_json.splits if_splits)

text \<open>In development the wildcard is allowed together with credentials.\<close>

lemma wildcard_with_credentials:
  assumes "cf_app_env s = ''development''" "loads (cf_cors_origins s) = Origins [''*'']" "validate_samesite (cf_auth_cookie_samesite s) = Inr x"
  shows "\<exists>s'. validated loads s = Inr s' \<and> effective_cors_origins loads s' = Inr [''*''] \<and>
    effective_cors_allow_credentials loads s' = Inr True"
  using assms
  by (simp add: validated_def validate_app_env_def APP_ENVS_def validate_cors_origins_def effective_cors_origins_def loaded_origins_def
      effective_cors_allow_credentials_def exposed_def)

text \<open>A secret that cannot be read leaves the process with what was loaded before it.\<close>

lemma failed_start_is_partial:
  assumes "cf_app_env s \<noteq> ''testing''" "va_status v = Inr (True, False)" "load_jwt v s = (Inr (), s1)" "va_read v ''ai'' = VaultFails e"
  shows "configure_secrets addr v s = (Inl (unreadable ''ai'' e), s1)"
  using assms by (simp add: configure_secrets_def then_load_def load_ai_def load_optional_def)

section \<open>Witnesses\<close>

definition demo_settings :: app_settings where
  "demo_settings = \<lparr>cf_app_env = ''production'', cf_cors_origins = ''origins'', cf_auth_cookie_secure = False,
     cf_auth_cookie_samesite = ''Lax'', cf_guardrails_config_path = [], cf_jwt_access_secret = [], cf_jwt_refresh_secret = [],
     cf_hf_token = [], cf_azure_openai_endpoint = [], cf_azure_openai_chat_deployment = [],
     cf_azure_openai_embedding_deployment = [], cf_azure_whisper_deployment = [], cf_azure_openai_embedding_model = [],
     cf_azure_openai_api_key = [], cf_openrouter_api_key = [], cf_openrouter_base_url = [], cf_openrouter_rerank_model = [],
     cf_openrouter_content_safety_model = [], cf_azure_cv_endpoint = [], cf_azure_cv_api_key = [], cf_callback_token = [],
     cf_service_url = []\<rparr>"

definition demo_vault :: vault where
  "demo_vault = \<lparr>va_status = Inr (True, False),
     va_read = (\<lambda>path. if path = ''jwt'' then Secret [''access_secret'' \<mapsto> ''a1'', ''refresh_secret'' \<mapsto> ''r1''] else InvalidPath), va_dash = ''-''\<rparr>"

theorem secrets_come_from_vault_witness:
  "\<exists>s'. configure_secrets ''vault'' demo_vault demo_settings = (Inr (), s') \<and> cf_jwt_access_secret s' = ''a1''"
proof -
  obtain s' where run: "configure_secrets ''vault'' demo_vault demo_settings = (Inr (), s')"
    by (simp add: configure_secrets_def demo_vault_def demo_settings_def then_load_def load_jwt_def load_defs load_optional_def)
  moreover have "cf_app_env demo_settings \<noteq> ''testing''" by (simp add: demo_settings_def)
  ultimately have "\<exists>data. va_read demo_vault ''jwt'' = Secret data \<and> data ''access_secret'' = Some (cf_jwt_access_secret s')"
    using secrets_come_from_vault by blast
  with run show ?thesis by (auto simp: demo_vault_def)
qed

theorem production_origins_are_explicit_witness:
  "\<exists>s'. validated (\<lambda>_. Origins [''https://akarai.example'']) demo_settings = Inr s' \<and>
     effective_cors_allow_credentials (\<lambda>_. Origins [''https://akarai.example'']) s' = Inr True \<and> effective_cookie_secure s'"
proof -
  let ?l = "\<lambda>_. Origins [''https://akarai.example'']"
  have lower: "py_lower ''Lax'' = ''lax''" by code_simp
  obtain s' where s': "validated ?l demo_settings = Inr s'" "exposed s'" "effective_cors_origins ?l s' = Inr [''https://akarai.example'']"
    by (simp add: validated_def validate_app_env_def APP_ENVS_def validate_cors_origins_def validate_samesite_def SAMESITE_VALUES_def
        demo_settings_def lower exposed_def effective_cors_origins_def loaded_origins_def)
  from production_origins_are_explicit [OF s'] s'(1) show ?thesis by blast
qed

end
