(* ===== verification/Providers.thy ===== *)
theory Providers
  imports Ocr AppConfig
begin

text \<open>
  The clients of the AI providers: \<open>ai/openrouter.py\<close> (reranking and the safety judge),
  \<open>ai/azure_openai.py\<close> (chat, embeddings, transcription and optical recognition) and the table of
  providers of \<open>ai/registry.py\<close>. What a provider answers over the network is a parameter; an error is
  given by its text.
\<close>

section \<open>Values of an answer\<close>

text \<open>\<open>value.get(key)\<close>, which only a dictionary has, and the values a loop over a JSON value visits.\<close>

definition member :: "json \<Rightarrow> string \<Rightarrow> string + json option" where
  "member j key = (if is_object j then Inr (json_get j key) else Inl ''AttributeError'')"

definition visited :: "json option \<Rightarrow> string + json list" where
  "visited v =
     (case v of
        None \<Rightarrow> Inr []
      | Some (JList js) \<Rightarrow> Inr js
      | Some (JText s) \<Rightarrow> Inr (map (\<lambda>c. JText [c]) s)
      | Some (JObj es) \<Rightarrow> Inr (map (\<lambda>(k, _). JText k) es)
      | Some _ \<Rightarrow> Inl ''TypeError'')"

text \<open>\<open>value or {}\<close>.\<close>

definition or_empty_object :: "json option \<Rightarrow> json" where
  "or_empty_object v = (case v of None \<Rightarrow> JObj [] | Some j \<Rightarrow> if falsy j then JObj [] else j)"

fun sequence :: "('e + 'a) list \<Rightarrow> 'e + 'a list" where
  "sequence [] = Inr []"
| "sequence (m # ms) = sbind m (\<lambda>x. sbind (sequence ms) (\<lambda>xs. Inr (x # xs)))"

section \<open>Reranking\<close>

record rerank_result =
  rk_index :: json
  rk_document :: json
  rk_score :: json

definition rerank_payload :: "string \<Rightarrow> string \<Rightarrow> string list \<Rightarrow> nat option \<Rightarrow> json" where
  "rerank_payload model query documents top_n = JObj
     [(''model'', JText model), (''query'', JText query),
      (''documents'', JList (map (\<lambda>d. JObj [(''text'', JText d)]) documents)),
      (''top_n'', JInt (int (min (case top_n of None \<Rightarrow> length documents | Some n \<Rightarrow> n) (length documents))))]"

definition rerank_item :: "(json \<Rightarrow> string) \<Rightarrow> json \<Rightarrow> string + rerank_result" where
  "rerank_item show item =
     sbind (member item ''document'') (\<lambda>d.
       (let payload = or_empty_object d;
            document = (if is_object payload
                        then (case json_get payload ''text'' of None \<Rightarrow> JText [] | Some t \<Rightarrow> t)
                        else JText (json_text show payload))
        in case json_get item ''index'' of
             None \<Rightarrow> Inl ''KeyError''
           | Some i \<Rightarrow> Inr \<lparr>rk_index = i, rk_document = document,
                            rk_score = (case json_get item ''relevance_score'' of None \<Rightarrow> JNum 0 | Some s \<Rightarrow> s)\<rparr>))"

definition openrouter_rerank ::
  "(json \<Rightarrow> string) \<Rightarrow> app_settings \<Rightarrow> (json \<Rightarrow> string + json) \<Rightarrow> string \<Rightarrow> string list \<Rightarrow> string option \<Rightarrow> nat option
     \<Rightarrow> string + rerank_result list" where
  "openrouter_rerank show s post query documents model top_n =
     (if documents = [] then Inr []
      else
        (let m = (if truthy model then the model else cf_openrouter_rerank_model s)
         in if m = [] then Inl ''OpenRouter rerank model must be configured''
            else if cf_openrouter_api_key s = [] then Inl ''OpenRouter API key must be configured''
            else sbind (post (rerank_payload m query documents top_n)) (\<lambda>data.
                 sbind (member data ''results'') (\<lambda>results.
                 sbind (visited results) (\<lambda>items. sequence (map (rerank_item show) items))))))"

section \<open>The safety judge\<close>

definition build_content_safety_prompt :: "string \<Rightarrow> string option \<Rightarrow> string \<Rightarrow> string" where
  "build_content_safety_prompt user_prompt assistant_response stage =
     join_with [CHR 0x0A, CHR 0x0A]
       ([''Stage: '' @ stage, ''User prompt:'', user_prompt] @
        (case assistant_response of None \<Rightarrow> [] | Some r \<Rightarrow> [''Assistant response:'', r]))"

definition part_text :: "(json \<Rightarrow> string) \<Rightarrow> json \<Rightarrow> string" where
  "part_text show part =
     json_text show (if is_object part then (case json_get part ''text'' of None \<Rightarrow> JText [] | Some t \<Rightarrow> t) else part)"

definition extract_chat_content :: "(json \<Rightarrow> string) \<Rightarrow> json \<Rightarrow> string + string" where
  "extract_chat_content show data =
     sbind (member data ''choices'') (\<lambda>choices.
     case choices of
       None \<Rightarrow> Inl ''OpenRouter content safety returned no choices''
     | Some j \<Rightarrow>
         if falsy j then Inl ''OpenRouter content safety returned no choices''
         else (case j of
           JList (first # _) \<Rightarrow>
             sbind (member first ''message'') (\<lambda>message.
             sbind (member (or_empty_object message) ''content'') (\<lambda>content.
               (case (case content of
                        Some (JList parts) \<Rightarrow> Some (JText (concat (map (part_text show) parts)))
                      | _ \<Rightarrow> content) of
                  Some (JText t) \<Rightarrow>
                    if py_strip t = [] then Inl ''OpenRouter content safety returned empty content'' else Inr (py_strip t)
                | _ \<Rightarrow> Inl ''OpenRouter content safety returned empty content'')))
         | _ \<Rightarrow> Inl ''TypeError''))"

definition openrouter_parse_json_object :: "(string \<Rightarrow> string + json) \<Rightarrow> string \<Rightarrow> json option" where
  "openrouter_parse_json_object loads content =
     (case loads content of
        Inr j \<Rightarrow> if is_object j then Some j else None
      | Inl _ \<Rightarrow>
          (case braces content of
             None \<Rightarrow> None
           | Some inner \<Rightarrow> (case loads inner of Inr j \<Rightarrow> if is_object j then Some j else None | Inl _ \<Rightarrow> None)))"

text \<open>\<open>ask\<close> answers the prompt of the user role.\<close>

definition openrouter_judge ::
  "(json \<Rightarrow> string) \<Rightarrow> (string \<Rightarrow> string + json) \<Rightarrow> app_settings \<Rightarrow> (string \<Rightarrow> string + json) \<Rightarrow> string \<Rightarrow> string option
     \<Rightarrow> string \<Rightarrow> string + safety" where
  "openrouter_judge show loads s ask user_prompt assistant_response stage =
     (if cf_openrouter_api_key s = [] then Inl ''OpenRouter API key must be configured''
      else if cf_openrouter_content_safety_model s = [] then Inl ''OpenRouter content safety model must be configured''
      else sbind (ask (build_content_safety_prompt user_prompt assistant_response stage)) (\<lambda>data.
           sbind (extract_chat_content show data) (\<lambda>content.
             parse_content_safety_decision show (openrouter_parse_json_object loads) content)))"

section \<open>Azure OpenAI\<close>

definition azure_client :: "app_settings \<Rightarrow> string + unit" where
  "azure_client s =
     (if cf_azure_openai_endpoint s = [] \<or> cf_azure_openai_api_key s = []
      then Inl ''Azure OpenAI endpoint and api key must be configured'' else Inr ())"

definition azure_embed ::
  "app_settings \<Rightarrow> (string \<Rightarrow> string list \<Rightarrow> string + 'v list) \<Rightarrow> string option \<Rightarrow> string list \<Rightarrow> string + 'v list" where
  "azure_embed s create model texts =
     sbind (azure_client s) (\<lambda>_.
       (let deployment = (if truthy model then the model else cf_azure_openai_embedding_deployment s)
        in if deployment = [] then Inl ''Azure OpenAI embedding deployment must be configured''
           else create deployment texts))"

definition azure_chat ::
  "app_settings \<Rightarrow> (string \<Rightarrow> chat_message list \<Rightarrow> string + string option) \<Rightarrow> string option \<Rightarrow> chat_message list
     \<Rightarrow> string + string \<times> string" where
  "azure_chat s create model messages =
     sbind (azure_client s) (\<lambda>_.
       (let deployment = (if truthy model then the model else cf_azure_openai_chat_deployment s)
        in if deployment = [] then Inl ''Azure OpenAI chat deployment must be configured''
           else sbind (create deployment messages) (\<lambda>output.
                  (let t = py_strip (case output of None \<Rightarrow> [] | Some x \<Rightarrow> x)
                   in if t = [] then Inl ''Azure OpenAI returned an empty response'' else Inr (t, deployment)))))"

definition audio_name :: "string \<Rightarrow> string" where
  "audio_name content_type =
     ''audio.'' @ (if CHR ''/'' \<in> set content_type then last_component content_type else ''wav'')"

definition azure_transcribe ::
  "app_settings \<Rightarrow> (string \<Rightarrow> string \<Rightarrow> string \<Rightarrow> string + string) \<Rightarrow> string option \<Rightarrow> string \<Rightarrow> string option \<Rightarrow> string + string" where
  "azure_transcribe s create model audio_bytes content_type =
     sbind (azure_client s) (\<lambda>_.
       (let deployment = (if truthy model then the model else cf_azure_whisper_deployment s)
        in if deployment = [] then Inl ''Azure Whisper deployment must be configured''
           else create deployment (audio_name (case content_type of None \<Rightarrow> ''audio/wav'' | Some c \<Rightarrow> c)) audio_bytes))"

section \<open>Optical recognition\<close>

definition read_status :: "json \<Rightarrow> string + string" where
  "read_status payload =
     sbind (member payload ''status'') (\<lambda>v.
       case v of None \<Rightarrow> Inr [] | Some (JText t) \<Rightarrow> Inr (py_lower t) | Some _ \<Rightarrow> Inl ''AttributeError'')"

definition page_lines :: "json \<Rightarrow> string + json list" where
  "page_lines read_result =
     sbind (member read_result ''lines'') (\<lambda>ls.
     sbind (visited ls) (\<lambda>items.
     sbind (sequence (map (\<lambda>line. member line ''text'') items)) (\<lambda>texts.
       Inr (filter (\<lambda>t. \<not> falsy t) (List.map_filter id texts)))))"

definition joined_texts :: "json list \<Rightarrow> string + string" where
  "joined_texts js =
     sbind (sequence (map (\<lambda>j. case j of JText t \<Rightarrow> Inr t | _ \<Rightarrow> Inl ''TypeError'') js)) (\<lambda>ts. Inr (py_strip (join_with [CHR 0x0A] ts)))"

definition recognized_text :: "json \<Rightarrow> string + string" where
  "recognized_text payload =
     sbind (member (or_empty_object (json_get payload ''analyzeResult'')) ''readResults'') (\<lambda>rs.
     sbind (visited rs) (\<lambda>results.
     sbind (sequence (map page_lines results)) (\<lambda>pages. joined_texts (concat pages))))"

text \<open>\<open>answers k\<close> is what the \<open>k\<close>-th poll of the operation answers.\<close>

fun poll_read :: "(nat \<Rightarrow> string + json) \<Rightarrow> nat \<Rightarrow> nat \<Rightarrow> string + string" where
  "poll_read answers k 0 = Inl ''Azure Computer Vision Read timed out''"
| "poll_read answers k (Suc n) =
     sbind (answers k) (\<lambda>payload.
     sbind (read_status payload) (\<lambda>status.
       if status = ''succeeded'' then recognized_text payload
       else if status = ''failed'' then Inl ''Azure Computer Vision Read failed''
       else poll_read answers (Suc k) n))"

definition azure_extract_text ::
  "app_settings \<Rightarrow> (string \<Rightarrow> string + string option) \<Rightarrow> (string \<Rightarrow> nat \<Rightarrow> string + json) \<Rightarrow> string \<Rightarrow> string + string" where
  "azure_extract_text s submit answers file_bytes =
     (if cf_azure_cv_endpoint s = [] \<or> cf_azure_cv_api_key s = []
      then Inl ''Azure Computer Vision endpoint and api key must be configured''
      else sbind (submit file_bytes) (\<lambda>operation_url.
             if \<not> truthy operation_url then Inl ''Azure Computer Vision Read did not return an operation URL''
             else poll_read (answers (the operation_url)) 0 30))"

section \<open>The table of providers\<close>

datatype ability = ChatProvider | EmbeddingProvider | RerankingProvider | OCRProvider | STTProvider

datatype registry_error = NotRegistered string | NotImplemented string

type_synonym registry = "string \<rightharpoonup> ability list"

definition get_provider :: "string \<Rightarrow> registry \<Rightarrow> (registry_error + ability list) \<times> registry" where
  "get_provider name R =
     (case R name of
        Some p \<Rightarrow> (Inr p, R)
      | None \<Rightarrow>
          if name = ''azure_openai''
          then (Inr [ChatProvider, EmbeddingProvider], R(name \<mapsto> [ChatProvider, EmbeddingProvider]))
          else if name = ''azure_stt'' then (Inr [STTProvider], R(name \<mapsto> [STTProvider]))
          else (Inl (NotRegistered name), R))"

text \<open>The assertion that the provider has the methods of the protocol.\<close>

definition asserted :: "string \<Rightarrow> ability \<Rightarrow> (registry_error + ability list) \<times> registry \<Rightarrow> (registry_error + ability list) \<times> registry" where
  "asserted name a w = (case w of (Inr p, R) \<Rightarrow> (if a \<in> set p then Inr p else Inl (NotImplemented name), R) | (Inl e, R) \<Rightarrow> (Inl e, R))"

definition registered :: "string \<Rightarrow> ability list \<Rightarrow> registry \<Rightarrow> registry" where
  "registered name p R = (if R name = None then R(name \<mapsto> p) else R)"

definition get_chat_provider :: "string \<Rightarrow> registry \<Rightarrow> (registry_error + ability list) \<times> registry" where
  "get_chat_provider primary R = asserted primary ChatProvider (get_provider primary R)"

definition get_embedding_provider :: "string \<Rightarrow> registry \<Rightarrow> (registry_error + ability list) \<times> registry" where
  "get_embedding_provider primary R = asserted primary EmbeddingProvider (get_provider primary R)"

definition get_reranking_provider :: "registry \<Rightarrow> (registry_error + ability list) \<times> registry" where
  "get_reranking_provider R =
     asserted ''openrouter'' RerankingProvider (get_provider ''openrouter'' (registered ''openrouter'' [RerankingProvider] R))"

definition get_stt_provider :: "registry \<Rightarrow> (registry_error + ability list) \<times> registry" where
  "get_stt_provider R =
     asserted ''azure_stt'' STTProvider (get_provider ''azure_stt'' (registered ''azure_stt'' [STTProvider] R))"

definition get_ocr_provider :: "string \<Rightarrow> registry \<Rightarrow> (registry_error + ability list) \<times> registry" where
  "get_ocr_provider ocr_provider R =
     (let name = (if ocr_provider = [] then ''azure_computer_vision_read'' else ocr_provider)
      in asserted name OCRProvider
           (get_provider name (if name = ''azure_computer_vision_read'' then registered name [OCRProvider] R else R)))"

end
