(* ===== verification/ProviderProps.thy ===== *)
theory ProviderProps
  imports Providers GuardProps
begin

text \<open>
  The clients of the providers: how many answers of the optical recognition are looked at and which one
  decides, what the safety judge makes of a verdict that is cut off, and the table of providers.
\<close>

section \<open>Polling\<close>

text \<open>What one answer says, where it ends the polling: the text, or an error.\<close>

definition poll_verdict :: "string + json \<Rightarrow> (string + string) option" where
  "poll_verdict answer =
     (case sbind answer (\<lambda>payload. sbind (read_status payload) (\<lambda>status. Inr (payload, status))) of
        Inl e \<Rightarrow> Some (Inl e)
      | Inr (payload, status) \<Rightarrow>
          if status = ''succeeded'' then Some (recognized_text payload)
          else if status = ''failed'' then Some (Inl ''Azure Computer Vision Read failed'')
          else None)"

lemma poll_read_step:
  "poll_read answers k (Suc n) = (case poll_verdict (answers k) of None \<Rightarrow> poll_read answers (Suc k) n | Some r \<Rightarrow> r)"
proof (cases "answers k")
  case (Inr payload)
  then show ?thesis by (cases "read_status payload") (simp_all add: poll_verdict_def)
qed (simp add: poll_verdict_def)

lemma poll_read_first:
  "poll_read answers k n =
     (case find (\<lambda>j. poll_verdict (answers j) \<noteq> None) [k..<k + n] of
        None \<Rightarrow> Inl ''Azure Computer Vision Read timed out''
      | Some j \<Rightarrow> the (poll_verdict (answers j)))"
proof (induction n arbitrary: k)
  case (Suc n)
  have "[k..<k + Suc n] = k # [Suc k..<Suc k + n]" by (simp add: upt_rec)
  then show ?case
    using Suc [of "Suc k"] by (simp only: poll_read_step find.simps) (auto split: option.splits)
qed simp

text \<open>
  Recognition takes at most thirty polls: the first of them whose answer is an error, has failed or has
  succeeded decides, later answers are not looked at, and when none does the read has timed out.
\<close>

theorem read_decided_by_first_settled_poll:
  assumes "cf_azure_cv_endpoint s \<noteq> []" "cf_azure_cv_api_key s \<noteq> []" "submit file_bytes = Inr (Some url)" "url \<noteq> []"
  shows "azure_extract_text s submit answers file_bytes =
    (case find (\<lambda>k. poll_verdict (answers url k) \<noteq> None) [0..<30] of
       None \<Rightarrow> Inl ''Azure Computer Vision Read timed out''
     | Some k \<Rightarrow> the (poll_verdict (answers url k)))"
  using assms poll_read_first [of "answers url" 0 30] by (simp add: azure_extract_text_def truthy_def del: poll_read.simps)

section \<open>A verdict that is cut off\<close>

lemma closing_brace_missing:
  assumes "CHR 0x7D \<notin> set s"
  shows "ends False (Lit ''}'') s j = []"
proof -
  have "take 1 (drop j s) \<noteq> ''}''"
  proof
    assume "take 1 (drop j s) = ''}''"
    then have "CHR 0x7D \<in> set (take 1 (drop j s))" by simp
    then show False using assms by (blast dest: in_set_takeD in_set_dropD)
  qed
  then show ?thesis by (simp add: same_text_def)
qed

lemma no_braces:
  assumes "CHR 0x7D \<notin> set s"
  shows "braces s = None"
proof -
  have "parts_at False [Lit ''}''] s j = []" for j
    using closing_brace_missing [OF assms, of j] by (simp only: parts_at.simps list.map concat.simps)
  then have "parts_at False [Many 0 (Cls (\<lambda>c. True)), Lit ''}''] s j = []" for j
    by (subst parts_at.simps(2)) (simp del: parts_at.simps)
  then have "parts_at False [Lit ''{'', Many 0 (Cls (\<lambda>c. True)), Lit ''}''] s i = []" for i
    by (subst parts_at.simps(2)) (simp del: parts_at.simps)
  then have "concat (map (parts_at False [Lit ''{'', Many 0 (Cls (\<lambda>c. True)), Lit ''}''] s) xs) = []" for xs
    by (simp del: parts_at.simps)
  then show ?thesis by (simp only: braces_def search_parts_def list.case option.map)
qed

lemma py_lower_append: "py_lower (a @ b) = py_lower a @ py_lower b"
  by (simp add: py_lower_def)

text \<open>
  C38. The judge may answer 256 tokens. A verdict whose JSON is cut off before its closing brace is read as
  prose, and its key names the word safe: the verdict is safe whatever it said.
\<close>

theorem cut_off_verdict_is_safe:
  assumes "cf_openrouter_api_key s \<noteq> []" "cf_openrouter_content_safety_model s \<noteq> []"
    and "ask (build_content_safety_prompt prompt answer stage) = Inr data"
    and "extract_chat_content show data = Inr content" and "loads content = Inl err"
    and "content = ''{'' @ [CHR 0x22] @ ''safe'' @ [CHR 0x22] @ rest" and "CHR 0x7D \<notin> set content"
  shows "\<exists>d. openrouter_judge show loads s ask prompt answer stage = Inr d \<and> sd_safe d"
proof -
  have low: "py_lower content = (''{'' @ [CHR 0x22]) @ ''safe'' @ (CHR 0x22 # py_lower rest)"
    unfolding assms(6) by (simp add: py_lower_def) code_simp
  have "re_search False (whole_word ''safe'') (py_lower content)"
    by (rule whole_word_found [OF low]) (simp_all add: word_char_def alnum_def is_lower_def is_upper_def is_digit_def code_def)
  moreover have "openrouter_parse_json_object loads content = None"
    by (simp add: openrouter_parse_json_object_def assms(5) no_braces [OF assms(7)])
  ultimately show ?thesis
    using assms(1-4) by (simp add: openrouter_judge_def parse_content_safety_decision_def Let_def)
qed

section \<open>The table of providers\<close>

text \<open>No getter replaces a provider that is registered.\<close>

lemma table_kept:
  "R name = Some p \<Longrightarrow> snd (get_provider n R) name = Some p"
  "snd (asserted n a w) = snd w"
  "R name = Some p \<Longrightarrow> registered n q R name = Some p"
  by (auto simp: get_provider_def asserted_def registered_def split: option.splits sum.splits prod.splits)

lemma getters_keep_registered:
  assumes "R name = Some p"
  shows "snd (get_chat_provider n R) name = Some p" "snd (get_embedding_provider n R) name = Some p"
    "snd (get_reranking_provider R) name = Some p" "snd (get_stt_provider R) name = Some p" "snd (get_ocr_provider n R) name = Some p"
  using assms
  by (simp_all add: get_chat_provider_def get_embedding_provider_def get_reranking_provider_def get_stt_provider_def
      get_ocr_provider_def table_kept Let_def)

section \<open>Witnesses\<close>

definition configured_settings :: app_settings where
  "configured_settings = demo_settings\<lparr>cf_azure_cv_endpoint := ''https://v'', cf_azure_cv_api_key := ''k'',
     cf_openrouter_api_key := ''k'', cf_openrouter_content_safety_model := ''m''\<rparr>"

definition demo_poll :: "string \<Rightarrow> nat \<Rightarrow> string + json" where
  "demo_poll url k = Inr (JObj
     [(''status'', JText (if k = 0 then ''running'' else ''Succeeded'')),
      (''analyzeResult'', JObj [(''readResults'', JList [JObj [(''lines'', JList [JObj [(''text'', JText ''3 rooms'')]])]])])])"

lemma demo_poll_verdicts: "poll_verdict (demo_poll u 0) = None" "poll_verdict (demo_poll u 1) = Some (Inr ''3 rooms'')"
  unfolding demo_poll_def by code_simp+

theorem read_decided_by_first_settled_poll_witness:
  "azure_extract_text configured_settings (\<lambda>b. Inr (Some ''u'')) demo_poll ''x'' = Inr ''3 rooms''"
proof -
  have "[0..<30] = 0 # 1 # [2..<30 :: nat]" by code_simp
  then have "find (\<lambda>k. poll_verdict (demo_poll ''u'' k) \<noteq> None) [0..<30] = Some 1"
    by (simp only: find.simps demo_poll_verdicts) simp
  moreover have "cf_azure_cv_endpoint configured_settings \<noteq> []" "cf_azure_cv_api_key configured_settings \<noteq> []"
    by (simp_all add: configured_settings_def)
  ultimately show ?thesis
    using read_decided_by_first_settled_poll [of configured_settings "\<lambda>b. Inr (Some ''u'')" "''x''" "''u''" demo_poll]
    by (simp add: demo_poll_verdicts(2) [simplified])
qed

definition cut_off :: string where
  "cut_off = ''{'' @ [CHR 0x22] @ ''safe'' @ [CHR 0x22] @ '': false''"

theorem cut_off_verdict_is_safe_witness:
  "\<exists>d. openrouter_judge (\<lambda>j. []) (\<lambda>x. Inl ''Expecting , delimiter'') configured_settings
     (\<lambda>q. Inr (JObj [(''choices'', JList [JObj [(''message'', JObj [(''content'', JText cut_off)])]])])) ''q'' None ''input'' = Inr d \<and> sd_safe d"
proof (rule cut_off_verdict_is_safe)
  show "extract_chat_content (\<lambda>j. []) (JObj [(''choices'', JList [JObj [(''message'', JObj [(''content'', JText cut_off)])]])]) = Inr cut_off"
    unfolding cut_off_def by code_simp
qed (simp_all add: configured_settings_def cut_off_def)

end
