(* ===== verification/VaultSeed.thy ===== *)
theory VaultSeed
  imports AppConfig
begin

text \<open>
  \<open>vault/seed.py\<close>, which puts the secrets of the \<open>.env\<close> file into Vault before the application starts, and
  what the settings of \<open>common/config.py\<close> are after they are loaded from a Vault it has seeded.
\<close>

section \<open>Waiting for Vault\<close>

text \<open>
  \<open>clock k\<close> and \<open>answers k\<close> are the time and Vault's state at the \<open>k\<close>-th look; the first argument is the
  number of looks that are allowed here, and \<open>None\<close> says that they were not enough.
\<close>

definition is_up :: "string + bool \<times> bool \<Rightarrow> bool" where
  "is_up answer = (case answer of Inl _ \<Rightarrow> False | Inr (initialized, sealed) \<Rightarrow> initialized \<and> \<not> sealed)"

fun wait_for_vault :: "nat \<Rightarrow> (nat \<Rightarrow> timestamp) \<Rightarrow> timestamp \<Rightarrow> (nat \<Rightarrow> string + bool \<times> bool) \<Rightarrow> nat \<Rightarrow> (py_exc + unit) option" where
  "wait_for_vault 0 clock deadline answers k = None"
| "wait_for_vault (Suc n) clock deadline answers k =
     (if clock k < deadline
      then if is_up (answers k) then Some (Inr ()) else wait_for_vault n clock deadline answers (Suc k)
      else Some (Inl (RuntimeError ''Vault not healthy after 60s'')))"

lemma waiting_goes_on:
  assumes "\<And>j. clock j + seconds 2 \<le> clock (Suc j)"
  shows "clock k + seconds (2 * int n) \<le> clock (k + n)"
proof (induction n)
  case (Suc n)
  then show ?case using assms [of "k + n"] by (simp add: seconds_def)
qed (simp add: seconds_def)

lemma wait_ends:
  assumes "\<And>j. clock j + seconds 2 \<le> clock (Suc j)" "deadline \<le> clock (k + n)"
  shows "wait_for_vault (Suc n) clock deadline answers k \<noteq> None"
  using assms(2)
proof (induction n arbitrary: k)
  case (Suc n)
  from Suc.IH [of "Suc k"] Suc.prems show ?case by (subst wait_for_vault.simps(2)) (simp del: wait_for_vault.simps(2))
qed simp

text \<open>A look is followed by two seconds of sleep: thirty-one looks are enough for the minute.\<close>

lemma thirty_one_looks:
  assumes "\<And>j. clock j + seconds 2 \<le> clock (Suc j)"
  shows "wait_for_vault 31 clock (clock 0 + seconds 60) answers 0 \<noteq> None"
proof -
  have "clock 0 + seconds 60 \<le> clock (0 + 30)" using waiting_goes_on [of clock 0 30] assms by simp
  then have "wait_for_vault (Suc 30) clock (clock 0 + seconds 60) answers 0 \<noteq> None" using wait_ends assms by blast
  then show ?thesis by (simp del: wait_for_vault.simps)
qed

section \<open>The secrets\<close>

text \<open>A name of the file without a value is bound to \<open>None\<close> there.\<close>

type_synonym dotenv = "string \<rightharpoonup> string option"

definition stripped :: "string option \<Rightarrow> py_exc + string" where
  "stripped v = (case v of None \<Rightarrow> Inl (AttributeError ''strip'') | Some t \<Rightarrow> Inr (py_strip t))"

definition env_get :: "dotenv \<Rightarrow> string \<Rightarrow> string \<Rightarrow> string option" where
  "env_get env name dflt = (case env name of None \<Rightarrow> Some dflt | Some v \<Rightarrow> v)"

definition env_text :: "dotenv \<Rightarrow> string \<Rightarrow> string \<Rightarrow> py_exc + string" where
  "env_text env name dflt = stripped (env_get env name dflt)"

definition env_either :: "dotenv \<Rightarrow> string \<Rightarrow> string \<Rightarrow> py_exc + string" where
  "env_either env name other = stripped (if truthy (env_get env name []) then env_get env name [] else env_get env other [])"

definition env_or_generated :: "dotenv \<Rightarrow> string \<Rightarrow> string \<Rightarrow> string" where
  "env_or_generated env name generated = (if truthy (env_get env name []) then the (env_get env name []) else generated)"

fun secret_of :: "(string \<times> (py_exc + string)) list \<Rightarrow> py_exc + (string \<times> string) list" where
  "secret_of [] = Inr []"
| "secret_of ((key, v) # rest) = sbind v (\<lambda>t. sbind (secret_of rest) (\<lambda>ts. Inr ((key, t) # ts)))"

text \<open>The secrets in the order they are written; the two random texts are those of \<open>token_hex\<close>.\<close>

definition seed_plan :: "dotenv \<Rightarrow> string \<Rightarrow> string \<Rightarrow> (string \<times> (string \<times> (py_exc + string)) list) list" where
  "seed_plan env rnd1 rnd2 =
     [(''jwt'', [(''access_secret'', Inr (env_or_generated env ''JWT_ACCESS_SECRET'' rnd1)),
                 (''refresh_secret'', Inr (env_or_generated env ''JWT_REFRESH_SECRET'' rnd2))]),
      (''ai'', [(''hf_token'', env_text env ''HF_TOKEN'' [])]),
      (''azure'', [(''endpoint'', env_text env ''AZURE_OPENAI_ENDPOINT'' []),
                   (''api_key'', env_text env ''AZURE_OPENAI_API_KEY'' []),
                   (''chat_deployment'', env_text env ''AZURE_OPENAI_CHAT_DEPLOYMENT'' []),
                   (''embedding_deployment'', env_text env ''AZURE_OPENAI_EMBEDDING_DEPLOYMENT'' []),
                   (''whisper_deployment'', env_text env ''AZURE_WHISPER_DEPLOYMENT'' []),
                   (''embedding_model'', env_text env ''AZURE_OPENAI_EMBEDDING_MODEL'' [])]),
      (''openrouter'', [(''api_key'', env_text env ''OPENROUTER_API_KEY'' []),
                        (''base_url'', env_text env ''OPENROUTER_BASE_URL'' ''https://openrouter.ai/api/v1''),
                        (''rerank_model'', env_either env ''OPENROUTER_RERANK_MODEL'' ''OPENROUTER_RERANKER_MODEL''),
                        (''content_safety_model'', env_text env ''OPENROUTER_CONTENT_SAFETY_MODEL'' [])]),
      (''azure_cv'', [(''endpoint'', env_either env ''AZURE_CV_ENDPOINT'' ''AZURE_OCR_ENDPOINT''),
                      (''api_key'', env_either env ''AZURE_CV_API_KEY'' ''AZURE_OCR_API_KEY'')]),
      (''lead_model_service'', [(''service_url'', env_text env ''LEAD_MODEL_SERVICE_URL'' ''http://lead-model-service:8100''),
                                (''callback_token'', env_text env ''LEAD_MODEL_SERVICE_CALLBACK_TOKEN''
                                   ''dev-callback-token-do-not-use-in-production'')])]"

type_synonym secrets = "string \<rightharpoonup> (string \<rightharpoonup> string)"

text \<open>\<open>refuses path\<close>: what Vault answers to the write, where it is an error.\<close>

fun put_secrets ::
  "(string \<Rightarrow> py_exc option) \<Rightarrow> (string \<times> (string \<times> (py_exc + string)) list) list \<Rightarrow> secrets \<Rightarrow> (py_exc + unit) \<times> secrets" where
  "put_secrets refuses [] S = (Inr (), S)"
| "put_secrets refuses ((path, entries) # rest) S =
     (case secret_of entries of
        Inl e \<Rightarrow> (Inl e, S)
      | Inr data \<Rightarrow> (case refuses path of Some e \<Rightarrow> (Inl e, S) | None \<Rightarrow> put_secrets refuses rest (S(path \<mapsto> map_of data))))"

definition seed_vault :: "(string \<Rightarrow> py_exc option) \<Rightarrow> dotenv \<Rightarrow> string \<Rightarrow> string \<Rightarrow> secrets \<Rightarrow> (py_exc + unit) \<times> secrets" where
  "seed_vault refuses env rnd1 rnd2 S = put_secrets refuses (seed_plan env rnd1 rnd2) S"

section \<open>A start after the seeding\<close>

definition vault_with :: "secrets \<Rightarrow> string \<Rightarrow> vault" where
  "vault_with S dash = \<lparr>va_status = Inr (True, False),
     va_read = (\<lambda>path. case S path of None \<Rightarrow> InvalidPath | Some data \<Rightarrow> Secret data), va_dash = dash\<rparr>"

lemma put_secrets_Inr:
  assumes "put_secrets refuses plan S = (Inr u, S')" "distinct (map fst plan)" "(path, entries) \<in> set plan"
  shows "\<exists>data. secret_of entries = Inr data \<and> S' path = Some (map_of data)"
proof -
  have keeps: "put_secrets refuses plan S = (Inr u, S') \<Longrightarrow> p \<notin> fst ` set plan \<Longrightarrow> S' p = S p" for refuses plan S p
    by (induction refuses plan S rule: put_secrets.induct) (auto split: sum.splits option.splits)
  show ?thesis using assms
  proof (induction refuses plan S rule: put_secrets.induct)
    case (2 refuses p fs rest S)
    then obtain data where data: "secret_of fs = Inr data" "refuses p = None"
        "put_secrets refuses rest (S(p \<mapsto> map_of data)) = (Inr u, S')"
      by (auto split: sum.splits option.splits)
    show ?case
    proof (cases "(path, entries) \<in> set rest")
      case True
      then show ?thesis using 2(1) [OF data(1,2,3)] 2(3) by simp
    next
      case False
      then have "path = p" "entries = fs" using 2(4) by simp_all
      then show ?thesis using keeps [OF data(3), of p] data(1) 2(3) by auto
    qed
  qed simp
qed


text \<open>
  A second seeding without signing secrets in the file replaces those of the first, and with them every
  token signed before.
\<close>

lemma reseeding_replaces_secrets:
  assumes "seed_vault refuses env rnd1 rnd2 S = (Inr u, S')" "\<not> truthy (env_get env ''JWT_ACCESS_SECRET'' [])"
  shows "\<exists>data. S' ''jwt'' = Some data \<and> data ''access_secret'' = Some rnd1"
  using put_secrets_Inr [OF assms(1) [unfolded seed_vault_def], of "''jwt''"] assms(2)
  by (auto simp: seed_plan_def env_or_generated_def)

text \<open>A file that does not name the embedding model blanks the default of the settings.\<close>

lemma default_model_blanked:
  assumes "seed_vault refuses env rnd1 rnd2 S = (Inr u, S')" "env ''AZURE_OPENAI_EMBEDDING_MODEL'' = None"
    and "load_azure (vault_with S' dash) s = (Inr v, s')"
  shows "cf_azure_openai_embedding_model s' = []"
proof -
  obtain data where "S' ''azure'' = Some data" "data ''embedding_model'' = Some []"
    using put_secrets_Inr [OF assms(1) [unfolded seed_vault_def], of "''azure''"] assms(2)
    by (auto simp: seed_plan_def sbind_Inr_iff env_text_def env_get_def stripped_def)
  then show ?thesis using assms(3) by (auto simp: load_azure_def load_optional_def vault_with_def text_or_def)
qed

section \<open>A concrete start\<close>


end
