(* ===== verification/HttpApp.thy ===== *)
theory HttpApp
  imports AppConfig Guardrails
begin

text \<open>
  The edge of the HTTP application: the answer to an invalid request (\<open>main.py\<close>), the health routes
  (\<open>common/health.py\<close>) and the start of the process (\<open>common/lifespan.py\<close>). The answers to the
  application's own exceptions are in \<open>Common\<close>.
\<close>

section \<open>Invalid requests\<close>

text \<open>An error of pydantic; its location is given by the texts of its parts.\<close>

datatype ctx_value = Plain json | Raised string | Described string string

record validation_error =
  ve_type :: "string option"
  ve_loc :: "string list"
  ve_msg :: "string option"
  ve_ctx :: "(string \<times> ctx_value) list option"

definition error_summary :: "validation_error \<Rightarrow> string" where
  "error_summary err =
     (let loc = filter (\<lambda>p. p \<notin> {''body'', ''query'', ''path''}) (ve_loc err);
          field = (if loc \<noteq> [] then join_with ''.'' loc else ''field'');
          msg = py_strip (if truthy (ve_msg err) then the (ve_msg err) else ''is invalid'')
      in if field \<noteq> [] then field @ '': '' @ msg else msg)"

definition summarize_validation_errors :: "validation_error list \<Rightarrow> string" where
  "summarize_validation_errors errors =
     (if errors = [] then ''Request payload is invalid.''
      else join_with ''; '' (map error_summary (take 3 errors) @
             (if length errors > 3 then [''(+'' @ nat_text (length errors - 3) @ '' more)''] else [])))"

definition sanitize_value :: "validation_error \<Rightarrow> ctx_value \<Rightarrow> ctx_value" where
  "sanitize_value err v =
     (case v of Raised e \<Rightarrow> Described (case ve_type err of None \<Rightarrow> ''value_error'' | Some t \<Rightarrow> t) e | _ \<Rightarrow> v)"

definition sanitize_validation_errors :: "validation_error list \<Rightarrow> validation_error list" where
  "sanitize_validation_errors errors =
     map (\<lambda>err. err\<lparr>ve_ctx := map_option (map (\<lambda>(k, v). (k, sanitize_value err v))) (ve_ctx err)\<rparr>) errors"

record invalid_answer =
  ia_status :: int
  ia_detail :: string
  ia_error_code :: string
  ia_errors :: "validation_error list"

definition request_validation_exception_handler :: "validation_error list \<Rightarrow> invalid_answer" where
  "request_validation_exception_handler raw =
     (let errors = sanitize_validation_errors raw
      in \<lparr>ia_status = 422, ia_detail = summarize_validation_errors errors, ia_error_code = ''VALIDATION_ERROR'',
          ia_errors = errors\<rparr>)"

section \<open>Health\<close>

text \<open>A check answers true or false, or raises. The time it took and the time of the answer are left out.\<close>

record check_result =
  ck_status :: string
  ck_message :: "string option"

definition timed_check :: "string \<Rightarrow> py_exc + bool \<Rightarrow> check_result" where
  "timed_check name answer =
     (let status = (case answer of Inr True \<Rightarrow> ''passed'' | _ \<Rightarrow> ''failed'')
      in \<lparr>ck_status = status, ck_message = (if status = ''passed'' then None else Some (name @ '' check failed''))\<rparr>)"

record probes =
  pr_vault :: "py_exc + bool"
  pr_database :: "py_exc + bool"
  pr_pgvector :: "py_exc + bool"
  pr_redis :: "py_exc + bool"
  pr_minio :: "py_exc + bool"
  pr_bucket :: "string \<Rightarrow> py_exc + bool"

text \<open>The three checks of the object store are connected by \<open>and\<close>: a later one runs when the former hold.\<close>

definition and_then :: "py_exc + bool \<Rightarrow> py_exc + bool \<Rightarrow> py_exc + bool" where
  "and_then a b = sbind a (\<lambda>x. if x then b else Inr False)"

record health_answer =
  ha_code :: int
  ha_status :: string
  ha_checks :: "(string \<times> check_result) list"

definition all_passed :: "(string \<times> check_result) list \<Rightarrow> bool" where
  "all_passed checks \<longleftrightarrow> list_all (\<lambda>(_, c). ck_status c = ''passed'') checks"

definition ready :: "string \<Rightarrow> string \<Rightarrow> probes \<Rightarrow> health_answer" where
  "ready rag_bucket media_bucket P =
     (let checks = map (\<lambda>(name, answer). (name, timed_check name answer))
            [(''vault'', pr_vault P), (''postgres_via_proxy'', pr_database P), (''pgvector_enabled'', pr_pgvector P),
             (''redis'', pr_redis P),
             (''object_storage'', and_then (and_then (pr_minio P) (pr_bucket P rag_bucket)) (pr_bucket P media_bucket))]
      in \<lparr>ha_code = (if all_passed checks then 200 else 503),
          ha_status = (if all_passed checks then ''ready'' else ''not_ready''), ha_checks = checks\<rparr>)"

definition health_dependencies :: "probes \<Rightarrow> health_answer" where
  "health_dependencies P =
     (let checks = map (\<lambda>(name, answer). (name, timed_check name answer))
            [(''vault'', pr_vault P), (''postgres'', pr_database P), (''pgvector'', pr_pgvector P),
             (''redis'', pr_redis P), (''minio'', pr_minio P)]
      in \<lparr>ha_code = 200, ha_status = (if all_passed checks then ''ok'' else ''degraded''), ha_checks = checks\<rparr>)"

section \<open>Start of the process\<close>

text \<open>
  The module's flag and the settings; Redis is connected to when it can be. What is logged is left out.
\<close>

definition lifespan_start :: "string \<Rightarrow> vault \<Rightarrow> bool \<times> app_settings \<Rightarrow> (py_exc + unit) \<times> bool \<times> app_settings" where
  "lifespan_start vault_addr v w =
     (if fst w then (Inr (), w)
      else (case configure_secrets vault_addr v (snd w) of
              (Inl e, s) \<Rightarrow> (Inl e, False, s)
            | (Inr _, s) \<Rightarrow> (Inr (), True, s)))"

section \<open>Properties\<close>

lemma sanitize_value_plain: "sanitize_value err v \<noteq> Raised e"
  by (cases v) (simp_all add: sanitize_value_def)

lemma sanitized_errors_carry_no_exception:
  assumes "err \<in> set (ia_errors (request_validation_exception_handler raw))" "ve_ctx err = Some c" "(k, v) \<in> set c"
  shows "v \<noteq> Raised e"
  using assms by (auto simp: request_validation_exception_handler_def sanitize_validation_errors_def Let_def sanitize_value_plain dest!: sanitize_value_plain [THEN notE, OF sym])

lemma passed_iff [simp]: "ck_status (timed_check name answer) = ''passed'' \<longleftrightarrow> answer = Inr True"
  by (cases answer) (auto simp: timed_check_def Let_def split: bool.splits)

lemma and_then_True: "and_then a b = Inr True \<longleftrightarrow> a = Inr True \<and> b = Inr True"
  by (auto simp: and_then_def sbind_Inr_iff)

text \<open>
  The application reports itself ready when it could serve: exactly when Vault, the database with its vector
  extension, Redis, the object store and both buckets all answer.
\<close>

lemma ready_iff:
  "ha_code (ready rag media P) = 200 \<longleftrightarrow>
     list_all (\<lambda>answer. answer = Inr True)
       [pr_vault P, pr_database P, pr_pgvector P, pr_redis P, pr_minio P, pr_bucket P rag, pr_bucket P media]"
  by (simp add: ready_def all_passed_def and_then_True Let_def)

text \<open>A process that has started has its secrets: a second start loads nothing, and a failed one can be tried again.\<close>

lemma started_again: "lifespan_start addr v w = (Inr (), w') \<Longrightarrow> lifespan_start addr' v' w' = (Inr (), w')"
  by (auto simp: lifespan_start_def split: if_splits prod.splits sum.splits)

end
