(* ===== verification/SeedDemo.thy ===== *)
theory SeedDemo
  imports Dashboard Rls Demo
begin

text \<open>
  \<open>scripts/seed_demo.py\<close>: cities, listings, demand logs and audit logs for a demonstration, each added when
  it is not found. The settings of row level security are local to a transaction, and every part of the
  script ends with a commit.
\<close>

section \<open>The data\<close>

record listing_seed =
  ls_title :: string
  ls_description :: string
  ls_property_type :: string
  ls_listing_purpose :: string
  ls_price :: rat
  ls_currency :: string
  ls_bedrooms :: int
  ls_bathrooms :: int
  ls_area_size :: rat
  ls_area_unit :: string
  ls_furnishing :: string
  ls_city :: string
  ls_country :: string
  ls_address :: string
  ls_location_text :: string
  ls_status :: string

record search_seed =
  ss_query :: string
  ss_filters :: json
  ss_source_mode :: string
  ss_event_type :: string
  ss_result_count :: int
  ss_days_ago :: int

record audit_seed =
  as_request_id :: string
  as_action :: string
  as_resource_type :: string
  as_result :: string
  as_event_metadata :: json

definition LEBANESE_CITIES :: "(string \<times> string) list" where
  "LEBANESE_CITIES = [(''Beirut'', ''Lebanon''), (''Jounieh'', ''Lebanon''), (''Tripoli'', ''Lebanon''), (''Sidon'', ''Lebanon''), (''Tyre'', ''Lebanon''), (''Zahle'', ''Lebanon''), (''Byblos'', ''Lebanon''), (''Aley'', ''Lebanon'')]"

text \<open>A title contains a dash outside Latin-1, which is a parameter.\<close>

definition DEMO_LISTINGS :: "string \<Rightarrow> listing_seed list" where
  "DEMO_LISTINGS dash =
    [\<lparr>ls_title = ''Modern 2BR Apartment in Hamra'', ls_description = ''Bright and spacious apartment near AUB with sea views. Recently renovated.'', ls_property_type = ''apartment'', ls_listing_purpose = ''rent'', 
       ls_price = 1200, ls_currency = ''USD'', ls_bedrooms = 2, ls_bathrooms = 1, ls_area_size = 110, ls_area_unit = ''sqm'', ls_furnishing = ''furnished'', 
       ls_city = ''Beirut'', ls_country = ''Lebanon'', ls_address = ''Hamra Street, Beirut'', ls_location_text = ''Hamra, Beirut'', ls_status = ''active''\<rparr>,
     \<lparr>ls_title = ''Cozy Studio in Gemmayzeh'', ls_description = ''Charming studio in the heart of Gemmayzeh, walking distance to restaurants and bars.'', ls_property_type = ''apartment'', ls_listing_purpose = ''rent'', 
       ls_price = 700, ls_currency = ''USD'', ls_bedrooms = 1, ls_bathrooms = 1, ls_area_size = 55, ls_area_unit = ''sqm'', ls_furnishing = ''furnished'', 
       ls_city = ''Beirut'', ls_country = ''Lebanon'', ls_address = ''Gemmayzeh, Beirut'', ls_location_text = ''Gemmayzeh, Beirut'', ls_status = ''active''\<rparr>,
     \<lparr>ls_title = ''Spacious 3BR Villa in Jounieh'', ls_description = ''Stunning villa with private garden and sea view terrace. 5 minutes from Jounieh Bay.'', ls_property_type = ''villa'', ls_listing_purpose = ''sale'', 
       ls_price = 450000, ls_currency = ''USD'', ls_bedrooms = 3, ls_bathrooms = 2, ls_area_size = 230, ls_area_unit = ''sqm'', ls_furnishing = ''semi_furnished'', 
       ls_city = ''Jounieh'', ls_country = ''Lebanon'', ls_address = ''Jounieh Highway, Jounieh'', ls_location_text = ''Jounieh Bay Area'', ls_status = ''active''\<rparr>,
     \<lparr>ls_title = (''2BR Apartment for Rent '' @ dash @ '' Jounieh Centre''), ls_description = ''Well-maintained apartment in central Jounieh, close to supermarkets and schools.'', ls_property_type = ''apartment'', ls_listing_purpose = ''rent'', 
       ls_price = 900, ls_currency = ''USD'', ls_bedrooms = 2, ls_bathrooms = 1, ls_area_size = 100, ls_area_unit = ''sqm'', ls_furnishing = ''unfurnished'', 
       ls_city = ''Jounieh'', ls_country = ''Lebanon'', ls_address = ''Centre Ville, Jounieh'', ls_location_text = ''Jounieh Centre'', ls_status = ''active''\<rparr>,
     \<lparr>ls_title = ''Commercial Space in Tripoli Souks'', ls_description = ''Prime retail unit in the historic souks of Tripoli. High foot traffic.'', ls_property_type = ''commercial'', ls_listing_purpose = ''rent'', 
       ls_price = 1500, ls_currency = ''USD'', ls_bedrooms = 0, ls_bathrooms = 1, ls_area_size = 80, ls_area_unit = ''sqm'', ls_furnishing = ''unfurnished'', 
       ls_city = ''Tripoli'', ls_country = ''Lebanon'', ls_address = ''Khan El Askar, Tripoli'', ls_location_text = ''Tripoli Souks'', ls_status = ''active''\<rparr>,
     \<lparr>ls_title = ''Family House in Sidon'', ls_description = ''Detached house with large garden, ideal for families. Near Sidon Old City.'', ls_property_type = ''house'', ls_listing_purpose = ''sale'', 
       ls_price = 180000, ls_currency = ''USD'', ls_bedrooms = 4, ls_bathrooms = 2, ls_area_size = 280, ls_area_unit = ''sqm'', ls_furnishing = ''unfurnished'', 
       ls_city = ''Sidon'', ls_country = ''Lebanon'', ls_address = ''Abra, Sidon'', ls_location_text = ''Sidon'', ls_status = ''active''\<rparr>,
     \<lparr>ls_title = ''Mountain Apartment in Aley'', ls_description = ''Cool mountain retreat with panoramic views of Beirut and the sea. Perfect summer residence.'', ls_property_type = ''apartment'', ls_listing_purpose = ''rent'', 
       ls_price = 850, ls_currency = ''USD'', ls_bedrooms = 2, ls_bathrooms = 1, ls_area_size = 120, ls_area_unit = ''sqm'', ls_furnishing = ''furnished'', 
       ls_city = ''Aley'', ls_country = ''Lebanon'', ls_address = ''Main Road, Aley'', ls_location_text = ''Aley, Mount Lebanon'', ls_status = ''active''\<rparr>,
     \<lparr>ls_title = ''Land Plot for Sale in Byblos'', ls_description = ''Residential land plot with building permit. 5 minutes from Byblos Marina.'', ls_property_type = ''land'', ls_listing_purpose = ''sale'', 
       ls_price = 320000, ls_currency = ''USD'', ls_bedrooms = 0, ls_bathrooms = 0, ls_area_size = 600, ls_area_unit = ''sqm'', ls_furnishing = ''unfurnished'', 
       ls_city = ''Byblos'', ls_country = ''Lebanon'', ls_address = ''Jbeil Coastal Road, Byblos'', ls_location_text = ''Byblos Marina Area'', ls_status = ''active''\<rparr>]"

definition DEMO_TAG :: string where
  "DEMO_TAG = ''demo-seed-v1''"

definition DEMO_SEARCH_LOGS :: "search_seed list" where
  "DEMO_SEARCH_LOGS =
    [\<lparr>ss_query = ''2 bedroom apartment in Beirut under 1500'',
       ss_filters = JObj [(''city'', JList [JText ''Beirut'']), (''property_type'', JText ''apartment''), (''listing_purpose'', JText ''rent''), (''max_price'', JInt 1500)],
       ss_source_mode = ''manual'', ss_event_type = ''manual_search'', ss_result_count = 6, ss_days_ago = 1\<rparr>,
     \<lparr>ss_query = ''furnished studio in Beirut'',
       ss_filters = JObj [(''city'', JList [JText ''Beirut'']), (''property_type'', JText ''apartment''), (''listing_purpose'', JText ''rent''), (''max_price'', JInt 900)],
       ss_source_mode = ''ai_text'', ss_event_type = ''ai_text_search'', ss_result_count = 4, ss_days_ago = 2\<rparr>,
     \<lparr>ss_query = ''villa for sale in Jounieh'',
       ss_filters = JObj [(''city'', JList [JText ''Jounieh'']), (''property_type'', JText ''villa''), (''listing_purpose'', JText ''sale''), (''min_price'', JInt 250000), (''max_price'', JInt 600000)],
       ss_source_mode = ''manual'', ss_event_type = ''manual_search'', ss_result_count = 3, ss_days_ago = 3\<rparr>,
     \<lparr>ss_query = ''family house in Sidon'',
       ss_filters = JObj [(''city'', JList [JText ''Sidon'']), (''property_type'', JText ''house''), (''listing_purpose'', JText ''sale''), (''max_price'', JInt 250000)],
       ss_source_mode = ''voice'', ss_event_type = ''voice_search'', ss_result_count = 2, ss_days_ago = 5\<rparr>,
     \<lparr>ss_query = ''apartment in Aley for rent'',
       ss_filters = JObj [(''city'', JList [JText ''Aley'']), (''property_type'', JText ''apartment''), (''listing_purpose'', JText ''rent''), (''max_price'', JInt 1000)],
       ss_source_mode = ''manual'', ss_event_type = ''manual_search'', ss_result_count = 3, ss_days_ago = 6\<rparr>,
     \<lparr>ss_query = ''land in Byblos'',
       ss_filters = JObj [(''city'', JList [JText ''Byblos'']), (''property_type'', JText ''land''), (''listing_purpose'', JText ''sale''), (''min_price'', JInt 200000), (''max_price'', JInt 400000)],
       ss_source_mode = ''ai_text'', ss_event_type = ''ai_text_search'', ss_result_count = 2, ss_days_ago = 8\<rparr>,
     \<lparr>ss_query = ''cheap apartment in Tripoli'',
       ss_filters = JObj [(''city'', JList [JText ''Tripoli'']), (''property_type'', JText ''apartment''), (''listing_purpose'', JText ''rent''), (''max_price'', JInt 800)],
       ss_source_mode = ''manual'', ss_event_type = ''manual_search'', ss_result_count = 5, ss_days_ago = 10\<rparr>,
     \<lparr>ss_query = ''beirut rent apartment'',
       ss_filters = JObj [(''city'', JList [JText ''Beirut'']), (''property_type'', JText ''apartment''), (''listing_purpose'', JText ''rent''), (''max_price'', JInt 2000)],
       ss_source_mode = ''voice'', ss_event_type = ''voice_search'', ss_result_count = 7, ss_days_ago = 11\<rparr>,
     \<lparr>ss_query = ''jounieh apartment rent'',
       ss_filters = JObj [(''city'', JList [JText ''Jounieh'']), (''property_type'', JText ''apartment''), (''listing_purpose'', JText ''rent''), (''max_price'', JInt 1200)],
       ss_source_mode = ''manual'', ss_event_type = ''manual_search'', ss_result_count = 4, ss_days_ago = 12\<rparr>,
     \<lparr>ss_query = ''office or shop in Tripoli'',
       ss_filters = JObj [(''city'', JList [JText ''Tripoli'']), (''property_type'', JText ''shop''), (''listing_purpose'', JText ''rent''), (''max_price'', JInt 2000)],
       ss_source_mode = ''ai_text'', ss_event_type = ''ai_text_search'', ss_result_count = 1, ss_days_ago = 14\<rparr>]"

definition DEMO_AUDIT_LOGS :: "audit_seed list" where
  "DEMO_AUDIT_LOGS =
    [\<lparr>as_request_id = DEMO_TAG @ ''-audit-1'', as_action = ''platform_dashboard.insights.read'',
       as_resource_type = ''platform_dashboard'', as_result = ''success'',
       as_event_metadata = JObj [(''feature_area'', JText ''platform_dashboard''), (''actor_role'', JText ''platform_admin''), (''demo_seed'', JBool True)]\<rparr>,
     \<lparr>as_request_id = DEMO_TAG @ ''-audit-2'', as_action = ''platform_dashboard.roles.read'',
       as_resource_type = ''platform_dashboard'', as_result = ''success'',
       as_event_metadata = JObj [(''feature_area'', JText ''platform_dashboard''), (''actor_role'', JText ''platform_admin''), (''demo_seed'', JBool True)]\<rparr>,
     \<lparr>as_request_id = DEMO_TAG @ ''-audit-3'', as_action = ''agency_ai.spec_extraction.completed'',
       as_resource_type = ''agency_ai'', as_result = ''success'',
       as_event_metadata = JObj [(''feature_area'', JText ''ai_assistant''), (''actor_role'', JText ''agency_admin''), (''demo_seed'', JBool True)]\<rparr>,
     \<lparr>as_request_id = DEMO_TAG @ ''-audit-4'', as_action = ''lead.processing.level.completed'',
       as_resource_type = ''lead'', as_result = ''success'',
       as_event_metadata = JObj [(''feature_area'', JText ''lead''), (''actor_role'', JText ''agency_admin''), (''demo_seed'', JBool True)]\<rparr>]"

section \<open>Adding what is not found\<close>

text \<open>
  The loop of every part: \<open>found\<close> are the rows that the query of an entry sees, \<open>add\<close> the state with its
  row. The number of entries added is counted, and fresh identifiers are drawn in order.
\<close>

fun seed_missing :: "('s \<Rightarrow> 'e \<Rightarrow> 'r list) \<Rightarrow> (nat \<Rightarrow> 'e \<Rightarrow> 's \<Rightarrow> 's) \<Rightarrow> 'e list \<Rightarrow> nat \<times> 's \<Rightarrow> py_exc + nat \<times> 's" where
  "seed_missing found add [] w = Inr w"
| "seed_missing found add (e # es) (n, s) =
     sbind (scalar_one_or_none MultipleResultsFound (found s e)) (\<lambda>existing.
       if existing \<noteq> None then seed_missing found add es (n, s)
       else seed_missing found add es (Suc n, add n e s))"

record seed_state =
  sd_settings :: settings
  sd_cities :: "City list"
  sd_db :: db

definition after_commit :: "seed_state \<Rightarrow> seed_state" where
  "after_commit s = s\<lparr>sd_settings := \<lambda>_. None\<rparr>"

definition visible :: "seed_state \<Rightarrow> db" where
  "visible s = rls_view (sd_settings s) (sd_db s)"

definition seed_cities :: "(nat \<Rightarrow> uuid) \<Rightarrow> seed_state \<Rightarrow> py_exc + nat \<times> seed_state" where
  "seed_cities new_id s =
     sbind (seed_missing (\<lambda>s (name, country). filter (\<lambda>c. ci_name c = name) (sd_cities s))
              (\<lambda>n (name, country) s. s\<lparr>sd_cities := sd_cities s @
                 [\<lparr>ci_id = new_id n, ci_name = name, ci_country = country, ci_is_active = True\<rparr>]\<rparr>)
              LEBANESE_CITIES (0, s)) (\<lambda>(n, s'). Inr (n, after_commit s'))"

definition get_demo_agency_tenant_id :: "seed_state \<Rightarrow> uuid option" where
  "get_demo_agency_tenant_id s = map_option at_id (find (\<lambda>t. at_status t = ''active'') (agency_tenants (visible s)))"

definition get_any_user_id :: "seed_state \<Rightarrow> uuid option" where
  "get_any_user_id s = map_option u_id (find (\<lambda>u. u_status u = ''active'') (users (visible s)))"

definition seeded_listing :: "uuid \<Rightarrow> timestamp \<Rightarrow> uuid \<Rightarrow> uuid \<Rightarrow> listing_seed \<Rightarrow> Listing" where
  "seeded_listing i now tenant user d =
     \<lparr>l_id = i, l_agency_tenant_id = tenant, l_title = ls_title d, l_description = Some (ls_description d),
      l_property_type = Some (ls_property_type d), l_listing_purpose = Some (ls_listing_purpose d),
      l_price = Some (ls_price d), l_currency = Some (ls_currency d), l_bedrooms = Some (ls_bedrooms d),
      l_bathrooms = Some (ls_bathrooms d), l_parking = None, l_floor = None, l_area_size = Some (ls_area_size d),
      l_area_unit = Some (ls_area_unit d), l_furnishing = Some (ls_furnishing d),
      l_location_text = Some (ls_location_text d), l_address = Some (ls_address d), l_city = Some (ls_city d),
      l_country = Some (ls_country d), l_status = ls_status d, l_created_by_user_id = Some user,
      l_updated_by_user_id = None, l_created_at = now, l_updated_at = now, l_archived_at = None\<rparr>"

text \<open>The entries that the first phase selects, with a query each and without a write.\<close>

fun not_found :: "(listing_seed \<Rightarrow> Listing list) \<Rightarrow> listing_seed list \<Rightarrow> py_exc + listing_seed list" where
  "not_found found [] = Inr []"
| "not_found found (d # ds) =
     sbind (scalar_one_or_none MultipleResultsFound (found d)) (\<lambda>existing.
     sbind (not_found found ds) (\<lambda>rest. Inr (if existing \<noteq> None then rest else d # rest)))"

definition seed_listings ::
  "string \<Rightarrow> (nat \<Rightarrow> uuid) \<Rightarrow> timestamp \<Rightarrow> uuid \<Rightarrow> uuid \<Rightarrow> seed_state \<Rightarrow> py_exc + nat \<times> seed_state" where
  "seed_listings dash new_id now tenant user s =
     sbind (not_found (\<lambda>d. filter (\<lambda>l. l_agency_tenant_id l = tenant \<and> l_title l = ls_title d) (listings (visible s)))
              (DEMO_LISTINGS dash)) (\<lambda>to_insert.
       if to_insert = [] then Inr (0, s)
       else Inr (length to_insert, after_commit (s\<lparr>sd_db := (sd_db s)\<lparr>listings := listings (sd_db s) @
              map (\<lambda>(n, d). seeded_listing (new_id n) now tenant user d) (List.enumerate 0 to_insert)\<rparr>\<rparr>)))"

definition seeded_search :: "uuid \<Rightarrow> timestamp \<Rightarrow> uuid \<Rightarrow> uuid \<Rightarrow> search_seed \<Rightarrow> SearchLog" where
  "seeded_search i now tenant user e =
     \<lparr>sg_id = i, sg_user_id = Some user, sg_agency_tenant_id = Some tenant, sg_source_mode = ss_source_mode e,
      sg_event_type = ss_event_type e, sg_raw_query_redacted = Some (DEMO_TAG @ '':'' @ ss_query e),
      sg_transcript_redacted = None, sg_intent = None, sg_filters = Some (ss_filters e), sg_sort = None,
      sg_result_count = ss_result_count e, sg_provider = Some ''demo_seed'', sg_fallback_reason = None,
      sg_created_at = now div seconds 1 * seconds 1 - seconds (86400 * ss_days_ago e)\<rparr>"

definition seed_search_logs ::
  "(nat \<Rightarrow> uuid) \<Rightarrow> timestamp \<Rightarrow> uuid \<Rightarrow> uuid \<Rightarrow> seed_state \<Rightarrow> py_exc + nat \<times> seed_state" where
  "seed_search_logs new_id now tenant user s =
     sbind (seed_missing
              (\<lambda>s e. filter (\<lambda>r. sg_raw_query_redacted r = Some (DEMO_TAG @ '':'' @ ss_query e)) (search_logs (visible s)))
              (\<lambda>n e s. s\<lparr>sd_db := (sd_db s)\<lparr>search_logs := search_logs (sd_db s) @
                 [seeded_search (new_id n) now tenant user e]\<rparr>\<rparr>)
              DEMO_SEARCH_LOGS (0, s)) (\<lambda>(n, s'). Inr (n, after_commit s'))"

definition seeded_audit :: "uuid \<Rightarrow> timestamp \<Rightarrow> uuid \<Rightarrow> nat \<Rightarrow> audit_seed \<Rightarrow> AuditLog" where
  "seeded_audit i now user index e =
     \<lparr>al_id = i, al_request_id = Some (as_request_id e), al_actor_user_id = Some user, al_tenant_id = None,
      al_action = as_action e, al_resource_type = Some (as_resource_type e), al_resource_id = None,
      al_result = Some (as_result e), al_event_metadata = Some (as_event_metadata e), al_ip_address = None,
      al_user_agent = None, al_created_at = now - seconds (3600 * int index)\<rparr>"

definition seed_audit_logs :: "(nat \<Rightarrow> uuid) \<Rightarrow> timestamp \<Rightarrow> uuid \<Rightarrow> seed_state \<Rightarrow> py_exc + nat \<times> seed_state" where
  "seed_audit_logs new_id now user s =
     sbind (seed_missing
              (\<lambda>s (index, e). filter (\<lambda>r. al_request_id r = Some (as_request_id e)) (audit_logs (visible s)))
              (\<lambda>n (index, e) s. s\<lparr>sd_db := (sd_db s)\<lparr>audit_logs := audit_logs (sd_db s) @
                 [seeded_audit (new_id n) now user index e]\<rparr>\<rparr>)
              (List.enumerate 1 DEMO_AUDIT_LOGS) (0, s)) (\<lambda>(n, s'). Inr (n, after_commit s'))"

section \<open>The script\<close>

record seed_report =
  sr_cities :: nat
  sr_listings :: nat
  sr_searches :: nat
  sr_audits :: nat

text \<open>\<open>None\<close>: there was no active tenant or user, and only the cities were seeded.\<close>

definition seed_demo ::
  "string \<Rightarrow> ctx_env \<Rightarrow> City list \<times> db \<Rightarrow> py_exc + seed_report option \<times> City list \<times> db" where
  "seed_demo dash E w =
     (let ids = (\<lambda>part n. fresh E (4 * n + part));
          s0 = \<lparr>sd_settings = apply_rls_context_to_session None None (Some ''platform_admin'') True (\<lambda>_. None),
                sd_cities = fst w, sd_db = snd w\<rparr>
      in sbind (seed_cities (ids 0) s0) (\<lambda>(cities, s1).
         case (get_demo_agency_tenant_id s1, get_any_user_id s1) of
           (Some tenant, Some user) \<Rightarrow>
             sbind (seed_listings dash (ids 1) (now_at E) tenant user s1) (\<lambda>(ls, s2).
             sbind (seed_search_logs (ids 2) (now_at E) tenant user s2) (\<lambda>(searches, s3).
             sbind (seed_audit_logs (ids 3) (now_at E) user s3) (\<lambda>(audits, s4).
               Inr (Some \<lparr>sr_cities = cities, sr_listings = ls, sr_searches = searches, sr_audits = audits\<rparr>,
                    sd_cities s4, sd_db s4))))
         | _ \<Rightarrow> Inr (None, sd_cities s1, sd_db s1)))"

section \<open>What a second run does\<close>

lemma visible_tables [simp]:
  "users (visible s) = users (sd_db s)" "agency_tenants (visible s) = agency_tenants (sd_db s)"
  "search_logs (visible s) = filter (p_select (log_policy (sd_settings s) sg_agency_tenant_id sg_user_id)) (search_logs (sd_db s))"
  "audit_logs (visible s) = filter (p_select (log_policy (sd_settings s) al_tenant_id al_actor_user_id)) (audit_logs (sd_db s))"
  "listings (visible s) = filter (p_select (listing_policy (sd_settings s))) (listings (sd_db s))"
  by (simp_all add: visible_def rls_view_def)

lemma nothing_set [simp]: "\<not> rls_tenant_check (\<lambda>_. None) t" "\<not> rls_user_check (\<lambda>_. None) u"
  by (simp_all add: rls_tenant_check_def rls_user_check_def platform_setting_def setting_matches_def)

text \<open>Entries that no query finds are all added, those that are all found change nothing.\<close>

lemma seed_missing_blind:
  assumes "\<And>s e. P s \<Longrightarrow> found s e = []" "\<And>n e s. P s \<Longrightarrow> P (add n e s) \<and> m (add n e s) = Suc (m s) \<and> same (add n e s) = same s"
  shows "P s \<Longrightarrow> \<exists>s'. seed_missing found add es (n, s) = Inr (n + length es, s') \<and> m s' = m s + length es \<and> same s' = same s \<and> P s'"
proof (induction es arbitrary: n s)
  case (Cons e es)
  from Cons.IH [of "add n e s" "Suc n"] assms Cons.prems show ?case by (auto simp: scalar_one_or_none_def)
qed simp

text \<open>
  When adding an entry makes its own query find one row more and leaves the other queries alone, a run that
  succeeds leaves every entry found exactly once; and a run that starts there adds nothing.
\<close>

lemma seed_missing_once:
  assumes own: "\<And>n e s. length (found (add n e s) e) = Suc (length (found s e))"
    and other: "\<And>n e e' s. key e \<noteq> key e' \<Longrightarrow> found (add n e s) e' = found s e'"
  shows "seed_missing found add es (n, s) = Inr (k, s') \<Longrightarrow> distinct (map key es) \<Longrightarrow>
    (\<forall>e \<in> set es. length (found s' e) = 1) \<and> (\<forall>e. key e \<notin> key ` set es \<longrightarrow> found s' e = found s e)"
proof (induction es arbitrary: n s)
  case (Cons e es)
  from Cons.prems(1) obtain x where x: "scalar_one_or_none MultipleResultsFound (found s e) = Inr x"
      and run: "(if x \<noteq> None then seed_missing found add es (n, s) else seed_missing found add es (Suc n, add n e s)) = Inr (k, s')"
    by (auto simp: sbind_Inr_iff)
  have new: "key e \<notin> key ` set es" "distinct (map key es)" using Cons.prems(2) by auto
  show ?case
  proof (cases "x = None")
    case True
    then have "found s e = []" using x by (auto simp: scalar_one_or_none_None)
    then show ?thesis
      using Cons.IH [of "Suc n" "add n e s"] run True new own [of n e s] other [of e _ n s] by (auto simp: image_iff)
  next
    case False
    then have "length (found s e) = 1" using x by (auto simp: scalar_one_or_none_def split: list.splits)
    then show ?thesis using Cons.IH [of n s] run False new by auto
  qed
qed simp

lemma found_once: "length rows = 1 \<Longrightarrow> \<exists>r. scalar_one_or_none E rows = Inr (Some r)"
  by (auto simp: scalar_one_or_none_def length_Suc_conv)

lemma seed_missing_idle:
  "\<forall>e \<in> set es. length (found s e) = 1 \<Longrightarrow> seed_missing found add es (n, s) = Inr (n, s)"
proof (induction es)
  case (Cons e es)
  then show ?case using found_once [of "found s e" MultipleResultsFound] by auto
qed simp

lemma seed_missing_same:
  assumes "\<And>n e s. same (add n e s) = same s"
  shows "seed_missing found add es (n, s) = Inr (k, s') \<Longrightarrow> same s' = same s"
  by (induction es arbitrary: n s) (auto simp: sbind_Inr_iff assms split: if_splits)

lemma not_found_rest:
  "not_found found ds = Inr rest \<Longrightarrow> rest = filter (\<lambda>d. found d = []) ds \<and> (\<forall>d \<in> set ds. length (found d) \<le> 1)"
proof (induction ds arbitrary: rest)
  case (Cons d ds)
  then show ?case by (cases "found d"; cases "tl (found d)") (auto simp: sbind_Inr_iff scalar_one_or_none_def)
qed simp

lemma not_found_idle:
  "\<forall>d \<in> set ds. length (found d) = 1 \<Longrightarrow> not_found found ds = Inr []"
proof (induction ds)
  case (Cons d ds)
  then show ?case using found_once [of "found d" MultipleResultsFound] by auto
qed simp

lemma all_active: "d \<in> set (DEMO_LISTINGS dash) \<Longrightarrow> ls_status d = ''active''"
  by (auto simp: DEMO_LISTINGS_def)

lemma different_titles: "distinct (map ls_title (DEMO_LISTINGS dash))"
  by (simp add: DEMO_LISTINGS_def)

lemma different_cities: "distinct (map fst LEBANESE_CITIES)"
  by code_simp

definition city_once :: "City list \<Rightarrow> string \<times> string \<Rightarrow> bool" where
  "city_once cs e \<longleftrightarrow> length (filter (\<lambda>c. ci_name c = fst e) cs) = 1"

definition titled :: "uuid \<Rightarrow> db \<Rightarrow> listing_seed \<Rightarrow> Listing list" where
  "titled t D d = filter (\<lambda>l. l_agency_tenant_id l = t \<and> l_title l = ls_title d \<and> l_status l = ''active'') (listings D)"

definition listing_once :: "uuid \<Rightarrow> db \<Rightarrow> listing_seed \<Rightarrow> bool" where
  "listing_once t D d \<longleftrightarrow> length (titled t D d) = 1"

lemma seed_cities_effect:
  assumes "seed_cities ids s = Inr (k, s')"
  shows "list_all (city_once (sd_cities s')) LEBANESE_CITIES" "sd_db s' = sd_db s" "sd_settings s' = (\<lambda>_. None)"
proof -
  let ?found = "\<lambda>s (name, country). filter (\<lambda>c. ci_name c = name) (sd_cities s)"
  let ?add = "\<lambda>n (name, country) s. s\<lparr>sd_cities := sd_cities s @
                 [\<lparr>ci_id = ids n, ci_name = name, ci_country = country, ci_is_active = True\<rparr>]\<rparr>"
  from assms obtain s1 where run: "seed_missing ?found ?add LEBANESE_CITIES (0, s) = Inr (k, s1)" and s': "s' = after_commit s1"
    by (auto simp: seed_cities_def sbind_Inr_iff)
  have same: "(sd_db s1, sd_settings s1) = (sd_db s, sd_settings s)"
    by (rule seed_missing_same [where same = "\<lambda>s. (sd_db s, sd_settings s)", OF _ run]) auto
  have "\<forall>e \<in> set LEBANESE_CITIES. length (?found s1 e) = 1"
    using seed_missing_once [where found = ?found and add = ?add and key = fst, OF _ _ run different_cities] by auto
  then show "list_all (city_once (sd_cities s')) LEBANESE_CITIES"
    by (auto simp: s' after_commit_def list_all_iff city_once_def split: prod.splits)
  show "sd_db s' = sd_db s" "sd_settings s' = (\<lambda>_. None)"
    using same by (simp_all add: s' after_commit_def)
qed

lemma seed_cities_again:
  assumes "list_all (city_once (sd_cities s)) LEBANESE_CITIES"
  shows "seed_cities ids s = Inr (0, after_commit s)"
proof -
  let ?found = "\<lambda>s (name, country). filter (\<lambda>c. ci_name c = name) (sd_cities s)"
  have "\<forall>e \<in> set LEBANESE_CITIES. length (?found s e) = 1"
    using assms by (auto simp: list_all_iff city_once_def)
  then show ?thesis by (simp add: seed_cities_def seed_missing_idle [where found = ?found])
qed

lemma found_listings:
  assumes "sd_settings s = (\<lambda>_. None)"
  shows "filter (\<lambda>l. l_agency_tenant_id l = t \<and> l_title l = ls_title d) (listings (visible s)) = titled t (sd_db s) d"
  by (auto simp: assms titled_def listing_policy_def tenant_policy_def for_all_policy_def intro!: filter_cong)

lemma seeded_fields [simp]:
  "l_title (seeded_listing i now t u d) = ls_title d" "l_agency_tenant_id (seeded_listing i now t u d) = t"
  "l_status (seeded_listing i now t u d) = ls_status d"
  by (simp_all add: seeded_listing_def)

lemma added_titles:
  "l \<in> set (map (\<lambda>(n, d). seeded_listing (ids n) now t u d) (List.enumerate k rest)) \<Longrightarrow> l_title l \<in> ls_title ` set rest"
  by (auto simp: enumerate_eq_zip dest: set_zip_rightD)

lemma added_others:
  assumes "ls_title d \<notin> ls_title ` set rest"
  shows "filter (\<lambda>l. l_agency_tenant_id l = t \<and> l_title l = ls_title d \<and> l_status l = ''active'')
      (map (\<lambda>(n, d). seeded_listing (ids n) now t u d) (List.enumerate k rest)) = []"
proof (rule filter_False, rule ballI)
  fix l assume "l \<in> set (map (\<lambda>(n, d). seeded_listing (ids n) now t u d) (List.enumerate k rest))"
  from added_titles [OF this] assms
  show "\<not> (l_agency_tenant_id l = t \<and> l_title l = ls_title d \<and> l_status l = ''active'')" by auto
qed

lemma added_once:
  assumes "distinct (map ls_title rest)" "d \<in> set rest" "\<forall>d \<in> set rest. ls_status d = ''active''"
  shows "length (filter (\<lambda>l. l_agency_tenant_id l = t \<and> l_title l = ls_title d \<and> l_status l = ''active'')
      (map (\<lambda>(n, d). seeded_listing (ids n) now t u d) (List.enumerate k rest))) = 1"
  using assms
proof (induction rest arbitrary: k)
  case (Cons e rest)
  show ?case
  proof (cases "d = e")
    case True
    with Cons.prems(1) have "ls_title d \<notin> ls_title ` set rest" by simp
    from added_others [OF this, where k = "Suc k"] True Cons.prems(3) show ?thesis by simp
  next
    case False
    with Cons.prems have "ls_title e \<noteq> ls_title d" by auto
    with Cons.IH [of "Suc k"] Cons.prems False show ?thesis by simp
  qed
qed simp

lemma seed_listings_effect:
  assumes "seed_listings dash ids now t u s = Inr (k, s')" "sd_settings s = (\<lambda>_. None)"
  shows "list_all (listing_once t (sd_db s')) (DEMO_LISTINGS dash)" "sd_cities s' = sd_cities s" "sd_settings s' = (\<lambda>_. None)"
    "\<exists>ls. sd_db s' = (sd_db s)\<lparr>listings := ls\<rparr>"
proof -
  let ?rest = "filter (\<lambda>d. titled t (sd_db s) d = []) (DEMO_LISTINGS dash)"
  let ?new = "map (\<lambda>(n, d). seeded_listing (ids n) now t u d) (List.enumerate 0 ?rest)"
  from assms(1) obtain rest where "not_found (titled t (sd_db s)) (DEMO_LISTINGS dash) = Inr rest"
      and s': "s' = (if rest = [] then s else after_commit (s\<lparr>sd_db := (sd_db s)\<lparr>listings := listings (sd_db s) @
        map (\<lambda>(n, d). seeded_listing (ids n) now t u d) (List.enumerate 0 rest)\<rparr>\<rparr>))"
    by (simp only: seed_listings_def found_listings [OF assms(2)] sbind_Inr_iff) (auto split: if_splits)
  note rest = not_found_rest [OF this(1)]
  have db: "sd_db s' = (sd_db s)\<lparr>listings := listings (sd_db s) @ ?new\<rparr>"
    using s' rest by (cases "?rest = []") (auto simp: after_commit_def)
  then show "\<exists>ls. sd_db s' = (sd_db s)\<lparr>listings := ls\<rparr>" by blast
  show "sd_cities s' = sd_cities s" "sd_settings s' = (\<lambda>_. None)"
    using s' assms(2) by (simp_all add: after_commit_def)
  have titles: "distinct (map ls_title ?rest)" "inj_on ls_title (set (DEMO_LISTINGS dash))"
    using different_titles [of dash] by (auto simp: distinct_map intro: inj_on_subset)
  show "list_all (listing_once t (sd_db s')) (DEMO_LISTINGS dash)"
    unfolding list_all_iff
  proof
    fix d assume d: "d \<in> set (DEMO_LISTINGS dash)"
    have split: "titled t (sd_db s') d = titled t (sd_db s) d @
        filter (\<lambda>l. l_agency_tenant_id l = t \<and> l_title l = ls_title d \<and> l_status l = ''active'') ?new"
      unfolding titled_def db by (simp del: filter_map)
    show "listing_once t (sd_db s') d"
    proof (cases "titled t (sd_db s) d = []")
      case True
      have active: "\<forall>d \<in> set ?rest. ls_status d = ''active''" by (auto intro: all_active)
      have "d \<in> set ?rest" using d True by simp
      from added_once [OF titles(1) this active] True show ?thesis by (simp only: listing_once_def split append_Nil)
    next
      case False
      then have new: "ls_title d \<notin> ls_title ` set ?rest" using d titles(2) by (auto dest: inj_onD)
      have "length (titled t (sd_db s) d) = 1" using rest d False by (auto simp: le_Suc_eq)
      then show ?thesis by (simp only: listing_once_def split added_others [OF new] append_Nil2)
    qed
  qed
qed

lemma seed_listings_again:
  assumes "list_all (listing_once t (sd_db s)) (DEMO_LISTINGS dash)" "sd_settings s = (\<lambda>_. None)"
  shows "seed_listings dash ids now t u s = Inr (0, s)"
proof -
  have "not_found (titled t (sd_db s)) (DEMO_LISTINGS dash) = Inr []"
    using not_found_idle [of "DEMO_LISTINGS dash" "titled t (sd_db s)"] assms(1) by (simp add: list_all_iff listing_once_def)
  then show ?thesis by (simp only: seed_listings_def found_listings [OF assms(2)]) simp
qed

text \<open>The logs are looked for in a transaction without settings: no row of them is seen.\<close>

lemma seed_search_logs_effect:
  assumes "sd_settings s = (\<lambda>_. None)"
  shows "\<exists>s'. seed_search_logs ids now t u s = Inr (10, s') \<and> length (search_logs (sd_db s')) = length (search_logs (sd_db s)) + 10 \<and>
    sd_settings s' = (\<lambda>_. None) \<and> sd_cities s' = sd_cities s \<and> (\<exists>ls. sd_db s' = (sd_db s)\<lparr>search_logs := ls\<rparr>)"
proof -
  have "\<exists>s'. seed_missing
      (\<lambda>s e. filter (\<lambda>r. sg_raw_query_redacted r = Some (DEMO_TAG @ '':'' @ ss_query e)) (search_logs (visible s)))
      (\<lambda>n e s. s\<lparr>sd_db := (sd_db s)\<lparr>search_logs := search_logs (sd_db s) @ [seeded_search (ids n) now t u e]\<rparr>\<rparr>)
      DEMO_SEARCH_LOGS (0, s) = Inr (0 + length DEMO_SEARCH_LOGS, s') \<and>
    length (search_logs (sd_db s')) = length (search_logs (sd_db s)) + length DEMO_SEARCH_LOGS \<and>
    (sd_cities s', (sd_db s')\<lparr>search_logs := []\<rparr>) = (sd_cities s, (sd_db s)\<lparr>search_logs := []\<rparr>) \<and> sd_settings s' = (\<lambda>_. None)"
    by (rule seed_missing_blind [where P = "\<lambda>s. sd_settings s = (\<lambda>_. None)" and m = "\<lambda>s. length (search_logs (sd_db s))"
          and same = "\<lambda>s. (sd_cities s, (sd_db s)\<lparr>search_logs := []\<rparr>)"])
      (simp_all add: assms log_policy_def insert_by_anyone_policy_def for_all_policy_def)
  moreover have "length DEMO_SEARCH_LOGS = 10" by (simp add: DEMO_SEARCH_LOGS_def)
  moreover have "\<exists>ls. D' = D\<lparr>search_logs := ls\<rparr>" if "D'\<lparr>search_logs := []\<rparr> = D\<lparr>search_logs := []\<rparr>" for D D' :: db
    by (rule exI [of _ "search_logs D'"]) (use that in \<open>cases D; cases D'; simp\<close>)
  ultimately show ?thesis by (auto simp: seed_search_logs_def after_commit_def)
qed

lemma seed_audit_logs_effect:
  assumes "sd_settings s = (\<lambda>_. None)"
  shows "\<exists>s'. seed_audit_logs ids now u s = Inr (4, s') \<and> length (audit_logs (sd_db s')) = length (audit_logs (sd_db s)) + 4 \<and>
    sd_cities s' = sd_cities s \<and> (\<exists>ls. sd_db s' = (sd_db s)\<lparr>audit_logs := ls\<rparr>)"
proof -
  have "\<exists>s'. seed_missing
      (\<lambda>s (index, e). filter (\<lambda>r. al_request_id r = Some (as_request_id e)) (audit_logs (visible s)))
      (\<lambda>n (index, e) s. s\<lparr>sd_db := (sd_db s)\<lparr>audit_logs := audit_logs (sd_db s) @ [seeded_audit (ids n) now u index e]\<rparr>\<rparr>)
      (List.enumerate 1 DEMO_AUDIT_LOGS) (0, s) = Inr (0 + length (List.enumerate 1 DEMO_AUDIT_LOGS), s') \<and>
    length (audit_logs (sd_db s')) = length (audit_logs (sd_db s)) + length (List.enumerate 1 DEMO_AUDIT_LOGS) \<and>
    (sd_cities s', (sd_db s')\<lparr>audit_logs := []\<rparr>) = (sd_cities s, (sd_db s)\<lparr>audit_logs := []\<rparr>) \<and> sd_settings s' = (\<lambda>_. None)"
    by (rule seed_missing_blind [where P = "\<lambda>s. sd_settings s = (\<lambda>_. None)" and m = "\<lambda>s. length (audit_logs (sd_db s))"
          and same = "\<lambda>s. (sd_cities s, (sd_db s)\<lparr>audit_logs := []\<rparr>)"])
      (auto simp: assms log_policy_def insert_by_anyone_policy_def for_all_policy_def)
  moreover have "length (List.enumerate 1 DEMO_AUDIT_LOGS) = 4" by (simp add: DEMO_AUDIT_LOGS_def)
  moreover have "\<exists>ls. D' = D\<lparr>audit_logs := ls\<rparr>" if "D'\<lparr>audit_logs := []\<rparr> = D\<lparr>audit_logs := []\<rparr>" for D D' :: db
    by (rule exI [of _ "audit_logs D'"]) (use that in \<open>cases D; cases D'; simp\<close>)
  ultimately show ?thesis by (auto simp: seed_audit_logs_def after_commit_def)
qed

text \<open>The tenant and the user that a run chooses do not depend on what the script itself adds.\<close>

definition first_active :: "db \<Rightarrow> uuid option \<times> uuid option" where
  "first_active D = (map_option at_id (find (\<lambda>t. at_status t = ''active'') (agency_tenants D)),
                     map_option u_id (find (\<lambda>u. u_status u = ''active'') (users D)))"

lemma first_active_simps [simp]:
  "first_active (D\<lparr>listings := ls\<rparr>) = first_active D" "first_active (D\<lparr>search_logs := gs\<rparr>) = first_active D"
  "first_active (D\<lparr>audit_logs := as\<rparr>) = first_active D"
  by (simp_all add: first_active_def)

lemma listing_once_simps [simp]:
  "listing_once t (D\<lparr>search_logs := gs\<rparr>) = listing_once t D" "listing_once t (D\<lparr>audit_logs := as\<rparr>) = listing_once t D"
  by (simp_all add: listing_once_def titled_def fun_eq_iff)

lemma chosen_is_first_active: "(get_demo_agency_tenant_id s, get_any_user_id s) = first_active (sd_db s)"
  by (simp add: get_demo_agency_tenant_id_def get_any_user_id_def first_active_def)

text \<open>From the third step on nothing can fail, and only the two logs grow.\<close>

definition seed_logs :: "ctx_env \<Rightarrow> uuid \<Rightarrow> uuid \<Rightarrow> nat \<Rightarrow> nat \<Rightarrow> seed_state \<Rightarrow> py_exc + seed_report option \<times> City list \<times> db" where
  "seed_logs E t u c k s2 =
     sbind (seed_search_logs (\<lambda>n. fresh E (4 * n + 2)) (now_at E) t u s2) (\<lambda>(searches, s3).
     sbind (seed_audit_logs (\<lambda>n. fresh E (4 * n + 3)) (now_at E) u s3) (\<lambda>(audits, s4).
       Inr (Some \<lparr>sr_cities = c, sr_listings = k, sr_searches = searches, sr_audits = audits\<rparr>, sd_cities s4, sd_db s4)))"

lemma seed_logs_effect:
  assumes "sd_settings s = (\<lambda>_. None)"
  shows "\<exists>gs as. seed_logs E t u c k s =
      Inr (Some \<lparr>sr_cities = c, sr_listings = k, sr_searches = 10, sr_audits = 4\<rparr>, sd_cities s,
           (sd_db s)\<lparr>search_logs := gs, audit_logs := as\<rparr>) \<and>
    length gs = length (search_logs (sd_db s)) + 10 \<and> length as = length (audit_logs (sd_db s)) + 4"
proof -
  from seed_search_logs_effect [OF assms] obtain s3 gs where 3:
    "seed_search_logs (\<lambda>n. fresh E (4 * n + 2)) (now_at E) t u s = Inr (10, s3)" "sd_settings s3 = (\<lambda>_. None)"
    "length (search_logs (sd_db s3)) = length (search_logs (sd_db s)) + 10" "sd_cities s3 = sd_cities s"
    "sd_db s3 = (sd_db s)\<lparr>search_logs := gs\<rparr>" by blast
  from seed_audit_logs_effect [OF 3(2)] obtain s4 as where 4:
    "seed_audit_logs (\<lambda>n. fresh E (4 * n + 3)) (now_at E) u s3 = Inr (4, s4)"
    "length (audit_logs (sd_db s4)) = length (audit_logs (sd_db s3)) + 4" "sd_cities s4 = sd_cities s3"
    "sd_db s4 = (sd_db s3)\<lparr>audit_logs := as\<rparr>" by blast
  show ?thesis
    by (rule exI [of _ gs], rule exI [of _ as]) (use 3 4 in \<open>simp add: seed_logs_def\<close>)
qed

definition seed_start :: "City list \<times> db \<Rightarrow> seed_state" where
  "seed_start w = \<lparr>sd_settings = apply_rls_context_to_session None None (Some ''platform_admin'') True (\<lambda>_. None),
                   sd_cities = fst w, sd_db = snd w\<rparr>"

lemma seed_start_simps [simp]: "sd_cities (seed_start w) = fst w" "sd_db (seed_start w) = snd w"
  by (simp_all add: seed_start_def)

lemma seed_demo_logs:
  assumes "seed_cities (\<lambda>n. fresh E (4 * n)) (seed_start w) = Inr (c, s1)" "first_active (snd w) = (Some t, Some u)"
  shows "seed_demo dash E w = sbind (seed_listings dash (\<lambda>n. fresh E (4 * n + 1)) (now_at E) t u s1) (\<lambda>(k, s2). seed_logs E t u c k s2)"
proof -
  have "(get_demo_agency_tenant_id s1, get_any_user_id s1) = (Some t, Some u)"
    using seed_cities_effect(2) [OF assms(1)] assms(2) by (simp add: chosen_is_first_active)
  then show ?thesis
    using assms(1) by (simp add: seed_demo_def Let_def seed_start_def seed_logs_def [abs_def])
qed

lemma seed_demo_starts:
  assumes "seed_demo dash E w = Inr (Some r, w1)"
  obtains c s1 t u where "seed_cities (\<lambda>n. fresh E (4 * n)) (seed_start w) = Inr (c, s1)" "first_active (snd w) = (Some t, Some u)"
proof -
  from assms obtain c s1 where cities: "seed_cities (\<lambda>n. fresh E (4 * n)) (seed_start w) = Inr (c, s1)"
    by (auto simp: seed_demo_def Let_def sbind_Inr_iff seed_start_def)
  then have "get_demo_agency_tenant_id s1 \<noteq> None \<and> get_any_user_id s1 \<noteq> None"
    using assms by (auto simp: seed_demo_def Let_def sbind_Inr_iff seed_start_def split: option.splits)
  then obtain t u where "(get_demo_agency_tenant_id s1, get_any_user_id s1) = (Some t, Some u)" by auto
  then have "first_active (snd w) = (Some t, Some u)"
    using seed_cities_effect(2) [OF cities] by (simp add: chosen_is_first_active)
  with cities show thesis using that by blast
qed

text \<open>
  The script says that running it again is safe. It is for the cities and the listings, which are found;
  the ten demand logs and the four audit logs are added again at every run, because the settings that make
  them visible ended with the first commit: the insights count the same demand once more each time.
\<close>

theorem seeding_again_repeats_demand:
  assumes "seed_demo dash E w = Inr (Some r, w1)"
  shows "\<exists>gs as. seed_demo dash E' w1 =
      Inr (Some \<lparr>sr_cities = 0, sr_listings = 0, sr_searches = 10, sr_audits = 4\<rparr>,
           fst w1, (snd w1)\<lparr>search_logs := gs, audit_logs := as\<rparr>) \<and>
    length gs = length (search_logs (snd w1)) + 10 \<and> length as = length (audit_logs (snd w1)) + 4"
proof -
  from seed_demo_starts [OF assms] obtain c s1 t u where
    1: "seed_cities (\<lambda>n. fresh E (4 * n)) (seed_start w) = Inr (c, s1)" and chosen: "first_active (snd w) = (Some t, Some u)" .
  from assms obtain k s2 where 2: "seed_listings dash (\<lambda>n. fresh E (4 * n + 1)) (now_at E) t u s1 = Inr (k, s2)"
    and logs: "seed_logs E t u c k s2 = Inr (Some r, w1)"
    by (auto simp: seed_demo_logs [OF 1 chosen] sbind_Inr_iff)
  note e1 = seed_cities_effect [OF 1]
  note e2 = seed_listings_effect [OF 2 e1(3)]
  from seed_logs_effect [OF e2(3), of E t u c k] logs obtain gs as where
    w1: "w1 = (sd_cities s1, (sd_db s2)\<lparr>search_logs := gs, audit_logs := as\<rparr>)" using e2(2) by auto
  let ?s1 = "\<lparr>sd_settings = (\<lambda>_. None), sd_cities = fst w1, sd_db = snd w1\<rparr>"
  have chosen': "first_active (snd w1) = (Some t, Some u)"
    using e2(4) e1(2) chosen by (auto simp: w1)
  have "seed_cities (\<lambda>n. fresh E' (4 * n)) (seed_start w1) = Inr (0, ?s1)"
    using e1(1) by (simp add: seed_cities_again w1) (simp add: seed_start_def after_commit_def)
  moreover have "seed_listings dash (\<lambda>n. fresh E' (4 * n + 1)) (now_at E') t u ?s1 = Inr (0, ?s1)"
    by (rule seed_listings_again) (use e2(1) in \<open>simp_all add: w1\<close>)
  ultimately have "seed_demo dash E' w1 = seed_logs E' t u 0 0 ?s1"
    by (simp add: seed_demo_logs [OF _ chosen'])
  with seed_logs_effect [of ?s1 E' t u 0 0] show ?thesis by simp
qed

definition bare_marketplace :: "City list \<times> db" where
  "bare_marketplace = ([], empty_db\<lparr>users := [demo_user ''u1''], agency_tenants :=
     [\<lparr>at_id = ''t1'', at_name = ''Agency'', at_slug = ''agency'', at_status = ''active'', at_created_at = 5,
       at_updated_at = 5, at_deleted_at = None\<rparr>]\<rparr>)"

lemma first_run: "\<exists>r w1. seed_demo dash demo_env bare_marketplace = Inr (Some r, w1)"
proof -
  have "case_sum (\<lambda>_. False) (\<lambda>_. True) (seed_cities (\<lambda>n. fresh demo_env (4 * n)) (seed_start bare_marketplace))" by code_simp
  then obtain c s1 where 1: "seed_cities (\<lambda>n. fresh demo_env (4 * n)) (seed_start bare_marketplace) = Inr (c, s1)"
    by (auto split: sum.splits)
  have chosen: "first_active (snd bare_marketplace) = (Some ''t1'', Some ''u1'')" by code_simp
  have none: "not_found f ds = Inr ds" if "\<And>d. f d = []" for f :: "listing_seed \<Rightarrow> Listing list" and ds
    by (induction ds) (simp_all add: that scalar_one_or_none_def)
  have "listings (sd_db s1) = []"
    using seed_cities_effect(2) [OF 1] by (simp add: bare_marketplace_def empty_db_def)
  then have "\<exists>k s2. seed_listings dash (\<lambda>n. fresh demo_env (4 * n + 1)) (now_at demo_env) ''t1'' ''u1'' s1 = Inr (k, s2)"
    by (simp add: seed_listings_def none)
  then obtain k s2 where 2: "seed_listings dash (\<lambda>n. fresh demo_env (4 * n + 1)) (now_at demo_env) ''t1'' ''u1'' s1 = Inr (k, s2)" by blast
  from seed_logs_effect [OF seed_listings_effect(3) [OF 2 seed_cities_effect(3) [OF 1]], of demo_env "''t1''" "''u1''" c k]
  show ?thesis by (auto simp: seed_demo_logs [OF 1 chosen] 2 simp del: One_nat_def)
qed

lemma seeding_again_repeats_demand_witness:
  "\<exists>r w1 w2. seed_demo ''-'' demo_env bare_marketplace = Inr (Some r, w1) \<and>
     seed_demo ''-'' demo_env w1 = Inr (Some \<lparr>sr_cities = 0, sr_listings = 0, sr_searches = 10, sr_audits = 4\<rparr>, w2) \<and>
     length (search_logs (snd w2)) = length (search_logs (snd w1)) + 10"
proof -
  from first_run obtain r w1 where run: "seed_demo ''-'' demo_env bare_marketplace = Inr (Some r, w1)" by blast
  from seeding_again_repeats_demand [OF run, of demo_env] run show ?thesis by fastforce
qed

end
