(* ===== verification/Spec2Isabelle.thy ===== *)
theory Spec2Isabelle
  imports LimiterProps ListingSearch Saved LeadProps ViewingProps RlsProps AuthProps WorkerProps Notifications
    RagProps GuardProps RagChatProps AgencyAIProps AssistantProps SearchProps DashProps EvalProps ModelProps
    RepairProps PhotoRepair ConsoleProps ProviderProps VaultSeed HttpApp SeedDemo
begin

text \<open>
  A verification development for AkarAI, a real-estate platform: a FastAPI backend
  (\<open>src/backend/app\<close>) over PostgreSQL, Redis and an object store, a worker
  (\<open>src/workers\<close>) that processes the events the backend writes to its outbox table, a model
  service (\<open>src/model-service\<close>) that classifies leads and reports to the backend, and a console for
  the platform's administrators (\<open>src/admin\<close>).

  \<^bold>\<open>How the parts interact.\<close> A request gets a database session, a tenant context resolved from
  its access token, and the settings of row level security. A service of the route's package
  (\<open>listings\<close>, \<open>leads\<close>, \<open>viewings\<close>, \<open>agencies\<close>, \<open>notifications\<close>, \<open>rag\<close>, \<open>ai\<close>, \<open>search\<close>, \<open>admin\<close>) checks role and
  tenant, changes rows through a repository, writes an event to the outbox and to the event log in
  the same transaction, and clears cached answers in Redis. The worker claims outbox events and
  calls a handler: lead classification over the model service, moderation of listing images,
  ingestion of policy documents, reading of specification sheets. The model service's callbacks come
  back to a route of the backend. Three scripts mend leads and photos that got stuck on this way. Before
  all of it Vault is seeded from the \<open>.env\<close> file, and every process loads its secrets from there.

  \<^bold>\<open>Translation.\<close> A table is a list of records in insertion order, named as the SQLAlchemy class
  with its columns as fields; the database (\<open>db\<close>, \<open>auth_db\<close>, \<open>'v rag_db\<close>) is a record of tables,
  Redis a map from keys to values with an expiry time, the object store a map from keys to bytes.
  An operation takes the environment (\<open>ctx_env\<close>: the clock, the fresh identifiers, the request),
  the caller's context and the state, and returns an exception or a result (\<open>py_exc + 'a\<close>) with the
  new state. A transaction that raises returns the state it began with, as
  \<open>common/dependencies.py\<close> rolls back; effects outside the database stay. Times are integers in
  microseconds, identifiers and texts are character lists, JSON is the datatype \<open>json\<close>, decimals are
  rationals. Characters are Latin-1; the two characters outside it that the code writes (the ellipsis
  and the dash) are parameters. ORM flushes set \<open>updated_at\<close> only when a column changed
  (\<open>listing_flush\<close>, \<open>slot_flush\<close>, ...).
\<close>

text \<open>
  \<^bold>\<open>Theories and code.\<close>
  \<^item> \<open>Prelude\<close>: the shared list, option and text lemmas, Python's \<open>strip\<close>, \<open>lower\<close>, \<open>int\<close> and the
    orders used by \<open>ORDER BY\<close>.
  \<^item> \<open>Common\<close>: \<open>app/common\<close> (exceptions and their HTTP statuses, tenant context, status vocabularies,
    pagination, unit of work, Redis, cache). \<open>RateLimit\<close>, \<open>LimiterProps\<close>: \<open>common/rate_limit.py\<close>.
    \<open>Media\<close>: \<open>common/media.py\<close>, \<open>common/media_moderation.py\<close>.
  \<^item> \<open>Models\<close>: the tables, the outbox, the event log and the audit log (\<open>common/events.py\<close>,
    \<open>app/audit\<close>). \<open>Demo\<close>: rows that the witnesses use.
  \<^item> \<open>Listings\<close>, \<open>Photos\<close>, \<open>ListingSearch\<close>, \<open>Saved\<close>: \<open>app/listings\<close> with its public routes, saved
    listings and comparisons. \<open>Users\<close>: \<open>app/users\<close>.
  \<^item> \<open>Leads\<close>, \<open>LeadProps\<close>: \<open>app/leads\<close>. \<open>Viewings\<close>, \<open>ViewingProps\<close>: \<open>app/viewings\<close>, where a booking
    is two steps, the check before the row lock and the work under it.
  \<^item> \<open>Rls\<close>, \<open>RlsProps\<close>: \<open>common/rls.py\<close> and the policies of migrations 0005, 0009 and 0014.
  \<^item> \<open>Auth\<close>, \<open>AuthRoutes\<close>, \<open>AuthProps\<close>: \<open>app/auth\<close> and \<open>common/security.py\<close> in a state and exception
    monad over database and Redis. \<open>Agencies\<close>: \<open>app/agencies\<close>. \<open>Notifications\<close>: \<open>app/notifications\<close>.
  \<^item> \<open>Worker\<close>, \<open>WorkerProps\<close>: \<open>src/workers/main.py\<close>, \<open>outbox.py\<close>, \<open>handlers/leads.py\<close>,
    \<open>handlers/lead_processing_client.py\<close>, \<open>handlers/listing_media.py\<close>.
  \<^item> \<open>Rag\<close>: the document tables, repository and service of \<open>app/rag\<close>. \<open>RagWorker\<close>, \<open>RagProps\<close>:
    \<open>handlers/rag.py\<close>. \<open>Retrieval\<close>, \<open>RagChat\<close>, \<open>RagChatProps\<close>: retrieval, answers, chat threads and
    assistant tools of \<open>rag/service.py\<close> and \<open>rag/retrieval.py\<close>.
  \<^item> \<open>Regex\<close>: the part of Python's \<open>re\<close> that the code uses, as an executable matcher.
    \<open>Guardrails\<close>, \<open>GuardProps\<close>: \<open>ai/guardrails.py\<close> and the verdicts of \<open>ai/openrouter.py\<close>.
    \<open>Providers\<close>, \<open>ProviderProps\<close>: the rest of \<open>ai/openrouter.py\<close>, \<open>ai/azure_openai.py\<close>, \<open>ai/registry.py\<close>.
    \<open>Redaction\<close>: \<open>rag/redaction.py\<close>, \<open>ai/pii_redaction.py\<close>.
  \<^item> \<open>Ocr\<close>: \<open>ai/ocr.py\<close>. \<open>AgencyAI\<close>, \<open>AgencyAIProps\<close>: the jobs, drafts, replies, comparison summaries
    and specification sheets of \<open>ai/service.py\<close>, \<open>ai/jobs.py\<close>, \<open>ai/repository.py\<close> and
    \<open>handlers/agency_ai.py\<close>. \<open>Assistant\<close>, \<open>AssistantProps\<close>: \<open>ai/listing_user_assistant.py\<close>.
  \<^item> \<open>Search\<close>, \<open>SearchProps\<close>: \<open>app/search\<close>. \<open>AuditView\<close>, \<open>Dashboard\<close>, \<open>DashProps\<close>: \<open>app/admin\<close>,
    \<open>audit/feature_mapping.py\<close> and \<open>app/cities\<close>. \<open>Evals\<close>, \<open>EvalProps\<close>: \<open>rag/evals.py\<close>, the stored
    runs and their views in \<open>admin/service.py\<close>. \<open>Analytics\<close>: \<open>app/analytics\<close>.
  \<^item> \<open>ModelService\<close>, \<open>ModelProps\<close>: \<open>src/model-service/app\<close>. \<open>Repair\<close>, \<open>RepairProps\<close>: the scripts
    \<open>backfill_legacy_lead_processing.py\<close> and \<open>repair_stuck_lead_processing.py\<close>, with \<open>DryRun\<close>, the contract
    of a script that can be run dry. \<open>PhotoRepair\<close>: \<open>repair_uploaded_listing_photos.py\<close> and the image
    worker under the row policies.
  \<^item> \<open>AppConfig\<close>: the validators, effective values and secrets of \<open>common/config.py\<close>. \<open>VaultSeed\<close>:
    \<open>src/vault/seed.py\<close>. \<open>SeedDemo\<close>: \<open>scripts/seed_demo.py\<close> under row level
    security. \<open>HttpApp\<close>: the answer to invalid requests (\<open>main.py\<close>), \<open>common/health.py\<close> and the
    start in \<open>common/lifespan.py\<close>.
  \<^item> \<open>Console\<close>, \<open>ConsoleProps\<close>: \<open>api_client.py\<close>, \<open>auth.py\<close> and the gate and login of \<open>components.py\<close> and
    \<open>app.py\<close> in \<open>src/admin\<close>.
\<close>

text \<open>
  \<^bold>\<open>What the lemmas show.\<close>
  \<^item> Concurrency and composition: bookings and slot edits interleave without overbooking when the
    locked read is fresh (and a run that overbooks when it is not); agency operations in any order
    keep other tenants' rows and pass row level security; catalog operations keep cached details
    current; the outbox stays well formed while publishers and workers alternate.
  \<^item> State machines: leads, viewings with their history, chat threads with their numbering, refresh
    tokens along every sequence of authentication requests, outbox events and their attempts.
  \<^item> Search: following a cursor enumerates the result of the query; public media show derivatives only.
  \<^item> Documents: an ingestion ends in a complete index or leaves nothing; answers cite the tenant's
    own processed documents; texts that were not blocked were vetted.
  \<^item> Agency AI: jobs only move forward through their states, answered drafts settle their job, and the
    runs that leave one in processing. The assistant proposes only what its tools prepared.
  \<^item> Reporting: the trend counts every search once, insights are fresh after a search, the audit viewer
    discloses allowed entries only, an evaluation that passes its gate has leaked nothing.
  \<^item> Leads end to end: with the model service's code behind the worker an accepted inquiry is settled;
    migration and repair leave no lead behind, and the dry run of either foretells it. The photo repair
    queues each stuck photo once.
  \<^item> Operation: a seeded Vault starts the application with the secrets of the file; production has no
    wildcard origin; the console admits whom the backend admits and shows nothing without a login; a
    text recognition looks at thirty answers at most.
  \<^item> Errors: the defects that the model shows, each with a concrete run (named in the manifest).

  \<^bold>\<open>Interfaces.\<close> Contracts between components are locales, each interpreted on the definitions of
  the code: \<open>ttl_store\<close> (keys with an expiry time, what the rate limiter asks of Redis),
  \<open>mark_register\<close> (marks that expire, for the token blacklist and the logout times), \<open>owned_table\<close>
  (a table whose policy accepts the rows of the session's owner, for the tenant tables, listings,
  photos and slots), \<open>outbox_worker\<close> (what the loop asks of the event handlers), \<open>dry_runnable\<close> (a step
  that a dry step foretells and that leaves the items to come alone, for the lead repair and the
  migration).

  \<^bold>\<open>Bounds and fuel.\<close> \<open>many_ends\<close> of the matcher runs with the length of the remaining text, which is
  enough because each round of a repetition that goes on consumes a character. \<open>sanitize_payload\<close>
  has depth eleven, as the code cuts deeper values. A run of the worker is any number of polls; the
  bound on productive polls is proved, so no fuel limits it. \<open>wait_for_vault\<close> is allowed a number of
  looks and answers \<open>None\<close> when they were too few; thirty-one are enough for its minute, because two
  seconds pass between them (\<open>thirty_one_looks\<close>). All other recursions are structural or
  have a termination proof.

  \<^bold>\<open>Parameters.\<close> Password hashing and JWT encoding (\<open>jwt_ok\<close>: a decoded token is the one encoded),
  random jitter (\<open>draws_within\<close>), PDF parsing, the chunker, hashes, embeddings (as many vectors as
  texts), vector distance, reranking, chat completion and content safety, the trained models and the
  delivery of their callbacks (\<open>accepts_all\<close>: the backend is reached), image decoding, the text of a
  scanned sheet, the LangGraph agent (\<open>runs_tools\<close>: what it reports are results of the given tools),
  the JSON reader and writer, the reading and rounding of floats (\<open>rounds_ok\<close>), the bucket edges a float
  \<open>timedelta\<close> gives (\<open>edges_ok\<close>), the judge of the evaluation, what Vault answers, the console's HTTP transport and its cookie component
  (\<open>reads_back\<close>: written JSON is read back), and the order in which a Python set is
  iterated (a permutation). Nothing else is assumed.

  \<^bold>\<open>Not modelled.\<close> HTTP parsing and field-length bounds of request schemas, connection pools,
  signals and sleeping, logging, the placeholder of the e-mail provider, image rendering, the
  third-party clients behind the providers, the loading of trained models, the fixture tenants and the
  judge's model building of the evaluation, the widgets and pages of the Streamlit console, the
  migrations that only create tables, the clean-up of the document store,
  routers that only call a service, and the training notebooks.
\<close>

end
